(* ===== verification/Prelude.thy ===== *)
theory Prelude
  imports Complex_Main "HOL-Library.List_Lexorder" "HOL-Library.Char_ord"
    "HOL-Library.Product_Lexorder" "HOL-Library.Sublist"
begin

text \<open>
  Shared vocabulary of the development: the names of the model's basic types, results of
  fallible operations, Python dictionaries built by comprehension over a catalog, and the
  generic lemmas on lists that the component theories use.

  A Python \<open>str\<close> is a \<open>string\<close> whose characters stand for the code points 0 to 255, a UUID and a
  hexadecimal digest are strings, and an aware \<open>datetime\<close> is the \<open>int\<close> number of microseconds
  since the Unix epoch, the instant Python compares aware datetimes by.
  A function that can raise returns \<open>'e + 'a\<close>, the exception on the left.
\<close>

named_theorems otsoc_defs \<open>definitions of small helpers that proofs unfold together\<close>
named_theorems result_split \<open>inversion of results of fallible operations\<close>

type_synonym uuid = string
type_synonym digest = string
type_synonym timestamp = int

definition microseconds_per_second :: int where
  "microseconds_per_second = 1000000"

section \<open>Results of fallible operations\<close>

definition rbind :: "'e + 'a \<Rightarrow> ('a \<Rightarrow> 'e + 'b) \<Rightarrow> 'e + 'b" where
  "rbind m f = (case m of Inl e \<Rightarrow> Inl e | Inr x \<Rightarrow> f x)"

lemma rbind_simps [simp]:
  "rbind (Inl e) f = Inl e"
  "rbind (Inr x) f = f x"
  by (simp_all add: rbind_def)

lemma rbind_eq_Inr [result_split]:
  "rbind m f = Inr y \<longleftrightarrow> (\<exists>x. m = Inr x \<and> f x = Inr y)"
  by (cases m) simp_all

lemma rbind_eq_Inl [result_split]:
  "rbind m f = Inl e \<longleftrightarrow> m = Inl e \<or> (\<exists>x. m = Inr x \<and> f x = Inl e)"
  by (cases m) simp_all

lemma rbind_InrE:
  assumes "rbind m f = Inr y"
  obtains x where "m = Inr x" "f x = Inr y"
  using assms by (cases m) simp_all

lemma rbind_cong [fundef_cong]:
  "m = m' \<Longrightarrow> (\<And>x. m' = Inr x \<Longrightarrow> f x = f' x) \<Longrightarrow> rbind m f = rbind m' f'"
  by (cases m') simp_all

text \<open>Totality of a cascade is shown by following its structure.\<close>

lemma returns_if:
  "(P \<Longrightarrow> \<exists>e. a = Inr e) \<Longrightarrow> (\<not> P \<Longrightarrow> \<exists>e. b = Inr e) \<Longrightarrow> \<exists>e. (if P then a else b) = Inr e"
  by simp

lemma returns_option:
  "(x = None \<Longrightarrow> \<exists>e. a = Inr e) \<Longrightarrow> (\<And>y. x = Some y \<Longrightarrow> \<exists>e. f y = Inr e) \<Longrightarrow>
   \<exists>e. (case x of None \<Rightarrow> a | Some y \<Rightarrow> f y) = Inr e"
  by (cases x) simp_all

text \<open>A postcondition of a result: it holds of the value when there is one.\<close>

definition ensures :: "'e + 'a \<Rightarrow> ('a \<Rightarrow> bool) \<Rightarrow> bool" where
  "ensures m Q = (\<forall>r. m = Inr r \<longrightarrow> Q r)"

lemma ensuresD: "ensures m Q \<Longrightarrow> m = Inr r \<Longrightarrow> Q r"
  by (simp add: ensures_def)

lemma ensures_Inr: "Q r \<Longrightarrow> ensures (Inr r) Q"
  by (simp add: ensures_def)

lemma ensures_Inl: "ensures (Inl e) Q"
  by (simp add: ensures_def)

lemma ensures_if:
  "(P \<Longrightarrow> ensures a Q) \<Longrightarrow> (\<not> P \<Longrightarrow> ensures b Q) \<Longrightarrow> ensures (if P then a else b) Q"
  by simp

lemma ensures_option:
  "(x = None \<Longrightarrow> ensures a Q) \<Longrightarrow> (\<And>y. x = Some y \<Longrightarrow> ensures (f y) Q) \<Longrightarrow>
   ensures (case x of None \<Rightarrow> a | Some y \<Rightarrow> f y) Q"
  by (cases x) simp_all

lemma ensures_rbind:
  "(\<And>x. m = Inr x \<Longrightarrow> ensures (f x) Q) \<Longrightarrow> ensures (rbind m f) Q"
  by (cases m) (simp_all add: ensures_def)

lemmas ensures_intros = ensures_if ensures_option ensures_rbind ensures_Inl

text \<open>A raising check: nothing when the condition holds, the exception otherwise.\<close>

definition require :: "bool \<Rightarrow> 'e \<Rightarrow> 'e + unit" where
  "require c e = (if c then Inr () else Inl e)"

lemma require_eq [result_split]:
  "require c e = Inr u \<longleftrightarrow> c"
  "require c e = Inl e' \<longleftrightarrow> \<not> c \<and> e' = e"
  by (auto simp: require_def)

lemma require_simps [simp]:
  "require True e = Inr ()"
  "require False e = Inl e"
  by (simp_all add: require_def)

text \<open>The exception of a callee as an exception of the caller.\<close>

definition raising :: "('e \<Rightarrow> 'f) \<Rightarrow> 'e + 'a \<Rightarrow> 'f + 'a" where
  "raising f m = (case m of Inl e \<Rightarrow> Inl (f e) | Inr v \<Rightarrow> Inr v)"

lemma raising_Inr [simp]: "raising f m = Inr v \<longleftrightarrow> m = Inr v"
  by (cases m) (simp_all add: raising_def)

text \<open>A loop over a list whose body only raises or goes on.\<close>

fun for_each :: "('a \<Rightarrow> 'e + unit) \<Rightarrow> 'a list \<Rightarrow> 'e + unit" where
  "for_each f [] = Inr ()"
| "for_each f (x # xs) = rbind (f x) (\<lambda>_. for_each f xs)"

lemma for_each_ok [result_split]:
  "for_each f xs = Inr u \<longleftrightarrow> (\<forall>x \<in> set xs. f x = Inr ())"
  by (induction xs) (auto simp: rbind_eq_Inr)

text \<open>A comprehension whose element expression can raise.\<close>

fun map_result :: "('a \<Rightarrow> 'e + 'b) \<Rightarrow> 'a list \<Rightarrow> 'e + 'b list" where
  "map_result f [] = Inr []"
| "map_result f (x # xs) = rbind (f x) (\<lambda>y. rbind (map_result f xs) (\<lambda>ys. Inr (y # ys)))"

lemma map_result_ok:
  "map_result f xs = Inr ys \<longleftrightarrow> list_all2 (\<lambda>x y. f x = Inr y) xs ys"
  by (induction xs arbitrary: ys) (auto simp: rbind_eq_Inr list_all2_Cons1)

section \<open>Dictionaries built by comprehension\<close>

text \<open>
  \<open>{key(x): x for x in items}\<close>: a later item replaces an earlier one under the same key.
\<close>

definition dict_of :: "('a \<Rightarrow> 'k) \<Rightarrow> 'a list \<Rightarrow> 'k \<Rightarrow> 'a option" where
  "dict_of key items k = find (\<lambda>x. key x = k) (rev items)"

lemma find_eq_Some_iff: "find P xs = Some x \<Longrightarrow> x \<in> set xs \<and> P x"
  by (induction xs) (auto split: if_splits)

lemma find_eq_None_iff: "find P xs = None \<longleftrightarrow> (\<forall>x \<in> set xs. \<not> P x)"
  by (induction xs) auto

lemma dict_of_SomeD: "dict_of key items k = Some x \<Longrightarrow> x \<in> set items \<and> key x = k"
  by (auto simp: dict_of_def dest: find_eq_Some_iff)

lemma dict_of_None: "dict_of key items k = None \<longleftrightarrow> k \<notin> key ` set items"
  by (auto simp: dict_of_def find_eq_None_iff)

text \<open>
  A catalog is a list whose keys are distinct, which the profile validators of the code check.
  Lookup in it is then the unique item with the key, and finds every item.
\<close>

locale keyed_catalog =
  fixes key :: "'a \<Rightarrow> 'k" and items :: "'a list"
  assumes distinct_keys: "distinct (map key items)"
begin

lemma lookup_iff: "dict_of key items k = Some x \<longleftrightarrow> x \<in> set items \<and> key x = k"
proof
  assume "dict_of key items k = Some x"
  then show "x \<in> set items \<and> key x = k" by (rule dict_of_SomeD)
next
  assume x: "x \<in> set items \<and> key x = k"
  then have "dict_of key items k \<noteq> None" by (auto simp: dict_of_None)
  then obtain y where y: "dict_of key items k = Some y" by blast
  then have "y \<in> set items" "key y = key x"
    using x by (auto dest: dict_of_SomeD)
  with x distinct_keys have "y = x"
    by (auto simp: distinct_map inj_on_def)
  with y show "dict_of key items k = Some x" by simp
qed

lemma lookup_self: "x \<in> set items \<Longrightarrow> dict_of key items (key x) = Some x"
  by (simp add: lookup_iff)

lemma lookup_inj:
  "dict_of key items k = Some x \<Longrightarrow> dict_of key items k' = Some x \<Longrightarrow> k = k'"
  by (auto simp: lookup_iff)

end

section \<open>Lists\<close>

lemma find_append_None: "find P xs = None \<Longrightarrow> find P (xs @ ys) = find P ys"
  by (induction xs) (auto split: if_splits)

lemma find_dropWhile: "find P xs = Some x \<Longrightarrow> hd (dropWhile (\<lambda>y. \<not> P y) xs) = x"
  by (induction xs) (auto split: if_splits)

lemma set_subset_singleton_iff:
  "(\<forall>x \<in> set xs. x = a) \<longleftrightarrow> set xs \<subseteq> {a}"
  by auto

end
