(* ===== verification/Py_Std.thy ===== *)
theory Py_Std
  imports Prelude
begin

text \<open>
  The parts of Python and its standard library that the source uses on values the theorems
  speak of: \<open>str\<close> methods (\<open>split\<close>, \<open>strip\<close>, \<open>lower\<close>), decimal rendering of integers, and
  \<open>decimal.Decimal\<close> with the default context (28 significant digits, round half even).
\<close>

section \<open>Strings\<close>

text \<open>The characters below 256 that \<open>str.split()\<close> and \<open>str.strip()\<close> treat as white space.\<close>

definition py_space :: "char \<Rightarrow> bool" where
  "py_space c = (let n = of_char c :: nat in
     (9 \<le> n \<and> n \<le> 13) \<or> (28 \<le> n \<and> n \<le> 32) \<or> n = 133 \<or> n = 160)"

definition py_lower_char :: "char \<Rightarrow> char" where
  "py_lower_char c = (let n = of_char c :: nat in
     if (65 \<le> n \<and> n \<le> 90) \<or> (192 \<le> n \<and> n \<le> 222 \<and> n \<noteq> 215) then char_of (n + 32) else c)"

definition py_lower :: "string \<Rightarrow> string" where
  "py_lower s = map py_lower_char s"

definition py_digit :: "char \<Rightarrow> bool" where
  "py_digit c = (let n = of_char c :: nat in 48 \<le> n \<and> n \<le> 57)"

text \<open>The classes of characters by their bits, for evaluation.\<close>

definition letter_bits :: "bool \<Rightarrow> bool \<Rightarrow> bool \<Rightarrow> bool \<Rightarrow> bool \<Rightarrow> bool" where
  "letter_bits b0 b1 b2 b3 b4 = ((b0 \<or> b1 \<or> b2 \<or> b3 \<or> b4) \<and> \<not> (b4 \<and> b3 \<and> (b2 \<or> b1 \<and> b0)))"

lemma py_digit_Char [code]:
  "py_digit (Char b0 b1 b2 b3 b4 b5 b6 b7) = (\<not> b7 \<and> \<not> b6 \<and> b5 \<and> b4 \<and> (\<not> b3 \<or> \<not> b2 \<and> \<not> b1))"
  by (cases b0; cases b1; cases b2; cases b3; cases b4; cases b5; cases b6; cases b7)
    (simp_all add: py_digit_def Let_def)

lemma py_space_Char [code]:
  "py_space (Char b0 b1 b2 b3 b4 b5 b6 b7) =
     (if b7 then \<not> b6 \<and> \<not> b4 \<and> \<not> b3 \<and> \<not> b1 \<and> (if b5 then \<not> b2 \<and> \<not> b0 else b2 \<and> b0)
      else \<not> b6 \<and> (if b5 then \<not> b4 \<and> \<not> b3 \<and> \<not> b2 \<and> \<not> b1 \<and> \<not> b0
        else b3 \<and> (if b4 then b2 else if b2 then \<not> b1 else b1 \<or> b0)))"
  by (cases b0; cases b1; cases b2; cases b3; cases b4; cases b5; cases b6; cases b7)
    (simp_all add: py_space_def Let_def)

lemma py_lower_char_Char [code]:
  "py_lower_char (Char b0 b1 b2 b3 b4 b5 b6 b7) =
     (if b6 \<and> \<not> b5 \<and> (if b7 then \<not> (b4 \<and> b2 \<and> b1 \<and> b0) else letter_bits b0 b1 b2 b3 b4)
      then Char b0 b1 b2 b3 b4 True b6 b7 else Char b0 b1 b2 b3 b4 b5 b6 b7)"
  by (cases b0; cases b1; cases b2; cases b3; cases b4; cases b5; cases b6; cases b7)
    (simp_all add: py_lower_char_def letter_bits_def Let_def char_of_def bit_Suc_0_iff)

fun py_split_from :: "string \<Rightarrow> string \<Rightarrow> string list" where
  "py_split_from acc [] = (if acc = [] then [] else [rev acc])"
| "py_split_from acc (c # cs) =
     (if py_space c
      then (if acc = [] then py_split_from [] cs else rev acc # py_split_from [] cs)
      else py_split_from (c # acc) cs)"

definition py_split :: "string \<Rightarrow> string list" where
  "py_split s = py_split_from [] s"

definition py_strip_of :: "string \<Rightarrow> string \<Rightarrow> string" where
  "py_strip_of chars s =
     rev (dropWhile (\<lambda>c. c \<in> set chars) (rev (dropWhile (\<lambda>c. c \<in> set chars) s)))"

definition py_strip :: "string \<Rightarrow> string" where
  "py_strip s = rev (dropWhile py_space (rev (dropWhile py_space s)))"

lemma py_strip_Nil_iff: "py_strip s = [] \<longleftrightarrow> (\<forall>c \<in> set s. py_space c)"
proof -
  have "py_strip s = [] \<longleftrightarrow> (\<forall>c \<in> set (dropWhile py_space s). py_space c)"
    by (simp add: py_strip_def dropWhile_eq_Nil_conv)
  also have "\<dots> \<longleftrightarrow> (\<forall>c \<in> set s. py_space c)"
    by (induction s) auto
  finally show ?thesis .
qed

text \<open>Splitting distributes over a separating blank, so a template's words come apart piecewise.\<close>

lemma py_space_blank [simp]: "py_space CHR '' ''"
  by (simp add: py_space_def Let_def)

lemma py_split_from_blank:
  "py_split_from acc (s @ CHR '' '' # t) = py_split_from acc s @ py_split_from [] t"
  by (induction acc s rule: py_split_from.induct) auto

lemma py_split_blank: "py_split (s @ CHR '' '' # t) = py_split s @ py_split t"
  by (simp add: py_split_def py_split_from_blank)

lemma py_split_from_solid:
  "\<forall>c \<in> set s. \<not> py_space c \<Longrightarrow>
   py_split_from acc s = (if acc = [] \<and> s = [] then [] else [rev acc @ s])"
  by (induction s arbitrary: acc) auto

lemma py_split_solid:
  "\<forall>c \<in> set s. \<not> py_space c \<Longrightarrow> s \<noteq> [] \<Longrightarrow> py_split s = [s]"
  by (simp add: py_split_def py_split_from_solid)

section \<open>Integers as text\<close>

definition digit_char :: "nat \<Rightarrow> char" where
  "digit_char d = char_of (48 + d)"

fun str_nat :: "nat \<Rightarrow> string" where
  "str_nat n = (if n < 10 then [digit_char n] else str_nat (n div 10) @ [digit_char (n mod 10)])"

declare str_nat.simps [simp del]

definition str_int :: "int \<Rightarrow> string" where
  "str_int i = (if i < 0 then CHR ''-'' # str_nat (nat (- i)) else str_nat (nat i))"

lemma digit_char_digit: "d < 10 \<Longrightarrow> py_digit (digit_char d)"
  by (simp add: py_digit_def digit_char_def)

lemma str_nat_digits: "\<forall>c \<in> set (str_nat n). py_digit c"
proof (induction n rule: str_nat.induct)
  case (1 n)
  then show ?case
    by (subst str_nat.simps) (auto simp: digit_char_digit)
qed

lemma str_nat_nonempty: "str_nat n \<noteq> []"
  by (subst str_nat.simps) simp

lemma str_nat_has_digit: "\<exists>c \<in> set (str_nat n). py_digit c"
  using str_nat_digits [of n] str_nat_nonempty [of n] by (meson list.set_sel(1))

lemma str_int_has_digit: "\<exists>c \<in> set (str_int i). py_digit c"
  using str_nat_has_digit by (auto simp: str_int_def)

lemma py_digit_not_space: "py_digit c \<Longrightarrow> \<not> py_space c"
  by (auto simp: py_digit_def py_space_def Let_def)

lemma str_int_solid: "\<forall>c \<in> set (str_int i). \<not> py_space c"
  using str_nat_digits py_digit_not_space
  by (fastforce simp: str_int_def py_space_def Let_def split: if_splits)

section \<open>decimal.Decimal\<close>

text \<open>
  A finite \<open>Decimal\<close> is a signed coefficient and an exponent, and its value is
  \<open>coefficient * 10 ^ exponent\<close>. Infinities and NaN do not occur: the profiles that hold
  decimals forbid them, and no operation below produces one.
\<close>

datatype decimal = Dec int int

fun pow10 :: "int \<Rightarrow> rat" where
  "pow10 e = (if 0 \<le> e then 10 ^ nat e else 1 / 10 ^ nat (- e))"

fun dec_val :: "decimal \<Rightarrow> rat" where
  "dec_val (Dec c e) = of_int c * pow10 e"

declare pow10.simps [simp del]

fun ndigits :: "nat \<Rightarrow> nat" where
  "ndigits n = (if n < 10 then 1 else Suc (ndigits (n div 10)))"

declare ndigits.simps [simp del]

text \<open>Division by a power of ten, rounding half to even, on the magnitude of the coefficient.\<close>

definition round_half_even :: "nat \<Rightarrow> nat \<Rightarrow> nat" where
  "round_half_even n d =
     (let q = n div d; r = n mod d in
      if 2 * r < d then q else if 2 * r > d then q + 1 else if even q then q else q + 1)"

definition signed_round :: "int \<Rightarrow> nat \<Rightarrow> int" where
  "signed_round c d = sgn c * int (round_half_even (nat \<bar>c\<bar>) d)"

definition dec_precision :: nat where
  "dec_precision = 28"

text \<open>The context rounding applied to the exact result of an operation.\<close>

definition dec_fix :: "decimal \<Rightarrow> decimal" where
  "dec_fix d = (case d of Dec c e \<Rightarrow>
     (let n = ndigits (nat \<bar>c\<bar>) in
      if n \<le> dec_precision then d
      else let c' = signed_round c (10 ^ (n - dec_precision)); e' = e + int (n - dec_precision) in
           if ndigits (nat \<bar>c'\<bar>) \<le> dec_precision then Dec c' e' else Dec (c' div 10) (e' + 1)))"

fun dec_mult :: "decimal \<Rightarrow> decimal \<Rightarrow> decimal" where
  "dec_mult (Dec a e) (Dec b f) = dec_fix (Dec (a * b) (e + f))"

definition dec_of_int :: "int \<Rightarrow> decimal" where
  "dec_of_int i = Dec i 0"

definition dec_less :: "decimal \<Rightarrow> decimal \<Rightarrow> bool" where
  "dec_less a b = (dec_val a < dec_val b)"

text \<open>
  \<open>Decimal.quantize\<close> to \<open>places\<close> fractional digits: \<open>None\<close> is the InvalidOperation raised when
  the coefficient would exceed the precision.
\<close>

fun dec_quantize :: "decimal \<Rightarrow> nat \<Rightarrow> int option" where
  "dec_quantize (Dec c e) places =
     (let shift = e + int places;
          c' = (if 0 \<le> shift then c * 10 ^ nat shift else signed_round c (10 ^ nat (- shift))) in
      if ndigits (nat \<bar>c'\<bar>) \<le> dec_precision then Some c' else None)"

text \<open>\<open>format(d, ".nf")\<close> of a decimal already quantized to \<open>n\<close> places.\<close>

definition pad_left :: "nat \<Rightarrow> string \<Rightarrow> string" where
  "pad_left n s = replicate (n - length s) CHR ''0'' @ s"

definition format_fixed :: "int \<Rightarrow> nat \<Rightarrow> string" where
  "format_fixed c places =
     (let m = nat \<bar>c\<bar>; whole = str_nat (m div 10 ^ places);
          frac = pad_left places (str_nat (m mod 10 ^ places)) in
      (if c < 0 then ''-'' else '''') @ whole @ (if places = 0 then '''' else CHR ''.'' # frac))"

lemma pow10_pos: "0 < pow10 e"
  by (simp add: pow10.simps)

lemma pow10_add: "pow10 (e + f) = pow10 e * pow10 f"
proof -
  have "pow10 e = 10 powi e" for e :: int
    by (simp add: pow10.simps power_int_def inverse_eq_divide power_one_over)
  then show ?thesis by (simp add: power_int_add)
qed

lemma dec_fix_exact: "ndigits (nat \<bar>c\<bar>) \<le> dec_precision \<Longrightarrow> dec_fix (Dec c e) = Dec c e"
  by (simp add: dec_fix_def Let_def)

lemma ndigits_bound: "0 < k \<Longrightarrow> n < 10 ^ k \<Longrightarrow> ndigits n \<le> k"
proof (induction k arbitrary: n)
  case 0
  then show ?case by simp
next
  case (Suc k)
  show ?case
  proof (cases "n < 10")
    case True
    then show ?thesis by (simp add: ndigits.simps)
  next
    case False
    with Suc.prems have "k \<noteq> 0" by (cases k) auto
    moreover have "n div 10 < 10 ^ k"
      using Suc.prems(2) by (simp add: less_mult_imp_div_less mult.commute)
    ultimately have "ndigits (n div 10) \<le> k" by (intro Suc.IH) auto
    with False show ?thesis by (subst ndigits.simps) simp
  qed
qed

lemma dec_mult_exact:
  assumes "ndigits (nat \<bar>a * b\<bar>) \<le> dec_precision"
  shows "dec_val (dec_mult (Dec a e) (Dec b f)) = dec_val (Dec a e) * dec_val (Dec b f)"
  using assms by (simp add: dec_fix_exact pow10_add mult.assoc mult.left_commute)

lemma format_fixed_has_digit: "\<exists>c \<in> set (format_fixed c places). py_digit c"
  using str_nat_has_digit by (fastforce simp: format_fixed_def Let_def)

lemma format_fixed_solid: "\<forall>ch \<in> set (format_fixed c places). \<not> py_space ch"
proof -
  have "\<forall>ch \<in> set (str_nat n). \<not> py_space ch" for n
    using str_nat_digits py_digit_not_space by blast
  then show ?thesis
    by (auto simp: format_fixed_def Let_def pad_left_def py_space_def split: if_splits)
qed

section \<open>Splitting and joining on a separator\<close>

text \<open>\<open>s.split(c)\<close> for a one-character separator, and \<open>c.join(parts)\<close>.\<close>

fun split_on :: "char \<Rightarrow> string \<Rightarrow> string list" where
  "split_on c [] = [[]]"
| "split_on c (x # s) =
     (if x = c then [] # split_on c s
      else case split_on c s of [] \<Rightarrow> [[x]] | w # ws \<Rightarrow> (x # w) # ws)"

fun join_with :: "char \<Rightarrow> string list \<Rightarrow> string" where
  "join_with c [] = []"
| "join_with c [w] = w"
| "join_with c (w # ws) = w @ c # join_with c ws"

lemma split_on_not_Nil [simp]: "split_on c s \<noteq> []"
  by (induction s) (auto split: list.splits)

lemma split_on_append:
  "c \<notin> set w \<Longrightarrow> split_on c (w @ c # s) = w # split_on c s"
  by (induction w) auto

lemma split_on_word: "c \<notin> set w \<Longrightarrow> split_on c w = [w]"
  by (induction w) auto

lemma split_join:
  "ws \<noteq> [] \<Longrightarrow> \<forall>w \<in> set ws. c \<notin> set w \<Longrightarrow> split_on c (join_with c ws) = ws"
  by (induction c ws rule: join_with.induct) (auto simp: split_on_word split_on_append)

text \<open>Joining parts that do not contain the separator loses nothing.\<close>

lemma join_with_inj:
  assumes "join_with c us = join_with c vs" "us \<noteq> []" "vs \<noteq> []"
    "\<forall>w \<in> set us. c \<notin> set w" "\<forall>w \<in> set vs. c \<notin> set w"
  shows "us = vs"
  using assms by (metis split_join)

end
