(* ===== verification/Modbus_Model.thy ===== *)
theory Modbus_Model
  imports Py_Std
begin

text \<open>
  The data model of the offline Modbus semantics (\<open>app/protocols/models.py\<close>), the approved
  profile and its validators (\<open>app/protocols/profile.py\<close>), and the profile document
  \<open>profiles/oil_gas_modbus_v1.json\<close>. The field \<open>f\<close> of a class is written with the class's
  prefix (\<open>me_\<close> for SyntheticModbusEvent, \<open>pt_\<close> for PointDefinition, and so on), an enum
  constructor keeps its name and is qualified by its enum. Fields of the profile classes whose
  type is a one-value Literal that nothing reads (\<open>protocol\<close>, \<open>width\<close>, \<open>signed\<close>, the disclaimer and the
  null network fields of the endpoint) are left out.
\<close>

section \<open>Enumerations\<close>

datatype CaptureMode = OFFLINE_FIXTURE | IN_MEMORY_TEST

datatype MessageRole = REQUEST | RESPONSE | OPERATION

datatype TableType = DISCRETE_INPUT | INPUT_REGISTER | HOLDING_REGISTER

datatype OperationCategory = READ | WRITE | UNSUPPORTED

datatype FunctionSemantic =
    READ_DISCRETE_INPUTS
  | READ_HOLDING_REGISTERS
  | READ_INPUT_REGISTERS
  | WRITE_SINGLE_REGISTER

datatype PointAccessClass = READ_ONLY | COMMANDABLE_SYNTHETIC

datatype LogicalType = DECIMAL | BOOLEAN

datatype OperationCompatibility = COMPATIBLE | INCOMPATIBLE | NOT_APPLICABLE

datatype InterpretationStatus = MAPPED | UNMAPPED | UNSUPPORTED | MALFORMED

datatype ReasonCode =
    NONE
  | ADDRESS_NOT_IN_PROFILE
  | ADDRESS_INVALID
  | FUNCTION_NOT_SUPPORTED
  | FUNCTION_TABLE_MISMATCH
  | POINT_NOT_COMMANDABLE
  | RAW_VALUE_REQUIRED
  | RAW_VALUE_TYPE_INVALID
  | RAW_VALUE_OUT_OF_UINT16_RANGE
  | ENGINEERING_VALUE_OUT_OF_RANGE
  | PROTOCOL_ID_INVALID
  | SOURCE_EVIDENCE_NOT_VERIFIED
  | PROFILE_DIGEST_MISMATCH

fun TableType_value :: "TableType \<Rightarrow> string" where
  "TableType_value DISCRETE_INPUT = ''discrete_input''"
| "TableType_value INPUT_REGISTER = ''input_register''"
| "TableType_value HOLDING_REGISTER = ''holding_register''"

text \<open>\<open>TableType(value)\<close>, where \<open>None\<close> is the ValueError of an unknown value.\<close>

definition TableType_of :: "string \<Rightarrow> TableType option" where
  "TableType_of s =
     find (\<lambda>t. TableType_value t = s) [DISCRETE_INPUT, INPUT_REGISTER, HOLDING_REGISTER]"

fun ReasonCode_value :: "ReasonCode \<Rightarrow> string" where
  "ReasonCode_value NONE = ''NONE''"
| "ReasonCode_value ADDRESS_NOT_IN_PROFILE = ''ADDRESS_NOT_IN_PROFILE''"
| "ReasonCode_value ADDRESS_INVALID = ''ADDRESS_INVALID''"
| "ReasonCode_value FUNCTION_NOT_SUPPORTED = ''FUNCTION_NOT_SUPPORTED''"
| "ReasonCode_value FUNCTION_TABLE_MISMATCH = ''FUNCTION_TABLE_MISMATCH''"
| "ReasonCode_value POINT_NOT_COMMANDABLE = ''POINT_NOT_COMMANDABLE''"
| "ReasonCode_value RAW_VALUE_REQUIRED = ''RAW_VALUE_REQUIRED''"
| "ReasonCode_value RAW_VALUE_TYPE_INVALID = ''RAW_VALUE_TYPE_INVALID''"
| "ReasonCode_value RAW_VALUE_OUT_OF_UINT16_RANGE = ''RAW_VALUE_OUT_OF_UINT16_RANGE''"
| "ReasonCode_value ENGINEERING_VALUE_OUT_OF_RANGE = ''ENGINEERING_VALUE_OUT_OF_RANGE''"
| "ReasonCode_value PROTOCOL_ID_INVALID = ''PROTOCOL_ID_INVALID''"
| "ReasonCode_value SOURCE_EVIDENCE_NOT_VERIFIED = ''SOURCE_EVIDENCE_NOT_VERIFIED''"
| "ReasonCode_value PROFILE_DIGEST_MISMATCH = ''PROFILE_DIGEST_MISMATCH''"

section \<open>Events\<close>

text \<open>\<open>RawScalar = StrictInt | StrictStr | StrictBool | None\<close>.\<close>

datatype RawScalar = RawInt int | RawStr string | RawBool bool | RawNone

datatype DecodedValue = DecodedDecimal decimal | DecodedBool bool

record SyntheticModbusEvent =
  me_event_version :: string
  me_capture_mode :: CaptureMode
  me_observed_at :: timestamp
  me_source_identity :: string
  me_destination_identity :: string
  me_transaction_id :: int
  me_protocol_id :: int
  me_unit_id :: int
  me_message_role :: MessageRole
  me_function_code :: int
  me_table_type :: "string option"
  me_address_offset :: "int option"
  me_raw_value :: RawScalar
  me_fixture_id :: string

record CanonicalAddress =
  ca_unit_id :: int
  ca_table_type :: "string option"
  ca_address_offset :: "int option"
  ca_display_reference :: "int option"

record ProtocolSemanticEvent =
  se_semantic_event_id :: uuid
  se_semantic_schema :: string
  se_semantic_schema_version :: string
  se_protocol :: string
  se_profile_id :: string
  se_profile_version :: string
  se_profile_sha256 :: digest
  se_decoder_name :: string
  se_decoder_version :: string
  se_observed_at :: timestamp
  se_source_evidence_id :: uuid
  se_source_evidence_integrity_sha256 :: digest
  se_source_identity :: string
  se_destination_identity :: string
  se_transaction_id :: int
  se_unit_id :: int
  se_operation_category :: OperationCategory
  se_function_code :: int
  se_function_semantic :: "FunctionSemantic option"
  se_message_role :: MessageRole
  se_canonical_address :: CanonicalAddress
  se_operation_compatibility :: OperationCompatibility
  se_point_id :: "string option"
  se_point_access_class :: "PointAccessClass option"
  se_logical_type :: "LogicalType option"
  se_raw_value :: RawScalar
  se_decoded_value :: "DecodedValue option"
  se_unit :: "string option"
  se_fictional_target_component :: "string option"
  se_statement_template_id :: string
  se_semantic_statement :: string
  se_interpretation_status :: InterpretationStatus
  se_reason_code :: ReasonCode
  se_derivation_kind :: string
  se_derived_from :: uuid
  se_created_at :: timestamp
  se_canonicalization_version :: string
  se_ground_truth_used :: bool

section \<open>Field constraints\<close>

definition ascii_range :: "nat \<Rightarrow> nat \<Rightarrow> char \<Rightarrow> bool" where
  "ascii_range lo hi c = (let n = of_char c :: nat in lo \<le> n \<and> n \<le> hi)"

definition lower_char :: "char \<Rightarrow> bool" where
  "lower_char c = ascii_range 97 122 c"

definition upper_char :: "char \<Rightarrow> bool" where
  "upper_char c = ascii_range 65 90 c"

lemma letter_Char [code]:
  "lower_char (Char b0 b1 b2 b3 b4 b5 b6 b7) = (\<not> b7 \<and> b6 \<and> b5 \<and> letter_bits b0 b1 b2 b3 b4)"
  "upper_char (Char b0 b1 b2 b3 b4 b5 b6 b7) = (\<not> b7 \<and> b6 \<and> \<not> b5 \<and> letter_bits b0 b1 b2 b3 b4)"
  by (cases b0; cases b1; cases b2; cases b3; cases b4; cases b5; cases b6; cases b7,
    simp_all add: lower_char_def upper_char_def ascii_range_def letter_bits_def Let_def)+

definition alnum_char :: "char \<Rightarrow> bool" where
  "alnum_char c = (lower_char c \<or> upper_char c \<or> py_digit c)"

text \<open>\<open>^[a-zA-Z0-9][a-zA-Z0-9._:-]*$\<close> with 1 to 80 characters.\<close>

definition bounded_identity :: "string \<Rightarrow> bool" where
  "bounded_identity s = (1 \<le> length s \<and> length s \<le> 80 \<and> alnum_char (hd s)
     \<and> (\<forall>c \<in> set s. alnum_char c \<or> c \<in> set ''._:-''))"

text \<open>\<open>^[0-9a-f]{64}$\<close>.\<close>

definition is_sha256 :: "string \<Rightarrow> bool" where
  "is_sha256 s = (length s = 64 \<and> (\<forall>c \<in> set s. py_digit c \<or> ascii_range 97 102 c))"

definition hex_letter :: "char \<Rightarrow> bool" where
  "hex_letter c = ascii_range 97 102 c"

lemma hex_letter_Char [code]:
  "hex_letter (Char b0 b1 b2 b3 b4 b5 b6 b7) =
     (\<not> b7 \<and> b6 \<and> b5 \<and> \<not> b4 \<and> \<not> b3 \<and> (b2 \<or> b1 \<or> b0) \<and> \<not> (b2 \<and> b1 \<and> b0))"
  by (cases b0; cases b1; cases b2; cases b3; cases b4; cases b5; cases b6; cases b7)
    (simp_all add: hex_letter_def ascii_range_def Let_def)

lemma is_sha256_letters [code]: "is_sha256 s = (length s = 64 \<and> list_all (\<lambda>c. py_digit c \<or> hex_letter c) s)"
  by (simp add: is_sha256_def hex_letter_def list_all_iff)

text \<open>\<open>^[a-z][a-z0-9_]*$\<close>.\<close>

definition snake_key :: "string \<Rightarrow> bool" where
  "snake_key s = (s \<noteq> [] \<and> lower_char (hd s)
     \<and> (\<forall>c \<in> set s. lower_char c \<or> py_digit c \<or> c = CHR ''_''))"

text \<open>The constraints a SyntheticModbusEvent is validated against, its two field validators included.\<close>

definition validate_address_integer_bound :: "int option \<Rightarrow> bool" where
  "validate_address_integer_bound v =
     (case v of None \<Rightarrow> True | Some i \<Rightarrow> - (2 ^ 63) \<le> i \<and> i \<le> 2 ^ 63 - 1)"

fun validate_raw_scalar_bound :: "RawScalar \<Rightarrow> bool" where
  "validate_raw_scalar_bound (RawStr s) = (length s \<le> 64)"
| "validate_raw_scalar_bound (RawInt i) = (- (2 ^ 63) \<le> i \<and> i \<le> 2 ^ 63 - 1)"
| "validate_raw_scalar_bound (RawBool _) = True"
| "validate_raw_scalar_bound RawNone = True"

definition valid_event :: "SyntheticModbusEvent \<Rightarrow> bool" where
  "valid_event e =
     (me_event_version e = ''1.0.0''
      \<and> bounded_identity (me_source_identity e) \<and> bounded_identity (me_destination_identity e)
      \<and> 0 \<le> me_transaction_id e \<and> me_transaction_id e \<le> 65535
      \<and> 0 \<le> me_protocol_id e \<and> me_protocol_id e \<le> 65535
      \<and> 0 \<le> me_unit_id e \<and> me_unit_id e \<le> 255
      \<and> 0 \<le> me_function_code e \<and> me_function_code e \<le> 255
      \<and> (case me_table_type e of None \<Rightarrow> True | Some t \<Rightarrow> snake_key t \<and> length t \<le> 32)
      \<and> validate_address_integer_bound (me_address_offset e)
      \<and> validate_raw_scalar_bound (me_raw_value e)
      \<and> bounded_identity (me_fixture_id e))"

section \<open>Profile\<close>

record SupportedFunction =
  sf_function_code :: int
  sf_semantic :: FunctionSemantic
  sf_category :: OperationCategory
  sf_allowed_table :: TableType

record PointDefinition =
  pt_point_id :: string
  pt_component :: string
  pt_display_label :: string
  pt_access_class :: PointAccessClass
  pt_table_type :: TableType
  pt_address_offset :: int
  pt_display_reference :: int
  pt_logical_type :: LogicalType
  pt_protocol_representation :: string
  pt_byte_order :: string
  pt_scale :: "decimal option"
  pt_unit :: string
  pt_engineering_min :: decimal
  pt_engineering_max :: decimal
  pt_raw_min :: int
  pt_raw_max :: int
  pt_compatible_functions :: "int list"
  pt_template_id :: string
  pt_decimal_places :: nat

record CanonicalAddressing =
  cad_identity_fields :: "string list"
  cad_address_offset_base :: int
  cad_discrete_input_display_base :: int
  cad_input_register_display_base :: int
  cad_holding_register_display_base :: int

record ModbusProfile =
  mp_profile_id :: string
  mp_profile_version :: string
  mp_endpoint_id :: string
  mp_unit_id :: int
  mp_canonical_addressing :: CanonicalAddressing
  mp_supported_functions :: "SupportedFunction list"
  mp_statement_templates :: "string list"
  mp_points :: "PointDefinition list"

record LoadedProfile =
  lp_profile :: ModbusProfile
  lp_sha256 :: digest

definition PROFILE_ID :: string where
  "PROFILE_ID = ''otsoc.synthetic_modbus.oil_gas_transfer''"

definition PROFILE_VERSION :: string where
  "PROFILE_VERSION = ''1.0.0''"

definition FICTIONAL_ENDPOINT_ID :: string where
  "FICTIONAL_ENDPOINT_ID = ''OTSOC-MB-UNIT-01''"

text \<open>The properties \<open>LoadedProfile.mapping\<close> and \<open>LoadedProfile.functions\<close>.\<close>

definition point_key :: "ModbusProfile \<Rightarrow> PointDefinition \<Rightarrow> int \<times> TableType \<times> int" where
  "point_key mp p = (mp_unit_id mp, pt_table_type p, pt_address_offset p)"

definition mapping :: "LoadedProfile \<Rightarrow> int \<times> TableType \<times> int \<Rightarrow> PointDefinition option" where
  "mapping lp = dict_of (point_key (lp_profile lp)) (mp_points (lp_profile lp))"

definition functions_dict :: "LoadedProfile \<Rightarrow> int \<Rightarrow> SupportedFunction option" where
  "functions_dict lp = dict_of sf_function_code (mp_supported_functions (lp_profile lp))"

fun display_reference :: "ModbusProfile \<Rightarrow> TableType \<Rightarrow> int \<Rightarrow> int" where
  "display_reference mp DISCRETE_INPUT off =
     cad_discrete_input_display_base (mp_canonical_addressing mp) + off"
| "display_reference mp INPUT_REGISTER off =
     cad_input_register_display_base (mp_canonical_addressing mp) + off"
| "display_reference mp HOLDING_REGISTER off =
     cad_holding_register_display_base (mp_canonical_addressing mp) + off"

section \<open>Profile validators\<close>

datatype ProfileError =
    LimitsReversed
  | RawBoundsNotUint16
  | BooleanRepresentationInvalid
  | DecimalRepresentationInvalid
  | CommandableNotFc06Holding
  | ReadOnlyDeclaresWrite
  | IdentityFieldsOrder
  | ProfileIdentityUnsupported
  | EndpointMismatch
  | DuplicateFunctionCode
  | FunctionSetDiffers
  | DuplicatePointId
  | DuplicateCanonicalAddress
  | NotNinePoints
  | NotTwoCommandable
  | NotSevenReadOnly
  | UnknownTemplate
  | DisplayReferenceMismatch

definition validate_representation :: "PointDefinition \<Rightarrow> ProfileError + unit" where
  "validate_representation p =
     (if dec_less (pt_engineering_max p) (pt_engineering_min p) \<or> pt_raw_max p < pt_raw_min p
      then Inl LimitsReversed
      else if pt_raw_min p < 0 \<or> 65535 < pt_raw_max p then Inl RawBoundsNotUint16
      else if pt_logical_type p = LogicalType.BOOLEAN
        \<and> (pt_protocol_representation p \<noteq> ''single_bit'' \<or> pt_scale p \<noteq> None
           \<or> pt_byte_order p \<noteq> ''not_applicable'' \<or> (pt_raw_min p, pt_raw_max p) \<noteq> (0, 1)
           \<or> pt_decimal_places p \<noteq> 0)
      then Inl BooleanRepresentationInvalid
      else if pt_logical_type p \<noteq> LogicalType.BOOLEAN
        \<and> (pt_protocol_representation p \<noteq> ''uint16''
           \<or> (case pt_scale p of None \<Rightarrow> True | Some s \<Rightarrow> dec_val s \<le> 0)
           \<or> pt_byte_order p \<noteq> ''big_endian'')
      then Inl DecimalRepresentationInvalid
      else if pt_access_class p = COMMANDABLE_SYNTHETIC
        \<and> (pt_table_type p \<noteq> HOLDING_REGISTER \<or> 6 \<notin> set (pt_compatible_functions p))
      then Inl CommandableNotFc06Holding
      else if pt_access_class p \<noteq> COMMANDABLE_SYNTHETIC \<and> 6 \<in> set (pt_compatible_functions p)
      then Inl ReadOnlyDeclaresWrite
      else Inr ())"

definition validate_identity_fields :: "CanonicalAddressing \<Rightarrow> ProfileError + unit" where
  "validate_identity_fields ca =
     require (cad_identity_fields ca = [''unit_id'', ''table_type'', ''address_offset''])
       IdentityFieldsOrder"

definition count_access :: "PointAccessClass \<Rightarrow> PointDefinition list \<Rightarrow> nat" where
  "count_access a ps = length (filter (\<lambda>p. pt_access_class p = a) ps)"

definition validate_point_contract :: "ModbusProfile \<Rightarrow> PointDefinition \<Rightarrow> ProfileError + unit" where
  "validate_point_contract mp p =
     (if pt_template_id p \<notin> set (mp_statement_templates mp) then Inl UnknownTemplate
      else if pt_display_reference p \<noteq> display_reference mp (pt_table_type p) (pt_address_offset p)
      then Inl DisplayReferenceMismatch else Inr ())"

definition validate_profile_uniqueness_and_contract :: "ModbusProfile \<Rightarrow> ProfileError + unit" where
  "validate_profile_uniqueness_and_contract mp =
     (let codes = map sf_function_code (mp_supported_functions mp);
          ids = map pt_point_id (mp_points mp);
          addresses = map (point_key mp) (mp_points mp) in
      if mp_profile_id mp \<noteq> PROFILE_ID \<or> mp_profile_version mp \<noteq> PROFILE_VERSION
      then Inl ProfileIdentityUnsupported
      else if mp_endpoint_id mp \<noteq> FICTIONAL_ENDPOINT_ID then Inl EndpointMismatch
      else if \<not> distinct codes then Inl DuplicateFunctionCode
      else if set codes \<noteq> {2, 3, 4, 6} then Inl FunctionSetDiffers
      else if \<not> distinct ids then Inl DuplicatePointId
      else if \<not> distinct addresses then Inl DuplicateCanonicalAddress
      else if length (mp_points mp) \<noteq> 9 then Inl NotNinePoints
      else if count_access COMMANDABLE_SYNTHETIC (mp_points mp) \<noteq> 2 then Inl NotTwoCommandable
      else if count_access READ_ONLY (mp_points mp) \<noteq> 7 then Inl NotSevenReadOnly
      else for_each (validate_point_contract mp) (mp_points mp))"

text \<open>
  Model validation runs the validators of the nested models first: the addressing, then each
  point, then the profile itself.
\<close>

definition validate_profile :: "ModbusProfile \<Rightarrow> ProfileError + unit" where
  "validate_profile mp =
     rbind (validate_identity_fields (mp_canonical_addressing mp)) (\<lambda>_.
     rbind (for_each validate_representation (mp_points mp)) (\<lambda>_.
     validate_profile_uniqueness_and_contract mp))"

section \<open>The approved profile document\<close>

definition point_transfer_pump_command_percent :: PointDefinition where
  "point_transfer_pump_command_percent = \<lparr>
     pt_point_id = ''transfer_pump_command_percent'', pt_component = ''P-101'',
     pt_display_label = ''transfer-pump command'', pt_access_class = COMMANDABLE_SYNTHETIC,
     pt_table_type = HOLDING_REGISTER, pt_address_offset = 0,
     pt_display_reference = 40001, pt_logical_type = LogicalType.DECIMAL,
     pt_protocol_representation = ''uint16'', pt_byte_order = ''big_endian'',
     pt_scale = Some (Dec 1 (-1)), pt_unit = ''%'',
     pt_engineering_min = Dec 0 (-1), pt_engineering_max = Dec 1000 (-1),
     pt_raw_min = 0, pt_raw_max = 1000,
     pt_compatible_functions = [3, 6],
     pt_template_id = ''COMMAND_CHANGED_TO'', pt_decimal_places = 1\<rparr>"

definition point_control_valve_command_percent :: PointDefinition where
  "point_control_valve_command_percent = \<lparr>
     pt_point_id = ''control_valve_command_percent'', pt_component = ''CV-101'',
     pt_display_label = ''valve-position command'', pt_access_class = COMMANDABLE_SYNTHETIC,
     pt_table_type = HOLDING_REGISTER, pt_address_offset = 1,
     pt_display_reference = 40002, pt_logical_type = LogicalType.DECIMAL,
     pt_protocol_representation = ''uint16'', pt_byte_order = ''big_endian'',
     pt_scale = Some (Dec 1 (-1)), pt_unit = ''% open'',
     pt_engineering_min = Dec 0 (-1), pt_engineering_max = Dec 1000 (-1),
     pt_raw_min = 0, pt_raw_max = 1000,
     pt_compatible_functions = [3, 6],
     pt_template_id = ''COMMAND_CHANGED_TO'', pt_decimal_places = 1\<rparr>"

definition point_source_tank_level_percent :: PointDefinition where
  "point_source_tank_level_percent = \<lparr>
     pt_point_id = ''source_tank_level_percent'', pt_component = ''TK-101'',
     pt_display_label = ''source-tank level'', pt_access_class = READ_ONLY,
     pt_table_type = INPUT_REGISTER, pt_address_offset = 0,
     pt_display_reference = 30001, pt_logical_type = LogicalType.DECIMAL,
     pt_protocol_representation = ''uint16'', pt_byte_order = ''big_endian'',
     pt_scale = Some (Dec 1 (-1)), pt_unit = ''%'',
     pt_engineering_min = Dec 0 (-1), pt_engineering_max = Dec 1000 (-1),
     pt_raw_min = 0, pt_raw_max = 1000,
     pt_compatible_functions = [4],
     pt_template_id = ''PROCESS_VALUE_OBSERVED'', pt_decimal_places = 1\<rparr>"

definition point_receiving_tank_level_percent :: PointDefinition where
  "point_receiving_tank_level_percent = \<lparr>
     pt_point_id = ''receiving_tank_level_percent'', pt_component = ''TK-102'',
     pt_display_label = ''receiving-tank level'', pt_access_class = READ_ONLY,
     pt_table_type = INPUT_REGISTER, pt_address_offset = 1,
     pt_display_reference = 30002, pt_logical_type = LogicalType.DECIMAL,
     pt_protocol_representation = ''uint16'', pt_byte_order = ''big_endian'',
     pt_scale = Some (Dec 1 (-1)), pt_unit = ''%'',
     pt_engineering_min = Dec 0 (-1), pt_engineering_max = Dec 1000 (-1),
     pt_raw_min = 0, pt_raw_max = 1000,
     pt_compatible_functions = [4],
     pt_template_id = ''PROCESS_VALUE_OBSERVED'', pt_decimal_places = 1\<rparr>"

definition point_pipeline_flow_rate_m3h :: PointDefinition where
  "point_pipeline_flow_rate_m3h = \<lparr>
     pt_point_id = ''pipeline_flow_rate_m3h'', pt_component = ''PL-101'',
     pt_display_label = ''pipeline flow'', pt_access_class = READ_ONLY,
     pt_table_type = INPUT_REGISTER, pt_address_offset = 2,
     pt_display_reference = 30003, pt_logical_type = LogicalType.DECIMAL,
     pt_protocol_representation = ''uint16'', pt_byte_order = ''big_endian'',
     pt_scale = Some (Dec 1 (-2)), pt_unit = ''synthetic m3/h'',
     pt_engineering_min = Dec 0 (-2), pt_engineering_max = Dec 1200 (-2),
     pt_raw_min = 0, pt_raw_max = 1200,
     pt_compatible_functions = [4],
     pt_template_id = ''PROCESS_VALUE_OBSERVED'', pt_decimal_places = 2\<rparr>"

definition point_pipeline_pressure_bar :: PointDefinition where
  "point_pipeline_pressure_bar = \<lparr>
     pt_point_id = ''pipeline_pressure_bar'', pt_component = ''PL-101'',
     pt_display_label = ''pipeline pressure'', pt_access_class = READ_ONLY,
     pt_table_type = INPUT_REGISTER, pt_address_offset = 3,
     pt_display_reference = 30004, pt_logical_type = LogicalType.DECIMAL,
     pt_protocol_representation = ''uint16'', pt_byte_order = ''big_endian'',
     pt_scale = Some (Dec 1 (-3)), pt_unit = ''synthetic bar'',
     pt_engineering_min = Dec 0 (-3), pt_engineering_max = Dec 4000 (-3),
     pt_raw_min = 0, pt_raw_max = 4000,
     pt_compatible_functions = [4],
     pt_template_id = ''PROCESS_VALUE_OBSERVED'', pt_decimal_places = 3\<rparr>"

definition point_process_temperature_c :: PointDefinition where
  "point_process_temperature_c = \<lparr>
     pt_point_id = ''process_temperature_c'', pt_component = ''PL-101'',
     pt_display_label = ''process temperature'', pt_access_class = READ_ONLY,
     pt_table_type = INPUT_REGISTER, pt_address_offset = 4,
     pt_display_reference = 30005, pt_logical_type = LogicalType.DECIMAL,
     pt_protocol_representation = ''uint16'', pt_byte_order = ''big_endian'',
     pt_scale = Some (Dec 1 (-1)), pt_unit = ''degC'',
     pt_engineering_min = Dec 0 (-1), pt_engineering_max = Dec 800 (-1),
     pt_raw_min = 0, pt_raw_max = 800,
     pt_compatible_functions = [4],
     pt_template_id = ''PROCESS_VALUE_OBSERVED'', pt_decimal_places = 1\<rparr>"

definition point_control_valve_position_percent :: PointDefinition where
  "point_control_valve_position_percent = \<lparr>
     pt_point_id = ''control_valve_position_percent'', pt_component = ''CV-101'',
     pt_display_label = ''observed valve position'', pt_access_class = READ_ONLY,
     pt_table_type = INPUT_REGISTER, pt_address_offset = 5,
     pt_display_reference = 30006, pt_logical_type = LogicalType.DECIMAL,
     pt_protocol_representation = ''uint16'', pt_byte_order = ''big_endian'',
     pt_scale = Some (Dec 1 (-1)), pt_unit = ''% open'',
     pt_engineering_min = Dec 0 (-1), pt_engineering_max = Dec 1000 (-1),
     pt_raw_min = 0, pt_raw_max = 1000,
     pt_compatible_functions = [4],
     pt_template_id = ''PROCESS_VALUE_OBSERVED'', pt_decimal_places = 1\<rparr>"

definition point_transfer_pump_running :: PointDefinition where
  "point_transfer_pump_running = \<lparr>
     pt_point_id = ''transfer_pump_running'', pt_component = ''P-101'',
     pt_display_label = ''transfer-pump running state'', pt_access_class = READ_ONLY,
     pt_table_type = DISCRETE_INPUT, pt_address_offset = 0,
     pt_display_reference = 10001, pt_logical_type = LogicalType.BOOLEAN,
     pt_protocol_representation = ''single_bit'', pt_byte_order = ''not_applicable'',
     pt_scale = None, pt_unit = ''state'',
     pt_engineering_min = Dec 0 0, pt_engineering_max = Dec 1 0,
     pt_raw_min = 0, pt_raw_max = 1,
     pt_compatible_functions = [2],
     pt_template_id = ''STATE_OBSERVED'', pt_decimal_places = 0\<rparr>"

definition oil_gas_modbus_v1 :: ModbusProfile where
  "oil_gas_modbus_v1 = \<lparr>
     mp_profile_id = ''otsoc.synthetic_modbus.oil_gas_transfer'', mp_profile_version = ''1.0.0'',
     mp_endpoint_id = ''OTSOC-MB-UNIT-01'', mp_unit_id = 1,
     mp_canonical_addressing = \<lparr>
       cad_identity_fields = [''unit_id'', ''table_type'', ''address_offset''],
       cad_address_offset_base = 0,
       cad_discrete_input_display_base = 10001,
       cad_input_register_display_base = 30001,
       cad_holding_register_display_base = 40001\<rparr>,
     mp_supported_functions = [
       \<lparr>sf_function_code = 2, sf_semantic = READ_DISCRETE_INPUTS,
        sf_category = OperationCategory.READ, sf_allowed_table = DISCRETE_INPUT\<rparr>,
       \<lparr>sf_function_code = 3, sf_semantic = READ_HOLDING_REGISTERS,
        sf_category = OperationCategory.READ, sf_allowed_table = HOLDING_REGISTER\<rparr>,
       \<lparr>sf_function_code = 4, sf_semantic = READ_INPUT_REGISTERS,
        sf_category = OperationCategory.READ, sf_allowed_table = INPUT_REGISTER\<rparr>,
       \<lparr>sf_function_code = 6, sf_semantic = WRITE_SINGLE_REGISTER,
        sf_category = OperationCategory.WRITE, sf_allowed_table = HOLDING_REGISTER\<rparr>],
     mp_statement_templates = [
       ''COMMAND_CHANGED_TO'',
       ''COMMAND_VALUE_READ'',
       ''PROCESS_VALUE_OBSERVED'',
       ''STATE_OBSERVED'',
       ''ADDRESS_UNMAPPED'',
       ''FUNCTION_UNSUPPORTED'',
       ''VALUE_MALFORMED'',
       ''POINT_NOT_COMMANDABLE''],
     mp_points = [
       point_transfer_pump_command_percent,
       point_control_valve_command_percent,
       point_source_tank_level_percent,
       point_receiving_tank_level_percent,
       point_pipeline_flow_rate_m3h,
       point_pipeline_pressure_bar,
       point_process_temperature_c,
       point_control_valve_position_percent,
       point_transfer_pump_running]\<rparr>"

lemmas approved_points = point_transfer_pump_command_percent_def
  point_control_valve_command_percent_def
  point_source_tank_level_percent_def
  point_receiving_tank_level_percent_def
  point_pipeline_flow_rate_m3h_def
  point_pipeline_pressure_bar_def
  point_process_temperature_c_def
  point_control_valve_position_percent_def
  point_transfer_pump_running_def

lemma oil_gas_modbus_v1_valid: "validate_profile oil_gas_modbus_v1 = Inr ()"
  by code_simp

section \<open>What a validated profile guarantees\<close>

lemma validate_profile_contract:
  assumes "validate_profile mp = Inr ()"
  shows "distinct (map sf_function_code (mp_supported_functions mp))"
    and "set (map sf_function_code (mp_supported_functions mp)) = {2, 3, 4, 6}"
    and "distinct (map pt_point_id (mp_points mp))"
    and "distinct (map (point_key mp) (mp_points mp))"
    and "p \<in> set (mp_points mp) \<Longrightarrow> validate_representation p = Inr ()"
    and "p \<in> set (mp_points mp) \<Longrightarrow> validate_point_contract mp p = Inr ()"
  using assms
  by (auto simp: validate_profile_def validate_profile_uniqueness_and_contract_def Let_def
      rbind_eq_Inr for_each_ok split: if_splits)

lemma validate_representation_ok:
  assumes "validate_representation p = Inr ()"
  shows "0 \<le> pt_raw_min p" and "pt_raw_max p \<le> 65535"
    and "pt_access_class p = READ_ONLY \<Longrightarrow> 6 \<notin> set (pt_compatible_functions p)"
    and "pt_logical_type p = LogicalType.DECIMAL \<Longrightarrow> \<exists>s. pt_scale p = Some s \<and> 0 < dec_val s"
    and "pt_logical_type p = LogicalType.BOOLEAN \<Longrightarrow> pt_scale p = None"
  using assms by (auto simp: validate_representation_def split: if_splits option.splits)

text \<open>The address map and the function map of a validated profile are catalogs.\<close>

lemma address_catalog:
  "validate_profile (lp_profile lp) = Inr () \<Longrightarrow>
   keyed_catalog (point_key (lp_profile lp)) (mp_points (lp_profile lp))"
  by unfold_locales (rule validate_profile_contract)

lemma function_catalog:
  "validate_profile (lp_profile lp) = Inr () \<Longrightarrow>
   keyed_catalog sf_function_code (mp_supported_functions (lp_profile lp))"
  by unfold_locales (rule validate_profile_contract)

interpretation v1_points: keyed_catalog "point_key oil_gas_modbus_v1" "mp_points oil_gas_modbus_v1"
  by unfold_locales (rule validate_profile_contract(4) [OF oil_gas_modbus_v1_valid])

interpretation v1_functions: keyed_catalog sf_function_code
  "mp_supported_functions oil_gas_modbus_v1"
  by unfold_locales (rule validate_profile_contract(1) [OF oil_gas_modbus_v1_valid])

end
