(* ===== verification/Modbus_Decoder.thy ===== *)
theory Modbus_Decoder
  imports Modbus_Model
begin

text \<open>
  The offline decoder (\<open>app/protocols/decoder.py\<close>) and its statement templates
  (\<open>app/protocols/semantics.py\<close>). \<open>decode_event\<close> is the whole cascade of the source in its order;
  the exceptions it can raise are the InvalidOperation of \<open>Decimal.quantize\<close> and the
  ValidationError of the ProtocolSemanticEvent it builds.
\<close>

datatype DecodeError = InvalidOperation | SemanticEventInvalid

definition DECODER_NAME :: string where
  "DECODER_NAME = ''otsoc_offline_modbus_semantics''"

definition DECODER_VERSION :: string where
  "DECODER_VERSION = ''1.0.0''"

section \<open>Statement templates\<close>

definition format_decimal :: "decimal \<Rightarrow> nat \<Rightarrow> DecodeError + string" where
  "format_decimal v places =
     (case dec_quantize v places of
        None \<Rightarrow> Inl InvalidOperation
      | Some c \<Rightarrow> Inr (format_fixed c places))"

fun mapped_statement ::
  "PointDefinition \<Rightarrow> int \<Rightarrow> DecodedValue \<Rightarrow> DecodeError + (string \<times> string)" where
  "mapped_statement p fc (DecodedBool b) =
     Inr (''STATE_OBSERVED'',
          pt_component p @ '' '' @ pt_display_label p @ '' was observed as '' @
          (if b then ''running'' else ''stopped'') @ ''.'')"
| "mapped_statement p fc (DecodedDecimal d) =
     rbind (format_decimal d (pt_decimal_places p)) (\<lambda>rendered. Inr (
       if fc = 6 then
         (''COMMAND_CHANGED_TO'',
          pt_component p @ '' '' @ pt_display_label p @ '' changed to '' @ rendered @ pt_unit p @ ''.'')
       else if pt_access_class p = COMMANDABLE_SYNTHETIC then
         (''COMMAND_VALUE_READ'',
          pt_component p @ '' '' @ pt_display_label p @ '' was read as '' @ rendered @ pt_unit p @ ''.'')
       else
         (''PROCESS_VALUE_OBSERVED'',
          pt_component p @ '' '' @ pt_display_label p @ '' was observed at '' @ rendered @
          '' '' @ pt_unit p @ ''.'')))"

text \<open>Interpolating an optional value into an f-string prints \<open>None\<close> when it is absent.\<close>

definition str_option :: "('a \<Rightarrow> string) \<Rightarrow> 'a option \<Rightarrow> string" where
  "str_option f v = (case v of None \<Rightarrow> ''None'' | Some x \<Rightarrow> f x)"

definition unmapped_statement :: "string option \<Rightarrow> int option \<Rightarrow> string \<times> string" where
  "unmapped_statement t off =
     (''ADDRESS_UNMAPPED'',
      ''No mapping exists for synthetic address '' @ str_option (\<lambda>s. s) t @ '':'' @
      str_option str_int off @ '' in profile 1.0.0.'')"

definition unsupported_statement :: "int \<Rightarrow> string \<times> string" where
  "unsupported_statement fc =
     (''FUNCTION_UNSUPPORTED'',
      ''Function code '' @ str_int fc @ '' is unsupported by profile 1.0.0.'')"

definition malformed_statement :: "ReasonCode \<Rightarrow> string \<times> string" where
  "malformed_statement r =
     (''VALUE_MALFORMED'',
      ''The synthetic event value could not be interpreted: '' @ ReasonCode_value r @ ''.'')"

definition not_commandable_statement :: "PointDefinition \<Rightarrow> string \<times> string" where
  "not_commandable_statement p =
     (''POINT_NOT_COMMANDABLE'',
      pt_component p @ '' '' @ pt_display_label p @
      '' is read-only; the synthetic write was not interpreted as a command.'')"

section \<open>The validator of the semantic statement\<close>

definition prohibited_terms :: "string list" where
  "prohibited_terms = [''attacker'', ''malicious'', ''unauthorized'', ''unsafe'', ''caused'',
     ''impact'', ''incident'', ''severity'']"

definition statement_words :: "string \<Rightarrow> string list" where
  "statement_words s = map (\<lambda>w. py_lower (py_strip_of ''.,:;!?()[]'' w)) (py_split s)"

definition forbid_policy_or_intent_claims :: "string \<Rightarrow> bool" where
  "forbid_policy_or_intent_claims s =
     (\<forall>w \<in> set (statement_words s). w \<notin> set prohibited_terms)"

text \<open>
  The constraints on ProtocolSemanticEvent that its construction checks: the Literal profile
  identity, the digest and identity patterns, and the statement validator.
\<close>

definition validate_semantic_event :: "ProtocolSemanticEvent \<Rightarrow> bool" where
  "validate_semantic_event e =
     (se_profile_id e = PROFILE_ID \<and> se_profile_version e = PROFILE_VERSION
      \<and> is_sha256 (se_profile_sha256 e) \<and> is_sha256 (se_source_evidence_integrity_sha256 e)
      \<and> bounded_identity (se_source_identity e) \<and> bounded_identity (se_destination_identity e)
      \<and> forbid_policy_or_intent_claims (se_semantic_statement e))"

section \<open>Building results\<close>

text \<open>The identifiers and times the caller of \<open>decode_event\<close> passes by keyword.\<close>

record DecodeContext =
  dc_semantic_event_id :: uuid
  dc_source_evidence_id :: uuid
  dc_source_evidence_integrity_sha256 :: digest
  dc_created_at :: timestamp

definition build_event ::
  "SyntheticModbusEvent \<Rightarrow> LoadedProfile \<Rightarrow> DecodeContext \<Rightarrow> OperationCategory \<Rightarrow>
   FunctionSemantic option \<Rightarrow> OperationCompatibility \<Rightarrow> InterpretationStatus \<Rightarrow> ReasonCode \<Rightarrow>
   PointDefinition option \<Rightarrow> DecodedValue option \<Rightarrow> string \<times> string \<Rightarrow> ProtocolSemanticEvent" where
  "build_event ev lp dc category semantic compatibility status reason point decoded ts = \<lparr>
     se_semantic_event_id = dc_semantic_event_id dc,
     se_semantic_schema = ''otsoc.protocol.semantic_event'',
     se_semantic_schema_version = ''1.0.0'',
     se_protocol = ''modbus_tcp'',
     se_profile_id = mp_profile_id (lp_profile lp),
     se_profile_version = mp_profile_version (lp_profile lp),
     se_profile_sha256 = lp_sha256 lp,
     se_decoder_name = DECODER_NAME,
     se_decoder_version = DECODER_VERSION,
     se_observed_at = me_observed_at ev,
     se_source_evidence_id = dc_source_evidence_id dc,
     se_source_evidence_integrity_sha256 = dc_source_evidence_integrity_sha256 dc,
     se_source_identity = me_source_identity ev,
     se_destination_identity = me_destination_identity ev,
     se_transaction_id = me_transaction_id ev,
     se_unit_id = me_unit_id ev,
     se_operation_category = category,
     se_function_code = me_function_code ev,
     se_function_semantic = semantic,
     se_message_role = me_message_role ev,
     se_canonical_address = \<lparr>
       ca_unit_id = me_unit_id ev,
       ca_table_type = me_table_type ev,
       ca_address_offset = me_address_offset ev,
       ca_display_reference = map_option pt_display_reference point\<rparr>,
     se_operation_compatibility = compatibility,
     se_point_id = map_option pt_point_id point,
     se_point_access_class = map_option pt_access_class point,
     se_logical_type = map_option pt_logical_type point,
     se_raw_value = me_raw_value ev,
     se_decoded_value = decoded,
     se_unit = (if decoded = None then None else map_option pt_unit point),
     se_fictional_target_component = map_option pt_component point,
     se_statement_template_id = fst ts,
     se_semantic_statement = snd ts,
     se_interpretation_status = status,
     se_reason_code = reason,
     se_derivation_kind = ''SEMANTIC_INTERPRETATION'',
     se_derived_from = dc_source_evidence_id dc,
     se_created_at = dc_created_at dc,
     se_canonicalization_version = ''otsoc-canonical-json-1'',
     se_ground_truth_used = False\<rparr>"

definition build_result ::
  "SyntheticModbusEvent \<Rightarrow> LoadedProfile \<Rightarrow> DecodeContext \<Rightarrow> OperationCategory \<Rightarrow>
   FunctionSemantic option \<Rightarrow> OperationCompatibility \<Rightarrow> InterpretationStatus \<Rightarrow> ReasonCode \<Rightarrow>
   PointDefinition option \<Rightarrow> DecodedValue option \<Rightarrow> string \<times> string \<Rightarrow>
   DecodeError + ProtocolSemanticEvent" where
  "build_result ev lp dc category semantic compatibility status reason point decoded ts =
     (let e = build_event ev lp dc category semantic compatibility status reason point decoded ts in
      if validate_semantic_event e then Inr e else Inl SemanticEventInvalid)"

definition neutral_result ::
  "SyntheticModbusEvent \<Rightarrow> LoadedProfile \<Rightarrow> DecodeContext \<Rightarrow> InterpretationStatus \<Rightarrow> ReasonCode \<Rightarrow>
   OperationCategory \<Rightarrow> FunctionSemantic option \<Rightarrow> DecodeError + ProtocolSemanticEvent" where
  "neutral_result ev lp dc status reason category semantic =
     build_result ev lp dc category semantic NOT_APPLICABLE status reason None None
       (case status of
          UNMAPPED \<Rightarrow> unmapped_statement (me_table_type ev) (me_address_offset ev)
        | InterpretationStatus.UNSUPPORTED \<Rightarrow> unsupported_statement (me_function_code ev)
        | _ \<Rightarrow> malformed_statement reason)"

section \<open>Decoding\<close>

fun decode_value :: "RawScalar \<Rightarrow> PointDefinition \<Rightarrow> DecodedValue option \<times> ReasonCode" where
  "decode_value RawNone p = (None, RAW_VALUE_REQUIRED)"
| "decode_value (RawStr _) p = (None, RAW_VALUE_TYPE_INVALID)"
| "decode_value (RawBool _) p = (None, RAW_VALUE_TYPE_INVALID)"
| "decode_value (RawInt raw) p =
     (if raw < 0 \<or> 65535 < raw then (None, RAW_VALUE_OUT_OF_UINT16_RANGE)
      else if pt_logical_type p = LogicalType.BOOLEAN then
        (if raw \<noteq> 0 \<and> raw \<noteq> 1 then (None, ENGINEERING_VALUE_OUT_OF_RANGE)
         else (Some (DecodedBool (raw \<noteq> 0)), NONE))
      else case pt_scale p of
        None \<Rightarrow> (None, RAW_VALUE_TYPE_INVALID)
      | Some scale \<Rightarrow>
          (let decoded = dec_mult (dec_of_int raw) scale in
           if dec_less decoded (pt_engineering_min p) \<or> dec_less (pt_engineering_max p) decoded
           then (None, ENGINEERING_VALUE_OUT_OF_RANGE)
           else (Some (DecodedDecimal decoded), NONE)))"

definition decode_event ::
  "SyntheticModbusEvent \<Rightarrow> LoadedProfile \<Rightarrow> DecodeContext \<Rightarrow> digest option \<Rightarrow> bool \<Rightarrow>
   DecodeError + ProtocolSemanticEvent" where
  "decode_event ev lp dc expected_profile_sha256 source_evidence_verified =
     (let fn = functions_dict lp (me_function_code ev);
          category = (case fn of None \<Rightarrow> OperationCategory.UNSUPPORTED | Some f \<Rightarrow> sf_category f);
          semantic = map_option sf_semantic fn in
      if \<not> source_evidence_verified then
        neutral_result ev lp dc MALFORMED SOURCE_EVIDENCE_NOT_VERIFIED category semantic
      else if expected_profile_sha256 \<noteq> None \<and> expected_profile_sha256 \<noteq> Some (lp_sha256 lp) then
        neutral_result ev lp dc MALFORMED PROFILE_DIGEST_MISMATCH category semantic
      else if me_protocol_id ev \<noteq> 0 then
        neutral_result ev lp dc MALFORMED PROTOCOL_ID_INVALID category semantic
      else case fn of
        None \<Rightarrow>
          neutral_result ev lp dc InterpretationStatus.UNSUPPORTED FUNCTION_NOT_SUPPORTED
            OperationCategory.UNSUPPORTED None
      | Some f \<Rightarrow>
      case Option.bind (me_table_type ev) TableType_of of
        None \<Rightarrow>
          neutral_result ev lp dc InterpretationStatus.UNSUPPORTED FUNCTION_TABLE_MISMATCH
            category semantic
      | Some table \<Rightarrow>
      case me_address_offset ev of
        None \<Rightarrow> neutral_result ev lp dc MALFORMED ADDRESS_INVALID category semantic
      | Some offset \<Rightarrow>
      if offset < 0 \<or> 65535 < offset then
        neutral_result ev lp dc MALFORMED ADDRESS_INVALID category semantic
      else
      (let point = mapping lp (me_unit_id ev, table, offset) in
       case point of
         Some p \<Rightarrow>
           if sf_category f = OperationCategory.WRITE \<and> pt_access_class p = READ_ONLY then
             build_result ev lp dc (sf_category f) semantic INCOMPATIBLE MAPPED
               POINT_NOT_COMMANDABLE point None (not_commandable_statement p)
           else if sf_allowed_table f \<noteq> table then
             neutral_result ev lp dc InterpretationStatus.UNSUPPORTED FUNCTION_TABLE_MISMATCH
               category semantic
           else if me_function_code ev \<notin> set (pt_compatible_functions p) then
             neutral_result ev lp dc InterpretationStatus.UNSUPPORTED FUNCTION_TABLE_MISMATCH
               category semantic
           else (case decode_value (me_raw_value ev) p of
             (Some v, NONE) \<Rightarrow>
               rbind (mapped_statement p (me_function_code ev) v) (\<lambda>ts.
                 build_result ev lp dc category semantic COMPATIBLE MAPPED NONE point (Some v) ts)
           | (_, reason) \<Rightarrow> neutral_result ev lp dc MALFORMED reason category semantic)
       | None \<Rightarrow>
           if sf_allowed_table f \<noteq> table then
             neutral_result ev lp dc InterpretationStatus.UNSUPPORTED FUNCTION_TABLE_MISMATCH
               category semantic
           else
             neutral_result ev lp dc UNMAPPED ADDRESS_NOT_IN_PROFILE category semantic))"

section \<open>Fields of the result\<close>

lemma build_event_fields [simp]:
  "se_operation_category (build_event ev lp dc cat sem cp st rs pt dv ts) = cat"
  "se_function_semantic (build_event ev lp dc cat sem cp st rs pt dv ts) = sem"
  "se_operation_compatibility (build_event ev lp dc cat sem cp st rs pt dv ts) = cp"
  "se_interpretation_status (build_event ev lp dc cat sem cp st rs pt dv ts) = st"
  "se_reason_code (build_event ev lp dc cat sem cp st rs pt dv ts) = rs"
  "se_point_id (build_event ev lp dc cat sem cp st rs pt dv ts) = map_option pt_point_id pt"
  "se_point_access_class (build_event ev lp dc cat sem cp st rs pt dv ts)
     = map_option pt_access_class pt"
  "se_fictional_target_component (build_event ev lp dc cat sem cp st rs pt dv ts)
     = map_option pt_component pt"
  "se_decoded_value (build_event ev lp dc cat sem cp st rs pt dv ts) = dv"
  "se_statement_template_id (build_event ev lp dc cat sem cp st rs pt dv ts) = fst ts"
  "se_semantic_statement (build_event ev lp dc cat sem cp st rs pt dv ts) = snd ts"
  by (simp_all add: build_event_def)

lemma build_result_Inr [result_split]:
  "build_result ev lp dc cat sem cp st rs pt dv ts = Inr e \<longleftrightarrow>
     e = build_event ev lp dc cat sem cp st rs pt dv ts \<and> validate_semantic_event e"
  by (auto simp: build_result_def Let_def)

lemma neutral_result_InrD:
  assumes "neutral_result ev lp dc st rs cat sem = Inr e"
  shows "se_operation_compatibility e = NOT_APPLICABLE" "se_interpretation_status e = st"
    "se_reason_code e = rs" "se_decoded_value e = None" "se_point_id e = None"
    "se_operation_category e = cat" "se_point_access_class e = None"
  using assms by (auto simp: neutral_result_def build_result_Inr)

section \<open>The value decoder\<close>

lemma decode_value_Some_iff:
  "decode_value rv p = (Some v, NONE) \<longleftrightarrow>
   (\<exists>raw. rv = RawInt raw \<and> 0 \<le> raw \<and> raw \<le> 65535 \<and>
      (if pt_logical_type p = LogicalType.BOOLEAN
       then raw \<in> {0, 1} \<and> v = DecodedBool (raw = 1)
       else \<exists>s. pt_scale p = Some s \<and> v = DecodedDecimal (dec_mult (dec_of_int raw) s)
         \<and> \<not> dec_less (dec_mult (dec_of_int raw) s) (pt_engineering_min p)
         \<and> \<not> dec_less (pt_engineering_max p) (dec_mult (dec_of_int raw) s)))"
  by (cases rv) (auto simp: Let_def split: option.splits if_splits)

lemma decode_value_None: "decode_value rv p = (None, r) \<Longrightarrow> r \<noteq> NONE"
  by (cases rv) (auto simp: Let_def split: option.splits if_splits)

lemma decode_value_no_reason: "decode_value rv p = (Some v, r) \<Longrightarrow> r = NONE"
  by (cases rv) (auto simp: Let_def split: option.splits if_splits)

section \<open>When a command or reading is accepted\<close>

text \<open>
  The acceptance contract: the evidence is verified under the expected profile, the function is
  supported, the point stands at exactly the addressed unit, table and offset, the function may
  use that table and that point, the operation does not write a read-only point, and the raw
  value decodes.
\<close>

definition accepts ::
  "SyntheticModbusEvent \<Rightarrow> LoadedProfile \<Rightarrow> digest option \<Rightarrow> bool \<Rightarrow>
   SupportedFunction \<Rightarrow> PointDefinition \<Rightarrow> DecodedValue \<Rightarrow> bool" where
  "accepts ev lp expected verified f p v =
     (verified \<and> (expected = None \<or> expected = Some (lp_sha256 lp)) \<and> me_protocol_id ev = 0
      \<and> f \<in> set (mp_supported_functions (lp_profile lp)) \<and> sf_function_code f = me_function_code ev
      \<and> p \<in> set (mp_points (lp_profile lp)) \<and> me_unit_id ev = mp_unit_id (lp_profile lp)
      \<and> me_table_type ev = Some (TableType_value (pt_table_type p))
      \<and> me_address_offset ev = Some (pt_address_offset p)
      \<and> 0 \<le> pt_address_offset p \<and> pt_address_offset p \<le> 65535
      \<and> sf_allowed_table f = pt_table_type p
      \<and> me_function_code ev \<in> set (pt_compatible_functions p)
      \<and> \<not> (sf_category f = OperationCategory.WRITE \<and> pt_access_class p = READ_ONLY)
      \<and> decode_value (me_raw_value ev) p = (Some v, NONE))"

lemma TableType_of_iff: "TableType_of s = Some t \<longleftrightarrow> s = TableType_value t"
  by (cases t) (auto simp: TableType_of_def)

lemma TableType_of_value [simp]: "TableType_of (TableType_value t) = Some t"
  by (simp add: TableType_of_iff)

lemma bind_TableType_of:
  "Option.bind o' TableType_of = Some t \<longleftrightarrow> o' = Some (TableType_value t)"
  by (cases o') (auto simp: TableType_of_iff)

lemma decode_event_compatibleD:
  assumes "decode_event ev lp dc expected verified = Inr e"
    and "se_operation_compatibility e = COMPATIBLE"
  shows "\<exists>f p v ts. accepts ev lp expected verified f p v
     \<and> mapped_statement p (me_function_code ev) v = Inr ts
     \<and> e = build_event ev lp dc (sf_category f) (Some (sf_semantic f)) COMPATIBLE MAPPED NONE
             (Some p) (Some v) ts"
  using assms unfolding decode_event_def Let_def
  by (auto simp: functions_dict_def mapping_def point_key_def
      bind_TableType_of rbind_eq_Inr build_result_Inr
      dest!: neutral_result_InrD(1) dict_of_SomeD
      split: if_splits option.splits prod.splits ReasonCode.splits)
    (force simp: accepts_def)+

lemma decode_event_accepts:
  assumes "validate_profile (lp_profile lp) = Inr ()"
    and acc: "accepts ev lp expected verified f p v"
  shows "decode_event ev lp dc expected verified =
     rbind (mapped_statement p (me_function_code ev) v) (\<lambda>ts.
       build_result ev lp dc (sf_category f) (Some (sf_semantic f)) COMPATIBLE MAPPED NONE
         (Some p) (Some v) ts)"
proof -
  have fn: "functions_dict lp (me_function_code ev) = Some f"
    using keyed_catalog.lookup_iff [OF function_catalog [OF assms(1)]] acc
    by (simp add: functions_dict_def accepts_def)
  have pt: "mapping lp (me_unit_id ev, pt_table_type p, pt_address_offset p) = Some p"
    using keyed_catalog.lookup_iff [OF address_catalog [OF assms(1)]] acc
    by (simp add: mapping_def accepts_def point_key_def)
  from acc fn pt show ?thesis
    by (auto simp: decode_event_def accepts_def Let_def)
qed

lemma decode_event_decodedD:
  assumes "decode_event ev lp dc expected verified = Inr e" and "se_decoded_value e \<noteq> None"
  shows "se_operation_compatibility e = COMPATIBLE"
  using assms unfolding decode_event_def Let_def
  by (auto simp: rbind_eq_Inr build_result_Inr dest!: neutral_result_InrD(4)
      split: if_splits option.splits prod.splits ReasonCode.splits)

lemma decode_event_validated:
  assumes "decode_event ev lp dc expected verified = Inr e"
  shows "validate_semantic_event e"
  using assms unfolding decode_event_def Let_def neutral_result_def
  by (auto simp: rbind_eq_Inr build_result_Inr
      split: if_splits option.splits prod.splits ReasonCode.splits)

section \<open>Statements never carry a prohibited term\<close>

lemma forbid_blank:
  "forbid_policy_or_intent_claims (s @ CHR '' '' # t) \<longleftrightarrow>
     forbid_policy_or_intent_claims s \<and> forbid_policy_or_intent_claims t"
  by (auto simp: forbid_policy_or_intent_claims_def statement_words_def py_split_blank)

lemma in_set_dropWhile: "c \<in> set s \<Longrightarrow> \<not> P c \<Longrightarrow> c \<in> set (dropWhile P s)"
  by (induction s) auto

lemma prohibited_terms_no_digit: "\<forall>w \<in> set prohibited_terms. \<forall>c \<in> set w. \<not> py_digit c"
  by code_simp

lemma word_with_digit_allowed:
  assumes "c \<in> set w" and "py_digit c"
  shows "py_lower (py_strip_of ''.,:;!?()[]'' w) \<notin> set prohibited_terms"
proof -
  have "c \<notin> set ''.,:;!?()[]''"
    using assms(2) by (auto simp: py_digit_def Let_def)
  then have "c \<in> set (py_strip_of ''.,:;!?()[]'' w)"
    using assms(1) by (simp add: py_strip_of_def in_set_dropWhile)
  moreover have "py_lower_char c = c"
    using assms(2) by (auto simp: py_lower_char_def py_digit_def Let_def)
  ultimately have "c \<in> set (py_lower (py_strip_of ''.,:;!?()[]'' w))"
    by (force simp: py_lower_def)
  with assms(2) prohibited_terms_no_digit show ?thesis by blast
qed

lemma py_split_from_chunk:
  "acc \<noteq> [] \<Longrightarrow> \<exists>u. py_split_from acc s = (rev acc @ u) # py_split (dropWhile (\<lambda>c. \<not> py_space c) s)"
proof (induction s arbitrary: acc)
  case Nil
  then show ?case by (simp add: py_split_def)
next
  case (Cons c s)
  show ?case
  proof (cases "py_space c")
    case True
    with Cons.prems show ?thesis by (simp add: py_split_def)
  next
    case False
    from Cons.IH [of "c # acc"] obtain u where
      "py_split_from (c # acc) s = (rev (c # acc) @ u) # py_split (dropWhile (\<lambda>c. \<not> py_space c) s)"
      by blast
    with False show ?thesis by simp
  qed
qed

lemma py_split_dropWhile_subset:
  "set (py_split (dropWhile (\<lambda>c. \<not> py_space c) s)) \<subseteq> set (py_split s)"
proof (cases s)
  case (Cons c s')
  show ?thesis
  proof (cases "py_space c")
    case False
    then show ?thesis
      using py_split_from_chunk [of "[c]" s'] Cons by (auto simp: py_split_def)
  qed (simp add: Cons)
qed simp

lemma py_split_from_app_solid:
  "\<forall>c \<in> set r. \<not> py_space c \<Longrightarrow> py_split_from acc (r @ s) = py_split_from (rev r @ acc) s"
  by (induction r arbitrary: acc) auto

text \<open>A rendered number in front of a text only makes its first word longer by digits.\<close>

lemma forbid_number_prefix:
  assumes "\<forall>c \<in> set r. \<not> py_space c" and "c \<in> set r" and "py_digit c"
    and s: "forbid_policy_or_intent_claims s"
  shows "forbid_policy_or_intent_claims (r @ s)"
proof -
  have "rev r \<noteq> []" using assms(2) by auto
  then obtain u where u: "py_split (r @ s) = (r @ u) # py_split (dropWhile (\<lambda>c. \<not> py_space c) s)"
    using py_split_from_chunk [of "rev r" s] py_split_from_app_solid [OF assms(1), of "[]" s]
    by (auto simp: py_split_def)
  have "py_lower (py_strip_of ''.,:;!?()[]'' (r @ u)) \<notin> set prohibited_terms"
    using assms(2,3) by (intro word_with_digit_allowed [of c]) auto
  with s u py_split_dropWhile_subset [of s] show ?thesis
    by (auto simp: forbid_policy_or_intent_claims_def statement_words_def)
qed

lemma forbid_unsupported: "forbid_policy_or_intent_claims (snd (unsupported_statement fc))"
proof -
  obtain c where c: "c \<in> set (str_int fc)" "py_digit c" using str_int_has_digit by blast
  have "snd (unsupported_statement fc)
    = ''Function code'' @ CHR '' '' # (str_int fc @ '' is unsupported by profile 1.0.0.'')"
    by (simp add: unsupported_statement_def)
  moreover have "forbid_policy_or_intent_claims ''Function code''" by code_simp
  moreover have "forbid_policy_or_intent_claims '' is unsupported by profile 1.0.0.''" by code_simp
  ultimately show ?thesis
    using forbid_number_prefix [OF str_int_solid c] by (metis forbid_blank)
qed

lemma forbid_malformed: "forbid_policy_or_intent_claims (snd (malformed_statement r))"
proof -
  have "list_all (\<lambda>r. forbid_policy_or_intent_claims (snd (malformed_statement r)))
    [NONE, ADDRESS_NOT_IN_PROFILE, ADDRESS_INVALID, FUNCTION_NOT_SUPPORTED,
     FUNCTION_TABLE_MISMATCH, POINT_NOT_COMMANDABLE, RAW_VALUE_REQUIRED, RAW_VALUE_TYPE_INVALID,
     RAW_VALUE_OUT_OF_UINT16_RANGE, ENGINEERING_VALUE_OUT_OF_RANGE, PROTOCOL_ID_INVALID,
     SOURCE_EVIDENCE_NOT_VERIFIED, PROFILE_DIGEST_MISMATCH]"
    by code_simp
  then show ?thesis by (cases r) (simp_all only: list.pred_inject)
qed

lemma forbid_unmapped:
  "forbid_policy_or_intent_claims (snd (unmapped_statement (Some (TableType_value t)) (Some off)))"
proof -
  obtain c where c: "c \<in> set (str_int off)" "py_digit c" using str_int_has_digit by blast
  have "snd (unmapped_statement (Some (TableType_value t)) (Some off))
    = ''No mapping exists for synthetic address'' @ CHR '' '' #
      ((TableType_value t @ '':'' @ str_int off) @ '' in profile 1.0.0.'')"
    by (simp add: unmapped_statement_def str_option_def)
  moreover have "forbid_policy_or_intent_claims ''No mapping exists for synthetic address''"
    by code_simp
  moreover have "forbid_policy_or_intent_claims '' in profile 1.0.0.''" by code_simp
  moreover have "\<forall>ch \<in> set (TableType_value t @ '':'' @ str_int off). \<not> py_space ch"
    using str_int_solid by (cases t) (auto simp: py_space_def)
  moreover have "c \<in> set (TableType_value t @ '':'' @ str_int off)" using c by simp
  ultimately show ?thesis
    using forbid_number_prefix c(2) by (metis forbid_blank)
qed

section \<open>The approved profile decodes without raising\<close>

definition v1_point_shape :: "PointDefinition \<Rightarrow> bool" where
  "v1_point_shape p =
     (forbid_policy_or_intent_claims (pt_component p)
      \<and> forbid_policy_or_intent_claims (pt_display_label p)
      \<and> forbid_policy_or_intent_claims (pt_unit p @ ''.'')
      \<and> (case pt_scale p of
            None \<Rightarrow> pt_logical_type p = LogicalType.BOOLEAN
          | Some s \<Rightarrow> pt_logical_type p = LogicalType.DECIMAL
              \<and> s = Dec 1 (- int (pt_decimal_places p))))"

lemma v1_points_shape: "list_all v1_point_shape (mp_points oil_gas_modbus_v1)"
  by code_simp

lemma dec_mult_scale:
  assumes "0 \<le> raw" "raw \<le> 65535"
  shows "dec_mult (dec_of_int raw) (Dec 1 (- int d)) = Dec raw (- int d)"
    and "dec_quantize (Dec raw (- int d)) d = Some raw"
proof -
  have "ndigits (nat \<bar>raw\<bar>) \<le> 5" using assms by (intro ndigits_bound) auto
  then have "ndigits (nat \<bar>raw\<bar>) \<le> dec_precision" by (simp add: dec_precision_def)
  then show "dec_mult (dec_of_int raw) (Dec 1 (- int d)) = Dec raw (- int d)"
    and "dec_quantize (Dec raw (- int d)) d = Some raw"
    by (simp_all add: dec_of_int_def dec_fix_exact Let_def)
qed

lemma forbid_mapped:
  assumes p: "v1_point_shape p" and v: "decode_value rv p = (Some v, NONE)"
  shows "\<exists>ts. mapped_statement p fc v = Inr ts \<and> forbid_policy_or_intent_claims (snd ts)"
proof (cases v)
  case (DecodedBool b)
  have "snd (''STATE_OBSERVED'',
      pt_component p @ '' '' @ pt_display_label p @ '' was observed as '' @ s @ ''.'')
    = pt_component p @ CHR '' '' # (pt_display_label p @ CHR '' '' # (''was observed as '' @ s @ ''.''))"
    for s by simp
  moreover have "forbid_policy_or_intent_claims (''was observed as '' @ ''running'' @ ''.'')"
    "forbid_policy_or_intent_claims (''was observed as '' @ ''stopped'' @ ''.'')" by code_simp+
  ultimately show ?thesis
    using p DecodedBool by (cases b) (auto simp only: mapped_statement.simps v1_point_shape_def
        forbid_blank if_True if_False snd_conv sum.inject)
next
  case (DecodedDecimal d)
  then obtain raw s where raw: "0 \<le> raw" "raw \<le> 65535" and s: "pt_scale p = Some s"
    and d: "d = dec_mult (dec_of_int raw) s"
    using v by (auto simp: decode_value_Some_iff split: if_splits)
  let ?r = "format_fixed raw (pt_decimal_places p)"
  have r: "format_decimal d (pt_decimal_places p) = Inr ?r"
    using p s raw d by (simp add: v1_point_shape_def format_decimal_def dec_mult_scale
        del: dec_mult.simps dec_quantize.simps)
  obtain c where c: "c \<in> set ?r" "py_digit c" using format_fixed_has_digit by blast
  have unit: "forbid_policy_or_intent_claims (?r @ (pt_unit p @ ''.''))"
    "forbid_policy_or_intent_claims (?r @ CHR '' '' # (pt_unit p @ ''.''))"
    "forbid_policy_or_intent_claims ?r"
    using forbid_number_prefix [OF format_fixed_solid c, of "pt_unit p @ ''.''"]
      forbid_number_prefix [OF format_fixed_solid c, of "[]"] p
    by (simp_all add: v1_point_shape_def forbid_blank, simp_all add: forbid_policy_or_intent_claims_def
        statement_words_def py_split_def)
  have verbs: "forbid_policy_or_intent_claims ''changed to''"
    "forbid_policy_or_intent_claims ''was read as''"
    "forbid_policy_or_intent_claims ''was observed at''" by code_simp+
  have split: "pt_component p @ '' '' @ pt_display_label p @ (CHR '' '' # verb @ '' '') @ t
    = pt_component p @ CHR '' '' # (pt_display_label p @ CHR '' '' # (verb @ CHR '' '' # t))"
    for verb t by simp
  have "forbid_policy_or_intent_claims
      (pt_component p @ '' '' @ pt_display_label p @ (CHR '' '' # verb @ '' '') @ t)"
    if "forbid_policy_or_intent_claims verb" "forbid_policy_or_intent_claims t" for verb t
    using that p by (simp only: split forbid_blank v1_point_shape_def)
  from this [OF verbs(1) unit(1)] this [OF verbs(2) unit(1)] this [OF verbs(3) unit(2)]
  show ?thesis by (simp add: DecodedDecimal r)
qed

lemma forbid_not_commandable:
  assumes "v1_point_shape p"
  shows "forbid_policy_or_intent_claims (snd (not_commandable_statement p))"
proof -
  let ?tail = "''is read-only; the synthetic write was not interpreted as a command.''"
  have "snd (not_commandable_statement p)
    = pt_component p @ CHR '' '' # (pt_display_label p @ CHR '' '' # ?tail)"
    by (simp add: not_commandable_statement_def)
  moreover have "forbid_policy_or_intent_claims ?tail" by code_simp
  ultimately show ?thesis
    using assms by (simp only: forbid_blank v1_point_shape_def)
qed

text \<open>What a caller hands the decoder: a validated event, the approved profile and hex digests.\<close>

definition decode_ready :: "SyntheticModbusEvent \<Rightarrow> LoadedProfile \<Rightarrow> DecodeContext \<Rightarrow> bool" where
  "decode_ready ev lp dc =
     (valid_event ev \<and> lp_profile lp = oil_gas_modbus_v1 \<and> is_sha256 (lp_sha256 lp)
      \<and> is_sha256 (dc_source_evidence_integrity_sha256 dc))"

lemma build_result_ready:
  assumes "decode_ready ev lp dc" and "forbid_policy_or_intent_claims (snd ts)"
  shows "\<exists>e. build_result ev lp dc cat sem cp st rs pt dv ts = Inr e"
  using assms
  by (simp add: build_result_def Let_def validate_semantic_event_def build_event_def decode_ready_def
      valid_event_def oil_gas_modbus_v1_def PROFILE_ID_def PROFILE_VERSION_def)

lemma neutral_result_ready:
  assumes "decode_ready ev lp dc"
    and "st = UNMAPPED \<Longrightarrow>
      \<exists>t off. me_table_type ev = Some (TableType_value t) \<and> me_address_offset ev = Some off"
  shows "\<exists>e. neutral_result ev lp dc st rs cat sem = Inr e"
  unfolding neutral_result_def
  using assms forbid_unsupported forbid_malformed forbid_unmapped
  by (intro build_result_ready) (auto split: InterpretationStatus.splits)

lemma v1_mapping_shape:
  "lp_profile lp = oil_gas_modbus_v1 \<Longrightarrow> mapping lp k = Some p \<Longrightarrow> v1_point_shape p"
  using v1_points_shape by (auto simp: mapping_def list_all_iff dest!: dict_of_SomeD)

lemma mapped_result_ready:
  assumes "decode_ready ev lp dc" "v1_point_shape p" "decode_value rv p = (Some v, NONE)"
  shows "\<exists>e. rbind (mapped_statement p fc v)
    (\<lambda>ts. build_result ev lp dc cat sem cp st rs pt dv ts) = Inr e"
  using forbid_mapped [OF assms(2,3), of fc] build_result_ready [OF assms(1)] by fastforce

lemma decode_event_ready:
  assumes "decode_ready ev lp dc"
  shows "\<exists>e. decode_event ev lp dc expected verified = Inr e"
proof -
  note neutral = neutral_result_ready [OF assms]
  have shape: "mapping lp k = Some p \<Longrightarrow> v1_point_shape p" for k p
    using assms v1_mapping_shape by (metis decode_ready_def)
  have decoded: "\<exists>e. (case decode_value rv p of
        (Some v, NONE) \<Rightarrow> rbind (mapped_statement p fc v) (\<lambda>ts.
          build_result ev lp dc cat sem COMPATIBLE MAPPED NONE pt (Some v) ts)
      | (_, reason) \<Rightarrow> neutral_result ev lp dc MALFORMED reason cat sem) = Inr e"
    if "v1_point_shape p" for rv p fc cat sem pt
  proof (cases "decode_value rv p")
    case (Pair dv r)
    show ?thesis
    proof (cases dv)
      case None
      with Pair neutral [of MALFORMED] show ?thesis by simp
    next
      case (Some v)
      with Pair have "r = NONE" by (auto dest: decode_value_no_reason)
      with Pair Some mapped_result_ready [OF assms that, of rv v] show ?thesis by simp
    qed
  qed
  show ?thesis
    unfolding decode_event_def Let_def
    by (intro returns_if returns_option neutral decoded build_result_ready [OF assms]
        forbid_not_commandable)
      (auto simp: bind_TableType_of dest: shape)
qed

section \<open>The S3 command fixture\<close>

text \<open>
  The event of \<open>fixtures/events/phase-4b-synthetic-modbus/p4b-s3-valve-command-25.json\<close>, decoded
  under the approved profile: the input at which the properties below are instantiated.
\<close>

definition s3_valve_command_25 :: SyntheticModbusEvent where
  "s3_valve_command_25 = \<lparr>
     me_event_version = ''1.0.0'', me_capture_mode = OFFLINE_FIXTURE,
     me_observed_at = 1767226200000000,
     me_source_identity = ''OTSOC-LAB-SOURCE-03'', me_destination_identity = ''OTSOC-MB-UNIT-01'',
     me_transaction_id = 300, me_protocol_id = 0, me_unit_id = 1, me_message_role = OPERATION,
     me_function_code = 6, me_table_type = Some ''holding_register'',
     me_address_offset = Some 1, me_raw_value = RawInt 250,
     me_fixture_id = ''p4b-s3-valve-command-25''\<rparr>"

definition zero_digest :: digest where
  "zero_digest = replicate 64 CHR ''0''"

definition v1_loaded :: LoadedProfile where
  "v1_loaded = \<lparr>lp_profile = oil_gas_modbus_v1, lp_sha256 = zero_digest\<rparr>"

definition fixture_context :: DecodeContext where
  "fixture_context = \<lparr>dc_semantic_event_id = ''semantic'', dc_source_evidence_id = ''raw'',
     dc_source_evidence_integrity_sha256 = zero_digest, dc_created_at = 1767226200000000\<rparr>"

definition s3_decoded :: "DecodeError + ProtocolSemanticEvent" where
  "s3_decoded = decode_event s3_valve_command_25 v1_loaded fixture_context (Some zero_digest) True"

definition s3_semantic :: ProtocolSemanticEvent where
  "s3_semantic = build_event s3_valve_command_25 v1_loaded fixture_context OperationCategory.WRITE
     (Some WRITE_SINGLE_REGISTER) COMPATIBLE MAPPED NONE (Some point_control_valve_command_percent)
     (Some (DecodedDecimal (Dec 250 (- 1))))
     (''COMMAND_CHANGED_TO'', ''CV-101 valve-position command changed to 25.0% open.'')"

lemma s3_decoded_eq: "s3_decoded = Inr s3_semantic"
  by code_simp

section \<open>Properties\<close>



text \<open>
  No write is ever interpreted as a command to a read-only point: whatever the profile, a
  decoded value on a write operation belongs to a commandable point.
\<close>

theorem write_decodes_only_commandable:
  assumes "decode_event ev lp dc expected verified = Inr e"
    and "se_operation_category e = OperationCategory.WRITE"
    and "se_decoded_value e \<noteq> None"
  shows "se_point_access_class e = Some COMMANDABLE_SYNTHETIC"
proof -
  from decode_event_compatibleD [OF assms(1) decode_event_decodedD [OF assms(1,3)]]
  obtain f p v ts where acc: "accepts ev lp expected verified f p v"
    and e: "e = build_event ev lp dc (sf_category f) (Some (sf_semantic f)) COMPATIBLE MAPPED NONE
        (Some p) (Some v) ts" by blast
  from acc assms(2) e have "pt_access_class p \<noteq> READ_ONLY" by (simp add: accepts_def)
  with e show ?thesis by (cases "pt_access_class p") auto
qed

theorem write_decodes_only_commandable_witness:
  "s3_decoded = Inr s3_semantic \<and> se_point_access_class s3_semantic = Some COMMANDABLE_SYNTHETIC"
proof -
  have d: "decode_event s3_valve_command_25 v1_loaded fixture_context (Some zero_digest) True
      = Inr s3_semantic"
    using s3_decoded_eq by (simp add: s3_decoded_def)
  show ?thesis
    using write_decodes_only_commandable [OF d] s3_decoded_eq by (simp add: s3_semantic_def)
qed

text \<open>
  C3. A decoded decimal is the raw register value times the point's scale and stands within the
  point's engineering limits, and the raw value fits an unsigned 16-bit register; nothing else is
  ever reported as decoded.
\<close>

theorem decoded_within_engineering_bounds:
  assumes "decode_event ev lp dc expected verified = Inr e"
    and "se_decoded_value e = Some (DecodedDecimal d)"
  shows "\<exists>p raw s. p \<in> set (mp_points (lp_profile lp)) \<and> se_point_id e = Some (pt_point_id p)
     \<and> me_raw_value ev = RawInt raw \<and> 0 \<le> raw \<and> raw < 2 ^ 16 \<and> pt_scale p = Some s
     \<and> d = dec_mult (dec_of_int raw) s
     \<and> dec_val (pt_engineering_min p) \<le> dec_val d \<and> dec_val d \<le> dec_val (pt_engineering_max p)"
proof -
  from decode_event_compatibleD [OF assms(1) decode_event_decodedD [OF assms(1)]] assms(2)
  obtain f p v ts where acc: "accepts ev lp expected verified f p v"
    and e: "e = build_event ev lp dc (sf_category f) (Some (sf_semantic f)) COMPATIBLE MAPPED NONE
        (Some p) (Some v) ts" by blast
  from acc have p: "p \<in> set (mp_points (lp_profile lp))"
    and v: "decode_value (me_raw_value ev) p = (Some v, NONE)" by (simp_all add: accepts_def)
  from e assms(2) have "v = DecodedDecimal d" by simp
  with v p e show ?thesis
    by (auto simp: decode_value_Some_iff dec_less_def not_less split: if_splits)
qed

theorem decoded_within_engineering_bounds_witness:
  "\<exists>p raw s. p \<in> set (mp_points oil_gas_modbus_v1) \<and> se_point_id s3_semantic = Some (pt_point_id p)
     \<and> me_raw_value s3_valve_command_25 = RawInt raw \<and> 0 \<le> raw \<and> raw < 2 ^ 16 \<and> pt_scale p = Some s
     \<and> dec_val (Dec 250 (- 1)) \<le> dec_val (pt_engineering_max p)"
proof -
  have d: "decode_event s3_valve_command_25 v1_loaded fixture_context (Some zero_digest) True
      = Inr s3_semantic"
    using s3_decoded_eq by (simp add: s3_decoded_def)
  have v: "se_decoded_value s3_semantic = Some (DecodedDecimal (Dec 250 (- 1)))"
    by (simp add: s3_semantic_def)
  have "lp_profile v1_loaded = oil_gas_modbus_v1" by (simp add: v1_loaded_def)
  with decoded_within_engineering_bounds [OF d v] show ?thesis by metis
qed

text \<open>
  C4. Under the approved profile the decoder never raises: every validated event, whatever its
  function, address or value, gets a semantic event, and its statement passes the validator that
  forbids policy and intent claims.
\<close>

theorem decode_never_raises:
  assumes "decode_ready ev lp dc"
  shows "\<exists>e. decode_event ev lp dc expected verified = Inr e
     \<and> forbid_policy_or_intent_claims (se_semantic_statement e)"
  using decode_event_ready [OF assms, of expected verified] decode_event_validated
  by (auto simp: validate_semantic_event_def)

theorem decode_never_raises_witness:
  "\<exists>e. decode_event s3_valve_command_25 v1_loaded fixture_context None False = Inr e
     \<and> forbid_policy_or_intent_claims (se_semantic_statement e)"
proof (rule decode_never_raises)
  show "decode_ready s3_valve_command_25 v1_loaded fixture_context" by code_simp
qed

text \<open>
  Decoding loses nothing: over the approved profile two register values that decode to the
  same value at a point are the same register value.
\<close>

theorem decode_value_injective:
  assumes "p \<in> set (mp_points oil_gas_modbus_v1)"
    and "decode_value (RawInt a) p = (Some v, NONE)" and "decode_value (RawInt b) p = (Some v, NONE)"
  shows "a = b"
proof -
  have "v1_point_shape p" using assms(1) v1_points_shape by (simp add: list_all_iff)
  with assms(2,3) show ?thesis
    by (auto simp: decode_value_Some_iff v1_point_shape_def dec_mult_scale
        simp del: dec_mult.simps decode_value.simps split: if_splits)
qed

theorem decode_value_injective_witness:
  "\<exists>v. decode_value (RawInt 250) point_control_valve_command_percent = (Some v, NONE)
     \<and> (\<forall>b. decode_value (RawInt b) point_control_valve_command_percent = (Some v, NONE) \<longrightarrow> b = 250)"
proof (intro exI conjI allI impI)
  show v: "decode_value (RawInt 250) point_control_valve_command_percent
      = (Some (DecodedDecimal (Dec 250 (- 1))), NONE)" by code_simp
  have p: "point_control_valve_command_percent \<in> set (mp_points oil_gas_modbus_v1)"
    by (simp add: oil_gas_modbus_v1_def)
  fix b assume "decode_value (RawInt b) point_control_valve_command_percent
      = (Some (DecodedDecimal (Dec 250 (- 1))), NONE)"
  then show "b = 250" by (rule decode_value_injective [OF p _ v])
qed

end
