(* ===== verification/Py_Hash.thy ===== *)
theory Py_Hash
  imports Py_Std "HOL-Library.Word"
begin

text \<open>
  The digests the program takes from Python's standard library: SHA-256 (\<open>hashlib.sha256\<close>), SHA-1
  as \<open>uuid.uuid5\<close> uses it, UTF-8 encoding, hexadecimal rendering and name-based UUIDs. A byte is an
  \<open>8 word\<close>, a digest is rendered as the lower-case hexadecimal string Python returns, and a UUID is
  its canonical 36-character string.
\<close>

unbundle bit_operations_syntax

type_synonym byte = "8 word"

section \<open>Bytes and hexadecimal\<close>

text \<open>UTF-8 of code points below 256: one byte below 128, two bytes above.\<close>

definition utf8_char :: "char \<Rightarrow> byte list" where
  "utf8_char c = (let n = of_char c :: int in
     if n < 128 then [of_int n] else [of_int (192 + n div 64), of_int (128 + n mod 64)])"

definition utf8 :: "string \<Rightarrow> byte list" where
  "utf8 s = concat (map utf8_char s)"

definition hex_digit :: "int \<Rightarrow> char" where
  "hex_digit n = (if n < 10 then char_of (48 + n) else char_of (87 + n))"

definition hex_byte :: "byte \<Rightarrow> string" where
  "hex_byte b = [hex_digit (uint b div 16), hex_digit (uint b mod 16)]"

definition hexdigest :: "byte list \<Rightarrow> string" where
  "hexdigest bs = concat (map hex_byte bs)"

fun be_bytes :: "nat \<Rightarrow> int \<Rightarrow> byte list" where
  "be_bytes 0 n = []"
| "be_bytes (Suc k) n = be_bytes k (n div 256) @ [of_int (n mod 256)]"

definition word_of_bytes :: "byte list \<Rightarrow> 32 word" where
  "word_of_bytes bs = of_int (foldl (\<lambda>acc b. acc * 256 + uint b) 0 bs)"

section \<open>Merkle-Damgaard padding and blocks\<close>

definition md_pad :: "byte list \<Rightarrow> byte list" where
  "md_pad m = m @ [0x80] @ replicate ((119 - length m mod 64) mod 64) 0 @ be_bytes 8 (8 * int (length m))"

fun chunk_words :: "nat \<Rightarrow> byte list \<Rightarrow> 32 word list" where
  "chunk_words 0 bs = []"
| "chunk_words (Suc k) bs = word_of_bytes (take 4 bs) # chunk_words k (drop 4 bs)"

definition blocks :: "byte list \<Rightarrow> 32 word list list" where
  "blocks bs = map (\<lambda>i. chunk_words 16 (drop (64 * i) bs)) [0..<length bs div 64]"

section \<open>SHA-256\<close>

text \<open>The round constants and the initial state, in decimal.\<close>

definition sha256_k :: "32 word list" where
  "sha256_k = [
      1116352408, 1899447441, 3049323471, 3921009573, 961987163, 1508970993, 2453635748, 2870763221,
      3624381080, 310598401, 607225278, 1426881987, 1925078388, 2162078206, 2614888103, 3248222580,
      3835390401, 4022224774, 264347078, 604807628, 770255983, 1249150122, 1555081692, 1996064986,
      2554220882, 2821834349, 2952996808, 3210313671, 3336571891, 3584528711, 113926993, 338241895,
      666307205, 773529912, 1294757372, 1396182291, 1695183700, 1986661051, 2177026350, 2456956037,
      2730485921, 2820302411, 3259730800, 3345764771, 3516065817, 3600352804, 4094571909, 275423344,
      430227734, 506948616, 659060556, 883997877, 958139571, 1322822218, 1537002063, 1747873779,
      1955562222, 2024104815, 2227730452, 2361852424, 2428436474, 2756734187, 3204031479, 3329325298]"

definition sha256_init :: "32 word list" where
  "sha256_init = [1779033703, 3144134277, 1013904242, 2773480762, 1359893119, 2600822924, 528734635, 1541459225]"

text \<open>The message schedule, newest word first.\<close>

fun sha256_schedule :: "nat \<Rightarrow> 32 word list \<Rightarrow> 32 word list" where
  "sha256_schedule 0 ws = ws"
| "sha256_schedule (Suc k) ws =
     (let w15 = ws ! 14; w2 = ws ! 1;
          s0 = word_rotr 7 w15 XOR word_rotr 18 w15 XOR drop_bit 3 w15;
          s1 = word_rotr 17 w2 XOR word_rotr 19 w2 XOR drop_bit 10 w2
      in sha256_schedule k ((ws ! 15 + s0 + ws ! 6 + s1) # ws))"

fun sha256_round :: "32 word list \<Rightarrow> 32 word \<times> 32 word \<Rightarrow> 32 word list" where
  "sha256_round [a, b, c, d, e, f, g, h] (k, w) =
     (let s1 = word_rotr 6 e XOR word_rotr 11 e XOR word_rotr 25 e;
          ch = (e AND f) XOR (NOT e AND g);
          t1 = h + s1 + ch + k + w;
          s0 = word_rotr 2 a XOR word_rotr 13 a XOR word_rotr 22 a;
          maj = (a AND b) XOR (a AND c) XOR (b AND c)
      in [t1 + (s0 + maj), a, b, c, d + t1, e, f, g])"
| "sha256_round st _ = st"

definition sha256_block :: "32 word list \<Rightarrow> 32 word list \<Rightarrow> 32 word list" where
  "sha256_block st block = map2 (+) st
     (foldl sha256_round st (zip sha256_k (rev (sha256_schedule 48 (rev block)))))"

definition sha256 :: "byte list \<Rightarrow> byte list" where
  "sha256 m = concat (map (\<lambda>w. be_bytes 4 (uint w)) (foldl sha256_block sha256_init (blocks (md_pad m))))"

definition sha256_hex :: "byte list \<Rightarrow> digest" where
  "sha256_hex content = hexdigest (sha256 content)"

section \<open>SHA-1 and name-based UUIDs\<close>

definition sha1_init :: "32 word list" where
  "sha1_init = [0x67452301, 0xefcdab89, 0x98badcfe, 0x10325476, 0xc3d2e1f0]"

fun sha1_schedule :: "nat \<Rightarrow> 32 word list \<Rightarrow> 32 word list" where
  "sha1_schedule 0 ws = ws"
| "sha1_schedule (Suc k) ws =
     sha1_schedule k (word_rotl 1 (ws ! 2 XOR ws ! 7 XOR ws ! 13 XOR ws ! 15) # ws)"

definition sha1_f :: "nat \<Rightarrow> 32 word \<Rightarrow> 32 word \<Rightarrow> 32 word \<Rightarrow> 32 word \<times> 32 word" where
  "sha1_f t b c d =
     (if t < 20 then ((b AND c) OR (NOT b AND d), 0x5a827999)
      else if t < 40 then (b XOR c XOR d, 0x6ed9eba1)
      else if t < 60 then ((b AND c) OR (b AND d) OR (c AND d), 0x8f1bbcdc)
      else (b XOR c XOR d, 0xca62c1d6))"

fun sha1_round :: "32 word list \<Rightarrow> nat \<times> 32 word \<Rightarrow> 32 word list" where
  "sha1_round [a, b, c, d, e] (t, w) =
     (let (f, k) = sha1_f t b c d in [word_rotl 5 a + f + e + k + w, a, word_rotl 30 b, c, d])"
| "sha1_round st _ = st"

definition sha1_block :: "32 word list \<Rightarrow> 32 word list \<Rightarrow> 32 word list" where
  "sha1_block st block = map2 (+) st
     (foldl sha1_round st (zip [0..<80] (rev (sha1_schedule 64 (rev block)))))"

definition sha1 :: "byte list \<Rightarrow> byte list" where
  "sha1 m = concat (map (\<lambda>w. be_bytes 4 (uint w)) (foldl sha1_block sha1_init (blocks (md_pad m))))"

definition hex_value :: "char \<Rightarrow> int" where
  "hex_value c = (let n = of_char c :: int in if n < 58 then n - 48 else n - 87)"

fun unhex :: "string \<Rightarrow> byte list" where
  "unhex (a # b # s) = of_int (16 * hex_value a + hex_value b) # unhex s"
| "unhex _ = []"

definition uuid_bytes :: "uuid \<Rightarrow> byte list" where
  "uuid_bytes u = unhex (filter (\<lambda>c. c \<noteq> CHR ''-'') u)"

definition uuid_string :: "byte list \<Rightarrow> uuid" where
  "uuid_string bs = (let h = hexdigest bs in
     take 8 h @ ''-'' @ take 4 (drop 8 h) @ ''-'' @ take 4 (drop 12 h) @ ''-'' @
     take 4 (drop 16 h) @ ''-'' @ take 12 (drop 20 h))"

text \<open>\<open>uuid.uuid5\<close>: the first 16 bytes of the SHA-1 of the namespace and the name, with the version
  and variant bits set.\<close>

definition uuid5 :: "uuid \<Rightarrow> string \<Rightarrow> uuid" where
  "uuid5 namespace name =
     (let bs = take 16 (sha1 (uuid_bytes namespace @ utf8 name)) in
      uuid_string (bs[6 := (bs ! 6 AND 0x0f) OR 0x50, 8 := (bs ! 8 AND 0x3f) OR 0x80]))"

definition NAMESPACE_URL :: uuid where
  "NAMESPACE_URL = ''6ba7b811-9dad-11d1-80b4-00c04fd430c8''"

section \<open>Shape of digests and UUIDs\<close>

text \<open>A digest is 64 characters of \<open>[0-9a-f]\<close>, a name-based UUID 36 of \<open>[0-9a-f-]\<close>.\<close>

definition hex_char :: "char \<Rightarrow> bool" where
  "hex_char c = (py_digit c \<or> (let n = of_char c :: nat in 97 \<le> n \<and> n \<le> 102))"

lemma hex_digit_hex: "0 \<le> n \<Longrightarrow> n < 16 \<Longrightarrow> hex_char (hex_digit n)"
proof -
  assume "0 \<le> n" "n < 16"
  then have "n \<in> set [0..15]" by simp
  moreover have "list_all (\<lambda>n. hex_char (hex_digit n)) [0..15]" by code_simp
  ultimately show ?thesis by (simp only: list_all_iff)
qed

lemma hex_byte_hex: "list_all hex_char (hex_byte b)" "length (hex_byte b) = 2"
proof -
  have "uint b < 256" using uint_lt2p [of b] by simp
  then have "uint b div 16 < 16" by presburger
  then show "list_all hex_char (hex_byte b)"
    by (simp add: hex_byte_def hex_digit_hex pos_imp_zdiv_nonneg_iff)
qed (simp add: hex_byte_def)

lemma hexdigest_hex: "list_all hex_char (hexdigest bs)"
  using hex_byte_hex by (induction bs) (simp_all add: hexdigest_def)

lemma length_hexdigest [simp]: "length (hexdigest bs) = 2 * length bs"
  by (induction bs) (simp_all add: hexdigest_def hex_byte_hex)

lemma length_be_bytes [simp]: "length (be_bytes k n) = k"
  by (induction k arbitrary: n) simp_all

lemma length_sha256_round [simp]: "length (sha256_round st kw) = length st"
  by (cases "(st, kw)" rule: sha256_round.cases) (simp_all add: Let_def)

lemma length_sha1_round [simp]: "length (sha1_round st tw) = length st"
  by (cases "(st, tw)" rule: sha1_round.cases) (simp_all add: Let_def split: prod.splits)

lemma length_foldl_same:
  "(\<And>s x. length (f s x) = length s) \<Longrightarrow> length (foldl f st xs) = length st"
  by (induction xs arbitrary: st) simp_all

lemma length_concat_const:
  "(\<And>x. length (f x) = k) \<Longrightarrow> length (concat (map f xs)) = k * length xs"
  by (induction xs) simp_all

lemma length_sha256 [simp]: "length (sha256 m) = 32"
  by (simp add: sha256_def length_concat_const [where k = 4] length_foldl_same sha256_block_def sha256_init_def)

lemma length_sha1 [simp]: "length (sha1 m) = 20"
  by (simp add: sha1_def length_concat_const [where k = 4] length_foldl_same sha1_block_def sha1_init_def)

lemma sha256_hex_shape: "length (sha256_hex m) = 64" "\<forall>c \<in> set (sha256_hex m). hex_char c"
  using hexdigest_hex by (simp_all add: sha256_hex_def list_all_iff)

lemma uuid_string_shape:
  assumes "length bs = 16"
  shows "length (uuid_string bs) = 36" "\<forall>c \<in> set (uuid_string bs). hex_char c \<or> c = CHR ''-''"
proof -
  have "\<forall>c \<in> set (hexdigest bs). hex_char c" using hexdigest_hex by (simp add: list_all_iff)
  then show "\<forall>c \<in> set (uuid_string bs). hex_char c \<or> c = CHR ''-''"
    by (auto simp: uuid_string_def Let_def dest!: in_set_takeD in_set_dropD)
qed (use assms in \<open>simp add: uuid_string_def Let_def\<close>)

lemma uuid5_shape: "length (uuid5 ns name) = 36" "\<forall>c \<in> set (uuid5 ns name). hex_char c \<or> c = CHR ''-''"
proof -
  let ?bs = "take 16 (sha1 (uuid_bytes ns @ utf8 name))"
  have "length (?bs[6 := (?bs ! 6 AND 0x0f) OR 0x50, 8 := (?bs ! 8 AND 0x3f) OR 0x80]) = 16"
    by simp
  from uuid_string_shape [OF this]
  show "length (uuid5 ns name) = 36" "\<forall>c \<in> set (uuid5 ns name). hex_char c \<or> c = CHR ''-''"
    by (simp_all only: uuid5_def Let_def)
qed

text \<open>The SHA-256 test vector of FIPS 180-4.\<close>

lemma sha256_abc:
  "sha256_hex (utf8 ''abc'') = ''ba7816bf8f01cfea414140de5dae2223b00361a396177a9cb410ff61f20015ad''"
  by code_simp

end
