(* ===== verification/Inventory.thy ===== *)
theory Inventory
  imports Modbus_Model Py_Hash
begin

text \<open>
  The asset inventory (\<open>app/context/inventory.py\<close> and the first half of \<open>app/context/models.py\<close>),
  exact identity resolution (\<open>app/context/identity.py\<close>), zone lookup (\<open>app/context/zones.py\<close>) and the
  inventory document \<open>profiles/oil_gas_asset_inventory_v1.json\<close>. Enum constructors keep their names,
  the fields of a class carry its prefix. The one-value Literals of the profile that nothing reads
  (domain, disclaimer, educational_only) are left out.
\<close>

section \<open>Enumerations\<close>

datatype AssetKind = CYBER | PROCESS

datatype AssetType =
    OT_CONTROLLER | HUMAN_MACHINE_INTERFACE | ENGINEERING_WORKSTATION | IT_WORKSTATION
  | MONITORING_SENSOR | OT_SOC_PLATFORM | SOURCE_TANK | TRANSFER_PUMP | PIPELINE | CONTROL_VALVE
  | RECEIVING_TANK

datatype AssetRole =
    CONTROL_EXECUTION | OPERATOR_INTERFACE | ENGINEERING_MAINTENANCE | ENTERPRISE_USER
  | PASSIVE_MONITOR | ANALYST_PLATFORM | SOURCE_STORAGE | LIQUID_TRANSFER | TRANSFER_PATH
  | FLOW_CONTROL | DESTINATION_STORAGE

datatype ZoneId = IT_ZONE | OT_CONTROL_ZONE | PROCESS_ZONE | MONITORING_ZONE | SOC_ZONE

fun ZoneId_value :: "ZoneId \<Rightarrow> string" where
  "ZoneId_value IT_ZONE = ''IT_ZONE''"
| "ZoneId_value OT_CONTROL_ZONE = ''OT_CONTROL_ZONE''"
| "ZoneId_value PROCESS_ZONE = ''PROCESS_ZONE''"
| "ZoneId_value MONITORING_ZONE = ''MONITORING_ZONE''"
| "ZoneId_value SOC_ZONE = ''SOC_ZONE''"

datatype TrustClassification =
    NO_OT_CONTROL_TRUST | LIMITED_CONTROL_TRUST | NON_NETWORK_PROCESS_CONTEXT
  | PASSIVE_OBSERVATION_ONLY | READ_ONLY_ANALYST_CONTEXT

datatype Criticality = LOW | MEDIUM | HIGH | CRITICAL

datatype IdentifierType = LOGICAL_ID | PROTOCOL_ENDPOINT_ID | PROCESS_TAG

datatype RelationshipType = HOSTS_ENDPOINT | CONTROLS | OBSERVES | MONITORS

datatype RelationshipTargetKind = ASSET | ENDPOINT

datatype ResolutionStatus = RESOLVED | UNKNOWN | CONFLICT

section \<open>Field constraints\<close>

text \<open>SafeKey has the pattern and the lengths of BoundedIdentity.\<close>

definition safe_key :: "string \<Rightarrow> bool" where
  "safe_key s = bounded_identity s"

text \<open>\<open>^[0-9]+\.[0-9]+\.[0-9]+$\<close>.\<close>

definition sem_ver :: "string \<Rightarrow> bool" where
  "sem_ver s = (let ws = split_on CHR ''.'' s in
     length ws = 3 \<and> (\<forall>w \<in> set ws. w \<noteq> [] \<and> list_all py_digit w))"

text \<open>\<open>^[A-Z][A-Z0-9_]*$\<close>.\<close>

definition capability_key :: "string \<Rightarrow> bool" where
  "capability_key s = (s \<noteq> [] \<and> upper_char (hd s)
     \<and> (\<forall>c \<in> set s. upper_char c \<or> py_digit c \<or> c = CHR ''_''))"

definition text_within :: "nat \<Rightarrow> string \<Rightarrow> bool" where
  "text_within n s = (1 \<le> length s \<and> length s \<le> n)"

section \<open>Inventory data\<close>

record Identifier =
  id_identifier_type :: IdentifierType
  id_value :: string

record ZoneDefinition =
  zd_zone_id :: ZoneId
  zd_name :: string
  zd_purpose :: string
  zd_trust_classification :: TrustClassification
  zd_allowed_relationship_types :: "RelationshipType list"

record AssetDefinition =
  ad_asset_key :: string
  ad_display_name :: string
  ad_asset_kind :: AssetKind
  ad_asset_type :: AssetType
  ad_asset_role :: AssetRole
  ad_zone_id :: ZoneId
  ad_criticality :: Criticality
  ad_process_role :: "string option"
  ad_protocol_capabilities :: "string list"
  ad_enabled :: bool
  ad_identifiers :: "Identifier list"

record RelationshipDefinition =
  rd_relationship_type :: RelationshipType
  rd_source_asset_key :: string
  rd_target_kind :: RelationshipTargetKind
  rd_target_ref :: string

record AssetInventoryProfile =
  ip_profile_id :: string
  ip_profile_version :: string
  ip_protocol_profile_id :: string
  ip_protocol_profile_version :: string
  ip_protocol_profile_sha256 :: digest
  ip_zones :: "ZoneDefinition list"
  ip_assets :: "AssetDefinition list"
  ip_relationships :: "RelationshipDefinition list"

record LoadedInventory =
  li_profile :: AssetInventoryProfile
  li_sha256 :: digest

definition INVENTORY_PROFILE_ID :: string where
  "INVENTORY_PROFILE_ID = ''otsoc.asset_inventory.oil_gas_transfer''"

definition INVENTORY_PROFILE_VERSION :: string where
  "INVENTORY_PROFILE_VERSION = ''1.0.0''"

section \<open>Validation\<close>

datatype InventoryError =
    InventoryFieldInvalid
  | UnsupportedInventoryVersion
  | ZonesNotApproved
  | AssetsNotUnique
  | CyberCount
  | ProcessCount
  | DuplicateTypedIdentifier
  | UnknownZone
  | RelationshipSourceMissing
  | RelationshipNotAllowed
  | RelationshipTargetMissing
  | SelfRelationship
  | EndpointTargetMissing
  | DuplicateRelationship

text \<open>The Field constraints of the nested models and of the profile.\<close>

definition valid_identifier :: "Identifier \<Rightarrow> bool" where
  "valid_identifier i = safe_key (id_value i)"

definition valid_zone :: "ZoneDefinition \<Rightarrow> bool" where
  "valid_zone z = (text_within 80 (zd_name z) \<and> text_within 180 (zd_purpose z))"

definition valid_asset :: "AssetDefinition \<Rightarrow> bool" where
  "valid_asset a =
     (safe_key (ad_asset_key a) \<and> text_within 120 (ad_display_name a)
      \<and> (case ad_process_role a of None \<Rightarrow> True | Some r \<Rightarrow> text_within 80 r)
      \<and> list_all capability_key (ad_protocol_capabilities a)
      \<and> 1 \<le> length (ad_identifiers a) \<and> length (ad_identifiers a) \<le> 4
      \<and> list_all valid_identifier (ad_identifiers a))"

definition valid_relationship :: "RelationshipDefinition \<Rightarrow> bool" where
  "valid_relationship r = (safe_key (rd_source_asset_key r) \<and> safe_key (rd_target_ref r))"

definition valid_inventory_fields :: "AssetInventoryProfile \<Rightarrow> bool" where
  "valid_inventory_fields ip =
     (ip_profile_id ip = INVENTORY_PROFILE_ID \<and> sem_ver (ip_profile_version ip)
      \<and> ip_protocol_profile_id ip = PROFILE_ID \<and> ip_protocol_profile_version ip = PROFILE_VERSION
      \<and> is_sha256 (ip_protocol_profile_sha256 ip)
      \<and> length (ip_zones ip) = 5 \<and> list_all valid_zone (ip_zones ip)
      \<and> length (ip_assets ip) = 11 \<and> list_all valid_asset (ip_assets ip)
      \<and> length (ip_relationships ip) = 9 \<and> list_all valid_relationship (ip_relationships ip))"

definition identifier_key :: "Identifier \<Rightarrow> IdentifierType \<times> string" where
  "identifier_key i = (id_identifier_type i, id_value i)"

text \<open>The typed identifiers of the inventory, with the asset each belongs to.\<close>

definition identifier_entries ::
  "AssetDefinition list \<Rightarrow> ((IdentifierType \<times> string) \<times> AssetDefinition) list" where
  "identifier_entries assets =
     concat (map (\<lambda>a. map (\<lambda>i. (identifier_key i, a)) (ad_identifiers a)) assets)"

definition endpoint_values :: "AssetDefinition list \<Rightarrow> string list" where
  "endpoint_values assets =
     map (snd \<circ> fst) (filter (\<lambda>e. fst (fst e) = PROTOCOL_ENDPOINT_ID) (identifier_entries assets))"

definition count_kind :: "AssetKind \<Rightarrow> AssetDefinition list \<Rightarrow> nat" where
  "count_kind k assets = length (filter (\<lambda>a. ad_asset_kind a = k) assets)"

definition validate_relationship :: "AssetInventoryProfile \<Rightarrow> RelationshipDefinition \<Rightarrow> InventoryError + unit" where
  "validate_relationship ip r =
     (case dict_of ad_asset_key (ip_assets ip) (rd_source_asset_key r) of
        None \<Rightarrow> Inl RelationshipSourceMissing
      | Some source \<Rightarrow>
          case dict_of zd_zone_id (ip_zones ip) (ad_zone_id source) of
            None \<Rightarrow> Inl UnknownZone
          | Some zone \<Rightarrow>
              if rd_relationship_type r \<notin> set (zd_allowed_relationship_types zone)
              then Inl RelationshipNotAllowed
              else if rd_target_kind r = ASSET then
                (if dict_of ad_asset_key (ip_assets ip) (rd_target_ref r) = None
                 then Inl RelationshipTargetMissing
                 else if rd_target_ref r = rd_source_asset_key r then Inl SelfRelationship
                 else Inr ())
              else if rd_target_ref r \<notin> set (endpoint_values (ip_assets ip))
              then Inl EndpointTargetMissing else Inr ())"

definition relationship_key ::
  "RelationshipDefinition \<Rightarrow> RelationshipType \<times> string \<times> RelationshipTargetKind \<times> string" where
  "relationship_key r =
     (rd_relationship_type r, rd_source_asset_key r, rd_target_kind r, rd_target_ref r)"

definition all_zone_ids :: "ZoneId list" where
  "all_zone_ids = [IT_ZONE, OT_CONTROL_ZONE, PROCESS_ZONE, MONITORING_ZONE, SOC_ZONE]"

definition validate_inventory_contract :: "AssetInventoryProfile \<Rightarrow> InventoryError + unit" where
  "validate_inventory_contract ip =
     (let zone_ids = map zd_zone_id (ip_zones ip);
          asset_keys = map ad_asset_key (ip_assets ip) in
      if ip_profile_version ip \<noteq> INVENTORY_PROFILE_VERSION then Inl UnsupportedInventoryVersion
      else if card (set zone_ids) \<noteq> 5 \<or> set zone_ids \<noteq> set all_zone_ids then Inl ZonesNotApproved
      else if card (set asset_keys) \<noteq> 11 then Inl AssetsNotUnique
      else if count_kind CYBER (ip_assets ip) \<noteq> 6 then Inl CyberCount
      else if count_kind PROCESS (ip_assets ip) \<noteq> 5 then Inl ProcessCount
      else if \<not> distinct (map fst (identifier_entries (ip_assets ip)))
      then Inl DuplicateTypedIdentifier
      else if \<exists>a \<in> set (ip_assets ip). ad_zone_id a \<notin> set zone_ids then Inl UnknownZone
      else rbind (for_each (validate_relationship ip) (ip_relationships ip)) (\<lambda>_.
        require (distinct (map relationship_key (ip_relationships ip))) DuplicateRelationship))"

definition validate_inventory :: "AssetInventoryProfile \<Rightarrow> InventoryError + unit" where
  "validate_inventory ip =
     (if \<not> valid_inventory_fields ip then Inl InventoryFieldInvalid
      else validate_inventory_contract ip)"

section \<open>The loaded inventory\<close>

definition assets :: "LoadedInventory \<Rightarrow> string \<Rightarrow> AssetDefinition option" where
  "assets li k = dict_of ad_asset_key (ip_assets (li_profile li)) k"

definition zones :: "LoadedInventory \<Rightarrow> string \<Rightarrow> ZoneDefinition option" where
  "zones li k = dict_of (ZoneId_value \<circ> zd_zone_id) (ip_zones (li_profile li)) k"

definition identifier_index :: "LoadedInventory \<Rightarrow> IdentifierType \<times> string \<Rightarrow> AssetDefinition option" where
  "identifier_index li k =
     map_option snd (dict_of fst (identifier_entries (ip_assets (li_profile li))) k)"

section \<open>Identity resolution\<close>

record IdentityClaim =
  ic_identifier_type :: IdentifierType
  ic_value :: string

definition claim_key :: "IdentityClaim \<Rightarrow> IdentifierType \<times> string" where
  "claim_key c = (ic_identifier_type c, ic_value c)"

record AssetResolution =
  ar_status :: ResolutionStatus
  ar_known_asset :: bool
  ar_enabled :: "bool option"
  ar_asset_id :: "uuid option"
  ar_asset_key :: "string option"
  ar_asset_kind :: "AssetKind option"
  ar_asset_type :: "AssetType option"
  ar_asset_role :: "AssetRole option"
  ar_zone_id :: "ZoneId option"
  ar_criticality :: "Criticality option"

definition validate_resolution_shape :: "AssetResolution \<Rightarrow> bool" where
  "validate_resolution_shape r =
     (if ar_status r = RESOLVED then
        ar_known_asset r \<and> ar_enabled r \<noteq> None \<and> ar_asset_id r \<noteq> None \<and> ar_asset_key r \<noteq> None
        \<and> ar_asset_kind r \<noteq> None \<and> ar_asset_type r \<noteq> None \<and> ar_asset_role r \<noteq> None
        \<and> ar_zone_id r \<noteq> None \<and> ar_criticality r \<noteq> None
      else
        \<not> ar_known_asset r \<and> ar_enabled r = None \<and> ar_asset_id r = None \<and> ar_asset_key r = None
        \<and> ar_asset_kind r = None \<and> ar_asset_type r = None \<and> ar_asset_role r = None
        \<and> ar_zone_id r = None \<and> ar_criticality r = None)"

definition deterministic_asset_id :: "string \<Rightarrow> string \<Rightarrow> uuid" where
  "deterministic_asset_id inventory_profile_id asset_key =
     uuid5 NAMESPACE_URL (''urn:otsoc:asset|'' @ inventory_profile_id @ ''|'' @ asset_key)"

definition unresolved :: "ResolutionStatus \<Rightarrow> AssetResolution" where
  "unresolved status = \<lparr>ar_status = status, ar_known_asset = False, ar_enabled = None,
     ar_asset_id = None, ar_asset_key = None, ar_asset_kind = None, ar_asset_type = None,
     ar_asset_role = None, ar_zone_id = None, ar_criticality = None\<rparr>"

definition resolved_asset :: "LoadedInventory \<Rightarrow> AssetDefinition \<Rightarrow> AssetResolution" where
  "resolved_asset li a = \<lparr>ar_status = RESOLVED, ar_known_asset = True,
     ar_enabled = Some (ad_enabled a),
     ar_asset_id = Some (deterministic_asset_id (ip_profile_id (li_profile li)) (ad_asset_key a)),
     ar_asset_key = Some (ad_asset_key a), ar_asset_kind = Some (ad_asset_kind a),
     ar_asset_type = Some (ad_asset_type a), ar_asset_role = Some (ad_asset_role a),
     ar_zone_id = Some (ad_zone_id a), ar_criticality = Some (ad_criticality a)\<rparr>"

definition resolve_identity :: "IdentityClaim list \<Rightarrow> LoadedInventory \<Rightarrow> AssetResolution" where
  "resolve_identity claims li =
     (let matches = map (\<lambda>c. identifier_index li (claim_key c)) claims;
          known = map the (filter (\<lambda>m. m \<noteq> None) matches) in
      case known of
        [] \<Rightarrow> unresolved UNKNOWN
      | asset # _ \<Rightarrow>
          if length known \<noteq> length matches \<or> card (set (map ad_asset_key known)) \<noteq> 1
          then unresolved CONFLICT
          else resolved_asset li asset)"

definition resolve_zone :: "AssetResolution \<Rightarrow> LoadedInventory \<Rightarrow> ZoneDefinition option" where
  "resolve_zone r li =
     (if ar_status r \<noteq> RESOLVED then None
      else case ar_zone_id r of None \<Rightarrow> None | Some z \<Rightarrow> zones li (ZoneId_value z))"

section \<open>The approved inventory document\<close>

definition zone_it_zone :: ZoneDefinition where
  "zone_it_zone = \<lparr>zd_zone_id = IT_ZONE, zd_name = ''Synthetic IT Zone'',
     zd_purpose = ''Enterprise-user context outside OT control.'',
     zd_trust_classification = NO_OT_CONTROL_TRUST,
     zd_allowed_relationship_types = []\<rparr>"

definition zone_ot_control_zone :: ZoneDefinition where
  "zone_ot_control_zone = \<lparr>zd_zone_id = OT_CONTROL_ZONE, zd_name = ''Synthetic OT Control Zone'',
     zd_purpose = ''Logical controller and operator or engineering interfaces.'',
     zd_trust_classification = LIMITED_CONTROL_TRUST,
     zd_allowed_relationship_types = [HOSTS_ENDPOINT, CONTROLS, OBSERVES]\<rparr>"

definition zone_process_zone :: ZoneDefinition where
  "zone_process_zone = \<lparr>zd_zone_id = PROCESS_ZONE, zd_name = ''Synthetic Process Zone'',
     zd_purpose = ''Non-communicating physical and process context.'',
     zd_trust_classification = NON_NETWORK_PROCESS_CONTEXT,
     zd_allowed_relationship_types = []\<rparr>"

definition zone_monitoring_zone :: ZoneDefinition where
  "zone_monitoring_zone = \<lparr>zd_zone_id = MONITORING_ZONE, zd_name = ''Synthetic Monitoring Zone'',
     zd_purpose = ''Logical observation context only.'',
     zd_trust_classification = PASSIVE_OBSERVATION_ONLY,
     zd_allowed_relationship_types = [MONITORS]\<rparr>"

definition zone_soc_zone :: ZoneDefinition where
  "zone_soc_zone = \<lparr>zd_zone_id = SOC_ZONE, zd_name = ''Synthetic OT-SOC Zone'',
     zd_purpose = ''Future read-only analyst-platform context.'',
     zd_trust_classification = READ_ONLY_ANALYST_CONTEXT,
     zd_allowed_relationship_types = []\<rparr>"

definition asset_plc_01 :: AssetDefinition where
  "asset_plc_01 = \<lparr>ad_asset_key = ''PLC-01'', ad_display_name = ''Synthetic Transfer Controller'',
     ad_asset_kind = CYBER, ad_asset_type = OT_CONTROLLER, ad_asset_role = CONTROL_EXECUTION,
     ad_zone_id = OT_CONTROL_ZONE, ad_criticality = HIGH, ad_process_role = None,
     ad_protocol_capabilities = [''MODBUS_SEMANTIC_ENDPOINT''],
     ad_enabled = True, ad_identifiers = [\<lparr>id_identifier_type = LOGICAL_ID, id_value = ''PLC-01''\<rparr>,
       \<lparr>id_identifier_type = PROTOCOL_ENDPOINT_ID, id_value = ''OTSOC-MB-UNIT-01''\<rparr>]\<rparr>"

definition asset_hmi_01 :: AssetDefinition where
  "asset_hmi_01 = \<lparr>ad_asset_key = ''HMI-01'', ad_display_name = ''Synthetic Operator Interface'',
     ad_asset_kind = CYBER, ad_asset_type = HUMAN_MACHINE_INTERFACE, ad_asset_role = OPERATOR_INTERFACE,
     ad_zone_id = OT_CONTROL_ZONE, ad_criticality = MEDIUM, ad_process_role = None,
     ad_protocol_capabilities = [''MODBUS_READ_SOURCE'', ''MODBUS_COMMAND_SOURCE''],
     ad_enabled = True, ad_identifiers = [\<lparr>id_identifier_type = LOGICAL_ID, id_value = ''HMI-01''\<rparr>]\<rparr>"

definition asset_eng_ws_01 :: AssetDefinition where
  "asset_eng_ws_01 = \<lparr>ad_asset_key = ''ENG-WS-01'', ad_display_name = ''Synthetic Engineering Workstation'',
     ad_asset_kind = CYBER, ad_asset_type = ENGINEERING_WORKSTATION, ad_asset_role = ENGINEERING_MAINTENANCE,
     ad_zone_id = OT_CONTROL_ZONE, ad_criticality = MEDIUM, ad_process_role = None,
     ad_protocol_capabilities = [''MODBUS_READ_SOURCE''],
     ad_enabled = True, ad_identifiers = [\<lparr>id_identifier_type = LOGICAL_ID, id_value = ''ENG-WS-01''\<rparr>]\<rparr>"

definition asset_it_ws_01 :: AssetDefinition where
  "asset_it_ws_01 = \<lparr>ad_asset_key = ''IT-WS-01'', ad_display_name = ''Synthetic IT Workstation'',
     ad_asset_kind = CYBER, ad_asset_type = IT_WORKSTATION, ad_asset_role = ENTERPRISE_USER,
     ad_zone_id = IT_ZONE, ad_criticality = LOW, ad_process_role = None,
     ad_protocol_capabilities = [],
     ad_enabled = True, ad_identifiers = [\<lparr>id_identifier_type = LOGICAL_ID, id_value = ''IT-WS-01''\<rparr>]\<rparr>"

definition asset_mon_01 :: AssetDefinition where
  "asset_mon_01 = \<lparr>ad_asset_key = ''MON-01'', ad_display_name = ''Synthetic Monitoring Sensor'',
     ad_asset_kind = CYBER, ad_asset_type = MONITORING_SENSOR, ad_asset_role = PASSIVE_MONITOR,
     ad_zone_id = MONITORING_ZONE, ad_criticality = MEDIUM, ad_process_role = None,
     ad_protocol_capabilities = [''PASSIVE_MONITORING_CONTEXT''],
     ad_enabled = True, ad_identifiers = [\<lparr>id_identifier_type = LOGICAL_ID, id_value = ''MON-01''\<rparr>]\<rparr>"

definition asset_soc_01 :: AssetDefinition where
  "asset_soc_01 = \<lparr>ad_asset_key = ''SOC-01'', ad_display_name = ''Synthetic OT-SOC Platform'',
     ad_asset_kind = CYBER, ad_asset_type = OT_SOC_PLATFORM, ad_asset_role = ANALYST_PLATFORM,
     ad_zone_id = SOC_ZONE, ad_criticality = HIGH, ad_process_role = None,
     ad_protocol_capabilities = [''ANALYST_CONTEXT''],
     ad_enabled = True, ad_identifiers = [\<lparr>id_identifier_type = LOGICAL_ID, id_value = ''SOC-01''\<rparr>]\<rparr>"

definition asset_tk_101 :: AssetDefinition where
  "asset_tk_101 = \<lparr>ad_asset_key = ''TK-101'', ad_display_name = ''Synthetic Source Tank'',
     ad_asset_kind = PROCESS, ad_asset_type = SOURCE_TANK, ad_asset_role = SOURCE_STORAGE,
     ad_zone_id = PROCESS_ZONE, ad_criticality = HIGH, ad_process_role = Some ''SOURCE_STORAGE'',
     ad_protocol_capabilities = [],
     ad_enabled = True, ad_identifiers = [\<lparr>id_identifier_type = PROCESS_TAG, id_value = ''TK-101''\<rparr>]\<rparr>"

definition asset_p_101 :: AssetDefinition where
  "asset_p_101 = \<lparr>ad_asset_key = ''P-101'', ad_display_name = ''Synthetic Transfer Pump'',
     ad_asset_kind = PROCESS, ad_asset_type = TRANSFER_PUMP, ad_asset_role = LIQUID_TRANSFER,
     ad_zone_id = PROCESS_ZONE, ad_criticality = HIGH, ad_process_role = Some ''LIQUID_TRANSFER'',
     ad_protocol_capabilities = [],
     ad_enabled = True, ad_identifiers = [\<lparr>id_identifier_type = PROCESS_TAG, id_value = ''P-101''\<rparr>]\<rparr>"

definition asset_pl_101 :: AssetDefinition where
  "asset_pl_101 = \<lparr>ad_asset_key = ''PL-101'', ad_display_name = ''Synthetic Transfer Pipeline'',
     ad_asset_kind = PROCESS, ad_asset_type = PIPELINE, ad_asset_role = TRANSFER_PATH,
     ad_zone_id = PROCESS_ZONE, ad_criticality = HIGH, ad_process_role = Some ''TRANSFER_PATH'',
     ad_protocol_capabilities = [],
     ad_enabled = True, ad_identifiers = [\<lparr>id_identifier_type = PROCESS_TAG, id_value = ''PL-101''\<rparr>]\<rparr>"

definition asset_cv_101 :: AssetDefinition where
  "asset_cv_101 = \<lparr>ad_asset_key = ''CV-101'', ad_display_name = ''Synthetic Control Valve'',
     ad_asset_kind = PROCESS, ad_asset_type = CONTROL_VALVE, ad_asset_role = FLOW_CONTROL,
     ad_zone_id = PROCESS_ZONE, ad_criticality = HIGH, ad_process_role = Some ''FLOW_CONTROL'',
     ad_protocol_capabilities = [],
     ad_enabled = True, ad_identifiers = [\<lparr>id_identifier_type = PROCESS_TAG, id_value = ''CV-101''\<rparr>]\<rparr>"

definition asset_tk_102 :: AssetDefinition where
  "asset_tk_102 = \<lparr>ad_asset_key = ''TK-102'', ad_display_name = ''Synthetic Receiving Tank'',
     ad_asset_kind = PROCESS, ad_asset_type = RECEIVING_TANK, ad_asset_role = DESTINATION_STORAGE,
     ad_zone_id = PROCESS_ZONE, ad_criticality = HIGH, ad_process_role = Some ''DESTINATION_STORAGE'',
     ad_protocol_capabilities = [],
     ad_enabled = True, ad_identifiers = [\<lparr>id_identifier_type = PROCESS_TAG, id_value = ''TK-102''\<rparr>]\<rparr>"

definition oil_gas_asset_inventory_v1 :: AssetInventoryProfile where
  "oil_gas_asset_inventory_v1 = \<lparr>
     ip_profile_id = ''otsoc.asset_inventory.oil_gas_transfer'', ip_profile_version = ''1.0.0'',
     ip_protocol_profile_id = ''otsoc.synthetic_modbus.oil_gas_transfer'',
     ip_protocol_profile_version = ''1.0.0'',
     ip_protocol_profile_sha256 = ''b3ade7b3ae5dd7e5955c54b5a3345dc6f79b5bfa7bf78a2f1a82df3a5f4016ff'',
     ip_zones = [zone_it_zone, zone_ot_control_zone, zone_process_zone, zone_monitoring_zone, zone_soc_zone],
     ip_assets = [asset_plc_01, asset_hmi_01, asset_eng_ws_01, asset_it_ws_01,
       asset_mon_01, asset_soc_01, asset_tk_101, asset_p_101,
       asset_pl_101, asset_cv_101, asset_tk_102],
     ip_relationships = [
       \<lparr>rd_relationship_type = HOSTS_ENDPOINT, rd_source_asset_key = ''PLC-01'', rd_target_kind = ENDPOINT, rd_target_ref = ''OTSOC-MB-UNIT-01''\<rparr>,
       \<lparr>rd_relationship_type = CONTROLS, rd_source_asset_key = ''PLC-01'', rd_target_kind = ASSET, rd_target_ref = ''P-101''\<rparr>,
       \<lparr>rd_relationship_type = CONTROLS, rd_source_asset_key = ''PLC-01'', rd_target_kind = ASSET, rd_target_ref = ''CV-101''\<rparr>,
       \<lparr>rd_relationship_type = OBSERVES, rd_source_asset_key = ''PLC-01'', rd_target_kind = ASSET, rd_target_ref = ''TK-101''\<rparr>,
       \<lparr>rd_relationship_type = OBSERVES, rd_source_asset_key = ''PLC-01'', rd_target_kind = ASSET, rd_target_ref = ''P-101''\<rparr>,
       \<lparr>rd_relationship_type = OBSERVES, rd_source_asset_key = ''PLC-01'', rd_target_kind = ASSET, rd_target_ref = ''PL-101''\<rparr>,
       \<lparr>rd_relationship_type = OBSERVES, rd_source_asset_key = ''PLC-01'', rd_target_kind = ASSET, rd_target_ref = ''CV-101''\<rparr>,
       \<lparr>rd_relationship_type = OBSERVES, rd_source_asset_key = ''PLC-01'', rd_target_kind = ASSET, rd_target_ref = ''TK-102''\<rparr>,
       \<lparr>rd_relationship_type = MONITORS, rd_source_asset_key = ''MON-01'', rd_target_kind = ASSET, rd_target_ref = ''PLC-01''\<rparr>]\<rparr>"

section \<open>Validated catalogs\<close>

lemma oil_gas_asset_inventory_v1_valid: "validate_inventory oil_gas_asset_inventory_v1 = Inr ()"
  by code_simp

text \<open>A validated inventory is a catalog of assets by key and of typed identifiers.\<close>

lemma validated_inventory_catalogs:
  assumes "validate_inventory ip = Inr ()"
  shows "keyed_catalog ad_asset_key (ip_assets ip)"
    and "keyed_catalog fst (identifier_entries (ip_assets ip))"
proof -
  have len: "length (ip_assets ip) = 11" and keys: "card (set (map ad_asset_key (ip_assets ip))) = 11"
    and ids: "distinct (map fst (identifier_entries (ip_assets ip)))"
    using assms
    by (auto simp: validate_inventory_def valid_inventory_fields_def validate_inventory_contract_def
        Let_def split: if_splits)
  from len keys have "distinct (map ad_asset_key (ip_assets ip))"
    by (metis card_distinct length_map)
  then show "keyed_catalog ad_asset_key (ip_assets ip)" by unfold_locales
  from ids show "keyed_catalog fst (identifier_entries (ip_assets ip))" by unfold_locales
qed

interpretation v1_assets: keyed_catalog ad_asset_key "ip_assets oil_gas_asset_inventory_v1"
  by (rule validated_inventory_catalogs [OF oil_gas_asset_inventory_v1_valid])

interpretation v1_identifiers: keyed_catalog fst "identifier_entries (ip_assets oil_gas_asset_inventory_v1)"
  by (rule validated_inventory_catalogs [OF oil_gas_asset_inventory_v1_valid])

section \<open>Correctness of resolution\<close>

text \<open>An asset owns a claim when the claim is one of its typed identifiers.\<close>

definition owns :: "AssetDefinition \<Rightarrow> IdentityClaim \<Rightarrow> bool" where
  "owns a c = (claim_key c \<in> identifier_key ` set (ad_identifiers a))"

lemma identifier_entries_iff:
  "(k, a) \<in> set (identifier_entries as) \<longleftrightarrow> a \<in> set as \<and> k \<in> identifier_key ` set (ad_identifiers a)"
  by (auto simp: identifier_entries_def)

lemma identifier_index_iff:
  assumes "validate_inventory (li_profile li) = Inr ()"
  shows "identifier_index li (claim_key c) = Some a \<longleftrightarrow> a \<in> set (ip_assets (li_profile li)) \<and> owns a c"
proof -
  have "dict_of fst (identifier_entries (ip_assets (li_profile li))) k = Some (k', a)
      \<longleftrightarrow> k' = k \<and> a \<in> set (ip_assets (li_profile li)) \<and> k \<in> identifier_key ` set (ad_identifiers a)"
    for k k'
    using keyed_catalog.lookup_iff [OF validated_inventory_catalogs(2) [OF assms], of k "(k', a)"]
    by (auto simp: identifier_entries_iff simp del: split_paired_All)
  then show ?thesis
    by (simp add: identifier_index_def owns_def)
qed

lemma map_the_filter_Some:
  "set (map the (filter (\<lambda>m. m \<noteq> None) ms)) = {a. Some a \<in> set ms}"
  by (force simp: image_iff)

lemma length_filter_Some:
  "length (filter (\<lambda>m. m \<noteq> None) ms) = length ms \<longleftrightarrow> None \<notin> set ms"
  by (metis (mono_tags, lifting) filter_True length_filter_less order_less_irrefl)

lemma card_keys_one:
  assumes "xs \<noteq> []"
  shows "card (set (map f xs)) = 1 \<longleftrightarrow> (\<forall>x \<in> set xs. f x = f (hd xs))"
proof
  assume "card (set (map f xs)) = 1"
  then obtain y where y: "f ` set xs = {y}" by (auto simp: card_1_singleton_iff)
  then have "f (hd xs) = y" using assms by (metis hd_in_set imageI singletonD)
  with y show "\<forall>x \<in> set xs. f x = f (hd xs)" by auto
next
  assume "\<forall>x \<in> set xs. f x = f (hd xs)"
  then have "f ` set xs = {f (hd xs)}" using assms hd_in_set [OF assms] by blast
  then show "card (set (map f xs)) = 1" by simp
qed

lemma resolve_identity_cases:
  assumes known: "known = map the (filter (\<lambda>m. m \<noteq> None) (map (\<lambda>c. identifier_index li (claim_key c)) claims))"
  shows "resolve_identity claims li =
    (if known = [] then unresolved UNKNOWN
     else if (\<exists>c \<in> set claims. identifier_index li (claim_key c) = None)
       \<or> (\<exists>a \<in> set known. ad_asset_key a \<noteq> ad_asset_key (hd known)) then unresolved CONFLICT
     else resolved_asset li (hd known))"
proof (cases known)
  case Nil
  then show ?thesis using known by (simp add: resolve_identity_def Let_def)
next
  case (Cons a as)
  let ?matches = "map (\<lambda>c. identifier_index li (claim_key c)) claims"
  have len: "length known \<noteq> length ?matches \<longleftrightarrow> (\<exists>c \<in> set claims. identifier_index li (claim_key c) = None)"
    unfolding known length_map [of the] length_filter_Some by (force simp: image_iff)
  have keys: "card (set (map ad_asset_key known)) \<noteq> 1 \<longleftrightarrow> (\<exists>a \<in> set known. ad_asset_key a \<noteq> ad_asset_key (hd known))"
    using card_keys_one [of known ad_asset_key] Cons by simp
  have "resolve_identity claims li =
      (if length known \<noteq> length ?matches \<or> card (set (map ad_asset_key known)) \<noteq> 1
       then unresolved CONFLICT else resolved_asset li a)"
    unfolding resolve_identity_def Let_def known [symmetric] by (simp only: Cons list.case)
  also have "\<dots> = (if (\<exists>c \<in> set claims. identifier_index li (claim_key c) = None)
       \<or> (\<exists>a \<in> set known. ad_asset_key a \<noteq> ad_asset_key (hd known)) then unresolved CONFLICT
     else resolved_asset li a)"
    unfolding len keys ..
  finally show ?thesis by (simp only: Cons list.simps if_False list.sel)
qed

lemma resolution_shape: "validate_resolution_shape (resolve_identity claims li)"
  by (auto simp: resolve_identity_def Let_def validate_resolution_shape_def unresolved_def resolved_asset_def
      split: list.splits)

text \<open>
  C6. Exact resolution. In a validated inventory the resolver answers RESOLVED with the
  inventory's own data of an asset exactly when there are claims and that asset owns all of them,
  UNKNOWN when no asset owns any claim, and CONFLICT in every other case; no partial match ever
  selects an asset.
\<close>

theorem resolve_identity_exact:
  assumes "validate_inventory (li_profile li) = Inr ()"
  shows "(\<forall>a \<in> set (ip_assets (li_profile li)). claims \<noteq> [] \<and> (\<forall>c \<in> set claims. owns a c) \<longrightarrow>
           resolve_identity claims li = resolved_asset li a)
    \<and> ((\<forall>a \<in> set (ip_assets (li_profile li)). \<forall>c \<in> set claims. \<not> owns a c) \<longrightarrow>
           resolve_identity claims li = unresolved UNKNOWN)
    \<and> ((\<exists>a \<in> set (ip_assets (li_profile li)). \<exists>c \<in> set claims. owns a c)
        \<and> (\<forall>a \<in> set (ip_assets (li_profile li)). \<exists>c \<in> set claims. \<not> owns a c) \<longrightarrow>
           resolve_identity claims li = unresolved CONFLICT)"
proof -
  let ?as = "ip_assets (li_profile li)"
  define known where "known = map the (filter (\<lambda>m. m \<noteq> None)
      (map (\<lambda>c. identifier_index li (claim_key c)) claims))"
  note cases = resolve_identity_cases [OF known_def]
  note index = identifier_index_iff [OF assms]
  have set_known: "a \<in> set known \<longleftrightarrow> a \<in> set ?as \<and> (\<exists>c \<in> set claims. owns a c)" for a
    unfolding known_def map_the_filter_Some using index by (auto simp: image_iff dest: sym)
  have none: "identifier_index li (claim_key c) = None \<longleftrightarrow> (\<forall>a \<in> set ?as. \<not> owns a c)" for c
    using index [of c] by (cases "identifier_index li (claim_key c)") auto
  have unique: "a = b" if "a \<in> set ?as" "b \<in> set ?as" "owns a c" "owns b c" for a b c
    using index [of c a] index [of c b] that by (metis option.inject)
  have key: "a = b" if "a \<in> set ?as" "b \<in> set ?as" "ad_asset_key a = ad_asset_key b" for a b
    using keyed_catalog.lookup_self [OF validated_inventory_catalogs(1) [OF assms]] that by (metis option.inject)
  have "resolve_identity claims li = resolved_asset li a"
    if a: "a \<in> set ?as" "claims \<noteq> []" "\<forall>c \<in> set claims. owns a c" for a
  proof -
    have all: "b = a" if "b \<in> set known" for b using that a unique set_known by blast
    have "hd claims \<in> set claims" using a by simp
    then have "a \<in> set known" using a set_known by blast
    then have ne: "known \<noteq> []" by auto
    then have "hd known = a" using all hd_in_set by blast
    moreover have "\<not> (\<exists>c \<in> set claims. identifier_index li (claim_key c) = None)" using none a by blast
    ultimately show ?thesis unfolding cases using ne all by (metis (full_types))
  qed
  moreover have "resolve_identity claims li = unresolved UNKNOWN"
    if "\<forall>a \<in> set ?as. \<forall>c \<in> set claims. \<not> owns a c"
  proof -
    have "a \<notin> set known" for a using that set_known by blast
    then have "known = []" by (cases known) auto
    then show ?thesis unfolding cases by simp
  qed
  moreover have "resolve_identity claims li = unresolved CONFLICT"
    if some: "a \<in> set ?as" "c \<in> set claims" "owns a c"
      and split: "\<forall>a \<in> set ?as. \<exists>c \<in> set claims. \<not> owns a c" for a c
  proof -
    have "a \<in> set known" using some set_known by blast
    then have ne: "known \<noteq> []" by auto
    then have h: "hd known \<in> set ?as" using set_known hd_in_set by blast
    with split obtain d where d: "d \<in> set claims" "\<not> owns (hd known) d" by blast
    show ?thesis
    proof (cases "identifier_index li (claim_key d)")
      case None
      with d ne show ?thesis unfolding cases by auto
    next
      case (Some b)
      then have "b \<in> set known" "b \<noteq> hd known" using index d set_known by auto
      then have "ad_asset_key b \<noteq> ad_asset_key (hd known)" using key h set_known by blast
      with \<open>b \<in> set known\<close> ne show ?thesis unfolding cases by auto
    qed
  qed
  ultimately show ?thesis by blast
qed

definition v1_inventory :: LoadedInventory where
  "v1_inventory = \<lparr>li_profile = oil_gas_asset_inventory_v1,
     li_sha256 = ''5b101619ae8fbb279c2b79938a09ab6fc4432712c0f8f03e5d3edead43edb01b''\<rparr>"

theorem resolve_identity_exact_witness:
  "resolve_identity [\<lparr>ic_identifier_type = LOGICAL_ID, ic_value = ''PLC-01''\<rparr>,
       \<lparr>ic_identifier_type = PROTOCOL_ENDPOINT_ID, ic_value = ''OTSOC-MB-UNIT-01''\<rparr>] v1_inventory
     = resolved_asset v1_inventory asset_plc_01
   \<and> resolve_identity [\<lparr>ic_identifier_type = LOGICAL_ID, ic_value = ''HMI-01''\<rparr>,
       \<lparr>ic_identifier_type = PROTOCOL_ENDPOINT_ID, ic_value = ''OTSOC-MB-UNIT-01''\<rparr>] v1_inventory
     = unresolved CONFLICT"
proof -
  have v: "validate_inventory (li_profile v1_inventory) = Inr ()"
    by (simp add: v1_inventory_def oil_gas_asset_inventory_v1_valid)
  let ?plc = "[\<lparr>ic_identifier_type = LOGICAL_ID, ic_value = ''PLC-01''\<rparr>,
       \<lparr>ic_identifier_type = PROTOCOL_ENDPOINT_ID, ic_value = ''OTSOC-MB-UNIT-01''\<rparr>]"
  let ?mix = "[\<lparr>ic_identifier_type = LOGICAL_ID, ic_value = ''HMI-01''\<rparr>,
       \<lparr>ic_identifier_type = PROTOCOL_ENDPOINT_ID, ic_value = ''OTSOC-MB-UNIT-01''\<rparr>]"
  have "asset_plc_01 \<in> set (ip_assets (li_profile v1_inventory))"
    by (simp add: v1_inventory_def oil_gas_asset_inventory_v1_def)
  moreover have "\<forall>c \<in> set ?plc. owns asset_plc_01 c"
    by (simp add: owns_def asset_plc_01_def claim_key_def identifier_key_def)
  moreover have "\<exists>c \<in> set ?mix. owns asset_plc_01 c"
    by (simp add: owns_def asset_plc_01_def claim_key_def identifier_key_def)
  moreover have "list_all (\<lambda>a. list_ex (\<lambda>c. \<not> owns a c) ?mix) (ip_assets oil_gas_asset_inventory_v1)"
    by code_simp
  ultimately show ?thesis
    using resolve_identity_exact [OF v, of ?plc] resolve_identity_exact [OF v, of ?mix]
    by (auto simp: v1_inventory_def list_all_iff list_ex_iff)
qed
end
