(* ===== verification/Policy.thy ===== *)
theory Policy
  imports Inventory
begin

text \<open>
  The communication policy: its profile and validators (second half of \<open>app/context/models.py\<close>), the
  dependency check and the evaluator (\<open>app/context/policy.py\<close>), and the policy document
  \<open>profiles/oil_gas_communication_policy_v1.json\<close>. The evaluator is the whole cascade of
  \<open>evaluate_policy\<close> in its order; the only exception it can raise is the PolicyProfileError of an
  ambiguous rule match.
\<close>

section \<open>Enumerations\<close>

datatype PolicyStatus = APPROVED | DENIED | UNKNOWN

datatype DimensionStatus = SATISFIED | NOT_SATISFIED | UNKNOWN | NOT_APPLICABLE

datatype PolicyReasonCode =
    SOURCE_EVIDENCE_NOT_VERIFIED | SEMANTIC_EVIDENCE_NOT_VERIFIED | PROFILE_VERSION_UNSUPPORTED
  | POLICY_PROFILE_INVALID | IDENTITY_CONFLICT | SOURCE_UNKNOWN
  | DESTINATION_UNKNOWN | SOURCE_DISABLED | DESTINATION_DISABLED
  | SOURCE_ZONE_UNEXPECTED | DESTINATION_ZONE_UNEXPECTED | POINT_WRITE_NOT_APPROVED
  | PROTOCOL_NOT_APPROVED | OPERATION_NOT_APPROVED | SOURCE_ROLE_NOT_APPROVED
  | COMMUNICATION_NOT_APPROVED | POLICY_NOT_CLASSIFIED | POLICY_MATCH_APPROVED

fun PolicyReasonCode_value :: "PolicyReasonCode \<Rightarrow> string" where
  "PolicyReasonCode_value PolicyReasonCode.SOURCE_EVIDENCE_NOT_VERIFIED = ''SOURCE_EVIDENCE_NOT_VERIFIED''"
| "PolicyReasonCode_value SEMANTIC_EVIDENCE_NOT_VERIFIED = ''SEMANTIC_EVIDENCE_NOT_VERIFIED''"
| "PolicyReasonCode_value PROFILE_VERSION_UNSUPPORTED = ''PROFILE_VERSION_UNSUPPORTED''"
| "PolicyReasonCode_value POLICY_PROFILE_INVALID = ''POLICY_PROFILE_INVALID''"
| "PolicyReasonCode_value IDENTITY_CONFLICT = ''IDENTITY_CONFLICT''"
| "PolicyReasonCode_value SOURCE_UNKNOWN = ''SOURCE_UNKNOWN''"
| "PolicyReasonCode_value DESTINATION_UNKNOWN = ''DESTINATION_UNKNOWN''"
| "PolicyReasonCode_value SOURCE_DISABLED = ''SOURCE_DISABLED''"
| "PolicyReasonCode_value DESTINATION_DISABLED = ''DESTINATION_DISABLED''"
| "PolicyReasonCode_value SOURCE_ZONE_UNEXPECTED = ''SOURCE_ZONE_UNEXPECTED''"
| "PolicyReasonCode_value DESTINATION_ZONE_UNEXPECTED = ''DESTINATION_ZONE_UNEXPECTED''"
| "PolicyReasonCode_value POINT_WRITE_NOT_APPROVED = ''POINT_WRITE_NOT_APPROVED''"
| "PolicyReasonCode_value PROTOCOL_NOT_APPROVED = ''PROTOCOL_NOT_APPROVED''"
| "PolicyReasonCode_value OPERATION_NOT_APPROVED = ''OPERATION_NOT_APPROVED''"
| "PolicyReasonCode_value SOURCE_ROLE_NOT_APPROVED = ''SOURCE_ROLE_NOT_APPROVED''"
| "PolicyReasonCode_value COMMUNICATION_NOT_APPROVED = ''COMMUNICATION_NOT_APPROVED''"
| "PolicyReasonCode_value POLICY_NOT_CLASSIFIED = ''POLICY_NOT_CLASSIFIED''"
| "PolicyReasonCode_value POLICY_MATCH_APPROVED = ''POLICY_MATCH_APPROVED''"

fun PolicyStatus_value :: "PolicyStatus \<Rightarrow> string" where
  "PolicyStatus_value APPROVED = ''APPROVED''"
| "PolicyStatus_value DENIED = ''DENIED''"
| "PolicyStatus_value PolicyStatus.UNKNOWN = ''UNKNOWN''"

fun OperationCategory_value :: "OperationCategory \<Rightarrow> string" where
  "OperationCategory_value OperationCategory.READ = ''READ''"
| "OperationCategory_value OperationCategory.WRITE = ''WRITE''"
| "OperationCategory_value OperationCategory.UNSUPPORTED = ''UNSUPPORTED''"

definition REASON_PRECEDENCE :: "PolicyReasonCode list" where
  "REASON_PRECEDENCE = [PolicyReasonCode.SOURCE_EVIDENCE_NOT_VERIFIED, SEMANTIC_EVIDENCE_NOT_VERIFIED, PROFILE_VERSION_UNSUPPORTED,
       POLICY_PROFILE_INVALID, IDENTITY_CONFLICT, SOURCE_UNKNOWN,
       DESTINATION_UNKNOWN, SOURCE_DISABLED, DESTINATION_DISABLED,
       SOURCE_ZONE_UNEXPECTED, DESTINATION_ZONE_UNEXPECTED, POINT_WRITE_NOT_APPROVED,
       PROTOCOL_NOT_APPROVED, OPERATION_NOT_APPROVED, SOURCE_ROLE_NOT_APPROVED,
       COMMUNICATION_NOT_APPROVED, POLICY_NOT_CLASSIFIED, POLICY_MATCH_APPROVED]"

section \<open>Policy data\<close>

text \<open>The one-value Literals that nothing reads (unlisted_posture, educational_only, the
  disclaimer) are left out.\<close>

record GovernedPath =
  gp_path_id :: string
  gp_source_asset_key :: string
  gp_source_role :: AssetRole
  gp_source_zone :: ZoneId
  gp_destination_asset_key :: string
  gp_destination_role :: AssetRole
  gp_destination_zone :: ZoneId
  gp_approved_protocols :: "string list"

record CommunicationPolicyRule =
  ru_rule_id :: string
  ru_path_id :: string
  ru_source_asset_key :: string
  ru_source_role :: AssetRole
  ru_source_zone :: ZoneId
  ru_destination_asset_key :: string
  ru_destination_role :: AssetRole
  ru_destination_zone :: ZoneId
  ru_protocol :: string
  ru_operations :: "OperationCategory list"
  ru_function_semantics :: "FunctionSemantic list"
  ru_point_ids :: "string list"
  ru_point_access_classes :: "PointAccessClass list"
  ru_decision :: string
  ru_reason_code :: PolicyReasonCode
  ru_enabled :: bool

record CommunicationPolicyProfile =
  cp_profile_id :: string
  cp_profile_version :: string
  cp_inventory_profile_id :: string
  cp_inventory_profile_version :: string
  cp_protocol_profile_id :: string
  cp_protocol_profile_version :: string
  cp_protocol_profile_sha256 :: digest
  cp_governed_paths :: "GovernedPath list"
  cp_rules :: "CommunicationPolicyRule list"
  cp_reason_precedence :: "PolicyReasonCode list"

record LoadedPolicy =
  lpo_profile :: CommunicationPolicyProfile
  lpo_sha256 :: digest

definition POLICY_PROFILE_ID :: string where
  "POLICY_PROFILE_ID = ''otsoc.communication_policy.oil_gas_transfer''"

definition EXPECTED_PROTOCOL_PROFILE_SHA256 :: digest where
  "EXPECTED_PROTOCOL_PROFILE_SHA256 =
     ''b3ade7b3ae5dd7e5955c54b5a3345dc6f79b5bfa7bf78a2f1a82df3a5f4016ff''"

section \<open>Validation\<close>

datatype PolicyError =
    PolicyFieldInvalid
  | DuplicatePathOrRule
  | PrecedenceDiffers
  | RuleUnknownPath
  | RuleContextDiffers
  | WildcardSelector
  | ProtocolDigestNotApproved
  | CatalogIncomplete
  | InventoryDependencyMismatch
  | ProtocolDependencyMismatch
  | PathUnknownAsset
  | PathSourceContext
  | PathDestinationContext
  | PathProtocolUnsupported
  | RulePointClassification
  | AmbiguousRules
  | NoReasonCandidate

definition valid_path :: "GovernedPath \<Rightarrow> bool" where
  "valid_path g =
     (safe_key (gp_path_id g) \<and> safe_key (gp_source_asset_key g)
      \<and> safe_key (gp_destination_asset_key g) \<and> list_all snake_key (gp_approved_protocols g))"

definition valid_rule :: "CommunicationPolicyRule \<Rightarrow> bool" where
  "valid_rule r =
     (safe_key (ru_rule_id r) \<and> safe_key (ru_path_id r) \<and> safe_key (ru_source_asset_key r)
      \<and> safe_key (ru_destination_asset_key r) \<and> ru_protocol r = ''modbus_tcp''
      \<and> ru_operations r \<noteq> [] \<and> ru_function_semantics r \<noteq> [] \<and> ru_point_ids r \<noteq> []
      \<and> list_all snake_key (ru_point_ids r) \<and> ru_point_access_classes r \<noteq> []
      \<and> ru_decision r \<in> {''APPROVED'', ''DENIED''} \<and> ru_enabled r)"

definition valid_policy_fields :: "CommunicationPolicyProfile \<Rightarrow> bool" where
  "valid_policy_fields cp =
     (cp_profile_id cp = POLICY_PROFILE_ID \<and> sem_ver (cp_profile_version cp)
      \<and> cp_inventory_profile_id cp = INVENTORY_PROFILE_ID
      \<and> cp_inventory_profile_version cp = INVENTORY_PROFILE_VERSION
      \<and> cp_protocol_profile_id cp = PROFILE_ID \<and> cp_protocol_profile_version cp = PROFILE_VERSION
      \<and> is_sha256 (cp_protocol_profile_sha256 cp)
      \<and> length (cp_governed_paths cp) = 3 \<and> list_all valid_path (cp_governed_paths cp)
      \<and> length (cp_rules cp) = 6 \<and> list_all valid_rule (cp_rules cp))"

definition validate_rule_context :: "CommunicationPolicyProfile \<Rightarrow> CommunicationPolicyRule \<Rightarrow> PolicyError + unit" where
  "validate_rule_context cp r =
     (case dict_of gp_path_id (cp_governed_paths cp) (ru_path_id r) of
        None \<Rightarrow> Inl RuleUnknownPath
      | Some g \<Rightarrow>
          if (ru_source_asset_key r, ru_source_role r, ru_source_zone r,
              ru_destination_asset_key r, ru_destination_role r, ru_destination_zone r)
             \<noteq> (gp_source_asset_key g, gp_source_role g, gp_source_zone g,
                gp_destination_asset_key g, gp_destination_role g, gp_destination_zone g)
          then Inl RuleContextDiffers
          else if \<exists>token \<in> set (ru_point_ids r). token \<in> {''*'', ''ANY''} then Inl WildcardSelector
          else Inr ())"

definition validate_policy_structure :: "CommunicationPolicyProfile \<Rightarrow> PolicyError + unit" where
  "validate_policy_structure cp =
     (if \<not> distinct (map gp_path_id (cp_governed_paths cp)) \<or> \<not> distinct (map ru_rule_id (cp_rules cp))
      then Inl DuplicatePathOrRule
      else if cp_reason_precedence cp \<noteq> REASON_PRECEDENCE then Inl PrecedenceDiffers
      else for_each (validate_rule_context cp) (cp_rules cp))"

text \<open>The checks of \<open>parse_policy_bytes\<close> on the parsed document.\<close>

definition validate_policy :: "CommunicationPolicyProfile \<Rightarrow> PolicyError + unit" where
  "validate_policy cp =
     (if \<not> valid_policy_fields cp then Inl PolicyFieldInvalid
      else rbind (validate_policy_structure cp) (\<lambda>_.
      if cp_protocol_profile_sha256 cp \<noteq> EXPECTED_PROTOCOL_PROFILE_SHA256
      then Inl ProtocolDigestNotApproved
      else if set (map gp_path_id (cp_governed_paths cp))
           \<noteq> {''PATH-HMI-PLC'', ''PATH-ENG-PLC'', ''PATH-IT-PLC''}
         \<or> set (map ru_rule_id (cp_rules cp))
           \<noteq> {''ACP-001'', ''ACP-002'', ''ACP-003'', ''ACP-004'', ''ACP-005'', ''ACP-006''}
      then Inl CatalogIncomplete else Inr ()))"

definition validate_path_dependency :: "LoadedInventory \<Rightarrow> GovernedPath \<Rightarrow> PolicyError + unit" where
  "validate_path_dependency li g =
     (case (assets li (gp_source_asset_key g), assets li (gp_destination_asset_key g)) of
        (Some source, Some destination) \<Rightarrow>
          if (ad_asset_role source, ad_zone_id source) \<noteq> (gp_source_role g, gp_source_zone g)
          then Inl PathSourceContext
          else if (ad_asset_role destination, ad_zone_id destination)
             \<noteq> (gp_destination_role g, gp_destination_zone g)
          then Inl PathDestinationContext
          else if gp_approved_protocols g \<noteq> [''modbus_tcp''] then Inl PathProtocolUnsupported
          else Inr ()
      | _ \<Rightarrow> Inl PathUnknownAsset)"

definition validate_rule_points :: "LoadedProfile \<Rightarrow> CommunicationPolicyRule \<Rightarrow> PolicyError + unit" where
  "validate_rule_points lp r =
     for_each (\<lambda>point_id.
       case dict_of pt_point_id (mp_points (lp_profile lp)) point_id of
         None \<Rightarrow> Inl RulePointClassification
       | Some point \<Rightarrow>
           require (pt_access_class point \<in> set (ru_point_access_classes r)) RulePointClassification)
       (ru_point_ids r)"

definition validate_policy_dependencies ::
  "LoadedPolicy \<Rightarrow> LoadedInventory \<Rightarrow> LoadedProfile \<Rightarrow> PolicyError + unit" where
  "validate_policy_dependencies policy li lp =
     (let cp = lpo_profile policy; ip = li_profile li in
      if cp_inventory_profile_id cp \<noteq> ip_profile_id ip
         \<or> cp_inventory_profile_version cp \<noteq> ip_profile_version ip
      then Inl InventoryDependencyMismatch
      else if cp_protocol_profile_id cp \<noteq> mp_profile_id (lp_profile lp)
         \<or> cp_protocol_profile_version cp \<noteq> mp_profile_version (lp_profile lp)
         \<or> cp_protocol_profile_sha256 cp \<noteq> lp_sha256 lp
      then Inl ProtocolDependencyMismatch
      else rbind (for_each (validate_path_dependency li) (cp_governed_paths cp)) (\<lambda>_.
        for_each (validate_rule_points lp) (cp_rules cp)))"

section \<open>Evaluation data\<close>

record ResolvedRelationship =
  rr_relationship_type :: RelationshipType
  rr_source_asset_key :: string
  rr_target_kind :: RelationshipTargetKind
  rr_target_ref :: string

record AssetContextEvent =
  ce_asset_context_event_id :: uuid
  ce_asset_context_schema :: string
  ce_asset_context_schema_version :: string
  ce_source_evidence_id :: uuid
  ce_source_evidence_integrity_sha256 :: digest
  ce_semantic_event_id :: uuid
  ce_semantic_evidence_integrity_sha256 :: digest
  ce_inventory_profile :: string
  ce_inventory_version :: string
  ce_inventory_sha256 :: digest
  ce_resolver_name :: string
  ce_resolver_version :: string
  ce_canonicalization_version :: string
  ce_observed_at :: timestamp
  ce_source_identity_claims :: "IdentityClaim list"
  ce_destination_identity_claims :: "IdentityClaim list"
  ce_source_resolution :: AssetResolution
  ce_destination_resolution :: AssetResolution
  ce_relevant_relationships :: "ResolvedRelationship list"
  ce_target_process_asset :: "AssetResolution option"
  ce_derivation_kind :: string
  ce_derived_from :: uuid
  ce_ground_truth_used :: bool

record AuthorizationDimensions =
  dm_source_asset_known :: DimensionStatus
  dm_destination_asset_known :: DimensionStatus
  dm_source_zone_expected :: DimensionStatus
  dm_destination_zone_expected :: DimensionStatus
  dm_communication_path_approved :: DimensionStatus
  dm_protocol_approved :: DimensionStatus
  dm_operation_approved :: DimensionStatus
  dm_point_classification_allows :: DimensionStatus
  dm_source_role_approved :: DimensionStatus

record AuthorizationInput =
  au_source_evidence_verified :: bool
  au_semantic_evidence_verified :: bool
  au_source_evidence_id :: uuid
  au_source_evidence_integrity_sha256 :: digest
  au_semantic_event_id :: uuid
  au_semantic_evidence_integrity_sha256 :: digest
  au_observed_at :: timestamp
  au_protocol_profile :: string
  au_protocol_profile_version :: string
  au_protocol_profile_sha256 :: digest
  au_protocol :: string
  au_operation_category :: OperationCategory
  au_function_semantic :: "FunctionSemantic option"
  au_function_code :: int
  au_target_point :: "string option"
  au_point_access_class :: "PointAccessClass option"
  au_fictional_target_component :: "string option"
  au_operation_compatibility :: OperationCompatibility

record PolicyEvaluationResult =
  pr_dimension_results :: AuthorizationDimensions
  pr_matched_path_id :: "string option"
  pr_matched_rule_id :: "string option"
  pr_policy_status :: PolicyStatus
  pr_reason_code :: PolicyReasonCode
  pr_statement_template_id :: string
  pr_analyst_readable_statement :: string

section \<open>Evaluation\<close>

definition select_primary_reason :: "PolicyReasonCode set \<Rightarrow> PolicyError + PolicyReasonCode" where
  "select_primary_reason candidates =
     (case find (\<lambda>r. r \<in> candidates) REASON_PRECEDENCE of
        None \<Rightarrow> Inl NoReasonCandidate | Some r \<Rightarrow> Inr r)"

definition rule_matches :: "AuthorizationInput \<Rightarrow> string \<Rightarrow> CommunicationPolicyRule \<Rightarrow> bool" where
  "rule_matches auth path_id r =
     (ru_enabled r \<and> ru_path_id r = path_id \<and> ru_protocol r = au_protocol auth
      \<and> au_operation_category auth \<in> set (ru_operations r)
      \<and> au_function_semantic auth \<in> Some ` set (ru_function_semantics r)
      \<and> au_target_point auth \<in> Some ` set (ru_point_ids r)
      \<and> au_point_access_class auth \<in> Some ` set (ru_point_access_classes r))"

definition matching_rule ::
  "AuthorizationInput \<Rightarrow> string \<Rightarrow> LoadedPolicy \<Rightarrow> PolicyError + CommunicationPolicyRule option" where
  "matching_rule auth path_id policy =
     (let matches = filter (rule_matches auth path_id) (cp_rules (lpo_profile policy)) in
      case matches of
        [] \<Rightarrow> Inr None
      | [r] \<Rightarrow> Inr (Some r)
      | _ \<Rightarrow>
          (case filter (\<lambda>r. ru_decision r = ''DENIED'') matches of
             [r] \<Rightarrow> Inr (Some r)
           | _ \<Rightarrow> Inl AmbiguousRules))"

definition dimensions :: AuthorizationDimensions where
  "dimensions = \<lparr>
     dm_source_asset_known = DimensionStatus.UNKNOWN,
     dm_destination_asset_known = DimensionStatus.UNKNOWN,
     dm_source_zone_expected = DimensionStatus.UNKNOWN,
     dm_destination_zone_expected = DimensionStatus.UNKNOWN,
     dm_communication_path_approved = DimensionStatus.UNKNOWN,
     dm_protocol_approved = DimensionStatus.UNKNOWN,
     dm_operation_approved = DimensionStatus.UNKNOWN,
     dm_point_classification_allows = DimensionStatus.UNKNOWN,
     dm_source_role_approved = DimensionStatus.UNKNOWN\<rparr>"

definition policy_statement :: "PolicyStatus \<Rightarrow> PolicyReasonCode \<Rightarrow> string \<times> string" where
  "policy_statement status reason =
     (if reason = SOURCE_UNKNOWN then
        (''SOURCE_IDENTITY_UNKNOWN'',
         ''The source identity for this synthetic protocol event is not present in asset inventory 1.0.0; authorization remains unknown and malicious intent is not determined.'')
      else if reason = DESTINATION_UNKNOWN then
        (''DESTINATION_IDENTITY_UNKNOWN'',
         ''The destination identity is not present in asset inventory 1.0.0; authorization remains unknown and malicious intent is not determined.'')
      else if reason = IDENTITY_CONFLICT then
        (''IDENTITY_CLAIMS_CONFLICT'',
         ''Authoritative synthetic identity claims conflict; no asset was selected and malicious intent is not determined.'')
      else if reason = POINT_WRITE_NOT_APPROVED then
        (''POINT_WRITE_INCOMPATIBLE'',
         ''The synthetic write targets a read-only point; source authorization cannot override protocol-semantic incompatibility.'')
      else if reason \<in> {PROFILE_VERSION_UNSUPPORTED, POLICY_PROFILE_INVALID} then
        (''PROFILE_UNAVAILABLE'',
         ''The requested synthetic profile cannot support policy evaluation; authorization remains unknown.'')
      else if reason = POLICY_NOT_CLASSIFIED then
        (''COMMUNICATION_UNCLASSIFIED'',
         ''No exact path in synthetic policy 1.0.0 classifies this communication; authorization remains unknown.'')
      else if status = APPROVED then
        (''COMMUNICATION_APPROVED'',
         ''The communication is approved by synthetic policy 1.0.0; execution, physical effect, and malicious intent are not determined.'')
      else if status = DENIED then
        (''COMMUNICATION_DENIED'',
         ''The communication is not approved by synthetic policy 1.0.0; malicious intent is not determined.'')
      else
        (''COMMUNICATION_UNCLASSIFIED'',
         ''Synthetic policy evaluation is unknown and malicious intent is not determined.''))"

definition policy_result ::
  "AuthorizationDimensions \<Rightarrow> PolicyStatus \<Rightarrow> PolicyReasonCode \<Rightarrow> string option \<Rightarrow> string option \<Rightarrow>
   PolicyEvaluationResult" where
  "policy_result dims status reason path_id rule_id =
     (let ts = policy_statement status reason in
      \<lparr>pr_dimension_results = dims, pr_matched_path_id = path_id, pr_matched_rule_id = rule_id,
       pr_policy_status = status, pr_reason_code = reason,
       pr_statement_template_id = fst ts, pr_analyst_readable_statement = snd ts\<rparr>)"

definition unsupported_profile_result :: PolicyEvaluationResult where
  "unsupported_profile_result =
     policy_result dimensions PolicyStatus.UNKNOWN PROFILE_VERSION_UNSUPPORTED None None"

definition select_path :: "AssetResolution \<Rightarrow> AssetResolution \<Rightarrow> LoadedPolicy \<Rightarrow> GovernedPath option" where
  "select_path source destination policy =
     find (\<lambda>g. ar_asset_key source = Some (gp_source_asset_key g)
              \<and> ar_asset_key destination = Some (gp_destination_asset_key g))
       (cp_governed_paths (lpo_profile policy))"

definition denied_dimensions :: "AuthorizationDimensions \<Rightarrow> PolicyReasonCode \<Rightarrow> AuthorizationDimensions" where
  "denied_dimensions dims reason =
     (if reason = SOURCE_ROLE_NOT_APPROVED then
        dims\<lparr>dm_operation_approved := SATISFIED, dm_communication_path_approved := SATISFIED,
          dm_source_role_approved := NOT_SATISFIED\<rparr>
      else if reason = COMMUNICATION_NOT_APPROVED then
        dims\<lparr>dm_operation_approved := SATISFIED, dm_communication_path_approved := NOT_SATISFIED,
          dm_source_role_approved := SATISFIED\<rparr>
      else dims\<lparr>dm_operation_approved := NOT_SATISFIED\<rparr>)"

definition evaluate_policy ::
  "AuthorizationInput \<Rightarrow> AssetContextEvent \<Rightarrow> LoadedPolicy \<Rightarrow> PolicyError + PolicyEvaluationResult" where
  "evaluate_policy auth ctx policy =
     (let d0 = dimensions;
          source = ce_source_resolution ctx;
          destination = ce_destination_resolution ctx in
      if \<not> au_source_evidence_verified auth then
        Inr (policy_result d0 PolicyStatus.UNKNOWN PolicyReasonCode.SOURCE_EVIDENCE_NOT_VERIFIED None None)
      else if \<not> au_semantic_evidence_verified auth then
        Inr (policy_result d0 PolicyStatus.UNKNOWN SEMANTIC_EVIDENCE_NOT_VERIFIED None None)
      else if ar_status source = CONFLICT \<or> ar_status destination = CONFLICT then
        Inr (policy_result d0 PolicyStatus.UNKNOWN IDENTITY_CONFLICT None None)
      else if ar_status source = ResolutionStatus.UNKNOWN then
        Inr (policy_result (d0\<lparr>dm_source_asset_known := NOT_SATISFIED\<rparr>)
          PolicyStatus.UNKNOWN SOURCE_UNKNOWN None None)
      else if ar_status destination = ResolutionStatus.UNKNOWN then
        Inr (policy_result
          (d0\<lparr>dm_source_asset_known := SATISFIED, dm_destination_asset_known := NOT_SATISFIED\<rparr>)
          PolicyStatus.UNKNOWN DESTINATION_UNKNOWN None None)
      else
      (let d1 = d0\<lparr>dm_source_asset_known := SATISFIED, dm_destination_asset_known := SATISFIED\<rparr> in
       if ar_enabled source = Some False then
         Inr (policy_result d1 DENIED SOURCE_DISABLED None None)
       else if ar_enabled destination = Some False then
         Inr (policy_result d1 DENIED DESTINATION_DISABLED None None)
       else case select_path source destination policy of
         None \<Rightarrow> Inr (policy_result d1 PolicyStatus.UNKNOWN POLICY_NOT_CLASSIFIED None None)
       | Some path \<Rightarrow>
         if ar_zone_id source \<noteq> Some (gp_source_zone path) then
           Inr (policy_result (d1\<lparr>dm_source_zone_expected := NOT_SATISFIED\<rparr>)
             DENIED SOURCE_ZONE_UNEXPECTED (Some (gp_path_id path)) None)
         else if ar_zone_id destination \<noteq> Some (gp_destination_zone path) then
           Inr (policy_result
             (d1\<lparr>dm_source_zone_expected := SATISFIED, dm_destination_zone_expected := NOT_SATISFIED\<rparr>)
             DENIED DESTINATION_ZONE_UNEXPECTED (Some (gp_path_id path)) None)
         else
         (let d2 = d1\<lparr>dm_source_zone_expected := SATISFIED, dm_destination_zone_expected := SATISFIED\<rparr> in
          if au_operation_category auth = OperationCategory.WRITE
             \<and> (au_point_access_class auth = Some READ_ONLY
                \<or> au_operation_compatibility auth = INCOMPATIBLE) then
            Inr (policy_result (d2\<lparr>dm_point_classification_allows := NOT_SATISFIED\<rparr>)
              DENIED POINT_WRITE_NOT_APPROVED (Some (gp_path_id path)) None)
          else
          (let d3 = d2\<lparr>dm_point_classification_allows := SATISFIED\<rparr> in
           if au_protocol auth \<notin> set (gp_approved_protocols path) then
             Inr (policy_result (d3\<lparr>dm_protocol_approved := NOT_SATISFIED\<rparr>)
               DENIED PROTOCOL_NOT_APPROVED (Some (gp_path_id path)) None)
           else
           (let d4 = d3\<lparr>dm_protocol_approved := SATISFIED\<rparr> in
            rbind (matching_rule auth (gp_path_id path) policy) (\<lambda>found.
            case found of
              None \<Rightarrow>
                Inr (policy_result (d4\<lparr>dm_operation_approved := NOT_SATISFIED\<rparr>)
                  DENIED OPERATION_NOT_APPROVED (Some (gp_path_id path)) None)
            | Some rule \<Rightarrow>
                if ru_decision rule = ''DENIED'' then
                  Inr (policy_result (denied_dimensions d4 (ru_reason_code rule))
                    DENIED (ru_reason_code rule) (Some (gp_path_id path)) (Some (ru_rule_id rule)))
                else
                  Inr (policy_result
                    (d4\<lparr>dm_communication_path_approved := SATISFIED,
                        dm_operation_approved := SATISFIED, dm_source_role_approved := SATISFIED\<rparr>)
                    APPROVED POLICY_MATCH_APPROVED (Some (gp_path_id path))
                    (Some (ru_rule_id rule)))))))))"

section \<open>The approved policy document\<close>

definition path_hmi_plc :: GovernedPath where
  "path_hmi_plc = \<lparr>gp_path_id = ''PATH-HMI-PLC'', gp_source_asset_key = ''HMI-01'',
     gp_source_role = OPERATOR_INTERFACE, gp_source_zone = OT_CONTROL_ZONE,
     gp_destination_asset_key = ''PLC-01'',
     gp_destination_role = CONTROL_EXECUTION, gp_destination_zone = OT_CONTROL_ZONE,
     gp_approved_protocols = [''modbus_tcp'']\<rparr>"

definition path_eng_plc :: GovernedPath where
  "path_eng_plc = \<lparr>gp_path_id = ''PATH-ENG-PLC'', gp_source_asset_key = ''ENG-WS-01'',
     gp_source_role = ENGINEERING_MAINTENANCE, gp_source_zone = OT_CONTROL_ZONE,
     gp_destination_asset_key = ''PLC-01'',
     gp_destination_role = CONTROL_EXECUTION, gp_destination_zone = OT_CONTROL_ZONE,
     gp_approved_protocols = [''modbus_tcp'']\<rparr>"

definition path_it_plc :: GovernedPath where
  "path_it_plc = \<lparr>gp_path_id = ''PATH-IT-PLC'', gp_source_asset_key = ''IT-WS-01'',
     gp_source_role = ENTERPRISE_USER, gp_source_zone = IT_ZONE,
     gp_destination_asset_key = ''PLC-01'',
     gp_destination_role = CONTROL_EXECUTION, gp_destination_zone = OT_CONTROL_ZONE,
     gp_approved_protocols = [''modbus_tcp'']\<rparr>"

definition acp_001 :: CommunicationPolicyRule where
  "acp_001 = \<lparr>ru_rule_id = ''ACP-001'', ru_path_id = ''PATH-HMI-PLC'',
     ru_source_asset_key = ''HMI-01'', ru_source_role = OPERATOR_INTERFACE,
     ru_source_zone = OT_CONTROL_ZONE, ru_destination_asset_key = ''PLC-01'',
     ru_destination_role = CONTROL_EXECUTION, ru_destination_zone = OT_CONTROL_ZONE,
     ru_protocol = ''modbus_tcp'', ru_operations = [OperationCategory.READ],
     ru_function_semantics = [READ_DISCRETE_INPUTS, READ_HOLDING_REGISTERS,
       READ_INPUT_REGISTERS],
     ru_point_ids = [''transfer_pump_command_percent'', ''control_valve_command_percent'',
       ''source_tank_level_percent'', ''receiving_tank_level_percent'',
       ''pipeline_flow_rate_m3h'', ''pipeline_pressure_bar'',
       ''process_temperature_c'', ''control_valve_position_percent'',
       ''transfer_pump_running''],
     ru_point_access_classes = [READ_ONLY, COMMANDABLE_SYNTHETIC],
     ru_decision = ''APPROVED'', ru_reason_code = POLICY_MATCH_APPROVED, ru_enabled = True\<rparr>"

definition acp_002 :: CommunicationPolicyRule where
  "acp_002 = \<lparr>ru_rule_id = ''ACP-002'', ru_path_id = ''PATH-HMI-PLC'',
     ru_source_asset_key = ''HMI-01'', ru_source_role = OPERATOR_INTERFACE,
     ru_source_zone = OT_CONTROL_ZONE, ru_destination_asset_key = ''PLC-01'',
     ru_destination_role = CONTROL_EXECUTION, ru_destination_zone = OT_CONTROL_ZONE,
     ru_protocol = ''modbus_tcp'', ru_operations = [OperationCategory.WRITE],
     ru_function_semantics = [WRITE_SINGLE_REGISTER],
     ru_point_ids = [''transfer_pump_command_percent''],
     ru_point_access_classes = [COMMANDABLE_SYNTHETIC],
     ru_decision = ''APPROVED'', ru_reason_code = POLICY_MATCH_APPROVED, ru_enabled = True\<rparr>"

definition acp_003 :: CommunicationPolicyRule where
  "acp_003 = \<lparr>ru_rule_id = ''ACP-003'', ru_path_id = ''PATH-HMI-PLC'',
     ru_source_asset_key = ''HMI-01'', ru_source_role = OPERATOR_INTERFACE,
     ru_source_zone = OT_CONTROL_ZONE, ru_destination_asset_key = ''PLC-01'',
     ru_destination_role = CONTROL_EXECUTION, ru_destination_zone = OT_CONTROL_ZONE,
     ru_protocol = ''modbus_tcp'', ru_operations = [OperationCategory.WRITE],
     ru_function_semantics = [WRITE_SINGLE_REGISTER],
     ru_point_ids = [''control_valve_command_percent''],
     ru_point_access_classes = [COMMANDABLE_SYNTHETIC],
     ru_decision = ''APPROVED'', ru_reason_code = POLICY_MATCH_APPROVED, ru_enabled = True\<rparr>"

definition acp_004 :: CommunicationPolicyRule where
  "acp_004 = \<lparr>ru_rule_id = ''ACP-004'', ru_path_id = ''PATH-ENG-PLC'',
     ru_source_asset_key = ''ENG-WS-01'', ru_source_role = ENGINEERING_MAINTENANCE,
     ru_source_zone = OT_CONTROL_ZONE, ru_destination_asset_key = ''PLC-01'',
     ru_destination_role = CONTROL_EXECUTION, ru_destination_zone = OT_CONTROL_ZONE,
     ru_protocol = ''modbus_tcp'', ru_operations = [OperationCategory.READ],
     ru_function_semantics = [READ_DISCRETE_INPUTS, READ_HOLDING_REGISTERS,
       READ_INPUT_REGISTERS],
     ru_point_ids = [''transfer_pump_command_percent'', ''control_valve_command_percent'',
       ''source_tank_level_percent'', ''receiving_tank_level_percent'',
       ''pipeline_flow_rate_m3h'', ''pipeline_pressure_bar'',
       ''process_temperature_c'', ''control_valve_position_percent'',
       ''transfer_pump_running''],
     ru_point_access_classes = [READ_ONLY, COMMANDABLE_SYNTHETIC],
     ru_decision = ''APPROVED'', ru_reason_code = POLICY_MATCH_APPROVED, ru_enabled = True\<rparr>"

definition acp_005 :: CommunicationPolicyRule where
  "acp_005 = \<lparr>ru_rule_id = ''ACP-005'', ru_path_id = ''PATH-ENG-PLC'',
     ru_source_asset_key = ''ENG-WS-01'', ru_source_role = ENGINEERING_MAINTENANCE,
     ru_source_zone = OT_CONTROL_ZONE, ru_destination_asset_key = ''PLC-01'',
     ru_destination_role = CONTROL_EXECUTION, ru_destination_zone = OT_CONTROL_ZONE,
     ru_protocol = ''modbus_tcp'', ru_operations = [OperationCategory.WRITE],
     ru_function_semantics = [WRITE_SINGLE_REGISTER],
     ru_point_ids = [''transfer_pump_command_percent'', ''control_valve_command_percent''],
     ru_point_access_classes = [COMMANDABLE_SYNTHETIC],
     ru_decision = ''DENIED'', ru_reason_code = SOURCE_ROLE_NOT_APPROVED, ru_enabled = True\<rparr>"

definition acp_006 :: CommunicationPolicyRule where
  "acp_006 = \<lparr>ru_rule_id = ''ACP-006'', ru_path_id = ''PATH-IT-PLC'',
     ru_source_asset_key = ''IT-WS-01'', ru_source_role = ENTERPRISE_USER,
     ru_source_zone = IT_ZONE, ru_destination_asset_key = ''PLC-01'',
     ru_destination_role = CONTROL_EXECUTION, ru_destination_zone = OT_CONTROL_ZONE,
     ru_protocol = ''modbus_tcp'', ru_operations = [OperationCategory.READ, OperationCategory.WRITE],
     ru_function_semantics = [READ_DISCRETE_INPUTS, READ_HOLDING_REGISTERS,
       READ_INPUT_REGISTERS, WRITE_SINGLE_REGISTER],
     ru_point_ids = [''transfer_pump_command_percent'', ''control_valve_command_percent'',
       ''source_tank_level_percent'', ''receiving_tank_level_percent'',
       ''pipeline_flow_rate_m3h'', ''pipeline_pressure_bar'',
       ''process_temperature_c'', ''control_valve_position_percent'',
       ''transfer_pump_running''],
     ru_point_access_classes = [READ_ONLY, COMMANDABLE_SYNTHETIC],
     ru_decision = ''DENIED'', ru_reason_code = COMMUNICATION_NOT_APPROVED, ru_enabled = True\<rparr>"

definition oil_gas_communication_policy_v1 :: CommunicationPolicyProfile where
  "oil_gas_communication_policy_v1 = \<lparr>
     cp_profile_id = ''otsoc.communication_policy.oil_gas_transfer'', cp_profile_version = ''1.0.0'',
     cp_inventory_profile_id = ''otsoc.asset_inventory.oil_gas_transfer'',
     cp_inventory_profile_version = ''1.0.0'',
     cp_protocol_profile_id = ''otsoc.synthetic_modbus.oil_gas_transfer'',
     cp_protocol_profile_version = ''1.0.0'',
     cp_protocol_profile_sha256 = ''b3ade7b3ae5dd7e5955c54b5a3345dc6f79b5bfa7bf78a2f1a82df3a5f4016ff'',
     cp_governed_paths = [path_hmi_plc, path_eng_plc, path_it_plc],
     cp_rules = [acp_001, acp_002, acp_003, acp_004, acp_005, acp_006],
     cp_reason_precedence = [PolicyReasonCode.SOURCE_EVIDENCE_NOT_VERIFIED, SEMANTIC_EVIDENCE_NOT_VERIFIED, PROFILE_VERSION_UNSUPPORTED,
       POLICY_PROFILE_INVALID, IDENTITY_CONFLICT, SOURCE_UNKNOWN,
       DESTINATION_UNKNOWN, SOURCE_DISABLED, DESTINATION_DISABLED,
       SOURCE_ZONE_UNEXPECTED, DESTINATION_ZONE_UNEXPECTED, POINT_WRITE_NOT_APPROVED,
       PROTOCOL_NOT_APPROVED, OPERATION_NOT_APPROVED, SOURCE_ROLE_NOT_APPROVED,
       COMMUNICATION_NOT_APPROVED, POLICY_NOT_CLASSIFIED, POLICY_MATCH_APPROVED]\<rparr>"

section \<open>Lemmas on evaluation\<close>

lemma policy_result_fields [simp]:
  "pr_policy_status (policy_result d st rs p q) = st"
  "pr_reason_code (policy_result d st rs p q) = rs"
  "pr_dimension_results (policy_result d st rs p q) = d"
  "pr_matched_path_id (policy_result d st rs p q) = p"
  "pr_matched_rule_id (policy_result d st rs p q) = q"
  by (simp_all add: policy_result_def Let_def)

text \<open>The conditions under which the evaluator approves, on a governed path and by a rule.\<close>

definition approval ::
  "AuthorizationInput \<Rightarrow> AssetContextEvent \<Rightarrow> LoadedPolicy \<Rightarrow> GovernedPath \<Rightarrow> CommunicationPolicyRule \<Rightarrow> bool" where
  "approval auth ctx policy path rule =
     (let source = ce_source_resolution ctx; destination = ce_destination_resolution ctx in
      au_source_evidence_verified auth \<and> au_semantic_evidence_verified auth
      \<and> ar_status source = RESOLVED \<and> ar_status destination = RESOLVED
      \<and> ar_enabled source \<noteq> Some False \<and> ar_enabled destination \<noteq> Some False
      \<and> select_path source destination policy = Some path
      \<and> ar_zone_id source = Some (gp_source_zone path)
      \<and> ar_zone_id destination = Some (gp_destination_zone path)
      \<and> \<not> (au_operation_category auth = OperationCategory.WRITE
           \<and> (au_point_access_class auth = Some READ_ONLY
              \<or> au_operation_compatibility auth = INCOMPATIBLE))
      \<and> au_protocol auth \<in> set (gp_approved_protocols path)
      \<and> matching_rule auth (gp_path_id path) policy = Inr (Some rule)
      \<and> ru_decision rule \<noteq> ''DENIED'')"

lemma not_resolved_cases:
  "s \<noteq> CONFLICT \<and> s \<noteq> ResolutionStatus.UNKNOWN \<longleftrightarrow> s = RESOLVED"
  by (cases s) auto

lemma evaluate_policy_approved:
  "(\<exists>r. evaluate_policy auth ctx policy = Inr r \<and> pr_policy_status r = APPROVED) \<longleftrightarrow>
   (\<exists>path rule. approval auth ctx policy path rule)"
  using not_resolved_cases [of "ar_status (ce_source_resolution ctx)"]
    not_resolved_cases [of "ar_status (ce_destination_resolution ctx)"]
  by (auto simp: evaluate_policy_def approval_def Let_def rbind_def
      split: option.splits sum.splits)

definition all_satisfied :: "AuthorizationDimensions \<Rightarrow> bool" where
  "all_satisfied d =
     (dm_source_asset_known d = SATISFIED \<and> dm_destination_asset_known d = SATISFIED
      \<and> dm_source_zone_expected d = SATISFIED \<and> dm_destination_zone_expected d = SATISFIED
      \<and> dm_communication_path_approved d = SATISFIED \<and> dm_protocol_approved d = SATISFIED
      \<and> dm_operation_approved d = SATISFIED \<and> dm_point_classification_allows d = SATISFIED
      \<and> dm_source_role_approved d = SATISFIED)"

lemma approved_dimensions:
  "ensures (evaluate_policy auth ctx policy)
     (\<lambda>r. pr_policy_status r = APPROVED \<longleftrightarrow> all_satisfied (pr_dimension_results r))"
  unfolding evaluate_policy_def Let_def
  by (intro ensures_intros; rule ensures_Inr)
    (simp_all add: all_satisfied_def denied_dimensions_def dimensions_def)

definition rules_overlap :: "CommunicationPolicyRule \<Rightarrow> CommunicationPolicyRule \<Rightarrow> bool" where
  "rules_overlap r s =
     (ru_path_id r = ru_path_id s \<and> ru_protocol r = ru_protocol s
      \<and> list_ex (\<lambda>x. x \<in> set (ru_operations s)) (ru_operations r)
      \<and> list_ex (\<lambda>x. x \<in> set (ru_function_semantics s)) (ru_function_semantics r)
      \<and> list_ex (\<lambda>x. x \<in> set (ru_point_ids s)) (ru_point_ids r)
      \<and> list_ex (\<lambda>x. x \<in> set (ru_point_access_classes s)) (ru_point_access_classes r))"

lemma rule_matches_overlap:
  "rule_matches auth pid r \<Longrightarrow> rule_matches auth pid s \<Longrightarrow> rules_overlap r s"
  by (auto simp: rule_matches_def rules_overlap_def list_ex_iff)

lemma filter_exclusive:
  assumes "sorted_wrt (\<lambda>r s. \<not> (P r \<and> P s)) rs"
  shows "filter P rs = (case find P rs of None \<Rightarrow> [] | Some r \<Rightarrow> [r])"
  using assms by (induction rs) (auto simp: filter_empty_conv)

definition unambiguous :: "LoadedPolicy \<Rightarrow> bool" where
  "unambiguous policy = sorted_wrt (\<lambda>r s. \<not> rules_overlap r s) (cp_rules (lpo_profile policy))"

lemma matching_rule_unambiguous:
  assumes "unambiguous policy"
  shows "matching_rule auth pid policy = Inr (find (rule_matches auth pid) (cp_rules (lpo_profile policy)))"
proof -
  have "sorted_wrt (\<lambda>r s. \<not> (rule_matches auth pid r \<and> rule_matches auth pid s)) (cp_rules (lpo_profile policy))"
    by (rule sorted_wrt_mono_rel [OF _ assms [unfolded unambiguous_def]]) (metis rule_matches_overlap)
  from filter_exclusive [OF this] show ?thesis
    by (auto simp: matching_rule_def Let_def split: option.splits)
qed

lemma evaluate_policy_total:
  assumes "unambiguous policy"
  shows "\<exists>r. evaluate_policy auth ctx policy = Inr r"
  unfolding evaluate_policy_def Let_def matching_rule_unambiguous [OF assms] rbind_simps
  by (intro returns_if returns_option) auto

definition v1_policy :: LoadedPolicy where
  "v1_policy = \<lparr>lpo_profile = oil_gas_communication_policy_v1,
     lpo_sha256 = ''f396a1eeae4318585c6b2c7290cbb2e409509f3d54bf6e2a276bc027d5d17159''\<rparr>"

definition v1_protocol :: LoadedProfile where
  "v1_protocol = \<lparr>lp_profile = oil_gas_modbus_v1, lp_sha256 = EXPECTED_PROTOCOL_PROFILE_SHA256\<rparr>"

lemma v1_unambiguous: "unambiguous v1_policy"
  by code_simp

lemma v1_select_path:
  "select_path s d v1_policy =
     (if ar_asset_key d \<noteq> Some ''PLC-01'' then None
      else if ar_asset_key s = Some ''HMI-01'' then Some path_hmi_plc
      else if ar_asset_key s = Some ''ENG-WS-01'' then Some path_eng_plc
      else if ar_asset_key s = Some ''IT-WS-01'' then Some path_it_plc
      else None)"
  by (auto simp: select_path_def v1_policy_def oil_gas_communication_policy_v1_def
      path_hmi_plc_def path_eng_plc_def path_it_plc_def)

definition v1_reads :: "AuthorizationInput \<Rightarrow> bool" where
  "v1_reads auth =
     (au_operation_category auth = OperationCategory.READ
      \<and> au_function_semantic auth \<in> Some ` {READ_DISCRETE_INPUTS, READ_HOLDING_REGISTERS, READ_INPUT_REGISTERS}
      \<and> au_target_point auth \<in> Some ` set (map pt_point_id (mp_points oil_gas_modbus_v1))
      \<and> au_point_access_class auth \<noteq> None)"

definition v1_commands :: "AuthorizationInput \<Rightarrow> bool" where
  "v1_commands auth =
     (au_operation_category auth = OperationCategory.WRITE
      \<and> au_function_semantic auth = Some WRITE_SINGLE_REGISTER
      \<and> au_target_point auth \<in> {Some ''transfer_pump_command_percent'', Some ''control_valve_command_percent''}
      \<and> au_point_access_class auth = Some COMMANDABLE_SYNTHETIC)"

lemmas v1_rule_defs = acp_001_def acp_002_def acp_003_def acp_004_def acp_005_def acp_006_def

lemma v1_point_ids:
  "map pt_point_id (mp_points oil_gas_modbus_v1) =
     [''transfer_pump_command_percent'', ''control_valve_command_percent'',
      ''source_tank_level_percent'', ''receiving_tank_level_percent'', ''pipeline_flow_rate_m3h'',
      ''pipeline_pressure_bar'', ''process_temperature_c'', ''control_valve_position_percent'',
      ''transfer_pump_running'']"
  by code_simp

definition v1_any :: "AuthorizationInput \<Rightarrow> bool" where
  "v1_any auth =
     (au_operation_category auth \<in> {OperationCategory.READ, OperationCategory.WRITE}
      \<and> au_function_semantic auth \<noteq> None
      \<and> au_target_point auth \<in> Some ` set (map pt_point_id (mp_points oil_gas_modbus_v1))
      \<and> au_point_access_class auth \<noteq> None)"

lemma class_in: "x \<in> {Some READ_ONLY, Some COMMANDABLE_SYNTHETIC} \<longleftrightarrow> x \<noteq> None"
proof (cases x)
  case (Some y)
  then show ?thesis by (cases y) auto
qed auto

lemma function_in: "x \<in> {Some READ_DISCRETE_INPUTS, Some READ_HOLDING_REGISTERS,
    Some READ_INPUT_REGISTERS, Some WRITE_SINGLE_REGISTER} \<longleftrightarrow> x \<noteq> None"
proof (cases x)
  case (Some y)
  then show ?thesis by (cases y) auto
qed auto

lemma v1_rule_matches:
  "rule_matches auth pid acp_001 \<longleftrightarrow> ''PATH-HMI-PLC'' = pid \<and> ''modbus_tcp'' = au_protocol auth \<and> v1_reads auth"
  "rule_matches auth pid acp_002 \<longleftrightarrow> ''PATH-HMI-PLC'' = pid \<and> ''modbus_tcp'' = au_protocol auth \<and> v1_commands auth
     \<and> au_target_point auth = Some ''transfer_pump_command_percent''"
  "rule_matches auth pid acp_003 \<longleftrightarrow> ''PATH-HMI-PLC'' = pid \<and> ''modbus_tcp'' = au_protocol auth \<and> v1_commands auth
     \<and> au_target_point auth = Some ''control_valve_command_percent''"
  "rule_matches auth pid acp_004 \<longleftrightarrow> ''PATH-ENG-PLC'' = pid \<and> ''modbus_tcp'' = au_protocol auth \<and> v1_reads auth"
  "rule_matches auth pid acp_005 \<longleftrightarrow> ''PATH-ENG-PLC'' = pid \<and> ''modbus_tcp'' = au_protocol auth \<and> v1_commands auth"
  "rule_matches auth pid acp_006 \<longleftrightarrow> ''PATH-IT-PLC'' = pid \<and> ''modbus_tcp'' = au_protocol auth \<and> v1_any auth"
  using class_in [of "au_point_access_class auth"] function_in [of "au_function_semantic auth"]
  unfolding rule_matches_def v1_rule_defs v1_reads_def v1_commands_def v1_any_def v1_point_ids
    CommunicationPolicyRule.simps set_simps image_insert image_empty
  by blast+

lemma v1_reads_commands: "v1_reads auth \<Longrightarrow> \<not> v1_commands auth"
  by (simp add: v1_reads_def v1_commands_def)

lemma v1_matching_rule:
  "matching_rule auth pid v1_policy = Inr (
     if au_protocol auth \<noteq> ''modbus_tcp'' then None
     else if pid = ''PATH-HMI-PLC'' then
       (if v1_reads auth then Some acp_001
        else if \<not> v1_commands auth then None
        else if au_target_point auth = Some ''transfer_pump_command_percent'' then Some acp_002
        else Some acp_003)
     else if pid = ''PATH-ENG-PLC'' then
       (if v1_reads auth then Some acp_004 else if v1_commands auth then Some acp_005 else None)
     else if pid = ''PATH-IT-PLC'' then (if v1_any auth then Some acp_006 else None)
     else None)"
proof -
  have rules: "cp_rules (lpo_profile v1_policy) = [acp_001, acp_002, acp_003, acp_004, acp_005, acp_006]"
    by (simp add: v1_policy_def oil_gas_communication_policy_v1_def)
  have third: "v1_commands auth \<Longrightarrow> au_target_point auth \<noteq> Some ''transfer_pump_command_percent'' \<Longrightarrow>
      au_target_point auth = Some ''control_valve_command_percent''"
    by (auto simp: v1_commands_def)
  show ?thesis
    unfolding matching_rule_unambiguous [OF v1_unambiguous] rules
    using v1_reads_commands [of auth] third
    by (auto simp: v1_rule_matches)
qed

lemma v1_policy_valid: "validate_policy oil_gas_communication_policy_v1 = Inr ()"
  by code_simp

lemma v1_policy_dependencies: "validate_policy_dependencies v1_policy v1_inventory v1_protocol = Inr ()"
  by code_simp



lemma v1_approved_iff:
  "(\<exists>r. evaluate_policy auth ctx v1_policy = Inr r \<and> pr_policy_status r = APPROVED) \<longleftrightarrow>
     (let source = ce_source_resolution ctx; destination = ce_destination_resolution ctx in
      au_source_evidence_verified auth \<and> au_semantic_evidence_verified auth
      \<and> ar_status source = RESOLVED \<and> ar_status destination = RESOLVED
      \<and> ar_enabled source \<noteq> Some False \<and> ar_enabled destination \<noteq> Some False
      \<and> ar_zone_id source = Some OT_CONTROL_ZONE \<and> ar_zone_id destination = Some OT_CONTROL_ZONE
      \<and> ar_asset_key destination = Some ''PLC-01'' \<and> au_protocol auth = ''modbus_tcp''
      \<and> (ar_asset_key source \<in> {Some ''HMI-01'', Some ''ENG-WS-01''} \<and> v1_reads auth
         \<or> ar_asset_key source = Some ''HMI-01'' \<and> v1_commands auth
           \<and> au_operation_compatibility auth \<noteq> INCOMPATIBLE))"
proof -
  have category: "v1_reads auth \<Longrightarrow> au_operation_category auth \<noteq> OperationCategory.WRITE"
    "v1_commands auth \<Longrightarrow> au_operation_category auth = OperationCategory.WRITE \<and> au_point_access_class auth \<noteq> Some READ_ONLY"
    by (simp_all add: v1_reads_def v1_commands_def)
  have decisions: "ru_decision acp_001 \<noteq> ''DENIED''" "ru_decision acp_002 \<noteq> ''DENIED''"
    "ru_decision acp_003 \<noteq> ''DENIED''" "ru_decision acp_004 \<noteq> ''DENIED''"
    "ru_decision acp_005 = ''DENIED''" "ru_decision acp_006 = ''DENIED''"
    by (simp_all add: v1_rule_defs)
  show ?thesis
    unfolding evaluate_policy_approved approval_def Let_def v1_select_path v1_matching_rule
    using category v1_reads_commands [of auth]
    by (auto simp: decisions path_hmi_plc_def path_eng_plc_def path_it_plc_def split: if_splits)
qed

text \<open>
  C7. The access matrix of the approved policy. An evaluation approves exactly when both pieces of
  evidence are verified, both ends are resolved, enabled assets in the control zone, the destination
  is PLC-01, the protocol is modbus_tcp, and either HMI-01 or ENG-WS-01 reads a profile point with a
  read function, or HMI-01 writes a single register of one of the two commandable points and the
  decoder did not find the operation incompatible. No other source, IT-WS-01 included, is approved
  for anything.
\<close>

theorem v1_access_matrix:
  "(\<exists>r. evaluate_policy auth ctx v1_policy = Inr r \<and> pr_policy_status r = APPROVED) \<longleftrightarrow>
     (let source = ce_source_resolution ctx; destination = ce_destination_resolution ctx in
      au_source_evidence_verified auth \<and> au_semantic_evidence_verified auth
      \<and> ar_status source = RESOLVED \<and> ar_status destination = RESOLVED
      \<and> ar_enabled source \<noteq> Some False \<and> ar_enabled destination \<noteq> Some False
      \<and> ar_zone_id source = Some OT_CONTROL_ZONE \<and> ar_zone_id destination = Some OT_CONTROL_ZONE
      \<and> ar_asset_key destination = Some ''PLC-01'' \<and> au_protocol auth = ''modbus_tcp''
      \<and> (ar_asset_key source \<in> {Some ''HMI-01'', Some ''ENG-WS-01''} \<and> v1_reads auth
         \<or> ar_asset_key source = Some ''HMI-01'' \<and> v1_commands auth
           \<and> au_operation_compatibility auth \<noteq> INCOMPATIBLE))"
  by (rule v1_approved_iff)

lemma filter_singletonD: "filter P xs = [q] \<Longrightarrow> P q"
  by (induction xs) (auto split: if_splits)

text \<open>
  C8. Deny overrides. Whatever the policy, when an enabled rule that matches the operation on the
  selected path denies it, the evaluation never approves, however many other rules approve it.
\<close>

theorem deny_overrides:
  assumes "select_path (ce_source_resolution ctx) (ce_destination_resolution ctx) policy = Some path"
    and "rule \<in> set (cp_rules (lpo_profile policy))"
    and "rule_matches auth (gp_path_id path) rule" and "ru_decision rule = ''DENIED''"
    and "evaluate_policy auth ctx policy = Inr r"
  shows "pr_policy_status r \<noteq> APPROVED"
proof
  assume "pr_policy_status r = APPROVED"
  with assms(5) evaluate_policy_approved obtain p q where "approval auth ctx policy p q" by blast
  with assms(1) have q: "matching_rule auth (gp_path_id path) policy = Inr (Some q)"
      "ru_decision q \<noteq> ''DENIED''"
    by (simp_all add: approval_def Let_def)
  let ?ms = "filter (rule_matches auth (gp_path_id path)) (cp_rules (lpo_profile policy))"
  have rule: "rule \<in> set ?ms" using assms(2,3) by simp
  have "ru_decision q = ''DENIED'' \<or> ?ms = [q]"
    using q(1) unfolding matching_rule_def Let_def
    by (auto simp del: filter.simps split: list.splits dest: filter_singletonD)
  with q(2) have "?ms = [q]" by blast
  with rule have "rule = q" by (metis empty_iff insert_iff list.set(1) list.set(2))
  with q(2) assms(4) show False by simp
qed

section \<open>Reason precedence\<close>

text \<open>The conditions of the reasons, each on its own and in no order.\<close>

fun applicable :: "AuthorizationInput \<Rightarrow> AssetContextEvent \<Rightarrow> LoadedPolicy \<Rightarrow> PolicyReasonCode \<Rightarrow> bool" where
  "applicable auth ctx policy PolicyReasonCode.SOURCE_EVIDENCE_NOT_VERIFIED =
     (\<not> au_source_evidence_verified auth)"
| "applicable auth ctx policy SEMANTIC_EVIDENCE_NOT_VERIFIED = (\<not> au_semantic_evidence_verified auth)"
| "applicable auth ctx policy IDENTITY_CONFLICT =
     (ar_status (ce_source_resolution ctx) = CONFLICT \<or> ar_status (ce_destination_resolution ctx) = CONFLICT)"
| "applicable auth ctx policy SOURCE_UNKNOWN =
     (ar_status (ce_source_resolution ctx) = ResolutionStatus.UNKNOWN)"
| "applicable auth ctx policy DESTINATION_UNKNOWN =
     (ar_status (ce_destination_resolution ctx) = ResolutionStatus.UNKNOWN)"
| "applicable auth ctx policy SOURCE_DISABLED = (ar_enabled (ce_source_resolution ctx) = Some False)"
| "applicable auth ctx policy DESTINATION_DISABLED =
     (ar_enabled (ce_destination_resolution ctx) = Some False)"
| "applicable auth ctx policy POLICY_NOT_CLASSIFIED =
     (select_path (ce_source_resolution ctx) (ce_destination_resolution ctx) policy = None)"
| "applicable auth ctx policy PROFILE_VERSION_UNSUPPORTED = False"
| "applicable auth ctx policy POLICY_PROFILE_INVALID = False"
| "applicable auth ctx policy reason =
     (case select_path (ce_source_resolution ctx) (ce_destination_resolution ctx) policy of
        None \<Rightarrow> False
      | Some path \<Rightarrow>
          (case reason of
             SOURCE_ZONE_UNEXPECTED \<Rightarrow>
               ar_zone_id (ce_source_resolution ctx) \<noteq> Some (gp_source_zone path)
           | DESTINATION_ZONE_UNEXPECTED \<Rightarrow>
               ar_zone_id (ce_destination_resolution ctx) \<noteq> Some (gp_destination_zone path)
           | POINT_WRITE_NOT_APPROVED \<Rightarrow>
               au_operation_category auth = OperationCategory.WRITE
               \<and> (au_point_access_class auth = Some READ_ONLY
                  \<or> au_operation_compatibility auth = INCOMPATIBLE)
           | PROTOCOL_NOT_APPROVED \<Rightarrow> au_protocol auth \<notin> set (gp_approved_protocols path)
           | OPERATION_NOT_APPROVED \<Rightarrow> matching_rule auth (gp_path_id path) policy = Inr None
           | POLICY_MATCH_APPROVED \<Rightarrow>
               (case matching_rule auth (gp_path_id path) policy of
                  Inr (Some rule) \<Rightarrow> ru_decision rule \<noteq> ''DENIED'' | _ \<Rightarrow> False)
           | _ \<Rightarrow>
               (case matching_rule auth (gp_path_id path) policy of
                  Inr (Some rule) \<Rightarrow> ru_decision rule = ''DENIED'' \<and> ru_reason_code rule = reason
                | _ \<Rightarrow> False)))"

lemma v1_deny_reasons:
  assumes "matching_rule auth pid v1_policy = Inr (Some rule)" and "ru_decision rule = ''DENIED''"
  shows "ru_reason_code rule = SOURCE_ROLE_NOT_APPROVED \<or> ru_reason_code rule = COMMUNICATION_NOT_APPROVED"
proof -
  from assms(1) have "rule \<in> {acp_001, acp_002, acp_003, acp_004, acp_005, acp_006}"
    by (auto simp: v1_matching_rule split: if_splits)
  with assms(2) show ?thesis by (auto simp: v1_rule_defs)
qed

lemma primary_reason_of_evaluation:
  "ensures (evaluate_policy auth ctx v1_policy)
     (\<lambda>r. select_primary_reason (Collect (applicable auth ctx v1_policy)) = Inr (pr_reason_code r))"
  unfolding evaluate_policy_def Let_def
  by (intro ensures_intros; rule ensures_Inr)
    (auto simp: select_primary_reason_def REASON_PRECEDENCE_def dest!: v1_deny_reasons)

text \<open>
  C9. Under the approved policy every evaluation returns, and the reason it reports is the first,
  in the precedence the policy declares, of all the reasons that apply.
\<close>

theorem v1_reason_precedence:
  "\<exists>r. evaluate_policy auth ctx v1_policy = Inr r
     \<and> select_primary_reason (Collect (applicable auth ctx v1_policy)) = Inr (pr_reason_code r)"
  using evaluate_policy_total [OF v1_unambiguous, of auth ctx]
    ensuresD [OF primary_reason_of_evaluation] by blast

text \<open>
  The nine authorization dimensions explain the decision: whatever the policy, an evaluation
  approves if and only if it reports every dimension as satisfied.
\<close>

theorem approved_iff_all_dimensions:
  assumes "evaluate_policy auth ctx policy = Inr r"
  shows "pr_policy_status r = APPROVED \<longleftrightarrow> all_satisfied (pr_dimension_results r)"
  using ensuresD [OF approved_dimensions assms] .

section \<open>A denied command\<close>

text \<open>IT-WS-01 commands the control valve through PLC-01: the communication of scenario S3.\<close>

definition it_command :: AuthorizationInput where
  "it_command = \<lparr>au_source_evidence_verified = True, au_semantic_evidence_verified = True,
     au_source_evidence_id = ''raw'', au_source_evidence_integrity_sha256 = EXPECTED_PROTOCOL_PROFILE_SHA256,
     au_semantic_event_id = ''semantic'',
     au_semantic_evidence_integrity_sha256 = EXPECTED_PROTOCOL_PROFILE_SHA256,
     au_observed_at = 1767226200000000, au_protocol_profile = PROFILE_ID,
     au_protocol_profile_version = PROFILE_VERSION,
     au_protocol_profile_sha256 = EXPECTED_PROTOCOL_PROFILE_SHA256, au_protocol = ''modbus_tcp'',
     au_operation_category = OperationCategory.WRITE,
     au_function_semantic = Some WRITE_SINGLE_REGISTER, au_function_code = 6,
     au_target_point = Some ''control_valve_command_percent'',
     au_point_access_class = Some COMMANDABLE_SYNTHETIC,
     au_fictional_target_component = Some ''CV-101'', au_operation_compatibility = COMPATIBLE\<rparr>"

definition it_context :: AssetContextEvent where
  "it_context = \<lparr>ce_asset_context_event_id = ''context'',
     ce_asset_context_schema = ''otsoc.asset.context_event'', ce_asset_context_schema_version = ''1.0.0'',
     ce_source_evidence_id = ''raw'', ce_source_evidence_integrity_sha256 = EXPECTED_PROTOCOL_PROFILE_SHA256,
     ce_semantic_event_id = ''semantic'',
     ce_semantic_evidence_integrity_sha256 = EXPECTED_PROTOCOL_PROFILE_SHA256,
     ce_inventory_profile = INVENTORY_PROFILE_ID, ce_inventory_version = INVENTORY_PROFILE_VERSION,
     ce_inventory_sha256 = li_sha256 v1_inventory, ce_resolver_name = ''otsoc_exact_asset_resolver'',
     ce_resolver_version = ''1.0.0'', ce_canonicalization_version = ''otsoc-canonical-json-1'',
     ce_observed_at = 1767226200000000,
     ce_source_identity_claims = [\<lparr>ic_identifier_type = LOGICAL_ID, ic_value = ''IT-WS-01''\<rparr>],
     ce_destination_identity_claims =
       [\<lparr>ic_identifier_type = PROTOCOL_ENDPOINT_ID, ic_value = ''OTSOC-MB-UNIT-01''\<rparr>],
     ce_source_resolution = resolved_asset v1_inventory asset_it_ws_01,
     ce_destination_resolution = resolved_asset v1_inventory asset_plc_01,
     ce_relevant_relationships = [], ce_target_process_asset = None,
     ce_derivation_kind = ''ASSET_CONTEXT_RESOLUTION'', ce_derived_from = ''semantic'',
     ce_ground_truth_used = False\<rparr>"

lemma it_resolutions:
  "ar_status (ce_source_resolution it_context) = RESOLVED" "ar_status (ce_destination_resolution it_context) = RESOLVED"
  "ar_asset_key (ce_source_resolution it_context) = Some ''IT-WS-01''"
  "ar_asset_key (ce_destination_resolution it_context) = Some ''PLC-01''"
  "ar_enabled (ce_source_resolution it_context) = Some True"
  "ar_enabled (ce_destination_resolution it_context) = Some True"
  "ar_zone_id (ce_source_resolution it_context) = Some IT_ZONE"
  "ar_zone_id (ce_destination_resolution it_context) = Some OT_CONTROL_ZONE"
  by (simp_all add: it_context_def resolved_asset_def asset_it_ws_01_def asset_plc_01_def)

lemma it_any: "v1_any it_command"
  by (simp add: v1_any_def it_command_def v1_point_ids del: list.map)

theorem deny_overrides_witness:
  "\<exists>r. evaluate_policy it_command it_context v1_policy = Inr r \<and> pr_policy_status r \<noteq> APPROVED"
proof -
  have path: "select_path (ce_source_resolution it_context) (ce_destination_resolution it_context) v1_policy
      = Some path_it_plc" by (simp add: v1_select_path it_resolutions)
  have rule: "acp_006 \<in> set (cp_rules (lpo_profile v1_policy))"
    by (simp add: v1_policy_def oil_gas_communication_policy_v1_def)
  have "rule_matches it_command (gp_path_id path_it_plc) acp_006"
    using it_any by (simp add: v1_rule_matches path_it_plc_def it_command_def)
  moreover have "ru_decision acp_006 = ''DENIED''" by (simp add: acp_006_def)
  ultimately show ?thesis
    using deny_overrides [OF path rule] evaluate_policy_total [OF v1_unambiguous] by blast
qed

theorem approved_iff_all_dimensions_witness:
  "\<exists>r. evaluate_policy it_command it_context v1_policy = Inr r \<and> pr_policy_status r = DENIED
     \<and> \<not> all_satisfied (pr_dimension_results r)"
proof -
  obtain r where r: "evaluate_policy it_command it_context v1_policy = Inr r"
    using evaluate_policy_total [OF v1_unambiguous] by blast
  then have "pr_policy_status r = DENIED"
    using it_any
    by (auto simp: evaluate_policy_def Let_def it_resolutions v1_select_path v1_matching_rule
        path_it_plc_def acp_006_def it_command_def)
  with r approved_iff_all_dimensions [OF r] show ?thesis by auto
qed
end
