(* ===== verification/Findings.thy ===== *)
theory Findings
  imports Policy Modbus_Decoder
begin

text \<open>
  From a semantic event to a communication-policy finding (\<open>app/context/findings.py\<close>): identity
  claims, the asset-context event, the authorization input, the finding, its provenance, and the
  two evidence envelopes with their consistency validators (last part of \<open>app/context/models.py\<close>).
  A constructor whose pydantic constraints can fail returns a ContextError.
\<close>

datatype ContextError =
    ClaimInvalid
  | ContextEventInvalid
  | AuthorizationInputInvalid
  | PolicyFindingInvalid
  | TimestampMismatch
  | SemanticIdMismatch
  | SemanticDigestMismatch
  | ContextIdMismatch
  | PolicyDigestMismatch
  | InventoryDigestMismatch
  | EvidenceIdReused

definition ASSET_CONTEXT_SCHEMA :: string where
  "ASSET_CONTEXT_SCHEMA = ''otsoc.asset.context_event''"

definition POLICY_FINDING_SCHEMA :: string where
  "POLICY_FINDING_SCHEMA = ''otsoc.communication_policy.finding''"

definition RESOLVER_NAME :: string where
  "RESOLVER_NAME = ''otsoc_exact_asset_resolver''"

definition EVALUATOR_NAME :: string where
  "EVALUATOR_NAME = ''otsoc_communication_policy_evaluator''"

definition CANONICALIZATION_VERSION :: string where
  "CANONICALIZATION_VERSION = ''otsoc-canonical-json-1''"

section \<open>Findings, provenance and envelopes\<close>

record CommunicationPolicyFinding =
  pf_finding_id :: uuid
  pf_finding_schema :: string
  pf_finding_schema_version :: string
  pf_source_evidence_id :: uuid
  pf_source_evidence_integrity_sha256 :: digest
  pf_semantic_event_id :: uuid
  pf_semantic_evidence_integrity_sha256 :: digest
  pf_asset_context_event_id :: uuid
  pf_evaluated_at :: timestamp
  pf_inventory_profile :: string
  pf_inventory_version :: string
  pf_inventory_sha256 :: digest
  pf_policy_profile :: string
  pf_policy_version :: string
  pf_policy_sha256 :: digest
  pf_protocol_profile :: string
  pf_protocol_profile_version :: string
  pf_protocol_profile_sha256 :: digest
  pf_evaluator_name :: string
  pf_evaluator_version :: string
  pf_canonicalization_version :: string
  pf_source_resolution :: ResolutionStatus
  pf_destination_resolution :: ResolutionStatus
  pf_source_asset_id :: "uuid option"
  pf_source_asset_key :: "string option"
  pf_source_role :: "AssetRole option"
  pf_source_zone :: "ZoneId option"
  pf_destination_asset_id :: "uuid option"
  pf_destination_asset_key :: "string option"
  pf_destination_role :: "AssetRole option"
  pf_destination_zone :: "ZoneId option"
  pf_protocol :: string
  pf_operation_category :: OperationCategory
  pf_function_semantic :: "FunctionSemantic option"
  pf_function_code :: int
  pf_target_point :: "string option"
  pf_point_access_class :: "PointAccessClass option"
  pf_fictional_target_component :: "string option"
  pf_operation_compatibility :: OperationCompatibility
  pf_dimension_results :: AuthorizationDimensions
  pf_matched_path_id :: "string option"
  pf_matched_rule_id :: "string option"
  pf_policy_status :: PolicyStatus
  pf_reason_code :: PolicyReasonCode
  pf_statement_template_id :: string
  pf_analyst_readable_statement :: string
  pf_malicious_intent_inferred :: bool
  pf_derivation_kind :: string
  pf_derived_from :: "uuid \<times> uuid"
  pf_ground_truth_used :: bool

record AssetContextDerivationProvenance =
  cpv_derivation_kind :: string
  cpv_semantic_event_id :: uuid
  cpv_semantic_evidence_integrity_sha256 :: digest
  cpv_inventory_profile :: string
  cpv_inventory_version :: string
  cpv_inventory_sha256 :: digest
  cpv_resolver_name :: string
  cpv_resolver_version :: string
  cpv_canonicalization_version :: string
  cpv_educational_only :: bool
  cpv_ground_truth_used :: bool

record PolicyFindingDerivationProvenance =
  fpv_derivation_kind :: string
  fpv_source_evidence_id :: uuid
  fpv_semantic_event_id :: uuid
  fpv_semantic_evidence_integrity_sha256 :: digest
  fpv_asset_context_event_id :: uuid
  fpv_asset_context_integrity_sha256 :: digest
  fpv_inventory_profile :: string
  fpv_inventory_version :: string
  fpv_inventory_sha256 :: digest
  fpv_policy_profile :: string
  fpv_policy_version :: string
  fpv_policy_sha256 :: digest
  fpv_evaluator_name :: string
  fpv_evaluator_version :: string
  fpv_canonicalization_version :: string
  fpv_educational_only :: bool
  fpv_ground_truth_used :: bool

record AssetContextEvidenceEnvelope =
  cev_source_key :: string
  cev_source_event_id :: string
  cev_evidence_type :: string
  cev_observed_at :: timestamp
  cev_sequence_number :: int
  cev_payload_schema :: string
  cev_payload_schema_version :: string
  cev_payload :: AssetContextEvent
  cev_provenance :: AssetContextDerivationProvenance

record PolicyFindingEvidenceEnvelope =
  fev_source_key :: string
  fev_source_event_id :: string
  fev_evidence_type :: string
  fev_observed_at :: timestamp
  fev_sequence_number :: int
  fev_payload_schema :: string
  fev_payload_schema_version :: string
  fev_payload :: CommunicationPolicyFinding
  fev_provenance :: PolicyFindingDerivationProvenance

section \<open>Context events\<close>

definition make_claim :: "IdentifierType \<Rightarrow> string \<Rightarrow> ContextError + IdentityClaim" where
  "make_claim t v =
     (if safe_key v then Inr \<lparr>ic_identifier_type = t, ic_value = v\<rparr> else Inl ClaimInvalid)"

definition default_identity_claims ::
  "ProtocolSemanticEvent \<Rightarrow> ContextError + (IdentityClaim list \<times> IdentityClaim list)" where
  "default_identity_claims semantic =
     rbind (make_claim LOGICAL_ID (se_source_identity semantic)) (\<lambda>source.
     rbind (make_claim PROTOCOL_ENDPOINT_ID (se_destination_identity semantic)) (\<lambda>destination.
     Inr ([source], [destination])))"

definition target_resolution ::
  "ProtocolSemanticEvent \<Rightarrow> LoadedInventory \<Rightarrow> ContextError + AssetResolution option" where
  "target_resolution semantic li =
     (case se_fictional_target_component semantic of
        None \<Rightarrow> Inr None
      | Some component \<Rightarrow>
          rbind (make_claim PROCESS_TAG component) (\<lambda>claim.
          Inr (Some (resolve_identity [claim] li))))"

definition resolved_relationship :: "RelationshipDefinition \<Rightarrow> ResolvedRelationship" where
  "resolved_relationship r =
     \<lparr>rr_relationship_type = rd_relationship_type r, rr_source_asset_key = rd_source_asset_key r,
      rr_target_kind = rd_target_kind r, rr_target_ref = rd_target_ref r\<rparr>"

definition relevant_relationships ::
  "ProtocolSemanticEvent \<Rightarrow> AssetResolution \<Rightarrow> AssetResolution option \<Rightarrow> LoadedInventory \<Rightarrow>
   ResolvedRelationship list" where
  "relevant_relationships semantic destination target li =
     (if ar_status destination \<noteq> RESOLVED \<or> ar_asset_key destination = None then []
      else
      (let target_refs = {se_destination_identity semantic} \<union>
             (case Option.bind target ar_asset_key of None \<Rightarrow> {} | Some k \<Rightarrow> {k}) in
       map resolved_relationship
         (filter (\<lambda>r. Some (rd_source_asset_key r) = ar_asset_key destination
                     \<and> rd_target_ref r \<in> target_refs)
           (ip_relationships (li_profile li)))))"

definition valid_claims :: "IdentityClaim list \<Rightarrow> bool" where
  "valid_claims cs = (1 \<le> length cs \<and> length cs \<le> 4 \<and> (\<forall>c \<in> set cs. safe_key (ic_value c)))"

definition valid_context_event :: "AssetContextEvent \<Rightarrow> bool" where
  "valid_context_event e =
     (is_sha256 (ce_source_evidence_integrity_sha256 e)
      \<and> is_sha256 (ce_semantic_evidence_integrity_sha256 e)
      \<and> ce_inventory_profile e = INVENTORY_PROFILE_ID \<and> sem_ver (ce_inventory_version e)
      \<and> is_sha256 (ce_inventory_sha256 e)
      \<and> valid_claims (ce_source_identity_claims e) \<and> valid_claims (ce_destination_identity_claims e)
      \<and> validate_resolution_shape (ce_source_resolution e)
      \<and> validate_resolution_shape (ce_destination_resolution e)
      \<and> (case ce_target_process_asset e of None \<Rightarrow> True | Some r \<Rightarrow> validate_resolution_shape r)
      \<and> (\<forall>r \<in> set (ce_relevant_relationships e).
           safe_key (rr_source_asset_key r) \<and> safe_key (rr_target_ref r)))"

text \<open>\<open>claims or default\<close>: no claims and an empty tuple both fall back to the default.\<close>

definition claims_or :: "IdentityClaim list option \<Rightarrow> IdentityClaim list \<Rightarrow> IdentityClaim list" where
  "claims_or cs default_claims =
     (case cs of None \<Rightarrow> default_claims | Some l \<Rightarrow> if l = [] then default_claims else l)"

definition build_asset_context_event ::
  "uuid \<Rightarrow> ProtocolSemanticEvent \<Rightarrow> digest \<Rightarrow> LoadedInventory \<Rightarrow>
   IdentityClaim list option \<Rightarrow> IdentityClaim list option \<Rightarrow> ContextError + AssetContextEvent" where
  "build_asset_context_event context_event_id semantic semantic_integrity_sha256 li
     source_claims destination_claims =
     rbind (default_identity_claims semantic) (\<lambda>(default_source, default_destination).
     (let source_cs = claims_or source_claims default_source;
          destination_cs = claims_or destination_claims default_destination;
          source = resolve_identity source_cs li;
          destination = resolve_identity destination_cs li in
      rbind (target_resolution semantic li) (\<lambda>target.
      (let event = \<lparr>
         ce_asset_context_event_id = context_event_id,
         ce_asset_context_schema = ASSET_CONTEXT_SCHEMA,
         ce_asset_context_schema_version = ''1.0.0'',
         ce_source_evidence_id = se_source_evidence_id semantic,
         ce_source_evidence_integrity_sha256 = se_source_evidence_integrity_sha256 semantic,
         ce_semantic_event_id = se_semantic_event_id semantic,
         ce_semantic_evidence_integrity_sha256 = semantic_integrity_sha256,
         ce_inventory_profile = ip_profile_id (li_profile li),
         ce_inventory_version = ip_profile_version (li_profile li),
         ce_inventory_sha256 = li_sha256 li,
         ce_resolver_name = RESOLVER_NAME,
         ce_resolver_version = ''1.0.0'',
         ce_canonicalization_version = CANONICALIZATION_VERSION,
         ce_observed_at = se_observed_at semantic,
         ce_source_identity_claims = source_cs,
         ce_destination_identity_claims = destination_cs,
         ce_source_resolution = source,
         ce_destination_resolution = destination,
         ce_relevant_relationships = relevant_relationships semantic destination target li,
         ce_target_process_asset = target,
         ce_derivation_kind = ''ASSET_CONTEXT_RESOLUTION'',
         ce_derived_from = se_semantic_event_id semantic,
         ce_ground_truth_used = False\<rparr> in
       if valid_context_event event then Inr event else Inl ContextEventInvalid))))"

section \<open>Authorization input\<close>

definition valid_authorization_input :: "AuthorizationInput \<Rightarrow> bool" where
  "valid_authorization_input a =
     (is_sha256 (au_source_evidence_integrity_sha256 a)
      \<and> is_sha256 (au_semantic_evidence_integrity_sha256 a)
      \<and> au_protocol_profile a = PROFILE_ID \<and> au_protocol_profile_version a = PROFILE_VERSION
      \<and> is_sha256 (au_protocol_profile_sha256 a) \<and> snake_key (au_protocol a)
      \<and> 0 \<le> au_function_code a \<and> au_function_code a \<le> 255
      \<and> (case au_target_point a of None \<Rightarrow> True | Some p \<Rightarrow> snake_key p)
      \<and> (case au_fictional_target_component a of None \<Rightarrow> True | Some c \<Rightarrow> safe_key c))"

definition authorization_input_from_semantic ::
  "ProtocolSemanticEvent \<Rightarrow> digest \<Rightarrow> bool \<Rightarrow> bool \<Rightarrow> ContextError + AuthorizationInput" where
  "authorization_input_from_semantic semantic semantic_integrity_sha256
     source_evidence_verified semantic_evidence_verified =
     (let auth = \<lparr>
        au_source_evidence_verified = source_evidence_verified,
        au_semantic_evidence_verified = semantic_evidence_verified,
        au_source_evidence_id = se_source_evidence_id semantic,
        au_source_evidence_integrity_sha256 = se_source_evidence_integrity_sha256 semantic,
        au_semantic_event_id = se_semantic_event_id semantic,
        au_semantic_evidence_integrity_sha256 = semantic_integrity_sha256,
        au_observed_at = se_observed_at semantic,
        au_protocol_profile = se_profile_id semantic,
        au_protocol_profile_version = se_profile_version semantic,
        au_protocol_profile_sha256 = se_profile_sha256 semantic,
        au_protocol = se_protocol semantic,
        au_operation_category = se_operation_category semantic,
        au_function_semantic = se_function_semantic semantic,
        au_function_code = se_function_code semantic,
        au_target_point = se_point_id semantic,
        au_point_access_class = se_point_access_class semantic,
        au_fictional_target_component = se_fictional_target_component semantic,
        au_operation_compatibility = se_operation_compatibility semantic\<rparr> in
      if valid_authorization_input auth then Inr auth else Inl AuthorizationInputInvalid)"

section \<open>Findings\<close>

definition contextual_statement ::
  "AuthorizationInput \<Rightarrow> AssetContextEvent \<Rightarrow> PolicyEvaluationResult \<Rightarrow> string \<Rightarrow> string" where
  "contextual_statement auth ctx result policy_version =
     (case (ar_asset_key (ce_source_resolution ctx), ar_asset_key (ce_destination_resolution ctx),
            ar_zone_id (ce_source_resolution ctx), ar_zone_id (ce_destination_resolution ctx)) of
        (Some source_key, Some destination_key, Some source_zone, Some destination_zone) \<Rightarrow>
          (let point = (case au_target_point auth of
                 None \<Rightarrow> ''the mapped synthetic point''
               | Some p \<Rightarrow> if p = [] then ''the mapped synthetic point'' else p);
               operation = OperationCategory_value (au_operation_category auth) in
           if PolicyReasonCode_value (pr_reason_code result) = ''COMMUNICATION_NOT_APPROVED''
              \<and> source_key = ''IT-WS-01'' then
             ''IT-WS-01 in '' @ ZoneId_value source_zone @ '' is not approved by synthetic policy '' @
             policy_version @ '' to use '' @ au_protocol auth @ '' '' @ operation @ '' for '' @ point @
             '' through PLC-01 in '' @ ZoneId_value destination_zone @
             ''; malicious intent is not determined.''
           else if PolicyStatus_value (pr_policy_status result) = ''APPROVED'' then
             source_key @ '' is approved by synthetic policy '' @ policy_version @ '' to use '' @
             au_protocol auth @ '' '' @ operation @ '' for '' @ point @ '' through '' @
             destination_key @
             ''; execution, physical effect, and malicious intent are not determined.''
           else if PolicyStatus_value (pr_policy_status result) = ''DENIED'' then
             source_key @ '' is not approved by synthetic policy '' @ policy_version @ '' to use '' @
             au_protocol auth @ '' '' @ operation @ '' for '' @ point @ '' through '' @
             destination_key @ ''; malicious intent is not determined.''
           else pr_analyst_readable_statement result)
      | _ \<Rightarrow> pr_analyst_readable_statement result)"

definition valid_policy_finding :: "CommunicationPolicyFinding \<Rightarrow> bool" where
  "valid_policy_finding f =
     (is_sha256 (pf_source_evidence_integrity_sha256 f)
      \<and> is_sha256 (pf_semantic_evidence_integrity_sha256 f)
      \<and> pf_inventory_profile f = INVENTORY_PROFILE_ID \<and> sem_ver (pf_inventory_version f)
      \<and> is_sha256 (pf_inventory_sha256 f)
      \<and> pf_policy_profile f = POLICY_PROFILE_ID \<and> sem_ver (pf_policy_version f)
      \<and> is_sha256 (pf_policy_sha256 f)
      \<and> pf_protocol_profile f = PROFILE_ID \<and> pf_protocol_profile_version f = PROFILE_VERSION
      \<and> is_sha256 (pf_protocol_profile_sha256 f))"

definition policy_finding ::
  "uuid \<Rightarrow> AuthorizationInput \<Rightarrow> AssetContextEvent \<Rightarrow> PolicyEvaluationResult \<Rightarrow> LoadedPolicy \<Rightarrow>
   CommunicationPolicyFinding" where
  "policy_finding finding_id auth ctx result policy =
     (let source = ce_source_resolution ctx; destination = ce_destination_resolution ctx in \<lparr>
        pf_finding_id = finding_id,
        pf_finding_schema = POLICY_FINDING_SCHEMA,
        pf_finding_schema_version = ''1.0.0'',
        pf_source_evidence_id = au_source_evidence_id auth,
        pf_source_evidence_integrity_sha256 = au_source_evidence_integrity_sha256 auth,
        pf_semantic_event_id = au_semantic_event_id auth,
        pf_semantic_evidence_integrity_sha256 = au_semantic_evidence_integrity_sha256 auth,
        pf_asset_context_event_id = ce_asset_context_event_id ctx,
        pf_evaluated_at = au_observed_at auth,
        pf_inventory_profile = ce_inventory_profile ctx,
        pf_inventory_version = ce_inventory_version ctx,
        pf_inventory_sha256 = ce_inventory_sha256 ctx,
        pf_policy_profile = cp_profile_id (lpo_profile policy),
        pf_policy_version = cp_profile_version (lpo_profile policy),
        pf_policy_sha256 = lpo_sha256 policy,
        pf_protocol_profile = au_protocol_profile auth,
        pf_protocol_profile_version = au_protocol_profile_version auth,
        pf_protocol_profile_sha256 = au_protocol_profile_sha256 auth,
        pf_evaluator_name = EVALUATOR_NAME,
        pf_evaluator_version = ''1.0.0'',
        pf_canonicalization_version = CANONICALIZATION_VERSION,
        pf_source_resolution = ar_status source,
        pf_destination_resolution = ar_status destination,
        pf_source_asset_id = ar_asset_id source,
        pf_source_asset_key = ar_asset_key source,
        pf_source_role = ar_asset_role source,
        pf_source_zone = ar_zone_id source,
        pf_destination_asset_id = ar_asset_id destination,
        pf_destination_asset_key = ar_asset_key destination,
        pf_destination_role = ar_asset_role destination,
        pf_destination_zone = ar_zone_id destination,
        pf_protocol = au_protocol auth,
        pf_operation_category = au_operation_category auth,
        pf_function_semantic = au_function_semantic auth,
        pf_function_code = au_function_code auth,
        pf_target_point = au_target_point auth,
        pf_point_access_class = au_point_access_class auth,
        pf_fictional_target_component = au_fictional_target_component auth,
        pf_operation_compatibility = au_operation_compatibility auth,
        pf_dimension_results = pr_dimension_results result,
        pf_matched_path_id = pr_matched_path_id result,
        pf_matched_rule_id = pr_matched_rule_id result,
        pf_policy_status = pr_policy_status result,
        pf_reason_code = pr_reason_code result,
        pf_statement_template_id = pr_statement_template_id result,
        pf_analyst_readable_statement =
          contextual_statement auth ctx result (cp_profile_version (lpo_profile policy)),
        pf_malicious_intent_inferred = False,
        pf_derivation_kind = ''COMMUNICATION_POLICY_EVALUATION'',
        pf_derived_from = (au_semantic_event_id auth, ce_asset_context_event_id ctx),
        pf_ground_truth_used = False\<rparr>)"

definition build_policy_finding ::
  "uuid \<Rightarrow> AuthorizationInput \<Rightarrow> AssetContextEvent \<Rightarrow> PolicyEvaluationResult \<Rightarrow> LoadedPolicy \<Rightarrow>
   ContextError + CommunicationPolicyFinding" where
  "build_policy_finding finding_id auth ctx result policy =
     (let f = policy_finding finding_id auth ctx result policy in
      if valid_policy_finding f then Inr f else Inl PolicyFindingInvalid)"

definition build_policy_provenance ::
  "CommunicationPolicyFinding \<Rightarrow> digest \<Rightarrow> PolicyFindingDerivationProvenance" where
  "build_policy_provenance finding asset_context_integrity_sha256 = \<lparr>
     fpv_derivation_kind = ''COMMUNICATION_POLICY_EVALUATION'',
     fpv_source_evidence_id = pf_source_evidence_id finding,
     fpv_semantic_event_id = pf_semantic_event_id finding,
     fpv_semantic_evidence_integrity_sha256 = pf_semantic_evidence_integrity_sha256 finding,
     fpv_asset_context_event_id = pf_asset_context_event_id finding,
     fpv_asset_context_integrity_sha256 = asset_context_integrity_sha256,
     fpv_inventory_profile = pf_inventory_profile finding,
     fpv_inventory_version = pf_inventory_version finding,
     fpv_inventory_sha256 = pf_inventory_sha256 finding,
     fpv_policy_profile = pf_policy_profile finding,
     fpv_policy_version = pf_policy_version finding,
     fpv_policy_sha256 = pf_policy_sha256 finding,
     fpv_evaluator_name = EVALUATOR_NAME,
     fpv_evaluator_version = ''1.0.0'',
     fpv_canonicalization_version = CANONICALIZATION_VERSION,
     fpv_educational_only = True,
     fpv_ground_truth_used = False\<rparr>"

section \<open>Envelope validators\<close>

definition validate_context_envelope :: "AssetContextEvidenceEnvelope \<Rightarrow> ContextError + unit" where
  "validate_context_envelope e =
     (let payload = cev_payload e; provenance = cev_provenance e in
      if ce_observed_at payload \<noteq> cev_observed_at e then Inl TimestampMismatch
      else if ce_semantic_event_id payload \<noteq> cpv_semantic_event_id provenance
      then Inl SemanticIdMismatch
      else if ce_semantic_evidence_integrity_sha256 payload
        \<noteq> cpv_semantic_evidence_integrity_sha256 provenance then Inl SemanticDigestMismatch
      else if ce_inventory_sha256 payload \<noteq> cpv_inventory_sha256 provenance
      then Inl InventoryDigestMismatch
      else if ce_asset_context_event_id payload = ce_semantic_event_id payload
      then Inl EvidenceIdReused
      else Inr ())"

definition validate_finding_envelope :: "PolicyFindingEvidenceEnvelope \<Rightarrow> ContextError + unit" where
  "validate_finding_envelope e =
     (let payload = fev_payload e; provenance = fev_provenance e in
      if pf_evaluated_at payload \<noteq> fev_observed_at e then Inl TimestampMismatch
      else if pf_semantic_event_id payload \<noteq> fpv_semantic_event_id provenance
      then Inl SemanticIdMismatch
      else if pf_asset_context_event_id payload \<noteq> fpv_asset_context_event_id provenance
      then Inl ContextIdMismatch
      else if pf_policy_sha256 payload \<noteq> fpv_policy_sha256 provenance then Inl PolicyDigestMismatch
      else if pf_inventory_sha256 payload \<noteq> fpv_inventory_sha256 provenance
      then Inl InventoryDigestMismatch
      else if pf_finding_id payload \<in> {pf_semantic_event_id payload, pf_asset_context_event_id payload}
      then Inl EvidenceIdReused
      else Inr ())"

section \<open>What the decoder hands over\<close>

lemma build_event_more [simp]:
  "se_source_identity (build_event ev lp dc cat sem cp st rs pt dv ts) = me_source_identity ev"
  "se_destination_identity (build_event ev lp dc cat sem cp st rs pt dv ts) = me_destination_identity ev"
  "se_function_code (build_event ev lp dc cat sem cp st rs pt dv ts) = me_function_code ev"
  "se_protocol (build_event ev lp dc cat sem cp st rs pt dv ts) = ''modbus_tcp''"
  by (simp_all add: build_event_def)

text \<open>Every semantic event is built from the event, at a profile point or at none, and an
  operation without a compatibility verdict names no point.\<close>

definition decoded_shape ::
  "SyntheticModbusEvent \<Rightarrow> LoadedProfile \<Rightarrow> DecodeContext \<Rightarrow> ProtocolSemanticEvent \<Rightarrow> bool" where
  "decoded_shape ev lp dc e = (\<exists>cat sem cp st rs pt dv ts.
     e = build_event ev lp dc cat sem cp st rs pt dv ts
     \<and> (pt = None \<longleftrightarrow> cp = OperationCompatibility.NOT_APPLICABLE)
     \<and> (\<forall>p. pt = Some p \<longrightarrow> p \<in> set (mp_points (lp_profile lp))))"

lemma decoded_shape_neutral:
  "ensures (neutral_result ev lp dc st rs cat sem) (decoded_shape ev lp dc)"
  unfolding ensures_def neutral_result_def build_result_Inr decoded_shape_def by blast

lemma decoded_shape_built:
  assumes "p \<in> set (mp_points (lp_profile lp))" and "cp \<noteq> OperationCompatibility.NOT_APPLICABLE"
  shows "ensures (build_result ev lp dc cat sem cp st rs (Some p) dv ts) (decoded_shape ev lp dc)"
  using assms unfolding ensures_def build_result_Inr decoded_shape_def by blast

lemma mapping_point: "mapping lp k = Some p \<Longrightarrow> p \<in> set (mp_points (lp_profile lp))"
  by (auto simp: mapping_def dest: dict_of_SomeD)

lemma ensures_decoded:
  assumes "\<And>v. ensures (f v) Q" and "\<And>r. ensures (g r) Q"
  shows "ensures (case dv of (Some v, NONE) \<Rightarrow> f v | (_, reason) \<Rightarrow> g reason) Q"
  using assms by (auto split: prod.splits option.splits ReasonCode.splits)

lemma decode_event_shape: "ensures (decode_event ev lp dc expected verified) (decoded_shape ev lp dc)"
  unfolding decode_event_def Let_def
  by (intro ensures_intros ensures_decoded decoded_shape_neutral)
    (auto intro!: decoded_shape_built dest: mapping_point)

section \<open>The pipeline under the approved profiles\<close>

lemma resolve_single:
  "resolve_identity [c] li =
     (case identifier_index li (claim_key c) of
        None \<Rightarrow> unresolved ResolutionStatus.UNKNOWN | Some a \<Rightarrow> resolved_asset li a)"
  by (simp add: resolve_identity_def Let_def split: option.splits)

lemma v1_inventory_valid: "validate_inventory (li_profile v1_inventory) = Inr ()"
  by (simp add: v1_inventory_def oil_gas_asset_inventory_v1_valid)

text \<open>A resolved identity belongs to an asset of the inventory that owns every claim.\<close>

lemma resolved_owner:
  assumes "validate_inventory (li_profile li) = Inr ()"
    and "ar_asset_key (resolve_identity claims li) = Some k"
  shows "\<exists>a \<in> set (ip_assets (li_profile li)). ad_asset_key a = k \<and> claims \<noteq> [] \<and> (\<forall>c \<in> set claims. owns a c)"
proof -
  define known where "known = map the (filter (\<lambda>m. m \<noteq> None)
      (map (\<lambda>c. identifier_index li (claim_key c)) claims))"
  note index = identifier_index_iff [OF assms(1)]
  have set_known: "a \<in> set known \<longleftrightarrow> a \<in> set (ip_assets (li_profile li)) \<and> (\<exists>c \<in> set claims. owns a c)" for a
    unfolding known_def map_the_filter_Some using index by (auto simp: image_iff dest: sym)
  have key: "a = b" if "a \<in> set (ip_assets (li_profile li))" "b \<in> set (ip_assets (li_profile li))"
      "ad_asset_key a = ad_asset_key b" for a b
    using keyed_catalog.lookup_self [OF validated_inventory_catalogs(1) [OF assms(1)]] that
    by (metis option.inject)
  note cases = resolve_identity_cases [OF known_def]
  have none: "ar_asset_key (unresolved s) \<noteq> Some k" for s by (simp add: unresolved_def)
  then have resolved: "known \<noteq> [] \<and> \<not> ((\<exists>c \<in> set claims. identifier_index li (claim_key c) = None)
       \<or> (\<exists>a \<in> set known. ad_asset_key a \<noteq> ad_asset_key (hd known)))"
    using assms(2) unfolding cases by presburger
  have ne: "known \<noteq> []" using resolved by (rule conjunct1)
  have all: "identifier_index li (claim_key c) \<noteq> None" if "c \<in> set claims" for c
    using resolved that by (simp del: not_None_eq)
  have same: "ad_asset_key a = ad_asset_key (hd known)" if "a \<in> set known" for a
    using resolved that by blast
  have "resolve_identity claims li = resolved_asset li (hd known)"
    unfolding cases using resolved by (simp only: if_False)
  then have k: "ad_asset_key (hd known) = k" using assms(2) by (simp add: resolved_asset_def)
  from ne have h: "hd known \<in> set (ip_assets (li_profile li))" "claims \<noteq> []"
    using set_known hd_in_set by (blast, auto simp: known_def)
  have "owns (hd known) c" if c: "c \<in> set claims" for c
  proof -
    from all [OF c] obtain b where b: "b \<in> set (ip_assets (li_profile li))" "owns b c" using index by blast
    then have "b = hd known" using same key h(1) set_known c by blast
    with b show ?thesis by simp
  qed
  with h k show ?thesis by blast
qed

lemma v1_key_owner:
  assumes "ar_asset_key (resolve_identity claims v1_inventory) = Some k"
    and "a \<in> set (ip_assets oil_gas_asset_inventory_v1)" and "ad_asset_key a = k"
  shows "claims \<noteq> [] \<and> (\<forall>c \<in> set claims. owns a c)"
proof -
  have profile: "li_profile v1_inventory = oil_gas_asset_inventory_v1" by (simp add: v1_inventory_def)
  from resolved_owner [OF v1_inventory_valid assms(1)] obtain b where
    b: "b \<in> set (ip_assets oil_gas_asset_inventory_v1)" "ad_asset_key b = k"
      "claims \<noteq> [] \<and> (\<forall>c \<in> set claims. owns b c)" unfolding profile by blast
  with assms(2,3) have "b = a" using v1_assets.lookup_self by (metis option.inject)
  with b(3) show ?thesis by simp
qed

definition hmi_claim :: IdentityClaim where
  "hmi_claim = \<lparr>ic_identifier_type = LOGICAL_ID, ic_value = ''HMI-01''\<rparr>"

definition plc_claims :: "IdentityClaim list" where
  "plc_claims = [\<lparr>ic_identifier_type = LOGICAL_ID, ic_value = ''PLC-01''\<rparr>,
     \<lparr>ic_identifier_type = PROTOCOL_ENDPOINT_ID, ic_value = ''OTSOC-MB-UNIT-01''\<rparr>]"

lemma v1_owned_claims:
  "owns asset_hmi_01 c \<longleftrightarrow> c = hmi_claim" "owns asset_plc_01 c \<longleftrightarrow> c \<in> set plc_claims"
  by (auto simp: owns_def asset_hmi_01_def asset_plc_01_def claim_key_def identifier_key_def
      hmi_claim_def plc_claims_def)

lemma v1_endpoint_claims:
  "ar_asset_key (resolve_identity claims v1_inventory) = Some ''HMI-01'' \<Longrightarrow> set claims = {hmi_claim}"
  "ar_asset_key (resolve_identity claims v1_inventory) = Some ''PLC-01'' \<Longrightarrow>
     claims \<noteq> [] \<and> set claims \<subseteq> set plc_claims"
proof -
  have "asset_hmi_01 \<in> set (ip_assets oil_gas_asset_inventory_v1)" "ad_asset_key asset_hmi_01 = ''HMI-01''"
    "asset_plc_01 \<in> set (ip_assets oil_gas_asset_inventory_v1)" "ad_asset_key asset_plc_01 = ''PLC-01''"
    by (simp_all add: oil_gas_asset_inventory_v1_def asset_hmi_01_def asset_plc_01_def)
  note owner = v1_key_owner [OF _ this(1,2)] v1_key_owner [OF _ this(3,4)]
  show "set claims = {hmi_claim}"
    if "ar_asset_key (resolve_identity claims v1_inventory) = Some ''HMI-01''"
    using owner(1) [OF that] by (cases claims) (auto simp: v1_owned_claims)
  show "claims \<noteq> [] \<and> set claims \<subseteq> set plc_claims"
    if "ar_asset_key (resolve_identity claims v1_inventory) = Some ''PLC-01''"
    using owner(2) [OF that] by (auto simp: v1_owned_claims)
qed

lemma claims_or_default: "cs \<in> {None, Some []} \<Longrightarrow> claims_or cs d = d"
  by (auto simp: claims_or_def)

lemma build_context_claims:
  assumes "build_asset_context_event cid semantic sha li sources destinations = Inr ctx"
  shows "ce_source_identity_claims ctx = claims_or sources
      [\<lparr>ic_identifier_type = LOGICAL_ID, ic_value = se_source_identity semantic\<rparr>]"
    and "ce_destination_identity_claims ctx = claims_or destinations
      [\<lparr>ic_identifier_type = PROTOCOL_ENDPOINT_ID, ic_value = se_destination_identity semantic\<rparr>]"
    and "ce_source_resolution ctx = resolve_identity (ce_source_identity_claims ctx) li"
    and "ce_destination_resolution ctx = resolve_identity (ce_destination_identity_claims ctx) li"
  using assms
  by (auto simp: build_asset_context_event_def default_identity_claims_def make_claim_def
      Let_def rbind_eq_Inr split: if_splits)

lemma build_context_resolutions:
  assumes "build_asset_context_event cid semantic sha li None None = Inr ctx"
  shows "ce_source_resolution ctx = resolve_identity [\<lparr>ic_identifier_type = LOGICAL_ID,
      ic_value = se_source_identity semantic\<rparr>] li"
    and "ce_destination_resolution ctx = resolve_identity [\<lparr>ic_identifier_type = PROTOCOL_ENDPOINT_ID,
      ic_value = se_destination_identity semantic\<rparr>] li"
  using build_context_claims [OF assms] by (simp_all add: claims_or_def)

lemma authorization_input_fields:
  assumes "authorization_input_from_semantic semantic sha b1 b2 = Inr auth"
  shows "au_operation_category auth = se_operation_category semantic"
    and "au_target_point auth = se_point_id semantic"
    and "au_point_access_class auth = se_point_access_class semantic"
    and "au_operation_compatibility auth = se_operation_compatibility semantic"
  using assms by (auto simp: authorization_input_from_semantic_def Let_def split: if_splits)


lemma v1_point_keys:
  "list_all (\<lambda>p. safe_key (pt_component p) \<and> snake_key (pt_point_id p)) (mp_points oil_gas_modbus_v1)"
  by code_simp

lemma v1_relationship_keys:
  "list_all (\<lambda>r. safe_key (rd_source_asset_key r) \<and> safe_key (rd_target_ref r))
     (ip_relationships oil_gas_asset_inventory_v1)"
  by code_simp

lemma v1_literals:
  "is_sha256 (li_sha256 v1_inventory)" "is_sha256 (lpo_sha256 v1_policy)"
  "sem_ver ''1.0.0''" "snake_key ''modbus_tcp''"
  by code_simp+

lemma build_context_ready:
  assumes "bounded_identity (se_source_identity semantic)"
    and "bounded_identity (se_destination_identity semantic)"
    and "is_sha256 (se_source_evidence_integrity_sha256 semantic)" and "is_sha256 sha"
    and "\<forall>c. se_fictional_target_component semantic = Some c \<longrightarrow> safe_key c"
  shows "\<exists>ctx. build_asset_context_event cid semantic sha v1_inventory None None = Inr ctx
    \<and> ce_inventory_profile ctx = INVENTORY_PROFILE_ID \<and> ce_inventory_version ctx = ''1.0.0''
    \<and> ce_inventory_sha256 ctx = li_sha256 v1_inventory"
proof -
  have keys: "safe_key (se_source_identity semantic)" "safe_key (se_destination_identity semantic)"
    using assms(1,2) by (simp_all add: safe_key_def)
  have rel: "\<forall>r \<in> set (relevant_relationships semantic d t v1_inventory).
      safe_key (rr_source_asset_key r) \<and> safe_key (rr_target_ref r)" for d t
    using v1_relationship_keys
    by (auto simp: relevant_relationships_def resolved_relationship_def list_all_iff v1_inventory_def Let_def)
  have target: "\<exists>t. target_resolution semantic v1_inventory = Inr t
      \<and> (case t of None \<Rightarrow> True | Some r \<Rightarrow> validate_resolution_shape r)"
    using assms(5) resolution_shape
    by (auto simp: target_resolution_def make_claim_def split: option.splits)
  then obtain t where t: "target_resolution semantic v1_inventory = Inr t"
    "case t of None \<Rightarrow> True | Some r \<Rightarrow> validate_resolution_shape r" by blast
  have profile: "ip_profile_id (li_profile v1_inventory) = INVENTORY_PROFILE_ID"
    "ip_profile_version (li_profile v1_inventory) = ''1.0.0''"
    by (simp_all add: v1_inventory_def oil_gas_asset_inventory_v1_def INVENTORY_PROFILE_ID_def)
  show ?thesis
    using keys rel t assms(3,4) v1_literals resolution_shape
    by (simp add: build_asset_context_event_def default_identity_claims_def make_claim_def
        claims_or_def Let_def valid_context_event_def valid_claims_def profile)
qed

lemma authorization_ready:
  assumes "validate_semantic_event semantic" and "is_sha256 sha" and "se_protocol semantic = ''modbus_tcp''"
    and "0 \<le> se_function_code semantic" "se_function_code semantic \<le> 255"
    and "\<forall>p. se_point_id semantic = Some p \<longrightarrow> snake_key p"
    and "\<forall>c. se_fictional_target_component semantic = Some c \<longrightarrow> safe_key c"
  shows "\<exists>auth. authorization_input_from_semantic semantic sha b1 b2 = Inr auth
    \<and> valid_authorization_input auth"
  using assms v1_literals(4)
  by (auto simp: authorization_input_from_semantic_def Let_def valid_authorization_input_def
      validate_semantic_event_def split: option.splits)

lemma finding_ready:
  assumes "valid_authorization_input auth" and "ce_inventory_profile ctx = INVENTORY_PROFILE_ID"
    and "ce_inventory_version ctx = ''1.0.0''" and "ce_inventory_sha256 ctx = li_sha256 v1_inventory"
  shows "\<exists>f. build_policy_finding fid auth ctx r v1_policy = Inr f"
proof -
  have "cp_profile_id (lpo_profile v1_policy) = POLICY_PROFILE_ID"
    "cp_profile_version (lpo_profile v1_policy) = ''1.0.0''"
    by (simp_all add: v1_policy_def oil_gas_communication_policy_v1_def POLICY_PROFILE_ID_def)
  with assms v1_literals show ?thesis
    by (simp add: build_policy_finding_def Let_def valid_policy_finding_def policy_finding_def
        valid_authorization_input_def)
qed

lemma decoded_ready:
  assumes "decode_ready ev lp dc" and "decode_event ev lp dc expected verified = Inr semantic"
  shows "validate_semantic_event semantic" "se_protocol semantic = ''modbus_tcp''"
    "0 \<le> se_function_code semantic" "se_function_code semantic \<le> 255"
    "\<forall>p. se_point_id semantic = Some p \<longrightarrow> snake_key p"
    "\<forall>c. se_fictional_target_component semantic = Some c \<longrightarrow> safe_key c"
proof -
  obtain cat sem cp st rs pt dv ts where e: "semantic = build_event ev lp dc cat sem cp st rs pt dv ts"
    and pt: "\<forall>p. pt = Some p \<longrightarrow> p \<in> set (mp_points (lp_profile lp))"
    using ensuresD [OF decode_event_shape assms(2)] unfolding decoded_shape_def by blast
  have ready: "valid_event ev" "lp_profile lp = oil_gas_modbus_v1"
    using assms(1) by (simp_all add: decode_ready_def)
  with pt v1_point_keys have keys: "\<forall>p. pt = Some p \<longrightarrow> safe_key (pt_component p) \<and> snake_key (pt_point_id p)"
    by (simp add: list_all_iff)
  show "validate_semantic_event semantic" by (rule decode_event_validated [OF assms(2)])
  show "se_protocol semantic = ''modbus_tcp''" by (simp add: e)
  show "0 \<le> se_function_code semantic" "se_function_code semantic \<le> 255"
    using ready(1) by (simp_all add: e valid_event_def)
  show "\<forall>p. se_point_id semantic = Some p \<longrightarrow> snake_key p"
    "\<forall>c. se_fictional_target_component semantic = Some c \<longrightarrow> safe_key c"
    using keys by (auto simp: e)
qed

lemma pipeline_ready:
  assumes "decode_ready ev lp dc" and "is_sha256 sha"
  shows "\<exists>semantic ctx auth r f. decode_event ev lp dc expected verified = Inr semantic
    \<and> build_asset_context_event cid semantic sha v1_inventory None None = Inr ctx
    \<and> authorization_input_from_semantic semantic sha b1 b2 = Inr auth
    \<and> evaluate_policy auth ctx v1_policy = Inr r
    \<and> build_policy_finding fid auth ctx r v1_policy = Inr f"
proof -
  obtain semantic where d: "decode_event ev lp dc expected verified = Inr semantic"
    using decode_event_ready [OF assms(1)] by blast
  note ready = decoded_ready [OF assms(1) d]
  then have "bounded_identity (se_source_identity semantic)" "bounded_identity (se_destination_identity semantic)"
    "is_sha256 (se_source_evidence_integrity_sha256 semantic)"
    by (simp_all add: validate_semantic_event_def)
  from build_context_ready [OF this assms(2) ready(6)] obtain ctx
    where c: "build_asset_context_event cid semantic sha v1_inventory None None = Inr ctx"
      "ce_inventory_profile ctx = INVENTORY_PROFILE_ID" "ce_inventory_version ctx = ''1.0.0''"
      "ce_inventory_sha256 ctx = li_sha256 v1_inventory" by blast
  from authorization_ready [OF ready(1) assms(2) ready(2-6)] obtain auth
    where a: "authorization_input_from_semantic semantic sha b1 b2 = Inr auth"
      "valid_authorization_input auth" by blast
  obtain r where r: "evaluate_policy auth ctx v1_policy = Inr r"
    using evaluate_policy_total [OF v1_unambiguous] by blast
  from finding_ready [OF a(2) c(2-4)] obtain f where "build_policy_finding fid auth ctx r v1_policy = Inr f"
    by blast
  with d c(1) a(1) r show ?thesis by blast
qed

lemma approved_command_facts:
  assumes d: "decode_event ev lp dc expected verified = Inr semantic"
    and a: "authorization_input_from_semantic semantic sha b1 b2 = Inr auth"
    and r: "evaluate_policy auth ctx v1_policy = Inr r" "pr_policy_status r = APPROVED"
    and w: "se_operation_category semantic = OperationCategory.WRITE"
  shows "ar_asset_key (ce_source_resolution ctx) = Some ''HMI-01''"
    "ar_asset_key (ce_destination_resolution ctx) = Some ''PLC-01''"
    "v1_commands auth" "se_operation_compatibility semantic = COMPATIBLE" "b1" "b2"
proof -
  note fields = authorization_input_fields [OF a]
  have noread: "\<not> v1_reads auth" using w by (simp add: v1_reads_def fields)
  from evaluate_policy_approved [of auth ctx v1_policy] r obtain path rule
    where ap: "approval auth ctx v1_policy path rule" by blast
  then have m: "matching_rule auth (gp_path_id path) v1_policy = Inr (Some rule)"
    "ru_decision rule \<noteq> ''DENIED''"
    and s: "select_path (ce_source_resolution ctx) (ce_destination_resolution ctx) v1_policy = Some path"
    and cmp: "se_operation_compatibility semantic \<noteq> INCOMPATIBLE"
    and vf: "au_source_evidence_verified auth" "au_semantic_evidence_verified auth"
    using w by (simp_all add: approval_def Let_def fields)
  from m noread have "gp_path_id path = ''PATH-HMI-PLC''" and cmd: "v1_commands auth"
    by (auto simp: v1_matching_rule v1_rule_defs split: if_splits)
  with s show "ar_asset_key (ce_source_resolution ctx) = Some ''HMI-01''"
    "ar_asset_key (ce_destination_resolution ctx) = Some ''PLC-01''" "v1_commands auth"
    by (auto simp: v1_select_path path_eng_plc_def path_it_plc_def split: if_splits)
  from cmd have "se_point_id semantic \<noteq> None" by (auto simp: v1_commands_def fields)
  moreover obtain cat sem cp st rs pt dv ts where e: "semantic = build_event ev lp dc cat sem cp st rs pt dv ts"
    and pt: "pt = None \<longleftrightarrow> cp = OperationCompatibility.NOT_APPLICABLE"
    using ensuresD [OF decode_event_shape d] unfolding decoded_shape_def by blast
  ultimately have "se_operation_compatibility semantic \<noteq> OperationCompatibility.NOT_APPLICABLE" by simp
  with cmp show "se_operation_compatibility semantic = COMPATIBLE"
    by (cases "se_operation_compatibility semantic") simp_all
  from a vf show b1 b2 by (auto simp: authorization_input_from_semantic_def Let_def split: if_splits)
qed

section \<open>Properties\<close>

text \<open>
  C11. End to end, from the wire to the decision: under the approved inventory and policy, whatever
  the protocol profile and whatever identity claims the caller supplies, an approved write was
  attributed to HMI-01 and to PLC-01 by the claims the context event records: every source claim is
  HMI-01's logical identifier and every destination claim one of PLC-01's two identifiers. These
  are the caller's claims where it gave any; where it gave none (or an empty tuple) they are the
  event's own identities, which are then HMI-01 and the controller's endpoint. The write had
  verified evidence, and goes to a commandable point of the profile whose register value decodes.
\<close>

theorem approved_write_end_to_end:
  assumes "decode_event ev lp dc expected verified = Inr semantic"
    and "build_asset_context_event cid semantic sha v1_inventory sources destinations = Inr ctx"
    and "authorization_input_from_semantic semantic sha b1 b2 = Inr auth"
    and "evaluate_policy auth ctx v1_policy = Inr r" and "pr_policy_status r = APPROVED"
    and "se_operation_category semantic = OperationCategory.WRITE"
  shows "ce_source_identity_claims ctx = claims_or sources
        [\<lparr>ic_identifier_type = LOGICAL_ID, ic_value = me_source_identity ev\<rparr>]
    \<and> ce_destination_identity_claims ctx = claims_or destinations
        [\<lparr>ic_identifier_type = PROTOCOL_ENDPOINT_ID, ic_value = me_destination_identity ev\<rparr>]
    \<and> set (ce_source_identity_claims ctx) = {\<lparr>ic_identifier_type = LOGICAL_ID, ic_value = ''HMI-01''\<rparr>}
    \<and> ce_destination_identity_claims ctx \<noteq> []
    \<and> set (ce_destination_identity_claims ctx) \<subseteq>
        {\<lparr>ic_identifier_type = LOGICAL_ID, ic_value = ''PLC-01''\<rparr>,
         \<lparr>ic_identifier_type = PROTOCOL_ENDPOINT_ID, ic_value = ''OTSOC-MB-UNIT-01''\<rparr>}
    \<and> (sources \<in> {None, Some []} \<longrightarrow> me_source_identity ev = ''HMI-01'')
    \<and> (destinations \<in> {None, Some []} \<longrightarrow> me_destination_identity ev = ''OTSOC-MB-UNIT-01'')
    \<and> verified \<and> b1 \<and> b2
    \<and> (\<exists>f p v. accepts ev lp expected verified f p v \<and> sf_category f = OperationCategory.WRITE
         \<and> pt_access_class p = COMMANDABLE_SYNTHETIC
         \<and> se_point_id semantic = Some (pt_point_id p) \<and> se_decoded_value semantic = Some v)"
proof -
  note facts = approved_command_facts [OF assms(1,3-6)]
  note claims = build_context_claims [OF assms(2)]
  from decode_event_compatibleD [OF assms(1) facts(4)] obtain f p v ts
    where acc: "accepts ev lp expected verified f p v"
      and e: "semantic = build_event ev lp dc (sf_category f) (Some (sf_semantic f)) COMPATIBLE MAPPED NONE
        (Some p) (Some v) ts" by blast
  have ends: "se_source_identity semantic = me_source_identity ev"
    "se_destination_identity semantic = me_destination_identity ev" by (simp_all add: e)
  have source: "set (ce_source_identity_claims ctx) = {hmi_claim}"
    using v1_endpoint_claims(1) facts(1) claims(3) by simp
  have destination: "ce_destination_identity_claims ctx \<noteq> [] \<and> set (ce_destination_identity_claims ctx) \<subseteq> set plc_claims"
    using v1_endpoint_claims(2) facts(2) claims(4) by simp
  have "sources \<in> {None, Some []} \<longrightarrow> me_source_identity ev = ''HMI-01''"
  proof
    assume "sources \<in> {None, Some []}"
    note claims(1) [unfolded claims_or_default [OF this] ends]
    with source have "\<lparr>ic_identifier_type = LOGICAL_ID, ic_value = me_source_identity ev\<rparr> = hmi_claim"
      by (simp only: list.set singleton_insert_inj_eq)
    then show "me_source_identity ev = ''HMI-01''" by (simp add: hmi_claim_def)
  qed
  have "destinations \<in> {None, Some []} \<longrightarrow> me_destination_identity ev = ''OTSOC-MB-UNIT-01''"
    using destination by (auto simp: claims(2) claims_or_default ends plc_claims_def)
  have "\<exists>f p v. accepts ev lp expected verified f p v \<and> sf_category f = OperationCategory.WRITE
      \<and> pt_access_class p = COMMANDABLE_SYNTHETIC
      \<and> se_point_id semantic = Some (pt_point_id p) \<and> se_decoded_value semantic = Some v"
  proof -
    have "pt_access_class p = COMMANDABLE_SYNTHETIC"
      using facts(3) e authorization_input_fields(3) [OF assms(3)] by (simp add: v1_commands_def)
    with acc e assms(6) show ?thesis by fastforce
  qed
  have verified using acc by (simp add: accepts_def)
  note own = claims(1,2) [unfolded ends] source [unfolded hmi_claim_def]
    destination [THEN conjunct1] destination [THEN conjunct2, unfolded plc_claims_def list.set]
  show ?thesis by (intro conjI) (fact own facts | fact)+
qed

text \<open>
  C12. The pipeline is total: every validated event, decoded under the approved protocol profile,
  gets an asset context, an authorization input, a policy decision and a finding; none of the
  validators along the way can reject what the previous step built.
\<close>

theorem pipeline_total:
  assumes "decode_ready ev lp dc" and "is_sha256 sha"
  shows "\<exists>semantic ctx auth r f. decode_event ev lp dc expected verified = Inr semantic
    \<and> build_asset_context_event cid semantic sha v1_inventory None None = Inr ctx
    \<and> authorization_input_from_semantic semantic sha b1 b2 = Inr auth
    \<and> evaluate_policy auth ctx v1_policy = Inr r
    \<and> build_policy_finding fid auth ctx r v1_policy = Inr f"
  by (rule pipeline_ready [OF assms])

section \<open>The operator's command\<close>

text \<open>The S3 command sent by HMI-01 instead: the input at which the two properties are instantiated.\<close>

definition hmi_command_25 :: SyntheticModbusEvent where
  "hmi_command_25 = s3_valve_command_25\<lparr>me_source_identity := ''HMI-01''\<rparr>"

definition hmi_semantic :: ProtocolSemanticEvent where
  "hmi_semantic = build_event hmi_command_25 v1_loaded fixture_context OperationCategory.WRITE
     (Some WRITE_SINGLE_REGISTER) COMPATIBLE MAPPED NONE (Some point_control_valve_command_percent)
     (Some (DecodedDecimal (Dec 250 (- 1))))
     (''COMMAND_CHANGED_TO'', ''CV-101 valve-position command changed to 25.0% open.'')"

lemma hmi_decoded: "decode_event hmi_command_25 v1_loaded fixture_context (Some zero_digest) True = Inr hmi_semantic"
  by code_simp

lemma hmi_ready: "decode_ready hmi_command_25 v1_loaded fixture_context" "is_sha256 zero_digest"
  by code_simp+

lemma hmi_index:
  "identifier_index v1_inventory (LOGICAL_ID, ''HMI-01'') = Some asset_hmi_01"
  "identifier_index v1_inventory (PROTOCOL_ENDPOINT_ID, ''OTSOC-MB-UNIT-01'') = Some asset_plc_01"
  by code_simp+

lemma hmi_approved:
  assumes c: "build_asset_context_event cid hmi_semantic sha v1_inventory None None = Inr ctx"
    and a: "authorization_input_from_semantic hmi_semantic sha True True = Inr auth"
    and r: "evaluate_policy auth ctx v1_policy = Inr r"
  shows "pr_policy_status r = APPROVED"
proof -
  have id: "se_source_identity hmi_semantic = ''HMI-01''" "se_destination_identity hmi_semantic = ''OTSOC-MB-UNIT-01''"
    by (simp_all add: hmi_semantic_def hmi_command_25_def s3_valve_command_25_def)
  have s: "ce_source_resolution ctx = resolved_asset v1_inventory asset_hmi_01"
    "ce_destination_resolution ctx = resolved_asset v1_inventory asset_plc_01"
    using build_context_resolutions [OF c]
    by (simp_all add: id resolve_single claim_key_def hmi_index)
  have cmd: "v1_commands auth" "au_protocol auth = ''modbus_tcp''" "au_operation_compatibility auth = COMPATIBLE"
    "au_source_evidence_verified auth" "au_semantic_evidence_verified auth"
    using a by (auto simp: authorization_input_from_semantic_def Let_def v1_commands_def hmi_semantic_def
        point_control_valve_command_percent_def build_event_def split: if_splits)
  have "\<exists>r. evaluate_policy auth ctx v1_policy = Inr r \<and> pr_policy_status r = APPROVED"
    unfolding v1_approved_iff using cmd
    by (simp add: s resolved_asset_def asset_hmi_01_def asset_plc_01_def Let_def)
  with r show ?thesis by simp
qed

theorem approved_write_end_to_end_witness:
  "\<exists>ctx auth r. build_asset_context_event ''context'' hmi_semantic zero_digest v1_inventory None None = Inr ctx
    \<and> authorization_input_from_semantic hmi_semantic zero_digest True True = Inr auth
    \<and> evaluate_policy auth ctx v1_policy = Inr r \<and> pr_policy_status r = APPROVED
    \<and> me_source_identity hmi_command_25 = ''HMI-01''
    \<and> (\<exists>f p v. accepts hmi_command_25 v1_loaded (Some zero_digest) True f p v
         \<and> pt_access_class p = COMMANDABLE_SYNTHETIC)"
proof -
  obtain semantic ctx auth r where
      d: "decode_event hmi_command_25 v1_loaded fixture_context (Some zero_digest) True = Inr semantic"
    and c: "build_asset_context_event ''context'' semantic zero_digest v1_inventory None None = Inr ctx"
    and a: "authorization_input_from_semantic semantic zero_digest True True = Inr auth"
    and r: "evaluate_policy auth ctx v1_policy = Inr r"
    using pipeline_ready [OF hmi_ready, of "Some zero_digest" True "''context''" True True] by blast
  have s: "semantic = hmi_semantic" using d hmi_decoded by simp
  have ap: "pr_policy_status r = APPROVED" using hmi_approved c a r unfolding s by blast
  have "se_operation_category semantic = OperationCategory.WRITE" by (simp add: s hmi_semantic_def)
  note sent = approved_write_end_to_end [OF d c a r ap this]
  from sent have "me_source_identity hmi_command_25 = ''HMI-01''" by (elim conjE) simp
  moreover from sent have "\<exists>f p v. accepts hmi_command_25 v1_loaded (Some zero_digest) True f p v
      \<and> pt_access_class p = COMMANDABLE_SYNTHETIC" by (elim conjE exE) (intro exI conjI)
  ultimately show ?thesis using c a r ap unfolding s by blast
qed

theorem pipeline_total_witness:
  "\<exists>semantic ctx auth r f. decode_event hmi_command_25 v1_loaded fixture_context None True = Inr semantic
    \<and> build_asset_context_event ''context'' semantic zero_digest v1_inventory None None = Inr ctx
    \<and> authorization_input_from_semantic semantic zero_digest True True = Inr auth
    \<and> evaluate_policy auth ctx v1_policy = Inr r
    \<and> build_policy_finding ''finding'' auth ctx r v1_policy = Inr f"
  by (rule pipeline_total [OF hmi_ready])
end
