(* ===== verification/Py_Json.thy ===== *)
theory Py_Json
  imports Py_Std "HOL-Library.Multiset"
begin

text \<open>
  JSON documents and their canonical text: \<open>json.dumps\<close> with sorted keys, the separators \<open>,\<close> and
  \<open>:\<close>, and \<open>ensure_ascii=False\<close>, the form every digest of the program is taken over. A float is kept
  as the literal Python prints for it.
\<close>

datatype json =
    JNull
  | JBool bool
  | JInt int
  | JFloat string
  | JStr string
  | JList "json list"
  | JObj "(string \<times> json) list"

definition hex4_low :: "nat \<Rightarrow> string" where
  "hex4_low n = ''00'' @ map (\<lambda>d. if d < 10 then char_of (48 + d) else char_of (87 + d)) [n div 16, n mod 16]"

definition json_escape :: "char \<Rightarrow> string" where
  "json_escape c = (let n = of_char c :: nat in
     if n = 34 then [CHR 0x5C, CHR 0x22]
     else if n = 92 then [CHR 0x5C, CHR 0x5C]
     else if n = 10 then [CHR 0x5C, CHR ''n'']
     else if n = 13 then [CHR 0x5C, CHR ''r'']
     else if n = 9 then [CHR 0x5C, CHR ''t'']
     else if n = 12 then [CHR 0x5C, CHR ''f'']
     else if n = 8 then [CHR 0x5C, CHR ''b'']
     else if n < 32 then [CHR 0x5C, CHR ''u''] @ hex4_low n
     else [c])"

definition json_string :: "string \<Rightarrow> string" where
  "json_string s = CHR 0x22 # concat (map json_escape s) @ [CHR 0x22]"

fun json_dumps :: "json \<Rightarrow> string" where
  "json_dumps JNull = ''null''"
| "json_dumps (JBool b) = (if b then ''true'' else ''false'')"
| "json_dumps (JInt i) = str_int i"
| "json_dumps (JFloat s) = s"
| "json_dumps (JStr s) = json_string s"
| "json_dumps (JList xs) = CHR ''['' # join_with CHR '','' (map json_dumps xs) @ '']''"
| "json_dumps (JObj kvs) =
     CHR 0x7B # join_with CHR '',''
       (map (\<lambda>(k, s). json_string k @ CHR '':'' # s)
         (sort_key fst (map (\<lambda>(k, v). (k, json_dumps v)) kvs))) @ [CHR 0x7D]"

text \<open>The order in which the fields of an object were built does not matter.\<close>

lemma filter_key_single:
  assumes "distinct (map f zs)" and "k \<in> set zs"
  shows "filter (\<lambda>x. f k = f x) zs = [k]"
  using assms by (induction zs) (auto simp: filter_empty_conv image_iff)

lemma sort_key_perm_eq:
  assumes "mset xs = mset ys" and "distinct (map f xs)"
  shows "sort_key f xs = sort_key f ys"
proof (rule properties_for_sort_key [symmetric])
  show "mset (sort_key f xs) = mset ys" using assms(1) by simp
  show "sorted (map f (sort_key f xs))" by simp
  fix k assume "k \<in> set (sort_key f xs)"
  then have k: "k \<in> set (sort_key f xs)" "k \<in> set ys"
    using mset_eq_setD [OF assms(1)] by simp_all
  have "mset (map f (sort_key f xs)) = mset (map f xs)" "mset (map f ys) = mset (map f xs)"
    using assms(1) by simp_all
  then have "distinct (map f (sort_key f xs))" "distinct (map f ys)"
    using assms(2) by (blast dest: mset_eq_imp_distinct_iff)+
  with k show "filter (\<lambda>x. f k = f x) (sort_key f xs) = filter (\<lambda>x. f k = f x) ys"
    by (simp add: filter_key_single)
qed

lemma json_dumps_field_order:
  assumes "mset kvs = mset kvs'" and "distinct (map fst kvs)"
  shows "json_dumps (JObj kvs) = json_dumps (JObj kvs')"
proof -
  have "distinct (map fst (map (\<lambda>(k, v). (k, json_dumps v)) kvs))"
    using assms(2) by (simp add: comp_def split_def)
  with assms(1) have "sort_key fst (map (\<lambda>(k, v). (k, json_dumps v)) kvs)
      = sort_key fst (map (\<lambda>(k, v). (k, json_dumps v)) kvs')"
    by (intro sort_key_perm_eq) simp_all
  then show ?thesis by simp
qed

end
