(* ===== verification/Paging.thy ===== *)
theory Paging
  imports Prelude
begin

text \<open>
  Cursor pagination, the interface the listing services share. A listing answers a page of at most
  \<open>limit\<close> rows and the cursor of the next page; a client follows cursors until there is none. The
  locale states what a listing promises of one page: it is the beginning of the rows after the
  cursor, in key order. From that the client's loop returns every row exactly once, in order.
\<close>

text \<open>The rows after a cursor.\<close>

definition after :: "('r \<Rightarrow> 'k::linorder) \<Rightarrow> 'k option \<Rightarrow> 'r \<Rightarrow> bool" where
  "after key cursor r = (case cursor of None \<Rightarrow> True | Some k \<Rightarrow> k < key r)"

text \<open>A page: one row more than the limit is fetched, to know whether there is a next page.\<close>

definition page_of :: "('r \<Rightarrow> 'k) \<Rightarrow> nat \<Rightarrow> 'r list \<Rightarrow> 'r list \<times> 'k option" where
  "page_of key limit rest =
     (let fetched = take (limit + 1) rest;
          has_more = length fetched > limit;
          page = take limit fetched in
      (page, if has_more \<and> page \<noteq> [] then Some (key (last page)) else None))"

text \<open>The client's loop, with at most \<open>n\<close> requests; None when they do not suffice.\<close>

fun walk :: "('k option \<Rightarrow> 'r list \<times> 'k option) \<Rightarrow> nat \<Rightarrow> 'k option \<Rightarrow> 'r list option" where
  "walk page 0 cursor = None"
| "walk page (Suc n) cursor =
     (case page cursor of
        (items, None) \<Rightarrow> Some items
      | (items, Some k) \<Rightarrow> map_option ((@) items) (walk page n (Some k)))"

lemma page_of_short: "length rest \<le> limit \<Longrightarrow> page_of key limit rest = (rest, None)"
  by (simp add: page_of_def Let_def)

lemma page_of_long:
  "limit < length rest \<Longrightarrow> 0 < limit \<Longrightarrow>
   page_of key limit rest = (take limit rest, Some (key (rest ! (limit - 1))))"
  by (auto simp: page_of_def Let_def min_def last_conv_nth)

lemma filter_after_nth:
  fixes key :: "'r \<Rightarrow> 'k::linorder"
  assumes "sorted_wrt (<) (map key xs)" and "i < length xs"
  shows "filter (\<lambda>r. key (xs ! i) < key r) xs = drop (Suc i) xs"
proof -
  have less: "key (xs ! j) < key (xs ! k)" if "j < k" "k < length xs" for j k
    using assms(1) that by (simp add: sorted_wrt_map sorted_wrt_iff_nth_less)
  have "key (xs ! j) \<le> key (xs ! i)" if "j < Suc i" for j
    using less [of j i] that assms(2) by (cases "j = i") auto
  then have "filter (\<lambda>r. key (xs ! i) < key r) (take (Suc i) xs) = []"
    by (auto simp: filter_empty_conv in_set_conv_nth not_less)
  moreover have "filter (\<lambda>r. key (xs ! i) < key r) (drop (Suc i) xs) = drop (Suc i) xs"
    using less assms(2) by (auto simp: filter_id_conv in_set_conv_nth)
  ultimately show ?thesis
    by (metis append_Nil append_take_drop_id filter_append)
qed

locale keyset_listing =
  fixes key :: "'r \<Rightarrow> 'k::linorder"
    and ready :: "'s \<Rightarrow> bool"
    and rows :: "'s \<Rightarrow> 'r list"
    and listing :: "'s \<Rightarrow> nat \<Rightarrow> 'k option \<Rightarrow> 'r list \<times> 'k option"
  assumes distinct_keys: "ready s \<Longrightarrow> distinct (map key (rows s))"
    and listing_page: "ready s \<Longrightarrow>
      listing s limit cursor = page_of key limit (filter (after key cursor) (sort_key key (rows s)))"
begin

lemma sorted_strict: "ready s \<Longrightarrow> sorted_wrt (<) (map key (sort_key key (rows s)))"
proof -
  assume "ready s"
  then have "distinct (map key (sort_key key (rows s)))"
    using distinct_keys by (metis distinct_map distinct_sort set_sort)
  then show ?thesis by (simp add: strict_sorted_iff)
qed

text \<open>After \<open>m\<close> rows have been seen the rest is the listing without its first \<open>m\<close> rows.\<close>

lemma walk_from:
  assumes ready: "ready s" and "0 < limit" and "m \<le> length (rows s)" and "length (rows s) - m < n"
    and "filter (after key cursor) (sort_key key (rows s)) = drop m (sort_key key (rows s))"
  shows "walk (listing s limit) n cursor = Some (drop m (sort_key key (rows s)))"
  using assms(2-)
proof (induction n arbitrary: m cursor)
  case 0
  then show ?case by simp
next
  case (Suc n)
  let ?all = "sort_key key (rows s)"
  show ?case
  proof (cases "limit < length (drop m ?all)")
    case False
    then show ?thesis
      using Suc.prems by (simp add: listing_page [OF ready] page_of_short)
  next
    case True
    let ?k = "key (drop m ?all ! (limit - 1))"
    have page: "listing s limit cursor = (take limit (drop m ?all), Some ?k)"
      using Suc.prems True by (simp add: listing_page [OF ready] page_of_long)
    have idx: "drop m ?all ! (limit - 1) = ?all ! (m + (limit - 1))" "m + (limit - 1) < length ?all"
      using True Suc.prems by simp_all
    have "filter (after key (Some ?k)) ?all = drop (m + limit) ?all"
      using filter_after_nth [OF sorted_strict [OF ready] idx(2)] Suc.prems(1) idx(1)
      by (simp add: after_def [abs_def])
    then have "walk (listing s limit) n (Some ?k) = Some (drop (m + limit) ?all)"
      using Suc.prems True by (intro Suc.IH) auto
    moreover have "take limit (drop m ?all) @ drop (m + limit) ?all = drop m ?all"
      by (metis add.commute append_take_drop_id drop_drop)
    ultimately show ?thesis using page by simp
  qed
qed

lemma walk_complete:
  "ready s \<Longrightarrow> 0 < limit \<Longrightarrow>
   walk (listing s limit) (Suc (length (rows s))) None = Some (sort_key key (rows s))"
  using walk_from [of s limit 0 "Suc (length (rows s))" None] by (simp add: after_def)

end

end
