(* ===== verification/Ledger.thy ===== *)
theory Ledger
  imports Prelude
begin

text \<open>
  Sequences of operations on a store. An operation returns an output and the next state, or an
  error that leaves the state as it was, the way a rolled-back transaction does. Two interfaces are
  stated for the stores of the program: operations that keep an invariant, and operations that only
  append to a log.
\<close>

text \<open>Running the inputs one after the other.\<close>

fun run_ops :: "('i \<Rightarrow> 's \<Rightarrow> 'e + ('o \<times> 's)) \<Rightarrow> 'i list \<Rightarrow> 's \<Rightarrow> 's" where
  "run_ops step [] s = s"
| "run_ops step (i # is) s =
     run_ops step is (case step i s of Inl _ \<Rightarrow> s | Inr (_, s') \<Rightarrow> s')"

text \<open>
  A relation between states that every operation establishes, and that composes, holds between the
  ends of every run. Keeping an invariant and only appending to a log are two such relations.
\<close>

locale related_ops =
  fixes step :: "'i \<Rightarrow> 's \<Rightarrow> 'e + ('o \<times> 's)" and rel :: "'s \<Rightarrow> 's \<Rightarrow> bool"
  assumes rel_refl: "rel s s"
    and rel_trans: "rel s t \<Longrightarrow> rel t u \<Longrightarrow> rel s u"
    and step_rel: "step i s = Inr (out, s') \<Longrightarrow> rel s s'"
begin

lemma run_rel: "rel s (run_ops step is s)"
proof (induction "is" arbitrary: s)
  case Nil
  show ?case by (simp add: rel_refl)
next
  case (Cons i "is")
  have "rel s (case step i s of Inl _ \<Rightarrow> s | Inr (_, s') \<Rightarrow> s')"
    by (auto simp: rel_refl dest: step_rel split: sum.splits)
  from rel_trans [OF this Cons.IH] show ?case by simp
qed

end

locale invariant_ops =
  fixes step :: "'i \<Rightarrow> 's \<Rightarrow> 'e + ('o \<times> 's)" and inv :: "'s \<Rightarrow> bool"
  assumes step_inv: "inv s \<Longrightarrow> step i s = Inr (out, s') \<Longrightarrow> inv s'"

sublocale invariant_ops \<subseteq> keeps: related_ops step "\<lambda>s s'. inv s \<longrightarrow> inv s'"
  by unfold_locales (simp, simp, metis step_inv)

context invariant_ops
begin

lemma run_inv: "inv s \<Longrightarrow> inv (run_ops step is s)"
  using keeps.run_rel by blast

end

locale append_only_ops =
  fixes step :: "'i \<Rightarrow> 's \<Rightarrow> 'e + ('o \<times> 's)" and log :: "'s \<Rightarrow> 'r list"
  assumes step_log: "step i s = Inr (out, s') \<Longrightarrow> prefix (log s) (log s')"

sublocale append_only_ops \<subseteq> extends: related_ops step "\<lambda>s s'. prefix (log s) (log s')"
  by unfold_locales (simp, erule (1) prefix_order.trans, erule step_log)

context append_only_ops
begin

lemma run_prefix: "prefix (log s) (log (run_ops step is s))"
  by (rule extends.run_rel)

end

text \<open>
  Optimistic concurrency. Every object of the store has a version; an operation names the object
  and the version its caller saw, is accepted only at that version, raises it by one and leaves
  the versions of the other objects alone. A request is an operation, an object and the expected
  version.
\<close>

definition versioned :: "('i \<Rightarrow> 'k \<Rightarrow> int \<Rightarrow> 's \<Rightarrow> 'e + ('o \<times> 's)) \<Rightarrow> 'i \<times> 'k \<times> int \<Rightarrow> 's \<Rightarrow> 'e + ('o \<times> 's)" where
  "versioned op r s = (case r of (i, k, v) \<Rightarrow> op i k v s)"

text \<open>The number of accepted requests on an object.\<close>

fun accepted_on ::
  "('i \<Rightarrow> 'k \<Rightarrow> int \<Rightarrow> 's \<Rightarrow> 'e + ('o \<times> 's)) \<Rightarrow> 'k \<Rightarrow> ('i \<times> 'k \<times> int) list \<Rightarrow> 's \<Rightarrow> nat" where
  "accepted_on op k [] s = 0"
| "accepted_on op k (r # rs) s =
     (case versioned op r s of
        Inl _ \<Rightarrow> accepted_on op k rs s
      | Inr (_, s') \<Rightarrow> (if fst (snd r) = k then 1 else 0) + accepted_on op k rs s')"

locale versioned_store =
  fixes version_of :: "'s \<Rightarrow> 'k \<Rightarrow> int option"
    and op :: "'i \<Rightarrow> 'k \<Rightarrow> int \<Rightarrow> 's \<Rightarrow> 'e + ('o \<times> 's)"
  assumes guarded: "op i k v s = Inr (out, s') \<Longrightarrow> version_of s k = Some v"
    and bumped: "op i k v s = Inr (out, s') \<Longrightarrow> version_of s' k = Some (v + 1)"
    and framed: "op i k v s = Inr (out, s') \<Longrightarrow> k' \<noteq> k \<Longrightarrow> version_of s' k' = version_of s k'"
begin

lemma no_lost_update:
  assumes "op i k v s = Inr (out, s')"
  shows "op j k v s' \<noteq> Inr res"
proof
  assume "op j k v s' = Inr res"
  then have "version_of s' k = Some v" by (metis guarded surj_pair)
  with bumped [OF assms] show False by simp
qed

lemma versioned_version:
  assumes "versioned op r s = Inr (out, s')"
  shows "version_of s' k = map_option (\<lambda>v. v + (if fst (snd r) = k then 1 else 0)) (version_of s k)"
proof -
  obtain i k' v where r: "r = (i, k', v)" by (cases r)
  show ?thesis
    using guarded [of i k' v s] bumped [of i k' v s] framed [of i k' v s] assms
    by (cases "k = k'") (auto simp: r versioned_def option.map_ident)
qed

lemma version_counts_accepted:
  "version_of (run_ops (versioned op) rs s) k = map_option (\<lambda>v. v + int (accepted_on op k rs s)) (version_of s k)"
proof (induction rs arbitrary: s)
  case Nil
  show ?case by (simp add: option.map_ident)
next
  case (Cons r rs)
  show ?case
  proof (cases "versioned op r s")
    case (Inl e)
    with Cons.IH [of s] show ?thesis by simp
  next
    case (Inr p)
    obtain out s' where p: "p = (out, s')" by (cases p)
    with Inr versioned_version [of r s out s' k] Cons.IH [of s'] show ?thesis
      by (simp add: option.map_comp o_def algebra_simps)
  qed
qed

lemma version_never_decreases:
  "version_of s k = Some v \<Longrightarrow> \<exists>w \<ge> v. version_of (run_ops (versioned op) rs s) k = Some w"
  by (simp add: version_counts_accepted)

end

end
