(* ===== verification/Evidence.thy ===== *)
theory Evidence
  imports Py_Hash Py_Json Paging Ledger
begin

text \<open>
  The immutable evidence store (\<open>app/evidence/service.py\<close>, \<open>canonical.py\<close>, \<open>models.py\<close>). The store is
  the tables the service reads and writes: the sources, the evidence records in insertion order, and
  the lab tables a listing joins. Ingestion is one transaction: it returns a receipt and the next
  store, or the exception, which leaves the store as it was. A request is the part of a validated
  envelope the service uses, with the payload and the provenance already dumped to JSON.

  pydantic's rendering of a datetime in JSON mode is the parameter \<open>isoformat\<close>, and its validation of a
  stored envelope is the parameter \<open>validate\<close>. The textual form of a cursor is left out: a cursor is
  the pair of the time and the identifier it encodes.
\<close>

section \<open>Tables\<close>

record EvidenceSource =
  es_id :: uuid
  es_source_key :: string
  es_source_type :: string
  es_schema_version :: string
  es_enabled :: bool

record EvidenceRecord =
  rec_evidence_id :: uuid
  rec_evidence_version :: int
  rec_source_id :: uuid
  rec_source_event_id :: string
  rec_evidence_type :: string
  rec_observed_at :: timestamp
  rec_received_at :: timestamp
  rec_sequence_number :: "int option"
  rec_payload_schema :: string
  rec_payload_schema_version :: string
  rec_payload :: json
  rec_provenance :: json
  rec_integrity_sha256 :: digest
  rec_canonical_byte_length :: nat

record EvidenceStore =
  ev_sources :: "EvidenceSource list"
  ev_records :: "EvidenceRecord list"
  ev_active_run :: "uuid option"
  ev_lab_runs :: "uuid list"
  ev_lab_run_evidence :: "(uuid \<times> uuid) list"

record EvidenceRequest =
  er_source_key :: string
  er_source_event_id :: string
  er_evidence_type :: string
  er_observed_at :: timestamp
  er_sequence_number :: int
  er_payload_schema :: string
  er_payload_schema_version :: string
  er_payload :: json
  er_provenance :: json

datatype IngestStatus = accepted | duplicate_existing

record EvidenceIngestionReceipt =
  rc_status :: IngestStatus
  rc_evidence_id :: uuid
  rc_source_key :: string
  rc_receipt_timestamp :: timestamp

datatype EvidenceError =
    EvidenceSourceNotFound
  | EvidenceTypeNotAccepted
  | EvidenceSchemaNotRegistered
  | EvidencePayloadTooLarge
  | EvidencePrimaryKeyViolation
  | UniquenessConflictUnresolved
  | EvidenceIdentityConflict
  | EvidenceScopeInvalid
  | RunIdRequired
  | RunIdNotAllowed

section \<open>Canonical form and identity\<close>

definition EVIDENCE_ID_NAMESPACE :: uuid where
  "EVIDENCE_ID_NAMESPACE = ''9db53f17-8ea1-4c0e-9f47-9359724bc8d8''"

definition canonical_evidence_bytes ::
  "(timestamp \<Rightarrow> string) \<Rightarrow> uuid \<Rightarrow> EvidenceRequest \<Rightarrow> byte list" where
  "canonical_evidence_bytes isoformat source_id request = utf8 (json_dumps (JObj [
     (''source_key'', JStr (er_source_key request)),
     (''source_event_id'', JStr (er_source_event_id request)),
     (''evidence_type'', JStr (er_evidence_type request)),
     (''observed_at'', JStr (isoformat (er_observed_at request))),
     (''sequence_number'', JInt (er_sequence_number request)),
     (''payload_schema'', JStr (er_payload_schema request)),
     (''payload_schema_version'', JStr (er_payload_schema_version request)),
     (''payload'', er_payload request),
     (''provenance'', er_provenance request),
     (''source_id'', JStr source_id)]))"

definition integrity_sha256 :: "byte list \<Rightarrow> digest" where
  "integrity_sha256 canonical_bytes = sha256_hex canonical_bytes"

definition stable_identity :: "uuid \<Rightarrow> string \<Rightarrow> string \<Rightarrow> string \<Rightarrow> string" where
  "stable_identity source_id source_event_id evidence_type payload_schema_version =
     join_with CHR ''|'' [source_id, source_event_id, evidence_type, payload_schema_version]"

definition deterministic_evidence_id_from_fields ::
  "uuid \<Rightarrow> string \<Rightarrow> string \<Rightarrow> string \<Rightarrow> uuid" where
  "deterministic_evidence_id_from_fields source_id source_event_id evidence_type payload_schema_version =
     uuid5 EVIDENCE_ID_NAMESPACE
       (stable_identity source_id source_event_id evidence_type payload_schema_version)"

definition deterministic_evidence_id :: "uuid \<Rightarrow> EvidenceRequest \<Rightarrow> uuid" where
  "deterministic_evidence_id source_id request =
     deterministic_evidence_id_from_fields source_id (er_source_event_id request)
       (er_evidence_type request) (er_payload_schema_version request)"

section \<open>Ingestion\<close>

definition MAX_CANONICAL_EVIDENCE_BYTES :: nat where
  "MAX_CANONICAL_EVIDENCE_BYTES = 16384"

definition maximum_bytes :: "EvidenceRequest \<Rightarrow> nat" where
  "maximum_bytes request =
     (if er_evidence_type request = ''correlation_finding'' then 65536 else MAX_CANONICAL_EVIDENCE_BYTES)"

text \<open>The columns of the unique constraint \<open>uq_evidence_source_event_identity\<close>.\<close>

definition record_identity :: "EvidenceRecord \<Rightarrow> uuid \<times> string \<times> string \<times> string" where
  "record_identity r = (rec_source_id r, rec_source_event_id r, rec_evidence_type r,
     rec_payload_schema_version r)"

definition request_identity :: "uuid \<Rightarrow> EvidenceRequest \<Rightarrow> uuid \<times> string \<times> string \<times> string" where
  "request_identity source_id request = (source_id, er_source_event_id request,
     er_evidence_type request, er_payload_schema_version request)"

definition identity_query :: "EvidenceStore \<Rightarrow> uuid \<Rightarrow> EvidenceRequest \<Rightarrow> EvidenceRecord option" where
  "identity_query st source_id request =
     find (\<lambda>r. record_identity r = request_identity source_id request) (ev_records st)"

definition evidence_row ::
  "(timestamp \<Rightarrow> string) \<Rightarrow> uuid \<Rightarrow> EvidenceRequest \<Rightarrow> timestamp \<Rightarrow> EvidenceRecord" where
  "evidence_row isoformat source_id request now =
     (let canonical = canonical_evidence_bytes isoformat source_id request in \<lparr>
        rec_evidence_id = deterministic_evidence_id source_id request,
        rec_evidence_version = 1,
        rec_source_id = source_id,
        rec_source_event_id = er_source_event_id request,
        rec_evidence_type = er_evidence_type request,
        rec_observed_at = er_observed_at request,
        rec_received_at = now,
        rec_sequence_number = Some (er_sequence_number request),
        rec_payload_schema = er_payload_schema request,
        rec_payload_schema_version = er_payload_schema_version request,
        rec_payload = er_payload request,
        rec_provenance = er_provenance request,
        rec_integrity_sha256 = integrity_sha256 canonical,
        rec_canonical_byte_length = length canonical\<rparr>)"

text \<open>
  \<open>INSERT ... ON CONFLICT ON CONSTRAINT uq_evidence_source_event_identity DO NOTHING RETURNING\<close>: no
  row when the identity is taken, an error when only the primary key is.
\<close>

definition insert_evidence ::
  "EvidenceStore \<Rightarrow> EvidenceRecord \<Rightarrow> EvidenceError + (uuid option \<times> EvidenceStore)" where
  "insert_evidence st row =
     (if record_identity row \<in> record_identity ` set (ev_records st) then Inr (None, st)
      else if rec_evidence_id row \<in> rec_evidence_id ` set (ev_records st)
      then Inl EvidencePrimaryKeyViolation
      else Inr (Some (rec_evidence_id row), st\<lparr>ev_records := ev_records st @ [row]\<rparr>))"

definition find_source :: "EvidenceStore \<Rightarrow> string \<Rightarrow> EvidenceSource option" where
  "find_source st key = find (\<lambda>s. es_source_key s = key \<and> es_enabled s) (ev_sources st)"

definition ingest_validated_evidence ::
  "(timestamp \<Rightarrow> string) \<Rightarrow> EvidenceStore \<Rightarrow> EvidenceRequest \<Rightarrow> timestamp \<Rightarrow>
   EvidenceError + (EvidenceIngestionReceipt \<times> EvidenceStore)" where
  "ingest_validated_evidence isoformat st request now =
     (case find_source st (er_source_key request) of
        None \<Rightarrow> Inl EvidenceSourceNotFound
      | Some source \<Rightarrow>
          if es_source_type source \<noteq> er_evidence_type request then Inl EvidenceTypeNotAccepted
          else if es_schema_version source \<noteq> er_payload_schema_version request
          then Inl EvidenceSchemaNotRegistered
          else
          (let canonical = canonical_evidence_bytes isoformat (es_id source) request in
           if length canonical > maximum_bytes request then Inl EvidencePayloadTooLarge
           else
           (let digest = integrity_sha256 canonical;
                evidence_id = deterministic_evidence_id (es_id source) request in
            rbind (insert_evidence st (evidence_row isoformat (es_id source) request now))
              (\<lambda>(inserted_id, st').
            case inserted_id of
              None \<Rightarrow>
                (case identity_query st' (es_id source) request of
                   None \<Rightarrow> Inl UniquenessConflictUnresolved
                 | Some existing \<Rightarrow>
                     if rec_integrity_sha256 existing \<noteq> digest \<or> rec_evidence_id existing \<noteq> evidence_id
                     then Inl EvidenceIdentityConflict
                     else Inr (\<lparr>rc_status = duplicate_existing,
                       rc_evidence_id = rec_evidence_id existing,
                       rc_source_key = er_source_key request, rc_receipt_timestamp = now\<rparr>, st'))
            | Some _ \<Rightarrow>
                Inr (\<lparr>rc_status = accepted, rc_evidence_id = evidence_id,
                  rc_source_key = er_source_key request, rc_receipt_timestamp = now\<rparr>, st')))))"

definition get_evidence :: "EvidenceStore \<Rightarrow> uuid \<Rightarrow> EvidenceRecord option" where
  "get_evidence st evidence_id = find (\<lambda>r. rec_evidence_id r = evidence_id) (ev_records st)"

section \<open>Verification\<close>

text \<open>The envelope class a stored record is validated against.\<close>

definition envelope_class :: "string \<Rightarrow> string \<Rightarrow> string option" where
  "envelope_class evidence_type version =
     (if evidence_type = ''simulator_telemetry'' \<and> version = ''1.0.0''
      then Some ''HistoricalEvidenceEnvelopeV1''
      else if evidence_type = ''simulator_telemetry'' \<and> version = ''2.0.0''
      then Some ''EvidenceIngestRequest''
      else if evidence_type = ''synthetic_protocol_event'' then Some ''SyntheticProtocolEvidenceEnvelope''
      else if evidence_type = ''protocol_semantic_event'' then Some ''SemanticEvidenceEnvelope''
      else if evidence_type = ''asset_context_event'' then Some ''AssetContextEvidenceEnvelope''
      else if evidence_type = ''communication_policy_finding'' then Some ''PolicyFindingEvidenceEnvelope''
      else if evidence_type = ''correlation_finding'' then Some ''CorrelationEvidenceEnvelope''
      else None)"

definition record_source :: "EvidenceStore \<Rightarrow> EvidenceRecord \<Rightarrow> EvidenceSource option" where
  "record_source st r = find (\<lambda>s. es_id s = rec_source_id r) (ev_sources st)"

text \<open>
  The dictionary handed to \<open>model_validate\<close>. Its values are the columns of the row, so the sequence
  number may be absent and payload and provenance are JSON documents.
\<close>

record EvidenceEnvelope =
  en_source_key :: string
  en_source_event_id :: string
  en_evidence_type :: string
  en_observed_at :: timestamp
  en_sequence_number :: "int option"
  en_payload_schema :: string
  en_payload_schema_version :: string
  en_payload :: json
  en_provenance :: json

definition record_envelope :: "EvidenceSource \<Rightarrow> EvidenceRecord \<Rightarrow> EvidenceEnvelope" where
  "record_envelope source r = \<lparr>
     en_source_key = es_source_key source,
     en_source_event_id = rec_source_event_id r,
     en_evidence_type = rec_evidence_type r,
     en_observed_at = rec_observed_at r,
     en_sequence_number = rec_sequence_number r,
     en_payload_schema = rec_payload_schema r,
     en_payload_schema_version = rec_payload_schema_version r,
     en_payload = rec_payload r,
     en_provenance = rec_provenance r\<rparr>"

text \<open>
  The classes themselves are pydantic's: \<open>validate cls envelope\<close> is \<open>cls.model_validate(envelope)\<close>, with
  no value for a ValidationError. It sees the assembled dictionary and nothing else of the record.
\<close>

type_synonym envelope_validator = "string \<Rightarrow> EvidenceEnvelope \<Rightarrow> EvidenceRequest option"

definition verify_record_integrity ::
  "(timestamp \<Rightarrow> string) \<Rightarrow> envelope_validator \<Rightarrow>
   EvidenceStore \<Rightarrow> EvidenceRecord \<Rightarrow> bool" where
  "verify_record_integrity isoformat validate st r =
     (case record_source st r of
        None \<Rightarrow> False
      | Some source \<Rightarrow>
          case envelope_class (rec_evidence_type r) (rec_payload_schema_version r) of
            None \<Rightarrow> False
          | Some cls \<Rightarrow>
              case validate cls (record_envelope source r) of
                None \<Rightarrow> False
              | Some request \<Rightarrow>
                  integrity_sha256 (canonical_evidence_bytes isoformat (rec_source_id r) request)
                    = rec_integrity_sha256 r)"

section \<open>Listing\<close>

record EvidenceQuery =
  eq_limit :: nat
  eq_offset :: nat
  eq_cursor :: "(timestamp \<times> uuid) option"
  eq_evidence_type :: "string option"
  eq_source_key :: "string option"
  eq_observed_from :: "timestamp option"
  eq_observed_to :: "timestamp option"
  eq_scope :: string
  eq_run_id :: "uuid option"

definition run_rows :: "EvidenceStore \<Rightarrow> uuid \<Rightarrow> EvidenceRecord list" where
  "run_rows st run =
     filter (\<lambda>r. (run, rec_evidence_id r) \<in> set (ev_lab_run_evidence st)) (ev_records st)"

definition scope_rows :: "EvidenceStore \<Rightarrow> EvidenceQuery \<Rightarrow> EvidenceError + EvidenceRecord list" where
  "scope_rows st q =
     (if eq_scope q \<notin> {''CURRENT'', ''ALL_HISTORY'', ''RUN''} then Inl EvidenceScopeInvalid
      else if eq_scope q = ''CURRENT'' then
        (case ev_active_run st of None \<Rightarrow> Inr [] | Some run \<Rightarrow> Inr (run_rows st run))
      else if eq_scope q = ''RUN'' then
        (case eq_run_id q of
           None \<Rightarrow> Inl RunIdRequired
         | Some run \<Rightarrow>
             if run \<notin> set (ev_lab_runs st) then Inl RunIdRequired else Inr (run_rows st run))
      else if eq_run_id q \<noteq> None then Inl RunIdNotAllowed
      else Inr (ev_records st))"

definition row_selected :: "EvidenceStore \<Rightarrow> EvidenceQuery \<Rightarrow> EvidenceRecord \<Rightarrow> bool" where
  "row_selected st q r =
     (record_source st r \<noteq> None
      \<and> (case eq_evidence_type q of None \<Rightarrow> True | Some t \<Rightarrow> rec_evidence_type r = t)
      \<and> (case eq_source_key q of None \<Rightarrow> True
         | Some k \<Rightarrow> map_option es_source_key (record_source st r) = Some k)
      \<and> (case (eq_observed_from q, eq_observed_to q) of
           (Some a, Some b) \<Rightarrow> a \<le> rec_observed_at r \<and> rec_observed_at r \<le> b | _ \<Rightarrow> True))"

definition after_cursor :: "(timestamp \<times> uuid) option \<Rightarrow> EvidenceRecord \<Rightarrow> bool" where
  "after_cursor cursor r =
     (case cursor of
        None \<Rightarrow> True
      | Some (cursor_time, cursor_id) \<Rightarrow>
          rec_observed_at r > cursor_time
          \<or> rec_observed_at r = cursor_time \<and> rec_evidence_id r > cursor_id)"

definition evidence_order :: "EvidenceRecord \<Rightarrow> timestamp \<times> uuid" where
  "evidence_order r = (rec_observed_at r, rec_evidence_id r)"

definition list_evidence ::
  "EvidenceStore \<Rightarrow> EvidenceQuery \<Rightarrow>
   EvidenceError + (EvidenceRecord list \<times> (timestamp \<times> uuid) option)" where
  "list_evidence st q =
     rbind (scope_rows st q) (\<lambda>rows.
     (let selected = filter (after_cursor (eq_cursor q)) (filter (row_selected st q) rows);
          ordered = sort_key evidence_order selected;
          records = take (eq_limit q + 1)
            (drop (if eq_cursor q = None then eq_offset q else 0) ordered);
          has_more = length records > eq_limit q;
          page = take (eq_limit q) records in
      Inr (page, if has_more \<and> page \<noteq> [] then Some (evidence_order (last page)) else None)))"

section \<open>The invariant of the store\<close>

text \<open>
  Identities and evidence identifiers are unique, every record is exactly the row of some request
  within the size limit, and its source exists.
\<close>

definition stored_row :: "(timestamp \<Rightarrow> string) \<Rightarrow> EvidenceStore \<Rightarrow> EvidenceRecord \<Rightarrow> bool" where
  "stored_row isoformat st r =
     (\<exists>source request now. source \<in> set (ev_sources st) \<and> es_id source = rec_source_id r
        \<and> r = evidence_row isoformat (rec_source_id r) request now
        \<and> rec_canonical_byte_length r \<le> maximum_bytes request)"

definition evidence_inv :: "(timestamp \<Rightarrow> string) \<Rightarrow> EvidenceStore \<Rightarrow> bool" where
  "evidence_inv isoformat st =
     (distinct (map record_identity (ev_records st)) \<and> distinct (map rec_evidence_id (ev_records st))
      \<and> (\<forall>r \<in> set (ev_records st). stored_row isoformat st r))"

lemma evidence_row_fields [simp]:
  "record_identity (evidence_row isoformat sid request now) = request_identity sid request"
  "rec_evidence_id (evidence_row isoformat sid request now) = deterministic_evidence_id sid request"
  "rec_integrity_sha256 (evidence_row isoformat sid request now)
     = integrity_sha256 (canonical_evidence_bytes isoformat sid request)"
  "rec_source_id (evidence_row isoformat sid request now) = sid"
  "rec_evidence_type (evidence_row isoformat sid request now) = er_evidence_type request"
  "rec_payload_schema_version (evidence_row isoformat sid request now) = er_payload_schema_version request"
  "rec_canonical_byte_length (evidence_row isoformat sid request now)
     = length (canonical_evidence_bytes isoformat sid request)"
  by (simp_all add: evidence_row_def Let_def record_identity_def request_identity_def)

text \<open>What a successful ingestion did: it appended the row of the request, or found its equal.\<close>

definition appended ::
  "(timestamp \<Rightarrow> string) \<Rightarrow> EvidenceStore \<Rightarrow> EvidenceRequest \<Rightarrow> timestamp \<Rightarrow> uuid \<Rightarrow> EvidenceStore \<Rightarrow> bool" where
  "appended isoformat st request now sid st' =
     (request_identity sid request \<notin> record_identity ` set (ev_records st)
      \<and> deterministic_evidence_id sid request \<notin> rec_evidence_id ` set (ev_records st)
      \<and> st' = st\<lparr>ev_records := ev_records st @ [evidence_row isoformat sid request now]\<rparr>)"

definition already_stored ::
  "(timestamp \<Rightarrow> string) \<Rightarrow> EvidenceStore \<Rightarrow> EvidenceRequest \<Rightarrow> uuid \<Rightarrow> bool" where
  "already_stored isoformat st request sid =
     (\<exists>existing. identity_query st sid request = Some existing
        \<and> rec_integrity_sha256 existing = integrity_sha256 (canonical_evidence_bytes isoformat sid request)
        \<and> rec_evidence_id existing = deterministic_evidence_id sid request)"

definition admitted :: "(timestamp \<Rightarrow> string) \<Rightarrow> EvidenceStore \<Rightarrow> EvidenceRequest \<Rightarrow> EvidenceSource \<Rightarrow> bool" where
  "admitted isoformat st request source =
     (find_source st (er_source_key request) = Some source
      \<and> es_source_type source = er_evidence_type request
      \<and> es_schema_version source = er_payload_schema_version request
      \<and> length (canonical_evidence_bytes isoformat (es_id source) request) \<le> maximum_bytes request)"

definition receipt_of :: "IngestStatus \<Rightarrow> uuid \<Rightarrow> EvidenceRequest \<Rightarrow> timestamp \<Rightarrow> EvidenceIngestionReceipt" where
  "receipt_of status sid request now =
     \<lparr>rc_status = status, rc_evidence_id = deterministic_evidence_id sid request,
      rc_source_key = er_source_key request, rc_receipt_timestamp = now\<rparr>"

lemma identity_query_None:
  "identity_query st sid request = None \<longleftrightarrow>
     request_identity sid request \<notin> record_identity ` set (ev_records st)"
  by (force simp: identity_query_def find_eq_None_iff)

lemma identity_query_SomeD:
  "identity_query st sid request = Some r \<Longrightarrow>
     r \<in> set (ev_records st) \<and> record_identity r = request_identity sid request"
  by (auto simp: identity_query_def dest: find_eq_Some_iff)

lemma ingest_iff:
  "ingest_validated_evidence isoformat st request now = Inr (receipt, st') \<longleftrightarrow>
     (\<exists>source. admitted isoformat st request source
        \<and> (appended isoformat st request now (es_id source) st'
             \<and> receipt = receipt_of accepted (es_id source) request now
           \<or> already_stored isoformat st request (es_id source) \<and> st' = st
             \<and> receipt = receipt_of duplicate_existing (es_id source) request now))"
proof (cases "find_source st (er_source_key request)")
  case None
  then show ?thesis by (simp add: ingest_validated_evidence_def admitted_def)
next
  case (Some source)
  show ?thesis
  proof (cases "identity_query st (es_id source) request")
    case None
    then have "request_identity (es_id source) request \<notin> record_identity ` set (ev_records st)"
      by (simp add: identity_query_None)
    with Some None show ?thesis
      by (auto simp: ingest_validated_evidence_def admitted_def insert_evidence_def
          appended_def already_stored_def receipt_of_def Let_def not_less)
  next
    case (Some r)
    then have taken: "request_identity (es_id source) request \<in> record_identity ` set (ev_records st)"
      by (metis identity_query_None option.distinct(1))
    with Some \<open>find_source st (er_source_key request) = Some source\<close> show ?thesis
      by (auto simp: ingest_validated_evidence_def admitted_def insert_evidence_def
          appended_def already_stored_def receipt_of_def Let_def not_less)
  qed
qed

lemma ingest_sources:
  "ingest_validated_evidence isoformat st request now = Inr (receipt, st') \<Longrightarrow> ev_sources st' = ev_sources st"
  by (auto simp: ingest_iff appended_def)

lemma stored_row_sources: "ev_sources st' = ev_sources st \<Longrightarrow> stored_row isoformat st' = stored_row isoformat st"
  by (simp add: stored_row_def fun_eq_iff)

definition ingest_step ::
  "(timestamp \<Rightarrow> string) \<Rightarrow> EvidenceRequest \<times> timestamp \<Rightarrow> EvidenceStore \<Rightarrow>
   EvidenceError + (EvidenceIngestionReceipt \<times> EvidenceStore)" where
  "ingest_step isoformat i st = ingest_validated_evidence isoformat st (fst i) (snd i)"

interpretation evidence_log: append_only_ops "ingest_step isoformat" ev_records
  by unfold_locales (auto simp: ingest_step_def ingest_iff appended_def)

lemma ingest_inv:
  assumes inv: "evidence_inv isoformat st"
    and step: "ingest_validated_evidence isoformat st request now = Inr (receipt, st')"
  shows "evidence_inv isoformat st'"
proof -
  note rows = stored_row_sources [OF ingest_sources [OF step]]
  from step obtain source where adm: "admitted isoformat st request source"
    and outcome: "appended isoformat st request now (es_id source) st' \<or> st' = st"
    unfolding ingest_iff by blast
  have "stored_row isoformat st (evidence_row isoformat (es_id source) request now)"
    unfolding stored_row_def using adm
    by (intro exI [of _ source] exI [of _ request] exI [of _ now])
      (auto simp: admitted_def find_source_def dest: find_eq_Some_iff)
  with inv outcome show ?thesis
    by (auto simp: evidence_inv_def rows appended_def)
qed

interpretation evidence_store: invariant_ops "ingest_step isoformat" "evidence_inv isoformat"
  by unfold_locales (auto simp: ingest_step_def intro: ingest_inv)

section \<open>Properties\<close>

text \<open>
  C13. The store is a write-once ledger: whatever requests are ingested, in whatever order and
  whether they succeed or fail, identities and evidence identifiers stay unique, every record stays
  the exact row of a request within the size limit with its digest, and no record is ever changed,
  moved or removed.
\<close>

theorem evidence_write_once:
  assumes "evidence_inv isoformat st"
  shows "evidence_inv isoformat (run_ops (ingest_step isoformat) requests st)
    \<and> prefix (ev_records st) (ev_records (run_ops (ingest_step isoformat) requests st))"
  using evidence_store.run_inv [OF assms] evidence_log.run_prefix by blast

text \<open>
  C14. Ingestion is idempotent: once a request has been ingested, ingesting it again at any later time
  reports duplicate_existing with the same evidence identifier and leaves the store as it is.
\<close>

theorem ingest_idempotent:
  assumes "ingest_validated_evidence isoformat st request now = Inr (receipt, st')"
  shows "ingest_validated_evidence isoformat st' request later =
    Inr (\<lparr>rc_status = duplicate_existing, rc_evidence_id = rc_evidence_id receipt,
      rc_source_key = er_source_key request, rc_receipt_timestamp = later\<rparr>, st')"
proof -
  from assms obtain source where adm: "admitted isoformat st request source"
    and id: "rc_evidence_id receipt = deterministic_evidence_id (es_id source) request"
    and outcome: "appended isoformat st request now (es_id source) st'
      \<or> already_stored isoformat st request (es_id source) \<and> st' = st"
    unfolding ingest_iff by (auto simp: receipt_of_def)
  have "admitted isoformat st' request source"
    using adm ingest_sources [OF assms] by (simp add: admitted_def find_source_def)
  moreover have "already_stored isoformat st' request (es_id source)"
    using outcome
  proof
    assume app: "appended isoformat st request now (es_id source) st'"
    then have "find (\<lambda>r. record_identity r = request_identity (es_id source) request) (ev_records st) = None"
      by (force simp: appended_def find_eq_None_iff)
    with app have "identity_query st' (es_id source) request
        = Some (evidence_row isoformat (es_id source) request now)"
      by (auto simp: identity_query_def appended_def find_append_None)
    then show ?thesis by (simp add: already_stored_def)
  qed simp
  ultimately show ?thesis
    using id unfolding ingest_iff by (auto simp: receipt_of_def)
qed

text \<open>
  C15. Content is immutable: in a consistent store, a request whose identity is already taken is
  answered by comparing digests. The same content is a duplicate, different content is rejected as an
  identity conflict, and the unresolved-conflict branch of the code cannot be reached.
\<close>

theorem taken_identity_outcome:
  assumes "evidence_inv isoformat st" and "admitted isoformat st request source"
    and "existing \<in> set (ev_records st)"
    and "record_identity existing = request_identity (es_id source) request"
  shows "ingest_validated_evidence isoformat st request now =
    (if rec_integrity_sha256 existing
        = integrity_sha256 (canonical_evidence_bytes isoformat (es_id source) request)
     then Inr (receipt_of duplicate_existing (es_id source) request now, st)
     else Inl EvidenceIdentityConflict)"
proof -
  have row: "stored_row isoformat st existing" and distinct: "distinct (map record_identity (ev_records st))"
    using assms(1,3) by (auto simp: evidence_inv_def)
  obtain r where q: "identity_query st (es_id source) request = Some r"
    using assms(3,4) identity_query_None [of st "es_id source" request] by (metis image_eqI not_Some_eq)
  then have "r = existing"
    using identity_query_SomeD [OF q] assms(3,4) distinct by (auto simp: distinct_map inj_on_def)
  moreover have "rec_evidence_id existing = deterministic_evidence_id (es_id source) request"
    using row assms(4)
    by (auto simp: stored_row_def record_identity_def request_identity_def deterministic_evidence_id_def
        evidence_row_def Let_def)
  moreover have "request_identity (es_id source) request \<in> record_identity ` set (ev_records st)"
    using assms(3,4) by (metis image_eqI)
  ultimately show ?thesis
    using assms(2) q
    by (auto simp: ingest_validated_evidence_def admitted_def insert_evidence_def receipt_of_def Let_def not_less)
qed

text \<open>
  What pydantic documents: a model dumps to the dictionary of its own fields, and validating the dump
  of an instance of the class gives the instance back.
\<close>

definition model_dump :: "EvidenceRequest \<Rightarrow> EvidenceEnvelope" where
  "model_dump request = \<lparr>
     en_source_key = er_source_key request,
     en_source_event_id = er_source_event_id request,
     en_evidence_type = er_evidence_type request,
     en_observed_at = er_observed_at request,
     en_sequence_number = Some (er_sequence_number request),
     en_payload_schema = er_payload_schema request,
     en_payload_schema_version = er_payload_schema_version request,
     en_payload = er_payload request,
     en_provenance = er_provenance request\<rparr>"

definition round_trips :: "envelope_validator \<Rightarrow> EvidenceRequest \<Rightarrow> bool" where
  "round_trips validate request =
     (\<forall>cls. envelope_class (er_evidence_type request) (er_payload_schema_version request) = Some cls \<longrightarrow>
        validate cls (model_dump request) = Some request)"

text \<open>
  The envelope assembled from a stored row, under the source it was ingested for, is the dump of
  the request the row was made from.
\<close>

lemma record_envelope_of_row:
  "es_source_key source = er_source_key request \<Longrightarrow>
   record_envelope source (evidence_row isoformat sid request now) = model_dump request"
  by (simp add: record_envelope_def model_dump_def evidence_row_def Let_def)


text \<open>
  Evidence identifiers are names of identities: two identities whose fields keep to the
  patterns of the envelopes, so contain no separator, get the same hashed name only when they are
  the same identity. Nothing but a collision of the hash can give two identities one identifier.
\<close>

theorem stable_identity_injective:
  assumes "\<forall>w \<in> {sid, event, type, version, sid', event', type', version'}. CHR ''|'' \<notin> set w"
    and "stable_identity sid event type version = stable_identity sid' event' type' version'"
  shows "(sid, event, type, version) = (sid', event', type', version')"
  using join_with_inj [OF assms(2) [unfolded stable_identity_def]] assms(1) by auto

section \<open>Paging through the store\<close>

definition evidence_rows :: "EvidenceStore \<times> EvidenceQuery \<Rightarrow> EvidenceRecord list" where
  "evidence_rows sq =
     (case scope_rows (fst sq) (snd sq) of
        Inl _ \<Rightarrow> [] | Inr rows \<Rightarrow> filter (row_selected (fst sq) (snd sq)) rows)"

definition evidence_page ::
  "EvidenceStore \<times> EvidenceQuery \<Rightarrow> nat \<Rightarrow> (timestamp \<times> uuid) option \<Rightarrow>
   EvidenceRecord list \<times> (timestamp \<times> uuid) option" where
  "evidence_page sq limit cursor =
     (case list_evidence (fst sq) ((snd sq)\<lparr>eq_limit := limit, eq_cursor := cursor, eq_offset := 0\<rparr>) of
        Inl _ \<Rightarrow> ([], None) | Inr p \<Rightarrow> p)"

lemma after_cursor_order: "after_cursor cursor r = after evidence_order cursor r"
  by (auto simp: after_cursor_def after_def evidence_order_def less_prod_def split: option.splits)

lemma list_evidence_page_of:
  "list_evidence st q = rbind (scope_rows st q) (\<lambda>rows.
     Inr (page_of evidence_order (eq_limit q) (drop (if eq_cursor q = None then eq_offset q else 0)
       (sort_key evidence_order (filter (after_cursor (eq_cursor q)) (filter (row_selected st q) rows))))))"
  unfolding list_evidence_def page_of_def Let_def ..

lemma list_evidence_page:
  "evidence_page sq limit cursor =
     page_of evidence_order limit (filter (after evidence_order cursor) (sort_key evidence_order (evidence_rows sq)))"
proof -
  obtain st q where sq: "sq = (st, q)" by (cases sq)
  let ?q = "q\<lparr>eq_limit := limit, eq_cursor := cursor, eq_offset := 0\<rparr>"
  have same: "scope_rows st ?q = scope_rows st q" "row_selected st ?q = row_selected st q"
    by (simp_all add: scope_rows_def row_selected_def fun_eq_iff)
  have order: "after_cursor cursor = after evidence_order cursor"
    by (simp add: fun_eq_iff after_cursor_order)
  show ?thesis
  proof (cases "scope_rows st q")
    case (Inl e)
    then show ?thesis
      by (simp add: sq evidence_page_def evidence_rows_def list_evidence_page_of same page_of_short)
  next
    case (Inr rows)
    then show ?thesis
      by (simp add: sq evidence_page_def evidence_rows_def list_evidence_page_of same order filter_sort
          del: filter_filter)
  qed
qed

lemma scope_rows_distinct:
  assumes "distinct (map rec_evidence_id (ev_records st))" and "scope_rows st q = Inr rows"
  shows "distinct (map rec_evidence_id rows)"
  using assms by (auto simp: scope_rows_def run_rows_def distinct_map_filter split: if_splits option.splits)

interpretation evidence_pages: keyset_listing evidence_order "\<lambda>sq. evidence_inv isoformat (fst sq)"
  evidence_rows evidence_page
proof
  fix sq :: "EvidenceStore \<times> EvidenceQuery"
  assume "evidence_inv isoformat (fst sq)"
  then have ids: "distinct (map rec_evidence_id (ev_records (fst sq)))" by (simp add: evidence_inv_def)
  have "distinct (map rec_evidence_id (evidence_rows sq))"
    using scope_rows_distinct [OF ids]
    by (auto simp: evidence_rows_def distinct_map_filter split: sum.splits)
  then show "distinct (map evidence_order (evidence_rows sq))"
    by (auto simp: distinct_map inj_on_def evidence_order_def)
qed (rule list_evidence_page)

text \<open>
  C18. Following the cursors of a listing returns every selected record exactly once, ordered by
  observation time and identifier, whatever the page size, in at most one request more than there
  are records.
\<close>

theorem evidence_paging_complete:
  assumes "evidence_inv isoformat st" and "0 < limit"
  shows "walk (evidence_page (st, q) limit) (Suc (length (evidence_rows (st, q)))) None
    = Some (sort_key evidence_order (evidence_rows (st, q)))"
  using evidence_pages.walk_complete [of isoformat "(st, q)" limit] assms by simp

section \<open>A telemetry request\<close>

definition plain_iso :: "timestamp \<Rightarrow> string" where
  "plain_iso t = str_int t"

definition simulator_source :: EvidenceSource where
  "simulator_source = \<lparr>es_id = ''143c438b-ca4d-5094-ae31-7794ca91d8f9'',
     es_source_key = ''simulator-primary'', es_source_type = ''simulator_telemetry'',
     es_schema_version = ''2.0.0'', es_enabled = True\<rparr>"

definition initial_store :: EvidenceStore where
  "initial_store = \<lparr>ev_sources = [simulator_source], ev_records = [], ev_active_run = None,
     ev_lab_runs = [], ev_lab_run_evidence = []\<rparr>"

definition telemetry_request :: EvidenceRequest where
  "telemetry_request = \<lparr>er_source_key = ''simulator-primary'', er_source_event_id = ''sim-1:0'',
     er_evidence_type = ''simulator_telemetry'', er_observed_at = 0, er_sequence_number = 0,
     er_payload_schema = ''otsoc.simulator.telemetry'', er_payload_schema_version = ''2.0.0'',
     er_payload = JObj [], er_provenance = JObj []\<rparr>"

definition other_request :: EvidenceRequest where
  "other_request = telemetry_request\<lparr>er_source_event_id := ''sim-1:1'', er_observed_at := 5\<rparr>"

definition stored_once :: EvidenceStore where
  "stored_once = initial_store\<lparr>ev_records :=
     [evidence_row plain_iso ''143c438b-ca4d-5094-ae31-7794ca91d8f9'' telemetry_request 7]\<rparr>"

lemma initial_store_inv: "evidence_inv plain_iso initial_store"
  by (simp add: evidence_inv_def initial_store_def)

lemma telemetry_admitted:
  assumes "ev_sources st = [simulator_source]"
  shows "admitted plain_iso st telemetry_request simulator_source"
proof -
  have "length (canonical_evidence_bytes plain_iso (es_id simulator_source) telemetry_request)
      \<le> maximum_bytes telemetry_request" by code_simp
  with assms show ?thesis
    by (simp add: admitted_def find_source_def simulator_source_def telemetry_request_def)
qed

lemma telemetry_ingested:
  "ingest_validated_evidence plain_iso initial_store telemetry_request 7 =
     Inr (receipt_of accepted (es_id simulator_source) telemetry_request 7, stored_once)"
  unfolding ingest_iff using telemetry_admitted [of initial_store]
  by (auto simp: appended_def stored_once_def initial_store_def simulator_source_def)

lemma stored_once_inv: "evidence_inv plain_iso stored_once"
  by (rule ingest_inv [OF initial_store_inv telemetry_ingested])

theorem evidence_write_once_witness:
  "evidence_inv plain_iso (run_ops (ingest_step plain_iso) [(telemetry_request, 7), (other_request, 9)] initial_store)
   \<and> prefix (ev_records stored_once)
       (ev_records (run_ops (ingest_step plain_iso) [(other_request, 9)] stored_once))"
  using evidence_write_once [OF initial_store_inv] evidence_write_once [OF stored_once_inv] by blast

theorem ingest_idempotent_witness:
  "ingest_validated_evidence plain_iso stored_once telemetry_request 99 =
     Inr (receipt_of duplicate_existing (es_id simulator_source) telemetry_request 99, stored_once)"
  using ingest_idempotent [OF telemetry_ingested, of 99] by (simp add: receipt_of_def)

theorem taken_identity_outcome_witness:
  "ingest_validated_evidence plain_iso stored_once telemetry_request 8 =
     Inr (receipt_of duplicate_existing (es_id simulator_source) telemetry_request 8, stored_once)"
proof -
  have adm: "admitted plain_iso stored_once telemetry_request simulator_source"
    by (rule telemetry_admitted) (simp add: stored_once_def initial_store_def)
  let ?row = "evidence_row plain_iso ''143c438b-ca4d-5094-ae31-7794ca91d8f9'' telemetry_request 7"
  have mem: "?row \<in> set (ev_records stored_once)" by (simp add: stored_once_def)
  have sid: "es_id simulator_source = ''143c438b-ca4d-5094-ae31-7794ca91d8f9''"
    by (simp add: simulator_source_def)
  then have "record_identity ?row = request_identity (es_id simulator_source) telemetry_request" by simp
  from taken_identity_outcome [OF stored_once_inv adm mem this, of 8] sid show ?thesis by simp
qed

text \<open>A validator that only insists on a sequence number: enough to instantiate the round trip.\<close>

definition plain_validate :: envelope_validator where
  "plain_validate cls e = map_option (\<lambda>n. \<lparr>er_source_key = en_source_key e,
     er_source_event_id = en_source_event_id e, er_evidence_type = en_evidence_type e,
     er_observed_at = en_observed_at e, er_sequence_number = n,
     er_payload_schema = en_payload_schema e, er_payload_schema_version = en_payload_schema_version e,
     er_payload = en_payload e, er_provenance = en_provenance e\<rparr>) (en_sequence_number e)"


theorem stable_identity_injective_witness:
  "stable_identity ''s'' ''sim-1:0'' ''simulator_telemetry'' ''2.0.0''
     \<noteq> stable_identity ''s'' ''sim-1:1'' ''simulator_telemetry'' ''2.0.0''"
  using stable_identity_injective [of "''s''" "''sim-1:0''" "''simulator_telemetry''" "''2.0.0''"
      "''s''" "''sim-1:1''" "''simulator_telemetry''" "''2.0.0''"] by auto

definition all_history :: EvidenceQuery where
  "all_history = \<lparr>eq_limit = 50, eq_offset = 0, eq_cursor = None, eq_evidence_type = None,
     eq_source_key = None, eq_observed_from = None, eq_observed_to = None,
     eq_scope = ''ALL_HISTORY'', eq_run_id = None\<rparr>"

theorem evidence_paging_complete_witness:
  "walk (evidence_page (stored_once, all_history) 1) 2 None = Some (ev_records stored_once)"
proof -
  have rows: "evidence_rows (stored_once, all_history) = ev_records stored_once"
    by (simp add: evidence_rows_def scope_rows_def row_selected_def all_history_def stored_once_def
        initial_store_def record_source_def simulator_source_def)
  have "length (ev_records stored_once) = 1" by (simp add: stored_once_def)
  with evidence_paging_complete [OF stored_once_inv, of 1 all_history] show ?thesis
    unfolding rows by (simp add: numeral_2_eq_2 stored_once_def)
qed

end
