(* ===== verification/Incident_Model.thy ===== *)
theory Incident_Model
  imports Py_Hash Ledger
begin

text \<open>
  The incident aggregate: enumerations, candidates and tables of \<open>app/incidents/models.py\<close>, and the
  two operations every mutation of an incident goes through, \<open>append_timeline_entry\<close>
  (\<open>timeline.py\<close>) and \<open>append_audit_event\<close> (\<open>audit.py\<close>). The database is a record of tables in
  insertion order. Adding a row whose primary key exists raises the IntegrityError of the
  database; a mutation that raises is rolled back, so it returns no new database. The
  enumerated string columns, which check constraints confine to the values of their StrEnum, have
  the enum's type.
\<close>

section \<open>Enumerations\<close>

datatype IncidentCategory =
    ASSET_IDENTITY_ANOMALY | COMMUNICATION_POLICY_VIOLATION | CONTROL_COMMAND_INVESTIGATION
  | PROCESS_INCONSISTENCY

datatype IncidentSeverity = LOW | MEDIUM | HIGH

datatype IncidentStatus = OPEN | INVESTIGATING | RESOLVED

datatype IncidentDisposition = UNREVIEWED | TRUE_POSITIVE | FALSE_POSITIVE

datatype EvidenceRole = PRIMARY | SUPPORTING | CONTRADICTING | CONTEXT

datatype TimelineEntryType =
    INCIDENT_CREATED | EVIDENCE_ADDED | STATUS_CHANGED | SEVERITY_CHANGED | ANALYST_NOTE_ADDED

datatype AuditAction =
    INCIDENT_CREATED | INCIDENT_REUSED | EVIDENCE_ENRICHED | STATUS_TRANSITIONED
  | SEVERITY_ESCALATED | ANALYST_NOTE_ADDED | AUTHORIZATION_DENIED | ASSIGNMENT_CHANGED
  | DISPOSITION_CHANGED | REPORT_SAVED

fun IncidentCategory_value :: "IncidentCategory \<Rightarrow> string" where
  "IncidentCategory_value ASSET_IDENTITY_ANOMALY = ''ASSET_IDENTITY_ANOMALY''"
| "IncidentCategory_value COMMUNICATION_POLICY_VIOLATION = ''COMMUNICATION_POLICY_VIOLATION''"
| "IncidentCategory_value CONTROL_COMMAND_INVESTIGATION = ''CONTROL_COMMAND_INVESTIGATION''"
| "IncidentCategory_value PROCESS_INCONSISTENCY = ''PROCESS_INCONSISTENCY''"

fun IncidentSeverity_value :: "IncidentSeverity \<Rightarrow> string" where
  "IncidentSeverity_value LOW = ''LOW''"
| "IncidentSeverity_value MEDIUM = ''MEDIUM''"
| "IncidentSeverity_value HIGH = ''HIGH''"

fun IncidentStatus_value :: "IncidentStatus \<Rightarrow> string" where
  "IncidentStatus_value OPEN = ''OPEN''"
| "IncidentStatus_value INVESTIGATING = ''INVESTIGATING''"
| "IncidentStatus_value RESOLVED = ''RESOLVED''"

fun IncidentDisposition_value :: "IncidentDisposition \<Rightarrow> string" where
  "IncidentDisposition_value UNREVIEWED = ''UNREVIEWED''"
| "IncidentDisposition_value TRUE_POSITIVE = ''TRUE_POSITIVE''"
| "IncidentDisposition_value FALSE_POSITIVE = ''FALSE_POSITIVE''"

fun EvidenceRole_value :: "EvidenceRole \<Rightarrow> string" where
  "EvidenceRole_value PRIMARY = ''PRIMARY''"
| "EvidenceRole_value SUPPORTING = ''SUPPORTING''"
| "EvidenceRole_value CONTRADICTING = ''CONTRADICTING''"
| "EvidenceRole_value CONTEXT = ''CONTEXT''"

fun TimelineEntryType_value :: "TimelineEntryType \<Rightarrow> string" where
  "TimelineEntryType_value TimelineEntryType.INCIDENT_CREATED = ''INCIDENT_CREATED''"
| "TimelineEntryType_value EVIDENCE_ADDED = ''EVIDENCE_ADDED''"
| "TimelineEntryType_value STATUS_CHANGED = ''STATUS_CHANGED''"
| "TimelineEntryType_value SEVERITY_CHANGED = ''SEVERITY_CHANGED''"
| "TimelineEntryType_value TimelineEntryType.ANALYST_NOTE_ADDED = ''ANALYST_NOTE_ADDED''"

fun AuditAction_value :: "AuditAction \<Rightarrow> string" where
  "AuditAction_value AuditAction.INCIDENT_CREATED = ''INCIDENT_CREATED''"
| "AuditAction_value INCIDENT_REUSED = ''INCIDENT_REUSED''"
| "AuditAction_value EVIDENCE_ENRICHED = ''EVIDENCE_ENRICHED''"
| "AuditAction_value STATUS_TRANSITIONED = ''STATUS_TRANSITIONED''"
| "AuditAction_value SEVERITY_ESCALATED = ''SEVERITY_ESCALATED''"
| "AuditAction_value AuditAction.ANALYST_NOTE_ADDED = ''ANALYST_NOTE_ADDED''"
| "AuditAction_value AUTHORIZATION_DENIED = ''AUTHORIZATION_DENIED''"
| "AuditAction_value ASSIGNMENT_CHANGED = ''ASSIGNMENT_CHANGED''"
| "AuditAction_value DISPOSITION_CHANGED = ''DISPOSITION_CHANGED''"
| "AuditAction_value REPORT_SAVED = ''REPORT_SAVED''"

section \<open>Tables\<close>

text \<open>A value of an audit event's details: a string, None or an integer.\<close>

datatype detail = DStr string | DNone | DInt int

record Incident =
  in_incident_id :: uuid
  in_incident_schema :: string
  in_incident_schema_version :: string
  in_incident_profile_id :: string
  in_incident_profile_version :: string
  in_incident_profile_sha256 :: string
  in_qualification_rule_id :: string
  in_qualification_rule_version :: string
  in_grouping_key_sha256 :: string
  in_category :: IncidentCategory
  in_title :: string
  in_summary :: string
  in_status :: IncidentStatus
  in_severity :: IncidentSeverity
  in_assignee_user_id :: "uuid option"
  in_assigned_at :: "timestamp option"
  in_disposition :: IncidentDisposition
  in_disposition_reason :: "string option"
  in_disposition_set_by_user_id :: "uuid option"
  in_disposition_set_at :: "timestamp option"
  in_primary_evidence_id :: uuid
  in_primary_evidence_type :: string
  in_primary_evidence_schema :: string
  in_primary_evidence_schema_version :: string
  in_primary_evidence_integrity_sha256 :: string
  in_identity_asset_scope :: "string list"
  in_source_asset_id :: "uuid option"
  in_destination_asset_id :: "uuid option"
  in_controller_asset_id :: "uuid option"
  in_process_asset_ids :: "uuid list"
  in_process_asset_keys :: "string list"
  in_target_point_ids :: "string list"
  in_correlation_rule_id :: "string option"
  in_correlation_rule_version :: "string option"
  in_run_scope :: string
  in_configuration_scope :: string
  in_bound_simulation_id :: "string option"
  in_bound_configuration_hash :: "string option"
  in_s3_semantic_evidence_id :: "uuid option"
  in_grouping_epoch_start :: timestamp
  in_first_observed_at :: timestamp
  in_last_observed_at :: timestamp
  in_policy_context :: string
  in_correlation_context :: string
  in_evidence_completeness :: string
  in_version :: int
  in_evidence_count :: int
  in_ground_truth_used :: bool
  in_malicious_intent_inferred :: bool
  in_causality_inferred :: bool
  in_created_at :: timestamp
  in_updated_at :: timestamp

record IncidentEvidenceMembership =
  ms_membership_id :: uuid
  ms_incident_id :: uuid
  ms_evidence_id :: uuid
  ms_evidence_type :: string
  ms_evidence_schema :: string
  ms_evidence_schema_version :: string
  ms_integrity_sha256 :: string
  ms_role :: EvidenceRole
  ms_observed_at :: timestamp
  ms_received_at :: timestamp
  ms_added_at :: timestamp

record IncidentTimelineEntry =
  tl_timeline_entry_id :: uuid
  tl_incident_id :: uuid
  tl_timeline_schema :: string
  tl_timeline_schema_version :: string
  tl_producer :: string
  tl_producer_version :: string
  tl_observed_at :: timestamp
  tl_recorded_at :: timestamp
  tl_entry_type :: TimelineEntryType
  tl_reference_id :: uuid
  tl_evidence_id :: "uuid option"
  tl_evidence_type :: "string option"
  tl_evidence_schema :: "string option"
  tl_evidence_schema_version :: "string option"
  tl_evidence_integrity_sha256 :: "string option"
  tl_received_at :: "timestamp option"
  tl_asset_ids :: "uuid list"
  tl_process_asset_ids :: "uuid list"
  tl_summary :: string
  tl_actor_context :: string
  tl_aggregate_version :: int

record IncidentStatusHistory =
  sh_status_history_id :: uuid
  sh_incident_id :: uuid
  sh_previous_status :: "IncidentStatus option"
  sh_new_status :: IncidentStatus
  sh_changed_at :: timestamp
  sh_actor_context :: string
  sh_actor_user_id :: "uuid option"
  sh_reason :: "string option"
  sh_request_id :: string
  sh_version_before :: int
  sh_version_after :: int

record IncidentSeverityHistory =
  vh_severity_history_id :: uuid
  vh_incident_id :: uuid
  vh_previous_severity :: "IncidentSeverity option"
  vh_new_severity :: IncidentSeverity
  vh_triggering_evidence_id :: uuid
  vh_triggering_integrity_sha256 :: string
  vh_profile_version :: string
  vh_rule_version :: string
  vh_calculated_at :: timestamp
  vh_aggregate_version :: int

record IncidentNote =
  nt_note_id :: uuid
  nt_incident_id :: uuid
  nt_content :: string
  nt_actor_context :: string
  nt_actor_user_id :: "uuid option"
  nt_request_id :: string
  nt_created_at :: timestamp
  nt_aggregate_version :: int

record IncidentAuditEvent =
  ae_audit_event_id :: uuid
  ae_incident_id :: uuid
  ae_action :: AuditAction
  ae_occurred_at :: timestamp
  ae_actor_context :: string
  ae_actor_user_id :: "uuid option"
  ae_request_id :: string
  ae_result :: string
  ae_safe_reason :: "string option"
  ae_version_before :: int
  ae_version_after :: int
  ae_details :: "(string \<times> detail) list"

record IncidentReport =
  rp_incident_id :: uuid
  rp_investigation_summary :: string
  rp_analyst_assessment :: string
  rp_evidence_assessment :: string
  rp_process_impact_assessment :: string
  rp_disposition_rationale :: string
  rp_recommended_follow_up :: string
  rp_final_conclusion :: string
  rp_version :: int
  rp_created_by_user_id :: uuid
  rp_created_at :: timestamp
  rp_updated_by_user_id :: uuid
  rp_updated_at :: timestamp

record IncidentReportRevision =
  rv_revision_id :: uuid
  rv_incident_id :: uuid
  rv_investigation_summary :: string
  rv_analyst_assessment :: string
  rv_evidence_assessment :: string
  rv_process_impact_assessment :: string
  rv_disposition_rationale :: string
  rv_recommended_follow_up :: string
  rv_final_conclusion :: string
  rv_version :: int
  rv_saved_by_user_id :: uuid
  rv_saved_at :: timestamp

text \<open>The columns of a local user (\<open>app/auth/models.py\<close>) that incident workflows read.\<close>

record LocalUser =
  lu_user_id :: uuid
  lu_display_name :: string
  lu_role :: string
  lu_active :: bool

record IncidentDb =
  db_incidents :: "Incident list"
  db_memberships :: "IncidentEvidenceMembership list"
  db_timeline :: "IncidentTimelineEntry list"
  db_status_history :: "IncidentStatusHistory list"
  db_severity_history :: "IncidentSeverityHistory list"
  db_notes :: "IncidentNote list"
  db_audit :: "IncidentAuditEvent list"
  db_reports :: "IncidentReport list"
  db_revisions :: "IncidentReportRevision list"
  db_users :: "LocalUser list"

datatype IncidentError =
    IncidentNotFound
  | VersionConflict
  | TransitionNotAllowed
  | NoteLength
  | NoteNul
  | NoteControlCharacter
  | ReasonRequired
  | AssigneeNotAllowed
  | PlainTextLength
  | PlainTextControlCharacter
  | DispositionRequired
  | FinalConclusionRequired
  | IntegrityError
  | InvalidCandidate
  | GroupingInconsistent
  | RuleMismatch
  | BindingIncomplete
  | BoundScopeMixed
  | ProcessAssetsMismatch

text \<open>\<open>session.add\<close>: the row is appended when its primary key is free.\<close>

definition add_row :: "('r \<Rightarrow> uuid) \<Rightarrow> 'r \<Rightarrow> 'r list \<Rightarrow> IncidentError + 'r list" where
  "add_row key row rows =
     (if key row \<in> key ` set rows then Inl IntegrityError else Inr (rows @ [row]))"

lemma add_row_Inr [result_split]:
  "add_row key row rows = Inr rows' \<longleftrightarrow> key row \<notin> key ` set rows \<and> rows' = rows @ [row]"
  by (auto simp: add_row_def)

definition find_incident :: "IncidentDb \<Rightarrow> uuid \<Rightarrow> Incident option" where
  "find_incident db incident_id = find (\<lambda>i. in_incident_id i = incident_id) (db_incidents db)"

text \<open>Flushing the changed columns of a loaded incident.\<close>

definition save_incident :: "Incident \<Rightarrow> IncidentDb \<Rightarrow> IncidentDb" where
  "save_incident incident db = db\<lparr>db_incidents :=
     map (\<lambda>i. if in_incident_id i = in_incident_id incident then incident else i) (db_incidents db)\<rparr>"

section \<open>The repr of audit details\<close>

definition py_printable :: "char \<Rightarrow> bool" where
  "py_printable c = (let n = of_char c :: nat in
     32 \<le> n \<and> n \<noteq> 127 \<and> \<not> (128 \<le> n \<and> n \<le> 160) \<and> n \<noteq> 173)"

definition py_repr_char :: "char \<Rightarrow> char \<Rightarrow> string" where
  "py_repr_char q c = (let n = of_char c :: int in
     if c = q \<or> n = 92 then [CHR 0x5C, c]
     else if n = 10 then [CHR 0x5C, CHR ''n'']
     else if n = 13 then [CHR 0x5C, CHR ''r'']
     else if n = 9 then [CHR 0x5C, CHR ''t'']
     else if py_printable c then [c]
     else [CHR 0x5C, CHR ''x'', hex_digit (n div 16), hex_digit (n mod 16)])"

definition py_repr_str :: "string \<Rightarrow> string" where
  "py_repr_str s =
     (let q = (if CHR 0x27 \<in> set s \<and> CHR 0x22 \<notin> set s then CHR 0x22 else CHR 0x27) in
      q # concat (map (py_repr_char q) s) @ [q])"

fun py_repr_detail :: "detail \<Rightarrow> string" where
  "py_repr_detail (DStr s) = py_repr_str s"
| "py_repr_detail DNone = ''None''"
| "py_repr_detail (DInt i) = str_int i"

fun intersperse_comma :: "string list \<Rightarrow> string list" where
  "intersperse_comma [] = []"
| "intersperse_comma [x] = [x]"
| "intersperse_comma (x # xs) = x # '', '' # intersperse_comma xs"

definition py_repr_details :: "(string \<times> detail) list \<Rightarrow> string" where
  "py_repr_details details =
     CHR ''['' # concat (intersperse_comma (map (\<lambda>(k, v).
       CHR ''('' # py_repr_str k @ '', '' @ py_repr_detail v @ '')'') (sort_key fst details))) @ '']''"

section \<open>Audit events and timeline entries\<close>

definition AUDIT_ID_NAMESPACE :: uuid where
  "AUDIT_ID_NAMESPACE = ''69519277-aac3-59b8-a1bf-d81215fe17b8''"

record AuditRequest =
  aq_action :: AuditAction
  aq_occurred_at :: timestamp
  aq_actor_context :: string
  aq_actor_user_id :: "uuid option"
  aq_request_id :: string
  aq_safe_reason :: "string option"
  aq_version_before :: int
  aq_version_after :: int
  aq_details :: "(string \<times> detail) list"

definition audit_event :: "Incident \<Rightarrow> AuditRequest \<Rightarrow> IncidentAuditEvent" where
  "audit_event incident r =
     (let detail_digest = sha256_hex (utf8 (py_repr_details (aq_details r)));
          name = join_with CHR ''|'' [in_incident_id incident, AuditAction_value (aq_action r),
            aq_request_id r, str_int (aq_version_before r), str_int (aq_version_after r), detail_digest] in
      \<lparr>ae_audit_event_id = uuid5 AUDIT_ID_NAMESPACE name,
       ae_incident_id = in_incident_id incident,
       ae_action = aq_action r,
       ae_occurred_at = aq_occurred_at r,
       ae_actor_context = aq_actor_context r,
       ae_actor_user_id = aq_actor_user_id r,
       ae_request_id = aq_request_id r,
       ae_result = ''ACCEPTED'',
       ae_safe_reason = aq_safe_reason r,
       ae_version_before = aq_version_before r,
       ae_version_after = aq_version_after r,
       ae_details = aq_details r\<rparr>)"

definition append_audit_event :: "Incident \<Rightarrow> AuditRequest \<Rightarrow> IncidentDb \<Rightarrow> IncidentError + IncidentDb" where
  "append_audit_event incident r db =
     rbind (add_row ae_audit_event_id (audit_event incident r) (db_audit db)) (\<lambda>rows.
     Inr (db\<lparr>db_audit := rows\<rparr>))"

definition TIMELINE_ID_NAMESPACE :: uuid where
  "TIMELINE_ID_NAMESPACE = ''25563193-2d83-5cfb-a768-a8f482547086''"

record CandidateMembership =
  cm_evidence_id :: uuid
  cm_evidence_type :: string
  cm_evidence_schema :: string
  cm_evidence_schema_version :: string
  cm_integrity_sha256 :: digest
  cm_role :: EvidenceRole
  cm_observed_at :: timestamp
  cm_received_at :: timestamp

record TimelineRequest =
  tr_entry_type :: TimelineEntryType
  tr_reference_id :: uuid
  tr_observed_at :: timestamp
  tr_recorded_at :: timestamp
  tr_summary :: string
  tr_actor_context :: string
  tr_aggregate_version :: int
  tr_membership :: "CandidateMembership option"

definition timeline_entry :: "Incident \<Rightarrow> TimelineRequest \<Rightarrow> IncidentTimelineEntry" where
  "timeline_entry incident r =
     (let name = join_with CHR ''|'' [in_incident_id incident, TimelineEntryType_value (tr_entry_type r),
            tr_reference_id r, ''1.0.0''];
          assets = List.map_filter (\<lambda>a. a)
            [in_source_asset_id incident, in_destination_asset_id incident, in_controller_asset_id incident];
          m = tr_membership r in
      \<lparr>tl_timeline_entry_id = uuid5 TIMELINE_ID_NAMESPACE name,
       tl_incident_id = in_incident_id incident,
       tl_timeline_schema = ''otsoc.incident.timeline_entry'',
       tl_timeline_schema_version = ''1.0.0'',
       tl_producer = ''otsoc_offline_incident_engine'',
       tl_producer_version = ''1.0.0'',
       tl_observed_at = tr_observed_at r,
       tl_recorded_at = tr_recorded_at r,
       tl_entry_type = tr_entry_type r,
       tl_reference_id = tr_reference_id r,
       tl_evidence_id = map_option cm_evidence_id m,
       tl_evidence_type = map_option cm_evidence_type m,
       tl_evidence_schema = map_option cm_evidence_schema m,
       tl_evidence_schema_version = map_option cm_evidence_schema_version m,
       tl_evidence_integrity_sha256 = map_option cm_integrity_sha256 m,
       tl_received_at = map_option cm_received_at m,
       tl_asset_ids = sort (remdups assets),
       tl_process_asset_ids = sort (remdups (in_process_asset_ids incident)),
       tl_summary = tr_summary r,
       tl_actor_context = tr_actor_context r,
       tl_aggregate_version = tr_aggregate_version r\<rparr>)"

text \<open>
  The table of timeline entries is also unique in the incident, the entry type and the reference
  (\<open>uq_incident_timeline_reference\<close>).
\<close>

definition timeline_reference :: "IncidentTimelineEntry \<Rightarrow> uuid \<times> TimelineEntryType \<times> uuid" where
  "timeline_reference e = (tl_incident_id e, tl_entry_type e, tl_reference_id e)"

definition append_timeline_entry :: "Incident \<Rightarrow> TimelineRequest \<Rightarrow> IncidentDb \<Rightarrow> IncidentError + IncidentDb" where
  "append_timeline_entry incident r db =
     (let entry = timeline_entry incident r in
      if timeline_reference entry \<in> timeline_reference ` set (db_timeline db) then Inl IntegrityError
      else
      rbind (add_row tl_timeline_entry_id entry (db_timeline db)) (\<lambda>rows.
      Inr (db\<lparr>db_timeline := rows\<rparr>)))"

section \<open>Effects\<close>

lemma append_audit_event_Inr [result_split]:
  "append_audit_event incident r db = Inr db' \<longleftrightarrow>
     ae_audit_event_id (audit_event incident r) \<notin> ae_audit_event_id ` set (db_audit db) \<and>
     db' = db\<lparr>db_audit := db_audit db @ [audit_event incident r]\<rparr>"
  by (auto simp: append_audit_event_def result_split)

lemma append_timeline_entry_Inr [result_split]:
  "append_timeline_entry incident r db = Inr db' \<longleftrightarrow>
     timeline_reference (timeline_entry incident r) \<notin> timeline_reference ` set (db_timeline db) \<and>
     tl_timeline_entry_id (timeline_entry incident r) \<notin> tl_timeline_entry_id ` set (db_timeline db) \<and>
     db' = db\<lparr>db_timeline := db_timeline db @ [timeline_entry incident r]\<rparr>"
  by (auto simp: append_timeline_entry_def Let_def result_split)

lemma find_incident_SomeD:
  "find_incident db k = Some incident \<Longrightarrow> incident \<in> set (db_incidents db) \<and> in_incident_id incident = k"
  by (auto simp: find_incident_def dest: find_eq_Some_iff)

lemma find_map_saved:
  "find (\<lambda>i. in_incident_id i = k) (map (\<lambda>i. if in_incident_id i = in_incident_id x then x else i) xs) =
   (if k = in_incident_id x \<and> find (\<lambda>i. in_incident_id i = k) xs \<noteq> None then Some x
    else find (\<lambda>i. in_incident_id i = k) xs)"
  by (induction xs) auto

lemma find_incident_save:
  "find_incident (save_incident x db) k =
   (if k = in_incident_id x \<and> find_incident db k \<noteq> None then Some x else find_incident db k)"
  by (auto simp: find_incident_def save_incident_def find_map_saved)

lemma audit_event_sel [simp]:
  "ae_incident_id (audit_event incident r) = in_incident_id incident"
  "ae_action (audit_event incident r) = aq_action r"
  "ae_actor_user_id (audit_event incident r) = aq_actor_user_id r"
  "ae_request_id (audit_event incident r) = aq_request_id r"
  "ae_version_before (audit_event incident r) = aq_version_before r"
  "ae_version_after (audit_event incident r) = aq_version_after r"
  "ae_details (audit_event incident r) = aq_details r"
  by (simp_all add: audit_event_def Let_def)

lemma timeline_entry_sel [simp]:
  "tl_incident_id (timeline_entry incident r) = in_incident_id incident"
  "tl_entry_type (timeline_entry incident r) = tr_entry_type r"
  "tl_reference_id (timeline_entry incident r) = tr_reference_id r"
  "tl_aggregate_version (timeline_entry incident r) = tr_aggregate_version r"
  by (simp_all add: timeline_entry_def Let_def)

lemma save_incident_sel [simp]:
  "db_memberships (save_incident x db) = db_memberships db"
  "db_timeline (save_incident x db) = db_timeline db"
  "db_status_history (save_incident x db) = db_status_history db"
  "db_severity_history (save_incident x db) = db_severity_history db"
  "db_notes (save_incident x db) = db_notes db"
  "db_audit (save_incident x db) = db_audit db"
  "db_reports (save_incident x db) = db_reports db"
  "db_revisions (save_incident x db) = db_revisions db"
  "db_users (save_incident x db) = db_users db"
  by (simp_all add: save_incident_def)

end
