(* ===== verification/Incident_Workflow.thy ===== *)
theory Incident_Workflow
  imports Incident_Model
begin

text \<open>
  The analyst's operations on an incident: status transitions (\<open>app/incidents/lifecycle.py\<close>), notes
  (\<open>notes.py\<close>), assignment, disposition and the report (\<open>workflow.py\<close>). Each takes the version the
  caller last saw and is the whole body of its function: the checks in their order, the changed
  columns, and every row added. The time of the operation is an argument.
\<close>

section \<open>Text\<close>

text \<open>Unicode category Cc, of the characters below 256.\<close>

definition control_char :: "char \<Rightarrow> bool" where
  "control_char c = (let n = of_char c :: nat in n < 32 \<or> 127 \<le> n \<and> n < 160)"

definition unsafe_control :: "string \<Rightarrow> bool" where
  "unsafe_control s = (\<exists>c \<in> set s. control_char c \<and> c \<notin> {CHR 0x0A, CHR 0x09})"

definition validate_note_text :: "string \<Rightarrow> nat \<Rightarrow> IncidentError + string" where
  "validate_note_text content maximum =
     (if \<not> (1 \<le> length content \<and> length content \<le> maximum) then Inl NoteLength
      else if CHR 0x00 \<in> set content then Inl NoteNul
      else if unsafe_control content then Inl NoteControlCharacter
      else Inr content)"

definition bounded_plain_text :: "string \<Rightarrow> nat \<Rightarrow> bool \<Rightarrow> IncidentError + string" where
  "bounded_plain_text v maximum allow_empty =
     (if length v > maximum \<or> \<not> allow_empty \<and> py_strip v = [] then Inl PlainTextLength
      else if CHR 0x00 \<in> set v \<or> unsafe_control v then Inl PlainTextControlCharacter
      else Inr v)"

section \<open>Locking\<close>

definition locked_incident :: "IncidentDb \<Rightarrow> uuid \<Rightarrow> int \<Rightarrow> IncidentError + Incident" where
  "locked_incident db incident_id expected_version =
     (case find_incident db incident_id of
        None \<Rightarrow> Inl IncidentNotFound
      | Some incident \<Rightarrow>
          if in_version incident \<noteq> expected_version then Inl VersionConflict else Inr incident)"

section \<open>Status transitions\<close>

definition ALLOWED_TRANSITIONS :: "(IncidentStatus \<times> IncidentStatus) list" where
  "ALLOWED_TRANSITIONS = [(OPEN, INVESTIGATING), (OPEN, RESOLVED), (INVESTIGATING, RESOLVED),
     (RESOLVED, INVESTIGATING)]"

definition STATUS_HISTORY_ID_NAMESPACE :: uuid where
  "STATUS_HISTORY_ID_NAMESPACE = ''18131f2f-b42b-5c82-af12-ffb09581380e''"

record Actor =
  ac_context :: string
  ac_user_id :: "uuid option"
  ac_request_id :: string

definition status_history_row ::
  "Incident \<Rightarrow> IncidentStatus \<Rightarrow> Actor \<Rightarrow> string option \<Rightarrow> timestamp \<Rightarrow> IncidentStatusHistory" where
  "status_history_row incident new_status actor reason now =
     (let previous = in_status incident; before = in_version incident;
          name = join_with CHR ''|'' [in_incident_id incident, IncidentStatus_value previous,
            IncidentStatus_value new_status, ac_context actor, str_int before] in
      \<lparr>sh_status_history_id = uuid5 STATUS_HISTORY_ID_NAMESPACE name,
       sh_incident_id = in_incident_id incident,
       sh_previous_status = Some previous, sh_new_status = new_status,
       sh_changed_at = now, sh_actor_context = ac_context actor, sh_actor_user_id = ac_user_id actor,
       sh_reason = reason, sh_request_id = ac_request_id actor,
       sh_version_before = before, sh_version_after = before + 1\<rparr>)"

definition clean_reason_of :: "string option \<Rightarrow> IncidentError + string option" where
  "clean_reason_of reason =
     (case reason of
        None \<Rightarrow> Inr None
      | Some r \<Rightarrow> rbind (validate_note_text r 500) (\<lambda>clean. Inr (Some clean)))"

definition opt_detail :: "string option \<Rightarrow> detail" where
  "opt_detail v = (case v of None \<Rightarrow> DNone | Some s \<Rightarrow> DStr s)"

definition transition_incident_status ::
  "IncidentDb \<Rightarrow> uuid \<Rightarrow> IncidentStatus \<Rightarrow> int \<Rightarrow> Actor \<Rightarrow> string option \<Rightarrow> timestamp \<Rightarrow>
   IncidentError + (Incident \<times> IncidentDb)" where
  "transition_incident_status db incident_id new_status expected_version actor reason now =
     rbind (locked_incident db incident_id expected_version) (\<lambda>incident.
     (let previous = in_status incident in
      if (previous, new_status) \<notin> set ALLOWED_TRANSITIONS then Inl TransitionNotAllowed
      else
      (let requires_reason = (new_status = RESOLVED \<or> previous = RESOLVED) in
       rbind (clean_reason_of reason) (\<lambda>clean_reason.
       if requires_reason \<and> clean_reason = None then Inl ReasonRequired
       else
       (let before = in_version incident; after = before + 1;
            history = status_history_row incident new_status actor clean_reason now;
            changed = incident\<lparr>in_status := new_status, in_version := after, in_updated_at := now\<rparr> in
        rbind (add_row sh_status_history_id history (db_status_history db)) (\<lambda>rows.
        rbind (append_timeline_entry changed
            \<lparr>tr_entry_type = STATUS_CHANGED, tr_reference_id = sh_status_history_id history,
             tr_observed_at = now, tr_recorded_at = now,
             tr_summary = ''Incident status changed from '' @ IncidentStatus_value previous @ '' to '' @
               IncidentStatus_value new_status @ ''.'',
             tr_actor_context = ac_context actor, tr_aggregate_version = after, tr_membership = None\<rparr>
            (save_incident changed (db\<lparr>db_status_history := rows\<rparr>))) (\<lambda>db1.
        rbind (append_audit_event changed
            \<lparr>aq_action = STATUS_TRANSITIONED, aq_occurred_at = now,
             aq_actor_context = ac_context actor, aq_actor_user_id = ac_user_id actor,
             aq_request_id = ac_request_id actor,
             aq_safe_reason = Some ''Authenticated incident lifecycle reason recorded.'',
             aq_version_before = before, aq_version_after = after,
             aq_details = [(''previous'', DStr (IncidentStatus_value previous)),
               (''new'', DStr (IncidentStatus_value new_status)), (''reason'', opt_detail clean_reason)]\<rparr>
            db1) (\<lambda>db2.
        Inr (changed, db2)))))))))"

section \<open>Notes\<close>

definition NOTE_ID_NAMESPACE :: uuid where
  "NOTE_ID_NAMESPACE = ''a33ea2e2-d9fd-5d87-8b1f-d07334e1a5c6''"

definition note_row :: "Incident \<Rightarrow> string \<Rightarrow> Actor \<Rightarrow> timestamp \<Rightarrow> IncidentNote" where
  "note_row incident clean actor now =
     (let before = in_version incident;
          content_digest = sha256_hex (utf8 clean);
          name = join_with CHR ''|'' [in_incident_id incident, ac_context actor, content_digest, str_int before] in
      \<lparr>nt_note_id = uuid5 NOTE_ID_NAMESPACE name, nt_incident_id = in_incident_id incident,
       nt_content = clean, nt_actor_context = ac_context actor, nt_actor_user_id = ac_user_id actor,
       nt_request_id = ac_request_id actor, nt_created_at = now, nt_aggregate_version = before + 1\<rparr>)"

definition add_analyst_note ::
  "IncidentDb \<Rightarrow> uuid \<Rightarrow> string \<Rightarrow> int \<Rightarrow> Actor \<Rightarrow> timestamp \<Rightarrow> IncidentError + (Incident \<times> IncidentDb)" where
  "add_analyst_note db incident_id content expected_version actor now =
     rbind (validate_note_text content 2000) (\<lambda>clean.
     rbind (locked_incident db incident_id expected_version) (\<lambda>incident.
     (let before = in_version incident; after = before + 1;
          note = note_row incident clean actor now;
          changed = incident\<lparr>in_version := after, in_updated_at := now\<rparr> in
      rbind (add_row nt_note_id note (db_notes db)) (\<lambda>rows.
      rbind (append_timeline_entry changed
          \<lparr>tr_entry_type = TimelineEntryType.ANALYST_NOTE_ADDED, tr_reference_id = nt_note_id note,
           tr_observed_at = now, tr_recorded_at = now,
           tr_summary = ''An analyst note was added to the investigation container.'',
           tr_actor_context = ac_context actor, tr_aggregate_version = after, tr_membership = None\<rparr>
          (save_incident changed (db\<lparr>db_notes := rows\<rparr>))) (\<lambda>db1.
      rbind (append_audit_event changed
          \<lparr>aq_action = AuditAction.ANALYST_NOTE_ADDED, aq_occurred_at = now,
           aq_actor_context = ac_context actor, aq_actor_user_id = ac_user_id actor,
           aq_request_id = ac_request_id actor,
           aq_safe_reason = Some ''Bounded analyst context appended.'',
           aq_version_before = before, aq_version_after = after,
           aq_details = [(''note_id'', DStr (nt_note_id note))]\<rparr> db1) (\<lambda>db2.
      Inr (changed, db2)))))))"

section \<open>Assignment and disposition\<close>

definition ASSIGNABLE_ROLES :: "string list" where
  "ASSIGNABLE_ROLES = [''ADMIN'', ''SOC_ANALYST'']"

definition find_user :: "IncidentDb \<Rightarrow> uuid \<Rightarrow> LocalUser option" where
  "find_user db user_id = find (\<lambda>u. lu_user_id u = user_id) (db_users db)"

definition valid_assignee :: "IncidentDb \<Rightarrow> uuid option \<Rightarrow> bool" where
  "valid_assignee db assignee_user_id =
     (case assignee_user_id of
        None \<Rightarrow> True
      | Some uid \<Rightarrow>
          (case find_user db uid of
             None \<Rightarrow> False
           | Some assignee \<Rightarrow> lu_active assignee \<and> lu_role assignee \<in> set ASSIGNABLE_ROLES))"

definition assign_incident ::
  "IncidentDb \<Rightarrow> uuid \<Rightarrow> uuid option \<Rightarrow> int \<Rightarrow> LocalUser \<Rightarrow> string \<Rightarrow> timestamp \<Rightarrow>
   IncidentError + (Incident \<times> IncidentDb)" where
  "assign_incident db incident_id assignee_user_id expected_version actor_user request_id now =
     rbind (locked_incident db incident_id expected_version) (\<lambda>incident.
     if \<not> valid_assignee db assignee_user_id then Inl AssigneeNotAllowed
     else
     (let before = in_version incident;
          previous = in_assignee_user_id incident;
          changed = incident\<lparr>in_assignee_user_id := assignee_user_id,
            in_assigned_at := (if assignee_user_id \<noteq> None then Some now else None),
            in_version := before + 1, in_updated_at := now\<rparr> in
      rbind (append_audit_event changed
          \<lparr>aq_action = ASSIGNMENT_CHANGED, aq_occurred_at = now,
           aq_actor_context = lu_display_name actor_user,
           aq_actor_user_id = Some (lu_user_id actor_user), aq_request_id = request_id,
           aq_safe_reason = Some ''Authenticated local assignment update.'',
           aq_version_before = before, aq_version_after = before + 1,
           aq_details = [(''previous_assignee_user_id'', opt_detail previous),
             (''assignee_user_id'', opt_detail assignee_user_id)]\<rparr>
          (save_incident changed db)) (\<lambda>db1.
      Inr (changed, db1))))"

definition set_incident_disposition ::
  "IncidentDb \<Rightarrow> uuid \<Rightarrow> IncidentDisposition \<Rightarrow> string \<Rightarrow> int \<Rightarrow> LocalUser \<Rightarrow> string \<Rightarrow> timestamp \<Rightarrow>
   IncidentError + (Incident \<times> IncidentDb)" where
  "set_incident_disposition db incident_id disposition reason expected_version actor_user request_id now =
     rbind (bounded_plain_text reason 2000 False) (\<lambda>clean_reason.
     rbind (locked_incident db incident_id expected_version) (\<lambda>incident.
     (let before = in_version incident;
          previous = in_disposition incident;
          changed = incident\<lparr>in_disposition := disposition, in_disposition_reason := Some clean_reason,
            in_disposition_set_by_user_id := Some (lu_user_id actor_user),
            in_disposition_set_at := Some now, in_version := before + 1, in_updated_at := now\<rparr> in
      rbind (append_audit_event changed
          \<lparr>aq_action = DISPOSITION_CHANGED, aq_occurred_at = now,
           aq_actor_context = lu_display_name actor_user,
           aq_actor_user_id = Some (lu_user_id actor_user), aq_request_id = request_id,
           aq_safe_reason = Some ''Authenticated analyst disposition rationale recorded.'',
           aq_version_before = before, aq_version_after = before + 1,
           aq_details = [(''previous'', DStr (IncidentDisposition_value previous)),
             (''new'', DStr (IncidentDisposition_value disposition)), (''reason'', DStr clean_reason)]\<rparr>
          (save_incident changed db)) (\<lambda>db1.
      Inr (changed, db1)))))"

section \<open>The report\<close>

text \<open>
  Besides its primary key, the table of revisions is unique in the incident and the version
  (\<open>uq_incident_report_revision\<close>).
\<close>

text \<open>The seven text fields, in the order of \<open>REPORT_FIELD_NAMES\<close>.\<close>

record ReportFields =
  rf_investigation_summary :: string
  rf_analyst_assessment :: string
  rf_evidence_assessment :: string
  rf_process_impact_assessment :: string
  rf_disposition_rationale :: string
  rf_recommended_follow_up :: string
  rf_final_conclusion :: string

definition report_values :: "ReportFields \<Rightarrow> string list" where
  "report_values f = [rf_investigation_summary f, rf_analyst_assessment f, rf_evidence_assessment f,
     rf_process_impact_assessment f, rf_disposition_rationale f, rf_recommended_follow_up f,
     rf_final_conclusion f]"

definition fields_filled :: "ReportFields \<Rightarrow> nat" where
  "fields_filled f = length (filter (\<lambda>v. py_strip v \<noteq> []) (report_values f))"

definition find_report :: "IncidentDb \<Rightarrow> uuid \<Rightarrow> IncidentReport option" where
  "find_report db incident_id = find (\<lambda>r. rp_incident_id r = incident_id) (db_reports db)"

definition REPORT_REVISION_NAMESPACE :: uuid where
  "REPORT_REVISION_NAMESPACE = ''9f74578a-a139-55c2-9c55-fb12c84bfbce''"

definition report_row ::
  "uuid \<Rightarrow> ReportFields \<Rightarrow> int \<Rightarrow> uuid \<Rightarrow> timestamp \<Rightarrow> LocalUser \<Rightarrow> timestamp \<Rightarrow> IncidentReport" where
  "report_row incident_id f version created_by created_at actor_user now =
     \<lparr>rp_incident_id = incident_id,
      rp_investigation_summary = rf_investigation_summary f,
      rp_analyst_assessment = rf_analyst_assessment f,
      rp_evidence_assessment = rf_evidence_assessment f,
      rp_process_impact_assessment = rf_process_impact_assessment f,
      rp_disposition_rationale = rf_disposition_rationale f,
      rp_recommended_follow_up = rf_recommended_follow_up f,
      rp_final_conclusion = rf_final_conclusion f,
      rp_version = version, rp_created_by_user_id = created_by, rp_created_at = created_at,
      rp_updated_by_user_id = lu_user_id actor_user, rp_updated_at = now\<rparr>"

definition revision_row ::
  "uuid \<Rightarrow> ReportFields \<Rightarrow> int \<Rightarrow> LocalUser \<Rightarrow> timestamp \<Rightarrow> IncidentReportRevision" where
  "revision_row incident_id f version actor_user now =
     (let digest = sha256_hex (utf8 (join_with CHR 0x1F (report_values f))) in
      \<lparr>rv_revision_id = uuid5 REPORT_REVISION_NAMESPACE
         (incident_id @ ''|'' @ str_int version @ ''|'' @ digest),
       rv_incident_id = incident_id,
       rv_investigation_summary = rf_investigation_summary f,
       rv_analyst_assessment = rf_analyst_assessment f,
       rv_evidence_assessment = rf_evidence_assessment f,
       rv_process_impact_assessment = rf_process_impact_assessment f,
       rv_disposition_rationale = rf_disposition_rationale f,
       rv_recommended_follow_up = rf_recommended_follow_up f,
       rv_final_conclusion = rf_final_conclusion f,
       rv_version = version, rv_saved_by_user_id = lu_user_id actor_user, rv_saved_at = now\<rparr>)"

definition save_report :: "IncidentReport \<Rightarrow> IncidentReport list \<Rightarrow> IncidentReport list" where
  "save_report report rows =
     (if rp_incident_id report \<in> rp_incident_id ` set rows
      then map (\<lambda>r. if rp_incident_id r = rp_incident_id report then report else r) rows
      else rows @ [report])"

definition save_incident_report ::
  "IncidentDb \<Rightarrow> uuid \<Rightarrow> ReportFields \<Rightarrow> int \<Rightarrow> LocalUser \<Rightarrow> string \<Rightarrow> timestamp \<Rightarrow>
   IncidentError + (IncidentReport \<times> IncidentDb)" where
  "save_incident_report db incident_id f expected_version actor_user request_id now =
     (case find_incident db incident_id of
        None \<Rightarrow> Inl IncidentNotFound
      | Some incident \<Rightarrow>
          rbind (for_each (\<lambda>v. rbind (bounded_plain_text v 4000 True) (\<lambda>_. Inr ())) (report_values f)) (\<lambda>_.
          (let existing = find_report db incident_id;
               current_version = (case existing of None \<Rightarrow> 0 | Some r \<Rightarrow> rp_version r) in
           if current_version \<noteq> expected_version then Inl VersionConflict
           else
           (let next_version = current_version + 1;
                report = (case existing of
                    None \<Rightarrow> report_row incident_id f next_version (lu_user_id actor_user) now actor_user now
                  | Some r \<Rightarrow> report_row incident_id f next_version (rp_created_by_user_id r) (rp_created_at r)
                      actor_user now) in
            if (incident_id, next_version) \<in> (\<lambda>r. (rv_incident_id r, rv_version r)) ` set (db_revisions db)
            then Inl IntegrityError
            else
            rbind (add_row rv_revision_id (revision_row incident_id f next_version actor_user now)
                (db_revisions db)) (\<lambda>revisions.
            rbind (append_audit_event incident
                \<lparr>aq_action = REPORT_SAVED, aq_occurred_at = now,
                 aq_actor_context = lu_display_name actor_user,
                 aq_actor_user_id = Some (lu_user_id actor_user), aq_request_id = request_id,
                 aq_safe_reason = Some ''Bounded plain-text incident report saved.'',
                 aq_version_before = in_version incident, aq_version_after = in_version incident,
                 aq_details = [(''report_version'', DInt next_version),
                   (''fields_filled'', DInt (int (fields_filled f)))]\<rparr>
                (db\<lparr>db_reports := save_report report (db_reports db), db_revisions := revisions\<rparr>)) (\<lambda>db1.
            Inr (report, db1)))))))"

definition validate_resolution_ready :: "IncidentDb \<Rightarrow> Incident \<Rightarrow> IncidentError + unit" where
  "validate_resolution_ready db incident =
     (if in_disposition incident = UNREVIEWED then Inl DispositionRequired
      else case find_report db (in_incident_id incident) of
        None \<Rightarrow> Inl FinalConclusionRequired
      | Some report \<Rightarrow>
          if py_strip (rp_final_conclusion report) = [] then Inl FinalConclusionRequired else Inr ())"

end
