(* ===== verification/Incident_Analyst.thy ===== *)
theory Incident_Analyst
  imports Incident_Workflow
begin

text \<open>
  What the analyst's operations guarantee together. The four operations that move the version of
  an incident are requests of one kind; each commits one change of the aggregate and one audit
  event. The optimistic locking of the aggregate and of its report are two interpretations of
  \<open>versioned_store\<close>; audit trail, status history and report revisions are followed over
  arbitrary sequences of requests of any number of analysts on any number of incidents.
\<close>

section \<open>Requests\<close>

datatype AnalystOp =
    Transition IncidentStatus Actor "string option" timestamp
  | AddNote string Actor timestamp
  | Assign "uuid option" LocalUser string timestamp
  | Dispose IncidentDisposition string LocalUser string timestamp

fun analyst_op :: "AnalystOp \<Rightarrow> uuid \<Rightarrow> int \<Rightarrow> IncidentDb \<Rightarrow> IncidentError + (Incident \<times> IncidentDb)" where
  "analyst_op (Transition new_status actor reason now) k v db =
     transition_incident_status db k new_status v actor reason now"
| "analyst_op (AddNote content actor now) k v db = add_analyst_note db k content v actor now"
| "analyst_op (Assign assignee user request_id now) k v db = assign_incident db k assignee v user request_id now"
| "analyst_op (Dispose disposition reason user request_id now) k v db =
     set_incident_disposition db k disposition reason v user request_id now"

definition incident_version :: "IncidentDb \<Rightarrow> uuid \<Rightarrow> int option" where
  "incident_version db k = map_option in_version (find_incident db k)"

section \<open>The lifecycle as a step relation\<close>

inductive lifecycle :: "IncidentStatus \<Rightarrow> IncidentStatus \<Rightarrow> bool" where
  triage: "lifecycle OPEN INVESTIGATING"
| close_untriaged: "lifecycle OPEN RESOLVED"
| close: "lifecycle INVESTIGATING RESOLVED"
| reopen: "lifecycle RESOLVED INVESTIGATING"

inductive_cases lifecycle_to_open [elim!]: "lifecycle s OPEN"

lemma allowed_iff_lifecycle: "(s, t) \<in> set ALLOWED_TRANSITIONS \<longleftrightarrow> lifecycle s t"
  by (auto simp: ALLOWED_TRANSITIONS_def lifecycle.simps)

text \<open>
  A change of the incident with the rows it adds to the status history: none when the status
  stays, one row that records the lifecycle step otherwise.
\<close>

inductive status_move :: "Incident \<Rightarrow> IncidentStatusHistory list \<Rightarrow> Incident \<Rightarrow> bool" where
  stay: "in_status i' = in_status i \<Longrightarrow> status_move i [] i'"
| move: "lifecycle (in_status i) (in_status i') \<Longrightarrow> sh_incident_id h = in_incident_id i \<Longrightarrow>
    sh_previous_status h = Some (in_status i) \<Longrightarrow> sh_new_status h = in_status i' \<Longrightarrow>
    sh_version_before h = in_version i \<Longrightarrow> sh_version_after h = in_version i' \<Longrightarrow>
    (RESOLVED \<in> {in_status i, in_status i'} \<longrightarrow>
      (\<exists>r. sh_reason h = Some r \<and> validate_note_text r 500 = Inr r)) \<Longrightarrow>
    status_move i [h] i'"

inductive_cases status_moveE: "status_move i hs i'"

section \<open>Committed changes\<close>

text \<open>The columns an analyst can change.\<close>

definition analyst_update :: "Incident \<Rightarrow> Incident \<Rightarrow> bool" where
  "analyst_update i i' \<longleftrightarrow> i' = i\<lparr>in_status := in_status i',
     in_assignee_user_id := in_assignee_user_id i', in_assigned_at := in_assigned_at i',
     in_disposition := in_disposition i', in_disposition_reason := in_disposition_reason i',
     in_disposition_set_by_user_id := in_disposition_set_by_user_id i',
     in_disposition_set_at := in_disposition_set_at i', in_version := in_version i + 1,
     in_updated_at := in_updated_at i'\<rparr>"

text \<open>One audit event with the versions of the change; the tables analysts do not write are as before.\<close>

definition audited :: "uuid \<Rightarrow> int \<Rightarrow> Incident \<Rightarrow> IncidentDb \<Rightarrow> IncidentDb \<Rightarrow> bool" where
  "audited k v i' db db' \<longleftrightarrow>
     db_incidents db' = db_incidents (save_incident i' db) \<and>
     (\<exists>ev. db_audit db' = db_audit db @ [ev] \<and> ae_incident_id ev = k \<and>
        ae_action ev \<noteq> REPORT_SAVED \<and> ae_version_before ev = v \<and> ae_version_after ev = v + 1) \<and>
     db_reports db' = db_reports db \<and> db_revisions db' = db_revisions db \<and> db_users db' = db_users db \<and>
     db_memberships db' = db_memberships db \<and> db_severity_history db' = db_severity_history db"

definition committed :: "uuid \<Rightarrow> int \<Rightarrow> IncidentDb \<Rightarrow> Incident \<Rightarrow> IncidentDb \<Rightarrow> bool" where
  "committed k v db i' db' \<longleftrightarrow> (\<exists>i hs.
     find_incident db k = Some i \<and> in_version i = v \<and> analyst_update i i' \<and> audited k v i' db db' \<and>
     db_status_history db' = db_status_history db @ hs \<and> status_move i hs i')"

lemma committed_stayI:
  assumes "find_incident db k = Some i" "in_version i = v" "analyst_update i i'"
    and "audited k v i' db db'" "db_status_history db' = db_status_history db" "in_status i' = in_status i"
  shows "committed k v db i' db'"
  using assms status_move.stay [OF assms(6)] unfolding committed_def by (metis append_Nil2)

lemma analyst_update_sel:
  assumes "analyst_update i i'"
  shows "in_incident_id i' = in_incident_id i" "in_version i' = in_version i + 1"
    "in_grouping_key_sha256 i' = in_grouping_key_sha256 i" "in_severity i' = in_severity i"
    "in_evidence_count i' = in_evidence_count i" "in_primary_evidence_id i' = in_primary_evidence_id i"
    "in_bound_simulation_id i' = in_bound_simulation_id i"
    "in_bound_configuration_hash i' = in_bound_configuration_hash i"
  by (subst assms [unfolded analyst_update_def], simp)+

lemma locked_incident_Inr [result_split]:
  "locked_incident db k v = Inr i \<longleftrightarrow> find_incident db k = Some i \<and> in_version i = v"
  by (auto simp: locked_incident_def split: option.splits)

lemma validate_note_text_Inr:
  "validate_note_text content n = Inr clean \<Longrightarrow> clean = content"
  by (simp add: validate_note_text_def split: if_splits)

lemma clean_reason_of_Inr:
  "clean_reason_of reason = Inr (Some clean) \<Longrightarrow> validate_note_text clean 500 = Inr clean"
  by (auto simp: clean_reason_of_def result_split split: option.splits dest: validate_note_text_Inr)

lemma transition_commits:
  assumes "transition_incident_status db k new_status v actor reason now = Inr (i', db')"
  shows "committed k v db i' db'"
proof -
  from assms obtain i clean where i: "find_incident db k = Some i" "in_version i = v"
    and allowed: "lifecycle (in_status i) new_status" and clean: "clean_reason_of reason = Inr clean"
    and given: "clean \<noteq> None \<or> in_status i \<noteq> RESOLVED \<and> new_status \<noteq> RESOLVED"
    and i': "i' = i\<lparr>in_status := new_status, in_version := v + 1, in_updated_at := now\<rparr>"
    and hist: "db_status_history db' = db_status_history db @ [status_history_row i new_status actor clean now]"
    and aud: "audited (in_incident_id i) v i' db db'"
    unfolding transition_incident_status_def audited_def
    by (auto simp: result_split Let_def allowed_iff_lifecycle save_incident_def split: if_splits)
  have "status_move i [status_history_row i new_status actor clean now] i'"
    using i(2) allowed given clean_reason_of_Inr clean
    by (intro status_move.move) (auto simp: i' status_history_row_def Let_def)
  moreover have "analyst_update i i'" by (simp add: i' analyst_update_def i(2))
  ultimately show ?thesis
    using i hist aud find_incident_SomeD [OF i(1)] unfolding committed_def by blast
qed

lemma note_commits:
  "ensures (add_analyst_note db k content v actor now) (\<lambda>(i', db'). committed k v db i' db')"
  unfolding add_analyst_note_def Let_def
  by (intro ensures_intros ensures_Inr)
    (auto simp: result_split audited_def analyst_update_def save_incident_def
      dest: find_incident_SomeD intro!: committed_stayI)

lemma assign_commits:
  "ensures (assign_incident db k assignee v user request_id now) (\<lambda>(i', db'). committed k v db i' db')"
  unfolding assign_incident_def Let_def
  by (intro ensures_intros ensures_Inr)
    (auto simp: result_split audited_def analyst_update_def save_incident_def
      dest: find_incident_SomeD intro!: committed_stayI)

lemma disposition_commits:
  "ensures (set_incident_disposition db k disposition reason v user request_id now)
     (\<lambda>(i', db'). committed k v db i' db')"
  unfolding set_incident_disposition_def Let_def
  by (intro ensures_intros ensures_Inr)
    (auto simp: result_split audited_def analyst_update_def save_incident_def
      dest: find_incident_SomeD intro!: committed_stayI)

lemma analyst_op_commits:
  "analyst_op op k v db = Inr (i', db') \<Longrightarrow> committed k v db i' db'"
  by (cases op) (auto dest: transition_commits ensuresD [OF note_commits] ensuresD [OF assign_commits]
    ensuresD [OF disposition_commits])

lemma committed_find:
  assumes "committed k v db i' db'"
  shows "find_incident db' k' = (if k' = k then Some i' else find_incident db k')"
proof -
  from assms obtain i where i: "find_incident db k = Some i" "analyst_update i i'"
    and saved: "db_incidents db' = db_incidents (save_incident i' db)"
    by (auto simp: committed_def audited_def)
  have "in_incident_id i' = k"
    using analyst_update_sel(1) [OF i(2)] find_incident_SomeD [OF i(1)] by simp
  moreover have "find_incident db' k' = find_incident (save_incident i' db) k'"
    by (simp add: find_incident_def saved)
  ultimately show ?thesis using i(1) by (simp add: find_incident_save)
qed

lemma committed_version: "committed k v db i' db' \<Longrightarrow> in_version i' = v + 1"
  by (auto simp: committed_def dest: analyst_update_sel(2))

lemma committed_was: "committed k v db i' db' \<Longrightarrow> \<exists>i. find_incident db k = Some i \<and> in_version i = v"
  by (auto simp: committed_def)

section \<open>Optimistic locking of the aggregate\<close>

interpretation aggregate: versioned_store incident_version analyst_op
proof
  fix op k v db i' db' k'
  assume "analyst_op op k v db = Inr (i', db')"
  then have c: "committed k v db i' db'" by (rule analyst_op_commits)
  show "incident_version db k = Some v"
    using committed_was [OF c] by (auto simp: incident_version_def)
  show "incident_version db' k = Some (v + 1)"
    using committed_version [OF c] by (simp add: incident_version_def committed_find [OF c])
  show "k' \<noteq> k \<Longrightarrow> incident_version db' k' = incident_version db k'"
    by (simp add: incident_version_def committed_find [OF c])
qed

lemma stale_refused:
  assumes "incident_version db k = Some w" and "w \<noteq> v"
  shows "analyst_op op k v db \<in> Inl ` {VersionConflict, NoteLength, NoteNul, NoteControlCharacter,
    PlainTextLength, PlainTextControlCharacter}"
proof -
  from assms have "locked_incident db k v = Inl VersionConflict"
    by (auto simp: incident_version_def locked_incident_def)
  then show ?thesis
    by (cases op) (auto simp: transition_incident_status_def add_analyst_note_def assign_incident_def
        set_incident_disposition_def validate_note_text_def bounded_plain_text_def)
qed

section \<open>Trails\<close>

lemma versioned_commits:
  "versioned analyst_op r db = Inr (i', db') \<Longrightarrow> committed (fst (snd r)) (snd (snd r)) db i' db'"
  by (auto simp: versioned_def split: prod.splits dest: analyst_op_commits)

text \<open>Replaying rows of the status history from a status.\<close>

fun replay_status :: "IncidentStatus \<Rightarrow> IncidentStatusHistory list \<Rightarrow> IncidentStatus option" where
  "replay_status s [] = Some s"
| "replay_status s (h # hs) =
     (if sh_previous_status h = Some s \<and> (s, sh_new_status h) \<in> set ALLOWED_TRANSITIONS
      then replay_status (sh_new_status h) hs else None)"

lemma replay_status_append:
  "replay_status s hs = Some t \<Longrightarrow> replay_status s (hs @ hs') = replay_status t hs'"
  by (induction hs arbitrary: s) (auto split: if_splits)

lemma replay_status_not_open:
  "replay_status s hs = Some t \<Longrightarrow> t = OPEN \<Longrightarrow> hs = []"
proof (induction hs arbitrary: s)
  case (Cons h hs)
  then have "hs = []" "replay_status (sh_new_status h) hs = Some OPEN" "lifecycle s (sh_new_status h)"
    by (auto simp: allowed_iff_lifecycle split: if_splits)
  then show ?case by auto
qed simp

definition status_trail :: "uuid \<Rightarrow> IncidentDb \<Rightarrow> IncidentDb \<Rightarrow> bool" where
  "status_trail k db db' \<longleftrightarrow> (\<exists>hs. db_status_history db' = db_status_history db @ hs \<and>
     (\<forall>i. find_incident db k = Some i \<longrightarrow> (\<exists>i'. find_incident db' k = Some i' \<and>
        replay_status (in_status i) (filter (\<lambda>h. sh_incident_id h = k) hs) = Some (in_status i'))))"

lemma status_move_replay:
  assumes "status_move i hs i'" "in_incident_id i = k"
  shows "replay_status (in_status i) (filter (\<lambda>h. sh_incident_id h = k) hs) = Some (in_status i')"
  using assms by (cases rule: status_move.cases) (auto simp: allowed_iff_lifecycle)

lemma status_move_ids: "status_move i hs i' \<Longrightarrow> h \<in> set hs \<Longrightarrow> sh_incident_id h = in_incident_id i"
  by (auto elim: status_moveE)

interpretation statuses: related_ops "versioned analyst_op" "status_trail k"
proof
  fix r db i' db'
  assume "versioned analyst_op r db = Inr (i', db')"
  then have c: "committed (fst (snd r)) (snd (snd r)) db i' db'" by (rule versioned_commits)
  then obtain i hs where i: "find_incident db (fst (snd r)) = Some i" "in_incident_id i = fst (snd r)"
    and hs: "db_status_history db' = db_status_history db @ hs" "status_move i hs i'"
    by (auto simp: committed_def dest: find_incident_SomeD)
  have "\<forall>h \<in> set hs. sh_incident_id h = fst (snd r)" using status_move_ids [OF hs(2)] i(2) by simp
  then have "k \<noteq> fst (snd r) \<Longrightarrow> filter (\<lambda>h. sh_incident_id h = k) hs = []" by (auto simp: filter_empty_conv)
  then show "status_trail k db db'"
    unfolding status_trail_def
    by (intro exI [of _ hs]) (use hs i status_move_replay [OF hs(2) i(2)] in
      \<open>auto simp: committed_find [OF c]\<close>)
next
  fix a b c assume "status_trail k a b" "status_trail k b c"
  then show "status_trail k a c"
    unfolding status_trail_def
    by (elim exE conjE) (rule exI, rule conjI, simp, fastforce simp: replay_status_append)
qed (auto simp: status_trail_def)

section \<open>The report\<close>

datatype ReportOp = SaveReport ReportFields LocalUser string timestamp

fun report_op :: "ReportOp \<Rightarrow> uuid \<Rightarrow> int \<Rightarrow> IncidentDb \<Rightarrow> IncidentError + (IncidentReport \<times> IncidentDb)" where
  "report_op (SaveReport f user request_id now) k v db = save_incident_report db k f v user request_id now"

definition saved_version :: "IncidentDb \<Rightarrow> uuid \<Rightarrow> int" where
  "saved_version db k = (case find_report db k of None \<Rightarrow> 0 | Some r \<Rightarrow> rp_version r)"

definition report_version :: "IncidentDb \<Rightarrow> uuid \<Rightarrow> int option" where
  "report_version db k = (if find_incident db k = None then None else Some (saved_version db k))"

definition report_text :: "IncidentReport \<Rightarrow> string list" where
  "report_text r = [rp_investigation_summary r, rp_analyst_assessment r, rp_evidence_assessment r,
     rp_process_impact_assessment r, rp_disposition_rationale r, rp_recommended_follow_up r,
     rp_final_conclusion r]"

definition revision_text :: "IncidentReportRevision \<Rightarrow> string list" where
  "revision_text r = [rv_investigation_summary r, rv_analyst_assessment r, rv_evidence_assessment r,
     rv_process_impact_assessment r, rv_disposition_rationale r, rv_recommended_follow_up r,
     rv_final_conclusion r]"

text \<open>What a successful save does.\<close>

definition report_saved :: "uuid \<Rightarrow> int \<Rightarrow> IncidentDb \<Rightarrow> IncidentReport \<Rightarrow> IncidentDb \<Rightarrow> bool" where
  "report_saved k v db report db' \<longleftrightarrow> (\<exists>i rev ev.
     find_incident db k = Some i \<and> db_audit db' = db_audit db @ [ev] \<and> ae_incident_id ev = k \<and>
     ae_action ev = REPORT_SAVED \<and> ae_version_before ev = in_version i \<and> ae_version_after ev = in_version i \<and>
     saved_version db k = v \<and>
     rp_incident_id report = k \<and> rp_version report = v + 1 \<and>
     db_incidents db' = db_incidents db \<and> db_reports db' = save_report report (db_reports db) \<and>
     db_revisions db' = db_revisions db @ [rev] \<and> rv_incident_id rev = k \<and> rv_version rev = v + 1 \<and>
     revision_text rev = report_text report \<and> rv_saved_by_user_id rev = rp_updated_by_user_id report)"

lemma save_report_commits:
  "ensures (save_incident_report db k f v user request_id now) (\<lambda>(report, db'). report_saved k v db report db')"
  unfolding save_incident_report_def Let_def
  by (intro ensures_intros ensures_Inr)
    (auto simp: result_split report_saved_def saved_version_def report_row_def revision_row_def Let_def
      report_text_def revision_text_def dest: find_incident_SomeD split: option.splits)

lemma report_op_commits: "report_op op k v db = Inr (report, db') \<Longrightarrow> report_saved k v db report db'"
  by (cases op) (auto dest: ensuresD [OF save_report_commits])

lemma find_report_save:
  "find (\<lambda>r. rp_incident_id r = k) (save_report report rows) =
   (if k = rp_incident_id report then Some report else find (\<lambda>r. rp_incident_id r = k) rows)"
proof (cases "rp_incident_id report \<in> rp_incident_id ` set rows")
  case True
  have "find (\<lambda>r. rp_incident_id r = k)
      (map (\<lambda>r. if rp_incident_id r = rp_incident_id report then report else r) rows) =
    (if k = rp_incident_id report \<and> find (\<lambda>r. rp_incident_id r = k) rows \<noteq> None then Some report
     else find (\<lambda>r. rp_incident_id r = k) rows)"
    by (induction rows) auto
  moreover have "find (\<lambda>r. rp_incident_id r = rp_incident_id report) rows \<noteq> None"
    unfolding find_eq_None_iff using True by (metis image_iff)
  ultimately show ?thesis by (simp only: save_report_def True if_True) auto
next
  case False
  then have "find (\<lambda>r. rp_incident_id r = rp_incident_id report) rows = None"
    unfolding find_eq_None_iff by (metis image_eqI)
  moreover have "find P (rows @ [report]) = (if find P rows = None \<and> P report then Some report else find P rows)" for P
    by (induction rows) auto
  ultimately show ?thesis using False by (auto simp: save_report_def)
qed

lemma report_saved_find:
  "report_saved k v db report db' \<Longrightarrow> find_report db' k' = (if k' = k then Some report else find_report db k')"
  by (auto simp: report_saved_def find_report_def find_report_save)

lemma report_saved_incidents: "report_saved k v db report db' \<Longrightarrow> find_incident db' = find_incident db"
  by (auto simp: report_saved_def find_incident_def fun_eq_iff)

interpretation reports: versioned_store report_version report_op
proof
  fix op k v db report db' k'
  assume "report_op op k v db = Inr (report, db')"
  then have c: "report_saved k v db report db'" by (rule report_op_commits)
  note after = report_saved_find [OF c] report_saved_incidents [OF c]
  from c have was: "find_incident db k \<noteq> None" "saved_version db k = v" "rp_version report = v + 1"
    by (auto simp: report_saved_def)
  show "report_version db k = Some v" using was by (simp add: report_version_def)
  show "report_version db' k = Some (v + 1)" using was by (simp add: report_version_def saved_version_def after)
  show "k' \<noteq> k \<Longrightarrow> report_version db' k' = report_version db k'"
    by (simp add: report_version_def saved_version_def after)
qed

text \<open>
  The revisions of an incident are numbered from one to the version of its report, and the last
  one has the report's text and author.
\<close>

definition revisions_of :: "IncidentDb \<Rightarrow> uuid \<Rightarrow> IncidentReportRevision list" where
  "revisions_of db k = filter (\<lambda>r. rv_incident_id r = k) (db_revisions db)"

definition revisions_complete :: "IncidentDb \<Rightarrow> bool" where
  "revisions_complete db \<longleftrightarrow> (\<forall>k. 0 \<le> saved_version db k \<and> map rv_version (revisions_of db k) = [1..saved_version db k] \<and>
     (\<forall>r. find_report db k = Some r \<longrightarrow> revisions_of db k \<noteq> [] \<and>
        revision_text (last (revisions_of db k)) = report_text r \<and>
        rv_saved_by_user_id (last (revisions_of db k)) = rp_updated_by_user_id r))"

text \<open>Requests of both kinds.\<close>

fun workflow_step ::
  "(AnalystOp + ReportOp) \<times> uuid \<times> int \<Rightarrow> IncidentDb \<Rightarrow> IncidentError + (unit \<times> IncidentDb)" where
  "workflow_step (Inl op, k, v) db = rbind (analyst_op op k v db) (\<lambda>(_, db'). Inr ((), db'))"
| "workflow_step (Inr op, k, v) db = rbind (report_op op k v db) (\<lambda>(_, db'). Inr ((), db'))"

lemma report_saved_complete:
  assumes c: "report_saved k v db report db'" and inv: "revisions_complete db"
  shows "revisions_complete db'"
proof -
  from c obtain rev where rev: "db_revisions db' = db_revisions db @ [rev]" "rv_incident_id rev = k"
      "rv_version rev = v + 1" "revision_text rev = report_text report"
      "rv_saved_by_user_id rev = rp_updated_by_user_id report"
    and was: "saved_version db k = v" "rp_version report = v + 1"
    by (auto simp: report_saved_def)
  have revs: "revisions_of db' k' = (if k' = k then revisions_of db k @ [rev] else revisions_of db k')" for k'
    using rev by (auto simp: revisions_of_def)
  have version: "saved_version db' k' = (if k' = k then v + 1 else saved_version db k')" for k'
    using was by (simp add: saved_version_def report_saved_find [OF c])
  have "0 \<le> v" "map rv_version (revisions_of db k) = [1..v]"
    using inv was(1) by (auto simp: revisions_complete_def)
  with inv rev show ?thesis
    by (simp add: revisions_complete_def revs version report_saved_find [OF c] upto_rec2)
qed

lemma committed_complete:
  assumes "committed k v db i' db'" "revisions_complete db"
  shows "revisions_complete db'"
proof -
  from assms(1) have "db_reports db' = db_reports db" "db_revisions db' = db_revisions db"
    by (auto simp: committed_def audited_def)
  with assms(2) show ?thesis
    by (simp add: revisions_complete_def saved_version_def find_report_def revisions_of_def)
qed

interpretation revisions: invariant_ops workflow_step revisions_complete
proof
  fix db r out db'
  assume inv: "revisions_complete db" and step: "workflow_step r db = Inr (out, db')"
  obtain op k v where r: "r = (op, k, v)" by (cases r)
  show "revisions_complete db'"
    using step inv by (cases op) (auto simp: r result_split
        dest: analyst_op_commits report_op_commits committed_complete report_saved_complete)
qed

section \<open>The audit trail\<close>

definition version_span :: "IncidentAuditEvent \<Rightarrow> int \<times> int" where
  "version_span e = (ae_version_before e, ae_version_after e)"

text \<open>
  Replaying audit events from a version of the incident and a version of its report: saving the
  report leaves the version of the incident where it is, every other event moves it by one, and each
  event starts at the version the one before it left.
\<close>

fun replay_audit :: "int \<times> int \<Rightarrow> IncidentAuditEvent list \<Rightarrow> (int \<times> int) option" where
  "replay_audit s [] = Some s"
| "replay_audit (v, r) (e # es) =
     (if ae_action e = REPORT_SAVED
      then if version_span e = (v, v) then replay_audit (v, r + 1) es else None
      else if version_span e = (v, v + 1) then replay_audit (v + 1, r) es else None)"

lemma replay_audit_append: "replay_audit s es = Some t \<Longrightarrow> replay_audit s (es @ fs) = replay_audit t fs"
  by (induction s es rule: replay_audit.induct) (auto split: if_splits)

lemma replay_audit_spans:
  "replay_audit (v, r) es = Some (w, q) \<Longrightarrow> v \<le> w \<and>
     map version_span (filter (\<lambda>e. ae_action e \<noteq> REPORT_SAVED) es) = map (\<lambda>n. (n, n + 1)) [v..w - 1] \<and>
     r + int (length (filter (\<lambda>e. ae_action e = REPORT_SAVED) es)) = q"
proof (induction "(v, r)" es arbitrary: v r rule: replay_audit.induct)
  case (2 v r e es)
  show ?case
  proof (cases "ae_action e = REPORT_SAVED")
    case True
    with 2(3) have "replay_audit (v, r + 1) es = Some (w, q)" by (simp split: if_splits)
    with 2(1) [OF True] 2(3) True show ?thesis by (fastforce split: if_splits)
  next
    case False
    with 2(3) have e: "version_span e = (v, v + 1)" "replay_audit (v + 1, r) es = Some (w, q)"
      by (simp_all split: if_splits)
    from 2(2) [OF False e] have "v + 1 \<le> w" by simp
    then have "[v..w - 1] = v # [v + 1..w - 1]" by (simp add: upto_rec1)
    with 2(2) [OF False e] False e(1) show ?thesis by simp
  qed
qed simp

text \<open>The versions of an incident and of its report.\<close>

definition trail_state :: "IncidentDb \<Rightarrow> uuid \<Rightarrow> (int \<times> int) option" where
  "trail_state db k = map_option (\<lambda>v. (v, saved_version db k)) (incident_version db k)"

definition audit_trail :: "uuid \<Rightarrow> IncidentDb \<Rightarrow> IncidentDb \<Rightarrow> bool" where
  "audit_trail k db db' \<longleftrightarrow> (\<exists>evs. db_audit db' = db_audit db @ evs \<and>
     (\<forall>s. trail_state db k = Some s \<longrightarrow>
        replay_audit s (filter (\<lambda>e. ae_incident_id e = k) evs) = trail_state db' k \<and> trail_state db' k \<noteq> None))"

lemma audit_trail_event:
  assumes "db_audit db' = db_audit db @ [e]"
    and "ae_incident_id e \<noteq> k \<Longrightarrow> trail_state db' k = trail_state db k"
    and "\<And>s. ae_incident_id e = k \<Longrightarrow> trail_state db k = Some s \<Longrightarrow>
      replay_audit s [e] = trail_state db' k \<and> trail_state db' k \<noteq> None"
  shows "audit_trail k db db'"
  unfolding audit_trail_def using assms by (intro exI [of _ "[e]"]) (auto split: if_splits)

lemma committed_trail:
  assumes c: "committed k v db i' db'"
  shows "audit_trail k' db db'"
proof -
  obtain ev where ev: "db_audit db' = db_audit db @ [ev]" "ae_incident_id ev = k" "ae_action ev \<noteq> REPORT_SAVED"
      "version_span ev = (v, v + 1)" and reports: "db_reports db' = db_reports db"
    using c by (auto simp: committed_def audited_def version_span_def)
  have saved: "saved_version db' = saved_version db"
    using reports by (simp add: saved_version_def find_report_def fun_eq_iff)
  show ?thesis
    using ev committed_was [OF c] committed_version [OF c]
    by (intro audit_trail_event [OF ev(1)])
      (auto simp: trail_state_def incident_version_def committed_find [OF c] saved)
qed

lemma report_trail:
  assumes c: "report_saved k v db report db'"
  shows "audit_trail k' db db'"
proof -
  obtain i ev where ev: "find_incident db k = Some i" "db_audit db' = db_audit db @ [ev]" "ae_incident_id ev = k"
      "ae_action ev = REPORT_SAVED" "version_span ev = (in_version i, in_version i)"
    and report: "saved_version db k = v" "rp_version report = v + 1"
    using c by (auto simp: report_saved_def version_span_def)
  have saved: "saved_version db' k' = (if k' = k then v + 1 else saved_version db k')" for k'
    using report by (simp add: saved_version_def report_saved_find [OF c])
  show ?thesis
    using ev report(1)
    by (intro audit_trail_event [OF ev(2)])
      (auto simp: trail_state_def incident_version_def report_saved_incidents [OF c] saved)
qed

interpretation audits: related_ops workflow_step "audit_trail k"
proof
  fix r db out db'
  assume step: "workflow_step r db = Inr (out, db')"
  obtain op k' v where r: "r = (op, k', v)" by (cases r)
  show "audit_trail k db db'"
    using step by (cases op) (auto simp: r result_split
        dest: analyst_op_commits report_op_commits intro: committed_trail report_trail)
next
  fix a b c assume "audit_trail k a b" "audit_trail k b c"
  then show "audit_trail k a c"
    unfolding audit_trail_def
    by (elim exE conjE) (rule exI, rule conjI, simp, fastforce simp: replay_audit_append)
qed (auto simp: audit_trail_def)

section \<open>Properties\<close>

text \<open>
  C19. A lost update is impossible. Once a request on an incident has been accepted at a version,
  every request that still names that version is refused, whatever it asks for and whatever
  requests were handled in between: with a version conflict, or with the rejection of its own text
  when that is checked first.
\<close>

theorem stale_request_refused:
  assumes "analyst_op op k v db = Inr (i', db')"
  shows "analyst_op op' k v (run_ops (versioned analyst_op) rs db') \<in> Inl ` {VersionConflict, NoteLength,
    NoteNul, NoteControlCharacter, PlainTextLength, PlainTextControlCharacter}"
proof -
  obtain w where "v + 1 \<le> w" "incident_version (run_ops (versioned analyst_op) rs db') k = Some w"
    using aggregate.version_never_decreases [OF aggregate.bumped [OF assms]] by blast
  then show ?thesis by (intro stale_refused) auto
qed

text \<open>
  C20. The version of an incident counts its accepted requests: after any sequence of requests on
  any incidents it is the earlier version plus the number of those that were accepted on this
  incident.
\<close>

theorem version_counts_requests:
  "incident_version (run_ops (versioned analyst_op) rs db) k =
     map_option (\<lambda>v. v + int (accepted_on analyst_op k rs db)) (incident_version db k)"
  by (rule aggregate.version_counts_accepted)

text \<open>
  C21. The audit trail of the analysts' work has no gap and no duplicate. Whatever sequence of the
  analysts' five operations is handled (transition, note, assignment, disposition and saving the
  report, on any incidents), the earlier events are kept and those added for an incident replay its
  version and its report's version from the earlier to the current ones: the events of the first
  four span the versions of the incident one by one, each exactly once, and a saved report leaves the
  event that stands at the version it was saved at and counts one version of the report. Qualification
  and enrichment, which write several events for one version, are not requests of this kind.
\<close>

theorem audit_trail_gap_free:
  assumes "incident_version db k = Some v"
  shows "\<exists>w evs. incident_version (run_ops workflow_step rs db) k = Some w \<and>
    db_audit (run_ops workflow_step rs db) = db_audit db @ evs \<and>
    (let own = filter (\<lambda>e. ae_incident_id e = k) evs in
       replay_audit (v, saved_version db k) own = Some (w, saved_version (run_ops workflow_step rs db) k) \<and>
       map version_span (filter (\<lambda>e. ae_action e \<noteq> REPORT_SAVED) own) = map (\<lambda>n. (n, n + 1)) [v..w - 1] \<and>
       saved_version db k + int (length (filter (\<lambda>e. ae_action e = REPORT_SAVED) own))
         = saved_version (run_ops workflow_step rs db) k)"
proof -
  have "trail_state db k = Some (v, saved_version db k)" using assms by (simp add: trail_state_def)
  with audits.run_rel [of k db rs] obtain w evs where
    w: "incident_version (run_ops workflow_step rs db) k = Some w"
    and evs: "db_audit (run_ops workflow_step rs db) = db_audit db @ evs"
    and replay: "replay_audit (v, saved_version db k) (filter (\<lambda>e. ae_incident_id e = k) evs)
      = Some (w, saved_version (run_ops workflow_step rs db) k)"
    unfolding audit_trail_def trail_state_def by fastforce
  from replay_audit_spans [OF replay] w evs replay show ?thesis unfolding Let_def by blast
qed

text \<open>
  C22. The status history explains the status: the rows any sequence of requests adds for an
  incident lead from its earlier status to its current one by transitions of the lifecycle, each
  row starting where the one before ended. An incident is open only if its status never changed.
\<close>

theorem status_history_replays:
  assumes "find_incident db k = Some i"
  shows "\<exists>hs i'. db_status_history (run_ops (versioned analyst_op) rs db) = db_status_history db @ hs \<and>
    find_incident (run_ops (versioned analyst_op) rs db) k = Some i' \<and>
    replay_status (in_status i) (filter (\<lambda>h. sh_incident_id h = k) hs) = Some (in_status i') \<and>
    (in_status i' = OPEN \<longrightarrow> filter (\<lambda>h. sh_incident_id h = k) hs = [] \<and> in_status i = OPEN)"
proof -
  from statuses.run_rel [of k db rs] assms obtain hs i'
    where hs: "db_status_history (run_ops (versioned analyst_op) rs db) = db_status_history db @ hs"
      "find_incident (run_ops (versioned analyst_op) rs db) k = Some i'"
    and replay: "replay_status (in_status i) (filter (\<lambda>h. sh_incident_id h = k) hs) = Some (in_status i')"
    unfolding status_trail_def by blast
  have "filter (\<lambda>h. sh_incident_id h = k) hs = [] \<and> in_status i = OPEN" if "in_status i' = OPEN"
    using replay_status_not_open [OF replay that] replay that by simp
  with hs replay show ?thesis by blast
qed

text \<open>
  C23. A transition is recorded whole: the stored incident is the returned one; its status moved
  along the lifecycle, with a reason of 1 to 500 characters when it enters or leaves RESOLVED; one
  row of status history, one timeline entry that refers to it and one audit event were added, all
  with the new version; no other incident changed.
\<close>

theorem transition_recorded:
  assumes "transition_incident_status db k new_status v actor reason now = Inr (i', db')"
  shows "\<exists>i h e a. find_incident db k = Some i \<and> in_version i = v \<and>
    lifecycle (in_status i) new_status \<and> in_status i' = new_status \<and>
    db_status_history db' = db_status_history db @ [h] \<and> db_timeline db' = db_timeline db @ [e] \<and>
    db_audit db' = db_audit db @ [a] \<and> tl_reference_id e = sh_status_history_id h \<and>
    sh_version_after h = v + 1 \<and> tl_aggregate_version e = v + 1 \<and> ae_version_after a = v + 1 \<and>
    (RESOLVED \<in> {in_status i, new_status} \<longrightarrow>
       (\<exists>r. sh_reason h = Some r \<and> 1 \<le> length r \<and> length r \<le> 500 \<and> CHR 0x00 \<notin> set r)) \<and>
    (\<forall>k'. find_incident db' k' = (if k' = k then Some i' else find_incident db k'))"
proof -
  note c = transition_commits [OF assms]
  from assms obtain e where e: "db_timeline db' = db_timeline db @ [e]" "tl_aggregate_version e = v + 1"
    "tl_reference_id e = sh_status_history_id (last (db_status_history db'))"
    unfolding transition_incident_status_def
    by (auto simp: result_split Let_def split: if_splits)
  have new: "in_status i' = new_status" and grows: "db_status_history db' \<noteq> db_status_history db"
    using assms unfolding transition_incident_status_def
    by (auto simp: result_split Let_def split: if_splits)
  from c obtain i hs where i: "find_incident db k = Some i" "in_version i = v" "in_version i' = v + 1"
    and hs: "db_status_history db' = db_status_history db @ hs" "status_move i hs i'"
    and aud: "audited k v i' db db'"
    by (auto simp: committed_def dest: analyst_update_sel(2))
  from hs grows obtain h where h: "hs = [h]" "lifecycle (in_status i) (in_status i')" "sh_version_after h = v + 1"
    and reason: "RESOLVED \<in> {in_status i, in_status i'} \<longrightarrow>
      (\<exists>r. sh_reason h = Some r \<and> validate_note_text r 500 = Inr r)"
    using i by (auto elim!: status_moveE)
  have "validate_note_text r 500 = Inr r \<Longrightarrow> 1 \<le> length r \<and> length r \<le> 500 \<and> CHR 0x00 \<notin> set r" for r
    by (simp add: validate_note_text_def split: if_splits)
  then have "RESOLVED \<in> {in_status i, new_status} \<longrightarrow>
      (\<exists>r. sh_reason h = Some r \<and> 1 \<le> length r \<and> length r \<le> 500 \<and> CHR 0x00 \<notin> set r)"
    using reason unfolding new by meson
  moreover obtain a where "db_audit db' = db_audit db @ [a]" "ae_version_after a = v + 1"
    using aud by (auto simp: audited_def)
  ultimately show ?thesis
    using e i h hs new by (intro exI [of _ i] exI [of _ h] exI [of _ e] exI [of _ a])
      (auto simp: committed_find [OF c])
qed

text \<open>
  C24. Nothing an analyst wrote in a report is lost: through any sequence of saves and other
  requests, the revisions of every incident are numbered 1, 2, and so on up to the version of its
  report, and the last revision has exactly the report's text and author.
\<close>

theorem report_revisions_complete:
  assumes "revisions_complete db"
  shows "revisions_complete (run_ops workflow_step rs db)"
  using assms by (rule revisions.run_inv)

section \<open>Witnesses\<close>

definition sample_incident :: Incident where
  "sample_incident = \<lparr>in_incident_id = ''inc-1'', in_incident_schema = ''otsoc.incident.record'',
     in_incident_schema_version = ''1.0.0'', in_incident_profile_id = ''otsoc.incident.oil_gas_transfer'',
     in_incident_profile_version = ''1.0.0'', in_incident_profile_sha256 = ''p'',
     in_qualification_rule_id = ''INC-Q-001'', in_qualification_rule_version = ''1.0.0'',
     in_grouping_key_sha256 = ''g'', in_category = COMMUNICATION_POLICY_VIOLATION,
     in_title = ''t'', in_summary = ''s'', in_status = OPEN, in_severity = MEDIUM,
     in_assignee_user_id = None, in_assigned_at = None, in_disposition = UNREVIEWED,
     in_disposition_reason = None, in_disposition_set_by_user_id = None, in_disposition_set_at = None,
     in_primary_evidence_id = ''e'', in_primary_evidence_type = ''communication_policy_finding'',
     in_primary_evidence_schema = ''x'', in_primary_evidence_schema_version = ''1.0.0'',
     in_primary_evidence_integrity_sha256 = ''d'', in_identity_asset_scope = [],
     in_source_asset_id = None, in_destination_asset_id = None, in_controller_asset_id = None,
     in_process_asset_ids = [], in_process_asset_keys = [], in_target_point_ids = [],
     in_correlation_rule_id = None, in_correlation_rule_version = None,
     in_run_scope = ''NO_RUN'', in_configuration_scope = ''NO_CONFIGURATION'',
     in_bound_simulation_id = None, in_bound_configuration_hash = None, in_s3_semantic_evidence_id = None,
     in_grouping_epoch_start = 0, in_first_observed_at = 0, in_last_observed_at = 0,
     in_policy_context = ''DENIED'', in_correlation_context = ''UNAVAILABLE'',
     in_evidence_completeness = ''POLICY_ONLY'', in_version = 1, in_evidence_count = 1,
     in_ground_truth_used = False, in_malicious_intent_inferred = False, in_causality_inferred = False,
     in_created_at = 0, in_updated_at = 0\<rparr>"

definition sample_db :: IncidentDb where
  "sample_db = \<lparr>db_incidents = [sample_incident], db_memberships = [], db_timeline = [],
     db_status_history = [], db_severity_history = [], db_notes = [], db_audit = [], db_reports = [],
     db_revisions = [], db_users = []\<rparr>"

definition sample_actor :: Actor where
  "sample_actor = \<lparr>ac_context = ''analyst'', ac_user_id = Some ''u-1'', ac_request_id = ''r-1''\<rparr>"

lemma sample_found: "find_incident sample_db ''inc-1'' = Some sample_incident"
  by (simp add: find_incident_def sample_db_def sample_incident_def)

lemma sample_version: "incident_version sample_db ''inc-1'' = Some 1"
  by (simp add: incident_version_def sample_found) (simp add: sample_incident_def)

lemma sample_resolves:
  "\<exists>i' db'. transition_incident_status sample_db ''inc-1'' RESOLVED 1 sample_actor (Some ''done'') 5 = Inr (i', db')"
  by (simp add: transition_incident_status_def locked_incident_def sample_found Let_def clean_reason_of_def
      validate_note_text_def unsafe_control_def control_char_def add_row_def append_timeline_entry_def
      append_audit_event_def save_incident_def)
    (simp add: sample_incident_def sample_db_def ALLOWED_TRANSITIONS_def)

theorem stale_request_refused_witness:
  "\<exists>i' db'. analyst_op (Transition RESOLVED sample_actor (Some ''done'') 5) ''inc-1'' 1 sample_db = Inr (i', db') \<and>
     analyst_op (AddNote ''late'' sample_actor 6) ''inc-1'' 1 (run_ops (versioned analyst_op)
       [(AddNote ''ok'' sample_actor 6, ''inc-1'', 2)] db') \<in> Inl ` {VersionConflict, NoteLength, NoteNul,
       NoteControlCharacter, PlainTextLength, PlainTextControlCharacter}"
proof -
  obtain i' db' where
    ok: "analyst_op (Transition RESOLVED sample_actor (Some ''done'') 5) ''inc-1'' 1 sample_db = Inr (i', db')"
    using sample_resolves by auto
  from stale_request_refused [OF ok] ok show ?thesis by blast
qed

theorem audit_trail_gap_free_witness:
  "\<exists>w evs. incident_version (run_ops workflow_step
      [(Inl (Transition RESOLVED sample_actor (Some ''done'') 5), ''inc-1'', 1)] sample_db) ''inc-1'' = Some w \<and>
    map version_span (filter (\<lambda>e. ae_action e \<noteq> REPORT_SAVED) (filter (\<lambda>e. ae_incident_id e = ''inc-1'') evs))
      = map (\<lambda>n. (n, n + 1)) [1..w - 1]"
  using audit_trail_gap_free [OF sample_version] unfolding Let_def by blast

theorem status_history_replays_witness:
  "\<exists>hs i'. replay_status (in_status sample_incident) (filter (\<lambda>h. sh_incident_id h = ''inc-1'') hs) = Some (in_status i') \<and>
    find_incident (run_ops (versioned analyst_op)
      [(Transition RESOLVED sample_actor (Some ''done'') 5, ''inc-1'', 1)] sample_db) ''inc-1'' = Some i'"
  using status_history_replays [OF sample_found] by blast

theorem transition_recorded_witness:
  "\<exists>i' db' h. transition_incident_status sample_db ''inc-1'' RESOLVED 1 sample_actor (Some ''done'') 5 = Inr (i', db') \<and>
     db_status_history db' = db_status_history sample_db @ [h] \<and> in_status i' = RESOLVED"
proof -
  obtain i' db' where
    ok: "transition_incident_status sample_db ''inc-1'' RESOLVED 1 sample_actor (Some ''done'') 5 = Inr (i', db')"
    using sample_resolves by auto
  from transition_recorded [OF ok] ok show ?thesis by blast
qed

theorem report_revisions_complete_witness:
  "revisions_complete (run_ops workflow_step
     [(Inr (SaveReport \<lparr>rf_investigation_summary = ''a'', rf_analyst_assessment = [], rf_evidence_assessment = [],
        rf_process_impact_assessment = [], rf_disposition_rationale = [], rf_recommended_follow_up = [],
        rf_final_conclusion = ''b''\<rparr>
        \<lparr>lu_user_id = ''u-1'', lu_display_name = ''Ann'', lu_role = ''SOC_ANALYST'', lu_active = True\<rparr> ''r-2'' 7),
       ''inc-1'', 0)] sample_db)"
  by (rule report_revisions_complete)
    (simp add: revisions_complete_def saved_version_def find_report_def revisions_of_def sample_db_def)

end
