(* ===== verification/Py_Time.thy ===== *)
theory Py_Time
  imports Py_Std
begin

text \<open>
  Aware datetimes in UTC: the proleptic Gregorian calendar and \<open>datetime.isoformat\<close>. A datetime is
  its number of microseconds since the Unix epoch; the date is computed from the ordinal of its
  day, in which the first of January of year 1 is day 1, the way \<open>datetime\<close> does.
\<close>

definition py_days_before_month :: "int \<Rightarrow> int" where
  "py_days_before_month month = [0, 31, 59, 90, 120, 151, 181, 212, 243, 273, 304, 334] ! nat (month - 1)"

definition py_days_in_month :: "int \<Rightarrow> int" where
  "py_days_in_month month = [31, 28, 31, 30, 31, 30, 31, 31, 30, 31, 30, 31] ! nat (month - 1)"

text \<open>Year, month and day of an ordinal.\<close>

definition ord2ymd :: "int \<Rightarrow> int \<times> int \<times> int" where
  "ord2ymd ordinal =
     (let n = ordinal - 1;
          n400 = n div 146097; n = n mod 146097;
          n100 = n div 36524; n = n mod 36524;
          n4 = n div 1461; n = n mod 1461;
          n1 = n div 365; n = n mod 365;
          year = n400 * 400 + 1 + n100 * 100 + n4 * 4 + n1 in
      if n1 = 4 \<or> n100 = 4 then (year - 1, 12, 31)
      else
      (let leapyear = (n1 = 3 \<and> (n4 \<noteq> 24 \<or> n100 = 3));
           month = (n + 50) div 32;
           preceding = py_days_before_month month + (if month > 2 \<and> leapyear then 1 else 0) in
       if preceding > n
       then
        (let month = month - 1;
             preceding = preceding - (py_days_in_month month + (if month = 2 \<and> leapyear then 1 else 0)) in
         (year, month, n - preceding + 1))
       else (year, month, n - preceding + 1)))"

definition EPOCH_ORDINAL :: int where
  "EPOCH_ORDINAL = 719163"

definition pad_int :: "nat \<Rightarrow> int \<Rightarrow> string" where
  "pad_int width i = (let s = str_int i in replicate (width - length s) CHR ''0'' @ s)"

definition isoformat_utc :: "timestamp \<Rightarrow> string" where
  "isoformat_utc t =
     (let seconds = t div microseconds_per_second; us = t mod microseconds_per_second;
          days = seconds div 86400; rest = seconds mod 86400;
          (year, month, day) = ord2ymd (days + EPOCH_ORDINAL) in
      pad_int 4 year @ ''-'' @ pad_int 2 month @ ''-'' @ pad_int 2 day @ ''T'' @
      pad_int 2 (rest div 3600) @ '':'' @ pad_int 2 (rest div 60 mod 60) @ '':'' @ pad_int 2 (rest mod 60) @
      (if us = 0 then [] else ''.'' @ pad_int 6 us) @ ''+00:00'')"

text \<open>Values of \<open>datetime\<close>: the epoch, a leap day and the last second of a leap year.\<close>

lemma isoformat_epoch: "isoformat_utc 0 = ''1970-01-01T00:00:00+00:00''"
  by code_simp

lemma isoformat_leap_day: "isoformat_utc 1709209845000000 = ''2024-02-29T12:30:45+00:00''"
  by code_simp

lemma isoformat_year_end: "isoformat_utc 978307199000045 = ''2000-12-31T23:59:59.000045+00:00''"
  by code_simp

lemma digits_not_bar: "c \<in> set (pad_int w i) \<Longrightarrow> c \<noteq> CHR ''|''"
proof -
  assume c: "c \<in> set (pad_int w i)"
  have "\<not> py_digit CHR ''|''" by (simp add: py_digit_def)
  then have "\<forall>c \<in> set (str_int i). c \<noteq> CHR ''|''"
    using str_nat_digits by (auto simp: str_int_def)
  with c show ?thesis by (auto simp: pad_int_def Let_def)
qed

lemma isoformat_no_bar: "CHR ''|'' \<notin> set (isoformat_utc t)"
  by (auto simp: isoformat_utc_def Let_def split: prod.splits dest: digits_not_bar)

end
