(* ===== verification/Incident_Service.thy ===== *)
theory Incident_Service
  imports Incident_Analyst Py_Time
begin

text \<open>
  From a qualified candidate to a stored incident: grouping (\<open>app/incidents/grouping.py\<close>), identity
  (\<open>identity.py\<close>), severity (\<open>severity.py\<close>), and creation and enrichment (\<open>service.py\<close>). An
  INSERT with ON CONFLICT DO NOTHING on a named constraint skips the row when that constraint has
  it and raises on any other key.
\<close>

section \<open>Candidates\<close>

record QualifiedIncidentCandidate =
  qc_qualification_rule_id :: string
  qc_qualification_rule_version :: string
  qc_category :: IncidentCategory
  qc_severity :: IncidentSeverity
  qc_title :: string
  qc_summary :: string
  qc_primary_membership :: CandidateMembership
  qc_additional_memberships :: "CandidateMembership list"
  qc_identity_asset_scope :: "string list"
  qc_process_asset_scope :: "string list"
  qc_target_point_scope :: "string list"
  qc_source_asset_id :: "uuid option"
  qc_destination_asset_id :: "uuid option"
  qc_controller_asset_id :: "uuid option"
  qc_process_asset_ids :: "uuid list"
  qc_process_asset_keys :: "string list"
  qc_correlation_rule_id :: "string option"
  qc_correlation_rule_version :: "string option"
  qc_run_scope :: string
  qc_configuration_scope :: string
  qc_bound_simulation_id :: "string option"
  qc_bound_configuration_hash :: "digest option"
  qc_s3_semantic_evidence_id :: "uuid option"
  qc_grouping_anchor :: timestamp
  qc_first_observed_at :: timestamp
  qc_last_observed_at :: timestamp
  qc_policy_context :: string
  qc_correlation_context :: string
  qc_evidence_completeness :: string

definition all_memberships :: "QualifiedIncidentCandidate \<Rightarrow> CandidateMembership list" where
  "all_memberships c = qc_primary_membership c # qc_additional_memberships c"

definition validate_primary_membership :: "QualifiedIncidentCandidate \<Rightarrow> bool" where
  "validate_primary_membership c \<longleftrightarrow>
     cm_role (qc_primary_membership c) = PRIMARY \<and>
     (\<forall>m \<in> set (qc_additional_memberships c). cm_role m \<noteq> PRIMARY) \<and>
     distinct (map cm_evidence_id (all_memberships c))"

section \<open>Grouping and identity\<close>

definition GROUPING_WINDOW_SECONDS :: int where
  "GROUPING_WINDOW_SECONDS = 300"

text \<open>
  \<open>int(anchor.timestamp())\<close> truncates toward zero. The float it truncates is within half a
  microsecond of the instant until the year 2514, so it has the instant's whole seconds.
\<close>

definition unix_seconds :: "timestamp \<Rightarrow> int" where
  "unix_seconds t = (if 0 \<le> t then t div microseconds_per_second else - ((- t) div microseconds_per_second))"

definition grouping_epoch_start :: "timestamp \<Rightarrow> timestamp" where
  "grouping_epoch_start anchor =
     unix_seconds anchor div GROUPING_WINDOW_SECONDS * GROUPING_WINDOW_SECONDS * microseconds_per_second"

definition unresolved_source_scope :: "string \<Rightarrow> string option" where
  "unresolved_source_scope source_identity =
     (if 1 \<le> length source_identity \<and> length source_identity \<le> 80
      then Some (''UNRESOLVED:'' @ sha256_hex (utf8 source_identity)) else None)"

record IncidentProfileKey =
  pk_profile_id :: string
  pk_profile_version :: string
  pk_sha256 :: digest

record IncidentIdentity =
  ii_incident_id :: uuid
  ii_grouping_key_sha256 :: digest
  ii_canonical_name :: string

definition INCIDENT_ID_NAMESPACE :: uuid where
  "INCIDENT_ID_NAMESPACE = ''89b14436-c13d-5f1f-976a-c6dc2240fa7a''"

definition scope_text :: "string list \<Rightarrow> string \<Rightarrow> string" where
  "scope_text scope fallback = (let s = join_with CHR '','' (sort scope) in if s = [] then fallback else s)"

definition identity_parts :: "QualifiedIncidentCandidate \<Rightarrow> IncidentProfileKey \<Rightarrow> timestamp \<Rightarrow> string list" where
  "identity_parts c profile grouping_epoch =
     [pk_profile_id profile, pk_profile_version profile, pk_sha256 profile,
      qc_qualification_rule_id c, qc_qualification_rule_version c, IncidentCategory_value (qc_category c),
      scope_text (qc_identity_asset_scope c) ''NO_IDENTITY_ASSET_SCOPE'',
      scope_text (qc_process_asset_scope c) ''NO_PROCESS_ASSET_SCOPE'',
      scope_text (qc_target_point_scope c) ''NO_TARGET_POINT_SCOPE'',
      qc_run_scope c, qc_configuration_scope c,
      (case qc_s3_semantic_evidence_id c of Some e \<Rightarrow> e | None \<Rightarrow> ''NO_S3_SEMANTIC_SCOPE''),
      isoformat_utc grouping_epoch]"

definition deterministic_incident_identity ::
  "QualifiedIncidentCandidate \<Rightarrow> IncidentProfileKey \<Rightarrow> timestamp \<Rightarrow> IncidentIdentity" where
  "deterministic_incident_identity c profile grouping_epoch =
     (let canonical_name = join_with CHR ''|'' (identity_parts c profile grouping_epoch) in
      \<lparr>ii_incident_id = uuid5 INCIDENT_ID_NAMESPACE canonical_name,
       ii_grouping_key_sha256 = sha256_hex (utf8 canonical_name),
       ii_canonical_name = canonical_name\<rparr>)"

section \<open>Memberships\<close>

definition MEMBERSHIP_ID_NAMESPACE :: uuid where
  "MEMBERSHIP_ID_NAMESPACE = ''a441344d-2a87-5468-9d40-e1f40cff84d2''"

definition membership_row :: "uuid \<Rightarrow> timestamp \<Rightarrow> CandidateMembership \<Rightarrow> IncidentEvidenceMembership" where
  "membership_row incident_id now m =
     \<lparr>ms_membership_id = uuid5 MEMBERSHIP_ID_NAMESPACE (incident_id @ ''|'' @ cm_evidence_id m),
      ms_incident_id = incident_id, ms_evidence_id = cm_evidence_id m,
      ms_evidence_type = cm_evidence_type m, ms_evidence_schema = cm_evidence_schema m,
      ms_evidence_schema_version = cm_evidence_schema_version m,
      ms_integrity_sha256 = cm_integrity_sha256 m, ms_role = cm_role m,
      ms_observed_at = cm_observed_at m, ms_received_at = cm_received_at m, ms_added_at = now\<rparr>"

text \<open>The columns of \<open>uq_incident_evidence_membership\<close>.\<close>

definition membership_key :: "IncidentEvidenceMembership \<Rightarrow> uuid \<times> uuid" where
  "membership_key r = (ms_incident_id r, ms_evidence_id r)"

definition insert_membership ::
  "uuid \<Rightarrow> timestamp \<Rightarrow> CandidateMembership \<Rightarrow> IncidentDb \<Rightarrow> IncidentError + (bool \<times> IncidentDb)" where
  "insert_membership incident_id now m db =
     (let row = membership_row incident_id now m in
      if membership_key row \<in> membership_key ` set (db_memberships db) then Inr (False, db)
      else
      rbind (add_row ms_membership_id row (db_memberships db)) (\<lambda>rows.
      Inr (True, db\<lparr>db_memberships := rows\<rparr>)))"

text \<open>The loop over memberships, with those that were inserted.\<close>

fun insert_memberships ::
  "uuid \<Rightarrow> timestamp \<Rightarrow> CandidateMembership list \<Rightarrow> IncidentDb \<Rightarrow>
   IncidentError + (CandidateMembership list \<times> IncidentDb)" where
  "insert_memberships incident_id now [] db = Inr ([], db)"
| "insert_memberships incident_id now (m # ms) db =
     rbind (insert_membership incident_id now m db) (\<lambda>(inserted, db1).
     rbind (insert_memberships incident_id now ms db1) (\<lambda>(rest, db2).
     Inr (if inserted then m # rest else rest, db2)))"

section \<open>Creation\<close>

definition new_incident ::
  "QualifiedIncidentCandidate \<Rightarrow> IncidentIdentity \<Rightarrow> IncidentProfileKey \<Rightarrow> timestamp \<Rightarrow> timestamp \<Rightarrow> Incident" where
  "new_incident c identity profile epoch now =
     (let primary = qc_primary_membership c in
      \<lparr>in_incident_id = ii_incident_id identity, in_incident_schema = ''otsoc.incident.record'',
       in_incident_schema_version = ''1.0.0'',
       in_incident_profile_id = ''otsoc.incident.oil_gas_transfer'',
       in_incident_profile_version = ''1.0.0'', in_incident_profile_sha256 = pk_sha256 profile,
       in_qualification_rule_id = qc_qualification_rule_id c,
       in_qualification_rule_version = qc_qualification_rule_version c,
       in_grouping_key_sha256 = ii_grouping_key_sha256 identity,
       in_category = qc_category c, in_title = qc_title c, in_summary = qc_summary c,
       in_status = OPEN, in_severity = qc_severity c,
       in_assignee_user_id = None, in_assigned_at = None, in_disposition = UNREVIEWED,
       in_disposition_reason = None, in_disposition_set_by_user_id = None, in_disposition_set_at = None,
       in_primary_evidence_id = cm_evidence_id primary, in_primary_evidence_type = cm_evidence_type primary,
       in_primary_evidence_schema = cm_evidence_schema primary,
       in_primary_evidence_schema_version = cm_evidence_schema_version primary,
       in_primary_evidence_integrity_sha256 = cm_integrity_sha256 primary,
       in_identity_asset_scope = sort (qc_identity_asset_scope c),
       in_source_asset_id = qc_source_asset_id c, in_destination_asset_id = qc_destination_asset_id c,
       in_controller_asset_id = qc_controller_asset_id c,
       in_process_asset_ids = qc_process_asset_ids c, in_process_asset_keys = qc_process_asset_keys c,
       in_target_point_ids = qc_target_point_scope c,
       in_correlation_rule_id = qc_correlation_rule_id c,
       in_correlation_rule_version = qc_correlation_rule_version c,
       in_run_scope = qc_run_scope c, in_configuration_scope = qc_configuration_scope c,
       in_bound_simulation_id = qc_bound_simulation_id c,
       in_bound_configuration_hash = qc_bound_configuration_hash c,
       in_s3_semantic_evidence_id = qc_s3_semantic_evidence_id c,
       in_grouping_epoch_start = epoch, in_first_observed_at = qc_first_observed_at c,
       in_last_observed_at = qc_last_observed_at c, in_policy_context = qc_policy_context c,
       in_correlation_context = qc_correlation_context c,
       in_evidence_completeness = qc_evidence_completeness c,
       in_version = 1, in_evidence_count = 1 + int (length (qc_additional_memberships c)),
       in_ground_truth_used = False, in_malicious_intent_inferred = False, in_causality_inferred = False,
       in_created_at = now, in_updated_at = now\<rparr>)"

definition SEVERITY_HISTORY_ID_NAMESPACE :: uuid where
  "SEVERITY_HISTORY_ID_NAMESPACE = ''d22ac2cd-f1c4-5c4e-bcad-b54a4a222d99''"

definition initial_status_row :: "Incident \<Rightarrow> timestamp \<Rightarrow> string \<Rightarrow> IncidentStatusHistory" where
  "initial_status_row incident now request_id =
     \<lparr>sh_status_history_id = uuid5 STATUS_HISTORY_ID_NAMESPACE
        (join_with CHR ''|'' [in_incident_id incident, ''INITIAL'', ''OPEN'']),
      sh_incident_id = in_incident_id incident, sh_previous_status = None, sh_new_status = OPEN,
      sh_changed_at = now, sh_actor_context = ''SYSTEM'', sh_actor_user_id = None, sh_reason = None,
      sh_request_id = request_id, sh_version_before = 0, sh_version_after = 1\<rparr>"

definition initial_severity_row ::
  "Incident \<Rightarrow> QualifiedIncidentCandidate \<Rightarrow> timestamp \<Rightarrow> IncidentSeverityHistory" where
  "initial_severity_row incident c now =
     \<lparr>vh_severity_history_id = uuid5 SEVERITY_HISTORY_ID_NAMESPACE
        (join_with CHR ''|'' [in_incident_id incident, ''INITIAL'', IncidentSeverity_value (qc_severity c)]),
      vh_incident_id = in_incident_id incident, vh_previous_severity = None, vh_new_severity = qc_severity c,
      vh_triggering_evidence_id = cm_evidence_id (qc_primary_membership c),
      vh_triggering_integrity_sha256 = cm_integrity_sha256 (qc_primary_membership c),
      vh_profile_version = in_incident_profile_version incident,
      vh_rule_version = in_qualification_rule_version incident,
      vh_calculated_at = now, vh_aggregate_version = 1\<rparr>"

definition record_creation ::
  "Incident \<Rightarrow> QualifiedIncidentCandidate \<Rightarrow> timestamp \<Rightarrow> string \<Rightarrow> IncidentDb \<Rightarrow> IncidentError + IncidentDb" where
  "record_creation incident c now request_id db =
     rbind (insert_memberships (in_incident_id incident) now (all_memberships c) db) (\<lambda>(_, db1).
     rbind (add_row sh_status_history_id (initial_status_row incident now request_id) (db_status_history db1)) (\<lambda>statuses.
     rbind (add_row vh_severity_history_id (initial_severity_row incident c now) (db_severity_history db1)) (\<lambda>severities.
     rbind (append_timeline_entry incident
         \<lparr>tr_entry_type = TimelineEntryType.INCIDENT_CREATED, tr_reference_id = in_incident_id incident,
          tr_observed_at = cm_observed_at (qc_primary_membership c), tr_recorded_at = now,
          tr_summary = ''A frozen qualification rule created this analyst investigation container.'',
          tr_actor_context = ''SYSTEM'', tr_aggregate_version = 1, tr_membership = None\<rparr>
         (db1\<lparr>db_status_history := statuses, db_severity_history := severities\<rparr>)) (\<lambda>db2.
     append_audit_event incident
         \<lparr>aq_action = AuditAction.INCIDENT_CREATED, aq_occurred_at = now, aq_actor_context = ''SYSTEM'',
          aq_actor_user_id = None, aq_request_id = request_id,
          aq_safe_reason = Some ''Verified stored evidence satisfied a frozen qualification rule.'',
          aq_version_before = 0, aq_version_after = 1,
          aq_details = [(''qualification_rule_id'', DStr (in_qualification_rule_id incident))]\<rparr> db2))))"

text \<open>
  The two reloads of the code cannot fail here: a row that blocked the insert, or was just
  inserted, is in the same transaction's view.
\<close>

definition insert_or_load_incident ::
  "QualifiedIncidentCandidate \<Rightarrow> IncidentIdentity \<Rightarrow> IncidentProfileKey \<Rightarrow> timestamp \<Rightarrow> timestamp \<Rightarrow> string \<Rightarrow>
   IncidentDb \<Rightarrow> IncidentError + (Incident \<times> bool \<times> IncidentDb)" where
  "insert_or_load_incident c identity profile epoch now request_id db =
     (case find (\<lambda>i. in_grouping_key_sha256 i = ii_grouping_key_sha256 identity) (db_incidents db) of
        Some existing \<Rightarrow>
          if in_incident_id existing \<noteq> ii_incident_id identity then Inl GroupingInconsistent
          else Inr (existing, False, db)
      | None \<Rightarrow>
          (let incident = new_incident c identity profile epoch now in
           rbind (add_row in_incident_id incident (db_incidents db)) (\<lambda>incidents.
           rbind (record_creation incident c now request_id (db\<lparr>db_incidents := incidents\<rparr>)) (\<lambda>db1.
           Inr (incident, True, db1)))))"

section \<open>Severity\<close>

fun SEVERITY_RANK :: "IncidentSeverity \<Rightarrow> int" where
  "SEVERITY_RANK LOW = 1"
| "SEVERITY_RANK MEDIUM = 2"
| "SEVERITY_RANK HIGH = 3"

definition severity_increases :: "IncidentSeverity \<Rightarrow> IncidentSeverity \<Rightarrow> bool" where
  "severity_increases current proposed \<longleftrightarrow> SEVERITY_RANK proposed > SEVERITY_RANK current"

definition severity_row ::
  "Incident \<Rightarrow> IncidentSeverity \<Rightarrow> CandidateMembership \<Rightarrow> timestamp \<Rightarrow> int \<Rightarrow> IncidentSeverityHistory" where
  "severity_row incident proposed trigger calculated_at version_after =
     \<lparr>vh_severity_history_id = uuid5 SEVERITY_HISTORY_ID_NAMESPACE
        (join_with CHR ''|'' [in_incident_id incident, IncidentSeverity_value (in_severity incident),
          IncidentSeverity_value proposed, cm_evidence_id trigger, str_int version_after]),
      vh_incident_id = in_incident_id incident, vh_previous_severity = Some (in_severity incident),
      vh_new_severity = proposed, vh_triggering_evidence_id = cm_evidence_id trigger,
      vh_triggering_integrity_sha256 = cm_integrity_sha256 trigger,
      vh_profile_version = in_incident_profile_version incident,
      vh_rule_version = in_qualification_rule_version incident,
      vh_calculated_at = calculated_at, vh_aggregate_version = version_after\<rparr>"

definition record_severity_escalation ::
  "Incident \<Rightarrow> IncidentSeverity \<Rightarrow> CandidateMembership \<Rightarrow> timestamp \<Rightarrow> string \<Rightarrow> int \<Rightarrow> int \<Rightarrow> IncidentDb \<Rightarrow>
   IncidentError + (Incident \<times> IncidentDb)" where
  "record_severity_escalation incident proposed trigger calculated_at request_id version_before version_after db =
     (if \<not> severity_increases (in_severity incident) proposed then Inr (incident, db)
      else
      (let previous = in_severity incident;
           history = severity_row incident proposed trigger calculated_at version_after;
           changed = incident\<lparr>in_severity := proposed\<rparr> in
       rbind (add_row vh_severity_history_id history (db_severity_history db)) (\<lambda>rows.
       rbind (append_timeline_entry changed
           \<lparr>tr_entry_type = SEVERITY_CHANGED, tr_reference_id = vh_severity_history_id history,
            tr_observed_at = cm_observed_at trigger, tr_recorded_at = calculated_at,
            tr_summary = ''Incident severity increased from '' @ IncidentSeverity_value previous @ '' to '' @
              IncidentSeverity_value proposed @ ''.'',
            tr_actor_context = ''SYSTEM'', tr_aggregate_version = version_after, tr_membership = None\<rparr>
           (db\<lparr>db_severity_history := rows\<rparr>)) (\<lambda>db1.
       rbind (append_audit_event changed
           \<lparr>aq_action = SEVERITY_ESCALATED, aq_occurred_at = calculated_at, aq_actor_context = ''SYSTEM'',
            aq_actor_user_id = None, aq_request_id = request_id,
            aq_safe_reason = Some ''Verified evidence increased investigation priority.'',
            aq_version_before = version_before, aq_version_after = version_after,
            aq_details = [(''previous'', DStr (IncidentSeverity_value previous)),
              (''new'', DStr (IncidentSeverity_value proposed))]\<rparr> db1) (\<lambda>db2.
       Inr (changed, db2))))))"

section \<open>Enrichment\<close>

definition bind_s3_scope ::
  "Incident \<Rightarrow> QualifiedIncidentCandidate \<Rightarrow> IncidentError + (Incident \<times> bool)" where
  "bind_s3_scope incident c =
     (case (qc_bound_simulation_id c, qc_bound_configuration_hash c) of
        (None, None) \<Rightarrow> Inr (incident, False)
      | (Some incoming_run, Some incoming_config) \<Rightarrow>
          if in_bound_simulation_id incident = None \<and> in_bound_configuration_hash incident = None
          then Inr (incident\<lparr>in_bound_simulation_id := Some incoming_run,
                 in_bound_configuration_hash := Some incoming_config\<rparr>, True)
          else if in_bound_simulation_id incident \<noteq> Some incoming_run \<or>
                  in_bound_configuration_hash incident \<noteq> Some incoming_config
          then Inl BoundScopeMixed
          else Inr (incident, False)
      | _ \<Rightarrow> Inl BindingIncomplete)"

definition requires_separate_bound_scope :: "Incident \<Rightarrow> QualifiedIncidentCandidate \<Rightarrow> bool" where
  "requires_separate_bound_scope incident c \<longleftrightarrow>
     qc_bound_simulation_id c \<noteq> None \<and> qc_bound_configuration_hash c \<noteq> None \<and>
     in_bound_simulation_id incident \<noteq> None \<and> in_bound_configuration_hash incident \<noteq> None \<and>
     (in_bound_simulation_id incident \<noteq> qc_bound_simulation_id c \<or>
      in_bound_configuration_hash incident \<noteq> qc_bound_configuration_hash c)"

text \<open>Evidence that is PRIMARY for the candidate but not for the incident supports it.\<close>

definition effective_membership :: "Incident \<Rightarrow> CandidateMembership \<Rightarrow> CandidateMembership" where
  "effective_membership incident m =
     (if cm_role m = PRIMARY \<and> cm_evidence_id m \<noteq> in_primary_evidence_id incident
      then m\<lparr>cm_role := SUPPORTING\<rparr> else m)"

text \<open>
  The merge of two zips into one dictionary, read back in key order; zips of unequal lengths
  raise.
\<close>

definition merged_process ::
  "Incident \<Rightarrow> QualifiedIncidentCandidate \<Rightarrow> IncidentError + (string list \<times> uuid list)" where
  "merged_process incident c =
     (if length (in_process_asset_keys incident) \<noteq> length (in_process_asset_ids incident) \<or>
         length (qc_process_asset_keys c) \<noteq> length (qc_process_asset_ids c)
      then Inl ProcessAssetsMismatch
      else
      (let process = zip (in_process_asset_keys incident) (in_process_asset_ids incident) @
             zip (qc_process_asset_keys c) (qc_process_asset_ids c);
           keys = sort (remdups (map fst process)) in
       Inr (keys, List.map_filter (\<lambda>key. map_option snd (dict_of fst process key)) keys)))"

definition enriched_incident ::
  "Incident \<Rightarrow> QualifiedIncidentCandidate \<Rightarrow> nat \<Rightarrow> string list \<times> uuid list \<Rightarrow> timestamp \<Rightarrow> Incident" where
  "enriched_incident incident c inserted process now =
     incident\<lparr>in_version := in_version incident + 1, in_updated_at := now,
       in_evidence_count := in_evidence_count incident + int inserted,
       in_first_observed_at := min (in_first_observed_at incident) (qc_first_observed_at c),
       in_last_observed_at := max (in_last_observed_at incident) (qc_last_observed_at c),
       in_policy_context := qc_policy_context c, in_correlation_context := qc_correlation_context c,
       in_evidence_completeness := qc_evidence_completeness c,
       in_process_asset_keys := fst process, in_process_asset_ids := snd process,
       in_target_point_ids := sort (remdups (in_target_point_ids incident @ qc_target_point_scope c))\<rparr>"

fun record_added ::
  "Incident \<Rightarrow> int \<Rightarrow> timestamp \<Rightarrow> string \<Rightarrow> CandidateMembership list \<Rightarrow> IncidentDb \<Rightarrow> IncidentError + IncidentDb" where
  "record_added incident before now request_id [] db = Inr db"
| "record_added incident before now request_id (m # ms) db =
     rbind (append_timeline_entry incident
         \<lparr>tr_entry_type = EVIDENCE_ADDED, tr_reference_id = cm_evidence_id m,
          tr_observed_at = cm_observed_at m, tr_recorded_at = now,
          tr_summary = ''Compatible verified evidence was added to this investigation container.'',
          tr_actor_context = ''SYSTEM'', tr_aggregate_version = before + 1, tr_membership = Some m\<rparr> db) (\<lambda>db1.
     rbind (append_audit_event incident
         \<lparr>aq_action = EVIDENCE_ENRICHED, aq_occurred_at = now, aq_actor_context = ''SYSTEM'',
          aq_actor_user_id = None, aq_request_id = request_id,
          aq_safe_reason = Some ''Verified evidence matched the deterministic incident grouping scope.'',
          aq_version_before = before, aq_version_after = before + 1,
          aq_details = [(''evidence_id'', DStr (cm_evidence_id m)), (''role'', DStr (EvidenceRole_value (cm_role m)))]\<rparr>
         db1) (\<lambda>db2.
     record_added incident before now request_id ms db2))"

definition escalation_trigger :: "CandidateMembership list \<Rightarrow> QualifiedIncidentCandidate \<Rightarrow> CandidateMembership" where
  "escalation_trigger inserted c =
     (case find (\<lambda>m. cm_evidence_type m = ''correlation_finding'') inserted of
        Some m \<Rightarrow> m | None \<Rightarrow> qc_primary_membership c)"

datatype Outcome = created | existing | enriched | evidence_only

text \<open>The second half of \<open>_enrich_incident\<close>, when there is something to record.\<close>

definition apply_enrichment ::
  "Incident \<Rightarrow> QualifiedIncidentCandidate \<Rightarrow> CandidateMembership list \<Rightarrow> timestamp \<Rightarrow> string \<Rightarrow> IncidentDb \<Rightarrow>
   IncidentError + (Incident \<times> IncidentDb)" where
  "apply_enrichment bound c inserted now request_id db =
     rbind (merged_process bound c) (\<lambda>process.
     (let before = in_version bound;
          changed = enriched_incident bound c (length inserted) process now in
      rbind (record_added changed before now request_id inserted db) (\<lambda>db1.
      rbind (if severity_increases (in_severity bound) (qc_severity c)
             then record_severity_escalation changed (qc_severity c) (escalation_trigger inserted c) now
                    request_id before (before + 1) db1
             else Inr (changed, db1)) (\<lambda>(final, db2).
      Inr (final, save_incident final db2)))))"

definition enrich_incident ::
  "Incident \<Rightarrow> QualifiedIncidentCandidate \<Rightarrow> timestamp \<Rightarrow> string \<Rightarrow> IncidentDb \<Rightarrow>
   IncidentError + (Outcome \<times> Incident \<times> IncidentDb)" where
  "enrich_incident incident c now request_id db =
     (if in_qualification_rule_id incident \<noteq> qc_qualification_rule_id c then Inl RuleMismatch
      else
      rbind (insert_memberships (in_incident_id incident) now
          (map (effective_membership incident) (all_memberships c)) db) (\<lambda>(inserted, db1).
      rbind (bind_s3_scope incident c) (\<lambda>(bound, binding_changed).
      if inserted = [] \<and> \<not> binding_changed \<and> \<not> severity_increases (in_severity bound) (qc_severity c)
      then Inr (existing, bound, db1)
      else
      rbind (apply_enrichment bound c inserted now request_id db1) (\<lambda>(final, db2).
      Inr (enriched, final, db2)))))"

section \<open>Qualification of a candidate\<close>

text \<open>
  \<open>qualify_stored_evidence\<close> from the point where it has a candidate: the outcome, the incident
  and the database.
\<close>

definition separate_scope :: "QualifiedIncidentCandidate \<Rightarrow> QualifiedIncidentCandidate" where
  "separate_scope c = c\<lparr>qc_run_scope := the (qc_bound_simulation_id c),
     qc_configuration_scope := the (qc_bound_configuration_hash c)\<rparr>"

definition finish_candidate ::
  "timestamp \<Rightarrow> string \<Rightarrow> QualifiedIncidentCandidate \<Rightarrow> Incident \<times> bool \<times> IncidentDb \<Rightarrow>
   IncidentError + (Outcome \<times> Incident \<times> IncidentDb)" where
  "finish_candidate now request_id c loaded =
     (case loaded of (incident, was_created, db) \<Rightarrow>
        if was_created then Inr (created, incident, db)
        else enrich_incident incident c now request_id db)"

definition record_candidate ::
  "IncidentProfileKey \<Rightarrow> timestamp \<Rightarrow> string \<Rightarrow> QualifiedIncidentCandidate \<Rightarrow> IncidentDb \<Rightarrow>
   IncidentError + (Outcome \<times> Incident \<times> IncidentDb)" where
  "record_candidate profile now request_id c db =
     (let epoch = grouping_epoch_start (qc_grouping_anchor c);
          load = (\<lambda>c. insert_or_load_incident c (deterministic_incident_identity c profile epoch) profile epoch now request_id) in
      rbind (load c db) (\<lambda>(incident, was_created, db1).
      if \<not> was_created \<and> requires_separate_bound_scope incident c
      then rbind (load (separate_scope c) db1) (finish_candidate now request_id (separate_scope c))
      else finish_candidate now request_id c (incident, was_created, db1)))"

definition outcome_reason :: "Outcome \<Rightarrow> string" where
  "outcome_reason outcome =
     (case outcome of
        created \<Rightarrow> ''A frozen qualification rule created a deterministic incident.''
      | enriched \<Rightarrow> ''The deterministic incident was enriched with compatible verified evidence.''
      | existing \<Rightarrow> ''The deterministic incident and memberships already existed.''
      | evidence_only \<Rightarrow> ''Verified evidence does not satisfy a frozen incident qualification rule.'')"

end
