(* ===== verification/Incident_Invariant.thy ===== *)
theory Incident_Invariant
  imports Incident_Service
begin

text \<open>
  The invariant of the incident tables and what qualification guarantees: identifiers and grouping
  keys are unique, the evidence count is the number of memberships, exactly one membership is
  primary, and the status and severity of every incident are what its histories replay to. Every
  operation of the service and of the analysts keeps it.
\<close>

section \<open>Effect of the membership loop\<close>

lemma membership_row_sel [simp]:
  "ms_incident_id (membership_row k now m) = k" "ms_evidence_id (membership_row k now m) = cm_evidence_id m"
  "ms_role (membership_row k now m) = cm_role m"
  "membership_key (membership_row k now m) = (k, cm_evidence_id m)"
  by (simp_all add: membership_row_def membership_key_def)

definition unlinked :: "IncidentDb \<Rightarrow> uuid \<Rightarrow> CandidateMembership list \<Rightarrow> CandidateMembership list" where
  "unlinked db k ms = filter (\<lambda>m. (k, cm_evidence_id m) \<notin> membership_key ` set (db_memberships db)) ms"

lemma insert_membership_cases:
  assumes "insert_membership k now m db = Inr (b, db')"
  shows "if (k, cm_evidence_id m) \<in> membership_key ` set (db_memberships db) then \<not> b \<and> db' = db
    else b \<and> db' = db\<lparr>db_memberships := db_memberships db @ [membership_row k now m]\<rparr>"
  using assms by (auto simp: insert_membership_def Let_def result_split split: if_splits)

lemma insert_memberships_effect:
  assumes "insert_memberships k now ms db = Inr (ins, db')" and "distinct (map cm_evidence_id ms)"
  shows "ins = unlinked db k ms \<and>
    db' = db\<lparr>db_memberships := db_memberships db @ map (membership_row k now) ins\<rparr>"
  using assms
proof (induction ms arbitrary: db ins db')
  case Nil
  then show ?case by (simp add: unlinked_def)
next
  case (Cons m ms)
  from Cons.prems(1) obtain b db1 rest where one: "insert_membership k now m db = Inr (b, db1)"
    and more: "insert_memberships k now ms db1 = Inr (rest, db')" and ins: "ins = (if b then m # rest else rest)"
    by (auto simp: result_split)
  have IH: "rest = unlinked db1 k ms"
      "db' = db1\<lparr>db_memberships := db_memberships db1 @ map (membership_row k now) rest\<rparr>"
    using Cons.IH [OF more] Cons.prems(2) by auto
  note eff = insert_membership_cases [OF one]
  have "\<forall>x \<in> set ms. cm_evidence_id x \<noteq> cm_evidence_id m"
    using Cons.prems(2) by (metis distinct.simps(2) image_eqI list.map(2) list.set_map)
  then have "unlinked db1 k ms = unlinked db k ms"
    using eff by (auto simp: unlinked_def split: if_splits intro!: filter_cong)
  with IH eff ins show ?case by (auto simp: unlinked_def split: if_splits)
qed

lemma unlinked_subset: "set (unlinked db k ms) \<subseteq> set ms"
  by (auto simp: unlinked_def)

lemma distinct_new_memberships:
  assumes "distinct (map membership_key (db_memberships db))" and "distinct (map cm_evidence_id ms)"
  shows "distinct (map membership_key (db_memberships db @ map (membership_row k now) (unlinked db k ms)))"
proof -
  have "distinct (map cm_evidence_id (unlinked db k ms))"
    using assms(2) by (simp add: unlinked_def distinct_map_filter)
  then have "distinct (map (\<lambda>m. (k, cm_evidence_id m)) (unlinked db k ms))"
    by (simp add: distinct_map inj_on_def)
  with assms(1) show ?thesis by (auto simp: o_def unlinked_def)
qed

section \<open>The invariant\<close>

definition members_of :: "IncidentDb \<Rightarrow> uuid \<Rightarrow> IncidentEvidenceMembership list" where
  "members_of db k = filter (\<lambda>m. ms_incident_id m = k) (db_memberships db)"

definition statuses_of :: "IncidentDb \<Rightarrow> uuid \<Rightarrow> IncidentStatusHistory list" where
  "statuses_of db k = filter (\<lambda>h. sh_incident_id h = k) (db_status_history db)"

definition severities_of :: "IncidentDb \<Rightarrow> uuid \<Rightarrow> IncidentSeverityHistory list" where
  "severities_of db k = filter (\<lambda>h. vh_incident_id h = k) (db_severity_history db)"

fun replay_severity :: "IncidentSeverity \<Rightarrow> IncidentSeverityHistory list \<Rightarrow> IncidentSeverity option" where
  "replay_severity s [] = Some s"
| "replay_severity s (h # hs) =
     (if vh_previous_severity h = Some s \<and> severity_increases s (vh_new_severity h)
      then replay_severity (vh_new_severity h) hs else None)"

lemma replay_severity_append:
  "replay_severity s hs = Some t \<Longrightarrow> replay_severity s (hs @ hs') = replay_severity t hs'"
  by (induction hs arbitrary: s) (auto split: if_splits)

text \<open>A history that starts with a row without predecessor and replays to the current value.\<close>

definition status_explained :: "IncidentStatusHistory list \<Rightarrow> IncidentStatus \<Rightarrow> bool" where
  "status_explained rows s = (case rows of [] \<Rightarrow> False
     | h # hs \<Rightarrow> sh_previous_status h = None \<and> sh_new_status h = OPEN \<and> replay_status OPEN hs = Some s)"

definition severity_explained :: "IncidentSeverityHistory list \<Rightarrow> IncidentSeverity \<Rightarrow> bool" where
  "severity_explained rows s = (case rows of [] \<Rightarrow> False
     | h # hs \<Rightarrow> vh_previous_severity h = None \<and> replay_severity (vh_new_severity h) hs = Some s)"

definition one_primary :: "IncidentEvidenceMembership list \<Rightarrow> uuid \<Rightarrow> bool" where
  "one_primary ms e \<longleftrightarrow> map ms_evidence_id (filter (\<lambda>m. ms_role m = PRIMARY) ms) = [e]"

definition incident_wf :: "IncidentDb \<Rightarrow> Incident \<Rightarrow> bool" where
  "incident_wf db i \<longleftrightarrow>
     in_evidence_count i = int (length (members_of db (in_incident_id i))) \<and>
     one_primary (members_of db (in_incident_id i)) (in_primary_evidence_id i) \<and>
     status_explained (statuses_of db (in_incident_id i)) (in_status i) \<and>
     severity_explained (severities_of db (in_incident_id i)) (in_severity i) \<and>
     1 \<le> in_version i"

definition db_wf :: "IncidentDb \<Rightarrow> bool" where
  "db_wf db \<longleftrightarrow>
     distinct (map in_incident_id (db_incidents db)) \<and>
     distinct (map in_grouping_key_sha256 (db_incidents db)) \<and>
     distinct (map membership_key (db_memberships db)) \<and>
     (\<forall>m \<in> set (db_memberships db). ms_incident_id m \<in> in_incident_id ` set (db_incidents db)) \<and>
     (\<forall>h \<in> set (db_status_history db). sh_incident_id h \<in> in_incident_id ` set (db_incidents db)) \<and>
     (\<forall>h \<in> set (db_severity_history db). vh_incident_id h \<in> in_incident_id ` set (db_incidents db)) \<and>
     (\<forall>i \<in> set (db_incidents db). incident_wf db i)"

lemma db_wf_find: "db_wf db \<Longrightarrow> i \<in> set (db_incidents db) \<Longrightarrow> find_incident db (in_incident_id i) = Some i"
proof -
  assume wf: "db_wf db" and i: "i \<in> set (db_incidents db)"
  have "find_incident db (in_incident_id i) \<noteq> None"
    unfolding find_incident_def find_eq_None_iff using i by blast
  then obtain j where j: "find_incident db (in_incident_id i) = Some j" by blast
  then have "j \<in> set (db_incidents db)" "in_incident_id j = in_incident_id i"
    by (auto dest: find_incident_SomeD)
  with wf i j show ?thesis by (auto simp: db_wf_def distinct_map inj_on_def)
qed

text \<open>
  One incident changes and rows of that incident are appended: the other incidents stay as
  they were.
\<close>

definition incident_change ::
  "IncidentDb \<Rightarrow> IncidentDb \<Rightarrow> uuid \<Rightarrow> Incident \<Rightarrow> Incident \<Rightarrow> IncidentEvidenceMembership list \<Rightarrow>
   IncidentStatusHistory list \<Rightarrow> IncidentSeverityHistory list \<Rightarrow> bool" where
  "incident_change db db' k i i' ms hs vs \<longleftrightarrow>
     find_incident db k = Some i \<and> in_incident_id i' = k \<and> in_grouping_key_sha256 i' = in_grouping_key_sha256 i \<and>
     db_incidents db' = db_incidents (save_incident i' db) \<and>
     db_memberships db' = db_memberships db @ ms \<and> db_status_history db' = db_status_history db @ hs \<and>
     db_severity_history db' = db_severity_history db @ vs \<and>
     (\<forall>m \<in> set ms. ms_incident_id m = k) \<and> (\<forall>h \<in> set hs. sh_incident_id h = k) \<and>
     (\<forall>h \<in> set vs. vh_incident_id h = k)"

lemma change_rows:
  assumes "incident_change db db' k i i' ms hs vs"
  shows "members_of db' k' = members_of db k' @ (if k' = k then ms else [])"
    "statuses_of db' k' = statuses_of db k' @ (if k' = k then hs else [])"
    "severities_of db' k' = severities_of db k' @ (if k' = k then vs else [])"
  using assms by (auto simp: incident_change_def members_of_def statuses_of_def severities_of_def
      filter_id_conv filter_empty_conv)

lemma change_keys:
  assumes c: "incident_change db db' k i i' ms hs vs" and wf: "db_wf db"
  shows "map in_incident_id (db_incidents db') = map in_incident_id (db_incidents db)"
    "map in_grouping_key_sha256 (db_incidents db') = map in_grouping_key_sha256 (db_incidents db)"
proof -
  from c have i': "in_incident_id i' = k" "in_grouping_key_sha256 i' = in_grouping_key_sha256 i"
    and was: "find_incident db k = Some i"
    and "db_incidents db' = map (\<lambda>j. if in_incident_id j = k then i' else j) (db_incidents db)"
    by (auto simp: incident_change_def save_incident_def)
  moreover have "j \<in> set (db_incidents db) \<Longrightarrow> in_incident_id j = k \<Longrightarrow> j = i" for j
    using db_wf_find [OF wf, of j] was by simp
  ultimately show "map in_incident_id (db_incidents db') = map in_incident_id (db_incidents db)"
    "map in_grouping_key_sha256 (db_incidents db') = map in_grouping_key_sha256 (db_incidents db)"
    by auto
qed

lemma db_wf_change:
  assumes c: "incident_change db db' k i i' ms hs vs" and wf: "db_wf db"
    and "distinct (map membership_key (db_memberships db'))" and "incident_wf db' i'"
  shows "db_wf db'"
proof -
  note keys = change_keys [OF c wf]
  have ids: "in_incident_id ` set (db_incidents db') = in_incident_id ` set (db_incidents db)"
    using keys(1) by (metis list.set_map)
  have k: "k \<in> in_incident_id ` set (db_incidents db)"
    using c find_incident_SomeD [of db k i] by (auto simp: incident_change_def)
  have incidents: "db_incidents db' = map (\<lambda>j. if in_incident_id j = k then i' else j) (db_incidents db)"
    using c by (auto simp: incident_change_def save_incident_def)
  have "incident_wf db' j" if "j \<in> set (db_incidents db)" "in_incident_id j \<noteq> k" for j
    using wf that by (simp add: db_wf_def incident_wf_def change_rows [OF c])
  then have all: "\<forall>j \<in> set (db_incidents db'). incident_wf db' j"
    using assms(4) by (auto simp: incidents)
  from wf have old: "distinct (map in_incident_id (db_incidents db))"
      "distinct (map in_grouping_key_sha256 (db_incidents db))"
    by (simp_all add: db_wf_def)
  show ?thesis
    unfolding db_wf_def keys ids
    using assms(3) all old wf k c by (auto simp: db_wf_def incident_change_def)
qed

lemma committed_change:
  assumes "committed k v db i' db'"
  obtains i hs where "incident_change db db' k i i' [] hs []" "status_move i hs i'" "analyst_update i i'"
proof -
  from assms obtain i hs where "find_incident db k = Some i" "analyst_update i i'"
    "audited k v i' db db'" "db_status_history db' = db_status_history db @ hs" "status_move i hs i'"
    by (auto simp: committed_def)
  moreover from this have "incident_change db db' k i i' [] hs []"
    using status_move_ids [of i hs i'] by (auto simp: incident_change_def audited_def analyst_update_sel
        dest: find_incident_SomeD)
  ultimately show thesis using that by blast
qed

lemma status_explained_append:
  assumes "status_explained rows s" and "replay_status s hs = Some t"
  shows "status_explained (rows @ hs) t"
  using assms by (cases rows) (auto simp: status_explained_def replay_status_append)

lemma severity_explained_append:
  assumes "severity_explained rows s" and "replay_severity s vs = Some t"
  shows "severity_explained (rows @ vs) t"
  using assms by (cases rows) (auto simp: severity_explained_def replay_severity_append)

lemma change_was: "incident_change db db' k i i' ms hs vs \<Longrightarrow> db_wf db \<Longrightarrow>
    incident_wf db i \<and> in_incident_id i = k \<and> in_incident_id i' = k"
  by (auto simp: incident_change_def db_wf_def dest: find_incident_SomeD)

lemma committed_wf:
  assumes c: "committed k v db i' db'" and wf: "db_wf db"
  shows "db_wf db'"
proof -
  from c obtain i hs where ch: "incident_change db db' k i i' [] hs []"
    and mv: "status_move i hs i'" and up: "analyst_update i i'"
    by (rule committed_change)
  note was = change_was [OF ch wf]
  have "filter (\<lambda>h. sh_incident_id h = k) hs = hs"
    using status_move_ids [OF mv] was by (simp add: filter_id_conv)
  then have "replay_status (in_status i) hs = Some (in_status i')"
    using status_move_replay [OF mv, of k] was by simp
  then have "incident_wf db' i'"
    using was status_explained_append [of "statuses_of db k" "in_status i" hs]
    by (auto simp: incident_wf_def change_rows [OF ch] analyst_update_sel [OF up])
  moreover have "db_memberships db' = db_memberships db" using ch by (simp add: incident_change_def)
  ultimately show ?thesis
    using db_wf_change [OF ch wf] wf by (simp add: db_wf_def)
qed

section \<open>Creation\<close>

definition candidate_created ::
  "IncidentDb \<Rightarrow> QualifiedIncidentCandidate \<Rightarrow> Incident \<Rightarrow> timestamp \<Rightarrow> IncidentDb \<Rightarrow> bool" where
  "candidate_created db c i now db' \<longleftrightarrow> (\<exists>request_id.
     in_incident_id i \<notin> in_incident_id ` set (db_incidents db) \<and>
     in_grouping_key_sha256 i \<notin> in_grouping_key_sha256 ` set (db_incidents db) \<and>
     db_incidents db' = db_incidents db @ [i] \<and>
     (\<exists>ins db1. insert_memberships (in_incident_id i) now (all_memberships c)
          (db\<lparr>db_incidents := db_incidents db @ [i]\<rparr>) = Inr (ins, db1) \<and>
        db_memberships db' = db_memberships db1) \<and>
     db_status_history db' = db_status_history db @ [initial_status_row i now request_id] \<and>
     db_severity_history db' = db_severity_history db @ [initial_severity_row i c now] \<and>
     db_reports db' = db_reports db \<and> db_revisions db' = db_revisions db \<and>
     prefix (db_audit db) (db_audit db'))"

lemma insert_memberships_frame:
  "insert_memberships k now ms db = Inr (ins, db') \<Longrightarrow> \<exists>rows. db' = db\<lparr>db_memberships := rows\<rparr>"
proof (induction ms arbitrary: db ins db')
  case Nil
  then show ?case by (simp add: exI [of _ "db_memberships db"])
next
  case (Cons m ms)
  then obtain b db1 rest where one: "insert_membership k now m db = Inr (b, db1)"
    and more: "insert_memberships k now ms db1 = Inr (rest, db')"
    by (auto simp: result_split)
  have "\<exists>rows. db1 = db\<lparr>db_memberships := rows\<rparr>"
    using insert_membership_cases [OF one] by (auto split: if_splits intro: exI [of _ "db_memberships db"])
  then show ?case using Cons.IH [OF more] by auto
qed

lemma record_creation_effect:
  assumes "record_creation i c now request_id db = Inr db'"
  shows "\<exists>ins db1. insert_memberships (in_incident_id i) now (all_memberships c) db = Inr (ins, db1) \<and>
    db_memberships db' = db_memberships db1 \<and> db_incidents db' = db_incidents db \<and>
    db_status_history db' = db_status_history db @ [initial_status_row i now request_id] \<and>
    db_severity_history db' = db_severity_history db @ [initial_severity_row i c now] \<and>
    db_reports db' = db_reports db \<and> db_revisions db' = db_revisions db \<and>
    prefix (db_audit db) (db_audit db')"
proof -
  from assms obtain ins db1 where ins: "insert_memberships (in_incident_id i) now (all_memberships c) db = Inr (ins, db1)"
    and rest: "db_memberships db' = db_memberships db1" "db_incidents db' = db_incidents db1"
      "db_status_history db' = db_status_history db1 @ [initial_status_row i now request_id]"
      "db_severity_history db' = db_severity_history db1 @ [initial_severity_row i c now]"
      "db_reports db' = db_reports db1" "db_revisions db' = db_revisions db1"
      "prefix (db_audit db1) (db_audit db')"
    by (auto simp: record_creation_def result_split)
  have "db_incidents db1 = db_incidents db" "db_status_history db1 = db_status_history db"
    "db_severity_history db1 = db_severity_history db" "db_reports db1 = db_reports db"
    "db_revisions db1 = db_revisions db" "db_audit db1 = db_audit db"
    using insert_memberships_frame [OF ins] by auto
  with ins rest show ?thesis by auto
qed

lemma load_cases:
  assumes "insert_or_load_incident c identity profile epoch now request_id db = Inr (i, was_created, db')"
  shows "if was_created then i = new_incident c identity profile epoch now \<and> candidate_created db c i now db'
    else db' = db \<and> i \<in> set (db_incidents db) \<and> in_incident_id i = ii_incident_id identity \<and>
      in_grouping_key_sha256 i = ii_grouping_key_sha256 identity"
proof (cases "find (\<lambda>i. in_grouping_key_sha256 i = ii_grouping_key_sha256 identity) (db_incidents db)")
  case (Some j)
  with assms show ?thesis
    using find_eq_Some_iff [OF Some] by (auto simp: insert_or_load_incident_def split: if_splits)
next
  case None
  then have key: "in_grouping_key_sha256 (new_incident c identity profile epoch now)
      \<notin> in_grouping_key_sha256 ` set (db_incidents db)"
    by (auto simp: new_incident_def Let_def find_eq_None_iff)
  from assms None have i: "i = new_incident c identity profile epoch now" and cr: was_created
    and fresh: "in_incident_id i \<notin> in_incident_id ` set (db_incidents db)"
    and rec: "record_creation i c now request_id (db\<lparr>db_incidents := db_incidents db @ [i]\<rparr>) = Inr db'"
    by (auto simp: insert_or_load_incident_def Let_def result_split)
  show ?thesis
    using record_creation_effect [OF rec] fresh key i cr by (auto simp: candidate_created_def)
qed

lemma new_incident_sel:
  "in_evidence_count (new_incident c identity profile epoch now) = int (length (all_memberships c))"
  "in_primary_evidence_id (new_incident c identity profile epoch now) = cm_evidence_id (qc_primary_membership c)"
  "in_status (new_incident c identity profile epoch now) = OPEN"
  "in_severity (new_incident c identity profile epoch now) = qc_severity c"
  "in_version (new_incident c identity profile epoch now) = 1"
  "in_bound_simulation_id (new_incident c identity profile epoch now) = qc_bound_simulation_id c"
  "in_bound_configuration_hash (new_incident c identity profile epoch now) = qc_bound_configuration_hash c"
  "in_qualification_rule_id (new_incident c identity profile epoch now) = qc_qualification_rule_id c"
  "in_incident_id (new_incident c identity profile epoch now) = ii_incident_id identity"
  "in_grouping_key_sha256 (new_incident c identity profile epoch now) = ii_grouping_key_sha256 identity"
  by (simp_all add: new_incident_def Let_def all_memberships_def)

lemma no_members:
  assumes "db_wf db" "k \<notin> in_incident_id ` set (db_incidents db)"
  shows "members_of db k = []" "statuses_of db k = []" "severities_of db k = []" "unlinked db k ms = ms"
proof -
  have "\<forall>m \<in> set (db_memberships db). ms_incident_id m \<noteq> k" "\<forall>h \<in> set (db_status_history db). sh_incident_id h \<noteq> k"
    "\<forall>h \<in> set (db_severity_history db). vh_incident_id h \<noteq> k"
    using assms by (auto simp: db_wf_def)
  then show "members_of db k = []" "statuses_of db k = []" "severities_of db k = []" "unlinked db k ms = ms"
    by (auto simp: members_of_def statuses_of_def severities_of_def unlinked_def filter_empty_conv
        filter_id_conv membership_key_def)
qed

lemma created_rows:
  assumes cr: "candidate_created db c i now db'" and wf: "db_wf db" and valid: "validate_primary_membership c"
  shows "db_memberships db' = db_memberships db @ map (membership_row (in_incident_id i) now) (all_memberships c)"
proof -
  from cr obtain ins db1 where ins: "insert_memberships (in_incident_id i) now (all_memberships c)
      (db\<lparr>db_incidents := db_incidents db @ [i]\<rparr>) = Inr (ins, db1)"
    and ms: "db_memberships db' = db_memberships db1"
    and fresh: "in_incident_id i \<notin> in_incident_id ` set (db_incidents db)"
    by (auto simp: candidate_created_def)
  have "distinct (map cm_evidence_id (all_memberships c))"
    using valid by (simp add: validate_primary_membership_def)
  from insert_memberships_effect [OF ins this]
  have "db_memberships db1 = db_memberships db @ map (membership_row (in_incident_id i) now)
      (unlinked db (in_incident_id i) (all_memberships c))"
    by (simp add: unlinked_def)
  with ms no_members(4) [OF wf fresh] show ?thesis by simp
qed

lemma created_wf:
  assumes cr: "candidate_created db c i now db'" and i: "i = new_incident c identity profile epoch now"
    and wf: "db_wf db" and valid: "validate_primary_membership c"
  shows "db_wf db'"
proof -
  let ?k = "in_incident_id i"
  from cr obtain request_id where fresh: "?k \<notin> in_incident_id ` set (db_incidents db)"
      "in_grouping_key_sha256 i \<notin> in_grouping_key_sha256 ` set (db_incidents db)"
    and tables: "db_incidents db' = db_incidents db @ [i]"
      "db_status_history db' = db_status_history db @ [initial_status_row i now request_id]"
      "db_severity_history db' = db_severity_history db @ [initial_severity_row i c now]"
    by (auto simp: candidate_created_def)
  note rows = created_rows [OF cr wf valid]
  note none = no_members [OF wf fresh(1)]
  note sel = new_incident_sel(1-5) [of c identity profile epoch now, folded i]
  have own: "members_of db' k = members_of db k @ (if k = ?k then map (membership_row ?k now) (all_memberships c) else [])"
    "statuses_of db' k = statuses_of db k @ (if k = ?k then [initial_status_row i now request_id] else [])"
    "severities_of db' k = severities_of db k @ (if k = ?k then [initial_severity_row i c now] else [])" for k
    by (auto simp: members_of_def statuses_of_def severities_of_def rows tables initial_status_row_def
        initial_severity_row_def filter_id_conv filter_empty_conv)
  have "filter (\<lambda>m. cm_role m = PRIMARY) (all_memberships c) = [qc_primary_membership c]"
    using valid by (auto simp: validate_primary_membership_def all_memberships_def filter_empty_conv)
  then have "one_primary (map (membership_row ?k now) (all_memberships c)) (in_primary_evidence_id i)"
    by (simp add: one_primary_def filter_map o_def sel)
  then have new: "incident_wf db' i"
    by (simp add: incident_wf_def own none sel status_explained_def severity_explained_def
        initial_status_row_def initial_severity_row_def)
  have old: "incident_wf db' j" if "j \<in> set (db_incidents db)" for j
  proof -
    have "in_incident_id j \<noteq> ?k" using that fresh(1) by (metis image_eqI)
    with wf that show ?thesis by (simp add: db_wf_def incident_wf_def own)
  qed
  have "distinct (map membership_key (db_memberships db'))"
    using distinct_new_memberships [of db "all_memberships c" ?k now] wf valid none(4)
    by (simp add: rows db_wf_def validate_primary_membership_def)
  moreover have "distinct (map in_incident_id (db_incidents db'))"
    "distinct (map in_grouping_key_sha256 (db_incidents db'))"
    using wf fresh by (auto simp: db_wf_def tables)
  moreover have "\<forall>m \<in> set (db_memberships db'). ms_incident_id m \<in> in_incident_id ` set (db_incidents db')"
    "\<forall>h \<in> set (db_status_history db'). sh_incident_id h \<in> in_incident_id ` set (db_incidents db')"
    "\<forall>h \<in> set (db_severity_history db'). vh_incident_id h \<in> in_incident_id ` set (db_incidents db')"
    using wf by (auto simp: db_wf_def rows tables initial_status_row_def initial_severity_row_def)
  ultimately show ?thesis using new old by (simp add: db_wf_def tables(1))
qed

section \<open>Enrichment\<close>

lemma bind_s3_scope_cases:
  assumes "bind_s3_scope i c = Inr (bound, changed)"
  shows "bound = i\<lparr>in_bound_simulation_id := in_bound_simulation_id bound,
      in_bound_configuration_hash := in_bound_configuration_hash bound\<rparr>"
    and "\<not> changed \<Longrightarrow> bound = i"
    and "qc_bound_simulation_id c \<noteq> None \<Longrightarrow> in_bound_simulation_id bound = qc_bound_simulation_id c \<and>
      in_bound_configuration_hash bound = qc_bound_configuration_hash c"
    and "in_bound_simulation_id i \<noteq> None \<Longrightarrow> bound = i"
  using assms by (auto simp: bind_s3_scope_def split: option.splits if_splits)

lemma record_added_frame:
  "record_added i before now request_id ms db = Inr db' \<Longrightarrow>
   \<exists>timeline audit. db' = db\<lparr>db_timeline := timeline, db_audit := db_audit db @ audit\<rparr>"
proof (induction ms arbitrary: db)
  case Nil
  then show ?case by (simp add: exI [of _ "db_timeline db"] exI [of _ "[]"])
next
  case (Cons m ms)
  from Cons.prems obtain t a where "record_added i before now request_id ms
      (db\<lparr>db_timeline := t, db_audit := db_audit db @ [a]\<rparr>) = Inr db'"
    by (auto simp: result_split)
  from Cons.IH [OF this] show ?case by auto
qed

text \<open>An escalation changes the severity and adds the row that records it.\<close>

lemma escalation_effect:
  assumes "record_severity_escalation i proposed trigger now request_id before after db = Inr (i', db')"
    and "severity_increases (in_severity i) proposed"
  shows "i' = i\<lparr>in_severity := proposed\<rparr> \<and>
    (\<exists>timeline audit. db' = db\<lparr>db_severity_history := db_severity_history db @ [severity_row i proposed trigger now after],
      db_timeline := timeline, db_audit := db_audit db @ audit\<rparr>)"
  using assms by (auto simp: record_severity_escalation_def Let_def result_split)

text \<open>The outcome of enriching a stored incident.\<close>

definition enrichment ::
  "IncidentDb \<Rightarrow> QualifiedIncidentCandidate \<Rightarrow> Incident \<Rightarrow> timestamp \<Rightarrow> Incident \<Rightarrow> IncidentDb \<Rightarrow> bool" where
  "enrichment db c i now i' db' \<longleftrightarrow> (\<exists>bound b process vs.
     (let ins = unlinked db (in_incident_id i) (map (effective_membership i) (all_memberships c)) in
     bind_s3_scope i c = Inr (bound, b) \<and>
     i' = (enriched_incident bound c (length ins) process now)\<lparr>in_severity := in_severity i'\<rparr> \<and>
     db_incidents db' = db_incidents (save_incident i' db) \<and>
     db_memberships db' = db_memberships db @ map (membership_row (in_incident_id i) now) ins \<and>
     db_status_history db' = db_status_history db \<and> db_severity_history db' = db_severity_history db @ vs \<and>
     db_reports db' = db_reports db \<and> db_revisions db' = db_revisions db \<and>
     prefix (db_audit db) (db_audit db') \<and>
     (\<forall>h \<in> set vs. vh_incident_id h = in_incident_id i) \<and>
     replay_severity (in_severity i) vs = Some (in_severity i') \<and>
     \<not> severity_increases (in_severity i') (qc_severity c)))"

lemma effective_ids: "map cm_evidence_id (map (effective_membership i) ms) = map cm_evidence_id ms"
  by (simp add: effective_membership_def)

lemma enriched_incident_sel:
  "in_incident_id (enriched_incident i c n p now) = in_incident_id i"
  "in_severity (enriched_incident i c n p now) = in_severity i"
  by (simp_all add: enriched_incident_def)

lemma apply_enrichment_effect:
  assumes ok: "apply_enrichment bound c ins now request_id db = Inr (i', db')"
  shows "\<exists>process vs. i' = (enriched_incident bound c (length ins) process now)\<lparr>in_severity := in_severity i'\<rparr> \<and>
    db_incidents db' = db_incidents (save_incident i' db) \<and> db_memberships db' = db_memberships db \<and>
    db_status_history db' = db_status_history db \<and> db_severity_history db' = db_severity_history db @ vs \<and>
    db_reports db' = db_reports db \<and> db_revisions db' = db_revisions db \<and>
    prefix (db_audit db) (db_audit db') \<and>
    (\<forall>h \<in> set vs. vh_incident_id h = in_incident_id bound) \<and>
    replay_severity (in_severity bound) vs = Some (in_severity i') \<and>
    \<not> severity_increases (in_severity i') (qc_severity c)"
proof -
  from ok obtain process db1 db2 where
    added: "record_added (enriched_incident bound c (length ins) process now) (in_version bound) now request_id ins db = Inr db1"
    and esc: "(if severity_increases (in_severity bound) (qc_severity c)
        then record_severity_escalation (enriched_incident bound c (length ins) process now) (qc_severity c)
          (escalation_trigger ins c) now request_id (in_version bound) (in_version bound + 1) db1
        else Inr (enriched_incident bound c (length ins) process now, db1)) = Inr (i', db2)"
    and out: "db' = save_incident i' db2"
    unfolding apply_enrichment_def Let_def rbind_eq_Inr split_beta by (metis Inr_inject prod.collapse prod.inject)
  from record_added_frame [OF added] obtain t a where
    db1: "db1 = db\<lparr>db_timeline := t, db_audit := db_audit db @ a\<rparr>" by blast
  have "\<exists>vs t a. i' = (enriched_incident bound c (length ins) process now)\<lparr>in_severity := in_severity i'\<rparr> \<and>
      db2 = db1\<lparr>db_severity_history := db_severity_history db1 @ vs, db_timeline := t, db_audit := db_audit db1 @ a\<rparr> \<and>
      (\<forall>h \<in> set vs. vh_incident_id h = in_incident_id bound) \<and>
      replay_severity (in_severity bound) vs = Some (in_severity i') \<and>
      \<not> severity_increases (in_severity i') (qc_severity c)"
  proof (cases "severity_increases (in_severity bound) (qc_severity c)")
    case True
    with esc escalation_effect [of "enriched_incident bound c (length ins) process now" "qc_severity c"
        "escalation_trigger ins c" now request_id "in_version bound" "in_version bound + 1" db1 i' db2]
    have "i' = (enriched_incident bound c (length ins) process now)\<lparr>in_severity := qc_severity c\<rparr>"
      "\<exists>t a. db2 = db1\<lparr>db_severity_history := db_severity_history db1 @ [severity_row
          (enriched_incident bound c (length ins) process now) (qc_severity c) (escalation_trigger ins c) now (in_version bound + 1)],
        db_timeline := t, db_audit := db_audit db1 @ a\<rparr>"
      by (simp_all add: enriched_incident_sel)
    with True show ?thesis
      by (intro exI [of _ "[severity_row (enriched_incident bound c (length ins) process now) (qc_severity c)
          (escalation_trigger ins c) now (in_version bound + 1)]"])
        (auto simp: enriched_incident_sel severity_row_def severity_increases_def)
  next
    case no: False
    with esc have "i' = enriched_incident bound c (length ins) process now" "db2 = db1" by simp_all
    with no show ?thesis
      by (intro exI [of _ "[]"] exI [of _ "db_timeline db1"]) (simp add: enriched_incident_sel)
  qed
  then obtain vs t' a' where "i' = (enriched_incident bound c (length ins) process now)\<lparr>in_severity := in_severity i'\<rparr>"
    "db2 = db1\<lparr>db_severity_history := db_severity_history db1 @ vs, db_timeline := t', db_audit := db_audit db1 @ a'\<rparr>"
    "\<forall>h \<in> set vs. vh_incident_id h = in_incident_id bound" "replay_severity (in_severity bound) vs = Some (in_severity i')"
    "\<not> severity_increases (in_severity i') (qc_severity c)"
    by blast
  then show ?thesis
    by (intro exI [of _ process] exI [of _ vs]) (simp add: out db1 save_incident_def)
qed

lemma enrich_effect:
  assumes ok: "enrich_incident i c now request_id db = Inr (outcome, i', db')"
    and valid: "validate_primary_membership c"
  shows "outcome = existing \<and> i' = i \<and> db' = db \<or> outcome = enriched \<and> enrichment db c i now i' db'"
proof -
  let ?ms = "map (effective_membership i) (all_memberships c)"
  let ?ins = "unlinked db (in_incident_id i) ?ms"
  have dist: "distinct (map cm_evidence_id ?ms)"
    using valid by (simp only: effective_ids validate_primary_membership_def)
  from ok obtain ins db1 bound b where
      loop: "insert_memberships (in_incident_id i) now ?ms db = Inr (ins, db1)"
    and bind: "bind_s3_scope i c = Inr (bound, b)"
    and cont: "(if ins = [] \<and> \<not> b \<and> \<not> severity_increases (in_severity bound) (qc_severity c)
        then Inr (existing, bound, db1)
        else rbind (apply_enrichment bound c ins now request_id db1) (\<lambda>(final, db2).
          Inr (enriched, final, db2))) = Inr (outcome, i', db')"
    unfolding enrich_incident_def by (auto simp: rbind_eq_Inr split: if_split_asm)
  have sev: "in_severity bound = in_severity i" "in_incident_id bound = in_incident_id i"
    by (subst bind_s3_scope_cases(1) [OF bind], simp)+
  from insert_memberships_effect [OF loop dist] have ins: "ins = ?ins"
    and db1: "db1 = db\<lparr>db_memberships := db_memberships db @ map (membership_row (in_incident_id i) now) ins\<rparr>"
    by auto
  show ?thesis
  proof (cases "ins = [] \<and> \<not> b \<and> \<not> severity_increases (in_severity bound) (qc_severity c)")
    case True
    with cont bind_s3_scope_cases(2) [OF bind] db1 show ?thesis by auto
  next
    case False
    with cont have "apply_enrichment bound c ins now request_id db1 = Inr (i', db')" "outcome = enriched"
      by (auto simp: rbind_eq_Inr split: if_split_asm)
    with apply_enrichment_effect [of bound c ins now request_id db1 i' db'] bind show ?thesis
      unfolding enrichment_def Let_def ins [symmetric] by (auto simp: sev db1 save_incident_def)
  qed
qed

lemma effective_not_primary:
  assumes "one_primary (members_of db k) (in_primary_evidence_id i)"
  shows "\<forall>m \<in> set (unlinked db k (map (effective_membership i) ms)). cm_role m \<noteq> PRIMARY"
proof -
  have "in_primary_evidence_id i \<in> set (map ms_evidence_id (filter (\<lambda>m. ms_role m = PRIMARY) (members_of db k)))"
    using assms by (simp add: one_primary_def)
  then have "(k, in_primary_evidence_id i) \<in> membership_key ` set (db_memberships db)"
    by (force simp: members_of_def membership_key_def)
  then show ?thesis by (auto simp: unlinked_def effective_membership_def)
qed

lemma enrichment_sel:
  assumes "enrichment db c i now i' db'"
  shows "in_incident_id i' = in_incident_id i" "in_grouping_key_sha256 i' = in_grouping_key_sha256 i"
    "in_status i' = in_status i" "in_primary_evidence_id i' = in_primary_evidence_id i"
    "in_version i' = in_version i + 1" "in_qualification_rule_id i' = in_qualification_rule_id i"
    "in_evidence_count i' = in_evidence_count i +
       int (length (unlinked db (in_incident_id i) (map (effective_membership i) (all_memberships c))))"
proof -
  from assms obtain bound b process where bind: "bind_s3_scope i c = Inr (bound, b)"
    and i': "i' = (enriched_incident bound c (length (unlinked db (in_incident_id i)
      (map (effective_membership i) (all_memberships c)))) process now)\<lparr>in_severity := in_severity i'\<rparr>"
    unfolding enrichment_def Let_def by blast
  show "in_incident_id i' = in_incident_id i" "in_grouping_key_sha256 i' = in_grouping_key_sha256 i"
    "in_status i' = in_status i" "in_primary_evidence_id i' = in_primary_evidence_id i"
    "in_version i' = in_version i + 1" "in_qualification_rule_id i' = in_qualification_rule_id i"
    "in_evidence_count i' = in_evidence_count i +
       int (length (unlinked db (in_incident_id i) (map (effective_membership i) (all_memberships c))))"
    by (subst i', simp add: enriched_incident_def, subst bind_s3_scope_cases(1) [OF bind], simp)+
qed

lemma enrichment_change:
  assumes "enrichment db c i now i' db'" and "find_incident db k = Some i"
  obtains vs where "incident_change db db' k i i' (map (membership_row k now)
      (unlinked db k (map (effective_membership i) (all_memberships c)))) [] vs"
    "replay_severity (in_severity i) vs = Some (in_severity i')"
  using assms enrichment_sel [OF assms(1)] find_incident_SomeD [OF assms(2)]
  unfolding enrichment_def incident_change_def Let_def by auto

lemma enrichment_wf:
  assumes e: "enrichment db c i now i' db'" and i: "find_incident db k = Some i"
    and wf: "db_wf db" and valid: "validate_primary_membership c"
  shows "db_wf db'"
proof -
  let ?ins = "unlinked db k (map (effective_membership i) (all_memberships c))"
  from e i obtain vs where ch: "incident_change db db' k i i' (map (membership_row k now) ?ins) [] vs"
    and vs: "replay_severity (in_severity i) vs = Some (in_severity i')" by (rule enrichment_change)
  have was: "incident_wf db i" "in_incident_id i = k" using change_was [OF ch wf] by auto
  then have "one_primary (members_of db k) (in_primary_evidence_id i)" by (auto simp: incident_wf_def)
  with effective_not_primary [OF this, of "all_memberships c"]
  have "one_primary (members_of db k @ map (membership_row k now) ?ins) (in_primary_evidence_id i)"
    by (simp add: one_primary_def filter_map o_def filter_empty_conv)
  then have "incident_wf db' i'"
    using was vs severity_explained_append [of "severities_of db k" "in_severity i" vs]
    by (auto simp: incident_wf_def change_rows [OF ch] enrichment_sel [OF e])
  moreover have "distinct (map cm_evidence_id (map (effective_membership i) (all_memberships c)))"
    using valid by (simp only: effective_ids validate_primary_membership_def)
  then have "distinct (map membership_key (db_memberships db'))"
    using ch wf distinct_new_memberships [of db "map (effective_membership i) (all_memberships c)" k now]
    by (simp add: incident_change_def db_wf_def)
  ultimately show ?thesis using db_wf_change [OF ch wf] by blast
qed

section \<open>Qualification of a candidate\<close>

lemma separate_scope_sel [simp]:
  "all_memberships (separate_scope c) = all_memberships c"
  "validate_primary_membership (separate_scope c) = validate_primary_membership c"
  "qc_bound_simulation_id (separate_scope c) = qc_bound_simulation_id c"
  "qc_bound_configuration_hash (separate_scope c) = qc_bound_configuration_hash c"
  "qc_severity (separate_scope c) = qc_severity c"
  "qc_qualification_rule_id (separate_scope c) = qc_qualification_rule_id c"
  "qc_grouping_anchor (separate_scope c) = qc_grouping_anchor c"
  by (simp_all add: separate_scope_def all_memberships_def validate_primary_membership_def)

definition candidate_identity :: "IncidentProfileKey \<Rightarrow> QualifiedIncidentCandidate \<Rightarrow> IncidentIdentity" where
  "candidate_identity profile c = deterministic_incident_identity c profile (grouping_epoch_start (qc_grouping_anchor c))"

text \<open>A candidate is stored under its own scope, or under the scope it is bound to.\<close>

definition stored_as ::
  "IncidentProfileKey \<Rightarrow> timestamp \<Rightarrow> QualifiedIncidentCandidate \<Rightarrow> IncidentDb \<Rightarrow> Outcome \<Rightarrow> Incident \<Rightarrow> IncidentDb \<Rightarrow> bool" where
  "stored_as profile now c db outcome i' db' \<longleftrightarrow>
     outcome = created \<and> candidate_created db c i' now db' \<and>
       i' = new_incident c (candidate_identity profile c) profile (grouping_epoch_start (qc_grouping_anchor c)) now \<or>
     (\<exists>i \<in> set (db_incidents db). in_grouping_key_sha256 i = ii_grouping_key_sha256 (candidate_identity profile c) \<and>
        in_incident_id i = ii_incident_id (candidate_identity profile c) \<and>
        (outcome = existing \<and> i' = i \<and> db' = db \<or> outcome = enriched \<and> enrichment db c i now i' db') \<and>
        (\<exists>request_id. enrich_incident i c now request_id db = Inr (outcome, i', db')))"

lemma finish_stored:
  assumes "insert_or_load_incident c (candidate_identity profile c) profile
      (grouping_epoch_start (qc_grouping_anchor c)) now request_id db = Inr loaded"
    and "finish_candidate now request_id c loaded = Inr (outcome, i', db')"
    and valid: "validate_primary_membership c"
  shows "stored_as profile now c db outcome i' db'"
proof -
  obtain i was_created db1 where l: "loaded = (i, was_created, db1)" by (cases loaded)
  note cases = load_cases [OF assms(1) [unfolded l]]
  show ?thesis
  proof (cases was_created)
    case True
    with cases assms(2) show ?thesis by (auto simp: l finish_candidate_def stored_as_def)
  next
    case False
    with assms(2) have en: "enrich_incident i c now request_id db1 = Inr (outcome, i', db')"
      by (simp add: l finish_candidate_def)
    with enrich_effect [OF en valid] en cases False show ?thesis by (auto simp: stored_as_def)
  qed
qed

definition load_candidate ::
  "IncidentProfileKey \<Rightarrow> timestamp \<Rightarrow> string \<Rightarrow> QualifiedIncidentCandidate \<Rightarrow> IncidentDb \<Rightarrow>
   IncidentError + (Incident \<times> bool \<times> IncidentDb)" where
  "load_candidate profile now request_id c = insert_or_load_incident c (candidate_identity profile c) profile
     (grouping_epoch_start (qc_grouping_anchor c)) now request_id"

lemma record_candidate_eq:
  "record_candidate profile now request_id c db =
     rbind (load_candidate profile now request_id c db) (\<lambda>(i, cr, db1).
       if \<not> cr \<and> requires_separate_bound_scope i c
       then rbind (load_candidate profile now request_id (separate_scope c) db1)
         (finish_candidate now request_id (separate_scope c))
       else finish_candidate now request_id c (i, cr, db1))"
  by (simp add: record_candidate_def load_candidate_def candidate_identity_def Let_def cong: if_cong)

lemma record_candidate_stored:
  assumes "record_candidate profile now request_id c db = Inr (outcome, i', db')" and "validate_primary_membership c"
  shows "stored_as profile now c db outcome i' db' \<or> stored_as profile now (separate_scope c) db outcome i' db' \<and>
    (\<exists>i \<in> set (db_incidents db). in_grouping_key_sha256 i = ii_grouping_key_sha256 (candidate_identity profile c) \<and>
       in_incident_id i = ii_incident_id (candidate_identity profile c) \<and> requires_separate_bound_scope i c)"
proof -
  from assms(1) obtain i cr db1 where load: "load_candidate profile now request_id c db = Inr (i, cr, db1)"
    and rest: "(if \<not> cr \<and> requires_separate_bound_scope i c
      then rbind (load_candidate profile now request_id (separate_scope c) db1)
        (finish_candidate now request_id (separate_scope c))
      else finish_candidate now request_id c (i, cr, db1)) = Inr (outcome, i', db')"
    unfolding record_candidate_eq by (auto simp: rbind_eq_Inr)
  show ?thesis
  proof (cases "\<not> cr \<and> requires_separate_bound_scope i c")
    case True
    then have "db1 = db" "i \<in> set (db_incidents db)"
        "in_grouping_key_sha256 i = ii_grouping_key_sha256 (candidate_identity profile c)"
        "in_incident_id i = ii_incident_id (candidate_identity profile c)"
      using load_cases [OF load [unfolded load_candidate_def]] by auto
    with True rest finish_stored [of "separate_scope c" profile now request_id db _ outcome i' db'] assms(2)
    show ?thesis by (auto simp: rbind_eq_Inr load_candidate_def)
  next
    case False
    with rest finish_stored [OF load [unfolded load_candidate_def]] assms(2) show ?thesis by simp
  qed
qed

lemma stored_wf:
  assumes s: "stored_as profile now c db outcome i' db'" and wf: "db_wf db" and valid: "validate_primary_membership c"
  shows "db_wf db'"
  using s unfolding stored_as_def
proof (elim disjE bexE conjE)
  assume "candidate_created db c i' now db'" "i' = new_incident c (candidate_identity profile c) profile
    (grouping_epoch_start (qc_grouping_anchor c)) now"
  then show ?thesis using wf valid by (rule created_wf)
next
  fix i assume i: "i \<in> set (db_incidents db)"
  show "db' = db \<Longrightarrow> ?thesis" using wf by simp
  assume "enrichment db c i now i' db'"
  then show ?thesis using db_wf_find [OF wf i] wf valid by (rule enrichment_wf)
qed

lemma record_candidate_wf:
  assumes "record_candidate profile now request_id c db = Inr (outcome, i', db')"
    and "validate_primary_membership c" and "db_wf db"
  shows "db_wf db'"
  using record_candidate_stored [OF assms(1,2)] assms(2,3) by (auto intro: stored_wf)

end
