(* ===== verification/Incident_Guarantees.thy ===== *)
theory Incident_Guarantees
  imports Incident_Invariant
begin

text \<open>
  What qualification guarantees of the stored incidents: the invariant through every run of the
  service and the analysts, idempotence, persistence of incidents, separation of run scopes, and
  the meaning of incident identity and grouping epochs.
\<close>

section \<open>Settled candidates\<close>

text \<open>An incident that has nothing more to learn from a candidate.\<close>

definition settled :: "QualifiedIncidentCandidate \<Rightarrow> Incident \<Rightarrow> IncidentDb \<Rightarrow> bool" where
  "settled c i db \<longleftrightarrow>
     in_qualification_rule_id i = qc_qualification_rule_id c \<and>
     (\<forall>m \<in> set (all_memberships c). (in_incident_id i, cm_evidence_id m) \<in> membership_key ` set (db_memberships db)) \<and>
     bind_s3_scope i c = Inr (i, False) \<and> \<not> severity_increases (in_severity i) (qc_severity c)"

lemma insert_memberships_linked:
  "\<forall>m \<in> set ms. (k, cm_evidence_id m) \<in> membership_key ` set (db_memberships db) \<Longrightarrow>
   insert_memberships k now ms db = Inr ([], db)"
  by (induction ms) (simp_all add: insert_membership_def Let_def)

lemma effective_evidence [simp]: "cm_evidence_id (effective_membership i m) = cm_evidence_id m"
  by (simp add: effective_membership_def)

lemma settled_enrich: "settled c i db \<Longrightarrow> enrich_incident i c now request_id db = Inr (existing, i, db)"
  by (simp add: settled_def enrich_incident_def insert_memberships_linked)

lemma unlinked_Nil:
  "unlinked db k ms = [] \<longleftrightarrow> (\<forall>m \<in> set ms. (k, cm_evidence_id m) \<in> membership_key ` set (db_memberships db))"
  by (auto simp: unlinked_def filter_empty_conv)

lemma existing_settled:
  assumes ok: "enrich_incident i c now request_id db = Inr (existing, i', db')" and valid: "validate_primary_membership c"
  shows "settled c i db"
proof -
  let ?ms = "map (effective_membership i) (all_memberships c)"
  have dist: "distinct (map cm_evidence_id ?ms)"
    using valid by (simp only: effective_ids validate_primary_membership_def)
  from ok obtain db1 bound where rule: "in_qualification_rule_id i = qc_qualification_rule_id c"
    and loop: "insert_memberships (in_incident_id i) now ?ms db = Inr ([], db1)"
    and bind: "bind_s3_scope i c = Inr (bound, False)" and "\<not> severity_increases (in_severity bound) (qc_severity c)"
    unfolding enrich_incident_def by (auto simp: rbind_eq_Inr split: if_split_asm)
  moreover have "bound = i" by (rule bind_s3_scope_cases(2) [OF bind]) simp
  moreover have "unlinked db (in_incident_id i) ?ms = []" using insert_memberships_effect [OF loop dist] by simp
  ultimately show ?thesis by (simp add: settled_def unlinked_Nil)
qed

definition binding_complete :: "QualifiedIncidentCandidate \<Rightarrow> bool" where
  "binding_complete c \<longleftrightarrow> (qc_bound_simulation_id c = None) = (qc_bound_configuration_hash c = None)"

lemma bind_again:
  assumes "binding_complete c"
    and "qc_bound_simulation_id c \<noteq> None \<Longrightarrow> in_bound_simulation_id i = qc_bound_simulation_id c \<and>
      in_bound_configuration_hash i = qc_bound_configuration_hash c"
  shows "bind_s3_scope i c = Inr (i, False)"
  using assms by (auto simp: bind_s3_scope_def binding_complete_def split: option.splits)

lemma created_settled:
  assumes cr: "candidate_created db c i now db'" and i: "i = new_incident c identity profile epoch now"
    and wf: "db_wf db" and valid: "validate_primary_membership c" and complete: "binding_complete c"
  shows "settled c i db'"
proof -
  have "bind_s3_scope i c = Inr (i, False)"
    by (rule bind_again [OF complete]) (simp add: i new_incident_sel)
  moreover have "(in_incident_id i, cm_evidence_id m) \<in> membership_key ` set (db_memberships db')"
    if "m \<in> set (all_memberships c)" for m
    using that by (force simp: created_rows [OF cr wf valid])
  ultimately show ?thesis by (simp add: settled_def i new_incident_sel severity_increases_def)
qed

lemma enrichment_settled:
  assumes e: "enrichment db c i now i' db'" and rule: "in_qualification_rule_id i = qc_qualification_rule_id c"
    and complete: "binding_complete c"
  shows "settled c i' db'"
proof -
  let ?ins = "unlinked db (in_incident_id i) (map (effective_membership i) (all_memberships c))"
  from e obtain bound b process where bind: "bind_s3_scope i c = Inr (bound, b)"
    and i': "i' = (enriched_incident bound c (length ?ins) process now)\<lparr>in_severity := in_severity i'\<rparr>"
    and ms: "db_memberships db' = db_memberships db @ map (membership_row (in_incident_id i) now) ?ins"
    and sev: "\<not> severity_increases (in_severity i') (qc_severity c)"
    unfolding enrichment_def Let_def by blast
  have "in_bound_simulation_id i' = in_bound_simulation_id bound"
    "in_bound_configuration_hash i' = in_bound_configuration_hash bound"
    by (subst i', simp add: enriched_incident_def)+
  then have "bind_s3_scope i' c = Inr (i', False)"
    using bind_s3_scope_cases(3) [OF bind] by (intro bind_again [OF complete]) auto
  moreover have "(in_incident_id i, cm_evidence_id m) \<in> membership_key ` set (db_memberships db')"
    if m: "m \<in> set (all_memberships c)" for m
  proof (cases "(in_incident_id i, cm_evidence_id m) \<in> membership_key ` set (db_memberships db)")
    case True
    then show ?thesis by (auto simp: ms)
  next
    case False
    with m have "effective_membership i m \<in> set ?ins" by (auto simp: unlinked_def)
    then have "membership_row (in_incident_id i) now (effective_membership i m) \<in> set (db_memberships db')"
      by (auto simp: ms)
    then show ?thesis by (rule rev_image_eqI) simp
  qed
  ultimately show ?thesis using sev rule by (simp add: settled_def enrichment_sel [OF e])
qed

lemma enrich_rule: "enrich_incident i c now request_id db = Inr res \<Longrightarrow> in_qualification_rule_id i = qc_qualification_rule_id c"
  by (simp add: enrich_incident_def split: if_splits)

lemma enriches_bound: "enrich_incident i c now request_id db = Inr res \<Longrightarrow> \<not> requires_separate_bound_scope i c"
  by (auto simp: enrich_incident_def rbind_eq_Inr requires_separate_bound_scope_def bind_s3_scope_def
      split: if_splits option.splits)

lemma settled_not_separate: "settled c i db \<Longrightarrow> \<not> requires_separate_bound_scope i c"
  using settled_enrich enriches_bound by blast

lemma stored_settled:
  assumes s: "stored_as profile now c db outcome i' db'" and wf: "db_wf db"
    and valid: "validate_primary_membership c" and complete: "binding_complete c"
  shows "settled c i' db' \<and> i' \<in> set (db_incidents db') \<and>
    in_incident_id i' = ii_incident_id (candidate_identity profile c) \<and>
    in_grouping_key_sha256 i' = ii_grouping_key_sha256 (candidate_identity profile c)"
  using s unfolding stored_as_def
proof (elim disjE bexE exE conjE)
  assume cr: "candidate_created db c i' now db'" and i': "i' = new_incident c (candidate_identity profile c) profile
    (grouping_epoch_start (qc_grouping_anchor c)) now"
  have "i' \<in> set (db_incidents db')" using cr by (auto simp: candidate_created_def)
  moreover have "settled c i' db'" by (rule created_settled [OF cr i' wf valid complete])
  ultimately show ?thesis by (simp add: i' new_incident_sel)
next
  fix i request_id
  assume i: "i \<in> set (db_incidents db)"
    and id: "in_grouping_key_sha256 i = ii_grouping_key_sha256 (candidate_identity profile c)"
      "in_incident_id i = ii_incident_id (candidate_identity profile c)"
    and en: "enrich_incident i c now request_id db = Inr (outcome, i', db')"
  show ?thesis if "outcome = existing" "i' = i" "db' = db"
    using existing_settled [OF en [unfolded that] valid] i id that by simp
  assume e: "enrichment db c i now i' db'"
  have "settled c i' db'" by (rule enrichment_settled [OF e enrich_rule [OF en] complete])
  moreover have "i' \<in> set (db_incidents db')"
    using e i enrichment_sel(1) [OF e] by (force simp: enrichment_def Let_def save_incident_def)
  ultimately show ?thesis using id by (simp add: enrichment_sel [OF e])
qed

lemma load_stored:
  assumes "db_wf db" and "i \<in> set (db_incidents db)"
    and "in_incident_id i = ii_incident_id (candidate_identity profile c)"
    and "in_grouping_key_sha256 i = ii_grouping_key_sha256 (candidate_identity profile c)"
  shows "load_candidate profile now request_id c db = Inr (i, False, db)"
proof -
  let ?P = "\<lambda>i. in_grouping_key_sha256 i = ii_grouping_key_sha256 (candidate_identity profile c)"
  have "find ?P (db_incidents db) \<noteq> None" unfolding find_eq_None_iff using assms by blast
  then obtain j where j: "find ?P (db_incidents db) = Some j" by blast
  with assms find_eq_Some_iff [OF j] have "j = i" by (auto simp: db_wf_def distinct_map inj_on_def)
  with j assms(3) show ?thesis by (simp add: load_candidate_def insert_or_load_incident_def)
qed

text \<open>Incidents other than the stored one are untouched.\<close>

lemma stored_others:
  assumes "stored_as profile now c db outcome i' db'" and "j \<in> set (db_incidents db)" and "db_wf db"
    and "requires_separate_bound_scope j c"
  shows "j \<in> set (db_incidents db')"
  using assms(1) unfolding stored_as_def
proof (elim disjE bexE exE conjE)
  assume "candidate_created db c i' now db'"
  then show ?thesis using assms(2) by (auto simp: candidate_created_def)
next
  fix i request_id
  assume i: "i \<in> set (db_incidents db)" and en: "enrich_incident i c now request_id db = Inr (outcome, i', db')"
  show ?thesis if "db' = db" using that assms(2) by simp
  assume e: "enrichment db c i now i' db'"
  have "in_incident_id j \<noteq> in_incident_id i"
    using enriches_bound [OF en] assms(4) db_wf_find [OF assms(3) i] db_wf_find [OF assms(3,2)] by auto
  then show ?thesis
    using e assms(2) enrichment_sel(1) [OF e] by (force simp: enrichment_def Let_def save_incident_def)
qed

lemma requires_separate_scope [simp]: "requires_separate_bound_scope j (separate_scope c) = requires_separate_bound_scope j c"
  by (simp add: requires_separate_bound_scope_def)

lemma record_candidate_again:
  assumes ok: "record_candidate profile now request_id c db = Inr (outcome, i', db')"
    and wf: "db_wf db" and valid: "validate_primary_membership c" and complete: "binding_complete c"
  shows "record_candidate profile now' request_id' c db' = Inr (existing, i', db')"
proof -
  have wf': "db_wf db'" by (rule record_candidate_wf [OF ok valid wf])
  have complete': "binding_complete (separate_scope c)" using complete by (simp add: binding_complete_def)
  from record_candidate_stored [OF ok valid] show ?thesis
  proof (elim disjE conjE bexE)
    assume "stored_as profile now c db outcome i' db'"
    from stored_settled [OF this wf valid complete] have st: "settled c i' db'"
      and ld: "load_candidate profile now' request_id' c db' = Inr (i', False, db')"
      using load_stored [OF wf'] by auto
    with settled_not_separate [OF st] settled_enrich [OF st] show ?thesis
      by (simp add: record_candidate_eq finish_candidate_def)
  next
    fix j assume s: "stored_as profile now (separate_scope c) db outcome i' db'"
      and j: "j \<in> set (db_incidents db)" "requires_separate_bound_scope j c"
        "in_grouping_key_sha256 j = ii_grouping_key_sha256 (candidate_identity profile c)"
        "in_incident_id j = ii_incident_id (candidate_identity profile c)"
    have "j \<in> set (db_incidents db')" using stored_others [OF s j(1) wf] j(2) by simp
    then have "load_candidate profile now' request_id' c db' = Inr (j, False, db')"
      using load_stored [OF wf'] j by simp
    moreover from stored_settled [OF s wf _ complete'] valid have st: "settled (separate_scope c) i' db'"
      and "load_candidate profile now' request_id' (separate_scope c) db' = Inr (i', False, db')"
      using load_stored [OF wf'] by auto
    ultimately show ?thesis
      using j(2) settled_enrich [OF st] by (simp add: record_candidate_eq finish_candidate_def)
  qed
qed

section \<open>The whole service\<close>

datatype ServiceOp =
    Qualify IncidentProfileKey timestamp string QualifiedIncidentCandidate
  | Work "AnalystOp + ReportOp" uuid int

text \<open>A candidate that does not validate is never constructed.\<close>

fun service_step :: "ServiceOp \<Rightarrow> IncidentDb \<Rightarrow> IncidentError + (unit \<times> IncidentDb)" where
  "service_step (Qualify profile now request_id c) db =
     (if \<not> validate_primary_membership c then Inl InvalidCandidate
      else rbind (record_candidate profile now request_id c db) (\<lambda>(_, _, db'). Inr ((), db')))"
| "service_step (Work op k v) db = workflow_step (op, k, v) db"

lemma report_saved_wf:
  assumes "report_op op k v db = Inr (report, db')" and "db_wf db"
  shows "db_wf db'"
proof -
  have "db_incidents db' = db_incidents db \<and> db_memberships db' = db_memberships db \<and>
      db_status_history db' = db_status_history db \<and> db_severity_history db' = db_severity_history db"
    using assms(1) by (cases op) (auto simp: save_incident_report_def Let_def result_split
        split: option.splits if_splits)
  with assms(2) show ?thesis
    by (simp add: db_wf_def incident_wf_def members_of_def statuses_of_def severities_of_def)
qed

interpretation incidents: invariant_ops service_step db_wf
proof
  fix db op out db'
  assume wf: "db_wf db" and ok: "service_step op db = Inr (out, db')"
  show "db_wf db'"
  proof (cases op)
    case (Qualify profile now request_id c)
    with ok wf show ?thesis by (auto simp: rbind_eq_Inr split: if_splits dest: record_candidate_wf)
  next
    case (Work w k v)
    with ok wf show ?thesis
      by (cases w) (auto simp: rbind_eq_Inr dest: analyst_op_commits committed_wf report_saved_wf)
  qed
qed

section \<open>Persistence\<close>

text \<open>What an incident keeps, and what only grows.\<close>

definition grows :: "Incident \<Rightarrow> Incident \<Rightarrow> bool" where
  "grows i i' \<longleftrightarrow>
     in_grouping_key_sha256 i' = in_grouping_key_sha256 i \<and> in_primary_evidence_id i' = in_primary_evidence_id i \<and>
     SEVERITY_RANK (in_severity i) \<le> SEVERITY_RANK (in_severity i') \<and>
     in_evidence_count i \<le> in_evidence_count i' \<and> in_version i \<le> in_version i' \<and>
     (in_bound_simulation_id i \<noteq> None \<longrightarrow> in_bound_simulation_id i' = in_bound_simulation_id i \<and>
        in_bound_configuration_hash i' = in_bound_configuration_hash i)"

lemma grows_refl [simp]: "grows i i"
  by (simp add: grows_def)

lemma grows_trans: "grows i j \<Longrightarrow> grows j l \<Longrightarrow> grows i l"
  by (auto simp: grows_def)

lemma replay_severity_rank: "replay_severity s vs = Some t \<Longrightarrow> SEVERITY_RANK s \<le> SEVERITY_RANK t"
  by (induction vs arbitrary: s) (fastforce simp: severity_increases_def split: if_splits)+

lemma enrichment_grows:
  assumes e: "enrichment db c i now i' db'"
  shows "grows i i'"
proof -
  from e obtain bound b process vs n where bind: "bind_s3_scope i c = Inr (bound, b)"
    and i': "i' = (enriched_incident bound c n process now)\<lparr>in_severity := in_severity i'\<rparr>"
    and vs: "replay_severity (in_severity i) vs = Some (in_severity i')"
    unfolding enrichment_def Let_def by blast
  have "in_bound_simulation_id i' = in_bound_simulation_id bound"
    "in_bound_configuration_hash i' = in_bound_configuration_hash bound"
    by (subst i', simp add: enriched_incident_def)+
  then show ?thesis
    using bind_s3_scope_cases(4) [OF bind] replay_severity_rank [OF vs]
    by (auto simp: grows_def enrichment_sel [OF e])
qed

definition persists :: "uuid \<Rightarrow> IncidentDb \<Rightarrow> IncidentDb \<Rightarrow> bool" where
  "persists k db db' \<longleftrightarrow> (db_wf db \<longrightarrow> db_wf db' \<and>
     (\<forall>i. find_incident db k = Some i \<longrightarrow> (\<exists>i'. find_incident db' k = Some i' \<and> grows i i')))"

lemma persists_same: "db_wf db' \<Longrightarrow> db_incidents db' = db_incidents db \<Longrightarrow> persists k db db'"
  by (auto simp: persists_def find_incident_def)

lemma committed_persists: "committed k' v db i' db' \<Longrightarrow> persists k db db'"
proof -
  assume c: "committed k' v db i' db'"
  then obtain i where "find_incident db k' = Some i" "analyst_update i i'" by (auto simp: committed_def)
  then show ?thesis
    using committed_wf [OF c] by (auto simp: persists_def committed_find [OF c] grows_def analyst_update_sel)
qed

lemma stored_persists:
  assumes s: "stored_as profile now c db outcome i' db'" and wf': "db_wf db'"
  shows "persists k db db'"
  using s unfolding stored_as_def
proof (elim disjE bexE exE conjE)
  assume "candidate_created db c i' now db'"
  then have "db_incidents db' = db_incidents db @ [i']" by (simp add: candidate_created_def)
  moreover have "find P xs = Some x \<Longrightarrow> find P (xs @ ys) = Some x" for P and x :: Incident and xs ys
    by (induction xs) auto
  ultimately show ?thesis using wf' by (auto simp: persists_def find_incident_def)
next
  fix i request_id
  assume i: "i \<in> set (db_incidents db)"
  show ?thesis if "db' = db" using that by (simp add: persists_def)
  assume e: "enrichment db c i now i' db'"
  have "find_incident db' k = find_incident (save_incident i' db) k"
    using e by (auto simp: enrichment_def Let_def find_incident_def)
  then show ?thesis
    using wf' enrichment_grows [OF e] enrichment_sel(1) [OF e] db_wf_find [OF _ i]
    by (auto simp: persists_def find_incident_save)
qed

lemma record_candidate_persists:
  assumes ok: "record_candidate profile now request_id c db = Inr (outcome, i', db')" and valid: "validate_primary_membership c"
  shows "persists k db db'"
proof (cases "db_wf db")
  case True
  from record_candidate_wf [OF ok valid True] record_candidate_stored [OF ok valid] show ?thesis
    by (auto intro: stored_persists)
qed (simp add: persists_def)

interpretation incidents_persist: related_ops service_step "persists k"
proof
  fix op db out db'
  assume ok: "service_step op db = Inr (out, db')"
  show "persists k db db'"
  proof (cases op)
    case (Qualify profile now request_id c)
    with ok show ?thesis by (auto simp: rbind_eq_Inr split: if_splits dest: record_candidate_persists)
  next
    case (Work w k' v)
    show ?thesis
    proof (cases w)
      case (Inl a)
      with ok Work show ?thesis by (auto simp: rbind_eq_Inr dest: analyst_op_commits committed_persists)
    next
      case (Inr r)
      with ok Work obtain report where rep: "report_op r k' v db = Inr (report, db')"
        by (auto simp: rbind_eq_Inr)
      have "db_incidents db' = db_incidents db"
        using report_op_commits [OF rep] by (auto simp: report_saved_def)
      with report_saved_wf [OF rep] show ?thesis by (auto simp: persists_def find_incident_def)
    qed
  qed
next
  fix a b c assume "persists k a b" "persists k b c"
  then show "persists k a c" unfolding persists_def by (meson grows_trans)
qed (simp add: persists_def)

section \<open>Properties\<close>

text \<open>
  C25. The incident tables stay consistent: through any sequence of qualifications, analyst
  requests and report saves, in any order and from any consistent state, incident identifiers and
  grouping keys are unique, no evidence belongs twice to an incident, the evidence count is the
  number of memberships, exactly one membership is primary and it is the incident's primary
  evidence, and the status and the severity of every incident are what its histories replay to.
\<close>

theorem incident_tables_consistent:
  assumes "db_wf db"
  shows "db_wf (run_ops service_step ops db)"
  using assms by (rule incidents.run_inv)

text \<open>
  C26. Qualification is idempotent: a candidate that has been stored, submitted again at any time,
  reports the incident as existing and changes nothing.
\<close>

theorem qualification_idempotent:
  assumes "record_candidate profile now request_id c db = Inr (outcome, i, db')"
    and "db_wf db" and "validate_primary_membership c" and "binding_complete c"
  shows "record_candidate profile now' request_id' c db' = Inr (existing, i, db')"
  by (rule record_candidate_again [OF assms])

text \<open>
  C27. Incidents are never lost and only grow: through any run of the service an incident keeps its
  identity, its grouping key, its primary evidence and, once it has one, its run binding; its
  severity, its evidence count and its version never decrease.
\<close>

theorem incidents_only_grow:
  assumes "db_wf db" and "find_incident db k = Some i"
  shows "\<exists>i'. find_incident (run_ops service_step ops db) k = Some i' \<and> grows i i'"
  using incidents_persist.run_rel [of k db ops] assms by (simp add: persists_def)

text \<open>
  C28. Runs are never mixed: when a candidate bound to a simulation run and configuration is stored,
  the incident it is stored in is bound to exactly that run and configuration, and to the
  candidate's qualification rule.
\<close>

theorem bound_scope_never_mixed:
  assumes "record_candidate profile now request_id c db = Inr (outcome, i, db')"
    and "db_wf db" and "validate_primary_membership c"
    and "qc_bound_simulation_id c = Some run" and "qc_bound_configuration_hash c = Some config"
  shows "in_bound_simulation_id i = Some run \<and> in_bound_configuration_hash i = Some config \<and>
    in_qualification_rule_id i = qc_qualification_rule_id c"
proof -
  have complete: "binding_complete c'" if "c' = c \<or> c' = separate_scope c" for c'
    using that assms(4,5) by (auto simp: binding_complete_def)
  have "settled c i db' \<or> settled (separate_scope c) i db'"
    using record_candidate_stored [OF assms(1,3)] stored_settled [OF _ assms(2)] assms(3) complete by auto
  then show ?thesis
    using assms(4,5) by (auto simp: settled_def bind_s3_scope_def split: if_splits)
qed

text \<open>
  The grouping windows are the five-minute windows of UTC: for every instant from 1970 on, the
  epoch is a multiple of 300 seconds, the instant lies within the 300 seconds that start at it,
  and two instants have the same epoch exactly when they fall into the same window.
\<close>

theorem grouping_window:
  assumes "0 \<le> t" and "0 \<le> u"
  shows "grouping_epoch_start t \<le> t \<and> t < grouping_epoch_start t + 300 * microseconds_per_second \<and>
    300 * microseconds_per_second dvd grouping_epoch_start t \<and>
    (grouping_epoch_start t = grouping_epoch_start u \<longleftrightarrow>
       t div (300 * microseconds_per_second) = u div (300 * microseconds_per_second))"
proof -
  have eq: "grouping_epoch_start s = s div 300000000 * 300000000" if "0 \<le> s" for s
    using that by (simp add: grouping_epoch_start_def unix_seconds_def GROUPING_WINDOW_SECONDS_def
        microseconds_per_second_def zdiv_zmult2_eq [symmetric])
  show ?thesis
    using assms by (simp add: eq microseconds_per_second_def) linarith
qed

text \<open>
  An incident's name is its identity: two candidates whose scopes contain no separator have
  the same hashed name only if they agree on the profile, the qualification rule, the category,
  every scope and the grouping epoch, so that only a collision of the hash can put candidates of
  different identities under one grouping key.
\<close>

theorem identity_name_injective:
  assumes "ii_canonical_name (deterministic_incident_identity c profile e) =
      ii_canonical_name (deterministic_incident_identity d profile' f)"
    and "\<forall>w \<in> set (identity_parts c profile e) \<union> set (identity_parts d profile' f). CHR ''|'' \<notin> set w"
  shows "identity_parts c profile e = identity_parts d profile' f"
proof -
  have "join_with CHR ''|'' (identity_parts c profile e) = join_with CHR ''|'' (identity_parts d profile' f)"
    using assms(1) by (simp add: deterministic_incident_identity_def Let_def)
  then show ?thesis
    using assms(2) by (intro join_with_inj [of "CHR ''|''"]) (auto simp: identity_parts_def)
qed

text \<open>
  Before 1970 the truncation of \<open>int\<close> moves a fractional instant up to the next second, so the
  epoch can lie after the instant it groups.
\<close>

theorem grouping_epoch_after_instant: "grouping_epoch_start (- 500000) = 0 \<and> - 500000 < grouping_epoch_start (- 500000)"
  by (simp add: grouping_epoch_start_def unix_seconds_def GROUPING_WINDOW_SECONDS_def microseconds_per_second_def)

section \<open>Witnesses\<close>

definition empty_db :: IncidentDb where
  "empty_db = \<lparr>db_incidents = [], db_memberships = [], db_timeline = [], db_status_history = [],
     db_severity_history = [], db_notes = [], db_audit = [], db_reports = [], db_revisions = [], db_users = []\<rparr>"

definition sample_profile :: IncidentProfileKey where
  "sample_profile = \<lparr>pk_profile_id = ''otsoc.incident.oil_gas_transfer'', pk_profile_version = ''1.0.0'', pk_sha256 = ''p''\<rparr>"

definition sample_membership :: CandidateMembership where
  "sample_membership = \<lparr>cm_evidence_id = ''ev-1'', cm_evidence_type = ''correlation_finding'',
     cm_evidence_schema = ''otsoc.cyber_physical.correlation_finding'', cm_evidence_schema_version = ''1.0.0'',
     cm_integrity_sha256 = ''d'', cm_role = PRIMARY, cm_observed_at = 0, cm_received_at = 1\<rparr>"

definition sample_candidate :: QualifiedIncidentCandidate where
  "sample_candidate = \<lparr>qc_qualification_rule_id = ''IQR-S4-PUMP-FLOW-001'', qc_qualification_rule_version = ''1.0.0'',
     qc_category = PROCESS_INCONSISTENCY, qc_severity = HIGH, qc_title = ''t'', qc_summary = ''s'',
     qc_primary_membership = sample_membership, qc_additional_memberships = [],
     qc_identity_asset_scope = [], qc_process_asset_scope = [''P-101''], qc_target_point_scope = [],
     qc_source_asset_id = None, qc_destination_asset_id = None, qc_controller_asset_id = None,
     qc_process_asset_ids = [''a-1''], qc_process_asset_keys = [''P-101''],
     qc_correlation_rule_id = Some ''CPR-S4-PUMP-FLOW-001'', qc_correlation_rule_version = Some ''1.0.0'',
     qc_run_scope = ''sim-1'', qc_configuration_scope = ''cfg-1'',
     qc_bound_simulation_id = Some ''sim-1'', qc_bound_configuration_hash = Some ''cfg-1'',
     qc_s3_semantic_evidence_id = None, qc_grouping_anchor = 0, qc_first_observed_at = 0, qc_last_observed_at = 0,
     qc_policy_context = ''UNAVAILABLE'', qc_correlation_context = ''CORRELATED'',
     qc_evidence_completeness = ''VERIFIED_S4_CORRELATION''\<rparr>"

lemma empty_db_wf: "db_wf empty_db"
  by (simp add: db_wf_def empty_db_def)

lemma sample_valid: "validate_primary_membership sample_candidate" "binding_complete sample_candidate"
  by (simp_all add: validate_primary_membership_def all_memberships_def sample_candidate_def sample_membership_def
      binding_complete_def)

lemma sample_additional: "qc_additional_memberships sample_candidate = []"
  by (simp add: sample_candidate_def)

lemma sample_created:
  "\<exists>i db'. record_candidate sample_profile 5 ''r'' sample_candidate empty_db = Inr (created, i, db')"
  by (simp add: record_candidate_eq load_candidate_def insert_or_load_incident_def empty_db_def add_row_def
      record_creation_def insert_membership_def append_timeline_entry_def append_audit_event_def Let_def
      all_memberships_def finish_candidate_def sample_additional)

theorem incident_tables_consistent_witness:
  "db_wf (run_ops service_step [Qualify sample_profile 5 ''r'' sample_candidate,
     Work (Inl (AddNote ''n'' sample_actor 6)) ''inc-1'' 1] empty_db)"
  by (rule incident_tables_consistent [OF empty_db_wf])

theorem qualification_idempotent_witness:
  "\<exists>i db'. record_candidate sample_profile 5 ''r'' sample_candidate empty_db = Inr (created, i, db') \<and>
     record_candidate sample_profile 9 ''r-2'' sample_candidate db' = Inr (existing, i, db')"
proof -
  obtain i db' where ok: "record_candidate sample_profile 5 ''r'' sample_candidate empty_db = Inr (created, i, db')"
    using sample_created by blast
  from qualification_idempotent [OF ok empty_db_wf sample_valid] ok show ?thesis by blast
qed

theorem bound_scope_never_mixed_witness:
  "\<exists>i db'. record_candidate sample_profile 5 ''r'' sample_candidate empty_db = Inr (created, i, db') \<and>
     in_bound_simulation_id i = Some ''sim-1'' \<and> in_bound_configuration_hash i = Some ''cfg-1''"
proof -
  obtain i db' where ok: "record_candidate sample_profile 5 ''r'' sample_candidate empty_db = Inr (created, i, db')"
    using sample_created by blast
  from bound_scope_never_mixed [OF ok empty_db_wf sample_valid(1), of "''sim-1''" "''cfg-1''"] ok show ?thesis
    by (simp add: sample_candidate_def)
qed

theorem incidents_only_grow_witness:
  "\<exists>k i db'. db_wf db' \<and> find_incident db' k = Some i \<and>
     (\<exists>i'. find_incident (run_ops service_step [Work (Inl (AddNote ''n'' sample_actor 6)) k 1] db') k = Some i' \<and> grows i i')"
proof -
  obtain i db' where ok: "record_candidate sample_profile 5 ''r'' sample_candidate empty_db = Inr (created, i, db')"
    using sample_created by blast
  have wf: "db_wf db'" by (rule record_candidate_wf [OF ok sample_valid(1) empty_db_wf])
  have "i \<in> set (db_incidents db')"
    using record_candidate_stored [OF ok sample_valid(1)]
    by (auto simp: stored_as_def candidate_created_def empty_db_def)
  from db_wf_find [OF wf this] have found: "find_incident db' (in_incident_id i) = Some i" .
  from incidents_only_grow [OF wf found] wf found show ?thesis by blast
qed

theorem grouping_window_witness:
  "grouping_epoch_start 1709209845000000 \<le> 1709209845000000 \<and>
   1709209845000000 < grouping_epoch_start 1709209845000000 + 300 * microseconds_per_second"
  using grouping_window [of 1709209845000000 0] by simp

lemma sample_parts_plain: "\<forall>w \<in> set (identity_parts sample_candidate sample_profile t). CHR ''|'' \<notin> set w"
  using isoformat_no_bar [of t]
  by (auto simp: identity_parts_def sample_candidate_def sample_profile_def scope_text_def Let_def)

theorem identity_name_injective_witness:
  "ii_canonical_name (deterministic_incident_identity sample_candidate sample_profile 0) \<noteq>
   ii_canonical_name (deterministic_incident_identity sample_candidate sample_profile 300000000)"
proof
  assume "ii_canonical_name (deterministic_incident_identity sample_candidate sample_profile 0) =
    ii_canonical_name (deterministic_incident_identity sample_candidate sample_profile 300000000)"
  then have "identity_parts sample_candidate sample_profile 0 = identity_parts sample_candidate sample_profile 300000000"
    using sample_parts_plain by (intro identity_name_injective) auto
  then have "isoformat_utc 0 = isoformat_utc 300000000" by (simp add: identity_parts_def)
  moreover have "isoformat_utc 0 \<noteq> isoformat_utc 300000000" by code_simp
  ultimately show False by simp
qed

end
