(* ===== verification/Py_Float.thy ===== *)
theory Py_Float
  imports Prelude "HOL-Library.Log_Nat"
begin

text \<open>
  Python's \<open>float\<close> is IEEE 754 binary64. A finite float is the rational number it stands for; every
  operation rounds the exact result to the nearest float, ties to the even one. Operands of the
  program are validated to small ranges without infinities and NaN, so no operation
  overflows, and the model has finite values only.
\<close>

type_synonym f64 = rat

text \<open>The exponent of the binade of a positive rational.\<close>

definition floor_log2 :: "rat \<Rightarrow> int" where
  "floor_log2 x =
     (let (n, d) = quotient_of x; e = bitlen n - bitlen d in
      if (if 0 \<le> e then of_int d * 2 ^ nat e \<le> (of_int n :: rat) else of_int d \<le> of_int n * (2::rat) ^ nat (- e))
      then e else e - 1)"

definition pow2 :: "int \<Rightarrow> rat" where
  "pow2 e = (if 0 \<le> e then 2 ^ nat e else 1 / 2 ^ nat (- e))"

definition round_even :: "rat \<Rightarrow> int" where
  "round_even q =
     (let n = \<lfloor>q\<rfloor>; r = q - of_int n in
      if r < 1 / 2 then n else if r > 1 / 2 then n + 1 else if even n then n else n + 1)"

definition f64_round :: "rat \<Rightarrow> f64" where
  "f64_round x =
     (if x = 0 then 0
      else
      (let ulp = pow2 (max (floor_log2 \<bar>x\<bar> - 52) (-1074)) in
       of_int (round_even (x / ulp)) * ulp))"

definition f64_add :: "f64 \<Rightarrow> f64 \<Rightarrow> f64" where
  "f64_add a b = f64_round (a + b)"

definition f64_sub :: "f64 \<Rightarrow> f64 \<Rightarrow> f64" where
  "f64_sub a b = f64_round (a - b)"

definition f64_div :: "f64 \<Rightarrow> f64 \<Rightarrow> f64" where
  "f64_div a b = f64_round (a / b)"

text \<open>\<open>math.fsum\<close> rounds the exact sum once.\<close>

definition f64_fsum :: "f64 list \<Rightarrow> f64" where
  "f64_fsum xs = f64_round (sum_list xs)"

text \<open>A literal with at most six fractional digits, as the parser reads it.\<close>

definition f64_literal :: "rat \<Rightarrow> f64" where
  "f64_literal x = f64_round x"

text \<open>\<open>timedelta.total_seconds\<close>: the quotient of the microseconds by a million.\<close>

definition total_seconds :: "int \<Rightarrow> f64" where
  "total_seconds us = f64_round (of_int us / 1000000)"

lemma f64_round_0 [simp]: "f64_round 0 = 0"
  by (simp add: f64_round_def)

text \<open>Rounding keeps a nonnegative value nonnegative, and a value that is not tiny positive.\<close>

lemma pow2_pos [simp]: "0 < pow2 e"
  by (simp add: pow2_def)

lemma pow2_powi: "pow2 e = 2 powi e"
  by (simp add: pow2_def power_int_def inverse_eq_divide power_one_over)

lemma pow2_mono: "e \<le> f \<Longrightarrow> pow2 e \<le> pow2 f"
  by (simp add: pow2_powi power_int_increasing)

lemma round_even_ge: "of_int n \<le> q \<Longrightarrow> n \<le> round_even q"
proof -
  assume "of_int n \<le> q"
  then have "n \<le> \<lfloor>q\<rfloor>" by (simp add: le_floor_iff)
  then show ?thesis by (simp add: round_even_def Let_def)
qed

lemma f64_round_nonneg: "0 \<le> x \<Longrightarrow> 0 \<le> f64_round x"
proof -
  assume x: "0 \<le> x"
  have "0 \<le> round_even (x / pow2 e)" for e
    using round_even_ge [of 0 "x / pow2 e"] x by (simp add: less_imp_le)
  then show ?thesis by (simp add: f64_round_def Let_def less_imp_le)
qed

lemma floor_log2_le:
  assumes "0 < x"
  shows "pow2 (floor_log2 x) \<le> x"
proof -
  obtain n d where q: "quotient_of x = (n, d)" by fastforce
  have d: "0 < d" using quotient_of_denom_pos [OF q] .
  have x: "x = of_int n / of_int d" using quotient_of_div [OF q] .
  with assms d have n: "0 < n" by (simp add: zero_less_divide_iff)
  define e where "e = bitlen n - bitlen d"
  have powi: "(2::rat) powi e \<le> x \<longleftrightarrow>
      (if 0 \<le> e then of_int d * 2 ^ nat e \<le> (of_int n :: rat) else of_int d \<le> of_int n * (2::rat) ^ nat (- e))"
    using d by (simp add: x power_int_def inverse_eq_divide field_simps)
  have floor: "floor_log2 x = (if (2::rat) powi e \<le> x then e else e - 1)"
    unfolding powi by (simp only: floor_log2_def q Let_def prod.case e_def [symmetric])
  show ?thesis
  proof (cases "(2::rat) powi e \<le> x")
    case True
    with floor have "floor_log2 x = e" by simp
    with True show ?thesis by (simp add: pow2_powi)
  next
    case False
    with floor have fl: "floor_log2 x = e - 1" by simp
    have pos: "0 < bitlen n" "0 < bitlen d"
      using n d bitlen_nonneg [of n] bitlen_nonneg [of d] bitlen_eq_zero_iff [of n] bitlen_eq_zero_iff [of d]
      by linarith+
    have "2 ^ nat (bitlen n - 1) \<le> n" "d < 2 ^ nat (bitlen d)"
      using bitlen_bounds [OF n] bitlen_bounds [OF d] by blast+
    then have "of_int (2 ^ nat (bitlen n - 1)) \<le> (of_int n :: rat)"
        "(of_int d :: rat) \<le> of_int (2 ^ nat (bitlen d))"
      unfolding of_int_le_iff by simp_all
    with pos have "(2::rat) powi (bitlen n - 1) \<le> of_int n" "of_int d \<le> (2::rat) powi (bitlen d)"
      by (simp_all add: power_int_def)
    then have "(2::rat) powi (bitlen n - 1) / 2 powi (bitlen d) \<le> of_int n / of_int d"
      using d n by (intro frac_le) simp_all
    then have "2 powi (e - 1) \<le> x"
      unfolding x by (simp add: e_def power_int_diff mult.commute)
    then show ?thesis unfolding fl pow2_powi .
  qed
qed

lemma f64_round_pos:
  assumes "1 / 1000000 \<le> x"
  shows "0 < f64_round x"
proof -
  have x: "0 < x" using assms by (rule less_le_trans [rotated]) simp
  define ulp where "ulp = pow2 (max (floor_log2 x - 52) (-1074))"
  have "pow2 (floor_log2 x - 52) \<le> x"
    using pow2_mono [of "floor_log2 x - 52" "floor_log2 x"] floor_log2_le [OF x] by simp
  moreover have "pow2 (-1074) \<le> x"
  proof -
    have "pow2 (-1074) \<le> pow2 (-20)" by (rule pow2_mono) simp
    also have "\<dots> \<le> 1 / 1000000" by (simp add: pow2_def)
    finally show ?thesis using assms by simp
  qed
  ultimately have "ulp \<le> x" by (simp add: ulp_def max_def)
  then have "1 \<le> x / ulp" by (simp add: ulp_def)
  then have "1 \<le> round_even (x / ulp)" using round_even_ge [of 1] by simp
  then have "0 < of_int (round_even (x / ulp)) * ulp" by (simp add: ulp_def)
  with x show ?thesis by (simp add: f64_round_def Let_def ulp_def)
qed

lemma total_seconds_nonneg: "0 \<le> us \<Longrightarrow> 0 \<le> total_seconds us"
  by (simp add: total_seconds_def f64_round_nonneg)

lemma total_seconds_pos: "0 < us \<Longrightarrow> 0 < total_seconds us"
  unfolding total_seconds_def by (rule f64_round_pos) (simp add: divide_right_mono)

text \<open>Known values: 0.1, 0.1 + 0.2 and a third.\<close>

lemma f64_tenth: "f64_literal (1/10) = 3602879701896397 / 36028797018963968"
  by code_simp

lemma f64_third: "f64_div 1 3 = 6004799503160661 / 18014398509481984"
  by code_simp

lemma f64_sum_of_tenths:
  "f64_add (f64_literal (1/10)) (f64_literal (2/10)) = 1351079888211149 / 4503599627370496"
  by code_simp

end
