(* ===== verification/Correlation_Model.thy ===== *)
theory Correlation_Model
  imports Findings Evidence Py_Float
begin

text \<open>
  The data of the cyber-physical correlation (\<open>app/correlation/models.py\<close>): statuses and reasons,
  telemetry samples, parent references, evaluation requests, decisions and findings, with the
  constraints pydantic checks when one of them is built. Measured values are binary64 floats.
  A decision, an observation, a finding and a provenance are built through their validating
  constructors, which raise on a violated constraint.
\<close>

section \<open>Enumerations and constants\<close>

datatype CorrelationStatus = CORRELATED | NOT_CORRELATED | INSUFFICIENT_EVIDENCE | INDETERMINATE

datatype CorrelationReasonCode =
    PARENT_EVIDENCE_NOT_VERIFIED
  | PROFILE_VERSION_UNSUPPORTED
  | PROFILE_DIGEST_MISMATCH
  | UNSUPPORTED_CORRELATION_RULE
  | RUN_ID_MISMATCH
  | CONFIGURATION_MISMATCH
  | SIMULATOR_VERSION_MISMATCH
  | CLOCK_SEQUENCE_MISMATCH
  | ASSET_RELATION_MISMATCH
  | POINT_RELATION_NOT_DEFINED
  | WINDOW_NOT_FINALIZED
  | MISSING_TELEMETRY
  | INSUFFICIENT_SAMPLES
  | TELEMETRY_GAP_EXCEEDED
  | BASELINE_NOT_STABLE
  | PROCESS_CHANGE_OUTSIDE_WINDOW
  | PROCESS_EFFECT_DIRECTION_MISMATCH
  | NO_PROCESS_CHANGE
  | CORRELATION_MATCH

definition CORRELATION_REASON_PRECEDENCE :: "CorrelationReasonCode list" where
  "CORRELATION_REASON_PRECEDENCE =
     [PARENT_EVIDENCE_NOT_VERIFIED, PROFILE_VERSION_UNSUPPORTED, PROFILE_DIGEST_MISMATCH,
      UNSUPPORTED_CORRELATION_RULE, RUN_ID_MISMATCH, CONFIGURATION_MISMATCH,
      SIMULATOR_VERSION_MISMATCH, CLOCK_SEQUENCE_MISMATCH, ASSET_RELATION_MISMATCH,
      POINT_RELATION_NOT_DEFINED, WINDOW_NOT_FINALIZED, MISSING_TELEMETRY, INSUFFICIENT_SAMPLES,
      TELEMETRY_GAP_EXCEEDED, BASELINE_NOT_STABLE, PROCESS_CHANGE_OUTSIDE_WINDOW,
      PROCESS_EFFECT_DIRECTION_MISMATCH, NO_PROCESS_CHANGE, CORRELATION_MATCH]"

fun CorrelationReasonCode_value :: "CorrelationReasonCode \<Rightarrow> string" where
  "CorrelationReasonCode_value PARENT_EVIDENCE_NOT_VERIFIED = ''PARENT_EVIDENCE_NOT_VERIFIED''"
| "CorrelationReasonCode_value PROFILE_VERSION_UNSUPPORTED = ''PROFILE_VERSION_UNSUPPORTED''"
| "CorrelationReasonCode_value PROFILE_DIGEST_MISMATCH = ''PROFILE_DIGEST_MISMATCH''"
| "CorrelationReasonCode_value UNSUPPORTED_CORRELATION_RULE = ''UNSUPPORTED_CORRELATION_RULE''"
| "CorrelationReasonCode_value RUN_ID_MISMATCH = ''RUN_ID_MISMATCH''"
| "CorrelationReasonCode_value CONFIGURATION_MISMATCH = ''CONFIGURATION_MISMATCH''"
| "CorrelationReasonCode_value SIMULATOR_VERSION_MISMATCH = ''SIMULATOR_VERSION_MISMATCH''"
| "CorrelationReasonCode_value CLOCK_SEQUENCE_MISMATCH = ''CLOCK_SEQUENCE_MISMATCH''"
| "CorrelationReasonCode_value ASSET_RELATION_MISMATCH = ''ASSET_RELATION_MISMATCH''"
| "CorrelationReasonCode_value POINT_RELATION_NOT_DEFINED = ''POINT_RELATION_NOT_DEFINED''"
| "CorrelationReasonCode_value WINDOW_NOT_FINALIZED = ''WINDOW_NOT_FINALIZED''"
| "CorrelationReasonCode_value MISSING_TELEMETRY = ''MISSING_TELEMETRY''"
| "CorrelationReasonCode_value INSUFFICIENT_SAMPLES = ''INSUFFICIENT_SAMPLES''"
| "CorrelationReasonCode_value TELEMETRY_GAP_EXCEEDED = ''TELEMETRY_GAP_EXCEEDED''"
| "CorrelationReasonCode_value BASELINE_NOT_STABLE = ''BASELINE_NOT_STABLE''"
| "CorrelationReasonCode_value PROCESS_CHANGE_OUTSIDE_WINDOW = ''PROCESS_CHANGE_OUTSIDE_WINDOW''"
| "CorrelationReasonCode_value PROCESS_EFFECT_DIRECTION_MISMATCH = ''PROCESS_EFFECT_DIRECTION_MISMATCH''"
| "CorrelationReasonCode_value NO_PROCESS_CHANGE = ''NO_PROCESS_CHANGE''"
| "CorrelationReasonCode_value CORRELATION_MATCH = ''CORRELATION_MATCH''"

datatype ProcessChange = INCREASED | DECREASED | UNCHANGED | UNAVAILABLE

datatype ObservationRole = REQUIRED | SUPPORTING | CONTRADICTING

datatype CorrelationError =
    ValueError string
  | ValidationError string
  | CorrelationProfileError string
  | CorrelationEvidenceError string

definition CORRELATION_PROFILE_ID :: string where
  "CORRELATION_PROFILE_ID = ''otsoc.correlation.oil_gas_transfer''"

definition CORRELATION_PROFILE_VERSION :: string where
  "CORRELATION_PROFILE_VERSION = ''1.0.0''"

definition CORRELATION_FINDING_SCHEMA :: string where
  "CORRELATION_FINDING_SCHEMA = ''otsoc.cyber_physical.correlation_finding''"

definition CORRELATION_FINDING_SCHEMA_VERSION :: string where
  "CORRELATION_FINDING_SCHEMA_VERSION = ''1.0.0''"

definition CORRELATION_EVALUATOR_NAME :: string where
  "CORRELATION_EVALUATOR_NAME = ''otsoc_offline_correlation_evaluator''"

definition CORRELATION_EVALUATOR_VERSION :: string where
  "CORRELATION_EVALUATOR_VERSION = ''1.0.0''"

definition CORRELATION_SOURCE_KEY :: string where
  "CORRELATION_SOURCE_KEY = ''cyber-physical-correlation-evaluator''"

definition CORRELATION_SOURCE_ID :: uuid where
  "CORRELATION_SOURCE_ID = ''21f51f40-c7bb-57a6-993a-416b244185b8''"

definition CORRELATION_EVIDENCE_TYPE :: string where
  "CORRELATION_EVIDENCE_TYPE = ''correlation_finding''"

section \<open>Requests\<close>

text \<open>\<open>^[a-zA-Z0-9._:-]+$\<close> with 5 to 80 characters.\<close>

definition valid_simulation_id :: "string \<Rightarrow> bool" where
  "valid_simulation_id s = (5 \<le> length s \<and> length s \<le> 80
     \<and> (\<forall>c \<in> set s. alnum_char c \<or> c \<in> set ''._:-''))"

record CorrelationTelemetryPayload =
  tp_domain :: string
  tp_simulation_id :: string
  tp_sequence_number :: int
  tp_timestamp :: timestamp
  tp_simulator_version :: string
  tp_configuration_hash :: digest
  tp_simulation_time_seconds :: int
  tp_source_tank_level_percent :: f64
  tp_receiving_tank_level_percent :: f64
  tp_transfer_pump_command_percent :: f64
  tp_transfer_pump_running :: bool
  tp_control_valve_position_percent :: f64
  tp_pipeline_flow_rate_m3h :: f64
  tp_pipeline_pressure_bar :: f64
  tp_process_temperature_c :: f64

definition f64_within :: "f64 \<Rightarrow> f64 \<Rightarrow> f64 \<Rightarrow> bool" where
  "f64_within lo hi x = (lo \<le> x \<and> x \<le> hi)"

definition valid_telemetry_payload :: "CorrelationTelemetryPayload \<Rightarrow> bool" where
  "valid_telemetry_payload p =
     (tp_domain p = ''oil_gas_transfer'' \<and> valid_simulation_id (tp_simulation_id p)
      \<and> 0 \<le> tp_sequence_number p \<and> tp_sequence_number p \<le> 86400000
      \<and> text_within 24 (tp_simulator_version p) \<and> is_sha256 (tp_configuration_hash p)
      \<and> 0 \<le> tp_simulation_time_seconds p \<and> tp_simulation_time_seconds p \<le> 86400000
      \<and> f64_within 0 100 (tp_source_tank_level_percent p)
      \<and> f64_within 0 100 (tp_receiving_tank_level_percent p)
      \<and> f64_within 0 100 (tp_transfer_pump_command_percent p)
      \<and> f64_within 0 100 (tp_control_valve_position_percent p)
      \<and> f64_within 0 12 (tp_pipeline_flow_rate_m3h p) \<and> f64_within 0 4 (tp_pipeline_pressure_bar p)
      \<and> f64_within 0 80 (tp_process_temperature_c p))"

record EvidenceParentReference =
  pr_evidence_id :: uuid
  pr_evidence_type :: string
  pr_integrity_sha256 :: digest
  pr_observed_at :: timestamp
  pr_sequence_number :: "int option"

definition valid_parent_reference :: "EvidenceParentReference \<Rightarrow> bool" where
  "valid_parent_reference p =
     (text_within 48 (pr_evidence_type p) \<and> is_sha256 (pr_integrity_sha256 p)
      \<and> (case pr_sequence_number p of None \<Rightarrow> True | Some n \<Rightarrow> 0 \<le> n \<and> n \<le> 86400000))"

record TelemetryEvidence =
  te_evidence_id :: uuid
  te_evidence_type :: string
  te_integrity_sha256 :: digest
  te_observed_at :: timestamp
  te_sequence_number :: int
  te_payload_schema :: string
  te_payload_schema_version :: string
  te_payload :: CorrelationTelemetryPayload

definition validate_telemetry_envelope :: "TelemetryEvidence \<Rightarrow> bool" where
  "validate_telemetry_envelope t =
     (te_observed_at t = tp_timestamp (te_payload t)
      \<and> te_sequence_number t = tp_sequence_number (te_payload t))"

definition valid_telemetry :: "TelemetryEvidence \<Rightarrow> bool" where
  "valid_telemetry t =
     (te_evidence_type t = ''simulator_telemetry'' \<and> is_sha256 (te_integrity_sha256 t)
      \<and> 0 \<le> te_sequence_number t \<and> te_sequence_number t \<le> 86400000
      \<and> te_payload_schema t = ''otsoc.simulator.telemetry'' \<and> te_payload_schema_version t = ''2.0.0''
      \<and> valid_telemetry_payload (te_payload t) \<and> validate_telemetry_envelope t)"

definition parent_reference :: "TelemetryEvidence \<Rightarrow> EvidenceParentReference" where
  "parent_reference t = \<lparr>
     pr_evidence_id = te_evidence_id t,
     pr_evidence_type = te_evidence_type t,
     pr_integrity_sha256 = te_integrity_sha256 t,
     pr_observed_at = te_observed_at t,
     pr_sequence_number = Some (te_sequence_number t)\<rparr>"

record CyberParentContext =
  cy_raw_parent :: EvidenceParentReference
  cy_semantic_parent :: EvidenceParentReference
  cy_asset_context_parent :: EvidenceParentReference
  cy_policy_parent :: "EvidenceParentReference option"
  cy_command_point_id :: string
  cy_command_target_asset_key :: string
  cy_command_value_percent :: f64
  cy_command_observed_at :: timestamp
  cy_controller_asset_key :: string
  cy_relationship_type :: string
  cy_relationship_target_asset_key :: string
  cy_policy_context_status :: string

definition valid_policy_context_status :: "string \<Rightarrow> bool" where
  "valid_policy_context_status s = (s \<in> {''APPROVED'', ''DENIED'', ''UNKNOWN'', ''UNAVAILABLE''})"

definition valid_cyber_context :: "CyberParentContext \<Rightarrow> bool" where
  "valid_cyber_context c =
     (valid_parent_reference (cy_raw_parent c) \<and> valid_parent_reference (cy_semantic_parent c)
      \<and> valid_parent_reference (cy_asset_context_parent c)
      \<and> (case cy_policy_parent c of None \<Rightarrow> True | Some p \<Rightarrow> valid_parent_reference p)
      \<and> cy_command_point_id c = ''control_valve_command_percent''
      \<and> cy_command_target_asset_key c = ''CV-101'' \<and> f64_within 0 100 (cy_command_value_percent c)
      \<and> cy_controller_asset_key c = ''PLC-01'' \<and> cy_relationship_type c = ''CONTROLS''
      \<and> cy_relationship_target_asset_key c = ''CV-101''
      \<and> valid_policy_context_status (cy_policy_context_status c))"

record CorrelationEvaluationInput =
  ci_profile_id :: string
  ci_profile_version :: string
  ci_profile_sha256 :: digest
  ci_rule_id :: string
  ci_rule_version :: string
  ci_cyber_context :: "CyberParentContext option"
  ci_telemetry :: "TelemetryEvidence list"
  ci_available_point_ids :: "string list"
  ci_reevaluates_parent :: "EvidenceParentReference option"

definition validate_unique_points :: "CorrelationEvaluationInput \<Rightarrow> bool" where
  "validate_unique_points r = distinct (ci_available_point_ids r)"

definition valid_evaluation_input :: "CorrelationEvaluationInput \<Rightarrow> bool" where
  "valid_evaluation_input r =
     (text_within 80 (ci_profile_id r) \<and> sem_ver (ci_profile_version r)
      \<and> is_sha256 (ci_profile_sha256 r) \<and> text_within 80 (ci_rule_id r) \<and> sem_ver (ci_rule_version r)
      \<and> (case ci_cyber_context r of None \<Rightarrow> True | Some c \<Rightarrow> valid_cyber_context c)
      \<and> list_all valid_telemetry (ci_telemetry r)
      \<and> list_all snake_key (ci_available_point_ids r)
      \<and> (case ci_reevaluates_parent r of None \<Rightarrow> True | Some p \<Rightarrow> valid_parent_reference p)
      \<and> validate_unique_points r)"

section \<open>Observations and decisions\<close>

datatype ObservedValue = ObservedFloat f64 | ObservedBool bool

record PointObservation =
  po_point_id :: string
  po_asset_key :: string
  po_baseline_value :: "ObservedValue option"
  po_observed_value :: "ObservedValue option"
  po_delta :: "f64 option"
  po_unit :: string
  po_expected_direction :: ProcessChange
  po_observed_direction :: ProcessChange
  po_threshold :: "f64 option"
  po_persistence_required :: int
  po_persistence_observed :: int
  po_role :: ObservationRole
  po_condition_met :: bool

definition valid_observation :: "PointObservation \<Rightarrow> bool" where
  "valid_observation p =
     (snake_key (po_point_id p) \<and> safe_key (po_asset_key p) \<and> text_within 40 (po_unit p)
      \<and> 0 \<le> po_persistence_required p \<and> po_persistence_required p \<le> 100
      \<and> 0 \<le> po_persistence_observed p \<and> po_persistence_observed p \<le> 100)"

definition new_observation :: "PointObservation \<Rightarrow> CorrelationError + PointObservation" where
  "new_observation p =
     (if valid_observation p then Inr p else Inl (ValidationError ''PointObservation''))"

record CorrelationDecision =
  cd_status :: CorrelationStatus
  cd_reason_code :: CorrelationReasonCode
  cd_anchor_time :: "timestamp option"
  cd_correlation_start_time :: "timestamp option"
  cd_correlation_end_time :: "timestamp option"
  cd_evidence_observed_at :: timestamp
  cd_temporal_relation :: string
  cd_simulation_id :: "string option"
  cd_configuration_hash :: "digest option"
  cd_simulator_version :: "string option"
  cd_telemetry_schema_version :: "string option"
  cd_run_origin :: "timestamp option"
  cd_baseline_sample_count :: int
  cd_effect_sample_count :: int
  cd_maximum_gap_seconds :: "f64 option"
  cd_matched_minimum_set :: "string option"
  cd_process_asset_keys :: "string list"
  cd_affected_process_points :: "string list"
  cd_observations :: "PointObservation list"
  cd_statement_template_id :: string
  cd_explanation :: string

definition option_all :: "('a \<Rightarrow> bool) \<Rightarrow> 'a option \<Rightarrow> bool" where
  "option_all P x = (case x of None \<Rightarrow> True | Some y \<Rightarrow> P y)"

lemma option_all_simps [simp]:
  "option_all P None"
  "option_all P (Some y) = P y"
  by (simp_all add: option_all_def)

definition valid_decision :: "CorrelationDecision \<Rightarrow> bool" where
  "valid_decision d =
     (cd_temporal_relation d \<in> {''FOLLOWED_WITHIN_WINDOW'', ''PROCESS_ONLY_WITHIN_WINDOW'',
         ''NO_MATCHING_CHANGE'', ''UNAVAILABLE''}
      \<and> option_all is_sha256 (cd_configuration_hash d)
      \<and> 0 \<le> cd_baseline_sample_count d \<and> 0 \<le> cd_effect_sample_count d
      \<and> option_all (\<lambda>g. 0 \<le> g) (cd_maximum_gap_seconds d)
      \<and> list_all safe_key (cd_process_asset_keys d)
      \<and> list_all snake_key (cd_affected_process_points d)
      \<and> text_within 80 (cd_statement_template_id d) \<and> text_within 600 (cd_explanation d))"

definition new_decision :: "CorrelationDecision \<Rightarrow> CorrelationError + CorrelationDecision" where
  "new_decision d =
     (if valid_decision d then Inr d else Inl (ValidationError ''CorrelationDecision''))"

section \<open>Findings and provenance\<close>

record ProcessAssetReference =
  pa_asset_id :: uuid
  pa_asset_key :: string

record CyberPhysicalCorrelationFinding =
  cf_correlation_id :: uuid
  cf_finding_schema :: string
  cf_finding_schema_version :: string
  cf_correlation_profile_id :: string
  cf_correlation_profile_version :: string
  cf_correlation_profile_sha256 :: digest
  cf_correlation_rule_id :: string
  cf_correlation_rule_version :: string
  cf_evaluator_name :: string
  cf_evaluator_version :: string
  cf_canonicalization_version :: string
  cf_primary_cyber_evidence_id :: "uuid option"
  cf_primary_cyber_evidence_integrity_sha256 :: "digest option"
  cf_semantic_evidence_id :: "uuid option"
  cf_semantic_evidence_integrity_sha256 :: "digest option"
  cf_asset_context_evidence_id :: "uuid option"
  cf_asset_context_evidence_integrity_sha256 :: "digest option"
  cf_policy_finding_evidence_id :: "uuid option"
  cf_policy_finding_evidence_integrity_sha256 :: "digest option"
  cf_policy_context_status :: string
  cf_telemetry_parents :: "EvidenceParentReference list"
  cf_reevaluates_finding_id :: "uuid option"
  cf_parent_set_sha256 :: digest
  cf_simulation_id :: "string option"
  cf_configuration_hash :: "digest option"
  cf_simulator_version :: "string option"
  cf_telemetry_schema_version :: "string option"
  cf_run_origin :: "timestamp option"
  cf_anchor_time :: "timestamp option"
  cf_correlation_start_time :: "timestamp option"
  cf_correlation_end_time :: "timestamp option"
  cf_evidence_observed_at :: timestamp
  cf_baseline_sample_count :: int
  cf_effect_sample_count :: int
  cf_maximum_gap_seconds :: "f64 option"
  cf_process_assets :: "ProcessAssetReference list"
  cf_affected_process_points :: "string list"
  cf_observations :: "PointObservation list"
  cf_temporal_relation :: string
  cf_correlation_status :: CorrelationStatus
  cf_reason_code :: CorrelationReasonCode
  cf_matched_minimum_set :: "string option"
  cf_statement_template_id :: string
  cf_analyst_readable_explanation :: string
  cf_cyber_cause_asserted :: bool
  cf_causality_inferred :: bool
  cf_malicious_intent_inferred :: bool
  cf_ground_truth_used :: bool
  cf_derivation_kind :: string

definition prohibit_overclaiming :: "string \<Rightarrow> bool" where
  "prohibit_overclaiming v =
     (let prohibited = [''caused'', ''attack'', ''attacker'', ''malicious'', ''compromised'', ''incident''];
          words = map (\<lambda>word. py_lower (py_strip_of ''.,:;!?()[]'' word)) (py_split v) in
      list_all (\<lambda>w. w \<notin> set prohibited) words)"

definition validate_cyber_boundary :: "CyberPhysicalCorrelationFinding \<Rightarrow> bool" where
  "validate_cyber_boundary f =
     (\<not> (cf_correlation_rule_id f = ''CPR-S4-PUMP-FLOW-001''
         \<and> (cf_primary_cyber_evidence_id f \<noteq> None \<or> cf_semantic_evidence_id f \<noteq> None
            \<or> cf_asset_context_evidence_id f \<noteq> None \<or> cf_policy_finding_evidence_id f \<noteq> None)))"

text \<open>The field constraints of a finding; the two validators above come with them.\<close>

definition valid_finding_fields :: "CyberPhysicalCorrelationFinding \<Rightarrow> bool" where
  "valid_finding_fields f =
     (cf_finding_schema f = CORRELATION_FINDING_SCHEMA
      \<and> cf_finding_schema_version f = CORRELATION_FINDING_SCHEMA_VERSION
      \<and> cf_correlation_profile_id f = CORRELATION_PROFILE_ID
      \<and> sem_ver (cf_correlation_profile_version f) \<and> is_sha256 (cf_correlation_profile_sha256 f)
      \<and> text_within 80 (cf_correlation_rule_id f) \<and> sem_ver (cf_correlation_rule_version f)
      \<and> cf_evaluator_name f = CORRELATION_EVALUATOR_NAME \<and> sem_ver (cf_evaluator_version f)
      \<and> cf_canonicalization_version f = CANONICALIZATION_VERSION
      \<and> option_all is_sha256 (cf_primary_cyber_evidence_integrity_sha256 f)
      \<and> option_all is_sha256 (cf_semantic_evidence_integrity_sha256 f)
      \<and> option_all is_sha256 (cf_asset_context_evidence_integrity_sha256 f)
      \<and> option_all is_sha256 (cf_policy_finding_evidence_integrity_sha256 f)
      \<and> valid_policy_context_status (cf_policy_context_status f)
      \<and> is_sha256 (cf_parent_set_sha256 f) \<and> option_all is_sha256 (cf_configuration_hash f)
      \<and> 0 \<le> cf_baseline_sample_count f \<and> 0 \<le> cf_effect_sample_count f
      \<and> option_all (\<lambda>g. 0 \<le> g) (cf_maximum_gap_seconds f)
      \<and> list_all snake_key (cf_affected_process_points f)
      \<and> text_within 48 (cf_temporal_relation f) \<and> text_within 80 (cf_statement_template_id f)
      \<and> text_within 600 (cf_analyst_readable_explanation f)
      \<and> \<not> cf_cyber_cause_asserted f \<and> \<not> cf_causality_inferred f
      \<and> \<not> cf_malicious_intent_inferred f \<and> \<not> cf_ground_truth_used f
      \<and> cf_derivation_kind f = ''CYBER_PHYSICAL_CORRELATION'')"

definition new_finding ::
  "CyberPhysicalCorrelationFinding \<Rightarrow> CorrelationError + CyberPhysicalCorrelationFinding" where
  "new_finding f =
     (if valid_finding_fields f \<and> prohibit_overclaiming (cf_analyst_readable_explanation f)
         \<and> validate_cyber_boundary f
      then Inr f else Inl (ValidationError ''CyberPhysicalCorrelationFinding''))"

record CorrelationDerivationProvenance =
  cv_derivation_kind :: string
  cv_parent_references :: "EvidenceParentReference list"
  cv_parent_set_sha256 :: digest
  cv_correlation_profile_id :: string
  cv_correlation_profile_version :: string
  cv_correlation_profile_sha256 :: digest
  cv_correlation_rule_id :: string
  cv_correlation_rule_version :: string
  cv_evaluator_name :: string
  cv_evaluator_version :: string
  cv_inventory_profile_id :: string
  cv_inventory_profile_version :: string
  cv_inventory_profile_sha256 :: digest
  cv_policy_profile_id :: string
  cv_policy_profile_version :: string
  cv_policy_profile_sha256 :: digest
  cv_protocol_profile_id :: string
  cv_protocol_profile_version :: string
  cv_protocol_profile_sha256 :: digest
  cv_simulator_version :: string
  cv_simulation_id :: "string option"
  cv_configuration_hash :: "digest option"
  cv_canonicalization_version :: string
  cv_educational_only :: bool
  cv_ground_truth_used :: bool

definition valid_correlation_provenance :: "CorrelationDerivationProvenance \<Rightarrow> bool" where
  "valid_correlation_provenance v =
     (cv_derivation_kind v = ''CYBER_PHYSICAL_CORRELATION'' \<and> is_sha256 (cv_parent_set_sha256 v)
      \<and> cv_correlation_profile_id v = CORRELATION_PROFILE_ID
      \<and> sem_ver (cv_correlation_profile_version v) \<and> is_sha256 (cv_correlation_profile_sha256 v)
      \<and> sem_ver (cv_correlation_rule_version v) \<and> cv_evaluator_name v = CORRELATION_EVALUATOR_NAME
      \<and> sem_ver (cv_evaluator_version v)
      \<and> cv_inventory_profile_id v = ''otsoc.asset_inventory.oil_gas_transfer''
      \<and> cv_inventory_profile_version v = ''1.0.0'' \<and> is_sha256 (cv_inventory_profile_sha256 v)
      \<and> cv_policy_profile_id v = ''otsoc.communication_policy.oil_gas_transfer''
      \<and> cv_policy_profile_version v = ''1.0.0'' \<and> is_sha256 (cv_policy_profile_sha256 v)
      \<and> cv_protocol_profile_id v = ''otsoc.synthetic_modbus.oil_gas_transfer''
      \<and> cv_protocol_profile_version v = ''1.0.0'' \<and> is_sha256 (cv_protocol_profile_sha256 v)
      \<and> cv_simulator_version v = ''3.0.0'' \<and> option_all is_sha256 (cv_configuration_hash v)
      \<and> cv_canonicalization_version v = CANONICALIZATION_VERSION
      \<and> cv_educational_only v \<and> \<not> cv_ground_truth_used v)"

definition new_provenance ::
  "CorrelationDerivationProvenance \<Rightarrow> CorrelationError + CorrelationDerivationProvenance" where
  "new_provenance v =
     (if valid_correlation_provenance v then Inr v
      else Inl (ValidationError ''CorrelationDerivationProvenance''))"

record CorrelationEvidenceEnvelope =
  ee_source_key :: string
  ee_source_event_id :: string
  ee_evidence_type :: string
  ee_observed_at :: timestamp
  ee_sequence_number :: int
  ee_payload_schema :: string
  ee_payload_schema_version :: string
  ee_payload :: CyberPhysicalCorrelationFinding
  ee_provenance :: CorrelationDerivationProvenance

definition validate_correlation_envelope :: "CorrelationEvidenceEnvelope \<Rightarrow> CorrelationError + unit" where
  "validate_correlation_envelope e =
     (if cf_evidence_observed_at (ee_payload e) \<noteq> ee_observed_at e
      then Inl (ValueError ''correlation finding timestamp does not match observed_at'')
      else if cf_parent_set_sha256 (ee_payload e) \<noteq> cv_parent_set_sha256 (ee_provenance e)
      then Inl (ValueError ''correlation parent-set digest does not match provenance'')
      else if cf_correlation_profile_sha256 (ee_payload e) \<noteq> cv_correlation_profile_sha256 (ee_provenance e)
      then Inl (ValueError ''correlation profile digest does not match provenance'')
      else Inr ())"

text \<open>\<open>^[a-f0-9-]{36}$\<close>.\<close>

definition valid_source_event_id :: "string \<Rightarrow> bool" where
  "valid_source_event_id s =
     (length s = 36 \<and> (\<forall>c \<in> set s. py_digit c \<or> ascii_range 97 102 c \<or> c = CHR ''-''))"

definition new_envelope ::
  "CorrelationEvidenceEnvelope \<Rightarrow> CorrelationError + CorrelationEvidenceEnvelope" where
  "new_envelope e =
     (if ee_source_key e = CORRELATION_SOURCE_KEY \<and> valid_source_event_id (ee_source_event_id e)
         \<and> ee_evidence_type e = CORRELATION_EVIDENCE_TYPE
         \<and> 0 \<le> ee_sequence_number e \<and> ee_sequence_number e \<le> 86400000
         \<and> ee_payload_schema e = CORRELATION_FINDING_SCHEMA
         \<and> ee_payload_schema_version e = CORRELATION_FINDING_SCHEMA_VERSION
      then rbind (validate_correlation_envelope e) (\<lambda>_. Inr e)
      else Inl (ValidationError ''CorrelationEvidenceEnvelope''))"

end
