(* ===== verification/Correlation_Profile.thy ===== *)
theory Correlation_Profile
  imports Correlation_Model
begin

text \<open>
  The correlation profile (\<open>app/correlation/profile.py\<close>): windows, thresholds and rules, the frozen
  contract a profile is validated against, its dependencies on the inventory, the policy and the
  protocol profile, and the profile that is shipped (\<open>profiles/oil_gas_correlation_v1.json\<close>). The digest
  of a loaded profile is a field: reading the file and hashing its dump are not modelled.
\<close>

section \<open>Profile data\<close>

record DependencySet =
  ds_inventory_profile_id :: string
  ds_inventory_profile_version :: string
  ds_inventory_profile_sha256 :: digest
  ds_policy_profile_id :: string
  ds_policy_profile_version :: string
  ds_policy_profile_sha256 :: digest
  ds_protocol_profile_id :: string
  ds_protocol_profile_version :: string
  ds_protocol_profile_sha256 :: digest
  ds_telemetry_schema :: string
  ds_telemetry_schema_version :: string
  ds_simulator_version :: string
  ds_process_model_version :: string

record RelationshipMapping =
  rm_source_asset_key :: string
  rm_relationship_type :: string
  rm_target_asset_key :: string

record WindowContract =
  wc_baseline_seconds :: int
  wc_effect_seconds :: int
  wc_cadence_seconds :: int
  wc_minimum_baseline_samples :: int
  wc_minimum_effect_samples :: int
  wc_maximum_gap_seconds :: int
  wc_baseline_start_inclusive :: bool
  wc_baseline_end_inclusive :: bool
  wc_effect_start_inclusive :: bool
  wc_effect_end_inclusive :: bool

record ThresholdContract =
  th_valve_target_percent :: "f64 option"
  th_valve_tolerance_percentage_points :: "f64 option"
  th_valve_persistence_samples :: "int option"
  th_flow_decrease_m3h :: "f64 option"
  th_flow_unchanged_deadband_m3h :: f64
  th_flow_persistence_samples :: int
  th_pressure_increase_bar :: f64
  th_pressure_unchanged_deadband_bar :: f64
  th_pressure_persistence_samples :: int
  th_inventory_rate_reduction_percentage_points_per_second :: "f64 option"
  th_inventory_stagnation_percentage_points_per_second :: "f64 option"
  th_conservation_tolerance :: f64
  th_low_flow_threshold_m3h :: "f64 option"
  th_terminal_inventory_seconds :: "int option"
  th_flow_baseline_stability_m3h :: f64
  th_pressure_baseline_stability_bar :: f64
  th_valve_baseline_stability_percentage_points :: "f64 option"

datatype EvaluatorBranch = S3 | S4

record CorrelationRule =
  cru_rule_id :: string
  cru_rule_version :: string
  cru_evaluator_branch :: EvaluatorBranch
  cru_process_asset_keys :: "string list"
  cru_point_ids :: "string list"
  cru_relationships :: "RelationshipMapping list"
  cru_window :: WindowContract
  cru_thresholds :: ThresholdContract
  cru_statement_template_id :: string

record CorrelationProfile =
  cpr_profile_id :: string
  cpr_profile_version :: string
  cpr_domain :: string
  cpr_educational_only :: bool
  cpr_disclaimer :: string
  cpr_finding_schema :: string
  cpr_finding_schema_version :: string
  cpr_dependencies :: DependencySet
  cpr_statuses :: "CorrelationStatus list"
  cpr_reason_precedence :: "CorrelationReasonCode list"
  cpr_rules :: "CorrelationRule list"

record LoadedCorrelationProfile =
  lcp_profile :: CorrelationProfile
  lcp_sha256 :: digest

definition rules :: "LoadedCorrelationProfile \<Rightarrow> string \<Rightarrow> CorrelationRule option" where
  "rules loaded = dict_of cru_rule_id (cpr_rules (lcp_profile loaded))"

section \<open>Field constraints\<close>

definition valid_dependencies :: "DependencySet \<Rightarrow> bool" where
  "valid_dependencies d =
     (ds_inventory_profile_id d = ''otsoc.asset_inventory.oil_gas_transfer''
      \<and> ds_inventory_profile_version d = ''1.0.0'' \<and> is_sha256 (ds_inventory_profile_sha256 d)
      \<and> ds_policy_profile_id d = ''otsoc.communication_policy.oil_gas_transfer''
      \<and> ds_policy_profile_version d = ''1.0.0'' \<and> is_sha256 (ds_policy_profile_sha256 d)
      \<and> ds_protocol_profile_id d = ''otsoc.synthetic_modbus.oil_gas_transfer''
      \<and> ds_protocol_profile_version d = ''1.0.0'' \<and> is_sha256 (ds_protocol_profile_sha256 d)
      \<and> ds_telemetry_schema d = ''otsoc.simulator.telemetry''
      \<and> ds_telemetry_schema_version d = ''2.0.0'' \<and> ds_simulator_version d = ''3.0.0''
      \<and> ds_process_model_version d = ''3.6'')"

definition valid_relationship_mapping :: "RelationshipMapping \<Rightarrow> bool" where
  "valid_relationship_mapping m =
     (safe_key (rm_source_asset_key m) \<and> safe_key (rm_target_asset_key m)
      \<and> rm_relationship_type m \<in> {''CONTROLS'', ''OBSERVES'', ''PROCESS_PATH''})"

definition valid_window :: "WindowContract \<Rightarrow> bool" where
  "valid_window w =
     (0 < wc_baseline_seconds w \<and> wc_baseline_seconds w \<le> 60
      \<and> 0 < wc_effect_seconds w \<and> wc_effect_seconds w \<le> 120 \<and> wc_cadence_seconds w = 1
      \<and> 0 < wc_minimum_baseline_samples w \<and> wc_minimum_baseline_samples w \<le> 60
      \<and> 0 < wc_minimum_effect_samples w \<and> wc_minimum_effect_samples w \<le> 120
      \<and> wc_maximum_gap_seconds w = 2
      \<and> wc_baseline_start_inclusive w \<and> \<not> wc_baseline_end_inclusive w
      \<and> wc_effect_start_inclusive w \<and> wc_effect_end_inclusive w)"

definition nonneg_option :: "f64 option \<Rightarrow> bool" where
  "nonneg_option x = option_all (\<lambda>v. 0 \<le> v) x"

definition valid_thresholds :: "ThresholdContract \<Rightarrow> bool" where
  "valid_thresholds t =
     (option_all (f64_within 0 100) (th_valve_target_percent t)
      \<and> nonneg_option (th_valve_tolerance_percentage_points t)
      \<and> option_all (\<lambda>n. 0 < n) (th_valve_persistence_samples t)
      \<and> nonneg_option (th_flow_decrease_m3h t) \<and> 0 \<le> th_flow_unchanged_deadband_m3h t
      \<and> 0 < th_flow_persistence_samples t \<and> 0 \<le> th_pressure_increase_bar t
      \<and> 0 \<le> th_pressure_unchanged_deadband_bar t \<and> 0 < th_pressure_persistence_samples t
      \<and> nonneg_option (th_inventory_rate_reduction_percentage_points_per_second t)
      \<and> nonneg_option (th_inventory_stagnation_percentage_points_per_second t)
      \<and> 0 \<le> th_conservation_tolerance t \<and> nonneg_option (th_low_flow_threshold_m3h t)
      \<and> option_all (\<lambda>n. 0 < n) (th_terminal_inventory_seconds t)
      \<and> 0 \<le> th_flow_baseline_stability_m3h t \<and> 0 \<le> th_pressure_baseline_stability_bar t
      \<and> nonneg_option (th_valve_baseline_stability_percentage_points t))"

definition valid_correlation_rule :: "CorrelationRule \<Rightarrow> bool" where
  "valid_correlation_rule r =
     (text_within 80 (cru_rule_id r) \<and> sem_ver (cru_rule_version r)
      \<and> list_all safe_key (cru_process_asset_keys r) \<and> list_all snake_key (cru_point_ids r)
      \<and> list_all valid_relationship_mapping (cru_relationships r)
      \<and> valid_window (cru_window r) \<and> valid_thresholds (cru_thresholds r)
      \<and> text_within 80 (cru_statement_template_id r))"

definition valid_correlation_fields :: "CorrelationProfile \<Rightarrow> bool" where
  "valid_correlation_fields p =
     (cpr_profile_id p = ''otsoc.correlation.oil_gas_transfer'' \<and> sem_ver (cpr_profile_version p)
      \<and> cpr_domain p = ''oil_gas_transfer'' \<and> cpr_educational_only p
      \<and> cpr_disclaimer p
          = ''Fictional academic synthetic correlation parameters; not plant-derived alarms.''
      \<and> cpr_finding_schema p = ''otsoc.cyber_physical.correlation_finding''
      \<and> cpr_finding_schema_version p = ''1.0.0'' \<and> valid_dependencies (cpr_dependencies p)
      \<and> list_all valid_correlation_rule (cpr_rules p) \<and> length (cpr_rules p) = 2)"

section \<open>The frozen contract\<close>

definition S3_RULE_ID :: string where
  "S3_RULE_ID = ''CPR-S3-CV-TRANSFER-001''"

definition S4_RULE_ID :: string where
  "S4_RULE_ID = ''CPR-S4-PUMP-FLOW-001''"

definition s3_thresholds :: ThresholdContract where
  "s3_thresholds = \<lparr>
     th_valve_target_percent = Some 25,
     th_valve_tolerance_percentage_points = Some (f64_literal 0.5),
     th_valve_persistence_samples = Some 3,
     th_flow_decrease_m3h = Some (f64_literal 0.5),
     th_flow_unchanged_deadband_m3h = f64_literal 0.1,
     th_flow_persistence_samples = 5,
     th_pressure_increase_bar = f64_literal 0.1,
     th_pressure_unchanged_deadband_bar = f64_literal 0.05,
     th_pressure_persistence_samples = 5,
     th_inventory_rate_reduction_percentage_points_per_second = Some (f64_literal 0.00002),
     th_inventory_stagnation_percentage_points_per_second = None,
     th_conservation_tolerance = f64_literal 0.000000001,
     th_low_flow_threshold_m3h = None,
     th_terminal_inventory_seconds = None,
     th_flow_baseline_stability_m3h = f64_literal 0.1,
     th_pressure_baseline_stability_bar = f64_literal 0.05,
     th_valve_baseline_stability_percentage_points = Some (f64_literal 0.5)\<rparr>"

definition s4_thresholds :: ThresholdContract where
  "s4_thresholds = \<lparr>
     th_valve_target_percent = None,
     th_valve_tolerance_percentage_points = None,
     th_valve_persistence_samples = None,
     th_flow_decrease_m3h = Some (f64_literal 0.5),
     th_flow_unchanged_deadband_m3h = f64_literal 0.1,
     th_flow_persistence_samples = 10,
     th_pressure_increase_bar = f64_literal 0.5,
     th_pressure_unchanged_deadband_bar = f64_literal 0.05,
     th_pressure_persistence_samples = 10,
     th_inventory_rate_reduction_percentage_points_per_second = None,
     th_inventory_stagnation_percentage_points_per_second = Some (f64_literal 0.00001),
     th_conservation_tolerance = f64_literal 0.000000001,
     th_low_flow_threshold_m3h = Some (f64_literal 0.1),
     th_terminal_inventory_seconds = Some 20,
     th_flow_baseline_stability_m3h = f64_literal 0.1,
     th_pressure_baseline_stability_bar = f64_literal 0.05,
     th_valve_baseline_stability_percentage_points = None\<rparr>"

definition window_tuple :: "CorrelationRule \<Rightarrow> int \<times> int \<times> int \<times> int" where
  "window_tuple r = (wc_baseline_seconds (cru_window r), wc_effect_seconds (cru_window r),
     wc_minimum_baseline_samples (cru_window r), wc_minimum_effect_samples (cru_window r))"

definition relationship_tuples :: "CorrelationRule \<Rightarrow> (string \<times> string \<times> string) list" where
  "relationship_tuples r = map (\<lambda>m. (rm_source_asset_key m, rm_relationship_type m,
     rm_target_asset_key m)) (cru_relationships r)"

definition exactly :: "'a list \<Rightarrow> 'a list \<Rightarrow> bool" where
  "exactly xs ys = (set xs = set ys \<and> length xs = length ys)"

definition validate_frozen_contract :: "CorrelationProfile \<Rightarrow> CorrelationError + unit" where
  "validate_frozen_contract p =
     (if cpr_profile_version p \<noteq> CORRELATION_PROFILE_VERSION
      then Inl (ValueError ''unsupported correlation profile version'')
      else if set (cpr_statuses p) \<noteq> {CORRELATED, NOT_CORRELATED, INSUFFICIENT_EVIDENCE, INDETERMINATE}
              \<or> length (cpr_statuses p) \<noteq> 4
      then Inl (ValueError ''correlation status catalog differs from the contract'')
      else if cpr_reason_precedence p \<noteq> CORRELATION_REASON_PRECEDENCE
      then Inl (ValueError ''correlation reason precedence differs from the contract'')
      else if set (map cru_rule_id (cpr_rules p)) \<noteq> {S3_RULE_ID, S4_RULE_ID}
      then Inl (ValueError ''exactly the two approved correlation rules are required'')
      else
      (case (dict_of cru_rule_id (cpr_rules p) S3_RULE_ID, dict_of cru_rule_id (cpr_rules p) S4_RULE_ID) of
         (Some s3, Some s4) \<Rightarrow>
           if (cru_rule_version s3, cru_evaluator_branch s3) \<noteq> (''1.0.0'', S3)
              \<or> (cru_rule_version s4, cru_evaluator_branch s4) \<noteq> (''1.0.0'', S4)
           then Inl (ValueError ''correlation rule identity/version is invalid'')
           else if window_tuple s3 \<noteq> (10, 30, 8, 24)
           then Inl (ValueError ''S3 window differs from the frozen contract'')
           else if window_tuple s4 \<noteq> (10, 60, 8, 50)
           then Inl (ValueError ''S4 window differs from the frozen contract'')
           else if \<exists>r \<in> set (cpr_rules p). wc_maximum_gap_seconds (cru_window r) \<noteq> 2
           then Inl (ValueError ''maximum telemetry gap must be two seconds'')
           else if \<not> exactly (cru_process_asset_keys s3) [''CV-101'', ''PL-101'', ''TK-101'', ''TK-102'']
           then Inl (ValueError ''S3 process assets differ from the frozen contract'')
           else if \<not> exactly (cru_process_asset_keys s4) [''P-101'', ''PL-101'', ''TK-101'', ''TK-102'']
           then Inl (ValueError ''S4 process assets differ from the frozen contract'')
           else if \<not> exactly (cru_point_ids s3)
               [''control_valve_position_percent'', ''pipeline_flow_rate_m3h'', ''pipeline_pressure_bar'',
                ''source_tank_level_percent'', ''receiving_tank_level_percent'']
           then Inl (ValueError ''S3 process points differ from the frozen contract'')
           else if \<not> exactly (cru_point_ids s4)
               [''transfer_pump_running'', ''pipeline_flow_rate_m3h'', ''pipeline_pressure_bar'',
                ''source_tank_level_percent'', ''receiving_tank_level_percent'']
           then Inl (ValueError ''S4 process points differ from the frozen contract'')
           else if \<not> exactly (relationship_tuples s3)
               [(''PLC-01'', ''CONTROLS'', ''CV-101''), (''CV-101'', ''PROCESS_PATH'', ''PL-101''),
                (''TK-101'', ''PROCESS_PATH'', ''TK-102'')]
           then Inl (ValueError ''S3 relationships differ from the frozen contract'')
           else if \<not> exactly (relationship_tuples s4)
               [(''PLC-01'', ''CONTROLS'', ''P-101''), (''P-101'', ''PROCESS_PATH'', ''PL-101''),
                (''TK-101'', ''PROCESS_PATH'', ''TK-102'')]
           then Inl (ValueError ''S4 relationships differ from the frozen contract'')
           else if cru_thresholds s3 \<noteq> s3_thresholds
           then Inl (ValueError ''S3 thresholds differ from the frozen contract'')
           else if cru_thresholds s4 \<noteq> s4_thresholds
           then Inl (ValueError ''S4 thresholds differ from the frozen contract'')
           else Inr ()
       | _ \<Rightarrow> Inl (ValueError ''exactly the two approved correlation rules are required'')))"

text \<open>Model validation: the field constraints, then the contract.\<close>

definition validate_correlation_profile :: "CorrelationProfile \<Rightarrow> CorrelationError + unit" where
  "validate_correlation_profile p =
     (if valid_correlation_fields p then validate_frozen_contract p
      else Inl (ValidationError ''CorrelationProfile''))"

section \<open>Dependencies\<close>

definition EXPECTED_CORRELATION_PROFILE_SHA256 :: digest where
  "EXPECTED_CORRELATION_PROFILE_SHA256 =
     ''bf0be174d58627da7ecf17ebde325d0aa5ad57a742b92df2ac524f46ae2856c2''"

definition EXPECTED_INVENTORY_SHA256 :: digest where
  "EXPECTED_INVENTORY_SHA256 =
     ''5b101619ae8fbb279c2b79938a09ab6fc4432712c0f8f03e5d3edead43edb01b''"

definition EXPECTED_POLICY_SHA256 :: digest where
  "EXPECTED_POLICY_SHA256 =
     ''f396a1eeae4318585c6b2c7290cbb2e409509f3d54bf6e2a276bc027d5d17159''"

fun RelationshipType_value :: "RelationshipType \<Rightarrow> string" where
  "RelationshipType_value HOSTS_ENDPOINT = ''HOSTS_ENDPOINT''"
| "RelationshipType_value CONTROLS = ''CONTROLS''"
| "RelationshipType_value OBSERVES = ''OBSERVES''"
| "RelationshipType_value MONITORS = ''MONITORS''"

definition validate_rule_dependencies ::
  "LoadedInventory \<Rightarrow> CorrelationRule \<Rightarrow> CorrelationError + unit" where
  "validate_rule_dependencies inventory rule =
     (let relationships = set (map (\<lambda>r. (rd_source_asset_key r,
            RelationshipType_value (rd_relationship_type r), rd_target_ref r))
            (ip_relationships (li_profile inventory))) in
      if \<exists>k \<in> set (cru_process_asset_keys rule). assets inventory k = None
      then Inl (CorrelationProfileError ''A correlation rule references an unknown asset.'')
      else for_each (\<lambda>m.
        require (\<not> (rm_relationship_type m \<noteq> ''PROCESS_PATH''
            \<and> (rm_source_asset_key m, rm_relationship_type m, rm_target_asset_key m) \<notin> relationships))
          (CorrelationProfileError ''A correlation relationship is not approved.''))
        (cru_relationships rule))"

definition validate_correlation_dependencies ::
  "LoadedCorrelationProfile \<Rightarrow> LoadedInventory option \<Rightarrow> LoadedPolicy option \<Rightarrow> LoadedProfile option \<Rightarrow>
   CorrelationError + unit" where
  "validate_correlation_dependencies loaded inventory policy protocol_profile =
     (let d = cpr_dependencies (lcp_profile loaded) in
      if ds_inventory_profile_sha256 d \<noteq> EXPECTED_INVENTORY_SHA256
         \<or> ds_policy_profile_sha256 d \<noteq> EXPECTED_POLICY_SHA256
         \<or> ds_protocol_profile_sha256 d \<noteq> EXPECTED_PROTOCOL_PROFILE_SHA256
      then Inl (CorrelationProfileError ''A frozen correlation dependency digest is invalid.'')
      else if option_all (\<lambda>i. ds_inventory_profile_id d = ip_profile_id (li_profile i)
                \<and> ds_inventory_profile_version d = ip_profile_version (li_profile i)
                \<and> ds_inventory_profile_sha256 d = li_sha256 i) inventory = False
      then Inl (CorrelationProfileError ''The loaded asset inventory does not match the profile.'')
      else if option_all (\<lambda>l. ds_policy_profile_id d = cp_profile_id (lpo_profile l)
                \<and> ds_policy_profile_version d = cp_profile_version (lpo_profile l)
                \<and> ds_policy_profile_sha256 d = lpo_sha256 l) policy = False
      then Inl (CorrelationProfileError ''The loaded policy does not match the profile.'')
      else if option_all (\<lambda>l. ds_protocol_profile_id d = mp_profile_id (lp_profile l)
                \<and> ds_protocol_profile_version d = mp_profile_version (lp_profile l)
                \<and> ds_protocol_profile_sha256 d = lp_sha256 l) protocol_profile = False
      then Inl (CorrelationProfileError ''The loaded protocol profile does not match the profile.'')
      else case inventory of
             None \<Rightarrow> Inr ()
           | Some i \<Rightarrow> for_each (validate_rule_dependencies i) (cpr_rules (lcp_profile loaded)))"

section \<open>The shipped profile\<close>

definition v1_dependencies :: DependencySet where
  "v1_dependencies = \<lparr>
     ds_inventory_profile_id = ''otsoc.asset_inventory.oil_gas_transfer'',
     ds_inventory_profile_version = ''1.0.0'',
     ds_inventory_profile_sha256 = ''5b101619ae8fbb279c2b79938a09ab6fc4432712c0f8f03e5d3edead43edb01b'',
     ds_policy_profile_id = ''otsoc.communication_policy.oil_gas_transfer'',
     ds_policy_profile_version = ''1.0.0'',
     ds_policy_profile_sha256 = ''f396a1eeae4318585c6b2c7290cbb2e409509f3d54bf6e2a276bc027d5d17159'',
     ds_protocol_profile_id = ''otsoc.synthetic_modbus.oil_gas_transfer'',
     ds_protocol_profile_version = ''1.0.0'',
     ds_protocol_profile_sha256 = ''b3ade7b3ae5dd7e5955c54b5a3345dc6f79b5bfa7bf78a2f1a82df3a5f4016ff'',
     ds_telemetry_schema = ''otsoc.simulator.telemetry'',
     ds_telemetry_schema_version = ''2.0.0'',
     ds_simulator_version = ''3.0.0'',
     ds_process_model_version = ''3.6''\<rparr>"

definition v1_window :: "int \<Rightarrow> int \<Rightarrow> WindowContract" where
  "v1_window effect_seconds minimum_effect_samples = \<lparr>
     wc_baseline_seconds = 10, wc_effect_seconds = effect_seconds, wc_cadence_seconds = 1,
     wc_minimum_baseline_samples = 8, wc_minimum_effect_samples = minimum_effect_samples,
     wc_maximum_gap_seconds = 2, wc_baseline_start_inclusive = True,
     wc_baseline_end_inclusive = False, wc_effect_start_inclusive = True,
     wc_effect_end_inclusive = True\<rparr>"

definition relation :: "string \<Rightarrow> string \<Rightarrow> string \<Rightarrow> RelationshipMapping" where
  "relation source kind target = \<lparr>rm_source_asset_key = source, rm_relationship_type = kind,
     rm_target_asset_key = target\<rparr>"

definition v1_s3_rule :: CorrelationRule where
  "v1_s3_rule = \<lparr>
     cru_rule_id = ''CPR-S3-CV-TRANSFER-001'',
     cru_rule_version = ''1.0.0'',
     cru_evaluator_branch = S3,
     cru_process_asset_keys = [''CV-101'', ''PL-101'', ''TK-101'', ''TK-102''],
     cru_point_ids = [''control_valve_position_percent'', ''pipeline_flow_rate_m3h'',
       ''pipeline_pressure_bar'', ''source_tank_level_percent'', ''receiving_tank_level_percent''],
     cru_relationships = [relation ''PLC-01'' ''CONTROLS'' ''CV-101'',
       relation ''CV-101'' ''PROCESS_PATH'' ''PL-101'', relation ''TK-101'' ''PROCESS_PATH'' ''TK-102''],
     cru_window = v1_window 30 24,
     cru_thresholds = s3_thresholds,
     cru_statement_template_id = ''S3_COMMAND_FOLLOWED_BY_PROCESS_OBSERVATION''\<rparr>"

definition v1_s4_rule :: CorrelationRule where
  "v1_s4_rule = \<lparr>
     cru_rule_id = ''CPR-S4-PUMP-FLOW-001'',
     cru_rule_version = ''1.0.0'',
     cru_evaluator_branch = S4,
     cru_process_asset_keys = [''P-101'', ''PL-101'', ''TK-101'', ''TK-102''],
     cru_point_ids = [''transfer_pump_running'', ''pipeline_flow_rate_m3h'',
       ''pipeline_pressure_bar'', ''source_tank_level_percent'', ''receiving_tank_level_percent''],
     cru_relationships = [relation ''PLC-01'' ''CONTROLS'' ''P-101'',
       relation ''P-101'' ''PROCESS_PATH'' ''PL-101'', relation ''TK-101'' ''PROCESS_PATH'' ''TK-102''],
     cru_window = v1_window 60 50,
     cru_thresholds = s4_thresholds,
     cru_statement_template_id = ''S4_PROCESS_INCONSISTENCY_OBSERVED''\<rparr>"

definition oil_gas_correlation_v1 :: CorrelationProfile where
  "oil_gas_correlation_v1 = \<lparr>
     cpr_profile_id = ''otsoc.correlation.oil_gas_transfer'',
     cpr_profile_version = ''1.0.0'',
     cpr_domain = ''oil_gas_transfer'',
     cpr_educational_only = True,
     cpr_disclaimer = ''Fictional academic synthetic correlation parameters; not plant-derived alarms.'',
     cpr_finding_schema = ''otsoc.cyber_physical.correlation_finding'',
     cpr_finding_schema_version = ''1.0.0'',
     cpr_dependencies = v1_dependencies,
     cpr_statuses = [CORRELATED, NOT_CORRELATED, INSUFFICIENT_EVIDENCE, INDETERMINATE],
     cpr_reason_precedence = [PARENT_EVIDENCE_NOT_VERIFIED, PROFILE_VERSION_UNSUPPORTED,
       PROFILE_DIGEST_MISMATCH, UNSUPPORTED_CORRELATION_RULE, RUN_ID_MISMATCH,
       CONFIGURATION_MISMATCH, SIMULATOR_VERSION_MISMATCH, CLOCK_SEQUENCE_MISMATCH,
       ASSET_RELATION_MISMATCH, POINT_RELATION_NOT_DEFINED, WINDOW_NOT_FINALIZED,
       MISSING_TELEMETRY, INSUFFICIENT_SAMPLES, TELEMETRY_GAP_EXCEEDED, BASELINE_NOT_STABLE,
       PROCESS_CHANGE_OUTSIDE_WINDOW, PROCESS_EFFECT_DIRECTION_MISMATCH, NO_PROCESS_CHANGE,
       CORRELATION_MATCH],
     cpr_rules = [v1_s3_rule, v1_s4_rule]\<rparr>"

definition v1_correlation :: LoadedCorrelationProfile where
  "v1_correlation = \<lparr>lcp_profile = oil_gas_correlation_v1, lcp_sha256 = EXPECTED_CORRELATION_PROFILE_SHA256\<rparr>"

section \<open>What a validated profile is\<close>

lemma v1_correlation_valid: "validate_correlation_profile (lcp_profile v1_correlation) = Inr ()"
  by code_simp

lemma v1_correlation_dependencies:
  "validate_correlation_dependencies v1_correlation (Some v1_inventory) (Some v1_policy) (Some v1_protocol)
     = Inr ()"
  by code_simp

text \<open>The two rules of a validated profile, and everything the contract pins down in them.\<close>

definition approved_rules :: "CorrelationProfile \<Rightarrow> CorrelationRule \<Rightarrow> CorrelationRule \<Rightarrow> bool" where
  "approved_rules p s3 s4 =
     ((cpr_rules p = [s3, s4] \<or> cpr_rules p = [s4, s3])
      \<and> cru_rule_id s3 = S3_RULE_ID \<and> cru_rule_id s4 = S4_RULE_ID
      \<and> cru_rule_version s3 = ''1.0.0'' \<and> cru_rule_version s4 = ''1.0.0''
      \<and> cru_evaluator_branch s3 = S3 \<and> cru_evaluator_branch s4 = S4
      \<and> window_tuple s3 = (10, 30, 8, 24) \<and> window_tuple s4 = (10, 60, 8, 50)
      \<and> wc_maximum_gap_seconds (cru_window s3) = 2 \<and> wc_maximum_gap_seconds (cru_window s4) = 2
      \<and> cru_thresholds s3 = s3_thresholds \<and> cru_thresholds s4 = s4_thresholds
      \<and> valid_correlation_rule s3 \<and> valid_correlation_rule s4
      \<and> set (cru_point_ids s3) = {''control_valve_position_percent'', ''pipeline_flow_rate_m3h'',
          ''pipeline_pressure_bar'', ''source_tank_level_percent'', ''receiving_tank_level_percent''}
      \<and> set (cru_point_ids s4) = {''transfer_pump_running'', ''pipeline_flow_rate_m3h'',
          ''pipeline_pressure_bar'', ''source_tank_level_percent'', ''receiving_tank_level_percent''})"

lemma rule_ids_distinct: "S3_RULE_ID \<noteq> S4_RULE_ID"
  by (simp add: S3_RULE_ID_def S4_RULE_ID_def)

lemma two_rules:
  assumes "length xs = 2" "set (map f xs) = {a, b}" "a \<noteq> b"
    "dict_of f xs a = Some s" "dict_of f xs b = Some t"
  shows "(xs = [s, t] \<or> xs = [t, s]) \<and> f s = a \<and> f t = b"
proof -
  obtain x y where xs: "xs = [x, y]"
    using assms(1) by (metis One_nat_def Suc_1 length_0_conv length_Suc_conv)
  have "s \<in> set xs" "f s = a" "t \<in> set xs" "f t = b"
    using dict_of_SomeD [OF assms(4)] dict_of_SomeD [OF assms(5)] by blast+
  with xs assms(3) show ?thesis by auto
qed

lemma contract_rules:
  assumes "validate_correlation_profile p = Inr ()"
  obtains s3 s4 where "approved_rules p s3 s4"
proof -
  have fields: "valid_correlation_fields p" and frozen: "validate_frozen_contract p = Inr ()"
    using assms by (auto simp: validate_correlation_profile_def split: if_splits)
  have ids: "set (map cru_rule_id (cpr_rules p)) = {S3_RULE_ID, S4_RULE_ID}"
    using frozen by (auto simp: validate_frozen_contract_def split: if_splits)
  then obtain s3 s4 where found: "dict_of cru_rule_id (cpr_rules p) S3_RULE_ID = Some s3"
      "dict_of cru_rule_id (cpr_rules p) S4_RULE_ID = Some s4"
    by (metis dict_of_None insertI1 insertI2 list.set_map not_None_eq)
  have "length (cpr_rules p) = 2" using fields by (simp add: valid_correlation_fields_def)
  then have pair: "(cpr_rules p = [s3, s4] \<or> cpr_rules p = [s4, s3])
      \<and> cru_rule_id s3 = S3_RULE_ID \<and> cru_rule_id s4 = S4_RULE_ID"
    by (rule two_rules [OF _ ids rule_ids_distinct found])
  then have members: "s3 \<in> set (cpr_rules p)" "s4 \<in> set (cpr_rules p)" by auto
  then have "valid_correlation_rule s3" "valid_correlation_rule s4"
    using fields by (auto simp: valid_correlation_fields_def list_all_iff)
  moreover have "cru_rule_version s3 = ''1.0.0'' \<and> cru_rule_version s4 = ''1.0.0''
      \<and> cru_evaluator_branch s3 = S3 \<and> cru_evaluator_branch s4 = S4
      \<and> window_tuple s3 = (10, 30, 8, 24) \<and> window_tuple s4 = (10, 60, 8, 50)
      \<and> (\<forall>r \<in> set (cpr_rules p). wc_maximum_gap_seconds (cru_window r) = 2)
      \<and> cru_thresholds s3 = s3_thresholds \<and> cru_thresholds s4 = s4_thresholds
      \<and> exactly (cru_point_ids s3) [''control_valve_position_percent'', ''pipeline_flow_rate_m3h'',
          ''pipeline_pressure_bar'', ''source_tank_level_percent'', ''receiving_tank_level_percent'']
      \<and> exactly (cru_point_ids s4) [''transfer_pump_running'', ''pipeline_flow_rate_m3h'',
          ''pipeline_pressure_bar'', ''source_tank_level_percent'', ''receiving_tank_level_percent'']"
    using frozen unfolding validate_frozen_contract_def found option.case prod.case
    by (simp split: if_splits)
  ultimately have "approved_rules p s3 s4"
    using pair members by (simp add: approved_rules_def exactly_def)
  then show ?thesis by (rule that)
qed

lemma contract_header:
  assumes "validate_correlation_profile p = Inr ()"
  shows "cpr_profile_id p = CORRELATION_PROFILE_ID" "cpr_profile_version p = CORRELATION_PROFILE_VERSION"
    "valid_dependencies (cpr_dependencies p)"
proof -
  have fields: "valid_correlation_fields p" and frozen: "validate_frozen_contract p = Inr ()"
    using assms by (auto simp: validate_correlation_profile_def split: if_splits)
  then show "cpr_profile_id p = CORRELATION_PROFILE_ID" "valid_dependencies (cpr_dependencies p)"
    by (simp_all add: valid_correlation_fields_def CORRELATION_PROFILE_ID_def)
  show "cpr_profile_version p = CORRELATION_PROFILE_VERSION"
  proof (rule ccontr)
    assume "cpr_profile_version p \<noteq> CORRELATION_PROFILE_VERSION"
    with frozen show False by (simp add: validate_frozen_contract_def)
  qed
qed

lemma approved_lookup:
  assumes "approved_rules (lcp_profile loaded) s3 s4"
  shows "rules loaded k = (if k = S3_RULE_ID then Some s3 else if k = S4_RULE_ID then Some s4 else None)"
proof -
  have "cpr_rules (lcp_profile loaded) = [s3, s4] \<or> cpr_rules (lcp_profile loaded) = [s4, s3]"
    and "cru_rule_id s3 = S3_RULE_ID" "cru_rule_id s4 = S4_RULE_ID"
    using assms unfolding approved_rules_def by blast+
  with rule_ids_distinct show ?thesis by (auto simp: rules_def dict_of_def)
qed

end
