(* ===== verification/Canonical.thy ===== *)
theory Canonical
  imports Py_Json
begin

text \<open>
  Canonical lists: the correlation code removes repeated items by their identifier, refuses two
  different items under one identifier, and sorts what is left. The interface \<open>canonical_list\<close> asks
  that items of equal rank have the same identifier; its lemmas then show that the outcome depends
  on the set of items only.
\<close>

text \<open>
  \<open>unique\<close> after the loop, as the list of its values: a dictionary keeps the place of the first
  insertion, and a second value under a key is accepted only when it is equal.
\<close>

fun unique_values :: "('a \<Rightarrow> 'k) \<Rightarrow> 'e \<Rightarrow> 'a list \<Rightarrow> 'a list \<Rightarrow> 'e + 'a list" where
  "unique_values key e seen [] = Inr seen"
| "unique_values key e seen (x # xs) =
     (case find (\<lambda>y. key y = key x) seen of
        None \<Rightarrow> unique_values key e (seen @ [x]) xs
      | Some existing \<Rightarrow> if existing \<noteq> x then Inl e else unique_values key e seen xs)"

definition canonical_of :: "('a \<Rightarrow> 'k) \<Rightarrow> ('a \<Rightarrow> 'o::linorder) \<Rightarrow> 'e \<Rightarrow> 'a list \<Rightarrow> 'e + 'a list" where
  "canonical_of key order e items =
     rbind (unique_values key e [] items) (\<lambda>unique. Inr (sort_key order unique))"

text \<open>The loop succeeds exactly when no two different items share a key.\<close>

lemma unique_values_spec:
  assumes "distinct (map key seen)"
  shows "(case unique_values key e seen xs of
      Inl e' \<Rightarrow> e' = e \<and> \<not> inj_on key (set seen \<union> set xs)
    | Inr ys \<Rightarrow> inj_on key (set seen \<union> set xs) \<and> set ys = set seen \<union> set xs \<and> distinct (map key ys))"
  using assms
proof (induction xs arbitrary: seen)
  case Nil
  then show ?case by (simp add: distinct_map)
next
  case (Cons x xs)
  show ?case
  proof (cases "find (\<lambda>y. key y = key x) seen")
    case None
    then have "key x \<notin> key ` set seen" by (force simp: find_eq_None_iff)
    with Cons.prems have "distinct (map key (seen @ [x]))" by auto
    with Cons.IH [of "seen @ [x]"] None show ?thesis by (simp split: sum.splits)
  next
    case (Some y)
    then have y: "y \<in> set seen" "key y = key x" by (auto dest: find_eq_Some_iff)
    show ?thesis
    proof (cases "y = x")
      case True
      with y have "set seen \<union> set (x # xs) = set seen \<union> set xs" by auto
      with Cons.IH [OF Cons.prems] Some True show ?thesis by (simp split: sum.splits)
    next
      case False
      with y have "\<not> inj_on key (set seen \<union> set (x # xs))" by (auto simp: inj_on_def)
      with Some False show ?thesis by simp
    qed
  qed
qed

locale canonical_list =
  fixes key :: "'a \<Rightarrow> 'k" and order :: "'a \<Rightarrow> 'o::linorder" and conflict :: 'e
    and canonical :: "'a list \<Rightarrow> 'e + 'a list"
  assumes canonical_is: "canonical items = canonical_of key order conflict items"
    and order_key: "order x = order y \<Longrightarrow> key x = key y"
begin

lemma unique_cases:
  obtains ys where "unique_values key conflict [] xs = Inr ys" "inj_on key (set xs)" "set ys = set xs"
      "distinct (map key ys)"
    | "unique_values key conflict [] xs = Inl conflict" "\<not> inj_on key (set xs)"
  using unique_values_spec [of key "[]" conflict xs] by (auto split: sum.splits)

lemma canonical_cases:
  obtains ys where "canonical xs = Inr ys" "inj_on key (set xs)" "set ys = set xs"
      "distinct (map key ys)" "sorted (map order ys)"
    | "canonical xs = Inl conflict" "\<not> inj_on key (set xs)"
proof (cases rule: unique_cases [of xs])
  case (1 ys)
  have "mset (map key (sort_key order ys)) = mset (map key ys)" by simp
  then have "distinct (map key (sort_key order ys))" using 1(4) by (blast dest: mset_eq_imp_distinct_iff)
  with 1 show ?thesis by (intro that(1) [of "sort_key order ys"]) (simp_all add: canonical_is canonical_of_def)
next
  case 2
  then show ?thesis by (intro that(2)) (simp_all add: canonical_is canonical_of_def)
qed

lemma canonical_InrD:
  assumes "canonical xs = Inr ys"
  shows "inj_on key (set xs)" "set ys = set xs" "distinct (map key ys)" "sorted (map order ys)"
  using assms by (cases rule: canonical_cases [of xs]; simp)+

lemma canonical_returns: "(\<exists>ys. canonical xs = Inr ys) \<longleftrightarrow> inj_on key (set xs)"
  by (cases rule: canonical_cases [of xs]) auto

lemma canonical_refuses: "canonical xs = Inl e \<longleftrightarrow> e = conflict \<and> \<not> inj_on key (set xs)"
  by (cases rule: canonical_cases [of xs]) auto

lemma canonical_unique:
  assumes "set ys = set zs" "distinct (map key ys)" "distinct (map key zs)"
    "sorted (map order ys)" "sorted (map order zs)"
  shows "ys = zs"
proof -
  have "distinct ys" "distinct zs" using assms(2,3) by (auto simp: distinct_map)
  then have m: "mset ys = mset zs" using assms(1) set_eq_iff_mset_eq_distinct by blast
  have "inj_on key (set ys)" using assms(2) by (simp add: distinct_map)
  then have "inj_on order (set ys)" by (meson inj_on_def order_key)
  with \<open>distinct ys\<close> have "distinct (map order ys)" by (simp add: distinct_map)
  then have "sort_key order ys = sort_key order zs" by (rule sort_key_perm_eq [OF m])
  then show ?thesis using assms(4,5) by (simp add: sorted_sort_id sort_key_id_if_sorted)
qed

text \<open>The canonical list is a function of the set of items.\<close>

lemma canonical_set_cong:
  assumes "set xs = set xs'"
  shows "canonical xs = canonical xs'"
proof (cases rule: canonical_cases [of xs])
  case (1 ys)
  then obtain ys' where "canonical xs' = Inr ys'" using assms canonical_returns by metis
  with 1 assms show ?thesis using canonical_unique [of ys ys'] canonical_InrD [of xs' ys'] by simp
next
  case 2
  with assms show ?thesis using canonical_refuses by metis
qed

lemma canonical_idem: "canonical xs = Inr ys \<Longrightarrow> canonical ys = Inr ys"
  using canonical_set_cong canonical_InrD(2) by metis

end

end
