(* ===== verification/Correlation.thy ===== *)
theory Correlation
  imports Correlation_Profile Canonical Py_Time
begin

text \<open>
  The evaluation of a correlation request (\<open>app/correlation/temporal.py\<close>, \<open>baseline.py\<close>, \<open>process.py\<close>,
  \<open>decisions.py\<close>, \<open>s3.py\<close>, \<open>s4.py\<close>, \<open>canonical.py\<close>, \<open>findings.py\<close> and \<open>evaluator.py\<close>). Every step that can
  raise returns a result; the evaluation is a function of the request and the loaded profile.
  The rendering of a datetime in a dumped parent reference is the parameter \<open>isoformat\<close>; the anchor
  of a source event id is rendered in UTC, the zone of the stored datetimes.
\<close>

section \<open>Canonical order and run consistency\<close>

definition telemetry_order :: "TelemetryEvidence \<Rightarrow> timestamp \<times> int \<times> uuid" where
  "telemetry_order t = (te_observed_at t, te_sequence_number t, te_evidence_id t)"

definition canonical_telemetry ::
  "TelemetryEvidence list \<Rightarrow> CorrelationError + TelemetryEvidence list" where
  "canonical_telemetry telemetry =
     rbind (unique_values te_evidence_id (ValueError ''one telemetry evidence ID has conflicting content'')
       [] telemetry) (\<lambda>unique. Inr (sort_key telemetry_order unique))"

record RunConsistency =
  rc_reason :: "CorrelationReasonCode option"
  rc_simulation_id :: "string option"
  rc_configuration_hash :: "digest option"
  rc_simulator_version :: "string option"
  rc_run_origin :: "timestamp option"

definition run_origin_of :: "TelemetryEvidence \<Rightarrow> timestamp" where
  "run_origin_of t =
     te_observed_at t - tp_simulation_time_seconds (te_payload t) * microseconds_per_second"

definition validate_run_consistency :: "TelemetryEvidence list \<Rightarrow> CorrelationError + RunConsistency" where
  "validate_run_consistency telemetry =
     (if telemetry = [] then Inr \<lparr>rc_reason = None, rc_simulation_id = None,
        rc_configuration_hash = None, rc_simulator_version = None, rc_run_origin = None\<rparr>
      else rbind (canonical_telemetry telemetry) (\<lambda>ordered.
      (let run_ids = remdups (map (tp_simulation_id \<circ> te_payload) ordered);
           configurations = remdups (map (tp_configuration_hash \<circ> te_payload) ordered);
           simulator_versions = remdups (map (tp_simulator_version \<circ> te_payload) ordered);
           timestamps = map te_observed_at ordered;
           sequences = map te_sequence_number ordered;
           origins = remdups (map run_origin_of ordered) in
       if length run_ids \<noteq> 1
       then Inr \<lparr>rc_reason = Some RUN_ID_MISMATCH, rc_simulation_id = None,
         rc_configuration_hash = None, rc_simulator_version = None, rc_run_origin = None\<rparr>
       else if length configurations \<noteq> 1
       then Inr \<lparr>rc_reason = Some CONFIGURATION_MISMATCH, rc_simulation_id = Some (hd run_ids),
         rc_configuration_hash = None, rc_simulator_version = None, rc_run_origin = None\<rparr>
       else if simulator_versions \<noteq> [''3.0.0'']
       then Inr \<lparr>rc_reason = Some SIMULATOR_VERSION_MISMATCH, rc_simulation_id = Some (hd run_ids),
         rc_configuration_hash = Some (hd configurations), rc_simulator_version = None,
         rc_run_origin = None\<rparr>
       else if \<not> distinct timestamps \<or> \<not> distinct sequences
       then Inr \<lparr>rc_reason = Some CLOCK_SEQUENCE_MISMATCH, rc_simulation_id = Some (hd run_ids),
         rc_configuration_hash = Some (hd configurations),
         rc_simulator_version = Some (hd simulator_versions), rc_run_origin = None\<rparr>
       else if length origins \<noteq> 1
       then Inr \<lparr>rc_reason = Some CLOCK_SEQUENCE_MISMATCH, rc_simulation_id = Some (hd run_ids),
         rc_configuration_hash = Some (hd configurations),
         rc_simulator_version = Some (hd simulator_versions), rc_run_origin = None\<rparr>
       else Inr \<lparr>rc_reason = None, rc_simulation_id = Some (hd run_ids),
         rc_configuration_hash = Some (hd configurations),
         rc_simulator_version = Some (hd simulator_versions), rc_run_origin = Some (hd origins)\<rparr>)))"

section \<open>Windows\<close>

record WindowSelection =
  ws_baseline :: "TelemetryEvidence list"
  ws_effect :: "TelemetryEvidence list"
  ws_after :: "TelemetryEvidence list"
  ws_start :: timestamp
  ws_end :: timestamp
  ws_finalized :: bool
  ws_maximum_gap_seconds :: "f64 option"
  ws_gap_reason :: "CorrelationReasonCode option"

fun adjacent_gaps :: "TelemetryEvidence list \<Rightarrow> (f64 \<times> bool) list" where
  "adjacent_gaps (previous # current # rest) =
     (let time_delta = total_seconds (te_observed_at current - te_observed_at previous);
          sequence_delta = te_sequence_number current - te_sequence_number previous;
          invalid = (time_delta \<le> 0 \<or> sequence_delta \<le> 0 \<or> f64_round (of_int sequence_delta) \<noteq> time_delta) in
      (time_delta, invalid) # adjacent_gaps (current # rest))"
| "adjacent_gaps telemetry = []"

text \<open>\<open>max(items, default=None)\<close>.\<close>

fun max_option :: "'a::linorder list \<Rightarrow> 'a option" where
  "max_option [] = None"
| "max_option (x # xs) = Some (fold max xs x)"

definition seconds :: "int \<Rightarrow> int" where
  "seconds n = n * microseconds_per_second"

definition select_window ::
  "TelemetryEvidence list \<Rightarrow> timestamp \<Rightarrow> int \<Rightarrow> int \<Rightarrow> int \<Rightarrow> CorrelationError + WindowSelection" where
  "select_window telemetry anchor baseline_seconds effect_seconds maximum_gap_seconds =
     rbind (canonical_telemetry telemetry) (\<lambda>ordered.
     (let start = anchor - seconds baseline_seconds;
          fin = anchor + seconds effect_seconds;
          baseline = filter (\<lambda>t. start \<le> te_observed_at t \<and> te_observed_at t < anchor) ordered;
          effect = filter (\<lambda>t. anchor \<le> te_observed_at t \<and> te_observed_at t \<le> fin) ordered;
          gaps = adjacent_gaps baseline @ adjacent_gaps effect;
          max_gap = max_option (map fst gaps);
          invalid_sequence = list_ex snd gaps in
      Inr \<lparr>ws_baseline = baseline,
        ws_effect = effect,
        ws_after = filter (\<lambda>t. te_observed_at t > fin) ordered,
        ws_start = start,
        ws_end = fin,
        ws_finalized = (ordered \<noteq> [] \<and> te_observed_at (last ordered) \<ge> fin),
        ws_maximum_gap_seconds = max_gap,
        ws_gap_reason =
          (if invalid_sequence \<or> (case max_gap of None \<Rightarrow> False | Some g \<Rightarrow> g > of_int maximum_gap_seconds)
           then Some TELEMETRY_GAP_EXCEEDED else None)\<rparr>))"

section \<open>Baselines and process changes\<close>

definition arithmetic_mean ::
  "TelemetryEvidence list \<Rightarrow> (TelemetryEvidence \<Rightarrow> f64) \<Rightarrow> CorrelationError + f64" where
  "arithmetic_mean telemetry accessor =
     (if telemetry = [] then Inl (ValueError ''a baseline mean requires at least one sample'')
      else Inr (f64_div (f64_fsum (map accessor telemetry)) (of_nat (length telemetry))))"

definition value_range ::
  "TelemetryEvidence list \<Rightarrow> (TelemetryEvidence \<Rightarrow> f64) \<Rightarrow> CorrelationError + f64" where
  "value_range telemetry accessor =
     (case map accessor telemetry of
        [] \<Rightarrow> Inl (ValueError ''a baseline range requires at least one sample'')
      | v # vs \<Rightarrow> Inr (f64_sub (fold max vs v) (fold min vs v)))"

definition endpoint_slope ::
  "TelemetryEvidence list \<Rightarrow> (TelemetryEvidence \<Rightarrow> f64) \<Rightarrow> CorrelationError + f64" where
  "endpoint_slope telemetry accessor =
     (if length telemetry < 2 then Inl (ValueError ''an endpoint slope requires two samples'')
      else
      (let first = hd telemetry; final = last telemetry;
           secs = total_seconds (te_observed_at final - te_observed_at first) in
       if secs \<le> 0 then Inl (ValueError ''an endpoint slope requires a positive time span'')
       else Inr (f64_div (f64_sub (accessor final) (accessor first)) secs)))"

text \<open>The two threshold arguments of \<open>classify_delta\<close> are not read by its body.\<close>

definition classify_delta :: "f64 \<Rightarrow> f64 \<Rightarrow> f64 \<Rightarrow> f64 \<Rightarrow> ProcessChange" where
  "classify_delta delta deadband increase_threshold decrease_threshold =
     (if \<bar>delta\<bar> \<le> deadband then UNCHANGED
      else if delta > 0 then INCREASED
      else DECREASED)"

fun persistence_loop :: "('a \<Rightarrow> bool) \<Rightarrow> int \<Rightarrow> int \<Rightarrow> 'a list \<Rightarrow> int" where
  "persistence_loop predicate longest current [] = longest"
| "persistence_loop predicate longest current (sample # rest) =
     (if predicate sample
      then persistence_loop predicate (max longest (current + 1)) (current + 1) rest
      else persistence_loop predicate longest 0 rest)"

definition maximum_persistence :: "'a list \<Rightarrow> ('a \<Rightarrow> bool) \<Rightarrow> int" where
  "maximum_persistence telemetry predicate = persistence_loop predicate 0 0 telemetry"

fun qualifying_runs :: "('a \<Rightarrow> bool) \<Rightarrow> int \<Rightarrow> 'a list list \<Rightarrow> 'a list \<Rightarrow> 'a list \<Rightarrow> 'a list list" where
  "qualifying_runs predicate required runs current [] =
     (if int (length current) \<ge> required then runs @ [current] else runs)"
| "qualifying_runs predicate required runs current (sample # rest) =
     (if predicate sample then qualifying_runs predicate required runs (current @ [sample]) rest
      else qualifying_runs predicate required
        (if int (length current) \<ge> required then runs @ [current] else runs) [] rest)"

text \<open>\<open>xs[-required:]\<close> for a positive \<open>required\<close>.\<close>

definition last_items :: "int \<Rightarrow> 'a list \<Rightarrow> 'a list" where
  "last_items required xs = drop (length xs - nat required) xs"

definition representative_value ::
  "TelemetryEvidence list \<Rightarrow> (TelemetryEvidence \<Rightarrow> f64) \<Rightarrow> (TelemetryEvidence \<Rightarrow> bool) \<Rightarrow> int \<Rightarrow>
   CorrelationError + f64" where
  "representative_value telemetry accessor predicate required =
     (let runs = qualifying_runs predicate required [] [] telemetry;
          selected = (if runs \<noteq> [] then last_items required (last runs) else last_items required telemetry) in
      if selected = [] then Inl (ValueError ''a representative value requires telemetry'')
      else Inr (f64_div (f64_fsum (map accessor selected)) (of_nat (length selected))))"

section \<open>Decisions by reason\<close>

fun STATUS_BY_REASON :: "CorrelationReasonCode \<Rightarrow> CorrelationStatus" where
  "STATUS_BY_REASON PARENT_EVIDENCE_NOT_VERIFIED = INDETERMINATE"
| "STATUS_BY_REASON PROFILE_VERSION_UNSUPPORTED = INDETERMINATE"
| "STATUS_BY_REASON PROFILE_DIGEST_MISMATCH = INDETERMINATE"
| "STATUS_BY_REASON UNSUPPORTED_CORRELATION_RULE = INDETERMINATE"
| "STATUS_BY_REASON RUN_ID_MISMATCH = INDETERMINATE"
| "STATUS_BY_REASON CONFIGURATION_MISMATCH = INDETERMINATE"
| "STATUS_BY_REASON SIMULATOR_VERSION_MISMATCH = INDETERMINATE"
| "STATUS_BY_REASON CLOCK_SEQUENCE_MISMATCH = INDETERMINATE"
| "STATUS_BY_REASON ASSET_RELATION_MISMATCH = INDETERMINATE"
| "STATUS_BY_REASON POINT_RELATION_NOT_DEFINED = INDETERMINATE"
| "STATUS_BY_REASON WINDOW_NOT_FINALIZED = INSUFFICIENT_EVIDENCE"
| "STATUS_BY_REASON MISSING_TELEMETRY = INSUFFICIENT_EVIDENCE"
| "STATUS_BY_REASON INSUFFICIENT_SAMPLES = INSUFFICIENT_EVIDENCE"
| "STATUS_BY_REASON TELEMETRY_GAP_EXCEEDED = INSUFFICIENT_EVIDENCE"
| "STATUS_BY_REASON BASELINE_NOT_STABLE = INSUFFICIENT_EVIDENCE"
| "STATUS_BY_REASON PROCESS_CHANGE_OUTSIDE_WINDOW = NOT_CORRELATED"
| "STATUS_BY_REASON PROCESS_EFFECT_DIRECTION_MISMATCH = NOT_CORRELATED"
| "STATUS_BY_REASON NO_PROCESS_CHANGE = NOT_CORRELATED"
| "STATUS_BY_REASON CORRELATION_MATCH = CORRELATED"

fun reason_explanation :: "CorrelationReasonCode \<Rightarrow> string" where
  "reason_explanation PARENT_EVIDENCE_NOT_VERIFIED =
     ''Required stored parent evidence could not be verified.''"
| "reason_explanation PROFILE_VERSION_UNSUPPORTED =
     ''The requested correlation profile version is unsupported.''"
| "reason_explanation PROFILE_DIGEST_MISMATCH =
     ''The requested correlation profile digest is not approved.''"
| "reason_explanation UNSUPPORTED_CORRELATION_RULE =
     ''The requested correlation rule is unsupported.''"
| "reason_explanation RUN_ID_MISMATCH =
     ''Stored telemetry spans more than one synthetic run and was not correlated.''"
| "reason_explanation CONFIGURATION_MISMATCH =
     ''Stored telemetry spans incompatible synthetic configurations and was not correlated.''"
| "reason_explanation SIMULATOR_VERSION_MISMATCH =
     ''Stored telemetry uses an unsupported simulator version.''"
| "reason_explanation CLOCK_SEQUENCE_MISMATCH =
     ''Stored telemetry time, sequence, or run origin is inconsistent.''"
| "reason_explanation ASSET_RELATION_MISMATCH =
     ''The stored asset relationship does not match the configured correlation path.''"
| "reason_explanation POINT_RELATION_NOT_DEFINED =
     ''The selected process point is not defined by the configured correlation rule.''"
| "reason_explanation WINDOW_NOT_FINALIZED =
     ''The stored synthetic effect window is not finalized.''"
| "reason_explanation MISSING_TELEMETRY =
     ''Required synthetic process telemetry is unavailable.''"
| "reason_explanation INSUFFICIENT_SAMPLES =
     ''The stored window does not contain the required sample count.''"
| "reason_explanation TELEMETRY_GAP_EXCEEDED =
     ''The stored window exceeds the configured telemetry-gap tolerance.''"
| "reason_explanation BASELINE_NOT_STABLE =
     ''The preceding synthetic baseline is not stable under the configured deadbands.''"
| "reason_explanation PROCESS_CHANGE_OUTSIDE_WINDOW =
     ''A consistent process observation occurred only after the configured effect window.''"
| "reason_explanation PROCESS_EFFECT_DIRECTION_MISMATCH =
     ''Complete process observations do not satisfy the configured direction and persistence.''"
| "reason_explanation NO_PROCESS_CHANGE =
     ''Complete process observations show no qualifying change in the configured window.''"
| "reason_explanation CORRELATION_MATCH =
     ''Stored observations satisfy the configured correlation rule; causation is not determined.''"

text \<open>The keyword arguments of \<open>reason_decision\<close>, with their defaults.\<close>

record DecisionContext =
  dc_anchor :: "timestamp option"
  dc_start :: "timestamp option"
  dc_end :: "timestamp option"
  dc_simulation_id :: "string option"
  dc_configuration_hash :: "digest option"
  dc_simulator_version :: "string option"
  dc_run_origin :: "timestamp option"
  dc_baseline_count :: int
  dc_effect_count :: int
  dc_maximum_gap_seconds :: "f64 option"

definition no_context :: DecisionContext where
  "no_context = \<lparr>dc_anchor = None, dc_start = None, dc_end = None, dc_simulation_id = None,
     dc_configuration_hash = None, dc_simulator_version = None, dc_run_origin = None,
     dc_baseline_count = 0, dc_effect_count = 0, dc_maximum_gap_seconds = None\<rparr>"

definition decision_observed_at :: "TelemetryEvidence list \<Rightarrow> timestamp option \<Rightarrow> timestamp" where
  "decision_observed_at telemetry anchor =
     (case max_option (map te_observed_at telemetry) of
        Some t \<Rightarrow> t
      | None \<Rightarrow> (case anchor of Some t \<Rightarrow> t | None \<Rightarrow> 0))"

definition reason_decision ::
  "CorrelationReasonCode \<Rightarrow> CorrelationRule \<Rightarrow> TelemetryEvidence list \<Rightarrow> DecisionContext \<Rightarrow>
   CorrelationError + CorrelationDecision" where
  "reason_decision reason rule telemetry ctx = new_decision \<lparr>
     cd_status = STATUS_BY_REASON reason,
     cd_reason_code = reason,
     cd_anchor_time = dc_anchor ctx,
     cd_correlation_start_time = dc_start ctx,
     cd_correlation_end_time = dc_end ctx,
     cd_evidence_observed_at = decision_observed_at telemetry (dc_anchor ctx),
     cd_temporal_relation =
       (if reason \<in> {NO_PROCESS_CHANGE, PROCESS_CHANGE_OUTSIDE_WINDOW, PROCESS_EFFECT_DIRECTION_MISMATCH}
        then ''NO_MATCHING_CHANGE'' else ''UNAVAILABLE''),
     cd_simulation_id = dc_simulation_id ctx,
     cd_configuration_hash = dc_configuration_hash ctx,
     cd_simulator_version = dc_simulator_version ctx,
     cd_telemetry_schema_version = (if telemetry \<noteq> [] then Some ''2.0.0'' else None),
     cd_run_origin = dc_run_origin ctx,
     cd_baseline_sample_count = dc_baseline_count ctx,
     cd_effect_sample_count = dc_effect_count ctx,
     cd_maximum_gap_seconds = dc_maximum_gap_seconds ctx,
     cd_matched_minimum_set = None,
     cd_process_asset_keys = cru_process_asset_keys rule,
     cd_affected_process_points = cru_point_ids rule,
     cd_observations = [],
     cd_statement_template_id = CorrelationReasonCode_value reason,
     cd_explanation = reason_explanation reason\<rparr>"

text \<open>The keyword arguments \<open>common\<close> of both evaluators.\<close>

definition common_context :: "timestamp \<Rightarrow> WindowSelection \<Rightarrow> RunConsistency \<Rightarrow> DecisionContext" where
  "common_context anchor window consistency = \<lparr>
     dc_anchor = Some anchor,
     dc_start = Some (ws_start window),
     dc_end = Some (ws_end window),
     dc_simulation_id = rc_simulation_id consistency,
     dc_configuration_hash = rc_configuration_hash consistency,
     dc_simulator_version = rc_simulator_version consistency,
     dc_run_origin = rc_run_origin consistency,
     dc_baseline_count = int (length (ws_baseline window)),
     dc_effect_count = int (length (ws_effect window)),
     dc_maximum_gap_seconds = ws_maximum_gap_seconds window\<rparr>"

text \<open>Arguments taken from the run consistency only, as the evaluator passes them.\<close>

definition run_context :: "timestamp option \<Rightarrow> RunConsistency \<Rightarrow> DecisionContext" where
  "run_context anchor consistency = no_context\<lparr>
     dc_anchor := anchor,
     dc_simulation_id := rc_simulation_id consistency,
     dc_configuration_hash := rc_configuration_hash consistency,
     dc_simulator_version := rc_simulator_version consistency,
     dc_run_origin := rc_run_origin consistency\<rparr>"

section \<open>Canonical telemetry\<close>

interpretation telemetry_list: canonical_list te_evidence_id telemetry_order
  "ValueError ''one telemetry evidence ID has conflicting content''" canonical_telemetry
  by unfold_locales (auto simp: canonical_telemetry_def canonical_of_def telemetry_order_def)

text \<open>Canonical telemetry is in the order of time.\<close>

lemma canonical_telemetry_times:
  assumes "canonical_telemetry xs = Inr ys"
  shows "sorted (map te_observed_at ys)"
proof -
  have "sorted_wrt (\<lambda>x y. telemetry_order x \<le> telemetry_order y) ys"
    using telemetry_list.canonical_InrD(4) [OF assms] by (simp add: sorted_map)
  then have "sorted_wrt (\<lambda>x y. te_observed_at x \<le> te_observed_at y) ys"
    by (rule sorted_wrt_mono_rel [rotated]) (auto simp: telemetry_order_def)
  then show ?thesis by (simp add: sorted_map)
qed

section \<open>The longest run of samples\<close>

text \<open>A block of a list: consecutive items that all satisfy a predicate.\<close>

definition has_block :: "('a \<Rightarrow> bool) \<Rightarrow> int \<Rightarrow> 'a list \<Rightarrow> bool" where
  "has_block P k xs = (\<exists>ys. sublist ys xs \<and> k \<le> int (length ys) \<and> list_all P ys)"

lemma has_block_Cons:
  "has_block P k (x # xs) \<longleftrightarrow>
     (\<exists>ys. prefix ys (x # xs) \<and> k \<le> int (length ys) \<and> list_all P ys) \<or> has_block P k xs"
  by (auto simp: has_block_def sublist_Cons_right)

lemma prefix_block_Cons:
  assumes "0 < k"
  shows "(\<exists>ys. prefix ys (x # xs) \<and> k \<le> c + int (length ys) \<and> list_all P ys) \<longleftrightarrow>
     k \<le> c \<or> (P x \<and> (\<exists>ys. prefix ys xs \<and> k \<le> c + 1 + int (length ys) \<and> list_all P ys))"
proof
  assume "\<exists>ys. prefix ys (x # xs) \<and> k \<le> c + int (length ys) \<and> list_all P ys"
  then obtain ys where ys: "prefix ys (x # xs)" "k \<le> c + int (length ys)" "list_all P ys" by blast
  then show "k \<le> c \<or> (P x \<and> (\<exists>ys. prefix ys xs \<and> k \<le> c + 1 + int (length ys) \<and> list_all P ys))"
    by (cases ys) (auto simp: add.assoc intro!: exI)
next
  assume "k \<le> c \<or> (P x \<and> (\<exists>ys. prefix ys xs \<and> k \<le> c + 1 + int (length ys) \<and> list_all P ys))"
  then show "\<exists>ys. prefix ys (x # xs) \<and> k \<le> c + int (length ys) \<and> list_all P ys"
  proof
    assume "k \<le> c"
    then show ?thesis by (intro exI [of _ "[]"]) simp
  next
    assume "P x \<and> (\<exists>ys. prefix ys xs \<and> k \<le> c + 1 + int (length ys) \<and> list_all P ys)"
    then obtain ys where "P x" "prefix ys xs" "k \<le> c + 1 + int (length ys)" "list_all P ys" by blast
    then show ?thesis by (intro exI [of _ "x # ys"]) simp
  qed
qed

lemma persistence_loop_block:
  assumes "0 < k" "0 \<le> c" "c \<le> l"
  shows "k \<le> persistence_loop P l c xs \<longleftrightarrow>
     k \<le> l \<or> (\<exists>ys. prefix ys xs \<and> k \<le> c + int (length ys) \<and> list_all P ys) \<or> has_block P k xs"
  using assms
proof (induction xs arbitrary: l c)
  case Nil
  then show ?case by (auto simp: has_block_def)
next
  case (Cons x xs)
  have short: "(\<exists>ys. prefix ys (x # xs) \<and> k \<le> int (length ys) \<and> list_all P ys) \<longleftrightarrow>
      P x \<and> (\<exists>ys. prefix ys xs \<and> k \<le> 1 + int (length ys) \<and> list_all P ys)"
    using prefix_block_Cons [OF \<open>0 < k\<close>, of x xs 0 P] \<open>0 < k\<close> by simp
  show ?case
  proof (cases "P x")
    case True
    have "k \<le> persistence_loop P l c (x # xs) \<longleftrightarrow> k \<le> max l (c + 1)
        \<or> (\<exists>ys. prefix ys xs \<and> k \<le> c + 1 + int (length ys) \<and> list_all P ys) \<or> has_block P k xs"
      using True Cons.IH [of "c + 1" "max l (c + 1)"] Cons.prems by simp
    moreover have "\<exists>ys. prefix ys xs \<and> k \<le> c + 1 + int (length ys) \<and> list_all P ys" if "k \<le> c + 1"
      using that by (intro exI [of _ "[]"]) simp
    moreover have "\<exists>ys. prefix ys xs \<and> k \<le> c + 1 + int (length ys) \<and> list_all P ys"
      if "\<exists>ys. prefix ys xs \<and> k \<le> 1 + int (length ys) \<and> list_all P ys"
      using that Cons.prems by (force intro: order_trans)
    ultimately show ?thesis
      unfolding has_block_Cons prefix_block_Cons [OF \<open>0 < k\<close>] short
      using True Cons.prems by (auto simp: max_def)
  next
    case False
    have "k \<le> persistence_loop P l c (x # xs) \<longleftrightarrow> k \<le> l
        \<or> (\<exists>ys. prefix ys xs \<and> k \<le> int (length ys) \<and> list_all P ys) \<or> has_block P k xs"
      using False Cons.IH [of 0 l] Cons.prems by simp
    moreover have "has_block P k xs"
      if "\<exists>ys. prefix ys xs \<and> k \<le> int (length ys) \<and> list_all P ys"
      using that by (auto simp: has_block_def intro: prefix_imp_sublist)
    ultimately show ?thesis
      unfolding has_block_Cons prefix_block_Cons [OF \<open>0 < k\<close>] short
      using False Cons.prems by auto
  qed
qed

lemma maximum_persistence_block:
  assumes "0 < k"
  shows "k \<le> maximum_persistence xs P \<longleftrightarrow> has_block P k xs"
proof -
  have "has_block P k xs" if "prefix ys xs" "k \<le> int (length ys)" "list_all P ys" for ys
    using that by (auto simp: has_block_def intro: prefix_imp_sublist)
  then show ?thesis
    using persistence_loop_block [of k 0 0 P xs] assms by (auto simp: maximum_persistence_def)
qed

lemma maximum_persistence_bounds: "0 \<le> maximum_persistence xs P" "maximum_persistence xs P \<le> int (length xs)"
proof -
  have "l \<le> persistence_loop P l c xs" for l c
    by (induction xs arbitrary: l c) (auto intro: order_trans [OF max.cobounded1])
  then show "0 \<le> maximum_persistence xs P" by (simp add: maximum_persistence_def)
  show "maximum_persistence xs P \<le> int (length xs)"
  proof (rule ccontr)
    assume "\<not> maximum_persistence xs P \<le> int (length xs)"
    then have "has_block P (int (length xs) + 1) xs"
      using maximum_persistence_block [of "int (length xs) + 1" xs P] by simp
    then show False by (auto simp: has_block_def dest: sublist_length_le)
  qed
qed

section \<open>Representative values\<close>

lemma qualifying_runs_length:
  assumes "\<forall>r \<in> set runs. required \<le> int (length r)"
  shows "\<forall>r \<in> set (qualifying_runs P required runs cur xs). required \<le> int (length r)"
  using assms
proof (induction xs arbitrary: runs cur)
  case Nil
  then show ?case by simp
next
  case (Cons x xs)
  show ?case
  proof (cases "P x")
    case True
    from Cons.IH [OF Cons.prems] show ?thesis unfolding qualifying_runs.simps if_P [OF True] .
  next
    case False
    have "\<forall>r \<in> set (if required \<le> int (length cur) then runs @ [cur] else runs). required \<le> int (length r)"
      using Cons.prems by simp
    from Cons.IH [OF this] show ?thesis unfolding qualifying_runs.simps if_not_P [OF False] .
  qed
qed

lemma representative_value_returns:
  assumes "telemetry \<noteq> []" "0 < required"
  shows "\<exists>v. representative_value telemetry accessor P required = Inr v"
proof -
  let ?runs = "qualifying_runs P required [] [] telemetry"
  have "last_items required (last ?runs) \<noteq> []" if "?runs \<noteq> []"
  proof -
    have "required \<le> int (length (last ?runs))"
      using qualifying_runs_length [of "[]" required P "[]" telemetry] last_in_set [OF that] by simp
    with assms(2) show ?thesis by (simp add: last_items_def)
  qed
  moreover have "last_items required telemetry \<noteq> []"
    using assms by (cases telemetry) (auto simp: last_items_def)
  ultimately show ?thesis by (auto simp: representative_value_def Let_def)
qed

section \<open>Samples on the grid of one run\<close>

text \<open>Within one run, samples lie whole seconds apart, so a window holds few of them.\<close>

lemma same_grid_point:
  fixes t u a m :: int
  assumes "(t - u) mod m = 0" "(t - a) div m = (u - a) div m" "0 < m"
  shows "t = u"
proof -
  have "(t - a) mod m = (u - a) mod m"
    using assms(1) by (metis diff_add_cancel diff_diff_eq2 mod_0_imp_dvd mod_eq_dvd_iff)
  with assms(2) show ?thesis by (metis div_mult_mod_eq eq_diff_eq diff_add_cancel)
qed

lemma window_sample_count:
  assumes "distinct (map te_observed_at xs)"
    and "\<forall>x \<in> set xs. run_origin_of x = origin"
    and "\<forall>x \<in> set xs. a \<le> te_observed_at x \<and> te_observed_at x \<le> a + seconds n"
    and "0 \<le> n"
  shows "int (length xs) \<le> n + 1"
proof -
  let ?f = "\<lambda>x. (te_observed_at x - a) div microseconds_per_second"
  have pos: "0 < microseconds_per_second" by (simp add: microseconds_per_second_def)
  have grid: "(te_observed_at x - te_observed_at y) mod microseconds_per_second = 0"
    if "x \<in> set xs" "y \<in> set xs" for x y
  proof -
    have "te_observed_at x - te_observed_at y =
        (tp_simulation_time_seconds (te_payload x) - tp_simulation_time_seconds (te_payload y))
          * microseconds_per_second"
      using bspec [OF assms(2) that(1)] bspec [OF assms(2) that(2)]
      by (simp add: run_origin_of_def left_diff_distrib)
    then show ?thesis by simp
  qed
  have "inj_on te_observed_at (set xs)" "distinct xs" using assms(1) by (auto simp: distinct_map)
  then have "inj_on ?f (set xs)"
    using same_grid_point [OF grid _ pos] by (intro inj_onI) (auto dest: inj_onD)
  moreover have "?f ` set xs \<subseteq> {0..n}"
  proof
    fix q assume "q \<in> ?f ` set xs"
    then obtain x where x: "x \<in> set xs" "q = ?f x" by blast
    then have "0 \<le> te_observed_at x - a" "te_observed_at x - a \<le> n * microseconds_per_second"
      using assms(3) by (auto simp: seconds_def algebra_simps)
    then have "0 \<le> q" "q \<le> n"
      using x(2) pos zdiv_mono1 [of "te_observed_at x - a" "n * microseconds_per_second" microseconds_per_second]
      by (simp_all add: pos_imp_zdiv_nonneg_iff)
    then show "q \<in> {0..n}" by simp
  qed
  ultimately have "card (set xs) \<le> card {0..n}"
    by (metis card_image card_mono finite_atLeastAtMost_int)
  with \<open>distinct xs\<close> assms(4) show ?thesis by (simp add: distinct_card)
qed

end
