(* ===== verification/Correlation_Rules.thy ===== *)
theory Correlation_Rules
  imports Correlation
begin

text \<open>
  The two rule evaluators: a valve command followed by a process change (\<open>app/correlation/s3.py\<close>) and a
  running pump without flow (\<open>app/correlation/s4.py\<close>). The local variables of \<open>evaluate_s3\<close> and
  \<open>evaluate_s4\<close> after the baseline check are the fields of the records \<open>S3Terms\<close> and \<open>S4Terms\<close>.
\<close>

section \<open>Shared helpers\<close>

definition valve :: "TelemetryEvidence \<Rightarrow> f64" where
  "valve t = tp_control_valve_position_percent (te_payload t)"

definition flow :: "TelemetryEvidence \<Rightarrow> f64" where
  "flow t = tp_pipeline_flow_rate_m3h (te_payload t)"

definition pressure :: "TelemetryEvidence \<Rightarrow> f64" where
  "pressure t = tp_pipeline_pressure_bar (te_payload t)"

definition source_level :: "TelemetryEvidence \<Rightarrow> f64" where
  "source_level t = tp_source_tank_level_percent (te_payload t)"

definition receiving_level :: "TelemetryEvidence \<Rightarrow> f64" where
  "receiving_level t = tp_receiving_tank_level_percent (te_payload t)"

definition pump_running :: "TelemetryEvidence \<Rightarrow> bool" where
  "pump_running t = tp_transfer_pump_running (te_payload t)"

definition s3_required :: "f64 option \<Rightarrow> CorrelationError + f64" where
  "s3_required v =
     (case v of None \<Rightarrow> Inl (ValueError ''the S3 profile is missing a required threshold'')
      | Some x \<Rightarrow> Inr x)"

definition s4_required :: "f64 option \<Rightarrow> CorrelationError + f64" where
  "s4_required v =
     (case v of None \<Rightarrow> Inl (ValueError ''the S4 profile is missing a required threshold'')
      | Some x \<Rightarrow> Inr x)"

text \<open>\<open>float(n)\<close> of an optional integer and \<open>int(x)\<close> of a float.\<close>

definition float_option :: "int option \<Rightarrow> f64 option" where
  "float_option v = map_option (\<lambda>n. f64_round (of_int n)) v"

definition f64_trunc :: "f64 \<Rightarrow> int" where
  "f64_trunc x = (if 0 \<le> x then \<lfloor>x\<rfloor> else \<lceil>x\<rceil>)"

text \<open>\<open>a or b\<close>, where \<open>b\<close> is evaluated only when \<open>a\<close> is false.\<close>

definition or_else :: "'e + bool \<Rightarrow> 'e + bool \<Rightarrow> 'e + bool" where
  "or_else a b = rbind a (\<lambda>x. if x then Inr True else b)"

definition range_exceeds ::
  "TelemetryEvidence list \<Rightarrow> (TelemetryEvidence \<Rightarrow> f64) \<Rightarrow> CorrelationError + f64 \<Rightarrow> CorrelationError + bool" where
  "range_exceeds baseline accessor limit =
     rbind (value_range baseline accessor) (\<lambda>r. rbind limit (\<lambda>l. Inr (r > l)))"

definition numeric_observation ::
  "string \<Rightarrow> string \<Rightarrow> f64 \<Rightarrow> f64 \<Rightarrow> string \<Rightarrow> ProcessChange \<Rightarrow> f64 \<Rightarrow> f64 \<Rightarrow> int \<Rightarrow> int \<Rightarrow> ObservationRole \<Rightarrow> bool \<Rightarrow>
   CorrelationError + PointObservation" where
  "numeric_observation point_id asset_key baseline observed unit expected deadband threshold required
       observed_persistence role met =
     (let delta = f64_sub observed baseline in
      new_observation \<lparr>
        po_point_id = point_id,
        po_asset_key = asset_key,
        po_baseline_value = Some (ObservedFloat baseline),
        po_observed_value = Some (ObservedFloat observed),
        po_delta = Some delta,
        po_unit = unit,
        po_expected_direction = expected,
        po_observed_direction = classify_delta delta deadband threshold threshold,
        po_threshold = Some threshold,
        po_persistence_required = required,
        po_persistence_observed = observed_persistence,
        po_role = role,
        po_condition_met = met\<rparr>)"

section \<open>S3: a valve command followed by a process change\<close>

record S3Terms =
  s3_has_valve :: bool
  s3_has_flow :: bool
  s3_has_pressure :: bool
  s3_valve_baseline :: "f64 option"
  s3_flow_baseline :: "f64 option"
  s3_pressure_baseline :: "f64 option"
  s3_valve_target :: f64
  s3_valve_tolerance :: f64
  s3_valve_required :: int
  s3_flow_decrease :: f64

definition s3_baseline_unstable ::
  "TelemetryEvidence list \<Rightarrow> ThresholdContract \<Rightarrow> bool \<Rightarrow> bool \<Rightarrow> bool \<Rightarrow> CorrelationError + bool" where
  "s3_baseline_unstable baseline th has_valve has_flow has_pressure =
     or_else
       (if has_valve then range_exceeds baseline valve
          (s3_required (th_valve_baseline_stability_percentage_points th)) else Inr False)
       (or_else
         (if has_flow then range_exceeds baseline flow (Inr (th_flow_baseline_stability_m3h th)) else Inr False)
         (if has_pressure then range_exceeds baseline pressure (Inr (th_pressure_baseline_stability_bar th))
          else Inr False))"

definition mean_if ::
  "bool \<Rightarrow> TelemetryEvidence list \<Rightarrow> (TelemetryEvidence \<Rightarrow> f64) \<Rightarrow> CorrelationError + f64 option" where
  "mean_if has baseline accessor =
     (if has then rbind (arithmetic_mean baseline accessor) (\<lambda>m. Inr (Some m)) else Inr None)"

definition s3_terms ::
  "TelemetryEvidence list \<Rightarrow> ThresholdContract \<Rightarrow> bool \<Rightarrow> bool \<Rightarrow> bool \<Rightarrow> CorrelationError + S3Terms" where
  "s3_terms baseline th has_valve has_flow has_pressure =
     rbind (mean_if has_valve baseline valve) (\<lambda>valve_baseline.
     rbind (mean_if has_flow baseline flow) (\<lambda>flow_baseline.
     rbind (mean_if has_pressure baseline pressure) (\<lambda>pressure_baseline.
     rbind (s3_required (th_valve_target_percent th)) (\<lambda>valve_target.
     rbind (s3_required (th_valve_tolerance_percentage_points th)) (\<lambda>valve_tolerance.
     rbind (s3_required (float_option (th_valve_persistence_samples th))) (\<lambda>valve_samples.
     rbind (s3_required (th_flow_decrease_m3h th)) (\<lambda>flow_decrease.
     Inr \<lparr>s3_has_valve = has_valve, s3_has_flow = has_flow, s3_has_pressure = has_pressure,
       s3_valve_baseline = valve_baseline, s3_flow_baseline = flow_baseline,
       s3_pressure_baseline = pressure_baseline, s3_valve_target = valve_target,
       s3_valve_tolerance = valve_tolerance, s3_valve_required = f64_trunc valve_samples,
       s3_flow_decrease = flow_decrease\<rparr>)))))))"

definition valve_predicate :: "S3Terms \<Rightarrow> TelemetryEvidence \<Rightarrow> bool" where
  "valve_predicate t item = (\<bar>f64_sub (valve item) (s3_valve_target t)\<bar> \<le> s3_valve_tolerance t)"

definition flow_predicate :: "S3Terms \<Rightarrow> TelemetryEvidence \<Rightarrow> bool" where
  "flow_predicate t item =
     (case s3_flow_baseline t of None \<Rightarrow> False
      | Some b \<Rightarrow> flow item \<le> f64_sub b (s3_flow_decrease t))"

definition pressure_predicate :: "S3Terms \<Rightarrow> ThresholdContract \<Rightarrow> TelemetryEvidence \<Rightarrow> bool" where
  "pressure_predicate t th item =
     (case s3_pressure_baseline t of None \<Rightarrow> False
      | Some b \<Rightarrow> pressure item \<ge> f64_add b (th_pressure_increase_bar th))"

text \<open>\<open>maximum_persistence(...) if has else 0\<close>.\<close>

definition persistence_if :: "bool \<Rightarrow> TelemetryEvidence list \<Rightarrow> (TelemetryEvidence \<Rightarrow> bool) \<Rightarrow> int" where
  "persistence_if has telemetry predicate = (if has then maximum_persistence telemetry predicate else 0)"

definition valve_match :: "S3Terms \<Rightarrow> TelemetryEvidence list \<Rightarrow> bool" where
  "valve_match t effect =
     (s3_has_valve t \<and> persistence_if (s3_has_valve t) effect (valve_predicate t) \<ge> s3_valve_required t)"

definition flow_match :: "S3Terms \<Rightarrow> ThresholdContract \<Rightarrow> TelemetryEvidence list \<Rightarrow> bool" where
  "flow_match t th effect =
     (s3_has_flow t
      \<and> persistence_if (s3_has_flow t) effect (flow_predicate t) \<ge> th_flow_persistence_samples th)"

definition pressure_match :: "S3Terms \<Rightarrow> ThresholdContract \<Rightarrow> TelemetryEvidence list \<Rightarrow> bool" where
  "pressure_match t th effect =
     (s3_has_pressure t
      \<and> persistence_if (s3_has_pressure t) effect (pressure_predicate t th)
          \<ge> th_pressure_persistence_samples th)"

definition s3_matched :: "S3Terms \<Rightarrow> ThresholdContract \<Rightarrow> TelemetryEvidence list \<Rightarrow> bool" where
  "s3_matched t th effect =
     ((valve_match t effect \<and> (flow_match t th effect \<or> pressure_match t th effect))
      \<or> (\<not> s3_has_valve t \<and> flow_match t th effect \<and> pressure_match t th effect))"

definition s3_valve_observations ::
  "S3Terms \<Rightarrow> TelemetryEvidence list \<Rightarrow> CorrelationError + PointObservation list" where
  "s3_valve_observations t effect =
     (case (s3_has_valve t, s3_valve_baseline t) of
        (True, Some baseline) \<Rightarrow>
          rbind (representative_value effect valve (valve_predicate t) (s3_valve_required t)) (\<lambda>observed.
          rbind (numeric_observation ''control_valve_position_percent'' ''CV-101'' baseline observed
            ''percentage_points_open'' DECREASED (s3_valve_tolerance t)
            \<bar>f64_sub baseline (s3_valve_target t)\<bar> (s3_valve_required t)
            (persistence_if (s3_has_valve t) effect (valve_predicate t)) REQUIRED (valve_match t effect))
          (\<lambda>p. Inr [p]))
      | _ \<Rightarrow> Inr [])"

definition s3_flow_observations ::
  "S3Terms \<Rightarrow> ThresholdContract \<Rightarrow> TelemetryEvidence list \<Rightarrow> CorrelationError + PointObservation list" where
  "s3_flow_observations t th effect =
     (case (s3_has_flow t, s3_flow_baseline t) of
        (True, Some baseline) \<Rightarrow>
          rbind (representative_value effect flow (flow_predicate t) (th_flow_persistence_samples th)) (\<lambda>observed.
          rbind (numeric_observation ''pipeline_flow_rate_m3h'' ''PL-101'' baseline observed
            ''synthetic_m3h'' DECREASED (th_flow_unchanged_deadband_m3h th) (s3_flow_decrease t)
            (th_flow_persistence_samples th)
            (persistence_if (s3_has_flow t) effect (flow_predicate t)) REQUIRED (flow_match t th effect))
          (\<lambda>p. Inr [p]))
      | _ \<Rightarrow> Inr [])"

definition s3_pressure_observations ::
  "S3Terms \<Rightarrow> ThresholdContract \<Rightarrow> TelemetryEvidence list \<Rightarrow> CorrelationError + PointObservation list" where
  "s3_pressure_observations t th effect =
     (case (s3_has_pressure t, s3_pressure_baseline t) of
        (True, Some baseline) \<Rightarrow>
          rbind (representative_value effect pressure (pressure_predicate t th)
            (th_pressure_persistence_samples th)) (\<lambda>observed.
          rbind (numeric_observation ''pipeline_pressure_bar'' ''PL-101'' baseline observed
            ''synthetic_bar'' INCREASED (th_pressure_unchanged_deadband_bar th) (th_pressure_increase_bar th)
            (th_pressure_persistence_samples th)
            (persistence_if (s3_has_pressure t) effect (pressure_predicate t th)) REQUIRED
            (pressure_match t th effect))
          (\<lambda>p. Inr [p]))
      | _ \<Rightarrow> Inr [])"

definition abs_slope ::
  "TelemetryEvidence list \<Rightarrow> (TelemetryEvidence \<Rightarrow> f64) \<Rightarrow> CorrelationError + f64" where
  "abs_slope telemetry accessor = rbind (endpoint_slope telemetry accessor) (\<lambda>s. Inr \<bar>s\<bar>)"

definition s3_inventory_observations ::
  "TelemetryEvidence list \<Rightarrow> TelemetryEvidence list \<Rightarrow> CorrelationRule \<Rightarrow>
   CorrelationError + PointObservation list" where
  "s3_inventory_observations baseline effect rule =
     (case th_inventory_rate_reduction_percentage_points_per_second (cru_thresholds rule) of
        None \<Rightarrow> Inr []
      | Some threshold \<Rightarrow>
          if length baseline < 2 \<or> length effect < 2 then Inr []
          else
          rbind (abs_slope baseline source_level) (\<lambda>baseline_source.
          rbind (abs_slope baseline receiving_level) (\<lambda>baseline_receiving.
          rbind (abs_slope effect source_level) (\<lambda>effect_source.
          rbind (abs_slope effect receiving_level) (\<lambda>effect_receiving.
          (let conservation = \<bar>f64_sub effect_source effect_receiving\<bar>;
               source_met = f64_sub baseline_source effect_source \<ge> threshold;
               receiving_met = f64_sub baseline_receiving effect_receiving \<ge> threshold;
               conservation_met = conservation \<le> th_conservation_tolerance (cru_thresholds rule) in
           rbind (numeric_observation ''source_tank_level_percent'' ''TK-101'' baseline_source effect_source
             ''percentage_points_per_second'' DECREASED 0 threshold (int (length effect)) (int (length effect))
             (if source_met \<and> conservation_met then SUPPORTING else CONTRADICTING)
             (source_met \<and> conservation_met)) (\<lambda>source.
           rbind (numeric_observation ''receiving_tank_level_percent'' ''TK-102'' baseline_receiving
             effect_receiving ''percentage_points_per_second'' DECREASED 0 threshold (int (length effect))
             (int (length effect))
             (if receiving_met \<and> conservation_met then SUPPORTING else CONTRADICTING)
             (receiving_met \<and> conservation_met)) (\<lambda>receiving.
           Inr [source, receiving]))))))))"

definition outside_match :: "TelemetryEvidence list \<Rightarrow> S3Terms \<Rightarrow> ThresholdContract \<Rightarrow> bool" where
  "outside_match telemetry t th =
     (let valve = s3_has_valve t
            \<and> maximum_persistence telemetry
                (\<lambda>item. \<bar>f64_sub (valve item) (s3_valve_target t)\<bar> \<le> s3_valve_tolerance t) \<ge> s3_valve_required t;
          flow = s3_has_flow t
            \<and> (case s3_flow_baseline t of None \<Rightarrow> False
               | Some b \<Rightarrow> maximum_persistence telemetry (\<lambda>item. flow item \<le> f64_sub b (s3_flow_decrease t))
                   \<ge> th_flow_persistence_samples th);
          pressure = s3_has_pressure t
            \<and> (case s3_pressure_baseline t of None \<Rightarrow> False
               | Some b \<Rightarrow> maximum_persistence telemetry
                   (\<lambda>item. pressure item \<ge> f64_add b (th_pressure_increase_bar th))
                   \<ge> th_pressure_persistence_samples th) in
      (valve \<and> (flow \<or> pressure)) \<or> (\<not> s3_has_valve t \<and> flow \<and> pressure))"

definition s3_conclusion ::
  "TelemetryEvidence list \<Rightarrow> CorrelationRule \<Rightarrow> RunConsistency \<Rightarrow> timestamp \<Rightarrow> WindowSelection \<Rightarrow> S3Terms \<Rightarrow>
   PointObservation list \<Rightarrow> CorrelationError + CorrelationDecision" where
  "s3_conclusion telemetry rule consistency anchor window t observations =
     (let th = cru_thresholds rule; common = common_context anchor window consistency in
      if s3_matched t th (ws_effect window) then
        new_decision \<lparr>
          cd_status = CORRELATED,
          cd_reason_code = CORRELATION_MATCH,
          cd_anchor_time = Some anchor,
          cd_correlation_start_time = Some (ws_start window),
          cd_correlation_end_time = Some (ws_end window),
          cd_evidence_observed_at = decision_observed_at telemetry (Some anchor),
          cd_temporal_relation = ''FOLLOWED_WITHIN_WINDOW'',
          cd_simulation_id = rc_simulation_id consistency,
          cd_configuration_hash = rc_configuration_hash consistency,
          cd_simulator_version = rc_simulator_version consistency,
          cd_telemetry_schema_version = Some ''2.0.0'',
          cd_run_origin = rc_run_origin consistency,
          cd_baseline_sample_count = int (length (ws_baseline window)),
          cd_effect_sample_count = int (length (ws_effect window)),
          cd_maximum_gap_seconds = ws_maximum_gap_seconds window,
          cd_matched_minimum_set =
            Some (if s3_has_valve t then ''VALVE_AND_DOWNSTREAM'' else ''DUAL_DOWNSTREAM_WITHOUT_VALVE''),
          cd_process_asset_keys = cru_process_asset_keys rule,
          cd_affected_process_points = map po_point_id observations,
          cd_observations = observations,
          cd_statement_template_id = cru_statement_template_id rule,
          cd_explanation = ''The CV-101 command event was followed by process observations consistent with ''
            @ ''the configured synthetic transfer-path rule; causation is not determined.''\<rparr>
      else if outside_match (ws_after window) t th then
        rbind (reason_decision PROCESS_CHANGE_OUTSIDE_WINDOW rule telemetry common)
          (\<lambda>d. Inr (d\<lparr>cd_observations := observations\<rparr>))
      else
      (let no_change = list_all (\<lambda>o'. po_role o' = REQUIRED \<longrightarrow> po_observed_direction o' = UNCHANGED) observations;
           reason = (if no_change then NO_PROCESS_CHANGE else PROCESS_EFFECT_DIRECTION_MISMATCH) in
       rbind (reason_decision reason rule telemetry common)
         (\<lambda>d. Inr (d\<lparr>cd_observations := observations\<rparr>))))"

definition s3_missing_points :: "bool \<Rightarrow> bool \<Rightarrow> bool \<Rightarrow> bool" where
  "s3_missing_points has_valve has_flow has_pressure =
     ((has_valve \<and> \<not> (has_flow \<or> has_pressure)) \<or> (\<not> has_valve \<and> \<not> (has_flow \<and> has_pressure)))"

definition evaluate_s3 ::
  "CorrelationEvaluationInput \<Rightarrow> CorrelationRule \<Rightarrow> RunConsistency \<Rightarrow> CorrelationError + CorrelationDecision" where
  "evaluate_s3 request rule consistency =
     (case ci_cyber_context request of
        None \<Rightarrow> reason_decision PARENT_EVIDENCE_NOT_VERIFIED rule (ci_telemetry request) no_context
      | Some cyber \<Rightarrow>
     (let anchor = cy_command_observed_at cyber; th = cru_thresholds rule; w = cru_window rule;
          telemetry = ci_telemetry request in
      rbind (select_window telemetry anchor (wc_baseline_seconds w) (wc_effect_seconds w)
        (wc_maximum_gap_seconds w)) (\<lambda>window.
      (let common = common_context anchor window consistency;
           has_valve = ''control_valve_position_percent'' \<in> set (ci_available_point_ids request);
           has_flow = ''pipeline_flow_rate_m3h'' \<in> set (ci_available_point_ids request);
           has_pressure = ''pipeline_pressure_bar'' \<in> set (ci_available_point_ids request) in
       if \<not> ws_finalized window then reason_decision WINDOW_NOT_FINALIZED rule telemetry common
       else if s3_missing_points has_valve has_flow has_pressure
       then reason_decision MISSING_TELEMETRY rule telemetry common
       else if int (length (ws_baseline window)) < wc_minimum_baseline_samples w
               \<or> int (length (ws_effect window)) < wc_minimum_effect_samples w
       then reason_decision INSUFFICIENT_SAMPLES rule telemetry common
       else
       (case ws_gap_reason window of
          Some reason \<Rightarrow> reason_decision reason rule telemetry common
        | None \<Rightarrow>
       rbind (s3_baseline_unstable (ws_baseline window) th has_valve has_flow has_pressure) (\<lambda>unstable.
       if unstable then reason_decision BASELINE_NOT_STABLE rule telemetry common
       else
       rbind (s3_terms (ws_baseline window) th has_valve has_flow has_pressure) (\<lambda>t.
       rbind (s3_valve_observations t (ws_effect window)) (\<lambda>valve_obs.
       rbind (s3_flow_observations t th (ws_effect window)) (\<lambda>flow_obs.
       rbind (s3_pressure_observations t th (ws_effect window)) (\<lambda>pressure_obs.
       rbind (s3_inventory_observations (ws_baseline window) (ws_effect window) rule) (\<lambda>inventory_obs.
       s3_conclusion telemetry rule consistency anchor window t
         (valve_obs @ flow_obs @ pressure_obs @ inventory_obs))))))))))))"

section \<open>S4: a running pump without flow\<close>

record S4Terms =
  s4_flow_baseline :: f64
  s4_pressure_baseline :: f64
  s4_low_flow :: f64
  s4_terminal_seconds :: int
  s4_source_slope :: "f64 option"
  s4_receiving_slope :: "f64 option"
  s4_terminal_count :: int
  s4_inventory_threshold :: f64

text \<open>The body of the loop of \<open>_find_anchor\<close>: the time of the sample when it qualifies.\<close>

definition anchor_at ::
  "TelemetryEvidence list \<Rightarrow> CorrelationRule \<Rightarrow> TelemetryEvidence \<Rightarrow> CorrelationError + timestamp option" where
  "anchor_at telemetry rule current =
     (let start = te_observed_at current - seconds (wc_baseline_seconds (cru_window rule));
          baseline = filter (\<lambda>t. start \<le> te_observed_at t \<and> te_observed_at t < te_observed_at current) telemetry in
      if int (length baseline) < wc_minimum_baseline_samples (cru_window rule) then Inr None
      else if \<not> pump_running current \<or> \<not> list_all pump_running baseline then Inr None
      else
      rbind (range_exceeds baseline flow (Inr (th_flow_baseline_stability_m3h (cru_thresholds rule)))) (\<lambda>unstable.
      if unstable then Inr None
      else
      rbind (arithmetic_mean baseline flow) (\<lambda>baseline_flow.
      rbind (s4_required (th_flow_decrease_m3h (cru_thresholds rule))) (\<lambda>decrease.
      Inr (if flow current \<le> f64_sub baseline_flow decrease then Some (te_observed_at current) else None)))))"

fun find_anchor_from ::
  "TelemetryEvidence list \<Rightarrow> CorrelationRule \<Rightarrow> TelemetryEvidence list \<Rightarrow> CorrelationError + timestamp option" where
  "find_anchor_from telemetry rule [] = Inr None"
| "find_anchor_from telemetry rule (current # rest) =
     rbind (anchor_at telemetry rule current) (\<lambda>found.
     case found of Some t \<Rightarrow> Inr (Some t) | None \<Rightarrow> find_anchor_from telemetry rule rest)"

definition find_anchor ::
  "TelemetryEvidence list \<Rightarrow> CorrelationRule \<Rightarrow> CorrelationError + timestamp option" where
  "find_anchor telemetry rule = find_anchor_from telemetry rule telemetry"

definition inventory_observation ::
  "string \<Rightarrow> string \<Rightarrow> f64 option \<Rightarrow> f64 \<Rightarrow> bool \<Rightarrow> int \<Rightarrow> CorrelationError + PointObservation" where
  "inventory_observation point_id asset_key slope threshold met persistence =
     new_observation \<lparr>
       po_point_id = point_id,
       po_asset_key = asset_key,
       po_baseline_value = None,
       po_observed_value = map_option ObservedFloat slope,
       po_delta = None,
       po_unit = ''percentage_points_per_second'',
       po_expected_direction = UNCHANGED,
       po_observed_direction =
         (case slope of Some s \<Rightarrow> if s \<le> threshold then UNCHANGED else INCREASED | None \<Rightarrow> INCREASED),
       po_threshold = Some threshold,
       po_persistence_required = 20,
       po_persistence_observed = persistence,
       po_role = REQUIRED,
       po_condition_met = met\<rparr>"

definition s4_terms ::
  "WindowSelection \<Rightarrow> ThresholdContract \<Rightarrow> CorrelationError + S4Terms" where
  "s4_terms window th =
     rbind (arithmetic_mean (ws_baseline window) flow) (\<lambda>flow_baseline.
     rbind (arithmetic_mean (ws_baseline window) pressure) (\<lambda>pressure_baseline.
     rbind (s4_required (th_low_flow_threshold_m3h th)) (\<lambda>low_flow.
     rbind (s4_required (float_option (th_terminal_inventory_seconds th))) (\<lambda>terminal_float.
     (let terminal_seconds = f64_trunc terminal_float;
          terminal = filter (\<lambda>t. te_observed_at t \<ge> ws_end window - seconds terminal_seconds) (ws_effect window);
          terminal_span = (if length terminal \<ge> 2
            then total_seconds (te_observed_at (last terminal) - te_observed_at (hd terminal)) else 0);
          slope = (\<lambda>accessor. if terminal_span \<ge> of_int terminal_seconds
            then rbind (abs_slope terminal accessor) (\<lambda>s. Inr (Some s)) else Inr None) in
      rbind (slope source_level) (\<lambda>source_slope.
      rbind (slope receiving_level) (\<lambda>receiving_slope.
      rbind (s4_required (th_inventory_stagnation_percentage_points_per_second th)) (\<lambda>inventory_threshold.
      Inr \<lparr>s4_flow_baseline = flow_baseline, s4_pressure_baseline = pressure_baseline,
        s4_low_flow = low_flow, s4_terminal_seconds = terminal_seconds,
        s4_source_slope = source_slope, s4_receiving_slope = receiving_slope,
        s4_terminal_count = int (length terminal), s4_inventory_threshold = inventory_threshold\<rparr>))))))))"

definition low_flow_predicate :: "S4Terms \<Rightarrow> TelemetryEvidence \<Rightarrow> bool" where
  "low_flow_predicate t item = (flow item \<le> s4_low_flow t)"

definition high_pressure_predicate :: "S4Terms \<Rightarrow> ThresholdContract \<Rightarrow> TelemetryEvidence \<Rightarrow> bool" where
  "high_pressure_predicate t th item =
     (pressure item \<ge> f64_add (s4_pressure_baseline t) (th_pressure_increase_bar th))"

definition s4_pump_match :: "ThresholdContract \<Rightarrow> TelemetryEvidence list \<Rightarrow> bool" where
  "s4_pump_match th effect = (maximum_persistence effect pump_running \<ge> th_flow_persistence_samples th)"

definition s4_flow_match :: "S4Terms \<Rightarrow> ThresholdContract \<Rightarrow> TelemetryEvidence list \<Rightarrow> bool" where
  "s4_flow_match t th effect =
     (maximum_persistence effect (low_flow_predicate t) \<ge> th_flow_persistence_samples th)"

definition s4_pressure_match :: "S4Terms \<Rightarrow> ThresholdContract \<Rightarrow> TelemetryEvidence list \<Rightarrow> bool" where
  "s4_pressure_match t th effect =
     (maximum_persistence effect (high_pressure_predicate t th) \<ge> th_pressure_persistence_samples th)"

definition s4_inventory_match :: "S4Terms \<Rightarrow> ThresholdContract \<Rightarrow> bool" where
  "s4_inventory_match t th =
     (case (s4_source_slope t, s4_receiving_slope t) of
        (Some source_slope, Some receiving_slope) \<Rightarrow>
          source_slope \<le> s4_inventory_threshold t \<and> receiving_slope \<le> s4_inventory_threshold t
          \<and> \<bar>f64_sub source_slope receiving_slope\<bar> \<le> th_conservation_tolerance th
      | _ \<Rightarrow> False)"

definition s4_observations ::
  "S4Terms \<Rightarrow> ThresholdContract \<Rightarrow> TelemetryEvidence list \<Rightarrow> CorrelationError + PointObservation list" where
  "s4_observations t th effect =
     (let required = th_flow_persistence_samples th;
          pump_match = s4_pump_match th effect in
      rbind (representative_value effect flow (low_flow_predicate t) required) (\<lambda>flow_observed.
      rbind (representative_value effect pressure (high_pressure_predicate t th)
        (th_pressure_persistence_samples th)) (\<lambda>pressure_observed.
      rbind (new_observation \<lparr>
          po_point_id = ''transfer_pump_running'',
          po_asset_key = ''P-101'',
          po_baseline_value = Some (ObservedBool True),
          po_observed_value = Some (ObservedBool pump_match),
          po_delta = None,
          po_unit = ''boolean'',
          po_expected_direction = UNCHANGED,
          po_observed_direction = (if pump_match then UNCHANGED else UNAVAILABLE),
          po_threshold = None,
          po_persistence_required = required,
          po_persistence_observed = maximum_persistence effect pump_running,
          po_role = REQUIRED,
          po_condition_met = pump_match\<rparr>) (\<lambda>pump_obs.
      rbind (numeric_observation ''pipeline_flow_rate_m3h'' ''PL-101'' (s4_flow_baseline t) flow_observed
        ''synthetic_m3h'' DECREASED (th_flow_unchanged_deadband_m3h th)
        (f64_sub (s4_flow_baseline t) (s4_low_flow t)) required
        (maximum_persistence effect (low_flow_predicate t)) REQUIRED (s4_flow_match t th effect)) (\<lambda>flow_obs.
      rbind (numeric_observation ''pipeline_pressure_bar'' ''PL-101'' (s4_pressure_baseline t)
        pressure_observed ''synthetic_bar'' INCREASED (th_pressure_unchanged_deadband_bar th)
        (th_pressure_increase_bar th) (th_pressure_persistence_samples th)
        (maximum_persistence effect (high_pressure_predicate t th)) REQUIRED
        (s4_pressure_match t th effect)) (\<lambda>pressure_obs.
      rbind (inventory_observation ''source_tank_level_percent'' ''TK-101'' (s4_source_slope t)
        (s4_inventory_threshold t) (s4_inventory_match t th) (s4_terminal_count t)) (\<lambda>source_obs.
      rbind (inventory_observation ''receiving_tank_level_percent'' ''TK-102'' (s4_receiving_slope t)
        (s4_inventory_threshold t) (s4_inventory_match t th) (s4_terminal_count t)) (\<lambda>receiving_obs.
      Inr [pump_obs, flow_obs, pressure_obs, source_obs, receiving_obs]))))))))"

definition s4_matched :: "S4Terms \<Rightarrow> ThresholdContract \<Rightarrow> TelemetryEvidence list \<Rightarrow> bool" where
  "s4_matched t th effect =
     (s4_pump_match th effect \<and> s4_flow_match t th effect \<and> s4_pressure_match t th effect
      \<and> s4_inventory_match t th)"

definition s4_conclusion ::
  "TelemetryEvidence list \<Rightarrow> CorrelationRule \<Rightarrow> RunConsistency \<Rightarrow> timestamp \<Rightarrow> WindowSelection \<Rightarrow> S4Terms \<Rightarrow>
   PointObservation list \<Rightarrow> CorrelationError + CorrelationDecision" where
  "s4_conclusion ordered rule consistency anchor window t observations =
     (if s4_matched t (cru_thresholds rule) (ws_effect window) then
        new_decision \<lparr>
          cd_status = CORRELATED,
          cd_reason_code = CORRELATION_MATCH,
          cd_anchor_time = Some anchor,
          cd_correlation_start_time = Some (ws_start window),
          cd_correlation_end_time = Some (ws_end window),
          cd_evidence_observed_at = decision_observed_at ordered (Some anchor),
          cd_temporal_relation = ''PROCESS_ONLY_WITHIN_WINDOW'',
          cd_simulation_id = rc_simulation_id consistency,
          cd_configuration_hash = rc_configuration_hash consistency,
          cd_simulator_version = rc_simulator_version consistency,
          cd_telemetry_schema_version = Some ''2.0.0'',
          cd_run_origin = rc_run_origin consistency,
          cd_baseline_sample_count = int (length (ws_baseline window)),
          cd_effect_sample_count = int (length (ws_effect window)),
          cd_maximum_gap_seconds = ws_maximum_gap_seconds window,
          cd_matched_minimum_set = Some ''S4_PROCESS_INCONSISTENCY'',
          cd_process_asset_keys = cru_process_asset_keys rule,
          cd_affected_process_points = map po_point_id observations,
          cd_observations = observations,
          cd_statement_template_id = cru_statement_template_id rule,
          cd_explanation =
            ''P-101 remained observed as running while PL-101 flow was low, pressure increased, ''
            @ ''and tank movement stagnated inside one synthetic run; no cyber cause is asserted.''\<rparr>
      else
        rbind (reason_decision PROCESS_EFFECT_DIRECTION_MISMATCH rule ordered
          (common_context anchor window consistency))
          (\<lambda>d. Inr (d\<lparr>cd_observations := observations\<rparr>)))"

definition s4_baseline_unstable ::
  "TelemetryEvidence list \<Rightarrow> ThresholdContract \<Rightarrow> CorrelationError + bool" where
  "s4_baseline_unstable baseline th =
     or_else (range_exceeds baseline flow (Inr (th_flow_baseline_stability_m3h th)))
       (or_else (range_exceeds baseline pressure (Inr (th_pressure_baseline_stability_bar th)))
         (Inr (\<not> list_all pump_running baseline)))"

definition s4_without_anchor ::
  "TelemetryEvidence list \<Rightarrow> CorrelationRule \<Rightarrow> RunConsistency \<Rightarrow> CorrelationError + CorrelationDecision" where
  "s4_without_anchor ordered rule consistency =
     (let w = cru_window rule;
          scope_seconds = total_seconds (te_observed_at (last ordered) - te_observed_at (hd ordered));
          reason = (if int (length ordered) < wc_minimum_baseline_samples w + wc_minimum_effect_samples w
                       \<or> scope_seconds < of_int (wc_baseline_seconds w + wc_effect_seconds w)
                    then INSUFFICIENT_SAMPLES else NO_PROCESS_CHANGE) in
      reason_decision reason rule ordered (run_context None consistency))"

definition evaluate_s4 ::
  "CorrelationEvaluationInput \<Rightarrow> CorrelationRule \<Rightarrow> RunConsistency \<Rightarrow> CorrelationError + CorrelationDecision" where
  "evaluate_s4 request rule consistency =
     rbind (canonical_telemetry (ci_telemetry request)) (\<lambda>ordered.
     if ordered = [] then reason_decision MISSING_TELEMETRY rule ordered no_context
     else
     rbind (find_anchor ordered rule) (\<lambda>found.
     case found of
       None \<Rightarrow> s4_without_anchor ordered rule consistency
     | Some anchor \<Rightarrow>
     (let w = cru_window rule; th = cru_thresholds rule in
      rbind (select_window ordered anchor (wc_baseline_seconds w) (wc_effect_seconds w)
        (wc_maximum_gap_seconds w)) (\<lambda>window.
      (let common = common_context anchor window consistency in
       if \<not> ws_finalized window then reason_decision WINDOW_NOT_FINALIZED rule ordered common
       else if \<not> set (cru_point_ids rule) \<subseteq> set (ci_available_point_ids request)
       then reason_decision MISSING_TELEMETRY rule ordered common
       else if int (length (ws_baseline window)) < wc_minimum_baseline_samples w
               \<or> int (length (ws_effect window)) < wc_minimum_effect_samples w
       then reason_decision INSUFFICIENT_SAMPLES rule ordered common
       else
       (case ws_gap_reason window of
          Some reason \<Rightarrow> reason_decision reason rule ordered common
        | None \<Rightarrow>
       rbind (s4_baseline_unstable (ws_baseline window) th) (\<lambda>unstable.
       if unstable then reason_decision BASELINE_NOT_STABLE rule ordered common
       else
       rbind (s4_terms window th) (\<lambda>t.
       rbind (s4_observations t th (ws_effect window)) (\<lambda>observations.
       s4_conclusion ordered rule consistency anchor window t observations)))))))))"

end
