(* ===== verification/Correlation_Evaluator.thy ===== *)
theory Correlation_Evaluator
  imports Correlation_Rules
begin

text \<open>
  From a request to a finding: parent references and identities (\<open>app/correlation/canonical.py\<close>), the
  finding and its provenance (\<open>app/correlation/findings.py\<close>), and the evaluation as a whole
  (\<open>app/correlation/evaluator.py\<close>).
\<close>

section \<open>Parents and identity\<close>

definition CORRELATION_ID_NAMESPACE :: uuid where
  "CORRELATION_ID_NAMESPACE = ''0f531efe-4f8b-5af7-9c17-a3b603ed90bd''"

definition parent_order :: "EvidenceParentReference \<Rightarrow> string \<times> timestamp \<times> uuid" where
  "parent_order p = (pr_evidence_type p, pr_observed_at p, pr_evidence_id p)"

definition canonical_parent_references ::
  "EvidenceParentReference list \<Rightarrow> CorrelationError + EvidenceParentReference list" where
  "canonical_parent_references references =
     rbind (unique_values pr_evidence_id
       (ValueError ''one evidence ID has conflicting parent-reference content'') [] references)
       (\<lambda>unique. Inr (sort_key parent_order unique))"

definition parent_json :: "(timestamp \<Rightarrow> string) \<Rightarrow> EvidenceParentReference \<Rightarrow> json" where
  "parent_json isoformat p = JObj [
     (''evidence_id'', JStr (pr_evidence_id p)),
     (''evidence_type'', JStr (pr_evidence_type p)),
     (''integrity_sha256'', JStr (pr_integrity_sha256 p)),
     (''observed_at'', JStr (isoformat (pr_observed_at p))),
     (''sequence_number'', case pr_sequence_number p of None \<Rightarrow> JNull | Some n \<Rightarrow> JInt n)]"

definition parent_set_sha256 ::
  "(timestamp \<Rightarrow> string) \<Rightarrow> EvidenceParentReference list \<Rightarrow> CorrelationError + digest" where
  "parent_set_sha256 isoformat references =
     rbind (canonical_parent_references references) (\<lambda>ordered.
     Inr (sha256_hex (utf8 (json_dumps (JList (map (parent_json isoformat) ordered))))))"

definition correlation_event_name ::
  "string \<Rightarrow> string \<Rightarrow> digest \<Rightarrow> string \<Rightarrow> string \<Rightarrow> string \<Rightarrow> string option \<Rightarrow> digest option \<Rightarrow> string option \<Rightarrow>
   digest \<Rightarrow> string \<Rightarrow> string" where
  "correlation_event_name profile_id profile_version profile_sha256 rule_id rule_version evaluator_version
       simulation_id configuration_hash anchor_time parent_digest finding_schema_version =
     (let text = (\<lambda>v. case v of None \<Rightarrow> '''' | Some s \<Rightarrow> s) in
      join_with CHR ''|'' [profile_id, profile_version, profile_sha256, rule_id, rule_version,
        evaluator_version, text simulation_id, text configuration_hash, text anchor_time,
        parent_digest, finding_schema_version])"

definition deterministic_correlation_source_event_id ::
  "string \<Rightarrow> string \<Rightarrow> digest \<Rightarrow> string \<Rightarrow> string \<Rightarrow> string \<Rightarrow> string option \<Rightarrow> digest option \<Rightarrow> string option \<Rightarrow>
   digest \<Rightarrow> string \<Rightarrow> uuid" where
  "deterministic_correlation_source_event_id profile_id profile_version profile_sha256 rule_id rule_version
       evaluator_version simulation_id configuration_hash anchor_time parent_digest finding_schema_version =
     uuid5 CORRELATION_ID_NAMESPACE
       (correlation_event_name profile_id profile_version profile_sha256 rule_id rule_version
         evaluator_version simulation_id configuration_hash anchor_time parent_digest finding_schema_version)"

section \<open>The finding\<close>

record BuiltCorrelationFinding =
  bf_source_event_id :: string
  bf_finding :: CyberPhysicalCorrelationFinding
  bf_provenance :: CorrelationDerivationProvenance

definition request_parents :: "CorrelationEvaluationInput \<Rightarrow> EvidenceParentReference list" where
  "request_parents request =
     (case ci_cyber_context request of
        None \<Rightarrow> []
      | Some cyber \<Rightarrow> [cy_raw_parent cyber, cy_semantic_parent cyber, cy_asset_context_parent cyber]
          @ (case cy_policy_parent cyber of None \<Rightarrow> [] | Some p \<Rightarrow> [p]))
     @ map parent_reference (ci_telemetry request)
     @ (case ci_reevaluates_parent request of None \<Rightarrow> [] | Some p \<Rightarrow> [p])"

definition process_asset :: "LoadedCorrelationProfile \<Rightarrow> string \<Rightarrow> ProcessAssetReference" where
  "process_asset loaded asset_key = \<lparr>
     pa_asset_id = deterministic_asset_id
       (ds_inventory_profile_id (cpr_dependencies (lcp_profile loaded))) asset_key,
     pa_asset_key = asset_key\<rparr>"

definition correlation_finding ::
  "CorrelationEvaluationInput \<Rightarrow> CorrelationDecision \<Rightarrow> LoadedCorrelationProfile \<Rightarrow> uuid \<Rightarrow> digest \<Rightarrow>
   EvidenceParentReference list \<Rightarrow> CyberPhysicalCorrelationFinding" where
  "correlation_finding request decision loaded correlation_id parent_digest telemetry_parents =
     (let cyber = ci_cyber_context request;
          policy = Option.bind cyber cy_policy_parent in \<lparr>
        cf_correlation_id = correlation_id,
        cf_finding_schema = CORRELATION_FINDING_SCHEMA,
        cf_finding_schema_version = CORRELATION_FINDING_SCHEMA_VERSION,
        cf_correlation_profile_id = cpr_profile_id (lcp_profile loaded),
        cf_correlation_profile_version = cpr_profile_version (lcp_profile loaded),
        cf_correlation_profile_sha256 = lcp_sha256 loaded,
        cf_correlation_rule_id = ci_rule_id request,
        cf_correlation_rule_version = ci_rule_version request,
        cf_evaluator_name = CORRELATION_EVALUATOR_NAME,
        cf_evaluator_version = CORRELATION_EVALUATOR_VERSION,
        cf_canonicalization_version = CANONICALIZATION_VERSION,
        cf_primary_cyber_evidence_id = map_option (pr_evidence_id \<circ> cy_raw_parent) cyber,
        cf_primary_cyber_evidence_integrity_sha256 = map_option (pr_integrity_sha256 \<circ> cy_raw_parent) cyber,
        cf_semantic_evidence_id = map_option (pr_evidence_id \<circ> cy_semantic_parent) cyber,
        cf_semantic_evidence_integrity_sha256 = map_option (pr_integrity_sha256 \<circ> cy_semantic_parent) cyber,
        cf_asset_context_evidence_id = map_option (pr_evidence_id \<circ> cy_asset_context_parent) cyber,
        cf_asset_context_evidence_integrity_sha256 =
          map_option (pr_integrity_sha256 \<circ> cy_asset_context_parent) cyber,
        cf_policy_finding_evidence_id = map_option pr_evidence_id policy,
        cf_policy_finding_evidence_integrity_sha256 = map_option pr_integrity_sha256 policy,
        cf_policy_context_status =
          (case cyber of None \<Rightarrow> ''UNAVAILABLE'' | Some c \<Rightarrow> cy_policy_context_status c),
        cf_telemetry_parents = telemetry_parents,
        cf_reevaluates_finding_id = map_option pr_evidence_id (ci_reevaluates_parent request),
        cf_parent_set_sha256 = parent_digest,
        cf_simulation_id = cd_simulation_id decision,
        cf_configuration_hash = cd_configuration_hash decision,
        cf_simulator_version = cd_simulator_version decision,
        cf_telemetry_schema_version = cd_telemetry_schema_version decision,
        cf_run_origin = cd_run_origin decision,
        cf_anchor_time = cd_anchor_time decision,
        cf_correlation_start_time = cd_correlation_start_time decision,
        cf_correlation_end_time = cd_correlation_end_time decision,
        cf_evidence_observed_at = cd_evidence_observed_at decision,
        cf_baseline_sample_count = cd_baseline_sample_count decision,
        cf_effect_sample_count = cd_effect_sample_count decision,
        cf_maximum_gap_seconds = cd_maximum_gap_seconds decision,
        cf_process_assets = map (process_asset loaded) (cd_process_asset_keys decision),
        cf_affected_process_points = cd_affected_process_points decision,
        cf_observations = cd_observations decision,
        cf_temporal_relation = cd_temporal_relation decision,
        cf_correlation_status = cd_status decision,
        cf_reason_code = cd_reason_code decision,
        cf_matched_minimum_set = cd_matched_minimum_set decision,
        cf_statement_template_id = cd_statement_template_id decision,
        cf_analyst_readable_explanation = cd_explanation decision,
        cf_cyber_cause_asserted = False,
        cf_causality_inferred = False,
        cf_malicious_intent_inferred = False,
        cf_ground_truth_used = False,
        cf_derivation_kind = ''CYBER_PHYSICAL_CORRELATION''\<rparr>)"

definition correlation_provenance ::
  "CorrelationEvaluationInput \<Rightarrow> CorrelationDecision \<Rightarrow> LoadedCorrelationProfile \<Rightarrow> digest \<Rightarrow>
   EvidenceParentReference list \<Rightarrow> CorrelationDerivationProvenance" where
  "correlation_provenance request decision loaded parent_digest ordered_parents =
     (let dependencies = cpr_dependencies (lcp_profile loaded) in \<lparr>
        cv_derivation_kind = ''CYBER_PHYSICAL_CORRELATION'',
        cv_parent_references = ordered_parents,
        cv_parent_set_sha256 = parent_digest,
        cv_correlation_profile_id = cpr_profile_id (lcp_profile loaded),
        cv_correlation_profile_version = cpr_profile_version (lcp_profile loaded),
        cv_correlation_profile_sha256 = lcp_sha256 loaded,
        cv_correlation_rule_id = ci_rule_id request,
        cv_correlation_rule_version = ci_rule_version request,
        cv_evaluator_name = CORRELATION_EVALUATOR_NAME,
        cv_evaluator_version = CORRELATION_EVALUATOR_VERSION,
        cv_inventory_profile_id = ds_inventory_profile_id dependencies,
        cv_inventory_profile_version = ds_inventory_profile_version dependencies,
        cv_inventory_profile_sha256 = ds_inventory_profile_sha256 dependencies,
        cv_policy_profile_id = ds_policy_profile_id dependencies,
        cv_policy_profile_version = ds_policy_profile_version dependencies,
        cv_policy_profile_sha256 = ds_policy_profile_sha256 dependencies,
        cv_protocol_profile_id = ds_protocol_profile_id dependencies,
        cv_protocol_profile_version = ds_protocol_profile_version dependencies,
        cv_protocol_profile_sha256 = ds_protocol_profile_sha256 dependencies,
        cv_simulator_version = ''3.0.0'',
        cv_simulation_id = cd_simulation_id decision,
        cv_configuration_hash = cd_configuration_hash decision,
        cv_canonicalization_version = CANONICALIZATION_VERSION,
        cv_educational_only = True,
        cv_ground_truth_used = False\<rparr>)"

definition build_correlation_finding ::
  "(timestamp \<Rightarrow> string) \<Rightarrow> CorrelationEvaluationInput \<Rightarrow> CorrelationDecision \<Rightarrow> LoadedCorrelationProfile \<Rightarrow>
   CorrelationError + BuiltCorrelationFinding" where
  "build_correlation_finding isoformat request decision loaded =
     rbind (canonical_parent_references (request_parents request)) (\<lambda>ordered_parents.
     rbind (parent_set_sha256 isoformat ordered_parents) (\<lambda>parent_digest.
     (let source_event_uuid = deterministic_correlation_source_event_id
            (cpr_profile_id (lcp_profile loaded)) (cpr_profile_version (lcp_profile loaded))
            (lcp_sha256 loaded) (ci_rule_id request) (ci_rule_version request)
            CORRELATION_EVALUATOR_VERSION (cd_simulation_id decision) (cd_configuration_hash decision)
            (map_option isoformat_utc (cd_anchor_time decision)) parent_digest
            CORRELATION_FINDING_SCHEMA_VERSION;
          correlation_id = deterministic_evidence_id_from_fields CORRELATION_SOURCE_ID source_event_uuid
            CORRELATION_EVIDENCE_TYPE CORRELATION_FINDING_SCHEMA_VERSION in
      rbind (canonical_parent_references (map parent_reference (ci_telemetry request))) (\<lambda>telemetry_parents.
      rbind (new_finding (correlation_finding request decision loaded correlation_id parent_digest
        telemetry_parents)) (\<lambda>finding.
      rbind (new_provenance (correlation_provenance request decision loaded parent_digest ordered_parents))
        (\<lambda>provenance.
      Inr \<lparr>bf_source_event_id = source_event_uuid, bf_finding = finding, bf_provenance = provenance\<rparr>))))))"

section \<open>The evaluation\<close>

definition request_anchor :: "CorrelationEvaluationInput \<Rightarrow> timestamp option" where
  "request_anchor request = map_option cy_command_observed_at (ci_cyber_context request)"

definition s3_parent_shape_verified :: "CorrelationEvaluationInput \<Rightarrow> bool" where
  "s3_parent_shape_verified request =
     (case ci_cyber_context request of
        None \<Rightarrow> False
      | Some cyber \<Rightarrow>
          pr_evidence_type (cy_raw_parent cyber) = ''synthetic_protocol_event''
          \<and> pr_evidence_type (cy_semantic_parent cyber) = ''protocol_semantic_event''
          \<and> pr_evidence_type (cy_asset_context_parent cyber) = ''asset_context_event''
          \<and> (case cy_policy_parent cyber of None \<Rightarrow> True
             | Some p \<Rightarrow> pr_evidence_type p = ''communication_policy_finding''))"

definition s3_asset_mapping_valid :: "CorrelationEvaluationInput \<Rightarrow> bool" where
  "s3_asset_mapping_valid request =
     (case ci_cyber_context request of
        None \<Rightarrow> False
      | Some cyber \<Rightarrow>
          cy_command_point_id cyber = ''control_valve_command_percent''
          \<and> cy_command_target_asset_key cyber = ''CV-101''
          \<and> \<bar>f64_sub (cy_command_value_percent cyber) 25\<bar> \<le> f64_literal (1 / 10 ^ 12)
          \<and> cy_controller_asset_key cyber = ''PLC-01''
          \<and> cy_relationship_type cyber = ''CONTROLS''
          \<and> cy_relationship_target_asset_key cyber = ''CV-101'')"

text \<open>The decision of \<open>evaluate_correlation\<close> on the ordered request, before the finding is built.\<close>

definition correlation_decision ::
  "CorrelationEvaluationInput \<Rightarrow> LoadedCorrelationProfile \<Rightarrow> CorrelationError + CorrelationDecision" where
  "correlation_decision request loaded =
     (let ordered = ci_telemetry request; fallback_rule = hd (cpr_rules (lcp_profile loaded));
          anchor_only = no_context\<lparr>dc_anchor := request_anchor request\<rparr> in
      if ci_profile_id request \<noteq> CORRELATION_PROFILE_ID
         \<or> ci_profile_version request \<noteq> CORRELATION_PROFILE_VERSION
      then reason_decision PROFILE_VERSION_UNSUPPORTED fallback_rule ordered anchor_only
      else if ci_profile_sha256 request \<noteq> lcp_sha256 loaded
      then reason_decision PROFILE_DIGEST_MISMATCH fallback_rule ordered anchor_only
      else
      (case rules loaded (ci_rule_id request) of
         None \<Rightarrow> reason_decision UNSUPPORTED_CORRELATION_RULE fallback_rule ordered anchor_only
       | Some rule \<Rightarrow>
      if ci_rule_version request \<noteq> ''1.0.0''
      then reason_decision UNSUPPORTED_CORRELATION_RULE fallback_rule ordered anchor_only
      else if cru_evaluator_branch rule = S3 \<and> \<not> s3_parent_shape_verified request
      then reason_decision PARENT_EVIDENCE_NOT_VERIFIED rule ordered anchor_only
      else
      rbind (validate_run_consistency ordered) (\<lambda>consistency.
      case rc_reason consistency of
        Some reason \<Rightarrow> reason_decision reason rule ordered (run_context (request_anchor request) consistency)
      | None \<Rightarrow>
      if cru_evaluator_branch rule = S3 \<and> \<not> s3_asset_mapping_valid request
      then reason_decision ASSET_RELATION_MISMATCH rule ordered (run_context (request_anchor request) consistency)
      else if cru_evaluator_branch rule = S4 \<and> ci_cyber_context request \<noteq> None
      then reason_decision ASSET_RELATION_MISMATCH rule ordered (run_context None consistency)
      else if \<not> set (ci_available_point_ids request) \<subseteq> set (cru_point_ids rule)
      then reason_decision POINT_RELATION_NOT_DEFINED rule ordered (run_context (request_anchor request) consistency)
      else if ordered = [] then reason_decision MISSING_TELEMETRY rule ordered anchor_only
      else if cru_evaluator_branch rule = S3 then evaluate_s3 request rule consistency
      else evaluate_s4 request rule consistency)))"

definition evaluate_correlation ::
  "(timestamp \<Rightarrow> string) \<Rightarrow> CorrelationEvaluationInput \<Rightarrow> LoadedCorrelationProfile \<Rightarrow>
   CorrelationError + BuiltCorrelationFinding" where
  "evaluate_correlation isoformat request loaded =
     rbind (canonical_telemetry (ci_telemetry request)) (\<lambda>ordered.
     (let ordered_request = request\<lparr>ci_telemetry := ordered\<rparr> in
      rbind (correlation_decision ordered_request loaded) (\<lambda>decision.
      build_correlation_finding isoformat ordered_request decision loaded)))"

end
