(* ===== verification/Correlation_Spec.thy ===== *)
theory Correlation_Spec
  imports Correlation_Evaluator
begin

text \<open>
  What a correlation means, stated on the telemetry in the order of time and without the evaluators:
  one run, complete and steady windows, a stable baseline, and blocks of consecutive samples that
  show the change. The lemmas relate the stages of the evaluation to these notions under the frozen
  profile.
\<close>

section \<open>Specification\<close>

definition chronological :: "TelemetryEvidence list \<Rightarrow> TelemetryEvidence list \<Rightarrow> bool" where
  "chronological telemetry ts =
     (set ts = set telemetry \<and> sorted_wrt (\<lambda>x y. te_observed_at x < te_observed_at y) ts)"

text \<open>One run under one configuration of the supported simulator, with one clock.\<close>

definition one_run :: "TelemetryEvidence list \<Rightarrow> bool" where
  "one_run ts =
     ((\<exists>s. \<forall>t \<in> set ts. tp_simulation_id (te_payload t) = s)
      \<and> (\<exists>c. \<forall>t \<in> set ts. tp_configuration_hash (te_payload t) = c)
      \<and> (\<forall>t \<in> set ts. tp_simulator_version (te_payload t) = ''3.0.0'')
      \<and> inj_on te_observed_at (set ts) \<and> inj_on te_sequence_number (set ts)
      \<and> (\<exists>origin. \<forall>t \<in> set ts. run_origin_of t = origin))"

definition between :: "timestamp \<Rightarrow> timestamp \<Rightarrow> TelemetryEvidence list \<Rightarrow> TelemetryEvidence list" where
  "between a b ts = filter (\<lambda>t. a \<le> te_observed_at t \<and> te_observed_at t \<le> b) ts"

definition before :: "timestamp \<Rightarrow> timestamp \<Rightarrow> TelemetryEvidence list \<Rightarrow> TelemetryEvidence list" where
  "before a b ts = filter (\<lambda>t. a \<le> te_observed_at t \<and> te_observed_at t < b) ts"

text \<open>Neighbours are one or two seconds apart, and so are their sequence numbers.\<close>

definition steady :: "TelemetryEvidence list \<Rightarrow> bool" where
  "steady ts = successively (\<lambda>x y.
     te_observed_at y - te_observed_at x = seconds (te_sequence_number y - te_sequence_number x)
     \<and> te_sequence_number y - te_sequence_number x \<in> {1, 2}) ts"

definition mean :: "(TelemetryEvidence \<Rightarrow> f64) \<Rightarrow> TelemetryEvidence list \<Rightarrow> f64" where
  "mean accessor ts = f64_div (f64_fsum (map accessor ts)) (of_nat (length ts))"

definition spread :: "(TelemetryEvidence \<Rightarrow> f64) \<Rightarrow> TelemetryEvidence list \<Rightarrow> f64" where
  "spread accessor ts = f64_sub (Max (accessor ` set ts)) (Min (accessor ` set ts))"

definition slope :: "(TelemetryEvidence \<Rightarrow> f64) \<Rightarrow> TelemetryEvidence list \<Rightarrow> f64" where
  "slope accessor ts = \<bar>f64_div (f64_sub (accessor (last ts)) (accessor (hd ts)))
     (total_seconds (te_observed_at (last ts) - te_observed_at (hd ts)))\<bar>"

text \<open>The window around an anchor is complete.\<close>

definition window_complete :: "TelemetryEvidence list \<Rightarrow> timestamp \<Rightarrow> int \<Rightarrow> int \<Rightarrow> bool" where
  "window_complete ts anchor effect_seconds minimum_effect =
     ((\<exists>t \<in> set ts. anchor + seconds effect_seconds \<le> te_observed_at t)
      \<and> 8 \<le> length (before (anchor - seconds 10) anchor ts)
      \<and> minimum_effect \<le> int (length (between anchor (anchor + seconds effect_seconds) ts))
      \<and> steady (before (anchor - seconds 10) anchor ts)
      \<and> steady (between anchor (anchor + seconds effect_seconds) ts))"

text \<open>S3: the valve went to its commanded position, or its points are missing, and the process followed.\<close>

definition s3_process_response ::
  "TelemetryEvidence list \<Rightarrow> TelemetryEvidence list \<Rightarrow> string set \<Rightarrow> bool" where
  "s3_process_response baseline effect points =
     (let valve_seen = ''control_valve_position_percent'' \<in> points;
          flow_seen = ''pipeline_flow_rate_m3h'' \<in> points;
          pressure_seen = ''pipeline_pressure_bar'' \<in> points;
          valve_moved = has_block (\<lambda>t. \<bar>f64_sub (valve t) 25\<bar> \<le> f64_literal 0.5) 3 effect;
          flow_fell = flow_seen
            \<and> has_block (\<lambda>t. flow t \<le> f64_sub (mean flow baseline) (f64_literal 0.5)) 5 effect;
          pressure_rose = pressure_seen
            \<and> has_block (\<lambda>t. f64_add (mean pressure baseline) (f64_literal 0.1) \<le> pressure t) 5 effect in
      (valve_seen \<longrightarrow> spread valve baseline \<le> f64_literal 0.5)
      \<and> (flow_seen \<longrightarrow> spread flow baseline \<le> f64_literal 0.1)
      \<and> (pressure_seen \<longrightarrow> spread pressure baseline \<le> f64_literal 0.05)
      \<and> (if valve_seen then valve_moved \<and> (flow_fell \<or> pressure_rose) else flow_fell \<and> pressure_rose))"

definition s3_correlated :: "CorrelationEvaluationInput \<Rightarrow> bool" where
  "s3_correlated request =
     (\<exists>ts cyber. chronological (ci_telemetry request) ts \<and> one_run ts
        \<and> ci_cyber_context request = Some cyber
        \<and> s3_parent_shape_verified request \<and> s3_asset_mapping_valid request
        \<and> set (ci_available_point_ids request) \<subseteq>
            {''control_valve_position_percent'', ''pipeline_flow_rate_m3h'', ''pipeline_pressure_bar'',
             ''source_tank_level_percent'', ''receiving_tank_level_percent''}
        \<and> (let anchor = cy_command_observed_at cyber in
           window_complete ts anchor 30 24
           \<and> s3_process_response (before (anchor - seconds 10) anchor ts)
               (between anchor (anchor + seconds 30) ts) (set (ci_available_point_ids request))))"

text \<open>S4: the first sample whose flow drops below a stable baseline while the pump runs.\<close>

definition flow_onset :: "TelemetryEvidence list \<Rightarrow> TelemetryEvidence \<Rightarrow> bool" where
  "flow_onset ts t =
     (let baseline = before (te_observed_at t - seconds 10) (te_observed_at t) ts in
      8 \<le> length baseline \<and> pump_running t \<and> (\<forall>x \<in> set baseline. pump_running x)
      \<and> spread flow baseline \<le> f64_literal 0.1
      \<and> flow t \<le> f64_sub (mean flow baseline) (f64_literal 0.5))"

definition s4_process_response ::
  "TelemetryEvidence list \<Rightarrow> TelemetryEvidence list \<Rightarrow> TelemetryEvidence list \<Rightarrow> bool" where
  "s4_process_response baseline effect terminal =
     ((\<forall>x \<in> set baseline. pump_running x)
      \<and> spread flow baseline \<le> f64_literal 0.1 \<and> spread pressure baseline \<le> f64_literal 0.05
      \<and> has_block pump_running 10 effect
      \<and> has_block (\<lambda>t. flow t \<le> f64_literal 0.1) 10 effect
      \<and> has_block (\<lambda>t. f64_add (mean pressure baseline) (f64_literal 0.5) \<le> pressure t) 10 effect
      \<and> 2 \<le> length terminal
      \<and> 20 \<le> total_seconds (te_observed_at (last terminal) - te_observed_at (hd terminal))
      \<and> slope source_level terminal \<le> f64_literal 0.00001
      \<and> slope receiving_level terminal \<le> f64_literal 0.00001
      \<and> \<bar>f64_sub (slope source_level terminal) (slope receiving_level terminal)\<bar> \<le> f64_literal 0.000000001)"

definition s4_correlated :: "CorrelationEvaluationInput \<Rightarrow> bool" where
  "s4_correlated request =
     (\<exists>ts first rest earlier. chronological (ci_telemetry request) ts \<and> one_run ts
        \<and> ts = earlier @ first # rest \<and> flow_onset ts first \<and> (\<forall>t \<in> set earlier. \<not> flow_onset ts t)
        \<and> set (ci_available_point_ids request) =
            {''transfer_pump_running'', ''pipeline_flow_rate_m3h'', ''pipeline_pressure_bar'',
             ''source_tank_level_percent'', ''receiving_tank_level_percent''}
        \<and> (let anchor = te_observed_at first; effect = between anchor (anchor + seconds 60) ts in
           window_complete ts anchor 60 50
           \<and> s4_process_response (before (anchor - seconds 10) anchor ts) effect
               (filter (\<lambda>t. anchor + seconds 40 \<le> te_observed_at t) effect)))"

section \<open>Small integers are exact floats\<close>

lemma round_even_int [simp]: "round_even (of_int n) = n"
  by (simp add: round_even_def)

lemma f64_round_int:
  assumes "0 < n" "n < 2 ^ 53"
  shows "f64_round (of_int n) = of_int n"
proof -
  let ?x = "of_int n :: rat"
  have "0 < ?x" using assms(1) by simp
  from floor_log2_le [OF this] have "pow2 (floor_log2 ?x) \<le> ?x" .
  also have "?x < pow2 53" using assms(2) by (simp add: pow2_def of_int_less_iff [of n "2 ^ 53", symmetric] del: of_int_less_iff)
  finally have "floor_log2 ?x \<le> 52" using pow2_mono [of 53 "floor_log2 ?x"] by linarith
  then have e: "max (floor_log2 ?x - 52) (-1074) \<le> 0" by simp
  define k where "k = nat (- max (floor_log2 ?x - 52) (-1074))"
  have ulp: "pow2 (max (floor_log2 ?x - 52) (-1074)) = 1 / 2 ^ k"
    using e by (auto simp: pow2_def k_def)
  have "f64_round ?x = of_int (round_even (of_int (n * 2 ^ k))) * (1 / 2 ^ k)"
    using assms(1) by (simp add: f64_round_def Let_def ulp)
  also have "\<dots> = ?x" unfolding round_even_int by simp
  finally show ?thesis .
qed

lemma total_seconds_seconds:
  assumes "0 < n" "n < 2 ^ 53"
  shows "total_seconds (seconds n) = of_int n"
  using f64_round_int [OF assms] by (simp add: total_seconds_def seconds_def microseconds_per_second_def)

section \<open>Order and runs\<close>

lemma canonical_chronological:
  assumes "canonical_telemetry xs = Inr ts" "inj_on te_observed_at (set ts)"
  shows "chronological xs ts"
proof -
  have "distinct ts" using telemetry_list.canonical_InrD(3) [OF assms(1)] by (auto simp: distinct_map)
  with assms have "sorted_wrt (<) (map te_observed_at ts)"
    by (simp add: strict_sorted_iff distinct_map canonical_telemetry_times)
  then show ?thesis
    using telemetry_list.canonical_InrD(2) [OF assms(1)] by (simp add: chronological_def sorted_wrt_map)
qed

lemma chronological_distinct:
  assumes "chronological xs ts"
  shows "distinct (map te_observed_at ts)" "sorted (map te_observed_at ts)"
proof -
  have "sorted_wrt (<) (map te_observed_at ts)" using assms by (simp add: chronological_def sorted_wrt_map)
  then show "distinct (map te_observed_at ts)" "sorted (map te_observed_at ts)"
    by (simp_all add: strict_sorted_iff)
qed

lemma chronological_unique:
  assumes "chronological xs ts" "chronological xs us"
  shows "ts = us"
proof (rule map_sorted_distinct_set_unique [of te_observed_at])
  have "set ts = set us" using assms by (simp add: chronological_def)
  with chronological_distinct(1) [OF assms(1)]
  show "inj_on te_observed_at (set ts \<union> set us)" by (simp add: distinct_map)
  show "set ts = set us" by fact
qed (use assms in \<open>simp_all add: chronological_distinct\<close>)

lemma length_remdups_1: "length (remdups xs) = Suc 0 \<longleftrightarrow> xs \<noteq> [] \<and> (\<exists>a. \<forall>x \<in> set xs. x = a)"
proof -
  have "length (remdups xs) = Suc 0 \<longleftrightarrow> (\<exists>a. set xs = {a})"
    by (simp only: length_remdups_card_conv card_1_singleton_iff)
  moreover have "set xs = {a} \<longleftrightarrow> xs \<noteq> [] \<and> (\<forall>x \<in> set xs. x = a)" for a
    by (cases xs) auto
  ultimately show ?thesis by simp
qed

lemma remdups_singleton: "remdups xs = [a] \<longleftrightarrow> xs \<noteq> [] \<and> (\<forall>x \<in> set xs. x = a)"
proof
  assume r: "remdups xs = [a]"
  then have "set xs = {a}" by (metis list.set(1) list.simps(15) set_remdups)
  then show "xs \<noteq> [] \<and> (\<forall>x \<in> set xs. x = a)" by auto
next
  assume all: "xs \<noteq> [] \<and> (\<forall>x \<in> set xs. x = a)"
  then have "length (remdups xs) = Suc 0" unfolding length_remdups_1 by blast
  then obtain b where b: "remdups xs = [b]" by (auto simp: length_Suc_conv)
  then have "b \<in> set xs" by (metis list.set_intros(1) set_remdups)
  with all b show "remdups xs = [a]" by simp
qed

lemma hd_remdups_in: "xs \<noteq> [] \<Longrightarrow> hd (remdups xs) \<in> set xs"
  by (metis hd_in_set remdups_eq_nil_iff set_remdups)

text \<open>The outcome of the consistency check on canonical telemetry.\<close>

lemma run_consistency:
  assumes "canonical_telemetry ts = Inr ts" "ts \<noteq> []"
  obtains c where "validate_run_consistency ts = Inr c"
    "rc_reason c = None \<longleftrightarrow> one_run ts"
    "\<And>r. rc_reason c = Some r \<Longrightarrow> STATUS_BY_REASON r = INDETERMINATE"
    "rc_configuration_hash c = None \<or> (\<exists>t \<in> set ts. rc_configuration_hash c = Some (tp_configuration_hash (te_payload t)))"
    "rc_reason c = None \<Longrightarrow> \<exists>t \<in> set ts. rc_simulation_id c = Some (tp_simulation_id (te_payload t))
       \<and> rc_configuration_hash c = Some (tp_configuration_hash (te_payload t))
       \<and> rc_run_origin c = Some (run_origin_of t)"
proof -
  have d: "distinct ts" using telemetry_list.canonical_InrD(3) [OF assms(1)] by (auto simp: distinct_map)
  let ?sim = "map (tp_simulation_id \<circ> te_payload) ts"
  let ?conf = "map (tp_configuration_hash \<circ> te_payload) ts"
  let ?ver = "map (tp_simulator_version \<circ> te_payload) ts"
  have run: "one_run ts \<longleftrightarrow> length (remdups ?sim) = 1 \<and> length (remdups ?conf) = 1
      \<and> remdups ?ver = [''3.0.0''] \<and> distinct (map te_observed_at ts) \<and> distinct (map te_sequence_number ts)
      \<and> length (remdups (map run_origin_of ts)) = 1"
    using assms(2) d by (simp add: one_run_def length_remdups_1 remdups_singleton distinct_map)
  obtain c where c: "validate_run_consistency ts = Inr c"
    using assms by (cases "validate_run_consistency ts") (simp_all add: validate_run_consistency_def Let_def split: if_splits)
  have hash: "\<exists>t \<in> set ts. hd (remdups ?conf) = tp_configuration_hash (te_payload t)"
    using hd_remdups_in [of ?conf] assms(2) by auto
  have first: "\<exists>t \<in> set ts. hd (remdups ?sim) = tp_simulation_id (te_payload t)
      \<and> hd (remdups ?conf) = tp_configuration_hash (te_payload t)
      \<and> hd (remdups (map run_origin_of ts)) = run_origin_of t" if "one_run ts"
  proof -
    obtain t where t: "t \<in> set ts" using assms(2) by (cases ts) auto
    have "hd (remdups ?sim) = tp_simulation_id (te_payload t)" "hd (remdups ?conf) = tp_configuration_hash (te_payload t)"
        "hd (remdups (map run_origin_of ts)) = run_origin_of t"
      using that t hd_remdups_in [of ?sim] hd_remdups_in [of ?conf] hd_remdups_in [of "map run_origin_of ts"] assms(2)
      by (auto simp: one_run_def)
    with t show ?thesis by blast
  qed
  show ?thesis
  proof (rule that [OF c])
    show "rc_reason c = None \<longleftrightarrow> one_run ts"
      using c assms unfolding run by (auto simp: validate_run_consistency_def Let_def split: if_splits)
    show "STATUS_BY_REASON r = INDETERMINATE" if "rc_reason c = Some r" for r
      using c assms that by (auto simp: validate_run_consistency_def Let_def split: if_splits)
    show "rc_configuration_hash c = None \<or> (\<exists>t \<in> set ts. rc_configuration_hash c = Some (tp_configuration_hash (te_payload t)))"
      using c assms hash by (auto simp: validate_run_consistency_def Let_def split: if_splits)
    show "\<exists>t \<in> set ts. rc_simulation_id c = Some (tp_simulation_id (te_payload t))
       \<and> rc_configuration_hash c = Some (tp_configuration_hash (te_payload t))
       \<and> rc_run_origin c = Some (run_origin_of t)" if "rc_reason c = None"
    proof -
      have "one_run ts" using that c assms unfolding run
        by (auto simp: validate_run_consistency_def Let_def split: if_splits)
      from first [OF this] show ?thesis
        using c assms that by (auto simp: validate_run_consistency_def Let_def split: if_splits)
    qed
  qed
qed

section \<open>Windows\<close>

lemma max_option_exceeds:
  "(case max_option xs of None \<Rightarrow> False | Some g \<Rightarrow> c < g) \<longleftrightarrow> (\<exists>x \<in> set xs. c < (x :: 'a::linorder))"
proof (cases xs)
  case (Cons y ys)
  have "fold max ys y = Max (set (y # ys))" by (simp only: Max.set_eq_fold)
  with Cons show ?thesis by (simp del: Max_insert add: Max_gr_iff)
qed simp

lemma sorted_last_ge:
  assumes "sorted (map f xs)" "x \<in> set xs"
  shows "f x \<le> (f (last xs) :: 'a::linorder)"
  using assms by (induction xs) auto

text \<open>Two neighbours within a run: the floating-point gap check is the exact one.\<close>

lemma neighbour_gap:
  assumes "run_origin_of x = run_origin_of y" "te_observed_at x < te_observed_at y"
    "valid_telemetry x" "valid_telemetry y"
  shows "\<not> (total_seconds (te_observed_at y - te_observed_at x) \<le> 0
        \<or> te_sequence_number y - te_sequence_number x \<le> 0
        \<or> f64_round (of_int (te_sequence_number y - te_sequence_number x))
            \<noteq> total_seconds (te_observed_at y - te_observed_at x))
      \<and> total_seconds (te_observed_at y - te_observed_at x) \<le> 2
    \<longleftrightarrow> te_observed_at y - te_observed_at x = seconds (te_sequence_number y - te_sequence_number x)
      \<and> te_sequence_number y - te_sequence_number x \<in> {1, 2}"
proof -
  define k where "k = tp_simulation_time_seconds (te_payload y) - tp_simulation_time_seconds (te_payload x)"
  define s where "s = te_sequence_number y - te_sequence_number x"
  have d: "te_observed_at y - te_observed_at x = seconds k"
    using assms(1) by (simp add: run_origin_of_def seconds_def k_def left_diff_distrib)
  have "0 < k" using assms(2) d by (simp add: seconds_def microseconds_per_second_def)
  moreover have "k < 2 ^ 53" "s < 2 ^ 53"
    using assms(3,4) by (auto simp: k_def s_def valid_telemetry_def valid_telemetry_payload_def)
  ultimately have t: "total_seconds (seconds k) = of_int k" by (simp add: total_seconds_seconds)
  have "f64_round (of_int s) = of_int s" if "0 < s"
    using that \<open>s < 2 ^ 53\<close> by (rule f64_round_int)
  moreover have "seconds k = seconds s \<longleftrightarrow> k = s" by (simp add: seconds_def microseconds_per_second_def)
  ultimately show ?thesis
    unfolding d t s_def [symmetric] using \<open>0 < k\<close> by (cases "0 < s") auto
qed

definition quiet :: "(f64 \<times> bool) list \<Rightarrow> bool" where
  "quiet gaps = list_all (\<lambda>(g, invalid). \<not> invalid \<and> g \<le> 2) gaps"

lemma quiet_steady:
  assumes "sorted_wrt (\<lambda>x y. te_observed_at x < te_observed_at y) xs"
    "\<forall>x \<in> set xs. run_origin_of x = origin" "\<forall>x \<in> set xs. valid_telemetry x"
  shows "quiet (adjacent_gaps xs) \<longleftrightarrow> steady xs"
  using assms
proof (induction xs rule: adjacent_gaps.induct)
  case (1 x y rest)
  then have "quiet (adjacent_gaps (y # rest)) \<longleftrightarrow> steady (y # rest)" by simp
  moreover have "run_origin_of x = run_origin_of y" "te_observed_at x < te_observed_at y"
      "valid_telemetry x" "valid_telemetry y"
    using 1(2-4) by simp_all
  note neighbour_gap [OF this]
  ultimately show ?case by (simp add: quiet_def steady_def Let_def)
qed (simp_all add: quiet_def steady_def)

lemma gap_reason_None:
  "(if list_ex snd gaps \<or> (case max_option (map fst gaps) of None \<Rightarrow> False | Some g \<Rightarrow> g > of_int 2)
    then Some TELEMETRY_GAP_EXCEEDED else None) = None \<longleftrightarrow> quiet gaps"
proof -
  have "quiet gaps \<longleftrightarrow> (\<forall>p \<in> set gaps. \<not> snd p \<and> fst p \<le> 2)"
    by (simp add: quiet_def list_all_iff split_def)
  then show ?thesis unfolding max_option_exceeds by (auto simp: list_ex_iff not_less)
qed

lemma value_range_spread:
  assumes "ts \<noteq> []"
  shows "value_range ts accessor = Inr (spread accessor ts)"
proof -
  obtain t us where ts: "ts = t # us" using assms by (cases ts) auto
  have "fold max (map accessor us) (accessor t) = Max (set (accessor t # map accessor us))"
       "fold min (map accessor us) (accessor t) = Min (set (accessor t # map accessor us))"
    by (simp_all only: Max.set_eq_fold Min.set_eq_fold)
  then show ?thesis by (simp add: value_range_def spread_def ts)
qed

lemma arithmetic_mean_mean: "ts \<noteq> [] \<Longrightarrow> arithmetic_mean ts accessor = Inr (mean accessor ts)"
  by (simp add: arithmetic_mean_def mean_def)

lemma range_exceeds_spread:
  "ts \<noteq> [] \<Longrightarrow> range_exceeds ts accessor (Inr l) = Inr (\<not> spread accessor ts \<le> l)"
  by (auto simp: range_exceeds_def value_range_spread)

text \<open>The selected window, on canonical telemetry of one run.\<close>

lemma window_selected:
  assumes canon: "canonical_telemetry ts = Inr ts" and run: "one_run ts"
    and valid: "\<forall>t \<in> set ts. valid_telemetry t"
  obtains w where "select_window ts anchor 10 effect_seconds 2 = Inr w"
    "ws_baseline w = before (anchor - seconds 10) anchor ts"
    "ws_effect w = between anchor (anchor + seconds effect_seconds) ts"
    "ws_start w = anchor - seconds 10" "ws_end w = anchor + seconds effect_seconds"
    "ws_finalized w \<longleftrightarrow> (\<exists>t \<in> set ts. anchor + seconds effect_seconds \<le> te_observed_at t)"
    "ws_gap_reason w = None \<longleftrightarrow> steady (ws_baseline w) \<and> steady (ws_effect w)"
    "ws_gap_reason w \<in> {None, Some TELEMETRY_GAP_EXCEEDED}"
    "option_all (\<lambda>g. 0 \<le> g) (ws_maximum_gap_seconds w)"
proof -
  obtain w where w: "select_window ts anchor 10 effect_seconds 2 = Inr w"
    using canon by (simp add: select_window_def Let_def)
  then have eq: "w = \<lparr>ws_baseline = before (anchor - seconds 10) anchor ts,
      ws_effect = between anchor (anchor + seconds effect_seconds) ts,
      ws_after = filter (\<lambda>t. te_observed_at t > anchor + seconds effect_seconds) ts,
      ws_start = anchor - seconds 10, ws_end = anchor + seconds effect_seconds,
      ws_finalized = (ts \<noteq> [] \<and> te_observed_at (last ts) \<ge> anchor + seconds effect_seconds),
      ws_maximum_gap_seconds = max_option (map fst (adjacent_gaps (before (anchor - seconds 10) anchor ts)
        @ adjacent_gaps (between anchor (anchor + seconds effect_seconds) ts))),
      ws_gap_reason = ws_gap_reason w\<rparr>"
    using canon by (auto simp: select_window_def Let_def before_def between_def)
  have chron: "sorted_wrt (\<lambda>x y. te_observed_at x < te_observed_at y) ts"
    using canonical_chronological [OF canon] run by (simp add: one_run_def chronological_def)
  obtain origin where origin: "\<forall>t \<in> set ts. run_origin_of t = origin" using run by (auto simp: one_run_def)
  have q: "quiet (adjacent_gaps (filter P ts)) \<longleftrightarrow> steady (filter P ts)" for P
    using chron origin valid by (intro quiet_steady) (auto intro: sorted_wrt_filter)
  have gap: "ws_gap_reason w = None \<longleftrightarrow> steady (ws_baseline w) \<and> steady (ws_effect w)"
  proof -
    have "ws_gap_reason w = None \<longleftrightarrow>
        quiet (adjacent_gaps (ws_baseline w) @ adjacent_gaps (ws_effect w))"
      using w canon unfolding gap_reason_None [symmetric]
      by (auto simp: select_window_def Let_def)
    also have "\<dots> \<longleftrightarrow> quiet (adjacent_gaps (ws_baseline w)) \<and> quiet (adjacent_gaps (ws_effect w))"
      by (simp add: quiet_def)
    also have "\<dots> \<longleftrightarrow> steady (ws_baseline w) \<and> steady (ws_effect w)"
      by (subst (1 2 3 4) eq) (simp add: before_def between_def q)
    finally show ?thesis .
  qed
  have nonneg: "\<forall>g \<in> set (adjacent_gaps xs). 0 \<le> fst g"
    if "sorted_wrt (\<lambda>x y. te_observed_at x < te_observed_at y) xs" for xs
    using that by (induction xs rule: adjacent_gaps.induct) (auto simp: Let_def total_seconds_nonneg)
  have "option_all (\<lambda>g. 0 \<le> g) (max_option gs)" if "\<forall>g \<in> set gs. 0 \<le> g" for gs :: "f64 list"
  proof (cases gs)
    case (Cons g gs')
    have "fold max gs' g = Max (set (g # gs'))" by (simp only: Max.set_eq_fold)
    with Cons that show ?thesis by (auto simp: Max_ge_iff)
  qed simp
  moreover have "\<forall>g \<in> set (map fst (adjacent_gaps (before a b ts) @ adjacent_gaps (between c d ts))). 0 \<le> g"
    for a b c d
    using nonneg [OF sorted_wrt_filter [OF chron]] by (auto simp: before_def between_def)
  ultimately have "option_all (\<lambda>g. 0 \<le> g) (ws_maximum_gap_seconds w)" by (subst eq) simp
  moreover have "ws_gap_reason w \<in> {None, Some TELEMETRY_GAP_EXCEEDED}"
    using w canon by (auto simp: select_window_def Let_def)
  moreover have "ws_finalized w \<longleftrightarrow> (\<exists>t \<in> set ts. anchor + seconds effect_seconds \<le> te_observed_at t)"
    using sorted_last_ge [OF canonical_telemetry_times [OF canon]] by (subst eq) (fastforce intro: order_trans)
  ultimately show ?thesis using gap by (intro that [OF w]) (subst eq, simp; fail | simp)+
qed

end
