(* ===== verification/Correlation_Branches.thy ===== *)
theory Correlation_Branches
  imports Correlation_Spec
begin

text \<open>
  The contract of a rule evaluator, as the interface \<open>correlation_branch\<close>: on canonical telemetry of one
  run it returns a decision that satisfies the constraints of the finding, and the decision is
  CORRELATED exactly when the specification of the rule holds. Both evaluators are instances; the
  lemmas of the interface carry the contract through the checks of \<open>evaluate_correlation\<close>.
\<close>

section \<open>Decisions by reason\<close>

definition good_decision :: "CorrelationDecision \<Rightarrow> bool" where
  "good_decision d = (valid_decision d \<and> prohibit_overclaiming (cd_explanation d)
     \<and> cd_status d = STATUS_BY_REASON (cd_reason_code d))"

definition context_ok :: "DecisionContext \<Rightarrow> bool" where
  "context_ok c = (option_all is_sha256 (dc_configuration_hash c) \<and> 0 \<le> dc_baseline_count c
     \<and> 0 \<le> dc_effect_count c \<and> option_all (\<lambda>g. 0 \<le> g) (dc_maximum_gap_seconds c))"

lemma reason_text:
  "text_within 80 (CorrelationReasonCode_value r)" "text_within 600 (reason_explanation r)"
  by (cases r; simp add: text_within_def)+

lemma explanations_allowed:
  "list_all (\<lambda>r. prohibit_overclaiming (reason_explanation r)) CORRELATION_REASON_PRECEDENCE"
  by code_simp

lemma reason_explanation_allowed: "prohibit_overclaiming (reason_explanation r)"
proof -
  have "r \<in> set CORRELATION_REASON_PRECEDENCE" by (cases r) (simp_all add: CORRELATION_REASON_PRECEDENCE_def)
  with explanations_allowed show ?thesis by (simp add: list_all_iff)
qed

lemma reason_decision_facts:
  assumes "reason_decision r rule ts c = Inr d"
  shows "cd_status d = STATUS_BY_REASON r" "cd_reason_code d = r" "good_decision d"
    "cd_configuration_hash d = dc_configuration_hash c"
  using assms reason_explanation_allowed [of r]
  by (auto simp: reason_decision_def new_decision_def good_decision_def split: if_splits)

lemma reason_decision_returns:
  assumes "valid_correlation_rule rule" "context_ok c"
  shows "\<exists>d. reason_decision r rule ts c = Inr d"
  using assms reason_text [of r]
  by (simp add: reason_decision_def new_decision_def valid_decision_def valid_correlation_rule_def context_ok_def)

text \<open>Not a correlation: the status of every reason but a match.\<close>

lemma reason_not_correlated:
  assumes "r \<noteq> CORRELATION_MATCH" "\<not> X"
  shows "ensures (reason_decision r rule ts c) (\<lambda>d. cd_status d = CORRELATED \<longleftrightarrow> X)"
  using assms by (cases r) (auto simp: ensures_def dest: reason_decision_facts(1))

lemma reason_not_correlated_with:
  assumes "r \<noteq> CORRELATION_MATCH" "\<not> X"
  shows "ensures (rbind (reason_decision r rule ts c) (\<lambda>d. Inr (d\<lparr>cd_observations := obs\<rparr>)))
    (\<lambda>d. cd_status d = CORRELATED \<longleftrightarrow> X)"
  using reason_not_correlated [OF assms, of rule ts c] by (auto simp: ensures_def rbind_eq_Inr)

lemma reason_good: "ensures (reason_decision r rule ts c) good_decision"
  by (auto simp: ensures_def dest: reason_decision_facts(3))

lemma reason_good_with:
  "ensures (rbind (reason_decision r rule ts c) (\<lambda>d. Inr (d\<lparr>cd_observations := obs\<rparr>))) good_decision"
  by (auto simp: ensures_def rbind_eq_Inr good_decision_def valid_decision_def dest!: reason_decision_facts(3))

lemma returns_rbind: "\<exists>x. m = Inr x \<Longrightarrow> (\<And>x. m = Inr x \<Longrightarrow> \<exists>y. f x = Inr y) \<Longrightarrow> \<exists>y. rbind m f = Inr y"
  by auto

section \<open>The interface\<close>

definition profile_requested :: "CorrelationEvaluationInput \<Rightarrow> LoadedCorrelationProfile \<Rightarrow> bool" where
  "profile_requested request loaded =
     (ci_profile_id request = CORRELATION_PROFILE_ID \<and> ci_profile_version request = CORRELATION_PROFILE_VERSION
      \<and> ci_profile_sha256 request = lcp_sha256 loaded \<and> ci_rule_version request = ''1.0.0'')"

text \<open>Telemetry as the evaluators get it.\<close>

definition evaluable :: "TelemetryEvidence list \<Rightarrow> bool" where
  "evaluable ts = (canonical_telemetry ts = Inr ts \<and> ts \<noteq> [] \<and> one_run ts \<and> (\<forall>t \<in> set ts. valid_telemetry t))"

locale correlation_branch =
  fixes evaluate :: "CorrelationEvaluationInput \<Rightarrow> CorrelationRule \<Rightarrow> RunConsistency \<Rightarrow>
      CorrelationError + CorrelationDecision"
    and rule_ok :: "CorrelationRule \<Rightarrow> bool"
    and admitted :: "CorrelationEvaluationInput \<Rightarrow> bool"
    and response :: "CorrelationEvaluationInput \<Rightarrow> TelemetryEvidence list \<Rightarrow> bool"
  assumes rule_valid: "rule_ok rule \<Longrightarrow> valid_correlation_rule rule"
    and selected: "rule_ok rule \<Longrightarrow>
      (if cru_evaluator_branch rule = S3 then evaluate_s3 request rule c else evaluate_s4 request rule c)
        = evaluate request rule c"
    and admits: "rule_ok rule \<Longrightarrow> admitted request \<longleftrightarrow>
      \<not> (cru_evaluator_branch rule = S3 \<and> \<not> s3_parent_shape_verified request)
      \<and> \<not> (cru_evaluator_branch rule = S3 \<and> \<not> s3_asset_mapping_valid request)
      \<and> \<not> (cru_evaluator_branch rule = S4 \<and> ci_cyber_context request \<noteq> None)"
    and decides: "rule_ok rule \<Longrightarrow> admitted request \<Longrightarrow> evaluable (ci_telemetry request) \<Longrightarrow>
      ensures (evaluate request rule c) (\<lambda>d. cd_status d = CORRELATED \<longleftrightarrow> response request (ci_telemetry request))"
    and good: "rule_ok rule \<Longrightarrow> ensures (evaluate request rule c) good_decision"
    and returns: "rule_ok rule \<Longrightarrow> admitted request \<Longrightarrow> evaluable (ci_telemetry request) \<Longrightarrow>
      option_all is_sha256 (rc_configuration_hash c) \<Longrightarrow> \<exists>d. evaluate request rule c = Inr d"
begin

lemma decision_status:
  assumes "rules loaded (ci_rule_id request) = Some rule" "rule_ok rule"
    "canonical_telemetry (ci_telemetry request) = Inr (ci_telemetry request)"
    "\<forall>t \<in> set (ci_telemetry request). valid_telemetry t"
  shows "ensures (correlation_decision request loaded) (\<lambda>d. cd_status d = CORRELATED \<longleftrightarrow>
     profile_requested request loaded \<and> admitted request
     \<and> set (ci_available_point_ids request) \<subseteq> set (cru_point_ids rule)
     \<and> ci_telemetry request \<noteq> [] \<and> one_run (ci_telemetry request)
     \<and> response request (ci_telemetry request))"
    (is "ensures _ (\<lambda>d. cd_status d = CORRELATED \<longleftrightarrow> ?X)")
proof -
  note adm = admits [OF assms(2), of request]
  have consistent: "ensures (case rc_reason c of
        Some reason \<Rightarrow> reason_decision reason rule (ci_telemetry request) (run_context (request_anchor request) c)
      | None \<Rightarrow> k) (\<lambda>d. cd_status d = CORRELATED \<longleftrightarrow> ?X)"
    if c: "validate_run_consistency (ci_telemetry request) = Inr c"
      and k: "rc_reason c = None \<Longrightarrow> (ci_telemetry request = [] \<or> one_run (ci_telemetry request)) \<Longrightarrow>
        ensures k (\<lambda>d. cd_status d = CORRELATED \<longleftrightarrow> ?X)" for c k
  proof (cases "ci_telemetry request = []")
    case True
    with c k show ?thesis by (auto simp: validate_run_consistency_def)
  next
    case False
    from run_consistency [OF assms(3) False] c obtain
      none: "rc_reason c = None \<longleftrightarrow> one_run (ci_telemetry request)"
      and status: "\<And>r. rc_reason c = Some r \<Longrightarrow> STATUS_BY_REASON r = INDETERMINATE" by auto
    show ?thesis
    proof (cases "rc_reason c")
      case None
      with k none show ?thesis by simp
    next
      case (Some r)
      with status none have "r \<noteq> CORRELATION_MATCH" "\<not> ?X" by auto
      with Some show ?thesis by (simp add: reason_not_correlated)
    qed
  qed
  have rest: "ensures (evaluate request rule c) (\<lambda>d. cd_status d = CORRELATED \<longleftrightarrow> ?X)"
    if "profile_requested request loaded" "admitted request" "ci_telemetry request \<noteq> []"
      "set (ci_available_point_ids request) \<subseteq> set (cru_point_ids rule)" "one_run (ci_telemetry request)" for c
    using decides [OF assms(2) that(2), of c] that assms by (simp add: evaluable_def)
  show ?thesis
    unfolding correlation_decision_def Let_def assms(1) option.case selected [OF assms(2)]
    by (intro ensures_if ensures_rbind consistent reason_not_correlated rest)
      (use adm in \<open>auto simp: profile_requested_def\<close>)
qed

lemma decision_good:
  assumes "rules loaded (ci_rule_id request) = Some rule" "rule_ok rule"
  shows "ensures (correlation_decision request loaded) good_decision"
  unfolding correlation_decision_def Let_def assms(1) option.case selected [OF assms(2)]
  by (intro ensures_if ensures_option ensures_rbind reason_good good [OF assms(2)])

lemma decision_returns:
  assumes "rules loaded (ci_rule_id request) = Some rule" "rule_ok rule"
    "canonical_telemetry (ci_telemetry request) = Inr (ci_telemetry request)"
    "\<forall>t \<in> set (ci_telemetry request). valid_telemetry t"
    "\<forall>r \<in> set (cpr_rules (lcp_profile loaded)). valid_correlation_rule r" "cpr_rules (lcp_profile loaded) \<noteq> []"
  shows "\<exists>d. correlation_decision request loaded = Inr d"
proof -
  have fallback: "\<exists>d. reason_decision r (hd (cpr_rules (lcp_profile loaded))) ts (no_context\<lparr>dc_anchor := a\<rparr>) = Inr d"
    for r ts a
    using assms(5,6) by (intro reason_decision_returns) (auto simp: context_ok_def no_context_def)
  have anchored: "\<exists>d. reason_decision r rule ts (no_context\<lparr>dc_anchor := a\<rparr>) = Inr d" for r ts a
    using rule_valid [OF assms(2)] by (intro reason_decision_returns) (auto simp: context_ok_def no_context_def)
  obtain c where c: "validate_run_consistency (ci_telemetry request) = Inr c"
      "rc_reason c = None \<longleftrightarrow> ci_telemetry request = [] \<or> one_run (ci_telemetry request)"
      "option_all is_sha256 (rc_configuration_hash c)"
  proof (cases "ci_telemetry request = []")
    case True
    then show ?thesis by (intro that) (auto simp: validate_run_consistency_def)
  next
    case False
    from run_consistency [OF assms(3) False] obtain c where
      "validate_run_consistency (ci_telemetry request) = Inr c"
      "rc_reason c = None \<longleftrightarrow> one_run (ci_telemetry request)"
      "rc_configuration_hash c = None \<or>
        (\<exists>t \<in> set (ci_telemetry request). rc_configuration_hash c = Some (tp_configuration_hash (te_payload t)))"
      by metis
    with False assms(4) show ?thesis
      by (intro that) (auto simp: valid_telemetry_def valid_telemetry_payload_def)
  qed
  have run: "\<exists>d. reason_decision r rule ts (run_context a c) = Inr d" for r ts a
    using rule_valid [OF assms(2)] c(3)
    by (intro reason_decision_returns) (auto simp: context_ok_def run_context_def no_context_def)
  have rest: "\<exists>d. evaluate request rule c = Inr d"
    if "admitted request" "ci_telemetry request \<noteq> []" "one_run (ci_telemetry request)"
    using returns [OF assms(2) that(1) _ c(3)] that assms by (simp add: evaluable_def)
  show ?thesis
    unfolding correlation_decision_def Let_def assms(1) option.case selected [OF assms(2)] c(1) rbind_simps
    by (intro returns_if returns_option fallback anchored run rest)
      (use c(2) admits [OF assms(2), of request] in auto)
qed

end

end
