(* ===== verification/Correlation_S3.thy ===== *)
theory Correlation_S3
  imports Correlation_Branches
begin

text \<open>
  The S3 evaluator meets the contract of a rule evaluator: under the frozen thresholds it never
  raises, and it answers CORRELATED exactly when the valve, the flow and the pressure respond as
  the specification says.
\<close>

section \<open>Shared stages\<close>

definition observations_ok :: "PointObservation list \<Rightarrow> bool" where
  "observations_ok obs = (\<forall>p \<in> set obs. valid_observation p)"

lemma numeric_observation_returns:
  assumes "snake_key a" "safe_key b" "text_within 40 e" "0 \<le> i" "i \<le> 100" "0 \<le> j" "j \<le> 100"
  shows "\<exists>q. numeric_observation a b c d e f g h i j k l = Inr q \<and> valid_observation q"
  using assms by (simp add: numeric_observation_def Let_def new_observation_def valid_observation_def)

lemma persistence_if_bounds:
  "0 \<le> persistence_if has ts P" "persistence_if has ts P \<le> int (length ts)"
  by (simp_all add: persistence_if_def maximum_persistence_bounds)

text \<open>The key constants of the observations.\<close>

lemma observation_keys:
  "snake_key ''control_valve_position_percent''" "snake_key ''pipeline_flow_rate_m3h''"
  "snake_key ''pipeline_pressure_bar''" "snake_key ''source_tank_level_percent''"
  "snake_key ''receiving_tank_level_percent''" "snake_key ''transfer_pump_running''"
  "safe_key ''CV-101''" "safe_key ''PL-101''" "safe_key ''TK-101''" "safe_key ''TK-102''" "safe_key ''P-101''"
  "text_within 40 ''percentage_points_open''" "text_within 40 ''synthetic_m3h''"
  "text_within 40 ''synthetic_bar''" "text_within 40 ''percentage_points_per_second''"
  "text_within 40 ''boolean''"
  by code_simp+

text \<open>Samples of one run inside a window, and the slopes over them.\<close>

lemma evaluable_chronological:
  assumes "evaluable ts"
  shows "sorted_wrt (\<lambda>x y. te_observed_at x < te_observed_at y) ts"
  using assms canonical_chronological [of ts ts] by (simp add: evaluable_def one_run_def chronological_def)

lemma evaluable_window_count:
  assumes "evaluable ts" "0 \<le> n"
  shows "int (length (between a (a + seconds n) ts)) \<le> n + 1"
proof -
  have run: "inj_on te_observed_at (set ts)" and "canonical_telemetry ts = Inr ts"
    using assms(1) by (auto simp: evaluable_def one_run_def)
  then have d: "distinct (map te_observed_at ts)"
    using telemetry_list.canonical_InrD(3) [of ts ts] by (auto simp: distinct_map)
  obtain origin where "\<forall>t \<in> set ts. run_origin_of t = origin"
    using assms(1) by (auto simp: evaluable_def one_run_def)
  then show ?thesis
    unfolding between_def using assms(2) d
    by (intro window_sample_count [of _ origin a]) (auto simp: distinct_map_filter)
qed

lemmas evaluableD = evaluable_def [THEN iffD1, THEN conjunct1]
  evaluable_def [THEN iffD1, THEN conjunct2, THEN conjunct2, THEN conjunct1]
  evaluable_def [THEN iffD1, THEN conjunct2, THEN conjunct2, THEN conjunct2]

lemmas evaluable_window = window_selected [OF evaluableD]

lemma abs_slope_returns:
  assumes "sorted_wrt (\<lambda>x y. te_observed_at x < te_observed_at y) ts" "2 \<le> length ts"
  shows "abs_slope ts accessor = Inr (slope accessor ts)"
proof -
  obtain t u us where ts: "ts = t # u # us"
    using assms(2) by (metis Suc_le_length_iff numeral_2_eq_2)
  have "last ts \<in> set (u # us)" using ts by simp
  then have "te_observed_at t < te_observed_at (last ts)" using assms(1) ts by (auto simp del: last.simps)
  then have "0 < total_seconds (te_observed_at (last ts) - te_observed_at (hd ts))"
    by (simp add: ts total_seconds_pos)
  then show ?thesis
    using assms(2) by (simp add: abs_slope_def endpoint_slope_def Let_def slope_def)
qed

section \<open>The S3 rule\<close>

definition s3_rule_ok :: "CorrelationRule \<Rightarrow> bool" where
  "s3_rule_ok rule = (cru_evaluator_branch rule = S3 \<and> window_tuple rule = (10, 30, 8, 24)
     \<and> wc_maximum_gap_seconds (cru_window rule) = 2 \<and> cru_thresholds rule = s3_thresholds
     \<and> valid_correlation_rule rule)"

definition s3_admitted :: "CorrelationEvaluationInput \<Rightarrow> bool" where
  "s3_admitted request = (s3_parent_shape_verified request \<and> s3_asset_mapping_valid request)"

definition s3_response :: "CorrelationEvaluationInput \<Rightarrow> TelemetryEvidence list \<Rightarrow> bool" where
  "s3_response request ts =
     (case ci_cyber_context request of
        None \<Rightarrow> False
      | Some cyber \<Rightarrow>
          (let anchor = cy_command_observed_at cyber in
           window_complete ts anchor 30 24
           \<and> s3_process_response (before (anchor - seconds 10) anchor ts)
               (between anchor (anchor + seconds 30) ts) (set (ci_available_point_ids request))))"

lemma s3_window:
  assumes "s3_rule_ok rule"
  shows "wc_baseline_seconds (cru_window rule) = 10" "wc_effect_seconds (cru_window rule) = 30"
    "wc_minimum_baseline_samples (cru_window rule) = 8" "wc_minimum_effect_samples (cru_window rule) = 24"
    "wc_maximum_gap_seconds (cru_window rule) = 2" "cru_thresholds rule = s3_thresholds"
  using assms by (auto simp: s3_rule_ok_def window_tuple_def)

text \<open>With a nonempty baseline the local values of the evaluation are these.\<close>

definition s3_values :: "TelemetryEvidence list \<Rightarrow> bool \<Rightarrow> bool \<Rightarrow> bool \<Rightarrow> S3Terms" where
  "s3_values baseline has_valve has_flow has_pressure =
     \<lparr>s3_has_valve = has_valve, s3_has_flow = has_flow, s3_has_pressure = has_pressure,
      s3_valve_baseline = (if has_valve then Some (mean valve baseline) else None),
      s3_flow_baseline = (if has_flow then Some (mean flow baseline) else None),
      s3_pressure_baseline = (if has_pressure then Some (mean pressure baseline) else None),
      s3_valve_target = 25, s3_valve_tolerance = f64_literal 0.5, s3_valve_required = 3,
      s3_flow_decrease = f64_literal 0.5\<rparr>"

lemma s3_terms_values:
  assumes "baseline \<noteq> []"
  shows "s3_terms baseline s3_thresholds v f p = Inr (s3_values baseline v f p)"
proof -
  have "f64_trunc (f64_round 3) = 3" using f64_round_int [of 3] by (simp add: f64_trunc_def)
  then show ?thesis
    using assms
    by (simp add: s3_terms_def mean_if_def arithmetic_mean_mean s3_required_def s3_thresholds_def
        float_option_def s3_values_def)
qed

lemma s3_unstable:
  assumes "baseline \<noteq> []"
  shows "s3_baseline_unstable baseline s3_thresholds v f p =
    Inr (\<not> ((v \<longrightarrow> spread valve baseline \<le> f64_literal 0.5) \<and> (f \<longrightarrow> spread flow baseline \<le> f64_literal 0.1)
        \<and> (p \<longrightarrow> spread pressure baseline \<le> f64_literal 0.05)))"
  using assms
  by (simp add: s3_baseline_unstable_def or_else_def range_exceeds_spread s3_required_def s3_thresholds_def)

lemma s3_matched_blocks:
  "s3_matched (s3_values baseline v f p) s3_thresholds effect \<longleftrightarrow>
     (let valve_moved = has_block (\<lambda>t. \<bar>f64_sub (valve t) 25\<bar> \<le> f64_literal 0.5) 3 effect;
          flow_fell = f \<and> has_block (\<lambda>t. flow t \<le> f64_sub (mean flow baseline) (f64_literal 0.5)) 5 effect;
          pressure_rose = p
            \<and> has_block (\<lambda>t. f64_add (mean pressure baseline) (f64_literal 0.1) \<le> pressure t) 5 effect in
      if v then valve_moved \<and> (flow_fell \<or> pressure_rose) else flow_fell \<and> pressure_rose)"
  by (auto simp: s3_matched_def valve_match_def flow_match_def pressure_match_def persistence_if_def
      s3_values_def s3_thresholds_def maximum_persistence_block valve_predicate_def [abs_def]
      flow_predicate_def [abs_def] pressure_predicate_def [abs_def] Let_def)

lemma s3_conclusion_status:
  "ensures (s3_conclusion ts rule c anchor w t obs)
    (\<lambda>d. cd_status d = CORRELATED \<longleftrightarrow> s3_matched t (cru_thresholds rule) (ws_effect w))"
  unfolding s3_conclusion_def Let_def
  by (intro ensures_if reason_not_correlated_with) (auto simp: ensures_def new_decision_def split: if_splits)

lemma s3_decides:
  assumes "s3_rule_ok rule" "s3_admitted request" "evaluable (ci_telemetry request)"
  shows "ensures (evaluate_s3 request rule c)
    (\<lambda>d. cd_status d = CORRELATED \<longleftrightarrow> s3_response request (ci_telemetry request))"
proof -
  obtain cyber where cyber: "ci_cyber_context request = Some cyber"
    using assms(2) by (auto simp: s3_admitted_def s3_parent_shape_verified_def split: option.splits)
  let ?ts = "ci_telemetry request" and ?a = "cy_command_observed_at cyber"
  let ?X = "s3_response request ?ts"
  obtain w where w: "select_window ?ts ?a 10 30 2 = Inr w"
    "ws_baseline w = before (?a - seconds 10) ?a ?ts" "ws_effect w = between ?a (?a + seconds 30) ?ts"
    "ws_finalized w \<longleftrightarrow> (\<exists>t \<in> set ?ts. ?a + seconds 30 \<le> te_observed_at t)"
    "ws_gap_reason w = None \<longleftrightarrow> steady (ws_baseline w) \<and> steady (ws_effect w)"
    "ws_gap_reason w \<in> {None, Some TELEMETRY_GAP_EXCEEDED}"
    by (rule evaluable_window [OF assms(3) assms(3) assms(3), of ?a 30])
  let ?v = "''control_valve_position_percent'' \<in> set (ci_available_point_ids request)"
  let ?f = "''pipeline_flow_rate_m3h'' \<in> set (ci_available_point_ids request)"
  let ?p = "''pipeline_pressure_bar'' \<in> set (ci_available_point_ids request)"
  have X: "?X \<longleftrightarrow> ws_finalized w \<and> \<not> (int (length (ws_baseline w)) < 8 \<or> int (length (ws_effect w)) < 24)
      \<and> ws_gap_reason w = None
      \<and> (?v \<longrightarrow> spread valve (ws_baseline w) \<le> f64_literal 0.5)
      \<and> (?f \<longrightarrow> spread flow (ws_baseline w) \<le> f64_literal 0.1)
      \<and> (?p \<longrightarrow> spread pressure (ws_baseline w) \<le> f64_literal 0.05)
      \<and> s3_matched (s3_values (ws_baseline w) ?v ?f ?p) s3_thresholds (ws_effect w)"
    unfolding s3_matched_blocks w(4,5) w(2,3)
    by (simp add: s3_response_def cyber Let_def window_complete_def s3_process_response_def conj_ac) auto
  have not_missing: "?X \<Longrightarrow> \<not> s3_missing_points ?v ?f ?p"
    unfolding X s3_matched_blocks s3_missing_points_def Let_def by (auto split: if_splits)
  have final: "ensures (s3_conclusion ?ts rule c ?a w (s3_values (ws_baseline w) ?v ?f ?p) obs)
      (\<lambda>d. cd_status d = CORRELATED \<longleftrightarrow> ?X)"
    if "?X \<longleftrightarrow> s3_matched (s3_values (ws_baseline w) ?v ?f ?p) s3_thresholds (ws_effect w)" for obs
    using s3_conclusion_status [of ?ts rule c ?a w "s3_values (ws_baseline w) ?v ?f ?p" obs]
    unfolding that s3_window(6) [OF assms(1)] .
  have decided: "ensures (rbind (s3_baseline_unstable (ws_baseline w) s3_thresholds ?v ?f ?p) (\<lambda>unstable.
       if unstable then reason_decision BASELINE_NOT_STABLE rule ?ts ctx
       else
       rbind (s3_terms (ws_baseline w) s3_thresholds ?v ?f ?p) (\<lambda>t.
       rbind (s3_valve_observations t (ws_effect w)) (\<lambda>valve_obs.
       rbind (s3_flow_observations t s3_thresholds (ws_effect w)) (\<lambda>flow_obs.
       rbind (s3_pressure_observations t s3_thresholds (ws_effect w)) (\<lambda>pressure_obs.
       rbind (s3_inventory_observations (ws_baseline w) (ws_effect w) rule) (\<lambda>inventory_obs.
       s3_conclusion ?ts rule c ?a w t
         (valve_obs @ flow_obs @ pressure_obs @ inventory_obs))))))))
      (\<lambda>d. cd_status d = CORRELATED \<longleftrightarrow> ?X)"
    if "ws_finalized w" "\<not> (int (length (ws_baseline w)) < 8 \<or> int (length (ws_effect w)) < 24)"
      "ws_gap_reason w = None" for ctx
  proof -
    have "ws_baseline w \<noteq> []" using that(2) by auto
    note s3_unstable [OF this] s3_terms_values [OF this]
    then show ?thesis
      unfolding rbind_simps
      by (simp only: rbind_simps) (intro ensures_if ensures_rbind reason_not_correlated final;
        use that in \<open>auto simp: X\<close>)
  qed
  show ?thesis
    unfolding evaluate_s3_def cyber option.case Let_def s3_window [OF assms(1)] w(1) rbind_simps
    by (intro ensures_if ensures_option reason_not_correlated decided)
      (use w(6) not_missing in \<open>auto simp: X\<close>)
qed

section \<open>Every S3 decision is well formed\<close>

lemma s3_explanation_allowed:
  "prohibit_overclaiming (''The CV-101 command event was followed by process observations consistent with ''
     @ ''the configured synthetic transfer-path rule; causation is not determined.'')"
  by code_simp

lemma s3_conclusion_good: "ensures (s3_conclusion ts rule c anchor w t obs) good_decision"
  unfolding s3_conclusion_def Let_def
  by (intro ensures_if reason_good_with)
    (auto simp: ensures_def new_decision_def good_decision_def s3_explanation_allowed [simplified] split: if_splits)

lemma s3_good: "ensures (evaluate_s3 request rule c) good_decision"
  unfolding evaluate_s3_def Let_def
  by (intro ensures_if ensures_option ensures_rbind reason_good s3_conclusion_good)

section \<open>S3 returns\<close>

lemma s3_values_fields:
  "s3_valve_required (s3_values baseline v f p) = 3" "th_flow_persistence_samples s3_thresholds = 5"
  "th_pressure_persistence_samples s3_thresholds = 5"
  "s3_has_valve (s3_values baseline v f p) = v" "s3_has_flow (s3_values baseline v f p) = f"
  "s3_has_pressure (s3_values baseline v f p) = p"
  "s3_valve_baseline (s3_values baseline v f p) = (if v then Some (mean valve baseline) else None)"
  "s3_flow_baseline (s3_values baseline v f p) = (if f then Some (mean flow baseline) else None)"
  "s3_pressure_baseline (s3_values baseline v f p) = (if p then Some (mean pressure baseline) else None)"
  by (simp_all add: s3_values_def s3_thresholds_def)

lemma s3_point_observations:
  assumes "effect \<noteq> []" "length effect \<le> 100"
  shows "\<exists>obs. s3_valve_observations (s3_values baseline v f p) effect = Inr obs \<and> observations_ok obs"
    "\<exists>obs. s3_flow_observations (s3_values baseline v f p) s3_thresholds effect = Inr obs \<and> observations_ok obs"
    "\<exists>obs. s3_pressure_observations (s3_values baseline v f p) s3_thresholds effect = Inr obs \<and> observations_ok obs"
proof -
  let ?t = "s3_values baseline v f p"
  have bound: "0 \<le> persistence_if h effect P" "persistence_if h effect P \<le> 100" for h P
    using persistence_if_bounds [of h effect P] assms(2) by linarith+
  have none: "\<exists>obs. Inr [] = (Inr obs :: CorrelationError + PointObservation list) \<and> observations_ok obs"
    by (simp add: observations_ok_def)
  have rep: "\<exists>x. representative_value effect accessor P k = Inr x" if "0 < k" for accessor P k
    using representative_value_returns [OF assms(1) that] .
  have one: "\<exists>obs. rbind m (\<lambda>observed. rbind (n observed) (\<lambda>q. Inr [q])) = Inr obs \<and> observations_ok obs"
    if m: "\<exists>x. m = Inr x" and n: "\<And>x. \<exists>q. n x = Inr q \<and> valid_observation q"
    for m :: "CorrelationError + f64" and n :: "f64 \<Rightarrow> CorrelationError + PointObservation"
  proof -
    obtain x where "m = Inr x" using m by blast
    moreover obtain q where "n x = Inr q" "valid_observation q" using n by blast
    ultimately show ?thesis by (simp add: observations_ok_def)
  qed
  have num: "\<exists>q. numeric_observation a b c' d e f' g h i (persistence_if h' effect P) k l = Inr q \<and> valid_observation q"
    if "snake_key a" "safe_key b" "text_within 40 e" "0 \<le> i" "i \<le> 100" for a b c' d e f' g h i h' P k l
    by (rule numeric_observation_returns [OF that bound])
  show "\<exists>obs. s3_valve_observations ?t effect = Inr obs \<and> observations_ok obs"
    by (cases v; simp only: s3_valve_observations_def s3_values_fields prod.case option.case bool.case if_True if_False)
      (intro one rep num observation_keys none; simp)+
  show "\<exists>obs. s3_flow_observations ?t s3_thresholds effect = Inr obs \<and> observations_ok obs"
    by (cases f; simp only: s3_flow_observations_def s3_values_fields prod.case option.case bool.case if_True if_False)
      (intro one rep num observation_keys none; simp)+
  show "\<exists>obs. s3_pressure_observations ?t s3_thresholds effect = Inr obs \<and> observations_ok obs"
    by (cases p; simp only: s3_pressure_observations_def s3_values_fields prod.case option.case bool.case if_True if_False)
      (intro one rep num observation_keys none; simp)+
qed

lemma s3_inventory_returns:
  assumes "s3_rule_ok rule" "length effect \<le> 100"
    "sorted_wrt (\<lambda>x y. te_observed_at x < te_observed_at y) baseline"
    "sorted_wrt (\<lambda>x y. te_observed_at x < te_observed_at y) effect"
  shows "\<exists>obs. s3_inventory_observations baseline effect rule = Inr obs \<and> observations_ok obs"
proof -
  have th: "th_inventory_rate_reduction_percentage_points_per_second (cru_thresholds rule)
      = Some (f64_literal 0.00002)"
    using s3_window(6) [OF assms(1)] by (simp add: s3_thresholds_def)
  have num: "\<exists>q. numeric_observation a b c d e f g h (int (length effect)) (int (length effect)) k l = Inr q
      \<and> valid_observation q"
    if "snake_key a" "safe_key b" "text_within 40 e" for a b c d e f g h k l
  proof -
    have "0 \<le> int (length effect)" "int (length effect) \<le> 100" using assms(2) by simp_all
    from numeric_observation_returns [OF that this this] show ?thesis .
  qed
  have two: "\<exists>obs. rbind m (\<lambda>q. rbind n (\<lambda>r. Inr [q, r])) = Inr obs \<and> observations_ok obs"
    if "\<exists>q. m = Inr q \<and> valid_observation q" "\<exists>r. n = Inr r \<and> valid_observation r"
    for m n :: "CorrelationError + PointObservation"
    using that by (auto simp: observations_ok_def)
  show ?thesis
  proof (cases "length baseline < 2 \<or> length effect < 2")
    case True
    then show ?thesis by (simp add: s3_inventory_observations_def th observations_ok_def)
  next
    case False
    then have "2 \<le> length baseline" "2 \<le> length effect" by simp_all
    note slopes = abs_slope_returns [OF assms(3) this(1)] abs_slope_returns [OF assms(4) this(2)]
    have "\<not> (length baseline < 2 \<or> length effect < 2)" by (fact False)
    then show ?thesis
      unfolding s3_inventory_observations_def th option.case if_not_P [OF False] slopes rbind_simps Let_def
      by (intro two num observation_keys)
  qed
qed

lemma s3_conclusion_returns:
  assumes "valid_correlation_rule rule" "context_ok (common_context anchor w c)" "observations_ok obs"
  shows "\<exists>d. s3_conclusion ts rule c anchor w t obs = Inr d"
proof -
  have with_obs: "\<exists>d. rbind (reason_decision r rule ts (common_context anchor w c))
      (\<lambda>d. Inr (d\<lparr>cd_observations := obs\<rparr>)) = Inr d" for r
    using reason_decision_returns [OF assms(1,2), of r ts] by auto
  have match: "\<exists>d. new_decision d' = Inr d" if "valid_decision d'" for d'
    using that by (simp add: new_decision_def)
  have "list_all snake_key (map po_point_id obs)"
    using assms(3) by (auto simp: observations_ok_def valid_observation_def list_all_iff)
  then show ?thesis
    unfolding s3_conclusion_def Let_def using assms(1,2)
    by (intro returns_if with_obs match)
      (simp add: valid_decision_def valid_correlation_rule_def context_ok_def common_context_def text_within_def)
qed

lemma s3_returns:
  assumes "s3_rule_ok rule" "s3_admitted request" "evaluable (ci_telemetry request)"
    "option_all is_sha256 (rc_configuration_hash c)"
  shows "\<exists>d. evaluate_s3 request rule c = Inr d"
proof -
  obtain cyber where cyber: "ci_cyber_context request = Some cyber"
    using assms(2) by (auto simp: s3_admitted_def s3_parent_shape_verified_def split: option.splits)
  let ?ts = "ci_telemetry request" and ?a = "cy_command_observed_at cyber"
  have valid: "valid_correlation_rule rule" using assms(1) by (simp add: s3_rule_ok_def)
  obtain w where w: "select_window ?ts ?a 10 30 2 = Inr w"
    "ws_baseline w = before (?a - seconds 10) ?a ?ts" "ws_effect w = between ?a (?a + seconds 30) ?ts"
    "option_all (\<lambda>g. 0 \<le> g) (ws_maximum_gap_seconds w)"
    by (rule evaluable_window [OF assms(3) assms(3) assms(3), of ?a 30])
  have ctx: "context_ok (common_context ?a w c)"
    using w(4) assms(4) by (simp add: context_ok_def common_context_def)
  note reason = reason_decision_returns [OF valid ctx]
  have short: "length (ws_effect w) \<le> 100"
    using evaluable_window_count [OF assms(3), of 30 ?a] by (simp add: w(3))
  have sorted: "sorted_wrt (\<lambda>x y. te_observed_at x < te_observed_at y) (ws_baseline w)"
      "sorted_wrt (\<lambda>x y. te_observed_at x < te_observed_at y) (ws_effect w)"
    using evaluable_chronological [OF assms(3)]
    by (simp_all add: w(2,3) before_def between_def sorted_wrt_filter)
  have tail: "\<exists>d. rbind (s3_terms (ws_baseline w) s3_thresholds v f p) (\<lambda>t.
       rbind (s3_valve_observations t (ws_effect w)) (\<lambda>valve_obs.
       rbind (s3_flow_observations t s3_thresholds (ws_effect w)) (\<lambda>flow_obs.
       rbind (s3_pressure_observations t s3_thresholds (ws_effect w)) (\<lambda>pressure_obs.
       rbind (s3_inventory_observations (ws_baseline w) (ws_effect w) rule) (\<lambda>inventory_obs.
       s3_conclusion ?ts rule c ?a w t
         (valve_obs @ flow_obs @ pressure_obs @ inventory_obs)))))) = Inr d"
    if ne: "ws_baseline w \<noteq> []" "ws_effect w \<noteq> []" for v f p
  proof -
    obtain o1 o2 o3 o4 where obs:
      "s3_valve_observations (s3_values (ws_baseline w) v f p) (ws_effect w) = Inr o1"
      "s3_flow_observations (s3_values (ws_baseline w) v f p) s3_thresholds (ws_effect w) = Inr o2"
      "s3_pressure_observations (s3_values (ws_baseline w) v f p) s3_thresholds (ws_effect w) = Inr o3"
      "s3_inventory_observations (ws_baseline w) (ws_effect w) rule = Inr o4"
      and ok: "observations_ok o1" "observations_ok o2" "observations_ok o3" "observations_ok o4"
      using s3_point_observations [OF ne(2) short] s3_inventory_returns [OF assms(1) short sorted] by metis
    from ok have "observations_ok (o1 @ o2 @ o3 @ o4)" by (auto simp: observations_ok_def)
    then show ?thesis
      unfolding s3_terms_values [OF ne(1)] rbind_simps obs by (rule s3_conclusion_returns [OF valid ctx])
  qed
  show ?thesis
    unfolding evaluate_s3_def cyber option.case Let_def s3_window [OF assms(1)] w(1) rbind_simps
  proof (intro returns_if returns_option reason)
    let ?v = "''control_valve_position_percent'' \<in> set (ci_available_point_ids request)"
    let ?f = "''pipeline_flow_rate_m3h'' \<in> set (ci_available_point_ids request)"
    let ?p = "''pipeline_pressure_bar'' \<in> set (ci_available_point_ids request)"
    assume "\<not> (int (length (ws_baseline w)) < 8 \<or> int (length (ws_effect w)) < 24)"
    then have ne: "ws_baseline w \<noteq> []" "ws_effect w \<noteq> []" by auto
    show "\<exists>d. rbind (s3_baseline_unstable (ws_baseline w) s3_thresholds ?v ?f ?p) (\<lambda>unstable.
       if unstable then reason_decision BASELINE_NOT_STABLE rule ?ts (common_context ?a w c)
       else
       rbind (s3_terms (ws_baseline w) s3_thresholds ?v ?f ?p) (\<lambda>t.
       rbind (s3_valve_observations t (ws_effect w)) (\<lambda>valve_obs.
       rbind (s3_flow_observations t s3_thresholds (ws_effect w)) (\<lambda>flow_obs.
       rbind (s3_pressure_observations t s3_thresholds (ws_effect w)) (\<lambda>pressure_obs.
       rbind (s3_inventory_observations (ws_baseline w) (ws_effect w) rule) (\<lambda>inventory_obs.
       s3_conclusion ?ts rule c ?a w t
         (valve_obs @ flow_obs @ pressure_obs @ inventory_obs))))))) = Inr d"
      unfolding s3_unstable [OF ne(1)] rbind_simps by (intro returns_if reason tail ne)
  qed
qed

interpretation s3_branch: correlation_branch evaluate_s3 s3_rule_ok s3_admitted s3_response
proof unfold_locales
  fix rule request c
  assume ok: "s3_rule_ok rule"
  then show "valid_correlation_rule rule" "(if cru_evaluator_branch rule = S3 then evaluate_s3 request rule c
      else evaluate_s4 request rule c) = evaluate_s3 request rule c"
    by (simp_all add: s3_rule_ok_def)
  show "s3_admitted request \<longleftrightarrow>
      \<not> (cru_evaluator_branch rule = S3 \<and> \<not> s3_parent_shape_verified request)
      \<and> \<not> (cru_evaluator_branch rule = S3 \<and> \<not> s3_asset_mapping_valid request)
      \<and> \<not> (cru_evaluator_branch rule = S4 \<and> ci_cyber_context request \<noteq> None)"
    using ok by (simp add: s3_rule_ok_def s3_admitted_def)
qed (erule (2) s3_decides | rule s3_good | erule (3) s3_returns)+

end
