(* ===== verification/Correlation_S4.thy ===== *)
theory Correlation_S4
  imports Correlation_S3
begin

text \<open>
  The S4 evaluator meets the contract of a rule evaluator: its anchor is the first sample whose flow
  falls while the pump runs, it never raises under the frozen thresholds, and it answers CORRELATED
  exactly when the specification of a running pump without flow holds.
\<close>

section \<open>The S4 rule\<close>

definition s4_points :: "string set" where
  "s4_points = {''transfer_pump_running'', ''pipeline_flow_rate_m3h'', ''pipeline_pressure_bar'',
     ''source_tank_level_percent'', ''receiving_tank_level_percent''}"

definition s4_rule_ok :: "CorrelationRule \<Rightarrow> bool" where
  "s4_rule_ok rule = (cru_evaluator_branch rule = S4 \<and> window_tuple rule = (10, 60, 8, 50)
     \<and> wc_maximum_gap_seconds (cru_window rule) = 2 \<and> cru_thresholds rule = s4_thresholds
     \<and> set (cru_point_ids rule) = s4_points \<and> valid_correlation_rule rule)"

definition s4_admitted :: "CorrelationEvaluationInput \<Rightarrow> bool" where
  "s4_admitted request = (ci_cyber_context request = None)"

definition s4_response :: "CorrelationEvaluationInput \<Rightarrow> TelemetryEvidence list \<Rightarrow> bool" where
  "s4_response request ts =
     (case find (flow_onset ts) ts of
        None \<Rightarrow> False
      | Some first \<Rightarrow>
          (let anchor = te_observed_at first; effect = between anchor (anchor + seconds 60) ts in
           s4_points \<subseteq> set (ci_available_point_ids request)
           \<and> window_complete ts anchor 60 50
           \<and> s4_process_response (before (anchor - seconds 10) anchor ts) effect
               (filter (\<lambda>t. anchor + seconds 40 \<le> te_observed_at t) effect)))"

lemma s4_window:
  assumes "s4_rule_ok rule"
  shows "wc_baseline_seconds (cru_window rule) = 10" "wc_effect_seconds (cru_window rule) = 60"
    "wc_minimum_baseline_samples (cru_window rule) = 8" "wc_minimum_effect_samples (cru_window rule) = 50"
    "wc_maximum_gap_seconds (cru_window rule) = 2" "cru_thresholds rule = s4_thresholds"
    "set (cru_point_ids rule) = s4_points"
  using assms by (auto simp: s4_rule_ok_def window_tuple_def)

section \<open>The anchor\<close>

lemma anchor_at_onset:
  assumes "s4_rule_ok rule"
  shows "anchor_at ts rule t = Inr (if flow_onset ts t then Some (te_observed_at t) else None)"
proof (cases "8 \<le> length (before (te_observed_at t - seconds 10) (te_observed_at t) ts)")
  case True
  then have "before (te_observed_at t - seconds 10) (te_observed_at t) ts \<noteq> []" by auto
  note range_exceeds_spread [OF this] arithmetic_mean_mean [OF this]
  with True show ?thesis
    by (auto simp: anchor_at_def Let_def flow_onset_def s4_window [OF assms] s4_thresholds_def
        s4_required_def list_all_iff simp flip: before_def)
next
  case False
  then show ?thesis
    by (auto simp: anchor_at_def Let_def flow_onset_def s4_window [OF assms] simp flip: before_def)
qed

lemma find_anchor_onset:
  assumes "s4_rule_ok rule"
  shows "find_anchor ts rule = Inr (map_option te_observed_at (find (flow_onset ts) ts))"
proof -
  have "find_anchor_from ts rule us = Inr (map_option te_observed_at (find (flow_onset ts) us))" for us
    by (induction us) (simp_all add: anchor_at_onset [OF assms])
  then show ?thesis by (simp add: find_anchor_def)
qed

section \<open>Measured values\<close>

definition s4_terminal :: "WindowSelection \<Rightarrow> TelemetryEvidence list" where
  "s4_terminal w = filter (\<lambda>t. te_observed_at t \<ge> ws_end w - seconds 20) (ws_effect w)"

definition s4_spans :: "TelemetryEvidence list \<Rightarrow> bool" where
  "s4_spans terminal = (2 \<le> length terminal
     \<and> 20 \<le> total_seconds (te_observed_at (last terminal) - te_observed_at (hd terminal)))"

definition s4_values :: "WindowSelection \<Rightarrow> S4Terms" where
  "s4_values w =
     (let terminal = s4_terminal w in
      \<lparr>s4_flow_baseline = mean flow (ws_baseline w), s4_pressure_baseline = mean pressure (ws_baseline w),
       s4_low_flow = f64_literal 0.1, s4_terminal_seconds = 20,
       s4_source_slope = (if s4_spans terminal then Some (slope source_level terminal) else None),
       s4_receiving_slope = (if s4_spans terminal then Some (slope receiving_level terminal) else None),
       s4_terminal_count = int (length terminal), s4_inventory_threshold = f64_literal 0.00001\<rparr>)"

lemma s4_terms_values:
  assumes "ws_baseline w \<noteq> []"
    "sorted_wrt (\<lambda>x y. te_observed_at x < te_observed_at y) (ws_effect w)"
  shows "s4_terms w s4_thresholds = Inr (s4_values w)"
proof -
  have trunc: "f64_trunc (f64_round 20) = 20" using f64_round_int [of 20] by (simp add: f64_trunc_def)
  have sorted: "sorted_wrt (\<lambda>x y. te_observed_at x < te_observed_at y) (s4_terminal w)"
    using assms(2) by (simp add: s4_terminal_def sorted_wrt_filter)
  have span: "(if (if 2 \<le> length (s4_terminal w)
        then total_seconds (te_observed_at (last (s4_terminal w)) - te_observed_at (hd (s4_terminal w))) else 0) \<ge> 20
      then rbind (abs_slope (s4_terminal w) accessor) (\<lambda>s. Inr (Some s)) else Inr None)
      = Inr (if s4_spans (s4_terminal w) then Some (slope accessor (s4_terminal w)) else None)" for accessor
    using abs_slope_returns [OF sorted] by (simp add: s4_spans_def)
  have th: "th_low_flow_threshold_m3h s4_thresholds = Some (f64_literal 0.1)"
      "th_terminal_inventory_seconds s4_thresholds = Some 20"
      "th_inventory_stagnation_percentage_points_per_second s4_thresholds = Some (f64_literal 0.00001)"
    by (simp_all add: s4_thresholds_def)
  show ?thesis
    unfolding s4_terms_def Let_def th s4_required_def float_option_def option.map option.case rbind_simps
      arithmetic_mean_mean [OF assms(1)] of_int_numeral trunc s4_terminal_def [symmetric] span
    by (simp add: s4_values_def Let_def)
qed

lemma s4_matched_blocks:
  "s4_matched (s4_values w) s4_thresholds (ws_effect w) \<longleftrightarrow>
     has_block pump_running 10 (ws_effect w)
     \<and> has_block (\<lambda>t. flow t \<le> f64_literal 0.1) 10 (ws_effect w)
     \<and> has_block (\<lambda>t. f64_add (mean pressure (ws_baseline w)) (f64_literal 0.5) \<le> pressure t) 10 (ws_effect w)
     \<and> s4_spans (s4_terminal w)
     \<and> slope source_level (s4_terminal w) \<le> f64_literal 0.00001
     \<and> slope receiving_level (s4_terminal w) \<le> f64_literal 0.00001
     \<and> \<bar>f64_sub (slope source_level (s4_terminal w)) (slope receiving_level (s4_terminal w))\<bar>
          \<le> f64_literal 0.000000001"
  by (auto simp: s4_matched_def s4_pump_match_def s4_flow_match_def s4_pressure_match_def
      s4_inventory_match_def s4_values_def s4_thresholds_def maximum_persistence_block Let_def
      low_flow_predicate_def [abs_def] high_pressure_predicate_def [abs_def])

lemma s4_unstable:
  assumes "baseline \<noteq> []"
  shows "s4_baseline_unstable baseline s4_thresholds =
    Inr (\<not> (spread flow baseline \<le> f64_literal 0.1 \<and> spread pressure baseline \<le> f64_literal 0.05
        \<and> (\<forall>x \<in> set baseline. pump_running x)))"
  using assms
  by (simp add: s4_baseline_unstable_def or_else_def range_exceeds_spread s4_thresholds_def list_all_iff)

section \<open>Every S4 decision is well formed\<close>

lemma s4_conclusion_status:
  "ensures (s4_conclusion ts rule c anchor w t obs)
    (\<lambda>d. cd_status d = CORRELATED \<longleftrightarrow> s4_matched t (cru_thresholds rule) (ws_effect w))"
  unfolding s4_conclusion_def
  by (intro ensures_if reason_not_correlated_with) (auto simp: ensures_def new_decision_def split: if_splits)

lemma s4_explanation_allowed:
  "prohibit_overclaiming
     (''P-101 remained observed as running while PL-101 flow was low, pressure increased, ''
      @ ''and tank movement stagnated inside one synthetic run; no cyber cause is asserted.'')"
  by code_simp

lemma s4_conclusion_good: "ensures (s4_conclusion ts rule c anchor w t obs) good_decision"
  unfolding s4_conclusion_def
  by (intro ensures_if reason_good_with)
    (auto simp: ensures_def new_decision_def good_decision_def s4_explanation_allowed [simplified] split: if_splits)

lemma s4_good: "ensures (evaluate_s4 request rule c) good_decision"
  unfolding evaluate_s4_def s4_without_anchor_def Let_def
  by (intro ensures_if ensures_option ensures_rbind reason_good s4_conclusion_good)

section \<open>The decision\<close>

lemma seconds_diff: "a + seconds 60 - seconds 20 = a + seconds 40"
  by (simp add: seconds_def)

lemma s4_decides:
  assumes "s4_rule_ok rule" "s4_admitted request" "evaluable (ci_telemetry request)"
  shows "ensures (evaluate_s4 request rule c)
    (\<lambda>d. cd_status d = CORRELATED \<longleftrightarrow> s4_response request (ci_telemetry request))"
proof -
  let ?ts = "ci_telemetry request"
  let ?X = "s4_response request ?ts"
  have canon: "canonical_telemetry ?ts = Inr ?ts" and ne: "?ts \<noteq> []" using assms(3) by (auto simp: evaluable_def)
  show ?thesis
  proof (cases "find (flow_onset ?ts) ?ts")
    case None
    then have "\<not> ?X" by (simp add: s4_response_def)
    then show ?thesis
      unfolding evaluate_s4_def canon rbind_simps if_not_P [OF ne] find_anchor_onset [OF assms(1)] None
        option.map option.case s4_without_anchor_def Let_def
      by (intro reason_not_correlated) simp_all
  next
    case (Some first)
    let ?a = "te_observed_at first"
    obtain w where w: "select_window ?ts ?a 10 60 2 = Inr w"
      "ws_baseline w = before (?a - seconds 10) ?a ?ts" "ws_effect w = between ?a (?a + seconds 60) ?ts"
      "ws_end w = ?a + seconds 60"
      "ws_finalized w \<longleftrightarrow> (\<exists>t \<in> set ?ts. ?a + seconds 60 \<le> te_observed_at t)"
      "ws_gap_reason w = None \<longleftrightarrow> steady (ws_baseline w) \<and> steady (ws_effect w)"
      "ws_gap_reason w \<in> {None, Some TELEMETRY_GAP_EXCEEDED}"
      by (rule evaluable_window [OF assms(3) assms(3) assms(3), of ?a 60])
    have sorted: "sorted_wrt (\<lambda>x y. te_observed_at x < te_observed_at y) (ws_effect w)"
      using evaluable_chronological [OF assms(3)] by (simp add: w(3) between_def sorted_wrt_filter)
    have X: "?X \<longleftrightarrow> ws_finalized w \<and> s4_points \<subseteq> set (ci_available_point_ids request)
        \<and> \<not> (int (length (ws_baseline w)) < 8 \<or> int (length (ws_effect w)) < 50) \<and> ws_gap_reason w = None
        \<and> (spread flow (ws_baseline w) \<le> f64_literal 0.1 \<and> spread pressure (ws_baseline w) \<le> f64_literal 0.05
          \<and> (\<forall>x \<in> set (ws_baseline w). pump_running x))
        \<and> s4_matched (s4_values w) s4_thresholds (ws_effect w)"
      unfolding s4_matched_blocks
      unfolding s4_terminal_def s4_spans_def w(4) seconds_diff w(5,6) w(2,3)
      by (simp add: s4_response_def Some Let_def window_complete_def s4_process_response_def) auto
    have final: "ensures (s4_conclusion ?ts rule c ?a w (s4_values w) obs) (\<lambda>d. cd_status d = CORRELATED \<longleftrightarrow> ?X)"
      if "?X \<longleftrightarrow> s4_matched (s4_values w) s4_thresholds (ws_effect w)" for obs
      using s4_conclusion_status [of ?ts rule c ?a w "s4_values w" obs]
      unfolding that s4_window(6) [OF assms(1)] .
    have decided: "ensures (rbind (s4_baseline_unstable (ws_baseline w) s4_thresholds) (\<lambda>unstable.
         if unstable then reason_decision BASELINE_NOT_STABLE rule ?ts ctx
         else
         rbind (s4_terms w s4_thresholds) (\<lambda>t.
         rbind (s4_observations t s4_thresholds (ws_effect w)) (\<lambda>observations.
         s4_conclusion ?ts rule c ?a w t observations))))
        (\<lambda>d. cd_status d = CORRELATED \<longleftrightarrow> ?X)"
      if "ws_finalized w" "s4_points \<subseteq> set (ci_available_point_ids request)"
        "\<not> (int (length (ws_baseline w)) < 8 \<or> int (length (ws_effect w)) < 50)"
        "ws_gap_reason w = None" for ctx
    proof -
      have "ws_baseline w \<noteq> []" using that(3) by auto
      note s4_unstable [OF this] s4_terms_values [OF this sorted]
      then show ?thesis
        by (simp only: rbind_simps) (intro ensures_if ensures_rbind reason_not_correlated final;
          use that in \<open>auto simp: X\<close>)
    qed
    show ?thesis
      unfolding evaluate_s4_def canon rbind_simps if_not_P [OF ne] find_anchor_onset [OF assms(1)] Some
        option.map option.case Let_def s4_window [OF assms(1)] w(1)
      by (intro ensures_if ensures_option reason_not_correlated decided)
        (use w(7) in \<open>auto simp: X\<close>)
  qed
qed

section \<open>S4 returns\<close>

lemma new_observation_returns: "valid_observation p \<Longrightarrow> \<exists>q. new_observation p = Inr q \<and> valid_observation q"
  by (simp add: new_observation_def)

lemma s4_observations_return:
  assumes "effect \<noteq> []" "length effect \<le> 100" "0 \<le> s4_terminal_count t" "s4_terminal_count t \<le> 100"
  shows "\<exists>obs. s4_observations t s4_thresholds effect = Inr obs \<and> observations_ok obs"
proof -
  have bound: "0 \<le> maximum_persistence effect P" "maximum_persistence effect P \<le> 100" for P
    using maximum_persistence_bounds [where xs = effect and P = P] assms(2) by linarith+
  have th: "th_flow_persistence_samples s4_thresholds = 10" "th_pressure_persistence_samples s4_thresholds = 10"
    by (simp_all add: s4_thresholds_def)
  have ten: "(0::int) < 10" "(0::int) \<le> 10" "(10::int) \<le> 100" by simp_all
  obtain x y where xy: "representative_value effect flow (low_flow_predicate t) 10 = Inr x"
      "representative_value effect pressure (high_pressure_predicate t s4_thresholds) 10 = Inr y"
    using representative_value_returns [OF assms(1) ten(1)] by metis
  have inventory: "\<exists>q. inventory_observation a b s h m (s4_terminal_count t) = Inr q \<and> valid_observation q"
    if "snake_key a" "safe_key b" for a b s h m
    unfolding inventory_observation_def
    using that assms(3,4) observation_keys(15) by (intro new_observation_returns) (simp add: valid_observation_def)
  have five: "\<exists>obs. rbind m1 (\<lambda>a. rbind m2 (\<lambda>b. rbind m3 (\<lambda>c. rbind m4 (\<lambda>d. rbind m5 (\<lambda>e.
      Inr [a, b, c, d, e]))))) = Inr obs \<and> observations_ok obs"
    if "\<exists>q. m1 = Inr q \<and> valid_observation q" "\<exists>q. m2 = Inr q \<and> valid_observation q"
      "\<exists>q. m3 = Inr q \<and> valid_observation q" "\<exists>q. m4 = Inr q \<and> valid_observation q"
      "\<exists>q. m5 = Inr q \<and> valid_observation q"
    for m1 m2 m3 m4 m5 :: "CorrelationError + PointObservation"
    using that by (auto simp: observations_ok_def)
  have pump: "\<exists>q. new_observation \<lparr>po_point_id = ''transfer_pump_running'', po_asset_key = ''P-101'',
      po_baseline_value = b, po_observed_value = v, po_delta = None, po_unit = ''boolean'',
      po_expected_direction = e, po_observed_direction = d, po_threshold = None, po_persistence_required = 10,
      po_persistence_observed = maximum_persistence effect P, po_role = r, po_condition_met = m\<rparr> = Inr q
      \<and> valid_observation q" for b v e d P r m
    using bound observation_keys(6,11,16) by (intro new_observation_returns) (simp add: valid_observation_def)
  show ?thesis
    unfolding s4_observations_def Let_def th xy rbind_simps
    by (intro five pump inventory numeric_observation_returns observation_keys bound ten)
qed

lemma s4_conclusion_returns:
  assumes "valid_correlation_rule rule" "context_ok (common_context anchor w c)" "observations_ok obs"
  shows "\<exists>d. s4_conclusion ts rule c anchor w t obs = Inr d"
proof -
  have with_obs: "\<exists>d. rbind (reason_decision r rule ts (common_context anchor w c))
      (\<lambda>d. Inr (d\<lparr>cd_observations := obs\<rparr>)) = Inr d" for r
    using reason_decision_returns [OF assms(1,2), of r ts] by auto
  have match: "\<exists>d. new_decision d' = Inr d" if "valid_decision d'" for d'
    using that by (simp add: new_decision_def)
  have "list_all snake_key (map po_point_id obs)"
    using assms(3) by (auto simp: observations_ok_def valid_observation_def list_all_iff)
  then show ?thesis
    unfolding s4_conclusion_def using assms(1,2)
    by (intro returns_if with_obs match)
      (simp add: valid_decision_def valid_correlation_rule_def context_ok_def common_context_def text_within_def)
qed

lemma s4_returns:
  assumes "s4_rule_ok rule" "s4_admitted request" "evaluable (ci_telemetry request)"
    "option_all is_sha256 (rc_configuration_hash c)"
  shows "\<exists>d. evaluate_s4 request rule c = Inr d"
proof -
  let ?ts = "ci_telemetry request"
  have canon: "canonical_telemetry ?ts = Inr ?ts" and ne: "?ts \<noteq> []" using assms(3) by (auto simp: evaluable_def)
  have valid: "valid_correlation_rule rule" using assms(1) by (simp add: s4_rule_ok_def)
  show ?thesis
  proof (cases "find (flow_onset ?ts) ?ts")
    case None
    have "context_ok (run_context None c)"
      using assms(4) by (simp add: context_ok_def run_context_def no_context_def)
    from reason_decision_returns [OF valid this] None show ?thesis
      unfolding evaluate_s4_def canon rbind_simps if_not_P [OF ne] find_anchor_onset [OF assms(1)]
        s4_without_anchor_def Let_def by simp
  next
    case (Some first)
    let ?a = "te_observed_at first"
    obtain w where w: "select_window ?ts ?a 10 60 2 = Inr w"
      "ws_baseline w = before (?a - seconds 10) ?a ?ts" "ws_effect w = between ?a (?a + seconds 60) ?ts"
      "option_all (\<lambda>g. 0 \<le> g) (ws_maximum_gap_seconds w)"
      by (rule evaluable_window [OF assms(3) assms(3) assms(3), of ?a 60])
    have ctx: "context_ok (common_context ?a w c)"
      using w(4) assms(4) by (simp add: context_ok_def common_context_def)
    note reason = reason_decision_returns [OF valid ctx]
    have short: "length (ws_effect w) \<le> 100"
      using evaluable_window_count [OF assms(3), of 60 ?a] by (simp add: w(3))
    have sorted: "sorted_wrt (\<lambda>x y. te_observed_at x < te_observed_at y) (ws_effect w)"
      using evaluable_chronological [OF assms(3)] by (simp add: w(3) between_def sorted_wrt_filter)
    have count: "0 \<le> s4_terminal_count (s4_values w)" "s4_terminal_count (s4_values w) \<le> 100"
      using le_trans [OF length_filter_le short] by (simp_all add: s4_values_def s4_terminal_def Let_def)
    have tail: "\<exists>d. rbind (s4_baseline_unstable (ws_baseline w) s4_thresholds) (\<lambda>unstable.
         if unstable then reason_decision BASELINE_NOT_STABLE rule ?ts (common_context ?a w c)
         else
         rbind (s4_terms w s4_thresholds) (\<lambda>t.
         rbind (s4_observations t s4_thresholds (ws_effect w)) (\<lambda>observations.
         s4_conclusion ?ts rule c ?a w t observations))) = Inr d"
      if n: "\<not> (int (length (ws_baseline w)) < 8 \<or> int (length (ws_effect w)) < 50)"
    proof -
      have nonempty: "ws_baseline w \<noteq> []" "ws_effect w \<noteq> []" using n by auto
      obtain obs where obs: "s4_observations (s4_values w) s4_thresholds (ws_effect w) = Inr obs" "observations_ok obs"
        using s4_observations_return [OF nonempty(2) short count] by blast
      show ?thesis
        unfolding s4_unstable [OF nonempty(1)] s4_terms_values [OF nonempty(1) sorted] rbind_simps obs(1)
        by (intro returns_if reason s4_conclusion_returns [OF valid ctx obs(2)])
    qed
    show ?thesis
      unfolding evaluate_s4_def canon rbind_simps if_not_P [OF ne] find_anchor_onset [OF assms(1)] Some
        option.map option.case Let_def s4_window [OF assms(1)] w(1)
      by (intro returns_if returns_option reason tail)
  qed
qed

interpretation s4_branch: correlation_branch evaluate_s4 s4_rule_ok s4_admitted s4_response
proof unfold_locales
  fix rule request c
  assume ok: "s4_rule_ok rule"
  then show "valid_correlation_rule rule" "(if cru_evaluator_branch rule = S3 then evaluate_s3 request rule c
      else evaluate_s4 request rule c) = evaluate_s4 request rule c"
    by (simp_all add: s4_rule_ok_def)
  show "s4_admitted request \<longleftrightarrow>
      \<not> (cru_evaluator_branch rule = S3 \<and> \<not> s3_parent_shape_verified request)
      \<and> \<not> (cru_evaluator_branch rule = S3 \<and> \<not> s3_asset_mapping_valid request)
      \<and> \<not> (cru_evaluator_branch rule = S4 \<and> ci_cyber_context request \<noteq> None)"
    using ok by (simp add: s4_rule_ok_def s4_admitted_def)
qed (erule (2) s4_decides | rule s4_good | erule (3) s4_returns)+

end
