(* ===== verification/Correlation_Guarantees.thy ===== *)
theory Correlation_Guarantees
  imports Correlation_S4
begin

text \<open>
  What the correlation as a whole promises: when it answers CORRELATED, when it raises, that its answer
  does not depend on the order of the telemetry, and what its findings claim and refer to.
\<close>

section \<open>Parents\<close>

interpretation parent_list: canonical_list pr_evidence_id parent_order
  "ValueError ''one evidence ID has conflicting parent-reference content''" canonical_parent_references
  by unfold_locales (auto simp: canonical_parent_references_def canonical_of_def parent_order_def)

lemma is_sha256_hex: "is_sha256 (sha256_hex m)"
  using sha256_hex_shape [of m] by (simp add: is_sha256_def hex_char_def ascii_range_def Let_def)

lemma version_constants:
  "sem_ver CORRELATION_PROFILE_VERSION" "sem_ver CORRELATION_EVALUATOR_VERSION"
  by code_simp+

lemma request_parents_telemetry: "set (map parent_reference (ci_telemetry request)) \<subseteq> set (request_parents request)"
  by (auto simp: request_parents_def)

lemma request_parents_ordered:
  "set ts = set (ci_telemetry request) \<Longrightarrow>
   set (request_parents (request\<lparr>ci_telemetry := ts\<rparr>)) = set (request_parents request)"
  by (auto simp: request_parents_def)

section \<open>Building the finding\<close>

definition crosses_boundary :: "CorrelationEvaluationInput \<Rightarrow> bool" where
  "crosses_boundary request = (ci_rule_id request = S4_RULE_ID \<and> ci_cyber_context request \<noteq> None)"

lemma finding_fields_valid:
  assumes "valid_evaluation_input request" "validate_correlation_profile (lcp_profile loaded) = Inr ()"
    "is_sha256 (lcp_sha256 loaded)" "good_decision d" "is_sha256 digest"
  shows "valid_finding_fields (correlation_finding request d loaded cid digest tps)"
proof -
  have d: "option_all is_sha256 (cd_configuration_hash d)" "0 \<le> cd_baseline_sample_count d"
      "0 \<le> cd_effect_sample_count d" "option_all (\<lambda>g. 0 \<le> g) (cd_maximum_gap_seconds d)"
      "list_all snake_key (cd_affected_process_points d)" "text_within 80 (cd_statement_template_id d)"
      "text_within 600 (cd_explanation d)"
    using assms(4) by (simp_all add: good_decision_def valid_decision_def)
  have t: "text_within 48 (cd_temporal_relation d)"
    using assms(4) by (auto simp: good_decision_def valid_decision_def text_within_def)
  have p: "cpr_profile_id (lcp_profile loaded) = CORRELATION_PROFILE_ID"
      "sem_ver (cpr_profile_version (lcp_profile loaded))"
    using contract_header [OF assms(2)] version_constants by simp_all
  have r: "text_within 80 (ci_rule_id request)" "sem_ver (ci_rule_version request)"
    using assms(1) by (simp_all add: valid_evaluation_input_def)
  have cyber: "valid_cyber_context c" if "ci_cyber_context request = Some c" for c
    using assms(1) that by (simp add: valid_evaluation_input_def)
  show ?thesis
  proof (cases "ci_cyber_context request")
    case None
    then show ?thesis
      using d t p r assms(3,5) version_constants
      by (simp add: valid_finding_fields_def correlation_finding_def Let_def valid_policy_context_status_def)
  next
    case (Some c)
    from cyber [OF this] have "is_sha256 (pr_integrity_sha256 (cy_raw_parent c))"
        "is_sha256 (pr_integrity_sha256 (cy_semantic_parent c))"
        "is_sha256 (pr_integrity_sha256 (cy_asset_context_parent c))"
        "option_all is_sha256 (map_option pr_integrity_sha256 (cy_policy_parent c))"
        "valid_policy_context_status (cy_policy_context_status c)"
      by (auto simp: valid_cyber_context_def valid_parent_reference_def split: option.splits)
    with Some show ?thesis
      using d t p r assms(3,5) version_constants
      by (simp add: valid_finding_fields_def correlation_finding_def Let_def)
  qed
qed

lemma provenance_valid:
  assumes "valid_evaluation_input request" "validate_correlation_profile (lcp_profile loaded) = Inr ()"
    "is_sha256 (lcp_sha256 loaded)" "good_decision d" "is_sha256 digest"
  shows "valid_correlation_provenance (correlation_provenance request d loaded digest ps)"
proof -
  have "option_all is_sha256 (cd_configuration_hash d)"
    using assms(4) by (simp add: good_decision_def valid_decision_def)
  moreover have "sem_ver (ci_rule_version request)" using assms(1) by (simp add: valid_evaluation_input_def)
  ultimately show ?thesis
    using contract_header [OF assms(2)] version_constants assms(3,5)
    by (simp add: valid_correlation_provenance_def correlation_provenance_def Let_def valid_dependencies_def)
qed

lemma boundary_of_finding:
  "validate_cyber_boundary (correlation_finding request d loaded cid digest tps) \<longleftrightarrow> \<not> crosses_boundary request"
  by (cases "ci_cyber_context request")
    (auto simp: validate_cyber_boundary_def correlation_finding_def crosses_boundary_def S4_RULE_ID_def Let_def)

lemma explanation_of_finding:
  "cf_analyst_readable_explanation (correlation_finding request d loaded cid digest tps) = cd_explanation d"
  by (simp add: correlation_finding_def Let_def)

text \<open>What a built finding consists of.\<close>

lemma build_Inr:
  assumes "build_correlation_finding isoformat request d loaded = Inr b"
  obtains parents tps digest where
    "canonical_parent_references (request_parents request) = Inr parents"
    "canonical_parent_references (map parent_reference (ci_telemetry request)) = Inr tps"
    "digest = sha256_hex (utf8 (json_dumps (JList (map (parent_json isoformat) parents))))"
    "bf_finding b = correlation_finding request d loaded
       (deterministic_evidence_id_from_fields CORRELATION_SOURCE_ID (bf_source_event_id b)
         CORRELATION_EVIDENCE_TYPE CORRELATION_FINDING_SCHEMA_VERSION) digest tps"
    "bf_provenance b = correlation_provenance request d loaded digest parents"
    "\<not> crosses_boundary request"
proof -
  obtain parents where parents: "canonical_parent_references (request_parents request) = Inr parents"
    using assms by (auto simp: build_correlation_finding_def rbind_eq_Inr)
  note idem = parent_list.canonical_idem [OF parents]
  show ?thesis
    using assms unfolding build_correlation_finding_def parents rbind_simps parent_set_sha256_def idem Let_def
    by (auto simp: rbind_eq_Inr new_finding_def new_provenance_def boundary_of_finding
        split: if_splits intro!: that [OF parents])
qed

lemma build_returns:
  assumes "valid_evaluation_input request" "validate_correlation_profile (lcp_profile loaded) = Inr ()"
    "is_sha256 (lcp_sha256 loaded)" "good_decision d"
  shows "(\<exists>b. build_correlation_finding isoformat request d loaded = Inr b) \<longleftrightarrow>
    inj_on pr_evidence_id (set (request_parents request)) \<and> \<not> crosses_boundary request"
proof
  assume "\<exists>b. build_correlation_finding isoformat request d loaded = Inr b"
  then show "inj_on pr_evidence_id (set (request_parents request)) \<and> \<not> crosses_boundary request"
    by (auto elim!: build_Inr dest: parent_list.canonical_InrD(1))
next
  assume ok: "inj_on pr_evidence_id (set (request_parents request)) \<and> \<not> crosses_boundary request"
  then obtain parents where parents: "canonical_parent_references (request_parents request) = Inr parents"
    using parent_list.canonical_returns by blast
  note idem = parent_list.canonical_idem [OF parents]
  have "inj_on pr_evidence_id (set (map parent_reference (ci_telemetry request)))"
    using ok request_parents_telemetry inj_on_subset by blast
  then obtain tps where tps: "canonical_parent_references (map parent_reference (ci_telemetry request)) = Inr tps"
    using parent_list.canonical_returns by blast
  have "prohibit_overclaiming (cd_explanation d)" using assms(4) by (simp add: good_decision_def)
  note valid = finding_fields_valid [OF assms is_sha256_hex] provenance_valid [OF assms is_sha256_hex] this
  show "\<exists>b. build_correlation_finding isoformat request d loaded = Inr b"
    unfolding build_correlation_finding_def parents rbind_simps parent_set_sha256_def idem Let_def tps
      new_finding_def new_provenance_def boundary_of_finding explanation_of_finding
    using ok valid by simp
qed

section \<open>The decision for any request\<close>

lemma approved_branches:
  assumes "approved_rules p s3 s4"
  shows "s3_rule_ok s3" "s4_rule_ok s4"
proof -
  note facts = assms [unfolded approved_rules_def]
  show "s3_rule_ok s3" using facts by (simp add: s3_rule_ok_def)
  show "s4_rule_ok s4" using facts by (simp add: s4_rule_ok_def s4_points_def)
qed

lemma approved_members:
  assumes "approved_rules p s3 s4"
  shows "\<forall>r \<in> set (cpr_rules p). valid_correlation_rule r" "cpr_rules p \<noteq> []"
proof -
  have "cpr_rules p = [s3, s4] \<or> cpr_rules p = [s4, s3]" "valid_correlation_rule s3" "valid_correlation_rule s4"
    using assms unfolding approved_rules_def by blast+
  then show "\<forall>r \<in> set (cpr_rules p). valid_correlation_rule r" "cpr_rules p \<noteq> []" by auto
qed

lemma decision_total:
  assumes "validate_correlation_profile (lcp_profile loaded) = Inr ()"
    "canonical_telemetry (ci_telemetry request) = Inr (ci_telemetry request)"
    "\<forall>t \<in> set (ci_telemetry request). valid_telemetry t"
  obtains d where "correlation_decision request loaded = Inr d" "good_decision d"
proof -
  obtain s3 s4 where ap: "approved_rules (lcp_profile loaded) s3 s4" using contract_rules [OF assms(1)] .
  note lookup = approved_lookup [OF ap, of "ci_rule_id request"]
  note ok = approved_branches [OF ap] and members = approved_members [OF ap]
  consider "ci_rule_id request = S3_RULE_ID" | "ci_rule_id request = S4_RULE_ID"
    | "rules loaded (ci_rule_id request) = None"
    using lookup by (auto split: if_splits)
  then show ?thesis
  proof cases
    case 1
    then have r: "rules loaded (ci_rule_id request) = Some s3" using lookup by simp
    show ?thesis
      using s3_branch.decision_returns [OF r ok(1) assms(2,3) members]
        ensuresD [OF s3_branch.decision_good [OF r ok(1)]] that by blast
  next
    case 2
    then have r: "rules loaded (ci_rule_id request) = Some s4" using lookup rule_ids_distinct by auto
    show ?thesis
      using s4_branch.decision_returns [OF r ok(2) assms(2,3) members]
        ensuresD [OF s4_branch.decision_good [OF r ok(2)]] that by blast
  next
    case 3
    have fallback: "\<exists>d. reason_decision r (hd (cpr_rules (lcp_profile loaded))) ts (no_context\<lparr>dc_anchor := a\<rparr>) = Inr d"
      for r ts a
      by (rule reason_decision_returns) (use members in \<open>simp_all add: context_ok_def no_context_def\<close>)
    have "\<exists>d. correlation_decision request loaded = Inr d"
      unfolding correlation_decision_def Let_def 3 option.case by (intro returns_if fallback)
    moreover have "ensures (correlation_decision request loaded) good_decision"
      unfolding correlation_decision_def Let_def 3 option.case by (intro ensures_if reason_good)
    ultimately obtain d where "correlation_decision request loaded = Inr d" "good_decision d"
      by (auto simp: ensures_def)
    then show ?thesis by (rule that)
  qed
qed

lemma evaluate_Inr:
  assumes "evaluate_correlation isoformat request loaded = Inr b"
  obtains ts d where "canonical_telemetry (ci_telemetry request) = Inr ts"
    "correlation_decision (request\<lparr>ci_telemetry := ts\<rparr>) loaded = Inr d"
    "build_correlation_finding isoformat (request\<lparr>ci_telemetry := ts\<rparr>) d loaded = Inr b"
    "cf_correlation_status (bf_finding b) = cd_status d"
proof -
  from assms obtain ts d where ev: "canonical_telemetry (ci_telemetry request) = Inr ts"
    "correlation_decision (request\<lparr>ci_telemetry := ts\<rparr>) loaded = Inr d"
    "build_correlation_finding isoformat (request\<lparr>ci_telemetry := ts\<rparr>) d loaded = Inr b"
    by (auto simp: evaluate_correlation_def rbind_eq_Inr Let_def)
  moreover have "cf_correlation_status (bf_finding b) = cd_status d"
    using ev(3) by (auto elim!: build_Inr simp: correlation_finding_def Let_def)
  ultimately show ?thesis by (rule that)
qed

lemma ordered_telemetry:
  assumes "canonical_telemetry (ci_telemetry request) = Inr ts" "valid_evaluation_input request"
  shows "canonical_telemetry ts = Inr ts" "set ts = set (ci_telemetry request)"
    "\<forall>t \<in> set ts. valid_telemetry t" "valid_evaluation_input (request\<lparr>ci_telemetry := ts\<rparr>)"
proof -
  show "canonical_telemetry ts = Inr ts" by (rule telemetry_list.canonical_idem [OF assms(1)])
  show s: "set ts = set (ci_telemetry request)" by (rule telemetry_list.canonical_InrD(2) [OF assms(1)])
  then show "\<forall>t \<in> set ts. valid_telemetry t"
    using assms(2) by (simp add: valid_evaluation_input_def list_all_iff)
  then show "valid_evaluation_input (request\<lparr>ci_telemetry := ts\<rparr>)"
    using assms(2) by (simp add: valid_evaluation_input_def validate_unique_points_def list_all_iff)
qed

lemma one_run_set: "set ts = set us \<Longrightarrow> one_run ts = one_run us"
  by (simp add: one_run_def)

text \<open>Replacing the telemetry of a request changes nothing else.\<close>

lemma telemetry_update:
  "profile_requested (request\<lparr>ci_telemetry := ts\<rparr>) loaded = profile_requested request loaded"
  "s3_admitted (request\<lparr>ci_telemetry := ts\<rparr>) = s3_admitted request"
  "s3_response (request\<lparr>ci_telemetry := ts\<rparr>) us = s3_response request us"
  "s4_admitted (request\<lparr>ci_telemetry := ts\<rparr>) = s4_admitted request"
  "s4_response (request\<lparr>ci_telemetry := ts\<rparr>) us = s4_response request us"
  by (simp_all add: profile_requested_def s3_admitted_def s3_parent_shape_verified_def
      s3_asset_mapping_valid_def s3_response_def s4_admitted_def s4_response_def Let_def split: option.split)

text \<open>The canonical order of one run is its chronological order.\<close>

lemma canonical_is_chronological:
  assumes "canonical_telemetry xs = Inr ts"
  shows "one_run ts \<Longrightarrow> chronological xs ts" "chronological xs us \<Longrightarrow> one_run us \<Longrightarrow> us = ts \<and> one_run ts"
proof -
  show chron: "chronological xs ts" if "one_run ts"
    using that canonical_chronological [OF assms] by (simp add: one_run_def)
  assume us: "chronological xs us" "one_run us"
  then have "set us = set ts" using telemetry_list.canonical_InrD(2) [OF assms] by (simp add: chronological_def)
  with us(2) have "one_run ts" using one_run_set by blast
  with chron us(1) show "us = ts \<and> one_run ts" using chronological_unique by blast
qed

lemma evaluation_returns:
  assumes "validate_correlation_profile (lcp_profile loaded) = Inr ()" "is_sha256 (lcp_sha256 loaded)"
    "valid_evaluation_input request"
  shows "(\<exists>b. evaluate_correlation isoformat request loaded = Inr b) \<longleftrightarrow>
    inj_on te_evidence_id (set (ci_telemetry request))
    \<and> inj_on pr_evidence_id (set (request_parents request)) \<and> \<not> crosses_boundary request"
proof (cases "canonical_telemetry (ci_telemetry request)")
  case (Inl e)
  then have "\<not> inj_on te_evidence_id (set (ci_telemetry request))"
    using telemetry_list.canonical_refuses by blast
  with Inl show ?thesis by (simp add: evaluate_correlation_def)
next
  case (Inr ts)
  note ord = ordered_telemetry [OF Inr assms(3)]
  obtain d where d: "correlation_decision (request\<lparr>ci_telemetry := ts\<rparr>) loaded = Inr d" "good_decision d"
    using decision_total [OF assms(1), of "request\<lparr>ci_telemetry := ts\<rparr>"] ord by auto
  have "(\<exists>b. evaluate_correlation isoformat request loaded = Inr b) \<longleftrightarrow>
      (\<exists>b. build_correlation_finding isoformat (request\<lparr>ci_telemetry := ts\<rparr>) d loaded = Inr b)"
    by (simp add: evaluate_correlation_def Inr d)
  also have "\<dots> \<longleftrightarrow> inj_on pr_evidence_id (set (request_parents (request\<lparr>ci_telemetry := ts\<rparr>)))
      \<and> \<not> crosses_boundary (request\<lparr>ci_telemetry := ts\<rparr>)"
    by (rule build_returns [OF ord(4) assms(1,2) d(2)])
  also have "\<dots> \<longleftrightarrow> inj_on pr_evidence_id (set (request_parents request)) \<and> \<not> crosses_boundary request"
    by (simp add: request_parents_ordered [OF ord(2)] crosses_boundary_def)
  finally show ?thesis using telemetry_list.canonical_InrD(1) [OF Inr] by simp
qed

section \<open>Guarantees\<close>

text \<open>
  C31. For the S3 rule of a validated profile, an evaluation that returns answers CORRELATED exactly
  when the profile and the rule version are the requested ones and the specification of S3 holds:
  the parents have the required types, the command is the approved one on CV-101, the telemetry is
  of one run, it covers the ten seconds before and the thirty seconds after the command without
  gaps, the baseline is stable, and the valve position (when available) together with the flow or
  the pressure stay at the expected values for the required number of consecutive samples.
\<close>

theorem s3_correlated_iff:
  assumes "validate_correlation_profile (lcp_profile loaded) = Inr ()" "valid_evaluation_input request"
    "ci_rule_id request = S3_RULE_ID" "evaluate_correlation isoformat request loaded = Inr b"
  shows "cf_correlation_status (bf_finding b) = CORRELATED \<longleftrightarrow>
    profile_requested request loaded \<and> s3_correlated request"
proof -
  obtain s3 s4 where ap: "approved_rules (lcp_profile loaded) s3 s4" using contract_rules [OF assms(1)] .
  have points: "set (cru_point_ids s3) = {''control_valve_position_percent'', ''pipeline_flow_rate_m3h'',
      ''pipeline_pressure_bar'', ''source_tank_level_percent'', ''receiving_tank_level_percent''}"
    using ap by (simp only: approved_rules_def)
  obtain ts d where ev: "canonical_telemetry (ci_telemetry request) = Inr ts"
    "correlation_decision (request\<lparr>ci_telemetry := ts\<rparr>) loaded = Inr d"
    "cf_correlation_status (bf_finding b) = cd_status d"
    by (rule evaluate_Inr [OF assms(4)])
  note ord = ordered_telemetry [OF ev(1) assms(2)] and chron = canonical_is_chronological [OF ev(1)]
  have r: "rules loaded (ci_rule_id (request\<lparr>ci_telemetry := ts\<rparr>)) = Some s3"
    using approved_lookup [OF ap] assms(3) by simp
  have "cd_status d = CORRELATED \<longleftrightarrow> profile_requested request loaded \<and> s3_admitted request
      \<and> set (ci_available_point_ids request) \<subseteq> set (cru_point_ids s3) \<and> ts \<noteq> [] \<and> one_run ts
      \<and> s3_response request ts"
    using ensuresD [OF s3_branch.decision_status [OF r approved_branches(1) [OF ap]] ev(2)] ord
    by (simp add: telemetry_update)
  also have "(s3_admitted request \<and> set (ci_available_point_ids request) \<subseteq> set (cru_point_ids s3)
      \<and> ts \<noteq> [] \<and> one_run ts \<and> s3_response request ts) \<longleftrightarrow> s3_correlated request"
  proof
    assume "s3_admitted request \<and> set (ci_available_point_ids request) \<subseteq> set (cru_point_ids s3)
      \<and> ts \<noteq> [] \<and> one_run ts \<and> s3_response request ts"
    with chron(1) show "s3_correlated request"
      unfolding s3_correlated_def points
      by (auto simp: s3_admitted_def s3_response_def Let_def split: option.splits)
  next
    assume "s3_correlated request"
    then obtain us cyber where us: "chronological (ci_telemetry request) us" "one_run us"
        "ci_cyber_context request = Some cyber" "s3_admitted request"
        "set (ci_available_point_ids request) \<subseteq> set (cru_point_ids s3)"
        "s3_response request us"
      unfolding s3_correlated_def points by (auto simp: s3_admitted_def s3_response_def)
    with chron(2) have "us = ts" "one_run ts" by blast+
    moreover have "us \<noteq> []" using us(3,6) by (auto simp: s3_response_def Let_def window_complete_def)
    ultimately show "s3_admitted request \<and> set (ci_available_point_ids request) \<subseteq> set (cru_point_ids s3)
        \<and> ts \<noteq> [] \<and> one_run ts \<and> s3_response request ts" using us by simp
  qed
  finally show ?thesis by (simp add: ev(3))
qed

lemma find_first:
  "find P xs = Some x \<longleftrightarrow> (\<exists>ys zs. xs = ys @ x # zs \<and> P x \<and> (\<forall>y \<in> set ys. \<not> P y))"
proof (induction xs)
  case (Cons a xs)
  show ?case
  proof (cases "P a")
    case True
    have "(\<exists>ys zs. a # xs = ys @ x # zs \<and> P x \<and> (\<forall>y \<in> set ys. \<not> P y)) \<longleftrightarrow> a = x"
      using True by (auto simp: Cons_eq_append_conv)
    with True show ?thesis by simp
  next
    case False
    then have "(\<exists>ys zs. a # xs = ys @ x # zs \<and> P x \<and> (\<forall>y \<in> set ys. \<not> P y)) \<longleftrightarrow>
        (\<exists>ys zs. xs = ys @ x # zs \<and> P x \<and> (\<forall>y \<in> set ys. \<not> P y))"
      by (auto simp: Cons_eq_append_conv) (metis set_ConsD)
    with False Cons.IH show ?thesis by simp
  qed
qed simp

text \<open>
  C32. For the S4 rule, an evaluation that returns answers CORRELATED exactly when the profile is the
  requested one, no cyber parent is given and the specification of S4 holds: in the telemetry of one
  run, the first sample whose flow falls by half a unit below a stable baseline while the pump runs is
  followed by a complete minute in which the pump keeps running, the flow is low and the pressure high
  for ten consecutive samples each, and the two tank levels stand still for its last twenty seconds.
\<close>

theorem s4_correlated_iff:
  assumes "validate_correlation_profile (lcp_profile loaded) = Inr ()" "valid_evaluation_input request"
    "ci_rule_id request = S4_RULE_ID" "evaluate_correlation isoformat request loaded = Inr b"
  shows "cf_correlation_status (bf_finding b) = CORRELATED \<longleftrightarrow>
    profile_requested request loaded \<and> ci_cyber_context request = None \<and> s4_correlated request"
proof -
  obtain s3 s4 where ap: "approved_rules (lcp_profile loaded) s3 s4" using contract_rules [OF assms(1)] .
  have points: "set (cru_point_ids s4) = s4_points"
    using ap by (simp only: approved_rules_def s4_points_def)
  obtain ts d where ev: "canonical_telemetry (ci_telemetry request) = Inr ts"
    "correlation_decision (request\<lparr>ci_telemetry := ts\<rparr>) loaded = Inr d"
    "cf_correlation_status (bf_finding b) = cd_status d"
    by (rule evaluate_Inr [OF assms(4)])
  note ord = ordered_telemetry [OF ev(1) assms(2)] and chron = canonical_is_chronological [OF ev(1)]
  have r: "rules loaded (ci_rule_id (request\<lparr>ci_telemetry := ts\<rparr>)) = Some s4"
    using approved_lookup [OF ap] assms(3) rule_ids_distinct by simp
  have "cd_status d = CORRELATED \<longleftrightarrow> profile_requested request loaded \<and> ci_cyber_context request = None
      \<and> set (ci_available_point_ids request) \<subseteq> set (cru_point_ids s4) \<and> ts \<noteq> [] \<and> one_run ts
      \<and> s4_response request ts"
    using ensuresD [OF s4_branch.decision_status [OF r approved_branches(2) [OF ap]] ev(2)] ord
    by (simp add: telemetry_update s4_admitted_def)
  also have "(set (ci_available_point_ids request) \<subseteq> set (cru_point_ids s4) \<and> ts \<noteq> [] \<and> one_run ts
      \<and> s4_response request ts) \<longleftrightarrow> s4_correlated request"
  proof
    assume "set (ci_available_point_ids request) \<subseteq> set (cru_point_ids s4) \<and> ts \<noteq> [] \<and> one_run ts
      \<and> s4_response request ts"
    moreover from this obtain first where "find (flow_onset ts) ts = Some first"
      by (auto simp: s4_response_def split: option.splits)
    moreover from this obtain earlier rest where
      "ts = earlier @ first # rest" "flow_onset ts first" "\<forall>t \<in> set earlier. \<not> flow_onset ts t"
      unfolding find_first by blast
    ultimately show "s4_correlated request"
      unfolding s4_correlated_def s4_points_def [symmetric] points using chron(1)
      by (intro exI [of _ ts] exI [of _ first] exI [of _ rest] exI [of _ earlier])
        (simp add: s4_response_def Let_def subset_antisym)
  next
    assume "s4_correlated request"
    then obtain us first earlier rest where us: "chronological (ci_telemetry request) us" "one_run us"
        "us = earlier @ first # rest" "flow_onset us first" "\<forall>t \<in> set earlier. \<not> flow_onset us t"
        "set (ci_available_point_ids request) = s4_points"
        "let anchor = te_observed_at first; effect = between anchor (anchor + seconds 60) us in
           window_complete us anchor 60 50
           \<and> s4_process_response (before (anchor - seconds 10) anchor us) effect
               (filter (\<lambda>t. anchor + seconds 40 \<le> te_observed_at t) effect)"
      unfolding s4_correlated_def s4_points_def [symmetric] by blast
    then have "find (flow_onset us) us = Some first" unfolding find_first by blast
    with us have "s4_response request us" by (simp add: s4_response_def Let_def)
    moreover have "us = ts" "one_run ts" using chron(2) us(1,2) by blast+
    moreover have "us \<noteq> []" using us(3) by simp
    ultimately show "set (ci_available_point_ids request) \<subseteq> set (cru_point_ids s4) \<and> ts \<noteq> [] \<and> one_run ts
        \<and> s4_response request ts" using us(6) points by simp
  qed
  finally show ?thesis by (simp add: ev(3))
qed

text \<open>
  C33. On validated input the evaluation always ends with a finding, whatever the telemetry shows, except
  in three cases, in which it raises: two different samples under one identifier, two different
  parents under one identifier, or an S4 request that carries a cyber parent.
\<close>

theorem evaluation_outcome:
  assumes "validate_correlation_profile (lcp_profile loaded) = Inr ()" "is_sha256 (lcp_sha256 loaded)"
    "valid_evaluation_input request"
  shows "(\<exists>b. evaluate_correlation isoformat request loaded = Inr b) \<longleftrightarrow>
    inj_on te_evidence_id (set (ci_telemetry request))
    \<and> inj_on pr_evidence_id (set (request_parents request))
    \<and> \<not> (ci_rule_id request = S4_RULE_ID \<and> ci_cyber_context request \<noteq> None)"
  using evaluation_returns [OF assms, of isoformat] unfolding crosses_boundary_def .

text \<open>
  C34. The outcome, finding or error, depends on the set of samples only: neither their order nor
  repetitions in the request matter.
\<close>

theorem telemetry_order_irrelevant:
  assumes "set xs = set ys"
  shows "evaluate_correlation isoformat (request\<lparr>ci_telemetry := xs\<rparr>) loaded
    = evaluate_correlation isoformat (request\<lparr>ci_telemetry := ys\<rparr>) loaded"
  unfolding evaluate_correlation_def using telemetry_list.canonical_set_cong [OF assms] by simp

text \<open>
  C35. A finding claims no more than it may and names exactly what it rests on: its status is the one of
  its reason, it asserts no cause and no intent, it and its provenance use no ground truth, its
  explanation has none of the prohibited words, an S4 finding has no cyber parent, its provenance lists every parent of the request once, in
  canonical order, and carries the digest of this list, which is also the finding's.
\<close>

theorem finding_claims_and_lineage:
  assumes "validate_correlation_profile (lcp_profile loaded) = Inr ()" "valid_evaluation_input request"
    "evaluate_correlation isoformat request loaded = Inr b"
  shows "cf_correlation_status (bf_finding b) = STATUS_BY_REASON (cf_reason_code (bf_finding b))
    \<and> \<not> cf_cyber_cause_asserted (bf_finding b) \<and> \<not> cf_causality_inferred (bf_finding b)
    \<and> \<not> cf_malicious_intent_inferred (bf_finding b)
    \<and> \<not> cf_ground_truth_used (bf_finding b) \<and> \<not> cv_ground_truth_used (bf_provenance b)
    \<and> prohibit_overclaiming (cf_analyst_readable_explanation (bf_finding b))
    \<and> validate_cyber_boundary (bf_finding b)
    \<and> set (cv_parent_references (bf_provenance b)) = set (request_parents request)
    \<and> distinct (map pr_evidence_id (cv_parent_references (bf_provenance b)))
    \<and> sorted (map parent_order (cv_parent_references (bf_provenance b)))
    \<and> cv_parent_set_sha256 (bf_provenance b) = sha256_hex (utf8 (json_dumps
        (JList (map (parent_json isoformat) (cv_parent_references (bf_provenance b))))))
    \<and> cf_parent_set_sha256 (bf_finding b) = cv_parent_set_sha256 (bf_provenance b)"
proof -
  obtain ts d where ev: "canonical_telemetry (ci_telemetry request) = Inr ts"
    "correlation_decision (request\<lparr>ci_telemetry := ts\<rparr>) loaded = Inr d"
    "build_correlation_finding isoformat (request\<lparr>ci_telemetry := ts\<rparr>) d loaded = Inr b"
    by (rule evaluate_Inr [OF assms(3)])
  note ord = ordered_telemetry [OF ev(1) assms(2)]
  have good: "good_decision d"
    using decision_total [OF assms(1), of "request\<lparr>ci_telemetry := ts\<rparr>"] ord ev(2) by auto
  obtain parents tps digest where b: "canonical_parent_references (request_parents (request\<lparr>ci_telemetry := ts\<rparr>)) = Inr parents"
    "digest = sha256_hex (utf8 (json_dumps (JList (map (parent_json isoformat) parents))))"
    "bf_finding b = correlation_finding (request\<lparr>ci_telemetry := ts\<rparr>) d loaded
       (deterministic_evidence_id_from_fields CORRELATION_SOURCE_ID (bf_source_event_id b)
         CORRELATION_EVIDENCE_TYPE CORRELATION_FINDING_SCHEMA_VERSION) digest tps"
    "bf_provenance b = correlation_provenance (request\<lparr>ci_telemetry := ts\<rparr>) d loaded digest parents"
    "\<not> crosses_boundary (request\<lparr>ci_telemetry := ts\<rparr>)"
    by (rule build_Inr [OF ev(3)])
  have "validate_cyber_boundary (bf_finding b)" using b(5) unfolding b(3) boundary_of_finding .
  moreover have "set parents = set (request_parents request)"
    using parent_list.canonical_InrD(2) [OF b(1)] request_parents_ordered [OF ord(2)] by simp
  moreover note parent_list.canonical_InrD(3,4) [OF b(1)]
  ultimately show ?thesis
    using good unfolding b(3,4)
    by (simp add: b(2) correlation_finding_def correlation_provenance_def Let_def good_decision_def)
qed

text \<open>
  The persistence counted by the loop of maximum_persistence is the length of the longest block of
  consecutive samples that satisfy the predicate.
\<close>

theorem maximum_persistence_longest:
  "maximum_persistence xs P = Max {int (length ys) |ys. sublist ys xs \<and> list_all P ys}"
proof (rule sym, rule Max_eqI)
  have "{int (length ys) |ys. sublist ys xs \<and> list_all P ys} \<subseteq> {0..int (length xs)}"
    by (auto dest: sublist_length_le)
  then show "finite {int (length ys) |ys. sublist ys xs \<and> list_all P ys}" by (rule finite_subset) simp
  let ?m = "maximum_persistence xs P"
  show "n \<le> ?m" if "n \<in> {int (length ys) |ys. sublist ys xs \<and> list_all P ys}" for n
  proof (cases "0 < n")
    case True
    with that show ?thesis unfolding maximum_persistence_block [OF True] by (auto simp: has_block_def)
  next
    case False
    with maximum_persistence_bounds(1) [of xs P] show ?thesis by linarith
  qed
  show "?m \<in> {int (length ys) |ys. sublist ys xs \<and> list_all P ys}"
  proof (cases "0 < ?m")
    case True
    then obtain ys where ys: "sublist ys xs" "?m \<le> int (length ys)" "list_all P ys"
      using maximum_persistence_block [OF True, of xs P] by (auto simp: has_block_def)
    have "has_block P (int (length ys)) xs" using ys by (auto simp: has_block_def)
    moreover have "0 < int (length ys)" using True ys(2) by linarith
    ultimately have "int (length ys) \<le> ?m" using maximum_persistence_block by blast
    with ys show ?thesis by force
  next
    case False
    with maximum_persistence_bounds(1) [of xs P] show ?thesis by (auto intro!: exI [of _ "[]"])
  qed
qed

section \<open>A valve command and a pump without flow\<close>

definition example_digest :: digest where
  "example_digest = EXPECTED_CORRELATION_PROFILE_SHA256"

text \<open>One sample per second of a run; the process changes at second zero.\<close>

definition sample :: "f64 \<Rightarrow> f64 \<Rightarrow> f64 \<Rightarrow> int \<Rightarrow> TelemetryEvidence" where
  "sample valve_after flow_after pressure_after n = \<lparr>
     te_evidence_id = replicate (nat (n + 10)) CHR ''a'',
     te_evidence_type = ''simulator_telemetry'',
     te_integrity_sha256 = example_digest,
     te_observed_at = seconds n,
     te_sequence_number = n + 10,
     te_payload_schema = ''otsoc.simulator.telemetry'',
     te_payload_schema_version = ''2.0.0'',
     te_payload = \<lparr>
       tp_domain = ''oil_gas_transfer'',
       tp_simulation_id = ''run-1'',
       tp_sequence_number = n + 10,
       tp_timestamp = seconds n,
       tp_simulator_version = ''3.0.0'',
       tp_configuration_hash = example_digest,
       tp_simulation_time_seconds = n + 10,
       tp_source_tank_level_percent = 60,
       tp_receiving_tank_level_percent = 30,
       tp_transfer_pump_command_percent = 80,
       tp_transfer_pump_running = True,
       tp_control_valve_position_percent = (if n < 0 then 60 else valve_after),
       tp_pipeline_flow_rate_m3h = (if n < 0 then 8 else flow_after),
       tp_pipeline_pressure_bar = (if n < 0 then 1 else pressure_after),
       tp_process_temperature_c = 20\<rparr>\<rparr>"

lemma digest_ok: "is_sha256 example_digest"
  by code_simp

lemma telemetry_sample_valid:
  assumes "f64_within 0 100 v" "f64_within 0 12 f" "f64_within 0 4 p" "n \<in> {-9..60}"
  shows "valid_telemetry (sample v f p n)"
proof -
  have "valid_simulation_id ''run-1''" by code_simp
  with assms digest_ok show ?thesis
    by (simp add: valid_telemetry_def sample_def valid_telemetry_payload_def validate_telemetry_envelope_def
        text_within_def f64_within_def)
qed

lemma sample_times: "te_observed_at (sample v f p n) = seconds n" "te_sequence_number (sample v f p n) = n + 10"
  by (simp_all add: sample_def)

lemma seconds_order: "seconds m \<le> seconds n \<longleftrightarrow> m \<le> n" "seconds m < seconds n \<longleftrightarrow> m < n"
  "seconds m + seconds n = seconds (m + n)" "seconds m - seconds n = seconds (m - n)"
  "seconds m = seconds n \<longleftrightarrow> m = n"
  by (simp_all add: seconds_def microseconds_per_second_def)

lemma sample_inj: "inj_on te_evidence_id (sample v f p ` {-9..60})" "inj_on (sample v f p) {-9..60}"
proof -
  have "m = n" if "m \<in> {-9..60}" "n \<in> {-9..60}" "te_evidence_id (sample v f p m) = te_evidence_id (sample v f p n)"
    for m n
  proof -
    have "length (te_evidence_id (sample v f p m)) = length (te_evidence_id (sample v f p n))" using that(3) by simp
    with that(1,2) show ?thesis by (simp add: sample_def eq_nat_nat_iff)
  qed
  then show "inj_on te_evidence_id (sample v f p ` {-9..60})" "inj_on (sample v f p) {-9..60}"
    unfolding inj_on_def by (blast, metis)
qed

lemma samples_one_run:
  assumes "set ns \<subseteq> {-9..60}"
  shows "one_run (map (sample v f p) ns)"
proof -
  have "run_origin_of (sample v f p n) = seconds (-10)" for n
    by (simp add: sample_def run_origin_of_def seconds_def algebra_simps)
  moreover have "inj_on te_observed_at (set (map (sample v f p) ns))"
      "inj_on te_sequence_number (set (map (sample v f p) ns))"
    by (auto simp: inj_on_def sample_times seconds_order)
  ultimately show ?thesis unfolding one_run_def by (auto simp: sample_def)
qed

lemma samples_chronological: "chronological (map (sample v f p) [a..b]) (map (sample v f p) [a..b])"
  by (simp add: chronological_def sorted_wrt_map sample_times seconds_order)

lemma samples_window:
  "between (seconds a) (seconds b) (map (sample v f p) ns) = map (sample v f p) (filter (\<lambda>n. a \<le> n \<and> n \<le> b) ns)"
  "before (seconds a) (seconds b) (map (sample v f p) ns) = map (sample v f p) (filter (\<lambda>n. a \<le> n \<and> n < b) ns)"
  by (simp_all add: between_def before_def filter_map comp_def sample_times seconds_order)

lemma samples_steady: "steady (map (sample v f p) ns) \<longleftrightarrow> successively (\<lambda>m n. n - m = 1 \<or> n - m = 2) ns"
  unfolding steady_def successively_map
  by (intro arg_cong2 [where f = successively] ext refl)
    (auto simp: sample_times seconds_order)

lemma whole_block: "list_all P xs \<Longrightarrow> k \<le> int (length xs) \<Longrightarrow> has_block P k xs"
  by (auto simp: has_block_def)

lemma mean_constant:
  assumes "\<forall>t \<in> set ts. accessor t = of_int c" "ts \<noteq> []" "0 < c" "c * int (length ts) < 2 ^ 53"
  shows "mean accessor ts = of_int c"
proof -
  have "sum_list (map accessor ts) = of_int (c * int (length ts))"
    using assms(1) by (induction ts) (auto simp: algebra_simps)
  moreover have "0 < c * int (length ts)" using assms(2,3) by simp
  ultimately have "f64_fsum (map accessor ts) = of_int (c * int (length ts))"
    unfolding f64_fsum_def using f64_round_int [OF _ assms(4)] by simp
  moreover have "c < 2 ^ 53"
  proof -
    have "c * 1 \<le> c * int (length ts)" using assms(2,3) by (intro mult_left_mono) (auto simp: Suc_le_eq)
    with assms(4) show ?thesis by simp
  qed
  then have "f64_round (of_int c) = of_int c" using assms(3) by (intro f64_round_int)
  ultimately show ?thesis using assms(2) by (simp add: mean_def f64_div_def)
qed

lemma spread_constant:
  assumes "\<forall>t \<in> set ts. accessor t = c" "ts \<noteq> []"
  shows "spread accessor ts = 0"
proof -
  have "set ts \<noteq> {}" using assms(2) by simp
  then have "accessor ` set ts = {c}" using assms(1) by (simp add: image_constant_conv cong: image_cong)
  then show ?thesis by (simp add: spread_def f64_sub_def)
qed

lemma sample_values:
  "n < 0 \<Longrightarrow> valve (sample v f p n) = 60" "n < 0 \<Longrightarrow> flow (sample v f p n) = 8"
  "n < 0 \<Longrightarrow> pressure (sample v f p n) = 1" "0 \<le> n \<Longrightarrow> valve (sample v f p n) = v"
  "0 \<le> n \<Longrightarrow> flow (sample v f p n) = f" "0 \<le> n \<Longrightarrow> pressure (sample v f p n) = p"
  "pump_running (sample v f p n)" "source_level (sample v f p n) = 60" "receiving_level (sample v f p n) = 30"
  by (simp_all add: valve_def flow_def pressure_def pump_running_def source_level_def receiving_level_def sample_def)

lemma samples_baseline:
  assumes "ns \<noteq> []" "\<forall>n \<in> set ns. n < 0" "length ns \<le> 100"
  shows "spread valve (map (sample v f p) ns) = 0" "spread flow (map (sample v f p) ns) = 0"
    "spread pressure (map (sample v f p) ns) = 0" "mean flow (map (sample v f p) ns) = 8"
    "mean pressure (map (sample v f p) ns) = 1"
proof -
  show "spread valve (map (sample v f p) ns) = 0" "spread flow (map (sample v f p) ns) = 0"
    "spread pressure (map (sample v f p) ns) = 0"
    using assms by (auto intro!: spread_constant simp: sample_values)
  show "mean flow (map (sample v f p) ns) = 8" "mean pressure (map (sample v f p) ns) = 1"
    using assms mean_constant [of "map (sample v f p) ns" flow 8] mean_constant [of "map (sample v f p) ns" pressure 1]
    by (simp_all add: sample_values)
qed

definition cyber_example :: CyberParentContext where
  "cyber_example =
     (let parent = (\<lambda>key kind. \<lparr>pr_evidence_id = key, pr_evidence_type = kind,
          pr_integrity_sha256 = example_digest, pr_observed_at = 0, pr_sequence_number = Some 1\<rparr>) in \<lparr>
        cy_raw_parent = parent ''raw'' ''synthetic_protocol_event'',
        cy_semantic_parent = parent ''semantic'' ''protocol_semantic_event'',
        cy_asset_context_parent = parent ''context'' ''asset_context_event'',
        cy_policy_parent = None,
        cy_command_point_id = ''control_valve_command_percent'',
        cy_command_target_asset_key = ''CV-101'',
        cy_command_value_percent = 25,
        cy_command_observed_at = seconds 0,
        cy_controller_asset_key = ''PLC-01'',
        cy_relationship_type = ''CONTROLS'',
        cy_relationship_target_asset_key = ''CV-101'',
        cy_policy_context_status = ''UNAVAILABLE''\<rparr>)"

definition correlation_request ::
  "CorrelationRule \<Rightarrow> CyberParentContext option \<Rightarrow> TelemetryEvidence list \<Rightarrow> CorrelationEvaluationInput" where
  "correlation_request rule cyber telemetry = \<lparr>
     ci_profile_id = CORRELATION_PROFILE_ID,
     ci_profile_version = CORRELATION_PROFILE_VERSION,
     ci_profile_sha256 = EXPECTED_CORRELATION_PROFILE_SHA256,
     ci_rule_id = cru_rule_id rule,
     ci_rule_version = ''1.0.0'',
     ci_cyber_context = cyber,
     ci_telemetry = telemetry,
     ci_available_point_ids = cru_point_ids rule,
     ci_reevaluates_parent = None\<rparr>"

definition s3_example :: CorrelationEvaluationInput where
  "s3_example = correlation_request v1_s3_rule (Some cyber_example) (map (sample 25 6 2) [-9..30])"

definition s4_example :: CorrelationEvaluationInput where
  "s4_example = correlation_request v1_s4_rule None (map (sample 60 0 2) [-9..60])"

lemma loaded_ok: "is_sha256 (lcp_sha256 v1_correlation)"
  by code_simp

lemma frames_valid:
  "valid_evaluation_input (correlation_request v1_s3_rule (Some cyber_example) [])"
  "valid_evaluation_input (correlation_request v1_s4_rule None [])"
  by code_simp+

lemma examples_valid: "valid_evaluation_input s3_example" "valid_evaluation_input s4_example"
proof -
  have "list_all valid_telemetry (map (sample 25 6 2) [-9..30])" "list_all valid_telemetry (map (sample 60 0 2) [-9..60])"
    by (auto simp: list_all_iff intro!: telemetry_sample_valid simp: f64_within_def)
  with frames_valid show "valid_evaluation_input s3_example" "valid_evaluation_input s4_example"
    by (simp_all add: s3_example_def s4_example_def valid_evaluation_input_def correlation_request_def
        validate_unique_points_def)
qed

lemma sample_parents:
  assumes "set ns \<subseteq> {-9..60}" "\<forall>p' \<in> set ps. \<exists>c \<in> set (pr_evidence_id p'). c \<noteq> CHR ''a''"
    "inj_on pr_evidence_id (set ps)"
  shows "inj_on pr_evidence_id (set ps \<union> set (map parent_reference (map (sample v f p) ns)))"
proof -
  have only_a: "\<forall>c \<in> set (pr_evidence_id (parent_reference (sample v f p n))). c = CHR ''a''" for n
    by (simp add: parent_reference_def sample_def)
  have same: "parent_reference (sample v f p m) = parent_reference (sample v f p n)"
    if "m \<in> set ns" "n \<in> set ns" "pr_evidence_id (parent_reference (sample v f p m)) = pr_evidence_id (parent_reference (sample v f p n))"
    for m n
  proof -
    have "te_evidence_id (sample v f p m) = te_evidence_id (sample v f p n)"
      using that(3) by (simp add: parent_reference_def)
    then have "sample v f p m = sample v f p n"
      using that(1,2) assms(1) sample_inj(1) [of v f p] by (auto dest: inj_onD)
    then show ?thesis by simp
  qed
  show ?thesis
    using assms(2,3) only_a same by (intro inj_onI) (auto dest: inj_onD; metis)
qed

lemma request_parents_example:
  "set (request_parents (correlation_request rule (Some cyber_example) ts)) =
     set [cy_raw_parent cyber_example, cy_semantic_parent cyber_example, cy_asset_context_parent cyber_example]
     \<union> set (map parent_reference ts)"
  "set (request_parents (correlation_request rule None ts)) = set [] \<union> set (map parent_reference ts)"
  by (simp_all add: request_parents_def correlation_request_def cyber_example_def Let_def)

lemma cyber_example_parents:
  "\<forall>p \<in> set [cy_raw_parent cyber_example, cy_semantic_parent cyber_example, cy_asset_context_parent cyber_example].
     \<exists>c \<in> set (pr_evidence_id p). c \<noteq> CHR ''a''"
  "inj_on pr_evidence_id
     (set [cy_raw_parent cyber_example, cy_semantic_parent cyber_example, cy_asset_context_parent cyber_example])"
  by (simp_all add: cyber_example_def Let_def)

lemma range_subset: "- 9 \<le> a \<Longrightarrow> b \<le> 60 \<Longrightarrow> set [a..b] \<subseteq> {-9..60 :: int}"
  by auto

lemma request_returns:
  assumes "valid_evaluation_input (correlation_request rule cyber (map (sample v f p) ns))"
    "set ns \<subseteq> {-9..60}" "cyber = Some cyber_example \<and> rule = v1_s3_rule \<or> cyber = None"
  shows "\<exists>b. evaluate_correlation isoformat (correlation_request rule cyber (map (sample v f p) ns)) v1_correlation = Inr b"
proof -
  let ?r = "correlation_request rule cyber (map (sample v f p) ns)"
  have "ci_telemetry ?r = map (sample v f p) ns" by (simp add: correlation_request_def)
  then have "inj_on te_evidence_id (set (ci_telemetry ?r))"
    using inj_on_subset [OF sample_inj(1)] image_mono [OF assms(2)] by (metis image_set)
  moreover have "inj_on pr_evidence_id (set (request_parents ?r))"
    using assms(3)
  proof
    assume c: "cyber = Some cyber_example \<and> rule = v1_s3_rule"
    from sample_parents [OF assms(2) cyber_example_parents] show ?thesis
      unfolding conjunct1 [OF c] request_parents_example .
  next
    assume c: "cyber = None"
    show ?thesis unfolding c request_parents_example by (rule sample_parents [OF assms(2)]) simp_all
  qed
  moreover have "\<not> crosses_boundary ?r"
    using assms(3) by (auto simp: crosses_boundary_def correlation_request_def v1_s3_rule_def S4_RULE_ID_def)
  ultimately show ?thesis using evaluation_returns [OF v1_correlation_valid loaded_ok assms(1)] by blast
qed

lemma examples_return:
  "\<exists>b. evaluate_correlation isoformat s3_example v1_correlation = Inr b"
  "\<exists>b. evaluate_correlation isoformat s4_example v1_correlation = Inr b"
  unfolding s3_example_def s4_example_def
  by (rule request_returns [OF examples_valid(1) [unfolded s3_example_def] range_subset]
      request_returns [OF examples_valid(2) [unfolded s4_example_def] range_subset]; simp)+

lemma tick_windows:
  "filter (\<lambda>n. -10 \<le> n \<and> n < 0) [-9..30] = [-9..-1 :: int]" "filter (\<lambda>n. 0 \<le> n \<and> n \<le> 30) [-9..30] = [0..30 :: int]"
  "filter (\<lambda>n. -10 \<le> n \<and> n < 0) [-9..60] = [-9..-1 :: int]" "filter (\<lambda>n. 0 \<le> n \<and> n \<le> 60) [-9..60] = [0..60 :: int]"
  "filter (\<lambda>n. 40 \<le> n) [0..60] = [40..60 :: int]"
  "successively (\<lambda>m n. n - m = 1 \<or> n - m = 2) [-9..-1 :: int]"
  "successively (\<lambda>m n. n - m = 1 \<or> n - m = 2) [0..30 :: int]"
  "successively (\<lambda>m n. n - m = 1 \<or> n - m = 2) [0..60 :: int]"
  by code_simp+

lemma example_floats:
  "\<bar>f64_sub 25 25\<bar> \<le> f64_literal 0.5" "6 \<le> f64_sub 8 (f64_literal 0.5)" "f64_add 1 (f64_literal 0.1) \<le> 2"
  "0 \<le> f64_literal 0.5" "0 \<le> f64_literal 0.1" "0 \<le> f64_literal 0.05" "0 \<le> f64_sub 8 (f64_literal 0.5)"
  "\<not> 8 \<le> f64_sub 8 (f64_literal 0.5)" "f64_add 1 (f64_literal 0.5) \<le> 2" "0 \<le> f64_literal 0.00001"
  "0 \<le> f64_literal 0.000000001"
  by code_simp+

lemma example_window_complete:
  assumes "filter (\<lambda>n. -10 \<le> n \<and> n < 0) ns = [-9..-1]" "filter (\<lambda>n. 0 \<le> n \<and> n \<le> e) ns = [0..e]"
    "successively (\<lambda>m n. n - m = 1 \<or> n - m = 2) [0..e]" "e \<in> set ns" "k \<le> e + 1" "0 \<le> e"
  shows "window_complete (map (sample v f p) ns) (seconds 0) e k"
proof -
  have "seconds 0 - seconds 10 = seconds (-10)" "seconds 0 + seconds e = seconds e"
    by (simp_all add: seconds_def)
  moreover have "\<exists>t \<in> set (map (sample v f p) ns). seconds e \<le> te_observed_at t"
    using assms(4) by (force simp: sample_times)
  moreover have "length [-9..-1 :: int] = 9" by simp
  ultimately show ?thesis
    unfolding window_complete_def
    using assms tick_windows(6) by (simp only: samples_window samples_steady length_map) simp
qed

lemma request_fields:
  "ci_telemetry (correlation_request rule cyber ts) = ts"
  "ci_cyber_context (correlation_request rule cyber ts) = cyber"
  "ci_available_point_ids (correlation_request rule cyber ts) = cru_point_ids rule"
  by (simp_all add: correlation_request_def)

lemma cyber_anchor: "cy_command_observed_at cyber_example = seconds 0"
  by (simp add: cyber_example_def Let_def)

lemma s3_point_set: "set (cru_point_ids v1_s3_rule) = {''control_valve_position_percent'', ''pipeline_flow_rate_m3h'',
    ''pipeline_pressure_bar'', ''source_tank_level_percent'', ''receiving_tank_level_percent''}"
  by (simp add: v1_s3_rule_def)

lemma s3_example_correlated: "s3_correlated s3_example"
proof -
  let ?ts = "map (sample 25 6 2) [-9..30]"
  have w: "before (seconds 0 - seconds 10) (seconds 0) ?ts = map (sample 25 6 2) [-9..-1]"
      "between (seconds 0) (seconds 0 + seconds 30) ?ts = map (sample 25 6 2) [0..30]"
    unfolding seconds_order(3,4) by (simp_all only: samples_window tick_windows diff_0 add_0)
  have base: "[-9..-1 :: int] \<noteq> []" "\<forall>n \<in> set [-9..-1 :: int]. n < 0" "length [-9..-1 :: int] \<le> 100" by simp_all
  have after: "\<forall>t \<in> set (map (sample 25 6 2) [0..30]). valve t = 25 \<and> flow t = 6 \<and> pressure t = 2"
    by (simp add: sample_values)
  have "s3_process_response (map (sample 25 6 2) [-9..-1]) (map (sample 25 6 2) [0..30])
      (set (cru_point_ids v1_s3_rule))"
    unfolding s3_process_response_def Let_def samples_baseline [OF base]
    using example_floats after
    by (auto simp: v1_s3_rule_def list_all_iff intro!: whole_block)
  moreover have "window_complete ?ts (seconds 0) 30 24"
    by (rule example_window_complete [OF tick_windows(1,2,7)]) simp_all
  moreover have "s3_parent_shape_verified s3_example" "s3_asset_mapping_valid s3_example"
    by (code_simp, code_simp)
  moreover have "one_run ?ts" by (rule samples_one_run) (rule range_subset; simp)
  ultimately show ?thesis
    unfolding s3_correlated_def
    by (intro exI [of _ ?ts] exI [of _ cyber_example])
      (simp only: s3_example_def request_fields samples_chronological cyber_anchor Let_def w s3_point_set, blast)
qed

text \<open>Under the frozen profile the S3 example is found CORRELATED.\<close>

theorem s3_correlated_iff_witness:
  "\<exists>b. evaluate_correlation isoformat_utc s3_example v1_correlation = Inr b
    \<and> cf_correlation_status (bf_finding b) = CORRELATED"
proof -
  obtain b where b: "evaluate_correlation isoformat_utc s3_example v1_correlation = Inr b"
    using examples_return(1) by blast
  have "ci_rule_id s3_example = S3_RULE_ID" "profile_requested s3_example v1_correlation"
    by (simp_all add: s3_example_def correlation_request_def v1_s3_rule_def S3_RULE_ID_def
        profile_requested_def v1_correlation_def)
  with b s3_correlated_iff [OF v1_correlation_valid examples_valid(1)] s3_example_correlated show ?thesis by blast
qed

lemma sample_slope:
  "ts \<noteq> [] \<Longrightarrow> \<forall>t \<in> set ts. accessor t = c \<Longrightarrow> slope accessor ts = 0"
  by (simp add: slope_def f64_sub_def f64_div_def)

lemma s4_ticks: "[-9..60] = [-9..-1] @ 0 # [1..60 :: int]"
  by code_simp

lemma s4_onset:
  "flow_onset (map (sample 60 0 2) [-9..60]) (sample 60 0 2 0)"
  "n \<in> set [-9..-1] \<Longrightarrow> \<not> flow_onset (map (sample 60 0 2) [-9..60]) (sample 60 0 2 n)"
proof -
  have base: "[-9..-1 :: int] \<noteq> []" "\<forall>n \<in> set [-9..-1 :: int]. n < 0" "length [-9..-1 :: int] \<le> 100" by simp_all
  have nine: "8 \<le> length [-9..-1 :: int]" by simp
  have w: "before (seconds 0 - seconds 10) (seconds 0) (map (sample 60 0 2) [-9..60]) = map (sample 60 0 2) [-9..-1]"
    unfolding seconds_order(4) by (simp only: samples_window tick_windows diff_0)
  show "flow_onset (map (sample 60 0 2) [-9..60]) (sample 60 0 2 0)"
    unfolding flow_onset_def sample_times w Let_def samples_baseline [OF base] length_map
    using example_floats nine by (auto simp: sample_values)
  assume n: "n \<in> set [-9..-1]"
  show "\<not> flow_onset (map (sample 60 0 2) [-9..60]) (sample 60 0 2 n)"
  proof
    define ms where "ms = filter (\<lambda>m. n - 10 \<le> m \<and> m < n) [-9..60]"
    have b: "before (seconds n - seconds 10) (seconds n) (map (sample 60 0 2) [-9..60]) = map (sample 60 0 2) ms"
      unfolding seconds_order(4) ms_def by (simp only: samples_window)
    assume "flow_onset (map (sample 60 0 2) [-9..60]) (sample 60 0 2 n)"
    then have "8 \<le> length ms"
        "flow (sample 60 0 2 n) \<le> f64_sub (mean flow (map (sample 60 0 2) ms)) (f64_literal 0.5)"
      unfolding flow_onset_def sample_times b Let_def by simp_all
    moreover have "\<forall>m \<in> set ms. m < 0" using n by (auto simp: ms_def)
    moreover have "length ms \<le> 100"
      using length_filter_le [of "\<lambda>m. n - 10 \<le> m \<and> m < n" "[-9..60]"] by (simp add: ms_def)
    moreover have "ms \<noteq> []" using calculation(1) by auto
    moreover have "flow (sample 60 0 2 n) = 8" using n by (simp add: sample_values)
    ultimately have "8 \<le> f64_sub 8 (f64_literal 0.5)" using samples_baseline(4) [of ms 60 0 2] by simp
    with example_floats(8) show False by simp
  qed
qed

lemma s4_point_set: "set (cru_point_ids v1_s4_rule) = {''transfer_pump_running'', ''pipeline_flow_rate_m3h'',
    ''pipeline_pressure_bar'', ''source_tank_level_percent'', ''receiving_tank_level_percent''}"
  by (simp add: v1_s4_rule_def)

lemma s4_example_correlated: "s4_correlated s4_example"
proof -
  let ?s = "sample 60 0 2"
  let ?ts = "map ?s [-9..60]"
  have base: "[-9..-1 :: int] \<noteq> []" "\<forall>n \<in> set [-9..-1 :: int]. n < 0" "length [-9..-1 :: int] \<le> 100" by simp_all
  have w: "before (seconds 0 - seconds 10) (seconds 0) ?ts = map ?s [-9..-1]"
      "between (seconds 0) (seconds 0 + seconds 60) ?ts = map ?s [0..60]"
    unfolding seconds_order(3,4) by (simp_all only: samples_window tick_windows diff_0 add_0)
  have terminal: "filter (\<lambda>t. seconds 0 + seconds 40 \<le> te_observed_at t) (map ?s [0..60]) = map ?s [40..60]"
    unfolding seconds_order(3) filter_map comp_def sample_times seconds_order(1) add_0 tick_windows(5) ..
  have span: "20 \<le> total_seconds (te_observed_at (last (map ?s [40..60])) - te_observed_at (hd (map ?s [40..60])))"
  proof -
    have "te_observed_at (last (map ?s [40..60])) - te_observed_at (hd (map ?s [40..60])) = seconds 20"
      by (simp add: last_map hd_map sample_times seconds_order)
    moreover have "total_seconds (seconds 20) = 20" using total_seconds_seconds [of 20] by simp
    ultimately show ?thesis by (simp only: order_refl)
  qed
  have process: "s4_process_response (map ?s [-9..-1]) (map ?s [0..60]) (map ?s [40..60])"
    unfolding s4_process_response_def samples_baseline [OF base]
    using span example_floats
    by (intro conjI whole_block) (auto simp: sample_values list_all_iff sample_slope [where c = 60] sample_slope [where c = 30] f64_sub_def)
  have complete: "window_complete ?ts (seconds 0) 60 50"
    by (rule example_window_complete [OF tick_windows(3,4,8)]) simp_all
  show ?thesis
    unfolding s4_correlated_def
  proof (rule exI [of _ ?ts], rule exI [of _ "?s 0"], rule exI [of _ "map ?s [1..60]"],
      rule exI [of _ "map ?s [-9..-1]"], intro conjI)
    show "chronological (ci_telemetry s4_example) ?ts"
      unfolding s4_example_def request_fields by (rule samples_chronological)
    show "one_run ?ts" by (rule samples_one_run) (rule range_subset; simp)
    show "?ts = map ?s [-9..-1] @ ?s 0 # map ?s [1..60]" unfolding s4_ticks by simp
    show "flow_onset ?ts (?s 0)" by (rule s4_onset(1))
    show "\<forall>t \<in> set (map ?s [-9..-1]). \<not> flow_onset ?ts t" using s4_onset(2) by auto
    show "set (ci_available_point_ids s4_example) = {''transfer_pump_running'', ''pipeline_flow_rate_m3h'',
        ''pipeline_pressure_bar'', ''source_tank_level_percent'', ''receiving_tank_level_percent''}"
      unfolding s4_example_def request_fields by (rule s4_point_set)
    show "let anchor = te_observed_at (?s 0); effect = between anchor (anchor + seconds 60) ?ts in
        window_complete ?ts anchor 60 50
        \<and> s4_process_response (before (anchor - seconds 10) anchor ?ts) effect
            (filter (\<lambda>t. anchor + seconds 40 \<le> te_observed_at t) effect)"
      unfolding Let_def sample_times w terminal using complete process by (rule conjI)
  qed
qed

text \<open>And the S4 example.\<close>

theorem s4_correlated_iff_witness:
  "\<exists>b. evaluate_correlation isoformat_utc s4_example v1_correlation = Inr b
    \<and> cf_correlation_status (bf_finding b) = CORRELATED"
proof -
  obtain b where b: "evaluate_correlation isoformat_utc s4_example v1_correlation = Inr b"
    using examples_return(2) by blast
  have "ci_rule_id s4_example = S4_RULE_ID" "profile_requested s4_example v1_correlation"
      "ci_cyber_context s4_example = None"
    by (simp_all add: s4_example_def correlation_request_def v1_s4_rule_def S4_RULE_ID_def
        profile_requested_def v1_correlation_def)
  with b s4_correlated_iff [OF v1_correlation_valid examples_valid(2)] s4_example_correlated show ?thesis by blast
qed

text \<open>An S4 request with a cyber parent raises; the S3 example returns.\<close>

theorem evaluation_outcome_witness:
  "(\<exists>b. evaluate_correlation isoformat_utc s3_example v1_correlation = Inr b)
   \<and> \<not> (\<exists>b. evaluate_correlation isoformat_utc (correlation_request v1_s4_rule (Some cyber_example) [])
          v1_correlation = Inr b)"
proof
  from examples_return(1) show "\<exists>b. evaluate_correlation isoformat_utc s3_example v1_correlation = Inr b" .
  have "valid_evaluation_input (correlation_request v1_s4_rule (Some cyber_example) [])" by code_simp
  from evaluation_outcome [OF v1_correlation_valid loaded_ok this, of isoformat_utc]
  show "\<not> (\<exists>b. evaluate_correlation isoformat_utc (correlation_request v1_s4_rule (Some cyber_example) [])
      v1_correlation = Inr b)"
    by (simp add: correlation_request_def v1_s4_rule_def S4_RULE_ID_def)
qed

theorem telemetry_order_irrelevant_witness:
  "evaluate_correlation isoformat_utc (s3_example\<lparr>ci_telemetry := rev (map (sample 25 6 2) [-9..30])\<rparr>) v1_correlation
     = evaluate_correlation isoformat_utc (s3_example\<lparr>ci_telemetry := map (sample 25 6 2) [-9..30]\<rparr>) v1_correlation"
  by (rule telemetry_order_irrelevant) (rule set_rev)

theorem finding_claims_and_lineage_witness:
  "\<exists>b. evaluate_correlation isoformat_utc s4_example v1_correlation = Inr b
     \<and> validate_cyber_boundary (bf_finding b)
     \<and> set (cv_parent_references (bf_provenance b)) = set (request_parents s4_example)"
proof -
  obtain b where b: "evaluate_correlation isoformat_utc s4_example v1_correlation = Inr b"
    using examples_return(2) by blast
  from finding_claims_and_lineage [OF v1_correlation_valid examples_valid(2) b] b show ?thesis by blast
qed

end
