(* ===== verification/Stored_Payloads.thy ===== *)
theory Stored_Payloads
  imports Evidence Findings Correlation_Evaluator
begin

text \<open>
  Reading stored evidence back. A record is read by its identifier, checked against the type and the
  digest the reader expects, verified, and its JSON payload is validated into the model of its type.
  What pydantic contributes to this, the rendering of datetimes, the validation of envelopes and the
  coercion between JSON and typed fields, is the parameter \<open>pydantic\<close>; the constraints the models add
  to their fields are the definitions of the component theories.

  The interface \<open>evidence_reader\<close> states what every such reader promises: the record it returns is
  stored and passes the integrity check, and a later state of the store gives the same record.
\<close>

section \<open>Validation of payloads\<close>

record pydantic =
  pd_isoformat :: "timestamp \<Rightarrow> string"
  pd_envelope :: envelope_validator
  pd_modbus_event :: "json \<Rightarrow> SyntheticModbusEvent option"
  pd_semantic_event :: "json \<Rightarrow> ProtocolSemanticEvent option"
  pd_context_event :: "json \<Rightarrow> AssetContextEvent option"
  pd_policy_finding :: "json \<Rightarrow> CommunicationPolicyFinding option"
  pd_policy_provenance :: "json \<Rightarrow> PolicyFindingDerivationProvenance option"
  pd_telemetry :: "json \<Rightarrow> CorrelationTelemetryPayload option"
  pd_correlation_finding :: "json \<Rightarrow> CyberPhysicalCorrelationFinding option"
  pd_correlation_provenance :: "json \<Rightarrow> CorrelationDerivationProvenance option"
  pd_dump_finding :: "CyberPhysicalCorrelationFinding \<Rightarrow> json"
  pd_dump_provenance :: "CorrelationDerivationProvenance \<Rightarrow> json"

text \<open>\<open>model_validate\<close>: the fields are coerced, then the constraints of the model are checked.\<close>

definition model_validate :: "(json \<Rightarrow> 'a option) \<Rightarrow> ('a \<Rightarrow> bool) \<Rightarrow> 'e \<Rightarrow> json \<Rightarrow> 'e + 'a" where
  "model_validate coerce valid error document =
     (case coerce document of
        None \<Rightarrow> Inl error
      | Some v \<Rightarrow> if valid v then Inr v else Inl error)"

lemma model_validate_Inr [result_split]:
  "model_validate coerce valid error document = Inr v \<longleftrightarrow> coerce document = Some v \<and> valid v"
  by (auto simp: model_validate_def split: option.splits)

definition valid_finding :: "CyberPhysicalCorrelationFinding \<Rightarrow> bool" where
  "valid_finding f =
     (valid_finding_fields f \<and> prohibit_overclaiming (cf_analyst_readable_explanation f)
      \<and> validate_cyber_boundary f)"

section \<open>Results that are kept\<close>

text \<open>When the first result is a value, the second is the same value.\<close>

definition kept :: "'e + 'a \<Rightarrow> 'e + 'a \<Rightarrow> bool" where
  "kept m m' = (\<forall>v. m = Inr v \<longrightarrow> m' = Inr v)"

lemma keptD: "kept m m' \<Longrightarrow> m = Inr v \<Longrightarrow> m' = Inr v"
  by (simp add: kept_def)

lemma kept_refl: "kept m m"
  by (simp add: kept_def)

lemma kept_rbind: "kept m m' \<Longrightarrow> (\<And>v. kept (f v) (g v)) \<Longrightarrow> kept (rbind m f) (rbind m' g)"
  by (cases m) (auto simp: kept_def)

lemma kept_if: "(P \<Longrightarrow> kept a a') \<Longrightarrow> (\<not> P \<Longrightarrow> kept b b') \<Longrightarrow> kept (if P then a else b) (if P then a' else b')"
  by simp

lemma kept_option:
  "kept a a' \<Longrightarrow> (\<And>v. kept (f v) (f' v)) \<Longrightarrow>
   kept (case x of None \<Rightarrow> a | Some v \<Rightarrow> f v) (case x of None \<Rightarrow> a' | Some v \<Rightarrow> f' v)"
  by (cases x) simp_all

lemma kept_prod: "(\<And>a b. kept (f a b) (f' a b)) \<Longrightarrow> kept (case p of (a, b) \<Rightarrow> f a b) (case p of (a, b) \<Rightarrow> f' a b)"
  by (cases p) simp

lemmas kept_intros = kept_rbind kept_if kept_option kept_prod

section \<open>Stored records\<close>

text \<open>A later state of a store: the same sources, and more records after those there were.\<close>

definition later_store :: "EvidenceStore \<Rightarrow> EvidenceStore \<Rightarrow> bool" where
  "later_store st st' = (ev_sources st' = ev_sources st \<and> prefix (ev_records st) (ev_records st'))"

definition verifies :: "pydantic \<Rightarrow> EvidenceStore \<Rightarrow> EvidenceRecord \<Rightarrow> bool" where
  "verifies pd st r = verify_record_integrity (pd_isoformat pd) (pd_envelope pd) st r"

text \<open>The record under an identifier exists, has the type and the digest, and passes the integrity check.\<close>

definition grounded :: "pydantic \<Rightarrow> EvidenceStore \<Rightarrow> string \<Rightarrow> uuid \<Rightarrow> digest \<Rightarrow> bool" where
  "grounded pd st evidence_type evidence_id digest =
     (case get_evidence st evidence_id of
        None \<Rightarrow> False
      | Some r \<Rightarrow> rec_evidence_type r = evidence_type \<and> rec_integrity_sha256 r = digest \<and> verifies pd st r)"

lemma find_append_Some: "find P xs = Some x \<Longrightarrow> find P (xs @ ys) = Some x"
  by (induction xs) (auto split: if_splits)

lemma get_evidence_SomeD:
  "get_evidence st evidence_id = Some r \<Longrightarrow> rec_evidence_id r = evidence_id \<and> r \<in> set (ev_records st)"
  by (auto simp: get_evidence_def dest: find_eq_Some_iff)

lemma later_store_refl [simp]: "later_store st st"
  by (simp add: later_store_def)

lemma later_store_trans: "later_store st st' \<Longrightarrow> later_store st' st'' \<Longrightarrow> later_store st st''"
  by (auto simp: later_store_def intro: prefix_order.trans)

lemma later_get_evidence:
  "later_store st st' \<Longrightarrow> get_evidence st evidence_id = Some r \<Longrightarrow> get_evidence st' evidence_id = Some r"
  by (auto simp: later_store_def get_evidence_def prefix_def find_append_Some)

lemma later_verifies: "later_store st st' \<Longrightarrow> verifies pd st' r = verifies pd st r"
  by (simp add: later_store_def verifies_def verify_record_integrity_def record_source_def)

interpretation evidence_growth: related_ops "ingest_step isoformat" later_store
proof
  fix i st out st'
  assume "ingest_step isoformat i st = Inr (out, st')"
  then have "ingest_validated_evidence isoformat st (fst i) (snd i) = Inr (out, st')"
    by (simp add: ingest_step_def)
  then show "later_store st st'" by (auto simp: later_store_def ingest_iff appended_def)
qed (simp, rule later_store_trans)

text \<open>
  A reader of the store: \<open>read st q\<close> returns a record or raises. \<open>wanted q\<close> is what the query promises of
  the record's identifier, type and digest.
\<close>

locale evidence_reader =
  fixes pd :: pydantic and read :: "EvidenceStore \<Rightarrow> 'q \<Rightarrow> 'e + EvidenceRecord"
    and wanted :: "'q \<Rightarrow> EvidenceRecord \<Rightarrow> bool"
  assumes read_stored: "read st q = Inr r \<Longrightarrow>
      get_evidence st (rec_evidence_id r) = Some r \<and> verifies pd st r \<and> wanted q r"
    and read_later: "later_store st st' \<Longrightarrow> read st q = Inr r \<Longrightarrow> read st' q = Inr r"
begin

lemma read_grounded:
  "read st q = Inr r \<Longrightarrow> grounded pd st (rec_evidence_type r) (rec_evidence_id r) (rec_integrity_sha256 r)"
  using read_stored [of st q r] by (simp add: grounded_def)

lemma read_kept: "later_store st st' \<Longrightarrow> kept (read st q) (read st' q)"
  by (simp add: kept_def read_later)

lemma read_all_kept:
  assumes "later_store st st'"
  shows "kept (map_result (\<lambda>q. rbind (read st q) f) qs) (map_result (\<lambda>q. rbind (read st' q) f) qs)"
  using read_later [OF assms]
  by (auto simp: kept_def map_result_ok rbind_eq_Inr elim!: list_all2_mono)

lemma read_all_stored:
  assumes "map_result (\<lambda>q. rbind (read st q) f) qs = Inr xs" "x \<in> set xs"
  obtains q r where "q \<in> set qs" "read st q = Inr r" "f r = Inr x"
proof -
  from assms(2) obtain i where i: "i < length xs" "x = xs ! i" by (auto simp: in_set_conv_nth)
  with assms(1) have "i < length qs" "rbind (read st (qs ! i)) f = Inr x"
    by (auto simp: map_result_ok list_all2_conv_all_nth)
  then show ?thesis using that [of "qs ! i"] by (auto simp: rbind_eq_Inr)
qed

end

end
