(* ===== verification/Incident_Profile.thy ===== *)
theory Incident_Profile
  imports Policy Incident_Service
begin

text \<open>
  The frozen incident profile (\<open>app/incidents/profile.py\<close>): its data, the contract its validator
  checks, and the shipped profile. Reading and hashing the file is not modelled; a loaded profile is a
  profile with its digest.
\<close>

section \<open>Data\<close>

datatype IncidentBranch = S1 | S2 | S3 | S4

record EvidenceSchemaContract =
  sc_evidence_type :: string
  sc_schema_id :: string
  sc_schema_version :: string

record GroupingContract =
  gc_window_seconds :: int
  gc_window_kind :: string
  gc_timestamp_authority :: string
  gc_s1_s2_run_scope :: string
  gc_denied_s3_run_scope :: string

record IncidentRule =
  ir_rule_id :: string
  ir_rule_version :: string
  ir_branch :: IncidentBranch
  ir_category :: IncidentCategory
  ir_initial_severity :: IncidentSeverity
  ir_required_evidence_types :: "string list"
  ir_title_template_id :: string
  ir_title :: string
  ir_summary :: string

record IncidentProfile =
  ipr_profile_id :: string
  ipr_profile_version :: string
  ipr_incident_schema :: string
  ipr_incident_schema_version :: string
  ipr_domain :: string
  ipr_educational_only :: bool
  ipr_disclaimer :: string
  ipr_categories :: "IncidentCategory list"
  ipr_severities :: "IncidentSeverity list"
  ipr_statuses :: "IncidentStatus list"
  ipr_initial_status :: IncidentStatus
  ipr_evidence_roles :: "EvidenceRole list"
  ipr_timeline_entry_types :: "TimelineEntryType list"
  ipr_evidence_schemas :: "EvidenceSchemaContract list"
  ipr_grouping :: GroupingContract
  ipr_rules :: "IncidentRule list"
  ipr_ground_truth_used :: bool
  ipr_malicious_intent_inferred :: bool
  ipr_causality_inferred :: bool

record LoadedIncidentProfile =
  lip_profile :: IncidentProfile
  lip_sha256 :: digest

definition incident_rules :: "LoadedIncidentProfile \<Rightarrow> string \<Rightarrow> IncidentRule option" where
  "incident_rules loaded = dict_of ir_rule_id (ipr_rules (lip_profile loaded))"

section \<open>The contract\<close>

definition valid_incident_rule :: "IncidentRule \<Rightarrow> bool" where
  "valid_incident_rule r =
     (text_within 80 (ir_rule_id r) \<and> sem_ver (ir_rule_version r) \<and> text_within 80 (ir_title_template_id r)
      \<and> text_within 160 (ir_title r) \<and> text_within 600 (ir_summary r))"

definition valid_grouping :: "GroupingContract \<Rightarrow> bool" where
  "valid_grouping g =
     (gc_window_seconds g = 300 \<and> gc_window_kind g = ''FIXED_NON_OVERLAPPING_UTC''
      \<and> gc_timestamp_authority g = ''OBSERVED_AT'' \<and> gc_s1_s2_run_scope g = ''NO_SIMULATION_SCOPE''
      \<and> gc_denied_s3_run_scope g = ''UNBOUND_PROCESS_SCOPE'')"

text \<open>The literals and bounds of the fields. The pairs of a schema contract are checked by the validator.\<close>

definition valid_incident_fields :: "IncidentProfile \<Rightarrow> bool" where
  "valid_incident_fields p =
     (ipr_profile_id p = ''otsoc.incident.oil_gas_transfer'' \<and> ipr_profile_version p = ''1.0.0''
      \<and> ipr_incident_schema p = ''otsoc.incident.record'' \<and> ipr_incident_schema_version p = ''1.0.0''
      \<and> ipr_domain p = ''oil_gas_transfer'' \<and> ipr_educational_only p
      \<and> ipr_disclaimer p = ''Fictional academic incident qualification; advisory investigation context only.''
      \<and> ipr_initial_status p = OPEN \<and> valid_grouping (ipr_grouping p)
      \<and> length (ipr_rules p) = 4 \<and> list_all valid_incident_rule (ipr_rules p)
      \<and> \<not> ipr_ground_truth_used p \<and> \<not> ipr_malicious_intent_inferred p \<and> \<not> ipr_causality_inferred p)"

definition require_exact_catalog :: "'a list \<Rightarrow> 'a list \<Rightarrow> string \<Rightarrow> string + unit" where
  "require_exact_catalog values expected label =
     require (set values = set expected \<and> length values = length expected)
       (label @ '' catalog differs from the frozen contract'')"

definition expected_schemas :: "(string \<times> string \<times> string) list" where
  "expected_schemas =
     [(''protocol_semantic_event'', ''otsoc.protocol.semantic_event'', ''1.0.0''),
      (''asset_context_event'', ''otsoc.asset.context_event'', ''1.0.0''),
      (''communication_policy_finding'', ''otsoc.communication_policy.finding'', ''1.0.0''),
      (''correlation_finding'', ''otsoc.cyber_physical.correlation_finding'', ''1.0.0'')]"

definition expected_rules ::
  "(string \<times> IncidentBranch \<times> IncidentCategory \<times> IncidentSeverity \<times> string \<times> string) list" where
  "expected_rules =
     [(''IQR-S1-UNKNOWN-SOURCE-001'', S1, ASSET_IDENTITY_ANOMALY, LOW, ''INCIDENT_S1_UNKNOWN_SOURCE'',
        ''Unknown synthetic source identity''),
      (''IQR-S2-IT-PLC-POLICY-001'', S2, COMMUNICATION_POLICY_VIOLATION, MEDIUM,
        ''INCIDENT_S2_POLICY_VIOLATION'', ''Unapproved synthetic IT-to-controller communication''),
      (''IQR-S3-CV-COMMAND-001'', S3, CONTROL_COMMAND_INVESTIGATION, MEDIUM, ''INCIDENT_S3_CONTROL_COMMAND'',
        ''CV-101 control-command investigation''),
      (''IQR-S4-PUMP-FLOW-001'', S4, PROCESS_INCONSISTENCY, HIGH, ''INCIDENT_S4_PROCESS_INCONSISTENCY'',
        ''P-101/PL-101 process inconsistency'')]"

definition prohibited_phrases :: "string list" where
  "prohibited_phrases = [''confirmed attack'', ''confirmed cyberattack'', ''attacker'', ''compromised'',
     ''sabotage caused'', ''definitely caused'']"

definition claims_too_much :: "IncidentRule \<Rightarrow> bool" where
  "claims_too_much r =
     list_ex (\<lambda>phrase. sublist phrase (py_lower (ir_title r @ '' '' @ ir_summary r))) prohibited_phrases"

definition check_rule ::
  "IncidentRule list \<Rightarrow> string \<times> IncidentBranch \<times> IncidentCategory \<times> IncidentSeverity \<times> string \<times> string \<Rightarrow>
   string + unit" where
  "check_rule rs expected =
     (case dict_of ir_rule_id rs (fst expected) of
        None \<Rightarrow> Inl ''exactly the four approved qualification rules are required''
      | Some r \<Rightarrow>
          if (ir_rule_version r, ir_branch r, ir_category r, ir_initial_severity r, ir_title_template_id r,
              ir_title r) \<noteq> (''1.0.0'', snd expected)
          then Inl ''incident rule identity or mapping differs from the contract''
          else if claims_too_much r
          then Inl ''incident templates contain a prohibited intent or causal claim''
          else Inr ())"

definition required_types :: "(string \<times> string list) list" where
  "required_types =
     [(''IQR-S1-UNKNOWN-SOURCE-001'', [''communication_policy_finding'']),
      (''IQR-S2-IT-PLC-POLICY-001'', [''communication_policy_finding'']),
      (''IQR-S3-CV-COMMAND-001'', [''communication_policy_finding'', ''correlation_finding'']),
      (''IQR-S4-PUMP-FLOW-001'', [''correlation_finding''])]"

definition validate_incident_contract :: "IncidentProfile \<Rightarrow> string + unit" where
  "validate_incident_contract p =
     (let schema_pairs = map (\<lambda>s. (sc_evidence_type s, sc_schema_id s, sc_schema_version s)) (ipr_evidence_schemas p);
          ids = map ir_rule_id (ipr_rules p) in
      rbind (require_exact_catalog (ipr_categories p)
        [ASSET_IDENTITY_ANOMALY, COMMUNICATION_POLICY_VIOLATION, CONTROL_COMMAND_INVESTIGATION,
         PROCESS_INCONSISTENCY] ''incident category'') (\<lambda>_.
      rbind (require_exact_catalog (ipr_severities p) [LOW, MEDIUM, HIGH] ''incident severity'') (\<lambda>_.
      rbind (require_exact_catalog (ipr_statuses p) [OPEN, INVESTIGATING, IncidentStatus.RESOLVED]
        ''incident status'') (\<lambda>_.
      rbind (require_exact_catalog (ipr_evidence_roles p) [PRIMARY, SUPPORTING, CONTRADICTING, CONTEXT]
        ''evidence role'') (\<lambda>_.
      rbind (require_exact_catalog (ipr_timeline_entry_types p)
        [TimelineEntryType.INCIDENT_CREATED, EVIDENCE_ADDED, STATUS_CHANGED, SEVERITY_CHANGED,
         TimelineEntryType.ANALYST_NOTE_ADDED] ''timeline entry type'') (\<lambda>_.
      rbind (require (set schema_pairs = set expected_schemas \<and> length (ipr_evidence_schemas p) = 4)
        ''evidence schema catalog differs from the frozen contract'') (\<lambda>_.
      rbind (require (set ids = set (map fst expected_rules) \<and> card (set ids) = 4)
        ''exactly the four approved qualification rules are required'') (\<lambda>_.
      rbind (for_each (check_rule (ipr_rules p)) expected_rules) (\<lambda>_.
      require (list_all (\<lambda>(k, types). map_option (sort \<circ> ir_required_evidence_types)
          (dict_of ir_rule_id (ipr_rules p) k) = Some types) required_types)
        ''incident evidence requirements differ from the contract'')))))))))"

definition validate_incident_profile :: "IncidentProfile \<Rightarrow> string + unit" where
  "validate_incident_profile p =
     (if valid_incident_fields p then validate_incident_contract p else Inl ''IncidentProfile'')"

section \<open>The shipped profile\<close>

definition oil_gas_incident_v1 :: IncidentProfile where
  "oil_gas_incident_v1 = \<lparr>
     ipr_profile_id = ''otsoc.incident.oil_gas_transfer'',
     ipr_profile_version = ''1.0.0'',
     ipr_incident_schema = ''otsoc.incident.record'',
     ipr_incident_schema_version = ''1.0.0'',
     ipr_domain = ''oil_gas_transfer'',
     ipr_educational_only = True,
     ipr_disclaimer = ''Fictional academic incident qualification; advisory investigation context only.'',
     ipr_categories = [ASSET_IDENTITY_ANOMALY, COMMUNICATION_POLICY_VIOLATION, CONTROL_COMMAND_INVESTIGATION,
       PROCESS_INCONSISTENCY],
     ipr_severities = [LOW, MEDIUM, HIGH],
     ipr_statuses = [OPEN, INVESTIGATING, IncidentStatus.RESOLVED],
     ipr_initial_status = OPEN,
     ipr_evidence_roles = [PRIMARY, SUPPORTING, CONTRADICTING, CONTEXT],
     ipr_timeline_entry_types = [TimelineEntryType.INCIDENT_CREATED, EVIDENCE_ADDED, STATUS_CHANGED,
       SEVERITY_CHANGED, TimelineEntryType.ANALYST_NOTE_ADDED],
     ipr_evidence_schemas = map (\<lambda>(t, s, v). \<lparr>sc_evidence_type = t, sc_schema_id = s, sc_schema_version = v\<rparr>)
       expected_schemas,
     ipr_grouping = \<lparr>gc_window_seconds = 300, gc_window_kind = ''FIXED_NON_OVERLAPPING_UTC'',
       gc_timestamp_authority = ''OBSERVED_AT'', gc_s1_s2_run_scope = ''NO_SIMULATION_SCOPE'',
       gc_denied_s3_run_scope = ''UNBOUND_PROCESS_SCOPE''\<rparr>,
     ipr_rules = [
       \<lparr>ir_rule_id = ''IQR-S1-UNKNOWN-SOURCE-001'', ir_rule_version = ''1.0.0'', ir_branch = S1,
        ir_category = ASSET_IDENTITY_ANOMALY, ir_initial_severity = LOW,
        ir_required_evidence_types = [''communication_policy_finding''],
        ir_title_template_id = ''INCIDENT_S1_UNKNOWN_SOURCE'', ir_title = ''Unknown synthetic source identity'',
        ir_summary = ''A synthetic source identity was not resolved by the selected inventory; ''
          @ ''analyst review of the stored communication evidence is warranted, and malicious intent is not determined.''\<rparr>,
       \<lparr>ir_rule_id = ''IQR-S2-IT-PLC-POLICY-001'', ir_rule_version = ''1.0.0'', ir_branch = S2,
        ir_category = COMMUNICATION_POLICY_VIOLATION, ir_initial_severity = MEDIUM,
        ir_required_evidence_types = [''communication_policy_finding''],
        ir_title_template_id = ''INCIDENT_S2_POLICY_VIOLATION'',
        ir_title = ''Unapproved synthetic IT-to-controller communication'',
        ir_summary = ''A stored synthetic IT-to-controller communication was not approved by the selected ''
          @ ''policy; analyst review is warranted, and malicious intent is not determined.''\<rparr>,
       \<lparr>ir_rule_id = ''IQR-S3-CV-COMMAND-001'', ir_rule_version = ''1.0.0'', ir_branch = S3,
        ir_category = CONTROL_COMMAND_INVESTIGATION, ir_initial_severity = MEDIUM,
        ir_required_evidence_types = [''communication_policy_finding'', ''correlation_finding''],
        ir_title_template_id = ''INCIDENT_S3_CONTROL_COMMAND'', ir_title = ''CV-101 control-command investigation'',
        ir_summary = ''A stored CV-101 synthetic command and its verified authorization/process context ''
          @ ''warrant analyst review; correlation does not determine cause or malicious intent.''\<rparr>,
       \<lparr>ir_rule_id = ''IQR-S4-PUMP-FLOW-001'', ir_rule_version = ''1.0.0'', ir_branch = S4,
        ir_category = PROCESS_INCONSISTENCY, ir_initial_severity = HIGH,
        ir_required_evidence_types = [''correlation_finding''],
        ir_title_template_id = ''INCIDENT_S4_PROCESS_INCONSISTENCY'',
        ir_title = ''P-101/PL-101 process inconsistency'',
        ir_summary = ''Stored synthetic pump, flow, pressure, and inventory observations satisfy the configured ''
          @ ''process-inconsistency qualification; analyst review is warranted, and no cyber cause or ''
          @ ''malicious intent is asserted.''\<rparr>],
     ipr_ground_truth_used = False,
     ipr_malicious_intent_inferred = False,
     ipr_causality_inferred = False\<rparr>"

lemma oil_gas_incident_v1_valid: "validate_incident_profile oil_gas_incident_v1 = Inr ()"
  by code_simp

text \<open>The rule of an identifier in a validated profile, and what the contract pins down in it.\<close>

definition rule_approved :: "IncidentRule \<Rightarrow> string \<Rightarrow> IncidentCategory \<Rightarrow> IncidentSeverity \<Rightarrow> bool" where
  "rule_approved r k category severity =
     (ir_rule_id r = k \<and> ir_category r = category \<and> ir_initial_severity r = severity
      \<and> text_within 160 (ir_title r) \<and> text_within 600 (ir_summary r) \<and> \<not> claims_too_much r)"

lemma for_each_member: "for_each f xs = Inr () \<Longrightarrow> x \<in> set xs \<Longrightarrow> f x = Inr ()"
  by (auto simp: for_each_ok)

lemma approved_incident_rule:
  assumes "validate_incident_profile (lip_profile loaded) = Inr ()"
    "(k, branch, category, severity, template, title) \<in> set expected_rules"
  obtains r where "incident_rules loaded k = Some r" "rule_approved r k category severity" "ir_branch r = branch"
proof -
  let ?p = "lip_profile loaded"
  have fields: "valid_incident_fields ?p" and contract: "validate_incident_contract ?p = Inr ()"
    using assms(1) by (auto simp: validate_incident_profile_def split: if_splits)
  obtain u where "for_each (check_rule (ipr_rules ?p)) expected_rules = Inr u"
    using contract unfolding validate_incident_contract_def Let_def rbind_eq_Inr by blast
  then have "for_each (check_rule (ipr_rules ?p)) expected_rules = Inr ()" by (cases u) simp
  from for_each_member [OF this assms(2)] obtain r where
    r: "dict_of ir_rule_id (ipr_rules ?p) k = Some r" "ir_branch r = branch" "ir_category r = category"
      "ir_initial_severity r = severity" "\<not> claims_too_much r"
    by (auto simp: check_rule_def split: option.splits if_splits)
  then have "r \<in> set (ipr_rules ?p)" "ir_rule_id r = k" using dict_of_SomeD [OF r(1)] by simp_all
  with fields have "text_within 160 (ir_title r)" "text_within 600 (ir_summary r)"
    by (auto simp: valid_incident_fields_def list_all_iff valid_incident_rule_def)
  with r \<open>ir_rule_id r = k\<close> show ?thesis
    by (intro that [of r]) (simp_all add: incident_rules_def rule_approved_def)
qed

end
