(* ===== verification/Incident_Lineage.thy ===== *)
theory Incident_Lineage
  imports Stored_Payloads Incident_Profile
begin

text \<open>
  The verification of the evidence a qualification request selects (\<open>app/incidents/memberships.py\<close>): every
  record on the way from the selected findings down to the raw protocol event and the telemetry is read
  from the store, checked against the expected type, schema, version and digest, verified, and its
  payload is validated; the identities in the payloads have to agree with the records.
\<close>

section \<open>Requests and bundles\<close>

datatype QualificationError =
    IncidentEvidenceError string
  | IncidentQualificationError string
  | CandidateRefused string
  | Recording IncidentError

record EvidenceSelection =
  es_evidence_id :: uuid
  es_expected_integrity_sha256 :: digest

record IncidentQualificationRequest =
  iq_policy_finding :: "EvidenceSelection option"
  iq_correlation_finding :: "EvidenceSelection option"

definition require_input :: "IncidentQualificationRequest \<Rightarrow> bool" where
  "require_input request = (\<not> (iq_policy_finding request = None \<and> iq_correlation_finding request = None))"

record VerifiedIncidentEvidenceBundle =
  vb_policy_record :: "EvidenceRecord option"
  vb_policy :: "CommunicationPolicyFinding option"
  vb_correlation_record :: "EvidenceRecord option"
  vb_correlation :: "CyberPhysicalCorrelationFinding option"
  vb_semantic_record :: "EvidenceRecord option"
  vb_semantic :: "ProtocolSemanticEvent option"
  vb_context_record :: "EvidenceRecord option"
  vb_context :: "AssetContextEvent option"
  vb_raw_record :: "EvidenceRecord option"
  vb_raw :: "SyntheticModbusEvent option"
  vb_telemetry_records :: "EvidenceRecord list"

text \<open>The six values \<open>_verify_policy_lineage\<close> returns.\<close>

record CyberLineage =
  cl_semantic_record :: EvidenceRecord
  cl_semantic :: ProtocolSemanticEvent
  cl_context_record :: EvidenceRecord
  cl_context :: AssetContextEvent
  cl_raw_record :: EvidenceRecord
  cl_raw :: SyntheticModbusEvent

section \<open>Reading one record\<close>

text \<open>What a reader expects: identifier, digest, type, schema and version.\<close>

record ExpectedRecord =
  xr_evidence_id :: uuid
  xr_integrity_sha256 :: digest
  xr_evidence_type :: string
  xr_schema :: string
  xr_version :: string

definition verified_reference ::
  "pydantic \<Rightarrow> EvidenceStore \<Rightarrow> ExpectedRecord \<Rightarrow> QualificationError + EvidenceRecord" where
  "verified_reference pd st x =
     (case get_evidence st (xr_evidence_id x) of
        None \<Rightarrow> Inl (IncidentEvidenceError ''A required stored evidence record was not found.'')
      | Some r \<Rightarrow>
          if rec_evidence_type r \<noteq> xr_evidence_type x \<or> rec_payload_schema r \<noteq> xr_schema x
             \<or> rec_payload_schema_version r \<noteq> xr_version x
          then Inl (IncidentEvidenceError ''A stored evidence type/schema/version is not allowed.'')
          else if rec_integrity_sha256 r \<noteq> xr_integrity_sha256 x
          then Inl (IncidentEvidenceError ''A supplied evidence digest does not match stored evidence.'')
          else if \<not> verifies pd st r
          then Inl (IncidentEvidenceError ''A stored evidence integrity check failed.'')
          else Inr r)"

definition expect_policy :: "uuid \<Rightarrow> digest \<Rightarrow> ExpectedRecord" where
  "expect_policy i d = \<lparr>xr_evidence_id = i, xr_integrity_sha256 = d,
     xr_evidence_type = ''communication_policy_finding'', xr_schema = ''otsoc.communication_policy.finding'',
     xr_version = ''1.0.0''\<rparr>"

definition expect_correlation :: "uuid \<Rightarrow> digest \<Rightarrow> ExpectedRecord" where
  "expect_correlation i d = \<lparr>xr_evidence_id = i, xr_integrity_sha256 = d,
     xr_evidence_type = ''correlation_finding'', xr_schema = ''otsoc.cyber_physical.correlation_finding'',
     xr_version = ''1.0.0''\<rparr>"

definition expect_telemetry :: "EvidenceParentReference \<Rightarrow> ExpectedRecord" where
  "expect_telemetry p = \<lparr>xr_evidence_id = pr_evidence_id p, xr_integrity_sha256 = pr_integrity_sha256 p,
     xr_evidence_type = ''simulator_telemetry'', xr_schema = ''otsoc.simulator.telemetry'',
     xr_version = ''2.0.0''\<rparr>"

definition expect_semantic :: "uuid \<Rightarrow> digest \<Rightarrow> ExpectedRecord" where
  "expect_semantic i d = \<lparr>xr_evidence_id = i, xr_integrity_sha256 = d,
     xr_evidence_type = ''protocol_semantic_event'', xr_schema = ''otsoc.protocol.semantic_event'',
     xr_version = ''1.0.0''\<rparr>"

definition expect_context :: "uuid \<Rightarrow> digest \<Rightarrow> ExpectedRecord" where
  "expect_context i d = \<lparr>xr_evidence_id = i, xr_integrity_sha256 = d,
     xr_evidence_type = ''asset_context_event'', xr_schema = ''otsoc.asset.context_event'',
     xr_version = ''1.0.0''\<rparr>"

definition expect_raw :: "uuid \<Rightarrow> digest \<Rightarrow> ExpectedRecord" where
  "expect_raw i d = \<lparr>xr_evidence_id = i, xr_integrity_sha256 = d,
     xr_evidence_type = ''synthetic_protocol_event'', xr_schema = ''otsoc.synthetic_modbus.event'',
     xr_version = ''1.0.0''\<rparr>"

lemmas expectations = expect_policy_def expect_correlation_def expect_telemetry_def expect_semantic_def
  expect_context_def expect_raw_def

definition validate_policy_finding :: "pydantic \<Rightarrow> string \<Rightarrow> EvidenceRecord \<Rightarrow> QualificationError + CommunicationPolicyFinding" where
  "validate_policy_finding pd message r =
     model_validate (pd_policy_finding pd) valid_policy_finding (IncidentEvidenceError message) (rec_payload r)"

definition validate_semantic :: "pydantic \<Rightarrow> string \<Rightarrow> EvidenceRecord \<Rightarrow> QualificationError + ProtocolSemanticEvent" where
  "validate_semantic pd message r =
     model_validate (pd_semantic_event pd) validate_semantic_event (IncidentEvidenceError message) (rec_payload r)"

definition validate_context :: "pydantic \<Rightarrow> string \<Rightarrow> EvidenceRecord \<Rightarrow> QualificationError + AssetContextEvent" where
  "validate_context pd message r =
     model_validate (pd_context_event pd) valid_context_event (IncidentEvidenceError message) (rec_payload r)"

definition validate_raw :: "pydantic \<Rightarrow> string \<Rightarrow> EvidenceRecord \<Rightarrow> QualificationError + SyntheticModbusEvent" where
  "validate_raw pd message r =
     model_validate (pd_modbus_event pd) valid_event (IncidentEvidenceError message) (rec_payload r)"

section \<open>The lineage of a policy finding\<close>

definition valid_policy_provenance :: "PolicyFindingDerivationProvenance \<Rightarrow> bool" where
  "valid_policy_provenance v =
     (fpv_derivation_kind v = ''COMMUNICATION_POLICY_EVALUATION''
      \<and> is_sha256 (fpv_semantic_evidence_integrity_sha256 v) \<and> is_sha256 (fpv_asset_context_integrity_sha256 v)
      \<and> fpv_inventory_profile v = INVENTORY_PROFILE_ID \<and> sem_ver (fpv_inventory_version v)
      \<and> is_sha256 (fpv_inventory_sha256 v) \<and> fpv_policy_profile v = POLICY_PROFILE_ID
      \<and> sem_ver (fpv_policy_version v) \<and> is_sha256 (fpv_policy_sha256 v)
      \<and> fpv_evaluator_name v = ''otsoc_communication_policy_evaluator'' \<and> sem_ver (fpv_evaluator_version v)
      \<and> fpv_canonicalization_version v = ''otsoc-canonical-json-1'' \<and> fpv_educational_only v
      \<and> \<not> fpv_ground_truth_used v)"

definition verify_policy_lineage ::
  "pydantic \<Rightarrow> EvidenceStore \<Rightarrow> EvidenceRecord \<times> CommunicationPolicyFinding \<Rightarrow>
   QualificationError + CyberLineage" where
  "verify_policy_lineage pd st selected =
     (case selected of (policy_record, policy) \<Rightarrow>
      rbind (model_validate (pd_policy_provenance pd) valid_policy_provenance
        (IncidentEvidenceError ''The stored policy provenance is invalid.'') (rec_provenance policy_record))
        (\<lambda>provenance.
      rbind (verified_reference pd st (expect_semantic (pf_semantic_event_id policy)
        (pf_semantic_evidence_integrity_sha256 policy))) (\<lambda>semantic_record.
      rbind (verified_reference pd st (expect_context (pf_asset_context_event_id policy)
        (fpv_asset_context_integrity_sha256 provenance))) (\<lambda>context_record.
      rbind (verified_reference pd st (expect_raw (pf_source_evidence_id policy)
        (pf_source_evidence_integrity_sha256 policy))) (\<lambda>raw_record.
      rbind (validate_semantic pd ''The stored semantic event is invalid.'' semantic_record) (\<lambda>semantic.
      rbind (validate_context pd ''The stored asset-context event is invalid.'' context_record) (\<lambda>context.
      rbind (validate_raw pd ''The stored raw protocol event is invalid.'' raw_record) (\<lambda>raw.
      if se_semantic_event_id semantic \<noteq> rec_evidence_id semantic_record
         \<or> se_source_evidence_id semantic \<noteq> rec_evidence_id raw_record
         \<or> ce_asset_context_event_id context \<noteq> rec_evidence_id context_record
         \<or> ce_semantic_event_id context \<noteq> rec_evidence_id semantic_record
         \<or> ce_source_evidence_id context \<noteq> rec_evidence_id raw_record
         \<or> pf_finding_id policy \<noteq> rec_evidence_id policy_record
         \<or> pf_semantic_event_id policy \<noteq> rec_evidence_id semantic_record
         \<or> pf_asset_context_event_id policy \<noteq> rec_evidence_id context_record
      then Inl (IncidentEvidenceError ''The policy evidence lineage is inconsistent.'')
      else Inr \<lparr>cl_semantic_record = semantic_record, cl_semantic = semantic,
        cl_context_record = context_record, cl_context = context,
        cl_raw_record = raw_record, cl_raw = raw\<rparr>))))))))"

section \<open>The selected findings\<close>

definition selected_policy ::
  "pydantic \<Rightarrow> EvidenceStore \<Rightarrow> IncidentQualificationRequest \<Rightarrow>
   QualificationError + (EvidenceRecord \<times> CommunicationPolicyFinding) option" where
  "selected_policy pd st request =
     (case iq_policy_finding request of
        None \<Rightarrow> Inr None
      | Some s \<Rightarrow>
          rbind (verified_reference pd st (expect_policy (es_evidence_id s) (es_expected_integrity_sha256 s)))
            (\<lambda>policy_record.
          rbind (validate_policy_finding pd ''The stored communication-policy finding is invalid.'' policy_record) (\<lambda>policy.
          Inr (Some (policy_record, policy)))))"

text \<open>The payload of telemetry as \<open>OilGasTelemetryPayloadV2\<close> validates it: one more literal than for correlation.\<close>

definition valid_telemetry_v2 :: "CorrelationTelemetryPayload \<Rightarrow> bool" where
  "valid_telemetry_v2 p = (valid_telemetry_payload p \<and> tp_simulator_version p = ''3.0.0'')"

definition validate_correlation_telemetry_scope ::
  "pydantic \<Rightarrow> CyberPhysicalCorrelationFinding \<Rightarrow> EvidenceRecord list \<Rightarrow> QualificationError + unit" where
  "validate_correlation_telemetry_scope pd correlation records =
     for_each (\<lambda>r.
       rbind (model_validate (pd_telemetry pd) valid_telemetry_v2
         (IncidentEvidenceError ''A correlation telemetry parent is invalid.'') (rec_payload r)) (\<lambda>payload.
       require (Some (tp_simulation_id payload) = cf_simulation_id correlation
           \<and> Some (tp_configuration_hash payload) = cf_configuration_hash correlation)
         (IncidentEvidenceError ''Correlation telemetry run/configuration is incompatible.'')))
       records"

definition selected_correlation ::
  "pydantic \<Rightarrow> EvidenceStore \<Rightarrow> EvidenceSelection \<Rightarrow>
   QualificationError + (EvidenceRecord \<times> CyberPhysicalCorrelationFinding \<times> EvidenceRecord list)" where
  "selected_correlation pd st s =
     rbind (verified_reference pd st (expect_correlation (es_evidence_id s) (es_expected_integrity_sha256 s)))
       (\<lambda>correlation_record.
     rbind (model_validate (pd_correlation_finding pd) valid_finding
       (IncidentEvidenceError ''The stored cyber-physical correlation finding is invalid.'')
       (rec_payload correlation_record)) (\<lambda>correlation.
     rbind (model_validate (pd_correlation_provenance pd) valid_correlation_provenance
       (IncidentEvidenceError ''The stored correlation provenance is invalid.'')
       (rec_provenance correlation_record)) (\<lambda>provenance.
     if cf_correlation_id correlation \<noteq> rec_evidence_id correlation_record
     then Inl (IncidentEvidenceError ''The correlation identity does not match its record.'')
     else if cf_parent_set_sha256 correlation \<noteq> cv_parent_set_sha256 provenance
     then Inl (IncidentEvidenceError ''The correlation parent-set digest is inconsistent.'')
     else
     rbind (map_result (\<lambda>p. verified_reference pd st (expect_telemetry p)) (cf_telemetry_parents correlation))
       (\<lambda>telemetry_records.
     rbind (validate_correlation_telemetry_scope pd correlation telemetry_records) (\<lambda>_.
     Inr (correlation_record, correlation, telemetry_records))))))"

definition required_hash :: "digest option \<Rightarrow> string \<Rightarrow> QualificationError + digest" where
  "required_hash value label =
     (case value of
        None \<Rightarrow> Inl (IncidentEvidenceError (''The '' @ label @ '' integrity digest is missing.''))
      | Some d \<Rightarrow> Inr d)"

text \<open>The policy finding a correlation rests on replaces the selected one, and has to be the same record.\<close>

definition correlated_policy ::
  "pydantic \<Rightarrow> EvidenceStore \<Rightarrow> (EvidenceRecord \<times> CommunicationPolicyFinding) option \<Rightarrow>
   CyberPhysicalCorrelationFinding \<Rightarrow> QualificationError + (EvidenceRecord \<times> CommunicationPolicyFinding) option" where
  "correlated_policy pd st policy correlation =
     (case cf_policy_finding_evidence_id correlation of
        None \<Rightarrow> Inr policy
      | Some policy_id \<Rightarrow>
          rbind (required_hash (cf_policy_finding_evidence_integrity_sha256 correlation)
            ''correlation policy parent'') (\<lambda>digest.
          rbind (verified_reference pd st (expect_policy policy_id digest)) (\<lambda>correlated_policy_record.
          if (case policy of None \<Rightarrow> False
              | Some (policy_record, _) \<Rightarrow> rec_evidence_id correlated_policy_record \<noteq> rec_evidence_id policy_record)
          then Inl (IncidentEvidenceError ''The selected policy and correlation lineage differ.'')
          else
          rbind (validate_policy_finding pd ''The correlated policy finding is invalid.'' correlated_policy_record)
            (\<lambda>finding.
          Inr (Some (correlated_policy_record, finding))))))"

definition s3_lineage ::
  "pydantic \<Rightarrow> EvidenceStore \<Rightarrow> CyberLineage option \<Rightarrow> CyberPhysicalCorrelationFinding \<Rightarrow>
   QualificationError + CyberLineage" where
  "s3_lineage pd st lineage correlation =
     (case (cf_semantic_evidence_id correlation, cf_semantic_evidence_integrity_sha256 correlation,
            cf_asset_context_evidence_id correlation, cf_asset_context_evidence_integrity_sha256 correlation) of
        (Some semantic_id, Some semantic_digest, Some context_id, Some context_digest) \<Rightarrow>
          rbind (verified_reference pd st (expect_semantic semantic_id semantic_digest)) (\<lambda>semantic_record.
          rbind (verified_reference pd st (expect_context context_id context_digest)) (\<lambda>context_record.
          if (case lineage of None \<Rightarrow> False
              | Some l \<Rightarrow> rec_evidence_id (cl_semantic_record l) \<noteq> rec_evidence_id semantic_record)
          then Inl (IncidentEvidenceError ''The correlation semantic lineage does not match policy.'')
          else if (case lineage of None \<Rightarrow> False
              | Some l \<Rightarrow> rec_evidence_id (cl_context_record l) \<noteq> rec_evidence_id context_record)
          then Inl (IncidentEvidenceError ''The correlation asset lineage does not match policy.'')
          else
          rbind (validate_semantic pd ''The correlated semantic event is invalid.'' semantic_record) (\<lambda>semantic.
          rbind (validate_context pd ''The correlated asset-context event is invalid.'' context_record) (\<lambda>context.
          rbind (verified_reference pd st (expect_raw (se_source_evidence_id semantic)
            (se_source_evidence_integrity_sha256 semantic))) (\<lambda>raw_record.
          rbind (validate_raw pd ''The correlated raw protocol event is invalid.'' raw_record) (\<lambda>raw.
          Inr \<lparr>cl_semantic_record = semantic_record, cl_semantic = semantic,
            cl_context_record = context_record, cl_context = context,
            cl_raw_record = raw_record, cl_raw = raw\<rparr>))))))
      | _ \<Rightarrow> Inl (IncidentEvidenceError ''An S3 correlation is missing required cyber lineage.''))"

section \<open>The bundle\<close>

definition evidence_bundle ::
  "(EvidenceRecord \<times> CommunicationPolicyFinding) option \<Rightarrow>
   (EvidenceRecord \<times> CyberPhysicalCorrelationFinding \<times> EvidenceRecord list) option \<Rightarrow> CyberLineage option \<Rightarrow>
   VerifiedIncidentEvidenceBundle" where
  "evidence_bundle policy correlation lineage = \<lparr>
     vb_policy_record = map_option fst policy, vb_policy = map_option snd policy,
     vb_correlation_record = map_option fst correlation,
     vb_correlation = map_option (fst \<circ> snd) correlation,
     vb_semantic_record = map_option cl_semantic_record lineage,
     vb_semantic = map_option cl_semantic lineage,
     vb_context_record = map_option cl_context_record lineage,
     vb_context = map_option cl_context lineage,
     vb_raw_record = map_option cl_raw_record lineage,
     vb_raw = map_option cl_raw lineage,
     vb_telemetry_records = (case correlation of None \<Rightarrow> [] | Some (_, _, ts) \<Rightarrow> ts)\<rparr>"

definition verify_qualification_evidence ::
  "pydantic \<Rightarrow> EvidenceStore \<Rightarrow> IncidentQualificationRequest \<Rightarrow>
   QualificationError + VerifiedIncidentEvidenceBundle" where
  "verify_qualification_evidence pd st request =
     rbind (selected_policy pd st request) (\<lambda>selected.
     rbind (case iq_correlation_finding request of
        None \<Rightarrow> Inr (None, selected)
      | Some s \<Rightarrow>
          rbind (selected_correlation pd st s) (\<lambda>correlation.
          rbind (correlated_policy pd st selected (fst (snd correlation))) (\<lambda>policy.
          Inr (Some correlation, policy)))) (\<lambda>(correlation, policy).
     rbind (case policy of
        None \<Rightarrow> Inr None
      | Some p \<Rightarrow> rbind (verify_policy_lineage pd st p) (\<lambda>l. Inr (Some l))) (\<lambda>lineage.
     rbind (case correlation of
        None \<Rightarrow> Inr lineage
      | Some (_, finding, _) \<Rightarrow>
          if cf_correlation_rule_id finding = ''CPR-S3-CV-TRANSFER-001''
          then rbind (s3_lineage pd st lineage finding) (\<lambda>l. Inr (Some l))
          else Inr lineage) (\<lambda>lineage'.
     Inr (evidence_bundle policy correlation lineage')))))"

end
