(* ===== verification/Incident_Qualification.thy ===== *)
theory Incident_Qualification
  imports Incident_Lineage
begin

text \<open>
  The four qualification rules (\<open>app/incidents/qualification.py\<close>) and the qualification of stored evidence
  as a whole (\<open>qualify_stored_evidence\<close> of \<open>app/incidents/service.py\<close>): the verified bundle becomes a
  candidate, or nothing, and the candidate is recorded in the incident tables.
\<close>

section \<open>Candidates\<close>

definition valid_membership :: "CandidateMembership \<Rightarrow> bool" where
  "valid_membership m =
     (text_within 48 (cm_evidence_type m) \<and> text_within 80 (cm_evidence_schema m)
      \<and> sem_ver (cm_evidence_schema_version m) \<and> is_sha256 (cm_integrity_sha256 m))"

definition membership :: "EvidenceRecord \<Rightarrow> EvidenceRole \<Rightarrow> QualificationError + CandidateMembership" where
  "membership r role =
     (let m = \<lparr>cm_evidence_id = rec_evidence_id r, cm_evidence_type = rec_evidence_type r,
            cm_evidence_schema = rec_payload_schema r, cm_evidence_schema_version = rec_payload_schema_version r,
            cm_integrity_sha256 = rec_integrity_sha256 r, cm_role = role,
            cm_observed_at = rec_observed_at r, cm_received_at = rec_received_at r\<rparr> in
      if valid_membership m then Inr m else Inl (CandidateRefused ''CandidateMembership''))"

definition valid_candidate_fields :: "QualifiedIncidentCandidate \<Rightarrow> bool" where
  "valid_candidate_fields c =
     (text_within 80 (qc_qualification_rule_id c) \<and> qc_qualification_rule_version c = ''1.0.0''
      \<and> text_within 160 (qc_title c) \<and> text_within 600 (qc_summary c)
      \<and> text_within 160 (qc_run_scope c) \<and> text_within 160 (qc_configuration_scope c)
      \<and> option_all is_sha256 (qc_bound_configuration_hash c))"

definition new_candidate :: "QualifiedIncidentCandidate \<Rightarrow> QualificationError + QualifiedIncidentCandidate" where
  "new_candidate c =
     (if valid_candidate_fields c \<and> validate_primary_membership c then Inr c
      else Inl (CandidateRefused ''QualifiedIncidentCandidate''))"

definition required_value :: "'a option \<Rightarrow> string \<Rightarrow> QualificationError + 'a" where
  "required_value value label =
     (case value of
        None \<Rightarrow> Inl (IncidentQualificationError (''The verified '' @ label @ '' is required.''))
      | Some v \<Rightarrow> Inr v)"

text \<open>\<open>profile.rules[key]\<close>, a KeyError when the profile lacks the rule.\<close>

definition profile_rule :: "LoadedIncidentProfile \<Rightarrow> string \<Rightarrow> QualificationError + IncidentRule" where
  "profile_rule profile k =
     (case incident_rules profile k of None \<Rightarrow> Inl (CandidateRefused k) | Some r \<Rightarrow> Inr r)"

text \<open>\<open>str\<close> of an optional identifier.\<close>

definition str_of_id :: "uuid option \<Rightarrow> string" where
  "str_of_id v = (case v of None \<Rightarrow> ''None'' | Some u \<Rightarrow> u)"

section \<open>Which rule applies\<close>

definition is_s1 :: "VerifiedIncidentEvidenceBundle \<Rightarrow> bool" where
  "is_s1 bundle =
     (case (vb_policy bundle, vb_context bundle) of
        (Some policy, Some context) \<Rightarrow>
          pf_policy_status policy = PolicyStatus.UNKNOWN \<and> pf_reason_code policy = SOURCE_UNKNOWN
          \<and> pf_source_resolution policy = ResolutionStatus.UNKNOWN
          \<and> pf_source_asset_id policy = None \<and> pf_source_asset_key policy = None
          \<and> pf_source_role policy = None \<and> pf_source_zone policy = None
          \<and> pf_destination_resolution policy = ResolutionStatus.RESOLVED
          \<and> pf_destination_asset_key policy = Some ''PLC-01''
          \<and> pf_destination_zone policy = Some OT_CONTROL_ZONE
          \<and> ar_status (ce_source_resolution context) = ResolutionStatus.UNKNOWN
          \<and> ar_status (ce_destination_resolution context) = ResolutionStatus.RESOLVED
          \<and> ar_asset_key (ce_destination_resolution context) = Some ''PLC-01''
      | _ \<Rightarrow> False)"

definition is_s2 :: "VerifiedIncidentEvidenceBundle \<Rightarrow> bool" where
  "is_s2 bundle =
     (case vb_policy bundle of
        None \<Rightarrow> False
      | Some policy \<Rightarrow>
          pf_source_asset_key policy = Some ''IT-WS-01'' \<and> pf_source_zone policy = Some IT_ZONE
          \<and> pf_destination_asset_key policy = Some ''PLC-01''
          \<and> pf_destination_zone policy = Some OT_CONTROL_ZONE
          \<and> pf_protocol policy = ''modbus_tcp'' \<and> pf_operation_category policy = OperationCategory.READ
          \<and> pf_function_semantic policy = Some READ_INPUT_REGISTERS \<and> pf_function_code policy = 4
          \<and> pf_target_point policy = Some ''pipeline_flow_rate_m3h''
          \<and> pf_point_access_class policy = Some READ_ONLY
          \<and> pf_policy_status policy = PolicyStatus.DENIED
          \<and> pf_reason_code policy = COMMUNICATION_NOT_APPROVED
          \<and> pf_matched_rule_id policy = Some ''ACP-006'')"

definition is_s3_command :: "VerifiedIncidentEvidenceBundle \<Rightarrow> bool" where
  "is_s3_command bundle =
     (case (vb_semantic bundle, vb_context bundle) of
        (Some semantic, Some context) \<Rightarrow>
          se_operation_category semantic = OperationCategory.WRITE
          \<and> se_function_semantic semantic = Some WRITE_SINGLE_REGISTER
          \<and> se_operation_compatibility semantic = COMPATIBLE
          \<and> se_point_id semantic = Some ''control_valve_command_percent''
          \<and> se_fictional_target_component semantic = Some ''CV-101''
          \<and> (case se_decoded_value semantic of Some (DecodedDecimal d) \<Rightarrow> dec_val d = 25 | _ \<Rightarrow> False)
          \<and> ar_asset_key (ce_destination_resolution context) = Some ''PLC-01''
          \<and> (case ce_target_process_asset context of None \<Rightarrow> False | Some a \<Rightarrow> ar_asset_key a = Some ''CV-101'')
          \<and> list_ex (\<lambda>r. rr_relationship_type r = RelationshipType.CONTROLS \<and> rr_source_asset_key r = ''PLC-01''
               \<and> rr_target_ref r = ''CV-101'') (ce_relevant_relationships context)
      | _ \<Rightarrow> False)"

section \<open>S1 and S2: findings of the communication policy\<close>

definition qualify_s1 ::
  "VerifiedIncidentEvidenceBundle \<Rightarrow> LoadedIncidentProfile \<Rightarrow> QualificationError + QualifiedIncidentCandidate" where
  "qualify_s1 bundle profile =
     rbind (required_value (vb_policy bundle) ''policy finding'') (\<lambda>policy.
     rbind (required_value (vb_policy_record bundle) ''policy record'') (\<lambda>policy_record.
     rbind (required_value (vb_raw bundle) ''raw event'') (\<lambda>raw.
     rbind (required_value (vb_context bundle) ''asset context'') (\<lambda>context.
     rbind (profile_rule profile ''IQR-S1-UNKNOWN-SOURCE-001'') (\<lambda>rule.
     rbind (membership policy_record PRIMARY) (\<lambda>primary.
     (case unresolved_source_scope (me_source_identity raw) of
        None \<Rightarrow> Inl (CandidateRefused ''source identity'')
      | Some source_scope \<Rightarrow>
     new_candidate \<lparr>
       qc_qualification_rule_id = ir_rule_id rule,
       qc_qualification_rule_version = ''1.0.0'',
       qc_category = ASSET_IDENTITY_ANOMALY,
       qc_severity = IncidentSeverity.LOW,
       qc_title = ir_title rule,
       qc_summary = ir_summary rule,
       qc_primary_membership = primary,
       qc_additional_memberships = [],
       qc_identity_asset_scope = [source_scope, str_of_id (pf_destination_asset_id policy)],
       qc_process_asset_scope = [],
       qc_target_point_scope = (case pf_target_point policy of None \<Rightarrow> [] | Some p \<Rightarrow> [p]),
       qc_source_asset_id = None,
       qc_destination_asset_id = pf_destination_asset_id policy,
       qc_controller_asset_id = pf_destination_asset_id policy,
       qc_process_asset_ids = [],
       qc_process_asset_keys = [],
       qc_correlation_rule_id = None,
       qc_correlation_rule_version = None,
       qc_run_scope = ''NO_SIMULATION_SCOPE'',
       qc_configuration_scope = ''NO_SIMULATION_SCOPE'',
       qc_bound_simulation_id = None,
       qc_bound_configuration_hash = None,
       qc_s3_semantic_evidence_id = None,
       qc_grouping_anchor = ce_observed_at context,
       qc_first_observed_at = cm_observed_at primary,
       qc_last_observed_at = cm_observed_at primary,
       qc_policy_context = PolicyStatus_value (pf_policy_status policy),
       qc_correlation_context = ''UNAVAILABLE'',
       qc_evidence_completeness = ''VERIFIED_POLICY_LINEAGE''\<rparr>)))))))"

definition qualify_s2 ::
  "VerifiedIncidentEvidenceBundle \<Rightarrow> LoadedIncidentProfile \<Rightarrow> QualificationError + QualifiedIncidentCandidate" where
  "qualify_s2 bundle profile =
     rbind (required_value (vb_policy bundle) ''policy finding'') (\<lambda>policy.
     rbind (required_value (vb_policy_record bundle) ''policy record'') (\<lambda>policy_record.
     rbind (required_value (vb_semantic bundle) ''semantic event'') (\<lambda>semantic.
     rbind (profile_rule profile ''IQR-S2-IT-PLC-POLICY-001'') (\<lambda>rule.
     rbind (membership policy_record PRIMARY) (\<lambda>primary.
     new_candidate \<lparr>
       qc_qualification_rule_id = ir_rule_id rule,
       qc_qualification_rule_version = ''1.0.0'',
       qc_category = COMMUNICATION_POLICY_VIOLATION,
       qc_severity = IncidentSeverity.MEDIUM,
       qc_title = ir_title rule,
       qc_summary = ir_summary rule,
       qc_primary_membership = primary,
       qc_additional_memberships = [],
       qc_identity_asset_scope =
         [str_of_id (pf_source_asset_id policy), str_of_id (pf_destination_asset_id policy)],
       qc_process_asset_scope = [],
       qc_target_point_scope = [''pipeline_flow_rate_m3h''],
       qc_source_asset_id = pf_source_asset_id policy,
       qc_destination_asset_id = pf_destination_asset_id policy,
       qc_controller_asset_id = pf_destination_asset_id policy,
       qc_process_asset_ids = [],
       qc_process_asset_keys = [],
       qc_correlation_rule_id = None,
       qc_correlation_rule_version = None,
       qc_run_scope = ''NO_SIMULATION_SCOPE'',
       qc_configuration_scope = ''NO_SIMULATION_SCOPE'',
       qc_bound_simulation_id = None,
       qc_bound_configuration_hash = None,
       qc_s3_semantic_evidence_id = None,
       qc_grouping_anchor = se_observed_at semantic,
       qc_first_observed_at = cm_observed_at primary,
       qc_last_observed_at = cm_observed_at primary,
       qc_policy_context = PolicyStatus_value (pf_policy_status policy),
       qc_correlation_context = ''UNAVAILABLE'',
       qc_evidence_completeness = ''VERIFIED_POLICY_LINEAGE''\<rparr>)))))"

section \<open>S3: a command to the valve\<close>

definition process_pairs :: "CyberPhysicalCorrelationFinding \<Rightarrow> (string \<times> uuid) list" where
  "process_pairs correlation =
     sort_key fst (map (\<lambda>a. (pa_asset_key a, pa_asset_id a)) (cf_process_assets correlation))"

definition s3_correlation_match :: "CyberPhysicalCorrelationFinding option \<Rightarrow> bool" where
  "s3_correlation_match correlation =
     (case correlation of
        None \<Rightarrow> False
      | Some f \<Rightarrow> cf_correlation_rule_id f = ''CPR-S3-CV-TRANSFER-001'' \<and> cf_correlation_rule_version f = ''1.0.0''
          \<and> cf_correlation_status f = CORRELATED \<and> cf_reason_code f = CORRELATION_MATCH)"

text \<open>Primary and additional memberships, severity and the scopes of the run, by the policy status.\<close>

definition s3_parts ::
  "CommunicationPolicyFinding \<Rightarrow> EvidenceRecord \<Rightarrow> ProtocolSemanticEvent \<Rightarrow>
   CyberPhysicalCorrelationFinding option \<Rightarrow> EvidenceRecord option \<Rightarrow>
   QualificationError + (CandidateMembership \<times> CandidateMembership list \<times> IncidentSeverity \<times> string \<times> string)" where
  "s3_parts policy policy_record semantic correlation correlation_record =
     (let correlated = s3_correlation_match correlation in
      if pf_policy_status policy = PolicyStatus.DENIED then
        rbind (membership policy_record PRIMARY) (\<lambda>primary.
        rbind (case correlation_record of
            None \<Rightarrow> Inr []
          | Some r \<Rightarrow> rbind (membership r (if correlated then EvidenceRole.SUPPORTING else CONTEXT)) (\<lambda>m. Inr [m]))
          (\<lambda>additional.
        Inr (primary, additional, if correlated then IncidentSeverity.HIGH else IncidentSeverity.MEDIUM,
          ''UNBOUND_PROCESS_SCOPE:'' @ se_semantic_event_id semantic, ''UNBOUND_PROCESS_SCOPE'')))
      else
        rbind (required_value correlation ''correlation finding'') (\<lambda>approved_correlation.
        rbind (required_value correlation_record ''correlation record'') (\<lambda>record.
        rbind (membership record PRIMARY) (\<lambda>primary.
        rbind (membership policy_record CONTEXT) (\<lambda>policy_membership.
        rbind (required_value (cf_simulation_id approved_correlation) ''S3 simulation ID'') (\<lambda>run_scope.
        rbind (required_value (cf_configuration_hash approved_correlation) ''S3 configuration hash'')
          (\<lambda>configuration_scope.
        Inr (primary, [policy_membership], IncidentSeverity.MEDIUM, run_scope, configuration_scope))))))))"

definition s3_process ::
  "AssetContextEvent \<Rightarrow> CyberPhysicalCorrelationFinding option \<Rightarrow> QualificationError + (string \<times> uuid) list" where
  "s3_process context correlation =
     (case correlation of
        Some f \<Rightarrow> Inr (process_pairs f)
      | None \<Rightarrow>
          rbind (required_value (ce_target_process_asset context) ''S3 target process asset'') (\<lambda>target.
          rbind (required_value (ar_asset_key target) ''S3 process asset key'') (\<lambda>asset_key.
          rbind (required_value (ar_asset_id target) ''S3 process asset ID'') (\<lambda>asset_id.
          Inr [(asset_key, asset_id)]))))"

text \<open>The run a correlation binds the incident to, when it names both run and configuration.\<close>

definition s3_binding :: "CyberPhysicalCorrelationFinding option \<Rightarrow> (string option \<times> digest option)" where
  "s3_binding correlation =
     (case correlation of
        None \<Rightarrow> (None, None)
      | Some f \<Rightarrow> if cf_simulation_id f \<noteq> None \<and> cf_configuration_hash f \<noteq> None
          then (cf_simulation_id f, cf_configuration_hash f) else (None, None))"

fun CorrelationStatus_value :: "CorrelationStatus \<Rightarrow> string" where
  "CorrelationStatus_value CORRELATED = ''CORRELATED''"
| "CorrelationStatus_value NOT_CORRELATED = ''NOT_CORRELATED''"
| "CorrelationStatus_value INSUFFICIENT_EVIDENCE = ''INSUFFICIENT_EVIDENCE''"
| "CorrelationStatus_value INDETERMINATE = ''INDETERMINATE''"

definition s3_candidate ::
  "IncidentRule \<Rightarrow> CommunicationPolicyFinding \<Rightarrow> ProtocolSemanticEvent \<Rightarrow> CyberPhysicalCorrelationFinding option \<Rightarrow>
   CandidateMembership \<times> CandidateMembership list \<times> IncidentSeverity \<times> string \<times> string \<Rightarrow>
   (string \<times> uuid) list \<Rightarrow> QualifiedIncidentCandidate" where
  "s3_candidate rule policy semantic correlation parts pairs =
     (case parts of (primary, additional, severity, run_scope, configuration_scope) \<Rightarrow> \<lparr>
       qc_qualification_rule_id = ir_rule_id rule,
       qc_qualification_rule_version = ''1.0.0'',
       qc_category = CONTROL_COMMAND_INVESTIGATION,
       qc_severity = severity,
       qc_title = ir_title rule,
       qc_summary = ir_summary rule,
       qc_primary_membership = primary,
       qc_additional_memberships = additional,
       qc_identity_asset_scope = filter (\<lambda>v. v \<noteq> ''None'')
         [str_of_id (pf_source_asset_id policy), str_of_id (pf_destination_asset_id policy)],
       qc_process_asset_scope = [''CV-101''],
       qc_target_point_scope = [''control_valve_command_percent''],
       qc_source_asset_id = pf_source_asset_id policy,
       qc_destination_asset_id = pf_destination_asset_id policy,
       qc_controller_asset_id = pf_destination_asset_id policy,
       qc_process_asset_ids = map snd pairs,
       qc_process_asset_keys = map fst pairs,
       qc_correlation_rule_id = Some ''CPR-S3-CV-TRANSFER-001'',
       qc_correlation_rule_version = Some ''1.0.0'',
       qc_run_scope = run_scope,
       qc_configuration_scope = configuration_scope,
       qc_bound_simulation_id = fst (s3_binding correlation),
       qc_bound_configuration_hash = snd (s3_binding correlation),
       qc_s3_semantic_evidence_id = Some (se_semantic_event_id semantic),
       qc_grouping_anchor = se_observed_at semantic,
       qc_first_observed_at = Min (set (map cm_observed_at (primary # additional))),
       qc_last_observed_at = Max (set (map cm_observed_at (primary # additional))),
       qc_policy_context = PolicyStatus_value (pf_policy_status policy),
       qc_correlation_context =
         (case correlation of None \<Rightarrow> ''UNAVAILABLE'' | Some f \<Rightarrow> CorrelationStatus_value (cf_correlation_status f)),
       qc_evidence_completeness = ''VERIFIED_S3_CHAIN''\<rparr>)"

definition qualify_s3 ::
  "VerifiedIncidentEvidenceBundle \<Rightarrow> LoadedIncidentProfile \<Rightarrow>
   QualificationError + QualifiedIncidentCandidate option" where
  "qualify_s3 bundle profile =
     rbind (required_value (vb_policy bundle) ''policy finding'') (\<lambda>policy.
     rbind (required_value (vb_policy_record bundle) ''policy record'') (\<lambda>policy_record.
     rbind (required_value (vb_semantic bundle) ''semantic event'') (\<lambda>semantic.
     rbind (required_value (vb_context bundle) ''asset context'') (\<lambda>context.
     (let correlation = vb_correlation bundle in
      if pf_policy_status policy = PolicyStatus.APPROVED \<and> \<not> s3_correlation_match correlation then Inr None
      else if pf_policy_status policy \<notin> {PolicyStatus.APPROVED, PolicyStatus.DENIED} then Inr None
      else if (case correlation of None \<Rightarrow> False
               | Some f \<Rightarrow> cf_correlation_rule_id f \<noteq> ''CPR-S3-CV-TRANSFER-001'')
      then Inl (IncidentQualificationError ''The selected correlation is unrelated to S3.'')
      else
      rbind (profile_rule profile ''IQR-S3-CV-COMMAND-001'') (\<lambda>rule.
      rbind (s3_parts policy policy_record semantic correlation (vb_correlation_record bundle)) (\<lambda>parts.
      rbind (s3_process context correlation) (\<lambda>pairs.
      rbind (new_candidate (s3_candidate rule policy semantic correlation parts pairs)) (\<lambda>c.
      Inr (Some c))))))))))"

section \<open>S4: a running pump without flow\<close>

definition s4_finding_qualifies :: "CyberPhysicalCorrelationFinding \<Rightarrow> bool" where
  "s4_finding_qualifies f =
     (cf_correlation_rule_id f = ''CPR-S4-PUMP-FLOW-001'' \<and> cf_correlation_rule_version f = ''1.0.0''
      \<and> cf_correlation_status f = CORRELATED \<and> cf_reason_code f = CORRELATION_MATCH
      \<and> cf_primary_cyber_evidence_id f = None \<and> cf_semantic_evidence_id f = None
      \<and> cf_asset_context_evidence_id f = None \<and> cf_policy_finding_evidence_id f = None
      \<and> \<not> cf_cyber_cause_asserted f \<and> \<not> cf_causality_inferred f \<and> \<not> cf_ground_truth_used f)"

definition qualify_s4 ::
  "VerifiedIncidentEvidenceBundle \<Rightarrow> LoadedIncidentProfile \<Rightarrow>
   QualificationError + QualifiedIncidentCandidate option" where
  "qualify_s4 bundle profile =
     rbind (required_value (vb_correlation bundle) ''correlation finding'') (\<lambda>correlation.
     if \<not> s4_finding_qualifies correlation then Inr None
     else if pa_asset_key ` set (cf_process_assets correlation) \<noteq> {''P-101'', ''PL-101'', ''TK-101'', ''TK-102''}
     then Inr None
     else
     rbind (required_value (vb_correlation_record bundle) ''correlation record'') (\<lambda>correlation_record.
     rbind (membership correlation_record PRIMARY) (\<lambda>primary.
     rbind (profile_rule profile ''IQR-S4-PUMP-FLOW-001'') (\<lambda>rule.
     rbind (required_value (cf_simulation_id correlation) ''S4 simulation ID'') (\<lambda>simulation_id.
     rbind (required_value (cf_configuration_hash correlation) ''S4 configuration hash'') (\<lambda>configuration_hash.
     rbind (required_value (cf_anchor_time correlation) ''S4 anchor time'') (\<lambda>anchor_time.
     rbind (new_candidate \<lparr>
       qc_qualification_rule_id = ir_rule_id rule,
       qc_qualification_rule_version = ''1.0.0'',
       qc_category = PROCESS_INCONSISTENCY,
       qc_severity = IncidentSeverity.HIGH,
       qc_title = ir_title rule,
       qc_summary = ir_summary rule,
       qc_primary_membership = primary,
       qc_additional_memberships = [],
       qc_identity_asset_scope = [],
       qc_process_asset_scope = map fst (process_pairs correlation),
       qc_target_point_scope = sort (cf_affected_process_points correlation),
       qc_source_asset_id = None,
       qc_destination_asset_id = None,
       qc_controller_asset_id = None,
       qc_process_asset_ids = map snd (process_pairs correlation),
       qc_process_asset_keys = map fst (process_pairs correlation),
       qc_correlation_rule_id = Some ''CPR-S4-PUMP-FLOW-001'',
       qc_correlation_rule_version = Some ''1.0.0'',
       qc_run_scope = simulation_id,
       qc_configuration_scope = configuration_hash,
       qc_bound_simulation_id = Some simulation_id,
       qc_bound_configuration_hash = Some configuration_hash,
       qc_s3_semantic_evidence_id = None,
       qc_grouping_anchor = anchor_time,
       qc_first_observed_at = cm_observed_at primary,
       qc_last_observed_at = cm_observed_at primary,
       qc_policy_context = ''UNAVAILABLE'',
       qc_correlation_context = CorrelationStatus_value (cf_correlation_status correlation),
       qc_evidence_completeness = ''VERIFIED_S4_CORRELATION''\<rparr>) (\<lambda>c.
     Inr (Some c)))))))))"

section \<open>Qualification\<close>

definition qualify_incident ::
  "VerifiedIncidentEvidenceBundle \<Rightarrow> LoadedIncidentProfile \<Rightarrow>
   QualificationError + QualifiedIncidentCandidate option" where
  "qualify_incident bundle profile =
     (if (case vb_correlation bundle of None \<Rightarrow> False
          | Some f \<Rightarrow> cf_correlation_rule_id f = ''CPR-S4-PUMP-FLOW-001'')
      then if vb_policy bundle \<noteq> None
           then Inl (IncidentQualificationError ''S4 does not accept policy or cyber evidence.'')
           else qualify_s4 bundle profile
      else if vb_policy bundle = None then Inr None
      else if is_s1 bundle then rbind (qualify_s1 bundle profile) (\<lambda>c. Inr (Some c))
      else if is_s2 bundle then rbind (qualify_s2 bundle profile) (\<lambda>c. Inr (Some c))
      else if is_s3_command bundle then qualify_s3 bundle profile
      else Inr None)"

definition profile_key :: "LoadedIncidentProfile \<Rightarrow> IncidentProfileKey" where
  "profile_key profile = \<lparr>pk_profile_id = ipr_profile_id (lip_profile profile),
     pk_profile_version = ipr_profile_version (lip_profile profile), pk_sha256 = lip_sha256 profile\<rparr>"

record IncidentQualificationReceipt =
  qr_outcome :: Outcome
  qr_incident :: "Incident option"
  qr_reason :: string

text \<open>
  \<open>qualify_stored_evidence\<close>: evidence and incidents are tables of one database; the operation reads the
  evidence and writes the incidents.
\<close>

definition qualify_stored_evidence ::
  "pydantic \<Rightarrow> LoadedIncidentProfile \<Rightarrow> EvidenceStore \<Rightarrow> IncidentQualificationRequest \<Rightarrow> timestamp \<Rightarrow> string \<Rightarrow>
   IncidentDb \<Rightarrow> QualificationError + (IncidentQualificationReceipt \<times> IncidentDb)" where
  "qualify_stored_evidence pd profile st request now request_id db =
     rbind (verify_qualification_evidence pd st request) (\<lambda>bundle.
     rbind (qualify_incident bundle profile) (\<lambda>candidate.
     case candidate of
       None \<Rightarrow> Inr (\<lparr>qr_outcome = evidence_only, qr_incident = None, qr_reason = outcome_reason evidence_only\<rparr>, db)
     | Some c \<Rightarrow>
         (case record_candidate (profile_key profile) now request_id c db of
            Inl e \<Rightarrow> Inl (Recording e)
          | Inr (outcome, incident, db') \<Rightarrow>
              Inr (\<lparr>qr_outcome = outcome, qr_incident = Some incident, qr_reason = outcome_reason outcome\<rparr>, db'))))"

end
