(* ===== verification/Correlation_Persistence.thy ===== *)
theory Correlation_Persistence
  imports Stored_Payloads Correlation_Guarantees
begin

text \<open>
  Correlating stored evidence and storing the finding (\<open>app/correlation/persistence.py\<close>). The request
  names the parents by identifier and expected digest; they are read back from the evidence store and
  verified, turned into the input of the evaluation, and the finding is ingested into the same store.
  The profiles that the code loads from its files are represented by the loaded correlation profile.
\<close>

section \<open>Requests\<close>

record ParentSelection =
  sel_evidence_id :: uuid
  sel_expected_integrity_sha256 :: digest

record CorrelationPersistenceRequest =
  cq_rule_id :: string
  cq_semantic_parent :: "ParentSelection option"
  cq_asset_context_parent :: "ParentSelection option"
  cq_policy_parent :: "ParentSelection option"
  cq_telemetry_parents :: "ParentSelection list"
  cq_reevaluates_parent :: "ParentSelection option"

record CorrelationPersistenceResult =
  cps_receipt :: EvidenceIngestionReceipt
  cps_finding :: CyberPhysicalCorrelationFinding

text \<open>The exceptions of the evaluation and those of the evidence store.\<close>

datatype PersistenceError = Correlation CorrelationError | Ingestion EvidenceError

section \<open>Reading the parents\<close>

definition verified_record ::
  "pydantic \<Rightarrow> EvidenceStore \<Rightarrow> uuid \<Rightarrow> string \<Rightarrow> CorrelationError + EvidenceRecord" where
  "verified_record pd st evidence_id expected_type =
     (case get_evidence st evidence_id of
        None \<Rightarrow> Inl (CorrelationEvidenceError ''A required stored parent was not found.'')
      | Some r \<Rightarrow>
          if rec_evidence_type r \<noteq> expected_type
          then Inl (CorrelationEvidenceError ''A required stored parent was not found.'')
          else if \<not> verifies pd st r
          then Inl (CorrelationEvidenceError ''A stored parent integrity check failed.'')
          else Inr r)"

definition verified_selection ::
  "pydantic \<Rightarrow> EvidenceStore \<Rightarrow> ParentSelection \<Rightarrow> string \<Rightarrow> CorrelationError + EvidenceRecord" where
  "verified_selection pd st selection expected_type =
     rbind (verified_record pd st (sel_evidence_id selection) expected_type) (\<lambda>r.
     if rec_integrity_sha256 r \<noteq> sel_expected_integrity_sha256 selection
     then Inl (CorrelationEvidenceError ''A supplied parent digest does not match stored evidence.'')
     else Inr r)"

definition reference :: "EvidenceRecord \<Rightarrow> CorrelationError + EvidenceParentReference" where
  "reference r =
     (let p = \<lparr>pr_evidence_id = rec_evidence_id r, pr_evidence_type = rec_evidence_type r,
            pr_integrity_sha256 = rec_integrity_sha256 r, pr_observed_at = rec_observed_at r,
            pr_sequence_number = rec_sequence_number r\<rparr> in
      if valid_parent_reference p then Inr p else Inl (ValidationError ''EvidenceParentReference''))"

definition telemetry_from_record :: "pydantic \<Rightarrow> EvidenceRecord \<Rightarrow> CorrelationError + TelemetryEvidence" where
  "telemetry_from_record pd r =
     rbind (model_validate (pd_telemetry pd) valid_telemetry_payload
       (CorrelationEvidenceError ''A stored telemetry payload is invalid.'') (rec_payload r)) (\<lambda>payload.
     (let t = \<lparr>te_evidence_id = rec_evidence_id r, te_evidence_type = ''simulator_telemetry'',
            te_integrity_sha256 = rec_integrity_sha256 r, te_observed_at = rec_observed_at r,
            te_sequence_number = (case rec_sequence_number r of None \<Rightarrow> 0 | Some n \<Rightarrow> n),
            te_payload_schema = ''otsoc.simulator.telemetry'', te_payload_schema_version = ''2.0.0'',
            te_payload = payload\<rparr> in
      if valid_telemetry t then Inr t else Inl (ValidationError ''TelemetryEvidence'')))"

definition validate_s4_parent_boundary :: "CorrelationPersistenceRequest \<Rightarrow> CorrelationError + unit" where
  "validate_s4_parent_boundary request =
     (if cq_semantic_parent request \<noteq> None \<or> cq_asset_context_parent request \<noteq> None
         \<or> cq_policy_parent request \<noteq> None
      then Inl (CorrelationEvidenceError ''S4 does not accept cyber, context, or policy parents.'')
      else Inr ())"

text \<open>\<open>float(d)\<close> of a Decimal: correctly rounded.\<close>

definition float_of_decimal :: "decimal \<Rightarrow> f64" where
  "float_of_decimal d = f64_round (dec_val d)"

text \<open>The command of a semantic event that satisfies the S3 contract: its value as a float.\<close>

definition s3_command_value :: "ProtocolSemanticEvent \<Rightarrow> f64 option" where
  "s3_command_value semantic =
     (case se_decoded_value semantic of
        Some (DecodedDecimal d) \<Rightarrow>
          if se_operation_category semantic \<noteq> OperationCategory.WRITE
             \<or> se_function_semantic semantic \<noteq> Some WRITE_SINGLE_REGISTER
             \<or> se_operation_compatibility semantic \<noteq> COMPATIBLE
             \<or> se_point_id semantic \<noteq> Some ''control_valve_command_percent''
             \<or> se_fictional_target_component semantic \<noteq> Some ''CV-101''
             \<or> float_of_decimal d \<noteq> 25
          then None else Some (float_of_decimal d)
      | _ \<Rightarrow> None)"

definition controls_cv101 :: "AssetContextEvent \<Rightarrow> bool" where
  "controls_cv101 context =
     list_ex (\<lambda>r. RelationshipType_value (rr_relationship_type r) = ''CONTROLS''
        \<and> rr_source_asset_key r = ''PLC-01'' \<and> rr_target_ref r = ''CV-101'')
       (ce_relevant_relationships context)"

definition s3_context_matches :: "AssetContextEvent \<Rightarrow> EvidenceRecord \<Rightarrow> bool" where
  "s3_context_matches context semantic_record =
     (ce_semantic_event_id context = rec_evidence_id semantic_record
      \<and> ce_semantic_evidence_integrity_sha256 context = rec_integrity_sha256 semantic_record
      \<and> ar_asset_key (ce_destination_resolution context) = Some ''PLC-01''
      \<and> (case ce_target_process_asset context of None \<Rightarrow> False | Some a \<Rightarrow> ar_asset_key a = Some ''CV-101'')
      \<and> controls_cv101 context)"

definition s3_policy_reference ::
  "pydantic \<Rightarrow> EvidenceStore \<Rightarrow> CorrelationPersistenceRequest \<Rightarrow> EvidenceRecord \<Rightarrow> EvidenceRecord \<Rightarrow>
   CorrelationError + (EvidenceParentReference option \<times> string)" where
  "s3_policy_reference pd st request semantic_record context_record =
     (case cq_policy_parent request of
        None \<Rightarrow> Inr (None, ''UNAVAILABLE'')
      | Some selection \<Rightarrow>
          rbind (verified_selection pd st selection ''communication_policy_finding'') (\<lambda>policy_record.
          rbind (model_validate (pd_policy_finding pd) valid_policy_finding
            (CorrelationEvidenceError ''The policy parent payload is invalid.'') (rec_payload policy_record))
            (\<lambda>finding.
          if pf_semantic_event_id finding \<noteq> rec_evidence_id semantic_record
             \<or> pf_asset_context_event_id finding \<noteq> rec_evidence_id context_record
             \<or> pf_semantic_evidence_integrity_sha256 finding \<noteq> rec_integrity_sha256 semantic_record
          then Inl (CorrelationEvidenceError ''The policy finding does not match the S3 lineage.'')
          else
          rbind (reference policy_record) (\<lambda>policy_reference.
          Inr (Some policy_reference, PolicyStatus_value (pf_policy_status finding))))))"

definition s3_cyber_context ::
  "pydantic \<Rightarrow> EvidenceStore \<Rightarrow> CorrelationPersistenceRequest \<Rightarrow> CorrelationError + CyberParentContext" where
  "s3_cyber_context pd st request =
     (case (cq_semantic_parent request, cq_asset_context_parent request) of
        (Some semantic_parent, Some context_parent) \<Rightarrow>
          rbind (verified_selection pd st semantic_parent ''protocol_semantic_event'') (\<lambda>semantic_record.
          rbind (verified_selection pd st context_parent ''asset_context_event'') (\<lambda>context_record.
          (let invalid = CorrelationEvidenceError ''An S3 parent payload is invalid.'' in
           rbind (model_validate (pd_semantic_event pd) validate_semantic_event invalid
             (rec_payload semantic_record)) (\<lambda>semantic.
           rbind (model_validate (pd_context_event pd) valid_context_event invalid
             (rec_payload context_record)) (\<lambda>context.
           if se_semantic_event_id semantic \<noteq> rec_evidence_id semantic_record
           then Inl (CorrelationEvidenceError ''The semantic payload identity does not match its record.'')
           else
           rbind (verified_record pd st (se_source_evidence_id semantic) ''synthetic_protocol_event'')
             (\<lambda>raw_record.
           if rec_integrity_sha256 raw_record \<noteq> se_source_evidence_integrity_sha256 semantic
           then Inl (CorrelationEvidenceError ''The semantic event references a substituted raw parent.'')
           else
           (case s3_command_value semantic of
              None \<Rightarrow> Inl (CorrelationEvidenceError ''The semantic parent does not match the S3 command contract.'')
            | Some command_value \<Rightarrow>
           if \<not> s3_context_matches context semantic_record
           then Inl (CorrelationEvidenceError ''The asset context does not match the S3 relationship.'')
           else
           rbind (s3_policy_reference pd st request semantic_record context_record)
             (\<lambda>(policy_reference, policy_status).
           rbind (reference raw_record) (\<lambda>raw_parent.
           rbind (reference semantic_record) (\<lambda>semantic_reference.
           rbind (reference context_record) (\<lambda>context_reference.
           (let cyber = \<lparr>cy_raw_parent = raw_parent, cy_semantic_parent = semantic_reference,
                  cy_asset_context_parent = context_reference, cy_policy_parent = policy_reference,
                  cy_command_point_id = ''control_valve_command_percent'',
                  cy_command_target_asset_key = ''CV-101'', cy_command_value_percent = command_value,
                  cy_command_observed_at = se_observed_at semantic, cy_controller_asset_key = ''PLC-01'',
                  cy_relationship_type = ''CONTROLS'', cy_relationship_target_asset_key = ''CV-101'',
                  cy_policy_context_status = policy_status\<rparr> in
            if valid_cyber_context cyber then Inr cyber
            else Inl (ValidationError ''CyberParentContext'')))))))))))))
      | _ \<Rightarrow> Inl (CorrelationEvidenceError ''S3 requires semantic and asset-context parents.''))"

definition previous_reference ::
  "pydantic \<Rightarrow> EvidenceStore \<Rightarrow> LoadedCorrelationProfile \<Rightarrow> CorrelationRule \<Rightarrow> ParentSelection option \<Rightarrow>
   CorrelationError + EvidenceParentReference option" where
  "previous_reference pd st profile rule selection =
     (case selection of
        None \<Rightarrow> Inr None
      | Some s \<Rightarrow>
          rbind (verified_selection pd st s CORRELATION_EVIDENCE_TYPE) (\<lambda>previous.
          rbind (model_validate (pd_correlation_finding pd) valid_finding
            (CorrelationEvidenceError ''The prior correlation finding payload is invalid.'')
            (rec_payload previous)) (\<lambda>finding.
          if cf_correlation_profile_id finding \<noteq> cpr_profile_id (lcp_profile profile)
             \<or> cf_correlation_profile_version finding \<noteq> cpr_profile_version (lcp_profile profile)
             \<or> cf_correlation_profile_sha256 finding \<noteq> lcp_sha256 profile
             \<or> cf_correlation_rule_id finding \<noteq> cru_rule_id rule
             \<or> cf_correlation_rule_version finding \<noteq> cru_rule_version rule
          then Inl (CorrelationEvidenceError ''The prior finding is not compatible with this re-evaluation.'')
          else rbind (reference previous) (\<lambda>p. Inr (Some p)))))"

definition branch_context ::
  "pydantic \<Rightarrow> EvidenceStore \<Rightarrow> CorrelationRule \<Rightarrow> CorrelationPersistenceRequest \<Rightarrow>
   CorrelationError + CyberParentContext option" where
  "branch_context pd st rule request =
     (if cru_evaluator_branch rule = S3
      then rbind (s3_cyber_context pd st request) (\<lambda>cyber. Inr (Some cyber))
      else rbind (validate_s4_parent_boundary request) (\<lambda>_. Inr None))"

text \<open>From the request to the input of the evaluation.\<close>

definition correlation_input ::
  "pydantic \<Rightarrow> LoadedCorrelationProfile \<Rightarrow> EvidenceStore \<Rightarrow> CorrelationPersistenceRequest \<Rightarrow>
   CorrelationError + CorrelationEvaluationInput" where
  "correlation_input pd profile st request =
     (case rules profile (cq_rule_id request) of
        None \<Rightarrow> Inl (CorrelationEvidenceError ''The requested correlation rule is unsupported.'')
      | Some rule \<Rightarrow>
          rbind (map_result (\<lambda>item. rbind (verified_selection pd st item ''simulator_telemetry'')
            (telemetry_from_record pd)) (cq_telemetry_parents request)) (\<lambda>telemetry.
          rbind (branch_context pd st rule request) (\<lambda>cyber.
          rbind (previous_reference pd st profile rule (cq_reevaluates_parent request)) (\<lambda>reevaluates.
          (let input = \<lparr>ci_profile_id = cpr_profile_id (lcp_profile profile),
                 ci_profile_version = cpr_profile_version (lcp_profile profile),
                 ci_profile_sha256 = lcp_sha256 profile, ci_rule_id = cru_rule_id rule,
                 ci_rule_version = cru_rule_version rule, ci_cyber_context = cyber,
                 ci_telemetry = telemetry, ci_available_point_ids = cru_point_ids rule,
                 ci_reevaluates_parent = reevaluates\<rparr> in
           if valid_evaluation_input input then Inr input
           else Inl (ValidationError ''CorrelationEvaluationInput''))))))"

section \<open>Storing the finding\<close>

definition maximum_sequence :: "TelemetryEvidence list \<Rightarrow> int" where
  "maximum_sequence telemetry =
     (case max_option (map te_sequence_number telemetry) of None \<Rightarrow> 0 | Some n \<Rightarrow> n)"

definition finding_envelope ::
  "BuiltCorrelationFinding \<Rightarrow> TelemetryEvidence list \<Rightarrow> CorrelationEvidenceEnvelope" where
  "finding_envelope built telemetry = \<lparr>
     ee_source_key = CORRELATION_SOURCE_KEY, ee_source_event_id = bf_source_event_id built,
     ee_evidence_type = CORRELATION_EVIDENCE_TYPE,
     ee_observed_at = cf_evidence_observed_at (bf_finding built),
     ee_sequence_number = maximum_sequence telemetry, ee_payload_schema = CORRELATION_FINDING_SCHEMA,
     ee_payload_schema_version = CORRELATION_FINDING_SCHEMA_VERSION,
     ee_payload = bf_finding built, ee_provenance = bf_provenance built\<rparr>"

text \<open>The envelope as the evidence store takes it, dumped to JSON.\<close>

definition envelope_request :: "pydantic \<Rightarrow> CorrelationEvidenceEnvelope \<Rightarrow> EvidenceRequest" where
  "envelope_request pd e = \<lparr>
     er_source_key = ee_source_key e, er_source_event_id = ee_source_event_id e,
     er_evidence_type = ee_evidence_type e, er_observed_at = ee_observed_at e,
     er_sequence_number = ee_sequence_number e, er_payload_schema = ee_payload_schema e,
     er_payload_schema_version = ee_payload_schema_version e,
     er_payload = pd_dump_finding pd (ee_payload e),
     er_provenance = pd_dump_provenance pd (ee_provenance e)\<rparr>"

definition ingest_internal_evidence ::
  "pydantic \<Rightarrow> EvidenceStore \<Rightarrow> CorrelationEvidenceEnvelope \<Rightarrow> timestamp \<Rightarrow>
   EvidenceError + (EvidenceIngestionReceipt \<times> EvidenceStore)" where
  "ingest_internal_evidence pd st e now =
     ingest_validated_evidence (pd_isoformat pd) st (envelope_request pd e) now"

definition persist_correlation_finding ::
  "pydantic \<Rightarrow> LoadedCorrelationProfile \<Rightarrow> EvidenceStore \<Rightarrow> CorrelationPersistenceRequest \<Rightarrow> timestamp \<Rightarrow>
   PersistenceError + (CorrelationPersistenceResult \<times> EvidenceStore)" where
  "persist_correlation_finding pd profile st request now =
     rbind (raising Correlation (correlation_input pd profile st request)) (\<lambda>input.
     rbind (raising Correlation (evaluate_correlation (pd_isoformat pd) input profile)) (\<lambda>built.
     rbind (raising Correlation (new_envelope (finding_envelope built (ci_telemetry input)))) (\<lambda>envelope.
     rbind (raising Ingestion (ingest_internal_evidence pd st envelope now)) (\<lambda>(receipt, st').
     if rc_evidence_id receipt \<noteq> cf_correlation_id (bf_finding built)
     then Inl (Correlation (CorrelationEvidenceError ''The correlation evidence identity is inconsistent.''))
     else Inr (\<lparr>cps_receipt = receipt, cps_finding = bf_finding built\<rparr>, st')))))"

section \<open>The parents are read from the store\<close>

interpretation stored_parent: evidence_reader pd "\<lambda>st evidence_id. verified_record pd st evidence_id expected_type"
  "\<lambda>evidence_id r. rec_evidence_id r = evidence_id \<and> rec_evidence_type r = expected_type"
proof
  fix st evidence_id r
  assume "verified_record pd st evidence_id expected_type = Inr r"
  then show "get_evidence st (rec_evidence_id r) = Some r \<and> verifies pd st r
      \<and> rec_evidence_id r = evidence_id \<and> rec_evidence_type r = expected_type"
    by (auto simp: verified_record_def dest: get_evidence_SomeD split: option.splits if_splits)
next
  fix st st' evidence_id r
  assume "later_store st st'" "verified_record pd st evidence_id expected_type = Inr r"
  then show "verified_record pd st' evidence_id expected_type = Inr r"
    by (auto simp: verified_record_def later_get_evidence later_verifies split: option.splits if_splits)
qed

interpretation selected_parent: evidence_reader pd "\<lambda>st selection. verified_selection pd st selection expected_type"
  "\<lambda>selection r. rec_evidence_id r = sel_evidence_id selection \<and> rec_evidence_type r = expected_type
     \<and> rec_integrity_sha256 r = sel_expected_integrity_sha256 selection"
proof
  fix st selection r
  assume "verified_selection pd st selection expected_type = Inr r"
  then show "get_evidence st (rec_evidence_id r) = Some r \<and> verifies pd st r
      \<and> rec_evidence_id r = sel_evidence_id selection \<and> rec_evidence_type r = expected_type
      \<and> rec_integrity_sha256 r = sel_expected_integrity_sha256 selection"
    using stored_parent.read_stored [of pd st "sel_evidence_id selection" expected_type r]
    by (auto simp: verified_selection_def rbind_eq_Inr split: if_splits)
next
  fix st st' selection r
  assume later: "later_store st st'" and "verified_selection pd st selection expected_type = Inr r"
  then show "verified_selection pd st' selection expected_type = Inr r"
    using stored_parent.read_later [OF later]
    by (auto simp: verified_selection_def rbind_eq_Inr split: if_splits)
qed

lemma s3_policy_reference_kept:
  "later_store st st' \<Longrightarrow> kept (s3_policy_reference pd st request a b) (s3_policy_reference pd st' request a b)"
  unfolding s3_policy_reference_def
  by (intro kept_intros) (auto intro: selected_parent.read_kept kept_refl)

lemma s3_cyber_context_kept:
  "later_store st st' \<Longrightarrow> kept (s3_cyber_context pd st request) (s3_cyber_context pd st' request)"
  unfolding s3_cyber_context_def Let_def
  by (cases "cq_semantic_parent request"; cases "cq_asset_context_parent request"; simp only: prod.case option.case)
    (intro kept_intros kept_refl selected_parent.read_kept stored_parent.read_kept s3_policy_reference_kept;
      assumption)+

lemma correlation_input_kept:
  assumes "later_store st st'"
  shows "kept (correlation_input pd profile st request) (correlation_input pd profile st' request)"
proof -
  have "kept (branch_context pd st rule request) (branch_context pd st' rule request)" for rule
    unfolding branch_context_def by (intro kept_intros kept_refl s3_cyber_context_kept assms)
  moreover have "kept (previous_reference pd st profile rule s) (previous_reference pd st' profile rule s)" for rule s
    unfolding previous_reference_def by (intro kept_intros kept_refl selected_parent.read_kept assms)
  ultimately show ?thesis
    unfolding correlation_input_def Let_def
    by (intro kept_intros kept_refl selected_parent.read_all_kept assms)
qed

section \<open>What a stored finding rests on\<close>

definition grounded_reference :: "pydantic \<Rightarrow> EvidenceStore \<Rightarrow> EvidenceParentReference \<Rightarrow> bool" where
  "grounded_reference pd st p = grounded pd st (pr_evidence_type p) (pr_evidence_id p) (pr_integrity_sha256 p)"

definition grounded_context :: "pydantic \<Rightarrow> EvidenceStore \<Rightarrow> CyberParentContext \<Rightarrow> bool" where
  "grounded_context pd st c =
     (grounded_reference pd st (cy_raw_parent c) \<and> pr_evidence_type (cy_raw_parent c) = ''synthetic_protocol_event''
      \<and> grounded_reference pd st (cy_semantic_parent c)
      \<and> pr_evidence_type (cy_semantic_parent c) = ''protocol_semantic_event''
      \<and> grounded_reference pd st (cy_asset_context_parent c)
      \<and> pr_evidence_type (cy_asset_context_parent c) = ''asset_context_event''
      \<and> option_all (\<lambda>p. grounded_reference pd st p \<and> pr_evidence_type p = ''communication_policy_finding'')
          (cy_policy_parent c))"

lemma reference_fields:
  "reference r = Inr p \<Longrightarrow> pr_evidence_id p = rec_evidence_id r \<and> pr_evidence_type p = rec_evidence_type r
     \<and> pr_integrity_sha256 p = rec_integrity_sha256 r"
  by (auto simp: reference_def Let_def split: if_splits)

lemma stored_reference:
  assumes "verified_record pd st evidence_id t = Inr r" "reference r = Inr p"
  shows "grounded_reference pd st p" "pr_evidence_type p = t" "pr_evidence_id p = evidence_id"
  using stored_parent.read_grounded [OF assms(1)] stored_parent.read_stored [OF assms(1)]
    reference_fields [OF assms(2)] by (simp_all add: grounded_reference_def)

lemma selected_reference:
  assumes "verified_selection pd st selection t = Inr r" "reference r = Inr p"
  shows "grounded_reference pd st p" "pr_evidence_type p = t"
  using selected_parent.read_grounded [OF assms(1)] selected_parent.read_stored [OF assms(1)]
    reference_fields [OF assms(2)] by (simp_all add: grounded_reference_def)

lemma s3_policy_reference_grounded:
  assumes "s3_policy_reference pd st request a b = Inr (p, status)"
  shows "option_all (\<lambda>p. grounded_reference pd st p \<and> pr_evidence_type p = ''communication_policy_finding'') p"
  using assms selected_reference
  by (fastforce simp: s3_policy_reference_def rbind_eq_Inr split: option.splits if_splits)

lemma s3_cyber_context_grounded:
  "ensures (s3_cyber_context pd st request) (grounded_context pd st)"
proof (cases "cq_semantic_parent request")
  case None
  then show ?thesis by (simp add: s3_cyber_context_def ensures_Inl)
next
  case semantic: (Some s)
  show ?thesis
  proof (cases "cq_asset_context_parent request")
    case None
    with semantic show ?thesis by (simp add: s3_cyber_context_def ensures_Inl)
  next
    case (Some c)
    show ?thesis
      unfolding s3_cyber_context_def Let_def semantic Some prod.case option.case
      by (intro ensures_if ensures_option ensures_rbind ensures_Inl)
        (auto simp: ensures_def grounded_context_def rbind_eq_Inr
          dest: s3_policy_reference_grounded selected_reference stored_reference split: if_splits)
  qed
qed

lemma telemetry_from_record_fields:
  "telemetry_from_record pd r = Inr t \<Longrightarrow> te_evidence_id t = rec_evidence_id r
     \<and> te_evidence_type t = ''simulator_telemetry'' \<and> te_integrity_sha256 t = rec_integrity_sha256 r"
  by (auto simp: telemetry_from_record_def rbind_eq_Inr Let_def split: if_splits)

lemma correlation_input_Inr:
  assumes "correlation_input pd profile st request = Inr input"
  obtains rule where "map_result (\<lambda>item. rbind (verified_selection pd st item ''simulator_telemetry'')
      (telemetry_from_record pd)) (cq_telemetry_parents request) = Inr (ci_telemetry input)"
    "branch_context pd st rule request = Inr (ci_cyber_context input)"
    "rules profile (cq_rule_id request) = Some rule"
    "previous_reference pd st profile rule (cq_reevaluates_parent request) = Inr (ci_reevaluates_parent input)"
proof -
  from assms obtain rule where rule: "rules profile (cq_rule_id request) = Some rule"
    by (auto simp: correlation_input_def split: option.splits)
  show ?thesis
    using assms unfolding correlation_input_def rule option.case Let_def
    by (elim rbind_InrE) (auto split: if_splits intro: that rule)
qed

lemma list_all2_set_left: "list_all2 P xs ys \<Longrightarrow> x \<in> set xs \<Longrightarrow> \<exists>y \<in> set ys. P x y"
  by (induction rule: list_all2_induct) auto

lemma list_all2_set_right: "list_all2 P xs ys \<Longrightarrow> y \<in> set ys \<Longrightarrow> \<exists>x \<in> set xs. P x y"
  by (induction rule: list_all2_induct) auto

text \<open>The input of the evaluation rests on the store, and its samples are the selected ones.\<close>

lemma correlation_input_grounded:
  assumes "correlation_input pd profile st request = Inr input"
  shows "\<forall>t \<in> set (ci_telemetry input). grounded_reference pd st (parent_reference t)"
    "map te_evidence_id (ci_telemetry input) = map sel_evidence_id (cq_telemetry_parents request)"
    "option_all (grounded_context pd st) (ci_cyber_context input)"
    "\<forall>s \<in> set (cq_telemetry_parents request).
       grounded pd st ''simulator_telemetry'' (sel_evidence_id s) (sel_expected_integrity_sha256 s)"
proof -
  let ?read = "\<lambda>item. rbind (verified_selection pd st item ''simulator_telemetry'') (telemetry_from_record pd)"
  obtain rule where telemetry: "map_result ?read (cq_telemetry_parents request) = Inr (ci_telemetry input)"
    and cyber: "branch_context pd st rule request = Inr (ci_cyber_context input)"
    by (rule correlation_input_Inr [OF assms])
  have sample: "te_evidence_id t = sel_evidence_id s" "grounded_reference pd st (parent_reference t)"
      "te_integrity_sha256 t = sel_expected_integrity_sha256 s" "te_evidence_type t = ''simulator_telemetry''"
    if "?read s = Inr t" for s t
  proof -
    from that obtain r where r: "verified_selection pd st s ''simulator_telemetry'' = Inr r"
      "telemetry_from_record pd r = Inr t" by (auto simp: rbind_eq_Inr)
    note facts = selected_parent.read_stored [OF r(1)] telemetry_from_record_fields [OF r(2)]
    then show "te_evidence_id t = sel_evidence_id s" "te_integrity_sha256 t = sel_expected_integrity_sha256 s"
      "te_evidence_type t = ''simulator_telemetry''" by simp_all
    show "grounded_reference pd st (parent_reference t)"
      using selected_parent.read_grounded [OF r(1)] facts
      by (simp add: grounded_reference_def parent_reference_def)
  qed
  have all: "list_all2 (\<lambda>s t. ?read s = Inr t) (cq_telemetry_parents request)
      (ci_telemetry input)"
    using telemetry by (simp only: map_result_ok)
  show "\<forall>t \<in> set (ci_telemetry input). grounded_reference pd st (parent_reference t)"
    using list_all2_set_right [OF all] sample(2) by blast
  show "map te_evidence_id (ci_telemetry input) = map sel_evidence_id (cq_telemetry_parents request)"
    using all sample(1)
    by (auto simp: list_all2_conv_all_nth intro!: nth_equalityI)
  show "option_all (grounded_context pd st) (ci_cyber_context input)"
    using cyber ensuresD [OF s3_cyber_context_grounded, of pd st request] unfolding branch_context_def
    by (cases "ci_cyber_context input") (auto elim!: rbind_InrE split: if_splits)
  have "grounded pd st ''simulator_telemetry'' (sel_evidence_id s) (sel_expected_integrity_sha256 s)"
    if "?read s = Inr t" for s t
    using sample [OF that] by (simp add: grounded_reference_def parent_reference_def)
  then show "\<forall>s \<in> set (cq_telemetry_parents request).
      grounded pd st ''simulator_telemetry'' (sel_evidence_id s) (sel_expected_integrity_sha256 s)"
    using list_all2_set_left [OF all] by blast
qed

text \<open>The steps of a persistence that succeeds.\<close>

lemma persist_Inr:
  assumes "persist_correlation_finding pd profile st request now = Inr (result, st')"
  obtains input built where "correlation_input pd profile st request = Inr input"
    "evaluate_correlation (pd_isoformat pd) input profile = Inr built"
    "new_envelope (finding_envelope built (ci_telemetry input)) = Inr (finding_envelope built (ci_telemetry input))"
    "ingest_validated_evidence (pd_isoformat pd) st
       (envelope_request pd (finding_envelope built (ci_telemetry input))) now = Inr (cps_receipt result, st')"
    "cps_finding result = bf_finding built" "rc_evidence_id (cps_receipt result) = cf_correlation_id (bf_finding built)"
proof -
  obtain input built envelope p where steps: "correlation_input pd profile st request = Inr input"
    "evaluate_correlation (pd_isoformat pd) input profile = Inr built"
    "new_envelope (finding_envelope built (ci_telemetry input)) = Inr envelope"
    "ingest_internal_evidence pd st envelope now = Inr p"
    "(case p of (receipt, st') \<Rightarrow>
        if rc_evidence_id receipt \<noteq> cf_correlation_id (bf_finding built)
        then Inl (Correlation (CorrelationEvidenceError ''The correlation evidence identity is inconsistent.''))
        else Inr (\<lparr>cps_receipt = receipt, cps_finding = bf_finding built\<rparr>, st')) = Inr (result, st')"
    using assms unfolding persist_correlation_finding_def by (elim rbind_InrE) (simp only: raising_Inr)
  have "envelope = finding_envelope built (ci_telemetry input)"
    using steps(3) by (auto simp: new_envelope_def elim!: rbind_InrE split: if_splits)
  with steps show ?thesis
    by (cases p) (auto simp: ingest_internal_evidence_def split: if_splits intro: that)
qed

text \<open>
  The stored records a finding refers to, by type, identifier and digest. It gives the digest of
  every one but the prior finding it re-evaluates, which it names by identifier alone.
\<close>

definition cited :: "string \<Rightarrow> uuid option \<Rightarrow> digest option \<Rightarrow> (string \<times> uuid \<times> digest option) list" where
  "cited t evidence_id digest = (case evidence_id of Some i \<Rightarrow> [(t, i, digest)] | None \<Rightarrow> [])"

definition finding_citations :: "CyberPhysicalCorrelationFinding \<Rightarrow> (string \<times> uuid \<times> digest option) list" where
  "finding_citations f =
     cited ''synthetic_protocol_event'' (cf_primary_cyber_evidence_id f) (cf_primary_cyber_evidence_integrity_sha256 f)
     @ cited ''protocol_semantic_event'' (cf_semantic_evidence_id f) (cf_semantic_evidence_integrity_sha256 f)
     @ cited ''asset_context_event'' (cf_asset_context_evidence_id f) (cf_asset_context_evidence_integrity_sha256 f)
     @ cited ''communication_policy_finding'' (cf_policy_finding_evidence_id f)
         (cf_policy_finding_evidence_integrity_sha256 f)
     @ map (\<lambda>p. (pr_evidence_type p, pr_evidence_id p, Some (pr_integrity_sha256 p))) (cf_telemetry_parents f)
     @ cited CORRELATION_EVIDENCE_TYPE (cf_reevaluates_finding_id f) None"

fun citation_grounded :: "pydantic \<Rightarrow> EvidenceStore \<Rightarrow> string \<times> uuid \<times> digest option \<Rightarrow> bool" where
  "citation_grounded pd st (t, i, Some d) = grounded pd st t i d"
| "citation_grounded pd st (t, i, None) =
     (t = CORRELATION_EVIDENCE_TYPE \<and>
      (case get_evidence st i of None \<Rightarrow> False | Some r \<Rightarrow> grounded pd st t i (rec_integrity_sha256 r)))"

lemma grounded_any_digest: "grounded pd st CORRELATION_EVIDENCE_TYPE i d \<Longrightarrow> citation_grounded pd st
   (CORRELATION_EVIDENCE_TYPE, i, None)"
  by (auto simp: grounded_def split: option.splits)

lemma citations_grounded:
  assumes "option_all (grounded_context pd st) (ci_cyber_context input)"
    "\<forall>p \<in> set tps. grounded_reference pd st p"
    "option_all (\<lambda>p. grounded pd st CORRELATION_EVIDENCE_TYPE (pr_evidence_id p) (pr_integrity_sha256 p))
      (ci_reevaluates_parent input)"
  shows "\<forall>c \<in> set (finding_citations (correlation_finding input dec loaded cid digest tps)).
    citation_grounded pd st c"
proof -
  have prior: "citation_grounded pd st (CORRELATION_EVIDENCE_TYPE, pr_evidence_id p, None)"
    if "Some p = ci_reevaluates_parent input" for p
    using assms(3) grounded_any_digest unfolding that [symmetric] by simp
  show ?thesis
  proof (cases "ci_cyber_context input")
    case None
    with assms(2) prior show ?thesis
      by (auto simp: finding_citations_def cited_def correlation_finding_def Let_def grounded_reference_def
          simp del: citation_grounded.simps(2))
  next
    case (Some c)
    with assms have "grounded_context pd st c" by simp
    with Some assms(2) prior show ?thesis
      by (cases "cy_policy_parent c")
        (auto simp: finding_citations_def cited_def correlation_finding_def Let_def
          grounded_reference_def grounded_context_def simp del: citation_grounded.simps(2))
  qed
qed

text \<open>The stored records a request selects, with the type each must have.\<close>

definition request_selections :: "CorrelationPersistenceRequest \<Rightarrow> (string \<times> ParentSelection) set" where
  "request_selections request =
     Pair ''protocol_semantic_event'' ` set_option (cq_semantic_parent request)
     \<union> Pair ''asset_context_event'' ` set_option (cq_asset_context_parent request)
     \<union> Pair ''communication_policy_finding'' ` set_option (cq_policy_parent request)
     \<union> Pair ''simulator_telemetry'' ` set (cq_telemetry_parents request)
     \<union> Pair CORRELATION_EVIDENCE_TYPE ` set_option (cq_reevaluates_parent request)"

definition selection_grounded :: "pydantic \<Rightarrow> EvidenceStore \<Rightarrow> string \<Rightarrow> ParentSelection \<Rightarrow> bool" where
  "selection_grounded pd st t s = grounded pd st t (sel_evidence_id s) (sel_expected_integrity_sha256 s)"

text \<open>The reference the evaluation gets stands for the selected record.\<close>

definition selected_for ::
  "pydantic \<Rightarrow> EvidenceStore \<Rightarrow> string \<Rightarrow> ParentSelection option \<Rightarrow> EvidenceParentReference option \<Rightarrow> bool" where
  "selected_for pd st t s p =
     (map_option pr_evidence_id p = map_option sel_evidence_id s
      \<and> map_option pr_integrity_sha256 p = map_option sel_expected_integrity_sha256 s
      \<and> option_all (selection_grounded pd st t) s)"

lemma selected_forI:
  assumes "verified_selection pd st s t = Inr r" "reference r = Inr p"
  shows "selected_for pd st t (Some s) (Some p)"
  using selected_parent.read_stored [OF assms(1)] selected_parent.read_grounded [OF assms(1)]
    reference_fields [OF assms(2)] by (auto simp: selected_for_def selection_grounded_def)

lemma previous_reference_selected:
  assumes "previous_reference pd st profile rule s = Inr p"
  shows "selected_for pd st CORRELATION_EVIDENCE_TYPE s p"
  using assms selected_forI
  by (fastforce simp: previous_reference_def rbind_eq_Inr selected_for_def split: option.splits if_splits)

lemma policy_reference_selected:
  assumes "s3_policy_reference pd st request a b = Inr (p, status)"
  shows "selected_for pd st ''communication_policy_finding'' (cq_policy_parent request) p"
  using assms selected_forI
  by (fastforce simp: s3_policy_reference_def rbind_eq_Inr selected_for_def split: option.splits if_splits)

text \<open>The cyber context is made of the records the request selects.\<close>

definition context_selected ::
  "pydantic \<Rightarrow> EvidenceStore \<Rightarrow> CorrelationPersistenceRequest \<Rightarrow> CyberParentContext option \<Rightarrow> bool" where
  "context_selected pd st request c =
     (selected_for pd st ''protocol_semantic_event'' (cq_semantic_parent request) (map_option cy_semantic_parent c)
      \<and> selected_for pd st ''asset_context_event'' (cq_asset_context_parent request)
          (map_option cy_asset_context_parent c)
      \<and> selected_for pd st ''communication_policy_finding'' (cq_policy_parent request)
          (Option.bind c cy_policy_parent))"

lemma s3_cyber_context_selected:
  "ensures (s3_cyber_context pd st request) (\<lambda>c. context_selected pd st request (Some c))"
proof (cases "cq_semantic_parent request")
  case None
  then show ?thesis by (simp add: s3_cyber_context_def ensures_Inl)
next
  case semantic: (Some s)
  show ?thesis
  proof (cases "cq_asset_context_parent request")
    case None
    with semantic show ?thesis by (simp add: s3_cyber_context_def ensures_Inl)
  next
    case (Some c)
    show ?thesis
      unfolding s3_cyber_context_def Let_def semantic Some prod.case option.case
      by (intro ensures_if ensures_option ensures_rbind ensures_Inl)
        (auto simp: ensures_def context_selected_def rbind_eq_Inr semantic Some
          dest: policy_reference_selected intro: selected_forI split: if_splits)
  qed
qed

lemma branch_context_selected:
  assumes "branch_context pd st rule request = Inr c"
  shows "context_selected pd st request c"
proof (cases "cru_evaluator_branch rule = S3")
  case True
  with assms ensuresD [OF s3_cyber_context_selected] show ?thesis
    by (auto simp: branch_context_def elim!: rbind_InrE)
next
  case False
  with assms show ?thesis
    by (auto simp: branch_context_def validate_s4_parent_boundary_def context_selected_def selected_for_def
        split: if_splits)
qed

lemma stored_under_receipt:
  assumes "ingest_validated_evidence isoformat st e now = Inr (receipt, st')"
  shows "\<exists>r \<in> set (ev_records st'). rec_evidence_id r = rc_evidence_id receipt
    \<and> rec_evidence_type r = er_evidence_type e
    \<and> (rc_status receipt = accepted \<longrightarrow> rec_payload r = er_payload e)"
proof -
  from assms obtain source :: EvidenceSource where
    "appended isoformat st e now (es_id source) st' \<and> receipt = receipt_of accepted (es_id source) e now
     \<or> already_stored isoformat st e (es_id source) \<and> st' = st
       \<and> receipt = receipt_of duplicate_existing (es_id source) e now"
    unfolding ingest_iff by blast
  then show ?thesis
  proof
    assume "appended isoformat st e now (es_id source) st' \<and> receipt = receipt_of accepted (es_id source) e now"
    then show ?thesis
      by (intro bexI [of _ "evidence_row isoformat (es_id source) e now"])
        (simp_all add: appended_def receipt_of_def evidence_row_def Let_def)
  next
    assume dup: "already_stored isoformat st e (es_id source) \<and> st' = st
      \<and> receipt = receipt_of duplicate_existing (es_id source) e now"
    then obtain r where r: "identity_query st (es_id source) e = Some r"
      "rec_evidence_id r = deterministic_evidence_id (es_id source) e"
      by (auto simp: already_stored_def)
    with identity_query_SomeD [OF r(1)] dup show ?thesis
      by (intro bexI [of _ r]) (simp_all add: receipt_of_def record_identity_def request_identity_def)
  qed
qed

lemma selected_for_grounded:
  "selected_for pd st t s p \<Longrightarrow> option_all (\<lambda>p. grounded pd st t (pr_evidence_id p) (pr_integrity_sha256 p)) p"
  by (cases s; cases p) (simp_all add: selected_for_def selection_grounded_def)

lemma finding_names_selected:
  assumes "context_selected pd st request (ci_cyber_context input)"
    and "selected_for pd st CORRELATION_EVIDENCE_TYPE (cq_reevaluates_parent request) (ci_reevaluates_parent input)"
  shows "cf_semantic_evidence_id (correlation_finding input d profile cid digest tps)
      = map_option sel_evidence_id (cq_semantic_parent request)"
    "cf_asset_context_evidence_id (correlation_finding input d profile cid digest tps)
      = map_option sel_evidence_id (cq_asset_context_parent request)"
    "cf_policy_finding_evidence_id (correlation_finding input d profile cid digest tps)
      = map_option sel_evidence_id (cq_policy_parent request)"
    "cf_reevaluates_finding_id (correlation_finding input d profile cid digest tps)
      = map_option sel_evidence_id (cq_reevaluates_parent request)"
  using assms
  by (cases "ci_cyber_context input";
      auto simp: correlation_finding_def Let_def context_selected_def selected_for_def)+

lemma selections_grounded:
  assumes "context_selected pd st request c"
    "\<forall>s \<in> set (cq_telemetry_parents request). selection_grounded pd st ''simulator_telemetry'' s"
    "selected_for pd st CORRELATION_EVIDENCE_TYPE (cq_reevaluates_parent request) p"
  shows "\<forall>(t, s) \<in> request_selections request. selection_grounded pd st t s"
  using assms
  by (auto simp: request_selections_def context_selected_def selected_for_def elim!: option.set_cases)


lemma already_stored_later:
  assumes "later_store st st'" "already_stored isoformat st e sid"
  shows "already_stored isoformat st' e sid"
  using assms by (auto simp: already_stored_def identity_query_def later_store_def prefix_def find_append_Some)

lemma ingested_again:
  assumes "ingest_validated_evidence isoformat st e now = Inr (receipt, st')" "later_store st' st''"
  shows "ingest_validated_evidence isoformat st'' e again =
    Inr (receipt\<lparr>rc_status := duplicate_existing, rc_receipt_timestamp := again\<rparr>, st'')"
proof -
  from assms(1) obtain source where adm: "admitted isoformat st e source"
    and outcome: "appended isoformat st e now (es_id source) st' \<and> receipt = receipt_of accepted (es_id source) e now
     \<or> already_stored isoformat st e (es_id source) \<and> st' = st
       \<and> receipt = receipt_of duplicate_existing (es_id source) e now"
    unfolding ingest_iff by blast
  have stored: "already_stored isoformat st' e (es_id source)"
    using outcome identity_query_None [of st "es_id source" e]
    by (auto simp: already_stored_def appended_def identity_query_def find_append_None)
  have "ev_sources st'' = ev_sources st"
    using assms ingest_sources by (metis later_store_def)
  with adm have "admitted isoformat st'' e source" by (simp add: admitted_def find_source_def)
  moreover have "receipt\<lparr>rc_status := duplicate_existing, rc_receipt_timestamp := again\<rparr>
      = receipt_of duplicate_existing (es_id source) e again"
    using outcome by (auto simp: receipt_of_def)
  ultimately show ?thesis
    unfolding ingest_iff using already_stored_later [OF assms(2) stored] by blast
qed

text \<open>
  C38. Correlating the same stored evidence again, after any number of further ingestions, yields the same
  finding, reports it as a duplicate under the same identifier, and adds nothing to the store.
\<close>

theorem persistence_repeatable:
  assumes "persist_correlation_finding pd profile st request now = Inr (result, st')"
    and "st'' = run_ops (ingest_step isoformat) ingestions st'"
  shows "persist_correlation_finding pd profile st'' request again =
    Inr (result\<lparr>cps_receipt := (cps_receipt result)
      \<lparr>rc_status := duplicate_existing, rc_receipt_timestamp := again\<rparr>\<rparr>, st'')"
proof -
  obtain input built where steps: "correlation_input pd profile st request = Inr input"
    "evaluate_correlation (pd_isoformat pd) input profile = Inr built"
    "new_envelope (finding_envelope built (ci_telemetry input)) = Inr (finding_envelope built (ci_telemetry input))"
    "ingest_validated_evidence (pd_isoformat pd) st
       (envelope_request pd (finding_envelope built (ci_telemetry input))) now = Inr (cps_receipt result, st')"
    "cps_finding result = bf_finding built" "rc_evidence_id (cps_receipt result) = cf_correlation_id (bf_finding built)"
    by (rule persist_Inr [OF assms(1)])
  have later: "later_store st' st''" unfolding assms(2) by (rule evidence_growth.run_rel)
  have "later_store st st'"
    using evidence_growth.step_rel [of "pd_isoformat pd"
        "(envelope_request pd (finding_envelope built (ci_telemetry input)), now)"] steps(4)
    by (simp add: ingest_step_def)
  from keptD [OF correlation_input_kept [OF later_store_trans [OF this later]] steps(1)]
  have "correlation_input pd profile st'' request = Inr input" .
  with steps ingested_again [OF steps(4) later, of again] show ?thesis
    by (simp add: persist_correlation_finding_def ingest_internal_evidence_def raising_def)
qed

section \<open>An example\<close>

text \<open>A store with one telemetry record, correlated under the S4 rule.\<close>

definition example_payload :: CorrelationTelemetryPayload where
  "example_payload = te_payload (sample 60 8 1 (- 1))"

definition example_pydantic :: pydantic where
  "example_pydantic = \<lparr>pd_isoformat = (\<lambda>_. ''now''), pd_envelope = plain_validate,
     pd_modbus_event = (\<lambda>_. None), pd_semantic_event = (\<lambda>_. None), pd_context_event = (\<lambda>_. None),
     pd_policy_finding = (\<lambda>_. None), pd_policy_provenance = (\<lambda>_. None),
     pd_telemetry = (\<lambda>_. Some example_payload), pd_correlation_finding = (\<lambda>_. None),
     pd_correlation_provenance = (\<lambda>_. None), pd_dump_finding = (\<lambda>_. JObj []),
     pd_dump_provenance = (\<lambda>_. JObj [])\<rparr>"

definition correlation_source :: EvidenceSource where
  "correlation_source = \<lparr>es_id = CORRELATION_SOURCE_ID, es_source_key = CORRELATION_SOURCE_KEY,
     es_source_type = CORRELATION_EVIDENCE_TYPE, es_schema_version = CORRELATION_FINDING_SCHEMA_VERSION,
     es_enabled = True\<rparr>"

definition example_row :: EvidenceRecord where
  "example_row = (evidence_row (\<lambda>_. ''now'') (es_id simulator_source)
     (telemetry_request\<lparr>er_observed_at := tp_timestamp example_payload,
        er_sequence_number := tp_sequence_number example_payload\<rparr>) 7)\<lparr>rec_evidence_id := ''t''\<rparr>"

definition example_store :: EvidenceStore where
  "example_store = initial_store\<lparr>ev_sources := [simulator_source, correlation_source],
     ev_records := [example_row]\<rparr>"

definition example_selection :: ParentSelection where
  "example_selection = \<lparr>sel_evidence_id = ''t'', sel_expected_integrity_sha256 = rec_integrity_sha256 example_row\<rparr>"

definition example_persistence :: CorrelationPersistenceRequest where
  "example_persistence = \<lparr>cq_rule_id = S4_RULE_ID, cq_semantic_parent = None, cq_asset_context_parent = None,
     cq_policy_parent = None, cq_telemetry_parents = [example_selection], cq_reevaluates_parent = None\<rparr>"

lemma example_row_read:
  "verified_selection example_pydantic example_store example_selection ''simulator_telemetry'' = Inr example_row"
proof -
  have "get_evidence example_store ''t'' = Some example_row"
    by (simp add: get_evidence_def example_store_def example_row_def)
  moreover have "rec_evidence_type example_row = ''simulator_telemetry''"
    by (simp add: example_row_def telemetry_request_def)
  moreover have "verifies example_pydantic example_store example_row"
  proof -
    have "record_source example_store example_row = Some simulator_source"
      by (simp add: record_source_def example_store_def example_row_def)
    moreover have "envelope_class (rec_evidence_type example_row) (rec_payload_schema_version example_row)
        = Some ''EvidenceIngestRequest''"
      by (simp add: example_row_def telemetry_request_def envelope_class_def)
    ultimately show ?thesis
      by (simp add: verifies_def verify_record_integrity_def example_pydantic_def plain_validate_def record_envelope_def)
        (simp add: example_row_def telemetry_request_def simulator_source_def evidence_row_def Let_def)
  qed
  ultimately show ?thesis
    by (simp add: verified_selection_def verified_record_def example_selection_def)
qed

definition example_sample :: TelemetryEvidence where
  "example_sample = (sample 60 8 1 (- 1))\<lparr>te_evidence_id := ''t'',
     te_integrity_sha256 := rec_integrity_sha256 example_row\<rparr>"

lemma example_sample_valid: "valid_telemetry example_sample"
proof -
  have "valid_telemetry (sample 60 8 1 (- 1))" by (rule telemetry_sample_valid) (simp_all add: f64_within_def)
  moreover have "is_sha256 (rec_integrity_sha256 example_row)"
    by (simp add: example_row_def integrity_sha256_def is_sha256_hex)
  ultimately show ?thesis
    by (simp add: example_sample_def valid_telemetry_def validate_telemetry_envelope_def)
qed

lemma example_sample_read: "telemetry_from_record example_pydantic example_row = Inr example_sample"
proof -
  have "valid_telemetry_payload example_payload"
    using example_sample_valid by (simp add: valid_telemetry_def example_sample_def example_payload_def)
  then have payload: "model_validate (pd_telemetry example_pydantic) valid_telemetry_payload e j
      = Inr example_payload" for e j
    by (simp add: model_validate_Inr example_pydantic_def)
  have row: "rec_observed_at example_row = tp_timestamp example_payload"
      "rec_sequence_number example_row = Some (tp_sequence_number example_payload)"
      "rec_evidence_id example_row = ''t''"
    by (simp_all add: example_row_def evidence_row_def Let_def)
  have "\<lparr>te_evidence_id = ''t'', te_evidence_type = ''simulator_telemetry'',
      te_integrity_sha256 = rec_integrity_sha256 example_row, te_observed_at = tp_timestamp example_payload,
      te_sequence_number = tp_sequence_number example_payload,
      te_payload_schema = ''otsoc.simulator.telemetry'', te_payload_schema_version = ''2.0.0'',
      te_payload = example_payload\<rparr> = example_sample"
    by (simp add: example_sample_def sample_def example_payload_def)
  then show ?thesis
    unfolding telemetry_from_record_def payload rbind_simps row option.case Let_def
    by (simp only: example_sample_valid if_True)
qed

lemma example_input:
  "correlation_input example_pydantic v1_correlation example_store example_persistence
     = Inr (correlation_request v1_s4_rule None [example_sample])"
proof -
  have rule: "rules v1_correlation S4_RULE_ID = Some v1_s4_rule"
    "cru_evaluator_branch v1_s4_rule = S4" "cru_rule_version v1_s4_rule = ''1.0.0''"
    by (simp_all add: rules_def dict_of_def v1_correlation_def oil_gas_correlation_v1_def v1_s4_rule_def S4_RULE_ID_def)
  have header: "cpr_profile_id (lcp_profile v1_correlation) = CORRELATION_PROFILE_ID"
    "cpr_profile_version (lcp_profile v1_correlation) = CORRELATION_PROFILE_VERSION"
    "lcp_sha256 v1_correlation = EXPECTED_CORRELATION_PROFILE_SHA256"
    using contract_header [OF v1_correlation_valid] by (simp_all add: v1_correlation_def)
  have valid: "valid_evaluation_input (correlation_request v1_s4_rule None [example_sample])"
    using frames_valid(2) example_sample_valid
    by (simp add: valid_evaluation_input_def correlation_request_def validate_unique_points_def)
  have reads: "map_result (\<lambda>item. rbind (verified_selection example_pydantic example_store item ''simulator_telemetry'')
      (telemetry_from_record example_pydantic)) [example_selection] = Inr [example_sample]"
    by (simp only: map_result.simps example_row_read example_sample_read rbind_simps)
  have branch: "branch_context example_pydantic example_store v1_s4_rule example_persistence = Inr None"
    by (simp only: branch_context_def rule EvaluatorBranch.distinct if_False)
      (simp add: validate_s4_parent_boundary_def example_persistence_def)
  have request: "cq_rule_id example_persistence = S4_RULE_ID" "cq_reevaluates_parent example_persistence = None"
    "cq_telemetry_parents example_persistence = [example_selection]"
    by (simp_all add: example_persistence_def)
  show ?thesis
    using valid unfolding correlation_request_def
    by (simp only: correlation_input_def request rule header reads branch previous_reference_def option.case
        rbind_simps Let_def if_True)
qed

lemma concat_length_le:
  assumes "\<And>c. length (f c) \<le> k"
  shows "length (concat (map f s)) \<le> k * length s"
proof (induction s)
  case (Cons c s)
  with assms [of c] show ?case by simp
qed simp

lemma json_length:
  "length (json_string s) \<le> 6 * length s + 2"
  "length (utf8 s) \<le> 2 * length s"
proof -
  have "length (json_escape c) \<le> 6" for c by (simp add: json_escape_def hex4_low_def Let_def)
  from concat_length_le [of _ _ s, OF this] show "length (json_string s) \<le> 6 * length s + 2"
    by (simp add: json_string_def)
  have "length (utf8_char c) \<le> 2" for c by (simp add: utf8_char_def Let_def)
  from concat_length_le [of _ _ s, OF this] show "length (utf8 s) \<le> 2 * length s" by (simp add: utf8_def)
qed

lemma join_with_length: "length (join_with c xs) \<le> sum_list (map length xs) + length xs"
  by (induction c xs rule: join_with.induct) auto

lemma json_object_length:
  "length (json_dumps (JObj kvs)) \<le> 2 + sum_list (map (\<lambda>(k, v). 6 * length k + 4 + length (json_dumps v)) kvs)"
proof -
  let ?ps = "map (\<lambda>(k, v). (k, json_dumps v)) kvs" and ?item = "\<lambda>(k, s). json_string k @ CHR '':'' # s"
  have "sum_list (map f (sort_key fst ?ps)) = sum_list (map f ?ps)" for f :: "string \<times> string \<Rightarrow> nat"
    by (simp only: sum_mset_sum_list [symmetric] mset_map mset_sort)
  then have "length (join_with CHR '','' (map ?item (sort_key fst ?ps)))
      \<le> sum_list (map (length \<circ> ?item) ?ps) + length kvs"
    using join_with_length [of "CHR '',''" "map ?item (sort_key fst ?ps)"] by simp
  also have "\<dots> \<le> sum_list (map (\<lambda>(k, v). 6 * length k + 4 + length (json_dumps v)) kvs)"
  proof (induction kvs)
    case (Cons kv kvs)
    then show ?case using json_length(1) [of "fst kv"] by (cases kv) auto
  qed simp
  finally show ?thesis by simp
qed

lemma example_evaluates:
  obtains built where
    "evaluate_correlation isoformat (correlation_request v1_s4_rule None [example_sample]) v1_correlation = Inr built"
proof -
  let ?input = "correlation_request v1_s4_rule None [example_sample]"
  have "valid_evaluation_input ?input"
    using frames_valid(2) example_sample_valid
    by (simp add: valid_evaluation_input_def correlation_request_def validate_unique_points_def)
  moreover have "inj_on te_evidence_id (set (ci_telemetry ?input))" by (simp add: correlation_request_def)
  moreover have "inj_on pr_evidence_id (set (request_parents ?input))" unfolding request_parents_example by simp
  moreover have "\<not> crosses_boundary ?input" by (simp add: crosses_boundary_def correlation_request_def)
  ultimately show ?thesis
    using evaluation_returns [OF v1_correlation_valid loaded_ok] that by blast
qed

lemma uuid5_event_id: "valid_source_event_id (uuid5 ns name)"
  using uuid5_shape [of ns name]
  by (auto simp: valid_source_event_id_def hex_char_def py_digit_def ascii_range_def Let_def)

lemma built_envelope:
  assumes "evaluate_correlation isoformat input loaded = Inr built"
    "0 \<le> maximum_sequence ts" "maximum_sequence ts \<le> 86400000"
  shows "new_envelope (finding_envelope built ts) = Inr (finding_envelope built ts)"
    "cf_correlation_id (bf_finding built) = deterministic_evidence_id CORRELATION_SOURCE_ID
       (envelope_request pd (finding_envelope built ts))"
    "length (bf_source_event_id built) = 36"
proof -
  obtain us d where ev:
    "build_correlation_finding isoformat (input\<lparr>ci_telemetry := us\<rparr>) d loaded = Inr built"
    by (rule evaluate_Inr [OF assms(1)])
  obtain parents tps digest where b:
    "bf_finding built = correlation_finding (input\<lparr>ci_telemetry := us\<rparr>) d loaded
       (deterministic_evidence_id_from_fields CORRELATION_SOURCE_ID (bf_source_event_id built)
         CORRELATION_EVIDENCE_TYPE CORRELATION_FINDING_SCHEMA_VERSION) digest tps"
    "bf_provenance built = correlation_provenance (input\<lparr>ci_telemetry := us\<rparr>) d loaded digest parents"
    by (rule build_Inr [OF ev])
  obtain ns name where id: "bf_source_event_id built = uuid5 ns name"
    using ev unfolding build_correlation_finding_def deterministic_correlation_source_event_id_def Let_def
    by (elim rbind_InrE) (auto intro: that)
  then show "length (bf_source_event_id built) = 36" by (simp add: uuid5_shape)
  show "new_envelope (finding_envelope built ts) = Inr (finding_envelope built ts)"
    using assms(2,3)
    by (simp add: new_envelope_def finding_envelope_def validate_correlation_envelope_def b
        correlation_finding_def correlation_provenance_def Let_def id uuid5_event_id)
  show "cf_correlation_id (bf_finding built) = deterministic_evidence_id CORRELATION_SOURCE_ID
      (envelope_request pd (finding_envelope built ts))"
    unfolding b(1) by (simp add: correlation_finding_def Let_def deterministic_evidence_id_def
        envelope_request_def finding_envelope_def)
qed

lemma example_persists:
  obtains result st' where
    "persist_correlation_finding example_pydantic v1_correlation example_store example_persistence 9 = Inr (result, st')"
    "rc_status (cps_receipt result) = accepted"
proof -
  obtain built where ev: "evaluate_correlation (\<lambda>_. ''now'')
      (correlation_request v1_s4_rule None [example_sample]) v1_correlation = Inr built"
    by (rule example_evaluates)
  let ?env = "finding_envelope built [example_sample]" and ?st = example_store
  let ?e = "envelope_request example_pydantic ?env"
  have seq: "maximum_sequence [example_sample] = 9"
    by (simp add: maximum_sequence_def example_sample_def sample_def)
  have range: "0 \<le> maximum_sequence [example_sample]" "maximum_sequence [example_sample] \<le> 86400000"
    by (simp_all add: seq)
  note b = built_envelope [OF ev range]
  have "length (canonical_evidence_bytes (\<lambda>_. ''now'') CORRELATION_SOURCE_ID ?e) \<le> 65536"
  proof -
    have "length (json_string (bf_source_event_id built)) \<le> 218"
      using json_length(1) [of "bf_source_event_id built"] b(3) by simp
    moreover have "length (json_string CORRELATION_SOURCE_KEY) \<le> 218"
      "length (json_string CORRELATION_EVIDENCE_TYPE) \<le> 218" "length (json_string ''now'') \<le> 218"
      "length (str_int 9) \<le> 218" "length (json_string CORRELATION_FINDING_SCHEMA) \<le> 218"
      "length (json_string CORRELATION_FINDING_SCHEMA_VERSION) \<le> 218"
      "length (json_string CORRELATION_SOURCE_ID) \<le> 218"
      by code_simp+
    ultimately show ?thesis
      unfolding canonical_evidence_bytes_def
      by (intro order_trans [OF json_length(2)] order_trans [OF mult_left_mono [OF json_object_length]])
        (simp_all add: envelope_request_def finding_envelope_def example_pydantic_def seq)
  qed
  then have adm: "admitted (\<lambda>_. ''now'') ?st ?e correlation_source"
    by (simp add: admitted_def find_source_def example_store_def correlation_source_def simulator_source_def
        envelope_request_def finding_envelope_def maximum_bytes_def CORRELATION_EVIDENCE_TYPE_def
        CORRELATION_SOURCE_KEY_def)
  have "length (deterministic_evidence_id CORRELATION_SOURCE_ID ?e) \<noteq> length ''t''"
    by (simp add: deterministic_evidence_id_def deterministic_evidence_id_from_fields_def uuid5_shape)
  then have "deterministic_evidence_id CORRELATION_SOURCE_ID ?e \<noteq> ''t''" by (rule contrapos_nn) simp
  then have "appended (\<lambda>_. ''now'') ?st ?e 9 CORRELATION_SOURCE_ID
      (?st\<lparr>ev_records := ev_records ?st @ [evidence_row (\<lambda>_. ''now'') CORRELATION_SOURCE_ID ?e 9]\<rparr>)"
    by (simp add: appended_def example_store_def example_row_def record_identity_def request_identity_def
        envelope_request_def finding_envelope_def telemetry_request_def CORRELATION_EVIDENCE_TYPE_def)
  with adm have ing: "ingest_validated_evidence (\<lambda>_. ''now'') ?st ?e 9 =
      Inr (receipt_of accepted CORRELATION_SOURCE_ID ?e 9,
        ?st\<lparr>ev_records := ev_records ?st @ [evidence_row (\<lambda>_. ''now'') CORRELATION_SOURCE_ID ?e 9]\<rparr>)"
    unfolding ingest_iff by (intro exI [of _ correlation_source]) (simp add: correlation_source_def)
  have iso: "pd_isoformat example_pydantic = (\<lambda>_. ''now'')" by (simp add: example_pydantic_def)
  show ?thesis
  proof (rule that)
    show "persist_correlation_finding example_pydantic v1_correlation ?st example_persistence 9 =
        Inr (\<lparr>cps_receipt = receipt_of accepted CORRELATION_SOURCE_ID ?e 9, cps_finding = bf_finding built\<rparr>,
          ?st\<lparr>ev_records := ev_records ?st @ [evidence_row (\<lambda>_. ''now'') CORRELATION_SOURCE_ID ?e 9]\<rparr>)"
      unfolding persist_correlation_finding_def example_input iso raising_def sum.case rbind_simps ev
        ingest_internal_evidence_def
      by (simp add: correlation_request_def b(1) ing b(2) [of example_pydantic] receipt_of_def)
  qed (simp add: receipt_of_def)
qed


text \<open>The example at C38: repeated after another ingestion.\<close>

theorem persistence_repeatable_witness:
  "\<exists>result st'. persist_correlation_finding example_pydantic v1_correlation example_store example_persistence 9
       = Inr (result, st') \<and> rc_status (cps_receipt result) = accepted
     \<and> (let st'' = run_ops (ingest_step plain_iso) [(telemetry_request, 10)] st' in
        persist_correlation_finding example_pydantic v1_correlation st'' example_persistence 11 =
          Inr (result\<lparr>cps_receipt := (cps_receipt result)
            \<lparr>rc_status := duplicate_existing, rc_receipt_timestamp := 11\<rparr>\<rparr>, st''))"
proof -
  obtain result st' where p:
    "persist_correlation_finding example_pydantic v1_correlation example_store example_persistence 9 = Inr (result, st')"
    "rc_status (cps_receipt result) = accepted"
    by (rule example_persists)
  with persistence_repeatable [OF p(1) refl] show ?thesis
    by (intro exI [of _ result] exI [of _ st']) (simp only: Let_def simp_thms)
qed

end
