(* ===== verification/Incident_Evidence.thy ===== *)
theory Incident_Evidence
  imports Incident_Qualification Incident_Guarantees Correlation_Persistence
begin

text \<open>
  The evidence behind incidents. The verification of a request reads every record from the store, so the
  memberships of a candidate are stored and verified records; this stays so for every incident through
  any run of the whole system, ingestion, correlation, qualification and the work of analysts together.
\<close>

section \<open>Verified bundles\<close>

interpretation expected_record: evidence_reader pd "verified_reference pd"
  "\<lambda>x r. rec_evidence_id r = xr_evidence_id x \<and> rec_integrity_sha256 r = xr_integrity_sha256 x
     \<and> rec_evidence_type r = xr_evidence_type x \<and> rec_payload_schema r = xr_schema x
     \<and> rec_payload_schema_version r = xr_version x"
proof
  fix st x r
  assume read: "verified_reference pd st x = Inr r"
  then have "rec_evidence_id r = xr_evidence_id x" "get_evidence st (xr_evidence_id x) = Some r"
    by (auto simp: verified_reference_def dest: get_evidence_SomeD split: option.splits if_splits)
  with read show "get_evidence st (rec_evidence_id r) = Some r \<and> verifies pd st r
      \<and> rec_evidence_id r = xr_evidence_id x \<and> rec_integrity_sha256 r = xr_integrity_sha256 x
      \<and> rec_evidence_type r = xr_evidence_type x \<and> rec_payload_schema r = xr_schema x
      \<and> rec_payload_schema_version r = xr_version x"
    by (auto simp: verified_reference_def split: if_splits)
next
  fix st st' x r
  assume "later_store st st'" "verified_reference pd st x = Inr r"
  then show "verified_reference pd st' x = Inr r"
    by (auto simp: verified_reference_def later_get_evidence later_verifies split: option.splits if_splits)
qed

text \<open>The record of the given type behind an optional model: both or neither, and stored.\<close>

definition backed :: "pydantic \<Rightarrow> EvidenceStore \<Rightarrow> string \<Rightarrow> EvidenceRecord option \<Rightarrow> 'a option \<Rightarrow> bool" where
  "backed pd st t r m =
     ((r = None) = (m = None)
      \<and> option_all (\<lambda>r. rec_evidence_type r = t \<and> grounded pd st t (rec_evidence_id r) (rec_integrity_sha256 r)) r)"

lemma read_backed:
  assumes "verified_reference pd st x = Inr r"
  shows "backed pd st (xr_evidence_type x) (Some r) (Some m)"
  using expected_record.read_grounded [OF assms] expected_record.read_stored [OF assms]
  by (simp add: backed_def)

lemma selected_policy_backed:
  "ensures (selected_policy pd st request)
     (\<lambda>p. backed pd st ''communication_policy_finding'' (map_option fst p) (map_option snd p))"
  unfolding selected_policy_def
proof (intro ensures_option ensures_rbind ensures_Inr)
  fix s r p
  assume "verified_reference pd st (expect_policy (es_evidence_id s) (es_expected_integrity_sha256 s)) = Inr r"
  from read_backed [OF this] show "backed pd st ''communication_policy_finding''
      (map_option fst (Some (r, p))) (map_option snd (Some (r, p)))" by (simp add: expect_policy_def)
qed (simp add: backed_def)

lemma correlated_policy_backed:
  assumes "backed pd st ''communication_policy_finding'' (map_option fst p) (map_option snd p)"
  shows "ensures (correlated_policy pd st p f)
    (\<lambda>p. backed pd st ''communication_policy_finding'' (map_option fst p) (map_option snd p))"
  unfolding correlated_policy_def
proof (intro ensures_option ensures_rbind ensures_if ensures_Inl ensures_Inr assms)
  fix i d r q
  assume "verified_reference pd st (expect_policy i d) = Inr r"
  from read_backed [OF this] show "backed pd st ''communication_policy_finding''
      (map_option fst (Some (r, q))) (map_option snd (Some (r, q)))" by (simp add: expect_policy_def)
qed

lemma selected_correlation_backed:
  "ensures (selected_correlation pd st s)
     (\<lambda>(r, f, _). backed pd st ''correlation_finding'' (Some r) (Some f) \<and> valid_finding f)"
  unfolding selected_correlation_def
proof (intro ensures_rbind ensures_if ensures_Inl ensures_Inr)
  fix r f ts v
  assume r: "verified_reference pd st (expect_correlation (es_evidence_id s) (es_expected_integrity_sha256 s)) = Inr r"
    and f: "model_validate (pd_correlation_finding pd) valid_finding
      (IncidentEvidenceError ''The stored cyber-physical correlation finding is invalid.'') (rec_payload r) = Inr f"
  from read_backed [OF r] f show "case (r, f, ts) of (r, f, _) \<Rightarrow>
      backed pd st ''correlation_finding'' (Some r) (Some f) \<and> valid_finding f"
    by (simp add: expect_correlation_def model_validate_Inr)
qed

lemma bundle_backed:
  assumes "verify_qualification_evidence pd st request = Inr bundle"
  shows "backed pd st ''communication_policy_finding'' (vb_policy_record bundle) (vb_policy bundle)"
    "backed pd st ''correlation_finding'' (vb_correlation_record bundle) (vb_correlation bundle)"
    "option_all valid_finding (vb_correlation bundle)"
proof -
  obtain selected cp lineage lineage' where steps: "selected_policy pd st request = Inr selected"
    "(case iq_correlation_finding request of
        None \<Rightarrow> Inr (None, selected)
      | Some s \<Rightarrow>
          rbind (selected_correlation pd st s) (\<lambda>correlation.
          rbind (correlated_policy pd st selected (fst (snd correlation))) (\<lambda>policy.
          Inr (Some correlation, policy)))) = Inr cp"
    "bundle = evidence_bundle (snd cp) (fst cp) lineage'"
    using assms unfolding verify_qualification_evidence_def
    by (elim rbind_InrE) (auto simp: split_def elim!: rbind_InrE)
  note policy = ensuresD [OF selected_policy_backed steps(1)]
  have "backed pd st ''communication_policy_finding'' (map_option fst (snd cp)) (map_option snd (snd cp))
    \<and> backed pd st ''correlation_finding'' (map_option fst (fst cp)) (map_option (fst \<circ> snd) (fst cp))
    \<and> option_all valid_finding (map_option (fst \<circ> snd) (fst cp))"
  proof (cases "iq_correlation_finding request")
    case None
    with steps(2) policy show ?thesis by (auto simp: backed_def)
  next
    case (Some s)
    with steps(2) obtain c p where c: "selected_correlation pd st s = Inr c"
      and p: "correlated_policy pd st selected (fst (snd c)) = Inr p" and cp: "cp = (Some c, p)"
      by (auto elim!: rbind_InrE)
    from ensuresD [OF selected_correlation_backed c] ensuresD [OF correlated_policy_backed [OF policy] p] cp
    show ?thesis by (auto simp: split_def)
  qed
  then show "backed pd st ''communication_policy_finding'' (vb_policy_record bundle) (vb_policy bundle)"
    "backed pd st ''correlation_finding'' (vb_correlation_record bundle) (vb_correlation bundle)"
    "option_all valid_finding (vb_correlation bundle)"
    by (simp_all add: steps(3) evidence_bundle_def)
qed

section \<open>Candidates\<close>

definition grounded_membership :: "pydantic \<Rightarrow> EvidenceStore \<Rightarrow> CandidateMembership \<Rightarrow> bool" where
  "grounded_membership pd st m = grounded pd st (cm_evidence_type m) (cm_evidence_id m) (cm_integrity_sha256 m)"

lemma membership_backed:
  assumes "membership r role = Inr m" "backed pd st t (Some r) v"
  shows "grounded_membership pd st m" "cm_evidence_type m = t" "cm_role m = role"
  using assms by (auto simp: membership_def Let_def backed_def grounded_membership_def split: if_splits)

lemma required_value_Inr [result_split]: "required_value v label = Inr x \<longleftrightarrow> v = Some x"
  by (simp add: required_value_def split: option.splits)

lemma profile_rule_Inr [result_split]: "profile_rule profile k = Inr r \<longleftrightarrow> incident_rules profile k = Some r"
  by (simp add: profile_rule_def split: option.splits)

lemma new_candidate_Inr [result_split]:
  "new_candidate c = Inr c' \<longleftrightarrow> c' = c \<and> valid_candidate_fields c \<and> validate_primary_membership c"
  by (auto simp: new_candidate_def)

text \<open>What every candidate shares: its rule, its texts, valid memberships from the store.\<close>

definition sound_candidate ::
  "pydantic \<Rightarrow> EvidenceStore \<Rightarrow> LoadedIncidentProfile \<Rightarrow> string \<Rightarrow> IncidentCategory \<Rightarrow> IncidentSeverity \<Rightarrow>
   QualifiedIncidentCandidate \<Rightarrow> bool" where
  "sound_candidate pd st profile k category severity c =
     (\<exists>r. incident_rules profile k = Some r \<and> qc_qualification_rule_id c = ir_rule_id r
        \<and> qc_title c = ir_title r \<and> qc_summary c = ir_summary r \<and> qc_category c = category
        \<and> qc_severity c = severity \<and> validate_primary_membership c
        \<and> list_all (grounded_membership pd st) (all_memberships c))"

lemma qualify_s1_sound:
  assumes "backed pd st ''communication_policy_finding'' (vb_policy_record bundle) (vb_policy bundle)"
  shows "ensures (qualify_s1 bundle profile)
    (sound_candidate pd st profile ''IQR-S1-UNKNOWN-SOURCE-001'' ASSET_IDENTITY_ANOMALY IncidentSeverity.LOW)"
  unfolding qualify_s1_def
  by (intro ensures_rbind ensures_option ensures_Inl)
    (use assms in \<open>auto simp: ensures_def result_split sound_candidate_def all_memberships_def
      dest: membership_backed\<close>)

lemma qualify_s2_sound:
  assumes "backed pd st ''communication_policy_finding'' (vb_policy_record bundle) (vb_policy bundle)"
  shows "ensures (qualify_s2 bundle profile)
    (sound_candidate pd st profile ''IQR-S2-IT-PLC-POLICY-001'' COMMUNICATION_POLICY_VIOLATION IncidentSeverity.MEDIUM)"
  unfolding qualify_s2_def
  by (intro ensures_rbind ensures_option ensures_Inl)
    (use assms in \<open>auto simp: ensures_def result_split sound_candidate_def all_memberships_def
      dest: membership_backed\<close>)

lemma qualify_s4_sound:
  assumes "backed pd st ''correlation_finding'' (vb_correlation_record bundle) (vb_correlation bundle)"
  shows "ensures (qualify_s4 bundle profile) (\<lambda>result. \<forall>c. result = Some c \<longrightarrow>
    sound_candidate pd st profile ''IQR-S4-PUMP-FLOW-001'' PROCESS_INCONSISTENCY IncidentSeverity.HIGH c
    \<and> option_all s4_finding_qualifies (vb_correlation bundle) \<and> vb_correlation bundle \<noteq> None
    \<and> cm_evidence_type (qc_primary_membership c) = ''correlation_finding'')"
  unfolding qualify_s4_def
  by (intro ensures_rbind ensures_if ensures_Inl)
    (use assms in \<open>auto simp: ensures_def result_split sound_candidate_def all_memberships_def
      dest: membership_backed\<close>)

text \<open>The severity of a command investigation: high when a denied command was followed by the process response.\<close>

definition s3_severity :: "VerifiedIncidentEvidenceBundle \<Rightarrow> IncidentSeverity" where
  "s3_severity bundle =
     (if map_option pf_policy_status (vb_policy bundle) = Some PolicyStatus.DENIED
         \<and> s3_correlation_match (vb_correlation bundle) then IncidentSeverity.HIGH else IncidentSeverity.MEDIUM)"

definition cites_correlation :: "QualifiedIncidentCandidate \<Rightarrow> bool" where
  "cites_correlation c = list_ex (\<lambda>m. cm_evidence_type m = ''correlation_finding'') (all_memberships c)"

lemma s3_parts_sound:
  assumes "s3_parts policy policy_record semantic correlation correlation_record = Inr (primary, additional, severity, rs, cs)"
    "backed pd st ''communication_policy_finding'' (Some policy_record) (Some policy)"
    "backed pd st ''correlation_finding'' correlation_record correlation"
  shows "list_all (grounded_membership pd st) (primary # additional)"
    "severity = (if pf_policy_status policy = PolicyStatus.DENIED \<and> s3_correlation_match correlation
       then IncidentSeverity.HIGH else IncidentSeverity.MEDIUM)"
    "s3_correlation_match correlation \<Longrightarrow>
       list_ex (\<lambda>m. cm_evidence_type m = ''correlation_finding'') (primary # additional)"
proof -
  have recorded: "correlation_record \<noteq> None" if "s3_correlation_match correlation"
    using assms(3) that by (auto simp: backed_def s3_correlation_match_def split: option.splits)
  show "list_all (grounded_membership pd st) (primary # additional)"
    using assms unfolding s3_parts_def Let_def
    by (auto simp: result_split split: if_splits option.splits dest: membership_backed)
  show "severity = (if pf_policy_status policy = PolicyStatus.DENIED \<and> s3_correlation_match correlation
      then IncidentSeverity.HIGH else IncidentSeverity.MEDIUM)"
    using assms(1) unfolding s3_parts_def Let_def by (auto simp: result_split split: if_splits)
  show "list_ex (\<lambda>m. cm_evidence_type m = ''correlation_finding'') (primary # additional)"
    if "s3_correlation_match correlation"
    using assms recorded [OF that] unfolding s3_parts_def Let_def
    by (auto simp: result_split split: if_splits option.splits dest: membership_backed(2))
qed

lemma qualify_s3_sound:
  assumes "backed pd st ''communication_policy_finding'' (vb_policy_record bundle) (vb_policy bundle)"
    "backed pd st ''correlation_finding'' (vb_correlation_record bundle) (vb_correlation bundle)"
    "qualify_s3 bundle profile = Inr (Some c)"
  shows "sound_candidate pd st profile ''IQR-S3-CV-COMMAND-001'' CONTROL_COMMAND_INVESTIGATION (s3_severity bundle) c"
    "s3_correlation_match (vb_correlation bundle) \<Longrightarrow> cites_correlation c"
    "map_option pf_policy_status (vb_policy bundle) = Some PolicyStatus.DENIED
     \<or> s3_correlation_match (vb_correlation bundle)"
proof -
  obtain policy policy_record semantic rule parts pairs where
    given: "vb_policy bundle = Some policy" "vb_policy_record bundle = Some policy_record"
    and status: "pf_policy_status policy = PolicyStatus.DENIED
      \<or> pf_policy_status policy = PolicyStatus.APPROVED \<and> s3_correlation_match (vb_correlation bundle)"
    and rule: "incident_rules profile ''IQR-S3-CV-COMMAND-001'' = Some rule"
    and parts: "s3_parts policy policy_record semantic (vb_correlation bundle) (vb_correlation_record bundle) = Inr parts"
    and c: "c = s3_candidate rule policy semantic (vb_correlation bundle) parts pairs" "validate_primary_membership c"
    using assms(3) unfolding qualify_s3_def Let_def
    by (elim rbind_InrE) (auto simp: result_split split: if_splits elim!: rbind_InrE)
  obtain primary additional severity rs cs where p: "parts = (primary, additional, severity, rs, cs)"
    by (cases parts)
  note s = s3_parts_sound [OF parts [unfolded p] assms(1) [unfolded given] assms(2)]
  have members: "all_memberships c = primary # additional"
    by (simp add: c p s3_candidate_def all_memberships_def)
  show "sound_candidate pd st profile ''IQR-S3-CV-COMMAND-001'' CONTROL_COMMAND_INVESTIGATION (s3_severity bundle) c"
    using s(1,2) rule c(2) members
    by (simp add: sound_candidate_def s3_severity_def given) (simp add: c(1) p s3_candidate_def)
  show "cites_correlation c" if "s3_correlation_match (vb_correlation bundle)"
    using s(3) [OF that] by (simp add: cites_correlation_def members)
  show "map_option pf_policy_status (vb_policy bundle) = Some PolicyStatus.DENIED
      \<or> s3_correlation_match (vb_correlation bundle)"
    using status by (auto simp: given)
qed

lemma qualify_incident_sound:
  assumes "verify_qualification_evidence pd st request = Inr bundle"
    "qualify_incident bundle profile = Inr (Some c)"
  obtains (s1) "sound_candidate pd st profile ''IQR-S1-UNKNOWN-SOURCE-001'' ASSET_IDENTITY_ANOMALY IncidentSeverity.LOW c"
      "is_s1 bundle"
    | (s2) "sound_candidate pd st profile ''IQR-S2-IT-PLC-POLICY-001'' COMMUNICATION_POLICY_VIOLATION
        IncidentSeverity.MEDIUM c" "is_s2 bundle"
    | (s3) "sound_candidate pd st profile ''IQR-S3-CV-COMMAND-001'' CONTROL_COMMAND_INVESTIGATION
        (s3_severity bundle) c" "is_s3_command bundle"
        "s3_correlation_match (vb_correlation bundle) \<Longrightarrow> cites_correlation c"
        "map_option pf_policy_status (vb_policy bundle) = Some PolicyStatus.DENIED
         \<or> s3_correlation_match (vb_correlation bundle)"
    | (s4) "sound_candidate pd st profile ''IQR-S4-PUMP-FLOW-001'' PROCESS_INCONSISTENCY IncidentSeverity.HIGH c"
        "option_all s4_finding_qualifies (vb_correlation bundle)" "vb_correlation bundle \<noteq> None"
        "vb_policy bundle = None" "cites_correlation c"
proof -
  note backed = bundle_backed [OF assms(1)]
  let ?s4 = "case vb_correlation bundle of None \<Rightarrow> False | Some f \<Rightarrow> cf_correlation_rule_id f = ''CPR-S4-PUMP-FLOW-001''"
  consider (a) ?s4 "vb_policy bundle = None" "qualify_s4 bundle profile = Inr (Some c)"
    | (b) "is_s1 bundle" "qualify_s1 bundle profile = Inr c"
    | (d) "is_s2 bundle" "qualify_s2 bundle profile = Inr c"
    | (e) "is_s3_command bundle" "qualify_s3 bundle profile = Inr (Some c)"
    using assms(2) unfolding qualify_incident_def by (auto split: if_splits elim!: rbind_InrE)
  then show ?thesis
  proof cases
    case a
    from ensuresD [OF qualify_s4_sound [OF backed(2)] a(3)] a(2) show ?thesis
      by (intro s4) (auto simp: cites_correlation_def all_memberships_def)
  next
    case b
    from ensuresD [OF qualify_s1_sound [OF backed(1)] b(2)] b(1) show ?thesis by (rule s1)
  next
    case d
    from ensuresD [OF qualify_s2_sound [OF backed(1)] d(2)] d(1) show ?thesis by (rule s2)
  next
    case e
    from qualify_s3_sound [OF backed(1,2) e(2)] e(1) show ?thesis by (intro s3)
  qed
qed

lemma sound_candidate_rule:
  assumes "sound_candidate pd st profile k category severity c"
    "validate_incident_profile (lip_profile profile) = Inr ()"
    "(k, branch, category, initial, template, title) \<in> set expected_rules"
  obtains r where "incident_rules profile (qc_qualification_rule_id c) = Some r" "ir_branch r = branch"
    "qc_category c = ir_category r" "ir_initial_severity r = initial" "qc_severity c = severity"
    "qc_title c = ir_title r" "qc_summary c = ir_summary r" "\<not> claims_too_much r"
proof -
  obtain r where r: "incident_rules profile k = Some r" "rule_approved r k category initial" "ir_branch r = branch"
    by (rule approved_incident_rule [OF assms(2,3)])
  with assms(1) show ?thesis
    by (intro that [of r]) (auto simp: sound_candidate_def rule_approved_def)
qed

text \<open>
  C40. An incident claims no more than its evidence: when the qualification of a request yields a
  candidate, the candidate carries the category and the texts of a rule of the validated profile, none
  of which claims an attack, a compromise or a cause, and the severity of this rule, raised to HIGH
  only for a denied valve command with a matching correlation; severity HIGH occurs only with a
  verified CORRELATED finding, which is then a membership; every membership is a stored record that
  passes the integrity check; and an approved valve command yields a candidate only with a
  matching correlation.
\<close>

theorem candidate_justified:
  assumes "validate_incident_profile (lip_profile profile) = Inr ()"
    "verify_qualification_evidence pd st request = Inr bundle"
    "qualify_incident bundle profile = Inr (Some c)"
  shows "(\<exists>r. incident_rules profile (qc_qualification_rule_id c) = Some r \<and> qc_category c = ir_category r
      \<and> qc_title c = ir_title r \<and> qc_summary c = ir_summary r \<and> \<not> claims_too_much r
      \<and> qc_severity c = (if ir_branch r = IncidentBranch.S3
           \<and> map_option pf_policy_status (vb_policy bundle) = Some PolicyStatus.DENIED
           \<and> s3_correlation_match (vb_correlation bundle)
         then IncidentSeverity.HIGH else ir_initial_severity r))
    \<and> (qc_severity c = IncidentSeverity.HIGH \<longrightarrow>
        map_option cf_correlation_status (vb_correlation bundle) = Some CORRELATED \<and> cites_correlation c)
    \<and> (\<forall>m \<in> set (all_memberships c).
        grounded pd st (cm_evidence_type m) (cm_evidence_id m) (cm_integrity_sha256 m))
    \<and> (map_option pf_policy_status (vb_policy bundle) = Some PolicyStatus.APPROVED
        \<and> qc_category c = CONTROL_COMMAND_INVESTIGATION \<longrightarrow> s3_correlation_match (vb_correlation bundle))"
  using assms(2,3)
proof (cases rule: qualify_incident_sound)
  case s1
  from s1(1) show ?thesis
    by (rule sound_candidate_rule [OF _ assms(1), of _ _ _ _ _ _ IncidentBranch.S1])
      (use s1 in \<open>auto simp: expected_rules_def sound_candidate_def list_all_iff grounded_membership_def\<close>)
next
  case s2
  from s2(1) show ?thesis
    by (rule sound_candidate_rule [OF _ assms(1), of _ _ _ _ _ _ IncidentBranch.S2])
      (use s2 in \<open>auto simp: expected_rules_def sound_candidate_def list_all_iff grounded_membership_def\<close>)
next
  case s3
  from s3(1) show ?thesis
    by (rule sound_candidate_rule [OF _ assms(1), of _ _ _ _ _ _ IncidentBranch.S3])
      (use s3 in \<open>auto simp: expected_rules_def sound_candidate_def list_all_iff grounded_membership_def
        s3_severity_def s3_correlation_match_def split: option.splits if_splits\<close>)
next
  case s4
  from s4(1) show ?thesis
    by (rule sound_candidate_rule [OF _ assms(1), of _ _ _ _ _ _ IncidentBranch.S4])
      (use s4 in \<open>auto simp: expected_rules_def sound_candidate_def list_all_iff grounded_membership_def
        s4_finding_qualifies_def\<close>)
qed

section \<open>The system\<close>

text \<open>
  The backend as one state machine over its database: ingestion of evidence, correlation of stored
  evidence, qualification of stored evidence, and the work of analysts.
\<close>

type_synonym Backend = "EvidenceStore \<times> IncidentDb"

datatype SystemOp =
    IngestEvidence EvidenceRequest timestamp
  | Correlate CorrelationPersistenceRequest timestamp
  | QualifyEvidence IncidentQualificationRequest timestamp string
  | AnalystWork "AnalystOp + ReportOp" uuid int

datatype SystemError =
    IngestionFailed EvidenceError
  | CorrelationFailed PersistenceError
  | QualificationFailed QualificationError
  | WorkFailed IncidentError

fun system_step ::
  "pydantic \<Rightarrow> LoadedCorrelationProfile \<Rightarrow> LoadedIncidentProfile \<Rightarrow> SystemOp \<Rightarrow> Backend \<Rightarrow>
   SystemError + (unit \<times> Backend)" where
  "system_step pd correlation incident (IngestEvidence e now) (st, db) =
     rbind (raising IngestionFailed (ingest_validated_evidence (pd_isoformat pd) st e now)) (\<lambda>(_, st').
     Inr ((), (st', db)))"
| "system_step pd correlation incident (Correlate request now) (st, db) =
     rbind (raising CorrelationFailed (persist_correlation_finding pd correlation st request now)) (\<lambda>(_, st').
     Inr ((), (st', db)))"
| "system_step pd correlation incident (QualifyEvidence request now request_id) (st, db) =
     rbind (raising QualificationFailed (qualify_stored_evidence pd incident st request now request_id db))
       (\<lambda>(_, db'). Inr ((), (st, db')))"
| "system_step pd correlation incident (AnalystWork op k v) (st, db) =
     rbind (raising WorkFailed (workflow_step (op, k, v) db)) (\<lambda>(_, db'). Inr ((), (st, db')))"

definition grounded_row :: "pydantic \<Rightarrow> EvidenceStore \<Rightarrow> IncidentEvidenceMembership \<Rightarrow> bool" where
  "grounded_row pd st m = grounded pd st (ms_evidence_type m) (ms_evidence_id m) (ms_integrity_sha256 m)"

definition system_inv :: "pydantic \<Rightarrow> Backend \<Rightarrow> bool" where
  "system_inv pd s =
     (evidence_inv (pd_isoformat pd) (fst s) \<and> db_wf (snd s)
      \<and> list_all (grounded_row pd (fst s)) (db_memberships (snd s)))"

lemma later_grounded: "later_store st st' \<Longrightarrow> grounded pd st t i d \<Longrightarrow> grounded pd st' t i d"
  by (auto simp: grounded_def later_get_evidence later_verifies split: option.splits)

lemma evidence_grows_inv:
  assumes "ingest_validated_evidence (pd_isoformat pd) st e now = Inr (receipt, st')" "system_inv pd (st, db)"
  shows "system_inv pd (st', db)"
proof -
  have "later_store st st'"
    using evidence_growth.step_rel [of "pd_isoformat pd" "(e, now)" st receipt st'] assms(1)
    by (simp add: ingest_step_def)
  from later_grounded [OF this] ingest_inv [OF _ assms(1)] assms(2) show ?thesis
    by (auto simp: system_inv_def list_all_iff grounded_row_def)
qed

text \<open>Recording a candidate adds memberships of the candidate only.\<close>

lemma stored_memberships:
  assumes "stored_as profile now c db outcome i db'" "validate_primary_membership c" "db_wf db"
    "list_all (grounded_membership pd st) (all_memberships c)" "list_all (grounded_row pd st) (db_memberships db)"
  shows "list_all (grounded_row pd st) (db_memberships db')"
proof -
  have row: "grounded_row pd st (membership_row k now m)"
      "grounded_row pd st (membership_row k now (effective_membership j m))"
    if "m \<in> set (all_memberships c)" for k j m
    using assms(4) that
    by (auto simp: list_all_iff grounded_row_def grounded_membership_def membership_row_def effective_membership_def)
  from assms(1) consider "candidate_created db c i now db'" | "db' = db" | j where "enrichment db c j now i db'"
    unfolding stored_as_def by blast
  then show ?thesis
  proof cases
    case 1
    from created_rows(1) [OF 1] have "db_memberships db' = db_memberships db
        @ map (membership_row (in_incident_id i) now) (all_memberships c)"
      using assms(2,3) by simp
    with row(1) assms(5) show ?thesis by (auto simp: list_all_iff)
  next
    case 2
    with assms(5) show ?thesis by simp
  next
    case (3 j)
    then have "db_memberships db' = db_memberships db @ map (membership_row (in_incident_id j) now)
        (unlinked db (in_incident_id j) (map (effective_membership j) (all_memberships c)))"
      by (auto simp: enrichment_def Let_def)
    with row(2) assms(5) show ?thesis by (auto simp: list_all_iff unlinked_def)
  qed
qed

lemma recorded_memberships:
  assumes "record_candidate profile now request_id c db = Inr (outcome, i, db')" "validate_primary_membership c"
    "db_wf db" "list_all (grounded_membership pd st) (all_memberships c)"
    "list_all (grounded_row pd st) (db_memberships db)"
  shows "list_all (grounded_row pd st) (db_memberships db')"
proof -
  have same: "validate_primary_membership (separate_scope c)"
      "list_all (grounded_membership pd st) (all_memberships (separate_scope c))"
    using assms(2,4) by (simp_all add: separate_scope_def validate_primary_membership_def all_memberships_def)
  from record_candidate_stored [OF assms(1,2)] show ?thesis
    using stored_memberships [OF _ assms(2-5)] stored_memberships [OF _ same(1) assms(3) same(2) assms(5)] by blast
qed

lemma qualification_inv:
  assumes "qualify_stored_evidence pd incident st request now request_id db = Inr (receipt, db')"
    "system_inv pd (st, db)"
  shows "system_inv pd (st, db')"
proof -
  from assms(1) obtain evidence candidate where v: "verify_qualification_evidence pd st request = Inr evidence"
    "qualify_incident evidence incident = Inr candidate"
    and rest: "candidate = None \<and> db' = db \<or> (\<exists>c outcome i. candidate = Some c
      \<and> record_candidate (profile_key incident) now request_id c db = Inr (outcome, i, db'))"
    unfolding qualify_stored_evidence_def
    by (elim rbind_InrE) (auto split: option.splits sum.splits)
  from rest show ?thesis
  proof (elim disjE exE conjE)
    fix c outcome i
    assume c: "candidate = Some c"
      and recorded: "record_candidate (profile_key incident) now request_id c db = Inr (outcome, i, db')"
    from v(1) v(2) [unfolded c] have "validate_primary_membership c"
        "list_all (grounded_membership pd st) (all_memberships c)"
      by (cases rule: qualify_incident_sound; auto simp: sound_candidate_def)+
    with recorded_memberships [OF recorded] record_candidate_wf [OF recorded] assms(2) show ?thesis
      by (simp add: system_inv_def)
  qed (use assms(2) in simp)
qed

lemma work_inv:
  assumes "workflow_step (op, k, v) db = Inr (out, db')" "system_inv pd (st, db)"
  shows "system_inv pd (st, db')"
proof -
  have "service_step (Work op k v) db = Inr (out, db')" using assms(1) by simp
  from incidents.step_inv [OF _ this] have "db_wf db'" using assms(2) by (simp add: system_inv_def)
  moreover have "db_memberships db' = db_memberships db"
  proof (cases op)
    case (Inl a)
    with assms(1) show ?thesis
      by (auto elim!: rbind_InrE dest!: analyst_op_commits simp: committed_def audited_def)
  next
    case (Inr r)
    with assms(1) obtain report where "report_op r k v db = Inr (report, db')" by (auto elim!: rbind_InrE)
    then show ?thesis
      by (cases r) (auto simp: save_incident_report_def Let_def result_split split: option.splits if_splits)
  qed
  ultimately show ?thesis using assms(2) by (simp add: system_inv_def)
qed

interpretation system: invariant_ops "system_step pd correlation incident" "system_inv pd"
proof
  fix s op out s'
  assume inv: "system_inv pd s" and step: "system_step pd correlation incident op s = Inr (out, s')"
  obtain st db where s: "s = (st, db)" by (cases s)
  show "system_inv pd s'"
  proof (cases op)
    case (IngestEvidence e now)
    with step inv show ?thesis by (auto simp: s elim!: rbind_InrE dest: evidence_grows_inv)
  next
    case (Correlate request now)
    with step s obtain result st' where p: "persist_correlation_finding pd correlation st request now = Inr (result, st')"
      "s' = (st', db)" by (auto elim!: rbind_InrE)
    from persist_Inr [OF p(1)] inv show ?thesis
      unfolding s p(2) by (metis evidence_grows_inv)
  next
    case (QualifyEvidence request now request_id)
    with step inv show ?thesis by (auto simp: s elim!: rbind_InrE dest: qualification_inv)
  next
    case (AnalystWork w k v)
    with step inv show ?thesis by (auto simp: s simp del: workflow_step.simps elim!: rbind_InrE dest: work_inv)
  qed
qed

text \<open>No operation changes or drops a stored record, or touches the registered sources.\<close>

lemma ingested_later:
  "ingest_validated_evidence isoformat st e now = Inr (receipt, st') \<Longrightarrow> later_store st st'"
  by (rule evidence_growth.step_rel [of isoformat "(e, now)" st receipt]) (simp add: ingest_step_def)

interpretation system_growth: related_ops "system_step pd correlation incident" "\<lambda>s s'. later_store (fst s) (fst s')"
proof
  fix op s out s'
  assume step: "system_step pd correlation incident op s = Inr (out, s')"
  obtain st db where s: "s = (st, db)" by (cases s)
  show "later_store (fst s) (fst s')"
  proof (cases op)
    case (IngestEvidence e now)
    with step show ?thesis by (auto simp: s elim!: rbind_InrE dest: ingested_later)
  next
    case (Correlate request now)
    with step s obtain result st' where p: "persist_correlation_finding pd correlation st request now = Inr (result, st')"
      "s' = (st', db)" by (auto elim!: rbind_InrE)
    from persist_Inr [OF p(1)] show ?thesis
      unfolding s p(2) fst_conv by (metis ingested_later)
  qed (use step in \<open>auto simp: s elim!: rbind_InrE\<close>)
qed (simp, rule later_store_trans)

text \<open>
  C39. No incident ever rests on missing or altered evidence: through any sequence of ingestions,
  correlations, qualifications and analyst requests, in any order and whether they succeed or fail,
  the evidence store stays a write-once ledger, whose earlier records all stay as they are and where
  they are, the incident tables stay consistent, and every membership of every incident names a stored
  record of the recorded type and digest that passes the integrity check.
\<close>

theorem incident_evidence_intact:
  assumes "evidence_inv (pd_isoformat pd) st" "db_wf db"
    "\<forall>m \<in> set (db_memberships db). grounded pd st (ms_evidence_type m) (ms_evidence_id m) (ms_integrity_sha256 m)"
    "run_ops (system_step pd correlation incident) ops (st, db) = (st', db')"
  shows "evidence_inv (pd_isoformat pd) st' \<and> prefix (ev_records st) (ev_records st')
    \<and> ev_sources st' = ev_sources st \<and> db_wf db'
    \<and> (\<forall>m \<in> set (db_memberships db').
        grounded pd st' (ms_evidence_type m) (ms_evidence_id m) (ms_integrity_sha256 m))"
proof -
  have "system_inv pd (st, db)" using assms(1-3) by (simp add: system_inv_def list_all_iff grounded_row_def)
  from system.run_inv [OF this, of correlation incident ops]
    system_growth.run_rel [of "(st, db)" pd correlation incident ops] show ?thesis
    by (simp add: assms(4) system_inv_def list_all_iff grounded_row_def later_store_def)
qed

section \<open>An example\<close>

text \<open>A store with one S4 correlation finding, qualified under the shipped profile.\<close>

definition flow_decision :: CorrelationDecision where
  "flow_decision = \<lparr>cd_status = CORRELATED, cd_reason_code = CORRELATION_MATCH, cd_anchor_time = Some 1000,
     cd_correlation_start_time = None, cd_correlation_end_time = None, cd_evidence_observed_at = 1000,
     cd_temporal_relation = ''PROCESS_ONLY_WITHIN_WINDOW'', cd_simulation_id = Some ''sim-1'',
     cd_configuration_hash = Some example_digest, cd_simulator_version = None, cd_telemetry_schema_version = None,
     cd_run_origin = None, cd_baseline_sample_count = 10, cd_effect_sample_count = 60,
     cd_maximum_gap_seconds = None, cd_matched_minimum_set = None,
     cd_process_asset_keys = [''P-101'', ''PL-101'', ''TK-101'', ''TK-102''],
     cd_affected_process_points = [], cd_observations = [], cd_statement_template_id = ''s4'',
     cd_explanation = ''The pump ran without flow.''\<rparr>"

definition flow_envelope :: EvidenceRequest where
  "flow_envelope = telemetry_request\<lparr>er_source_key := CORRELATION_SOURCE_KEY,
     er_evidence_type := ''correlation_finding'', er_payload_schema := ''otsoc.cyber_physical.correlation_finding'',
     er_payload_schema_version := ''1.0.0''\<rparr>"

definition flow_row :: EvidenceRecord where
  "flow_row = evidence_row (\<lambda>_. ''now'') CORRELATION_SOURCE_ID flow_envelope 7"

definition flow_finding :: CyberPhysicalCorrelationFinding where
  "flow_finding = correlation_finding (correlation_request v1_s4_rule None []) flow_decision v1_correlation
     (rec_evidence_id flow_row) example_digest []"

definition flow_provenance :: CorrelationDerivationProvenance where
  "flow_provenance = correlation_provenance (correlation_request v1_s4_rule None []) flow_decision v1_correlation
     example_digest []"

definition flow_pydantic :: pydantic where
  "flow_pydantic = example_pydantic\<lparr>pd_correlation_finding := (\<lambda>_. Some flow_finding),
     pd_correlation_provenance := (\<lambda>_. Some flow_provenance)\<rparr>"

definition flow_store :: EvidenceStore where
  "flow_store = initial_store\<lparr>ev_sources := [correlation_source], ev_records := [flow_row]\<rparr>"

definition flow_request :: IncidentQualificationRequest where
  "flow_request = \<lparr>iq_policy_finding = None, iq_correlation_finding =
     Some \<lparr>es_evidence_id = rec_evidence_id flow_row, es_expected_integrity_sha256 = rec_integrity_sha256 flow_row\<rparr>\<rparr>"

definition shipped_incident_profile :: LoadedIncidentProfile where
  "shipped_incident_profile = \<lparr>lip_profile = oil_gas_incident_v1, lip_sha256 = example_digest\<rparr>"

lemma flow_decision_good: "good_decision flow_decision"
  by code_simp

lemma flow_valid: "valid_finding flow_finding" "valid_correlation_provenance flow_provenance"
proof -
  note parts = frames_valid(2) v1_correlation_valid loaded_ok flow_decision_good digest_ok
  have "\<not> crosses_boundary (correlation_request v1_s4_rule None [])"
    by (simp add: crosses_boundary_def correlation_request_def)
  moreover have "prohibit_overclaiming (cf_analyst_readable_explanation flow_finding)"
    using flow_decision_good by (simp add: flow_finding_def correlation_finding_def Let_def good_decision_def)
  ultimately show "valid_finding flow_finding"
    using finding_fields_valid [OF parts] boundary_of_finding by (simp add: valid_finding_def flow_finding_def)
  show "valid_correlation_provenance flow_provenance"
    unfolding flow_provenance_def by (rule provenance_valid [OF parts])
qed

lemma flow_row_fields:
  "rec_evidence_type flow_row = ''correlation_finding''"
  "rec_payload_schema flow_row = ''otsoc.cyber_physical.correlation_finding''"
  "rec_payload_schema_version flow_row = ''1.0.0''" "rec_source_id flow_row = CORRELATION_SOURCE_ID"
  by (simp_all add: flow_row_def flow_envelope_def evidence_row_def Let_def)

lemma flow_row_read:
  "verified_reference flow_pydantic flow_store (expect_correlation (rec_evidence_id flow_row) (rec_integrity_sha256 flow_row)) = Inr flow_row"
proof -
  have "get_evidence flow_store (rec_evidence_id flow_row) = Some flow_row"
    by (simp add: get_evidence_def flow_store_def flow_row_fields)
  moreover have "record_source flow_store flow_row = Some correlation_source"
    by (simp add: record_source_def flow_store_def flow_row_fields correlation_source_def)
  then have "verifies flow_pydantic flow_store flow_row"
    by (simp add: verifies_def verify_record_integrity_def flow_row_fields envelope_class_def flow_pydantic_def
        example_pydantic_def plain_validate_def record_envelope_def)
      (simp add: flow_row_def flow_envelope_def telemetry_request_def correlation_source_def evidence_row_def Let_def)
  ultimately show ?thesis
    by (simp add: verified_reference_def expect_correlation_def flow_row_fields)
qed

definition flow_bundle :: VerifiedIncidentEvidenceBundle where
  "flow_bundle = evidence_bundle None (Some (flow_row, flow_finding, [])) None"

lemma flow_finding_fields:
  "cf_correlation_id flow_finding = rec_evidence_id flow_row" "cf_telemetry_parents flow_finding = []"
  "cf_policy_finding_evidence_id flow_finding = None" "cf_correlation_rule_id flow_finding = ''CPR-S4-PUMP-FLOW-001''"
  "cf_parent_set_sha256 flow_finding = cv_parent_set_sha256 flow_provenance"
  "cf_simulation_id flow_finding = Some ''sim-1''" "cf_configuration_hash flow_finding = Some example_digest"
  "cf_anchor_time flow_finding = Some 1000"
  by (simp_all add: flow_finding_def flow_provenance_def correlation_finding_def correlation_provenance_def Let_def
      correlation_request_def v1_s4_rule_def flow_decision_def)

lemma flow_qualifies: "s4_finding_qualifies flow_finding"
  by (simp add: s4_finding_qualifies_def flow_finding_def correlation_finding_def Let_def
      correlation_request_def v1_s4_rule_def flow_decision_def)

lemma flow_assets: "pa_asset_key ` set (cf_process_assets flow_finding) = {''P-101'', ''PL-101'', ''TK-101'', ''TK-102''}"
  by (simp add: flow_finding_def correlation_finding_def Let_def process_asset_def flow_decision_def)

lemma flow_verified: "verify_qualification_evidence flow_pydantic flow_store flow_request = Inr flow_bundle"
proof -
  have "selected_correlation flow_pydantic flow_store
      \<lparr>es_evidence_id = rec_evidence_id flow_row, es_expected_integrity_sha256 = rec_integrity_sha256 flow_row\<rparr>
    = Inr (flow_row, flow_finding, [])"
    using flow_valid
    by (simp add: selected_correlation_def flow_row_read model_validate_def flow_pydantic_def [THEN arg_cong [of _ _ pd_correlation_finding]]
        flow_pydantic_def [THEN arg_cong [of _ _ pd_correlation_provenance]] flow_finding_fields flow_row_fields
        validate_correlation_telemetry_scope_def)
  then show ?thesis
    by (simp add: verify_qualification_evidence_def selected_policy_def flow_request_def correlated_policy_def
        flow_finding_fields flow_bundle_def)
qed

lemma flow_candidate:
  obtains c where "qualify_incident flow_bundle shipped_incident_profile = Inr (Some c)"
    "qc_severity c = IncidentSeverity.HIGH" "qc_additional_memberships c = []" "cm_role (qc_primary_membership c) = PRIMARY"
proof -
  obtain r where r: "incident_rules shipped_incident_profile ''IQR-S4-PUMP-FLOW-001'' = Some r"
    "rule_approved r ''IQR-S4-PUMP-FLOW-001'' PROCESS_INCONSISTENCY IncidentSeverity.HIGH"
    by (rule approved_incident_rule [of shipped_incident_profile "''IQR-S4-PUMP-FLOW-001''"])
      (simp_all add: shipped_incident_profile_def oil_gas_incident_v1_valid expected_rules_def)
  have "sem_ver ''1.0.0''" by code_simp
  then have "valid_membership \<lparr>cm_evidence_id = rec_evidence_id flow_row, cm_evidence_type = ''correlation_finding'',
      cm_evidence_schema = ''otsoc.cyber_physical.correlation_finding'', cm_evidence_schema_version = ''1.0.0'',
      cm_integrity_sha256 = rec_integrity_sha256 flow_row, cm_role = role, cm_observed_at = t, cm_received_at = u\<rparr>"
    for role t u
    by (simp add: valid_membership_def text_within_def flow_row_def integrity_sha256_def is_sha256_hex)
  then obtain m where m: "membership flow_row PRIMARY = Inr m" "cm_role m = PRIMARY"
    by (simp add: membership_def Let_def flow_row_fields)
  have scope: "text_within 160 ''sim-1''" "text_within 160 example_digest" by code_simp+
  show ?thesis
    by (rule that, use r m flow_qualifies digest_ok scope in \<open>simp add: qualify_incident_def flow_bundle_def
        evidence_bundle_def flow_finding_fields qualify_s4_def flow_assets required_value_def profile_rule_def
        new_candidate_def valid_candidate_fields_def validate_primary_membership_def all_memberships_def
        rule_approved_def text_within_def\<close>) (simp_all add: m)
qed

theorem candidate_justified_witness:
  "\<exists>c. verify_qualification_evidence flow_pydantic flow_store flow_request = Inr flow_bundle
     \<and> qualify_incident flow_bundle shipped_incident_profile = Inr (Some c)
     \<and> qc_severity c = IncidentSeverity.HIGH \<and> cites_correlation c
     \<and> (\<forall>m \<in> set (all_memberships c).
          grounded flow_pydantic flow_store (cm_evidence_type m) (cm_evidence_id m) (cm_integrity_sha256 m))"
proof -
  obtain c where c: "qualify_incident flow_bundle shipped_incident_profile = Inr (Some c)"
    "qc_severity c = IncidentSeverity.HIGH"
    by (rule flow_candidate)
  have "validate_incident_profile (lip_profile shipped_incident_profile) = Inr ()"
    by (simp add: shipped_incident_profile_def oil_gas_incident_v1_valid)
  from candidate_justified [OF this flow_verified c(1)] c flow_verified show ?thesis by blast
qed

text \<open>The candidate becomes the first incident of an empty database.\<close>

lemma flow_store_inv: "evidence_inv (pd_isoformat flow_pydantic) flow_store"
proof -
  have "length (canonical_evidence_bytes (\<lambda>_. ''now'') CORRELATION_SOURCE_ID flow_envelope)
      \<le> maximum_bytes flow_envelope"
  proof -
    have "length (json_dumps (er_payload telemetry_request)) \<le> 218"
      "length (json_dumps (er_provenance telemetry_request)) \<le> 218"
      "length (json_string CORRELATION_SOURCE_ID) \<le> 218"
      "length (json_string (er_source_event_id telemetry_request)) \<le> 218"
      "length (json_string CORRELATION_SOURCE_KEY) \<le> 218" "length (json_string ''correlation_finding'') \<le> 218"
      "length (json_string ''now'') \<le> 218" "length (str_int (er_sequence_number telemetry_request)) \<le> 218"
      "length (json_string ''otsoc.cyber_physical.correlation_finding'') \<le> 218"
      "length (json_string ''1.0.0'') \<le> 218"
      by code_simp+
    then show ?thesis
      unfolding canonical_evidence_bytes_def
      by (intro order_trans [OF json_length(2)] order_trans [OF mult_left_mono [OF json_object_length]])
        (simp_all add: flow_envelope_def maximum_bytes_def)
  qed
  then have "stored_row (\<lambda>_. ''now'') flow_store flow_row"
    unfolding stored_row_def
    by (intro exI [of _ correlation_source] exI [of _ flow_envelope] exI [of _ 7])
      (simp add: flow_store_def correlation_source_def flow_row_def)
  then show ?thesis
    by (simp add: evidence_inv_def flow_pydantic_def example_pydantic_def) (simp add: flow_store_def)
qed

lemma flow_recorded:
  "\<exists>receipt db. qualify_stored_evidence flow_pydantic shipped_incident_profile flow_store flow_request 8 ''r'' empty_db
     = Inr (receipt, db) \<and> db_memberships db \<noteq> []"
proof -
  obtain c where c: "qualify_incident flow_bundle shipped_incident_profile = Inr (Some c)"
    "qc_additional_memberships c = []"
    by (rule flow_candidate)
  have "\<exists>i db. record_candidate (profile_key shipped_incident_profile) 8 ''r'' c empty_db = Inr (created, i, db)
      \<and> db_memberships db \<noteq> []"
    by (simp add: record_candidate_eq load_candidate_def insert_or_load_incident_def empty_db_def add_row_def
        record_creation_def insert_membership_def append_timeline_entry_def append_audit_event_def Let_def
        all_memberships_def finish_candidate_def c(2))
  then show ?thesis
    by (auto simp: qualify_stored_evidence_def flow_verified c(1))
qed

theorem incident_evidence_intact_witness:
  "\<exists>st db. run_ops (system_step flow_pydantic v1_correlation shipped_incident_profile)
       [QualifyEvidence flow_request 8 ''r''] (flow_store, empty_db) = (st, db)
     \<and> db_memberships db \<noteq> [] \<and> evidence_inv (pd_isoformat flow_pydantic) st \<and> db_wf db
     \<and> (\<forall>m \<in> set (db_memberships db).
          grounded flow_pydantic st (ms_evidence_type m) (ms_evidence_id m) (ms_integrity_sha256 m))"
proof -
  obtain receipt db where db: "qualify_stored_evidence flow_pydantic shipped_incident_profile flow_store flow_request
      8 ''r'' empty_db = Inr (receipt, db)" "db_memberships db \<noteq> []"
    using flow_recorded by blast
  then have run: "run_ops (system_step flow_pydantic v1_correlation shipped_incident_profile)
      [QualifyEvidence flow_request 8 ''r''] (flow_store, empty_db) = (flow_store, db)"
    by (simp add: raising_def)
  have "\<forall>m \<in> set (db_memberships empty_db).
      grounded flow_pydantic flow_store (ms_evidence_type m) (ms_evidence_id m) (ms_integrity_sha256 m)"
    by (simp add: empty_db_def)
  from incident_evidence_intact [OF flow_store_inv empty_db_wf this run] run db(2) show ?thesis by blast
qed

end
