(* ===== verification/Soc_Audit.thy ===== *)
theory Soc_Audit
  imports Py_Json Py_Hash
begin

text \<open>
  The audit trail of accounts and of the lab (\<open>app/auth/audit.py\<close>, the audit part of
  \<open>app/auth/models.py\<close>): what an event is, and the checks that keep secrets and oversized details out
  of it. The identifier of an event, drawn by \<open>uuid4\<close>, and its time are arguments.
\<close>

datatype SocAuditAction =
    LOGIN_SUCCEEDED | LOGIN_FAILED | LOGOUT | LOCAL_USER_CREATED | LOCAL_USER_UPDATED
  | LOCAL_USER_PASSWORD_RESET | INCIDENT_ASSIGNED | INCIDENT_STATUS_CHANGED | INCIDENT_DISPOSITION_CHANGED
  | INCIDENT_NOTE_ADDED | INCIDENT_REPORT_SAVED | SCENARIO_STARTED | SCENARIO_COMPLETED
  | RETURNED_TO_BASELINE | LAB_RESET

datatype SocAuditResult = ACCEPTED | DENIED | FAILED

record SocAuditEvent =
  soc_audit_event_id :: uuid
  soc_action :: SocAuditAction
  soc_result :: SocAuditResult
  soc_occurred_at :: timestamp
  soc_actor_user_id :: "uuid option"
  soc_subject_user_id :: "uuid option"
  soc_subject_label :: "string option"
  soc_incident_id :: "uuid option"
  soc_scenario_run_id :: "uuid option"
  soc_request_id :: string
  soc_safe_reason :: "string option"
  soc_details :: "(string \<times> json) list"

section \<open>Details\<close>

definition MAX_AUDIT_DETAILS_BYTES :: nat where
  "MAX_AUDIT_DETAILS_BYTES = 4096"

definition SENSITIVE_KEY_PARTS :: "string list" where
  "SENSITIVE_KEY_PARTS = [''password'', ''token'', ''cookie'', ''csrf'', ''secret'', ''credential'']"

text \<open>
  \<open>str.casefold\<close> below 256: lower case, with the sharp s folded to \<open>ss\<close>. The micro sign folds to a Greek
  letter beyond 255; it is kept, since every result is only compared with ASCII text.
\<close>

definition py_casefold :: "string \<Rightarrow> string" where
  "py_casefold s = concat (map (\<lambda>c. if c = CHR 0xDF then ''ss'' else [py_lower_char c]) s)"

definition sensitive_key :: "string \<Rightarrow> bool" where
  "sensitive_key k = list_ex (\<lambda>part. sublist part (py_casefold k)) SENSITIVE_KEY_PARTS"

text \<open>\<open>_reject_sensitive_keys\<close> raises exactly when a key at any depth contains one of the parts.\<close>

fun has_sensitive_key :: "json \<Rightarrow> bool" where
  "has_sensitive_key (JObj kvs) = list_ex (\<lambda>(k, v). sensitive_key k \<or> has_sensitive_key v) kvs"
| "has_sensitive_key (JList xs) = list_ex has_sensitive_key xs"
| "has_sensitive_key _ = False"

text \<open>\<open>json.dumps\<close> with \<open>ensure_ascii=True\<close>: every character outside the printable ASCII range is escaped.\<close>

definition ascii_escape :: "char \<Rightarrow> string" where
  "ascii_escape c = (if 126 < (of_char c :: nat) then [CHR 0x5C, CHR ''u''] @ hex4_low (of_char c) else json_escape c)"

definition ascii_string :: "string \<Rightarrow> string" where
  "ascii_string s = CHR 0x22 # concat (map ascii_escape s) @ [CHR 0x22]"

fun json_dumps_ascii :: "json \<Rightarrow> string" where
  "json_dumps_ascii JNull = ''null''"
| "json_dumps_ascii (JBool b) = (if b then ''true'' else ''false'')"
| "json_dumps_ascii (JInt i) = str_int i"
| "json_dumps_ascii (JFloat s) = s"
| "json_dumps_ascii (JStr s) = ascii_string s"
| "json_dumps_ascii (JList xs) = CHR ''['' # join_with CHR '','' (map json_dumps_ascii xs) @ '']''"
| "json_dumps_ascii (JObj kvs) =
     CHR 0x7B # join_with CHR '',''
       (map (\<lambda>(k, s). ascii_string k @ CHR '':'' # s)
         (sort_key fst (map (\<lambda>(k, v). (k, json_dumps_ascii v)) kvs))) @ [CHR 0x7D]"

datatype AuditPayloadError = SensitiveKey | DetailsTooLarge | RequestIdInvalid | SubjectLabelInvalid | ReasonInvalid

text \<open>The stored details are the given ones read back, that is the same object up to the order of its keys.\<close>

definition safe_details :: "(string \<times> json) list \<Rightarrow> bool" where
  "safe_details details =
     (\<not> has_sensitive_key (JObj details) \<and> length (json_dumps_ascii (JObj details)) \<le> MAX_AUDIT_DETAILS_BYTES)"

definition validated_details :: "(string \<times> json) list \<Rightarrow> AuditPayloadError + (string \<times> json) list" where
  "validated_details details =
     (if has_sensitive_key (JObj details) then Inl SensitiveKey
      else if MAX_AUDIT_DETAILS_BYTES < length (json_dumps_ascii (JObj details)) then Inl DetailsTooLarge
      else Inr details)"

text \<open>The event the caller describes, checked before it is added.\<close>

definition soc_audit_event :: "SocAuditEvent \<Rightarrow> AuditPayloadError + SocAuditEvent" where
  "soc_audit_event e =
     rbind (validated_details (soc_details e)) (\<lambda>details.
     if \<not> (8 \<le> length (soc_request_id e) \<and> length (soc_request_id e) \<le> 64) then Inl RequestIdInvalid
     else if (case soc_subject_label e of None \<Rightarrow> False | Some l \<Rightarrow> \<not> (1 \<le> length l \<and> length l \<le> 80))
     then Inl SubjectLabelInvalid
     else if (case soc_safe_reason e of None \<Rightarrow> False | Some r \<Rightarrow> \<not> (1 \<le> length r \<and> length r \<le> 300))
     then Inl ReasonInvalid
     else Inr (e\<lparr>soc_details := details\<rparr>))"

lemma validated_details_Inr [result_split]:
  "validated_details details = Inr d \<longleftrightarrow> d = details \<and> safe_details details"
  by (auto simp: validated_details_def safe_details_def)

lemma soc_audit_event_Inr:
  assumes "soc_audit_event e = Inr e'"
  shows "e' = e" "safe_details (soc_details e)"
  using assms by (auto simp: soc_audit_event_def result_split split: if_splits)

end
