(* ===== verification/Account_Security.thy ===== *)
theory Account_Security
  imports Soc_Audit Incident_Workflow Modbus_Model
begin

text \<open>
  Names, passwords and tokens (\<open>app/auth/security.py\<close>). The key derivation \<open>hashlib.scrypt\<close> is a parameter;
  base64url, the textual form of a stored hash, its parsing and HMAC-SHA-256 are modelled. Random bytes
  and tokens are arguments.
\<close>

section \<open>Names and passwords\<close>

datatype SecurityError = IdentityValidationError string | PasswordPolicyError string | SecretTooShort

text \<open>\<open>^[a-z0-9][a-z0-9._-]{2,63}$\<close>.\<close>

definition username_pattern :: "string \<Rightarrow> bool" where
  "username_pattern s =
     (3 \<le> length s \<and> length s \<le> 64 \<and> (lower_char (hd s) \<or> py_digit (hd s))
      \<and> list_all (\<lambda>c. lower_char c \<or> py_digit c \<or> c \<in> set ''._-'') s)"

definition normalize_username :: "string \<Rightarrow> SecurityError + string" where
  "normalize_username v =
     (let normalized = py_casefold (py_strip v) in
      if username_pattern normalized then Inr normalized
      else Inl (IdentityValidationError ''Username must contain 3-64 lowercase letters, digits, dots, underscores, or hyphens.''))"

definition normalize_display_name :: "string \<Rightarrow> SecurityError + string" where
  "normalize_display_name v =
     (if list_ex control_char v
      then Inl (IdentityValidationError ''Display name contains unsupported control characters.'')
      else let normalized = join_with CHR '' '' (py_split (py_strip v)) in
        if 1 \<le> length normalized \<and> length normalized \<le> 120 then Inr normalized
        else Inl (IdentityValidationError ''Display name must contain 1-120 characters.''))"

definition validate_password :: "string \<Rightarrow> SecurityError + unit" where
  "validate_password password =
     (if \<not> (12 \<le> length password \<and> length password \<le> 128)
      then Inl (PasswordPolicyError ''Password must contain 12-128 characters.'')
      else if 512 < length (utf8 password) then Inl (PasswordPolicyError ''Password exceeds the encoded byte limit.'')
      else if list_ex control_char password
      then Inl (PasswordPolicyError ''Password contains unsupported control characters.'')
      else Inr ())"

section \<open>base64url\<close>

definition b64_alphabet :: string where
  "b64_alphabet = ''ABCDEFGHIJKLMNOPQRSTUVWXYZabcdefghijklmnopqrstuvwxyz0123456789-_''"

definition sextet_char :: "int \<Rightarrow> char" where
  "sextet_char n = b64_alphabet ! nat n"

fun index_of :: "'a \<Rightarrow> 'a list \<Rightarrow> int option" where
  "index_of x [] = None"
| "index_of x (y # ys) = (if x = y then Some 0 else map_option (\<lambda>i. i + 1) (index_of x ys))"

text \<open>\<open>urlsafe_b64encode\<close> without the padding \<open>_encode\<close> strips.\<close>

fun b64_encode :: "byte list \<Rightarrow> string" where
  "b64_encode (a # b # c # rest) =
     sextet_char (uint a div 4) # sextet_char (uint a mod 4 * 16 + uint b div 16)
     # sextet_char (uint b mod 16 * 4 + uint c div 64) # sextet_char (uint c mod 64) # b64_encode rest"
| "b64_encode [a, b] =
     [sextet_char (uint a div 4), sextet_char (uint a mod 4 * 16 + uint b div 16), sextet_char (uint b mod 16 * 4)]"
| "b64_encode [a] = [sextet_char (uint a div 4), sextet_char (uint a mod 4 * 16)]"
| "b64_encode [] = []"

fun sextets_bytes :: "int list \<Rightarrow> byte list option" where
  "sextets_bytes (p # q # r # s # rest) =
     map_option (\<lambda>bs. of_int (p * 4 + q div 16) # of_int (q mod 16 * 16 + r div 4) # of_int (r mod 4 * 64 + s) # bs)
       (sextets_bytes rest)"
| "sextets_bytes [p, q, r] = Some [of_int (p * 4 + q div 16), of_int (q mod 16 * 16 + r div 4)]"
| "sextets_bytes [p, q] = Some [of_int (p * 4 + q div 16)]"
| "sextets_bytes [p] = None"
| "sextets_bytes [] = Some []"

text \<open>\<open>_decode\<close>: None is the \<open>ValueError\<close> or \<open>binascii.Error\<close> of malformed text.\<close>

definition b64_decode :: "string \<Rightarrow> byte list option" where
  "b64_decode s =
     (if s = [] then None
      else Option.bind (those (map (\<lambda>c. index_of c b64_alphabet) s)) sextets_bytes)"

lemma index_of_nth: "distinct xs \<Longrightarrow> i < length xs \<Longrightarrow> index_of (xs ! i) xs = Some (int i)"
proof (induction xs arbitrary: i)
  case (Cons x xs)
  then show ?case by (cases i) auto
qed simp

lemma sextet_roundtrip: "0 \<le> n \<Longrightarrow> n < 64 \<Longrightarrow> index_of (sextet_char n) b64_alphabet = Some n"
proof -
  assume n: "0 \<le> n" "n < 64"
  have "distinct b64_alphabet" "length b64_alphabet = 64" by code_simp+
  with n show ?thesis using index_of_nth [of b64_alphabet "nat n"] by (simp add: sextet_char_def)
qed

lemma byte_range: "0 \<le> uint (b :: byte)" "uint (b :: byte) < 256"
  using uint_lt2p [of b] by simp_all

lemma of_int_byte: "x = uint b \<Longrightarrow> (of_int x :: byte) = b"
  by simp

text \<open>A digit in front of a smaller number, and back.\<close>

lemma pack_unpack:
  fixes x y k :: int
  assumes "0 \<le> y" "y < k"
  shows "(x * k + y) div k = x" "(x * k + y) mod k = y"
  using assms by (simp_all add: div_pos_pos_trivial mod_pos_pos_trivial)

lemma div_range:
  fixes x k m :: int
  assumes "0 < k" "0 \<le> x" "x < m * k"
  shows "0 \<le> x div k" "x div k < m"
proof -
  show "0 \<le> x div k" using assms by (simp add: pos_imp_zdiv_nonneg_iff)
  have "x div k * k \<le> x" using pos_mod_sign [OF assms(1), of x] div_mult_mod_eq [of x k] by linarith
  with assms have "x div k * k < m * k" by linarith
  with assms(1) show "x div k < m" by simp
qed

lemma pack_range:
  fixes x y k m :: int
  assumes "0 \<le> x" "x < m" "0 \<le> y" "y < k"
  shows "0 \<le> x * k + y" "x * k + y < m * k"
proof -
  show "0 \<le> x * k + y" using assms by simp
  have "(x + 1) * k \<le> m * k" using assms by (intro mult_right_mono) auto
  with assms show "x * k + y < m * k" by (simp add: algebra_simps)
qed

lemma byte_parts:
  fixes b :: byte
  shows "0 \<le> uint b div 4" "uint b div 4 < 64" "0 \<le> uint b div 16" "uint b div 16 < 16"
    "0 \<le> uint b div 64" "uint b div 64 < 4" "0 \<le> uint b mod 4" "uint b mod 4 < 4" "0 \<le> uint b mod 16"
    "uint b mod 16 < 16" "0 \<le> uint b mod 64" "uint b mod 64 < 64"
  using byte_range [of b] div_range [of 4 "uint b" 64] div_range [of 16 "uint b" 16] div_range [of 64 "uint b" 4]
  by simp_all

lemma packed_index:
  assumes "0 \<le> x" "x < m" "0 \<le> y" "y < k" "m * k = 64"
  shows "index_of (sextet_char (x * k + y)) b64_alphabet = Some (x * k + y)"
  using pack_range [OF assms(1-4)] unfolding assms(5) by (rule sextet_roundtrip)

lemma shifted_index:
  assumes "0 \<le> x" "x < m" "0 < k" "m * k = 64"
  shows "index_of (sextet_char (x * k)) b64_alphabet = Some (x * k)"
  using packed_index [OF assms(1,2) order_refl assms(3,4)] by simp

text \<open>The sextets of one, two and three bytes are in range, and give the bytes back.\<close>

lemma sextets_ok:
  fixes a b c :: byte
  shows "index_of (sextet_char (uint a div 4)) b64_alphabet = Some (uint a div 4)"
    "index_of (sextet_char (uint a mod 4 * 16)) b64_alphabet = Some (uint a mod 4 * 16)"
    "index_of (sextet_char (uint a mod 4 * 16 + uint b div 16)) b64_alphabet = Some (uint a mod 4 * 16 + uint b div 16)"
    "index_of (sextet_char (uint b mod 16 * 4)) b64_alphabet = Some (uint b mod 16 * 4)"
    "index_of (sextet_char (uint b mod 16 * 4 + uint c div 64)) b64_alphabet = Some (uint b mod 16 * 4 + uint c div 64)"
    "index_of (sextet_char (uint c mod 64)) b64_alphabet = Some (uint c mod 64)"
  by (rule sextet_roundtrip byte_parts shifted_index [where m = 4] packed_index [where m = 4]
      shifted_index [where m = 16] packed_index [where m = 16], (rule byte_parts | simp; fail)+)+

lemma sextets_back:
  fixes a b c :: byte
  shows "(of_int (uint a div 4 * 4 + (uint a mod 4 * 16 + uint b div 16) div 16) :: byte) = a"
    "(of_int (uint a div 4 * 4 + uint a mod 4 * 16 div 16) :: byte) = a"
    "(of_int ((uint a mod 4 * 16 + uint b div 16) mod 16 * 16 + (uint b mod 16 * 4 + uint c div 64) div 4) :: byte) = b"
    "(of_int ((uint a mod 4 * 16 + uint b div 16) mod 16 * 16 + uint b mod 16 * 4 div 4) :: byte) = b"
    "(of_int ((uint b mod 16 * 4 + uint c div 64) mod 4 * 64 + uint c mod 64) :: byte) = c"
  by (rule of_int_byte, simp only: pack_unpack [OF byte_parts(3,4)] pack_unpack [OF byte_parts(5,6)]
      nonzero_mult_div_cancel_right [OF zero_neq_numeral [symmetric]] div_mult_mod_eq)+

lemma b64_sextets:
  "\<exists>ns. those (map (\<lambda>c. index_of c b64_alphabet) (b64_encode bs)) = Some ns \<and> sextets_bytes ns = Some bs"
proof (induction bs rule: b64_encode.induct)
  case (1 a b c rest)
  then obtain ns where ns: "those (map (\<lambda>c. index_of c b64_alphabet) (b64_encode rest)) = Some ns"
    "sextets_bytes ns = Some rest" by blast
  show ?case
    by (rule exI [of _ "uint a div 4 # (uint a mod 4 * 16 + uint b div 16) # (uint b mod 16 * 4 + uint c div 64)
        # uint c mod 64 # ns"])
      (simp only: b64_encode.simps list.map those.simps sextets_ok ns option.case option.map
        sextets_bytes.simps sextets_back simp_thms)
next
  case (2 a b)
  show ?case
    by (rule exI [of _ "[uint a div 4, uint a mod 4 * 16 + uint b div 16, uint b mod 16 * 4]"])
      (simp only: b64_encode.simps list.map those.simps sextets_ok option.case option.map
        sextets_bytes.simps sextets_back simp_thms)
next
  case (3 a)
  show ?case
    by (rule exI [of _ "[uint a div 4, uint a mod 4 * 16]"])
      (simp only: b64_encode.simps list.map those.simps sextets_ok option.case option.map
        sextets_bytes.simps sextets_back simp_thms)
qed simp

lemma b64_roundtrip: "bs \<noteq> [] \<Longrightarrow> b64_decode (b64_encode bs) = Some bs"
proof -
  assume "bs \<noteq> []"
  then have "b64_encode bs \<noteq> []" by (cases bs rule: b64_encode.cases) simp_all
  with b64_sextets [of bs] show ?thesis by (auto simp: b64_decode_def)
qed

section \<open>Stored passwords\<close>

text \<open>\<open>int(s)\<close> for decimal literals: blanks around it, a sign, digits with single underscores between them.\<close>

fun digits_value :: "bool \<Rightarrow> int \<Rightarrow> string \<Rightarrow> int option" where
  "digits_value ended acc [] = (if ended then Some acc else None)"
| "digits_value ended acc (c # cs) =
     (if py_digit c then digits_value True (10 * acc + (of_char c - 48)) cs
      else if c = CHR ''_'' \<and> ended then digits_value False acc cs
      else None)"

definition py_int :: "string \<Rightarrow> int option" where
  "py_int s =
     (case py_strip s of
        [] \<Rightarrow> None
      | c # cs \<Rightarrow>
          if c = CHR ''-'' then map_option uminus (digits_value False 0 cs)
          else if c = CHR ''+'' then digits_value False 0 cs
          else digits_value False 0 (c # cs))"

type_synonym kdf = "byte list \<Rightarrow> byte list \<Rightarrow> int \<Rightarrow> int \<Rightarrow> int \<Rightarrow> int \<Rightarrow> byte list"

definition PASSWORD_SCHEME :: string where
  "PASSWORD_SCHEME = ''otsoc-scrypt''"

text \<open>The scheme, its version and, as decimal text, the costs \<open>N\<close>, \<open>r\<close>, \<open>p\<close>, \<open>dklen\<close>, as the first six fields of a hash.\<close>

definition hash_header :: "string list" where
  "hash_header = [PASSWORD_SCHEME, ''1'', ''32768'', ''8'', ''1'', ''32'']"

definition hash_password :: "kdf \<Rightarrow> byte list \<Rightarrow> string \<Rightarrow> SecurityError + string" where
  "hash_password scrypt salt password =
     rbind (validate_password password) (\<lambda>_.
     Inr (join_with CHR ''$''
       (hash_header @ [b64_encode salt, b64_encode (scrypt (utf8 password) salt 32768 8 1 32)])))"

definition verify_password :: "kdf \<Rightarrow> string \<Rightarrow> string \<Rightarrow> bool" where
  "verify_password scrypt password encoded_hash =
     (case split_on CHR ''$'' encoded_hash of
        [scheme, version, n, r, p, dklen, encoded_salt, encoded_expected] \<Rightarrow>
          scheme = PASSWORD_SCHEME \<and> py_int version = Some 1
          \<and> py_int n = Some 32768 \<and> py_int r = Some 8 \<and> py_int p = Some 1 \<and> py_int dklen = Some 32
          \<and> (case (b64_decode encoded_salt, b64_decode encoded_expected) of
               (Some salt, Some expected) \<Rightarrow>
                 length salt = 16 \<and> length expected = 32 \<and> scrypt (utf8 password) salt 32768 8 1 32 = expected
             | _ \<Rightarrow> False)
      | _ \<Rightarrow> False)"

definition supported_hash_shape :: "string \<Rightarrow> bool" where
  "supported_hash_shape encoded_hash =
     (let parts = split_on CHR ''$'' encoded_hash in length parts = 8 \<and> take 6 parts = hash_header)"

text \<open>Without a usable hash a dummy one is derived, for the time it takes, and the answer is no.\<close>

definition verify_password_or_dummy :: "kdf \<Rightarrow> string \<Rightarrow> string option \<Rightarrow> bool" where
  "verify_password_or_dummy scrypt password encoded_hash =
     (case encoded_hash of
        Some h \<Rightarrow> if supported_hash_shape h then verify_password scrypt password h else False
      | None \<Rightarrow> False)"

lemma those_None: "x \<in> set xs \<Longrightarrow> f x = None \<Longrightarrow> those (map f xs) = None"
  by (induction xs) (auto split: option.splits)

lemma b64_no_dollar: "CHR ''$'' \<notin> set (b64_encode bs)"
proof
  assume "CHR ''$'' \<in> set (b64_encode bs)"
  moreover have "index_of CHR ''$'' b64_alphabet = None" by code_simp
  ultimately have "those (map (\<lambda>c. index_of c b64_alphabet) (b64_encode bs)) = None" by (rule those_None)
  with b64_sextets [of bs] show False by simp
qed

lemma hash_header_facts:
  "\<forall>x \<in> set hash_header. CHR ''$'' \<notin> set x" "length hash_header = 6"
  "py_int ''1'' = Some 1" "py_int ''32768'' = Some 32768" "py_int ''8'' = Some 8" "py_int ''32'' = Some 32"
  by code_simp+

section \<open>Tokens\<close>

text \<open>\<open>^[A-Za-z0-9_-]{43}$\<close>.\<close>

definition safe_token_shape :: "string option \<Rightarrow> bool" where
  "safe_token_shape token =
     (case token of
        None \<Rightarrow> False
      | Some t \<Rightarrow> length t = 43 \<and> list_all (\<lambda>c. alnum_char c \<or> c \<in> set ''_-'') t)"

text \<open>HMAC over SHA-256, with its block of 64 bytes.\<close>

definition hmac_sha256 :: "byte list \<Rightarrow> byte list \<Rightarrow> byte list" where
  "hmac_sha256 k m =
     (let k' = (if 64 < length k then sha256 k else k);
          block = k' @ replicate (64 - length k') 0 in
      sha256 (map (\<lambda>b. b XOR 0x5c) block @ sha256 (map (\<lambda>b. b XOR 0x36) block @ m)))"

definition keyed_token_digest :: "string \<Rightarrow> string \<Rightarrow> SecurityError + digest" where
  "keyed_token_digest secret token =
     (if length (utf8 secret) < 32 then Inl SecretTooShort
      else Inr (hexdigest (hmac_sha256 (utf8 secret) (utf8 token))))"

section \<open>What a stored password accepts\<close>

lemma hash_parts:
  assumes "hash_password scrypt salt password = Inr h"
  shows "split_on CHR ''$'' h
    = hash_header @ [b64_encode salt, b64_encode (scrypt (utf8 password) salt 32768 8 1 32)]"
proof -
  from assms have h: "h = join_with CHR ''$''
      (hash_header @ [b64_encode salt, b64_encode (scrypt (utf8 password) salt 32768 8 1 32)])"
    by (auto simp: hash_password_def elim!: rbind_InrE)
  show ?thesis
    unfolding h using hash_header_facts(1) b64_no_dollar by (intro split_join) auto
qed

text \<open>
  C5. Storing a password and checking it are inverse: the hash made from an accepted password is verified
  with this password, and another password passes exactly when the key derivation gives it the same
  key under the same salt. The derivation is only assumed to return the 32 bytes it is asked for.
\<close>

theorem password_roundtrip:
  assumes "hash_password scrypt salt password = Inr h" "length salt = 16"
    "\<And>w. length (scrypt (utf8 w) salt 32768 8 1 32) = 32"
  shows "verify_password_or_dummy scrypt password (Some h)
    \<and> (verify_password_or_dummy scrypt attempt (Some h)
        \<longleftrightarrow> scrypt (utf8 attempt) salt 32768 8 1 32 = scrypt (utf8 password) salt 32768 8 1 32)"
proof -
  note parts = hash_parts [OF assms(1)]
  have "b64_decode (b64_encode salt) = Some salt"
      "b64_decode (b64_encode (scrypt (utf8 password) salt 32768 8 1 32)) = Some (scrypt (utf8 password) salt 32768 8 1 32)"
    using assms(2) assms(3) [of password] by (intro b64_roundtrip, fastforce)+
  moreover have "supported_hash_shape h"
    using hash_header_facts(2) by (simp add: supported_hash_shape_def parts Let_def)
  ultimately show ?thesis
    using assms(2,3) hash_header_facts(3-)
    by (simp add: verify_password_or_dummy_def verify_password_def parts hash_header_def)
qed

definition plain_kdf :: kdf where
  "plain_kdf password salt n r p dklen = take (nat dklen) (password @ replicate (nat dklen) 0)"

theorem password_roundtrip_witness:
  "\<exists>h. hash_password plain_kdf (replicate 16 7) ''correct horse'' = Inr h
     \<and> verify_password_or_dummy plain_kdf ''correct horse'' (Some h)
     \<and> \<not> verify_password_or_dummy plain_kdf ''battery staple'' (Some h)"
proof -
  have "validate_password ''correct horse'' = Inr ()" by code_simp
  then obtain h where h: "hash_password plain_kdf (replicate 16 7) ''correct horse'' = Inr h"
    by (simp add: hash_password_def)
  moreover have "plain_kdf (utf8 ''battery staple'') (replicate 16 7) 32768 8 1 32
      \<noteq> plain_kdf (utf8 ''correct horse'') (replicate 16 7) 32768 8 1 32"
    by code_simp
  moreover have "length (plain_kdf (utf8 w) (replicate 16 7) 32768 8 1 32) = 32" for w
    by (simp add: plain_kdf_def)
  ultimately show ?thesis
    using password_roundtrip [of plain_kdf "replicate 16 7" "''correct horse''" h "''battery staple''"] by simp
qed

end
