(* ===== verification/Accounts.thy ===== *)
theory Accounts
  imports Account_Security Ledger
begin

text \<open>
  Accounts and sessions: the tables and permissions of \<open>app/auth/models.py\<close>, the operations of
  \<open>app/auth/service.py\<close>, the guards of \<open>app/auth/dependencies.py\<close> and the requests of \<open>app/api/auth.py\<close> and
  \<open>app/auth/bootstrap.py\<close> that compose them. What the code draws at random, identifiers, tokens and salts,
  and the time of a request are arguments; the unique columns of the tables are checked.
\<close>

section \<open>Roles and permissions\<close>

datatype Role = ADMIN | SOC_ANALYST | OT_ENGINEER | READ_ONLY

fun Role_value :: "Role \<Rightarrow> string" where
  "Role_value ADMIN = ''ADMIN''"
| "Role_value SOC_ANALYST = ''SOC_ANALYST''"
| "Role_value OT_ENGINEER = ''OT_ENGINEER''"
| "Role_value READ_ONLY = ''READ_ONLY''"

definition Role_of :: "string \<Rightarrow> Role option" where
  "Role_of s = find (\<lambda>r. Role_value r = s) [ADMIN, SOC_ANALYST, OT_ENGINEER, READ_ONLY]"

datatype Permission =
    READ_PRODUCT | READ_INCIDENT | READ_EVIDENCE | READ_REPLAY | READ_REPORTS | WRITE_INCIDENT_NOTE
  | ASSIGN_INCIDENT | CHANGE_INCIDENT_STATUS | SET_INCIDENT_DISPOSITION | WRITE_INCIDENT_REPORT
  | REVIEW_PLAYBOOK | MANAGE_SCENARIOS | MANAGE_USERS | READ_GLOBAL_AUDIT

definition READ_PERMISSIONS :: "Permission list" where
  "READ_PERMISSIONS = [READ_PRODUCT, READ_INCIDENT, READ_EVIDENCE, READ_REPLAY, READ_REPORTS]"

definition ANALYST_PERMISSIONS :: "Permission list" where
  "ANALYST_PERMISSIONS = [WRITE_INCIDENT_NOTE, ASSIGN_INCIDENT, CHANGE_INCIDENT_STATUS,
     SET_INCIDENT_DISPOSITION, WRITE_INCIDENT_REPORT, REVIEW_PLAYBOOK]"

fun ROLE_PERMISSIONS :: "Role \<Rightarrow> Permission list" where
  "ROLE_PERMISSIONS READ_ONLY = READ_PERMISSIONS"
| "ROLE_PERMISSIONS OT_ENGINEER = READ_PERMISSIONS @ [WRITE_INCIDENT_NOTE]"
| "ROLE_PERMISSIONS SOC_ANALYST = READ_PERMISSIONS @ ANALYST_PERMISSIONS"
| "ROLE_PERMISSIONS ADMIN = READ_PERMISSIONS @ ANALYST_PERMISSIONS
     @ [MANAGE_SCENARIOS, MANAGE_USERS, READ_GLOBAL_AUDIT]"

section \<open>Tables\<close>

text \<open>A row of \<open>local_users\<close>: the columns incident workflows read, and the others.\<close>

record LocalAccount = LocalUser +
  lu_username :: string
  lu_password_hash :: string
  lu_version :: int
  lu_created_at :: timestamp
  lu_updated_at :: timestamp
  lu_password_changed_at :: timestamp

record AuthSession =
  ss_session_id :: uuid
  ss_user_id :: uuid
  ss_token_digest :: digest
  ss_csrf_digest :: digest
  ss_created_at :: timestamp
  ss_expires_at :: timestamp
  ss_last_seen_at :: timestamp
  ss_revoked_at :: "timestamp option"

record AuthDb =
  ad_users :: "LocalAccount list"
  ad_sessions :: "AuthSession list"
  ad_audit :: "SocAuditEvent list"

record AuthSettings =
  au_session_secret :: string
  au_session_ttl_minutes :: int
  au_cors_origins :: "string list"

datatype AuthError =
    AuthNotFoundError
  | AuthConflictError
  | AuthVersionConflictError
  | FinalAdministratorError
  | AuthNoChangeError
  | Security SecurityError
  | AuditRefused AuditPayloadError
  | IntegrityError
  | TokenShapeError
  | AuthenticationRequired
  | OriginRejected
  | CsrfRejected
  | PermissionDenied
  | RequestInvalid

definition find_account :: "AuthDb \<Rightarrow> uuid \<Rightarrow> LocalAccount option" where
  "find_account db k = find (\<lambda>u. lu_user_id u = k) (ad_users db)"

definition account_named :: "AuthDb \<Rightarrow> string \<Rightarrow> LocalAccount option" where
  "account_named db n = find (\<lambda>u. lu_username u = n) (ad_users db)"

definition set_account :: "LocalAccount \<Rightarrow> AuthDb \<Rightarrow> AuthDb" where
  "set_account u db = db\<lparr>ad_users := map (\<lambda>v. if lu_user_id v = lu_user_id u then u else v) (ad_users db)\<rparr>"

definition update_session :: "uuid \<Rightarrow> (AuthSession \<Rightarrow> AuthSession) \<Rightarrow> AuthDb \<Rightarrow> AuthDb" where
  "update_session k f db = db\<lparr>ad_sessions := map (\<lambda>s. if ss_session_id s = k then f s else s) (ad_sessions db)\<rparr>"

definition soc_event :: "SocAuditAction \<Rightarrow> SocAuditResult \<Rightarrow> string \<Rightarrow> uuid \<Rightarrow> timestamp \<Rightarrow> SocAuditEvent" where
  "soc_event action result request_id audit_id now = \<lparr>
     soc_audit_event_id = audit_id, soc_action = action, soc_result = result, soc_occurred_at = now,
     soc_actor_user_id = None, soc_subject_user_id = None, soc_subject_label = None, soc_incident_id = None,
     soc_scenario_run_id = None, soc_request_id = request_id, soc_safe_reason = None, soc_details = []\<rparr>"

definition append_soc_audit_event :: "SocAuditEvent \<Rightarrow> AuthDb \<Rightarrow> AuthError + AuthDb" where
  "append_soc_audit_event event db =
     rbind (raising AuditRefused (soc_audit_event event)) (\<lambda>e.
     if soc_audit_event_id e \<in> soc_audit_event_id ` set (ad_audit db) then Inl IntegrityError
     else Inr (db\<lparr>ad_audit := ad_audit db @ [e]\<rparr>))"

section \<open>Sessions\<close>

record IssuedSession =
  is_user :: LocalAccount
  is_auth_session :: AuthSession
  is_raw_session_token :: string
  is_raw_csrf_token :: string

text \<open>What a login draws: the identifiers of the session and of the audit event, and the two tokens.\<close>

record LoginDraws =
  ld_session_id :: uuid
  ld_session_token :: string
  ld_csrf_token :: string
  ld_audit_id :: uuid

definition new_opaque_token :: "string \<Rightarrow> AuthError + string" where
  "new_opaque_token token = (if safe_token_shape (Some token) then Inr token else Inl TokenShapeError)"

definition token_digest :: "AuthSettings \<Rightarrow> string \<Rightarrow> AuthError + digest" where
  "token_digest settings token = raising Security (keyed_token_digest (au_session_secret settings) token)"

definition add_session :: "AuthSession \<Rightarrow> AuthDb \<Rightarrow> AuthError + AuthDb" where
  "add_session s db =
     (if ss_session_id s \<in> ss_session_id ` set (ad_sessions db)
         \<or> ss_token_digest s \<in> ss_token_digest ` set (ad_sessions db)
         \<or> \<not> ss_created_at s < ss_expires_at s
      then Inl IntegrityError
      else Inr (db\<lparr>ad_sessions := ad_sessions db @ [s]\<rparr>))"

definition login_failed ::
  "string option \<Rightarrow> LocalAccount option \<Rightarrow> string \<Rightarrow> uuid \<Rightarrow> timestamp \<Rightarrow> AuthDb \<Rightarrow> AuthError + AuthDb" where
  "login_failed normalized user request_id audit_id now =
     append_soc_audit_event ((soc_event LOGIN_FAILED DENIED request_id audit_id now)\<lparr>
       soc_subject_user_id := map_option lu_user_id user,
       soc_subject_label := normalized,
       soc_safe_reason := Some ''Invalid local credentials or inactive account.'',
       soc_details := [(''reason_code'', JStr ''INVALID_CREDENTIALS'')]\<rparr>)"

definition issue_session ::
  "AuthSettings \<Rightarrow> LoginDraws \<Rightarrow> LocalAccount \<Rightarrow> string \<Rightarrow> timestamp \<Rightarrow> AuthDb \<Rightarrow>
   AuthError + (IssuedSession \<times> AuthDb)" where
  "issue_session settings draws user request_id now db =
     rbind (new_opaque_token (ld_session_token draws)) (\<lambda>raw_session_token.
     rbind (new_opaque_token (ld_csrf_token draws)) (\<lambda>raw_csrf_token.
     rbind (token_digest settings raw_session_token) (\<lambda>session_digest.
     rbind (token_digest settings raw_csrf_token) (\<lambda>csrf_digest.
     (let auth_session = \<lparr>ss_session_id = ld_session_id draws, ss_user_id = lu_user_id user,
            ss_token_digest = session_digest, ss_csrf_digest = csrf_digest, ss_created_at = now,
            ss_expires_at = now + au_session_ttl_minutes settings * 60 * microseconds_per_second,
            ss_last_seen_at = now, ss_revoked_at = None\<rparr> in
      rbind (add_session auth_session db) (\<lambda>db1.
      rbind (append_soc_audit_event ((soc_event LOGIN_SUCCEEDED ACCEPTED request_id (ld_audit_id draws) now)\<lparr>
          soc_actor_user_id := Some (lu_user_id user), soc_subject_user_id := Some (lu_user_id user),
          soc_subject_label := Some (lu_username user), soc_details := [(''role'', JStr (lu_role user))]\<rparr>) db1) (\<lambda>db2.
      Inr (\<lparr>is_user = user, is_auth_session = auth_session, is_raw_session_token = raw_session_token,
            is_raw_csrf_token = raw_csrf_token\<rparr>, db2))))))))"

definition authenticate_and_create_session ::
  "kdf \<Rightarrow> AuthSettings \<Rightarrow> LoginDraws \<Rightarrow> string \<Rightarrow> string \<Rightarrow> string \<Rightarrow> timestamp \<Rightarrow> AuthDb \<Rightarrow>
   AuthError + (IssuedSession option \<times> AuthDb)" where
  "authenticate_and_create_session scrypt settings draws username password request_id now db =
     (let normalized = (case normalize_username username of Inl _ \<Rightarrow> None | Inr n \<Rightarrow> Some n);
          user = Option.bind normalized (account_named db);
          password_valid = verify_password_or_dummy scrypt password (map_option lu_password_hash user) in
      case user of
        Some u \<Rightarrow>
          if \<not> password_valid \<or> \<not> lu_active u
          then rbind (login_failed normalized user request_id (ld_audit_id draws) now db) (\<lambda>db'. Inr (None, db'))
          else rbind (issue_session settings draws u request_id now db) (\<lambda>(issued, db'). Inr (Some issued, db'))
      | None \<Rightarrow>
          rbind (login_failed normalized user request_id (ld_audit_id draws) now db) (\<lambda>db'. Inr (None, db')))"

text \<open>The CSRF token to hand out, and whether it replaces the one the client presented.\<close>

definition csrf_token_for_session ::
  "AuthSettings \<Rightarrow> string \<Rightarrow> AuthSession \<Rightarrow> string option \<Rightarrow> AuthDb \<Rightarrow> AuthError + ((string \<times> bool) \<times> AuthDb)" where
  "csrf_token_for_session settings draw auth_session presented db =
     (let replaced =
        rbind (new_opaque_token draw) (\<lambda>replacement.
        rbind (token_digest settings replacement) (\<lambda>digest.
        Inr ((replacement, True), update_session (ss_session_id auth_session) (ss_csrf_digest_update (\<lambda>_. digest)) db))) in
      case presented of
        Some cookie \<Rightarrow>
          if safe_token_shape presented
          then rbind (token_digest settings cookie) (\<lambda>digest.
            if digest = ss_csrf_digest auth_session then Inr ((cookie, False), db) else replaced)
          else replaced
      | None \<Rightarrow> replaced)"

definition revoke_session ::
  "AuthSession \<Rightarrow> LocalAccount \<Rightarrow> string \<Rightarrow> uuid \<Rightarrow> timestamp \<Rightarrow> AuthDb \<Rightarrow> AuthError + AuthDb" where
  "revoke_session auth_session actor request_id audit_id now db =
     append_soc_audit_event ((soc_event LOGOUT ACCEPTED request_id audit_id now)\<lparr>
       soc_actor_user_id := Some (lu_user_id actor), soc_subject_user_id := Some (lu_user_id actor),
       soc_subject_label := Some (lu_username actor)\<rparr>)
     (if ss_revoked_at auth_session = None
      then update_session (ss_session_id auth_session) (ss_revoked_at_update (\<lambda>_. Some now)) db else db)"

text \<open>The update of \<open>_revoke_user_sessions\<close> and the number of rows it matched.\<close>

definition live_session_of :: "uuid \<Rightarrow> AuthSession \<Rightarrow> bool" where
  "live_session_of k s = (ss_user_id s = k \<and> ss_revoked_at s = None)"

definition revoke_user_sessions :: "uuid \<Rightarrow> timestamp \<Rightarrow> AuthDb \<Rightarrow> nat \<times> AuthDb" where
  "revoke_user_sessions k now db =
     (length (filter (live_session_of k) (ad_sessions db)),
      db\<lparr>ad_sessions := map (\<lambda>s. if live_session_of k s then s\<lparr>ss_revoked_at := Some now\<rparr> else s) (ad_sessions db)\<rparr>)"

section \<open>Managing accounts\<close>

text \<open>What the creation of an account draws.\<close>

record AccountDraws =
  cd_user_id :: uuid
  cd_salt :: "byte list"
  cd_audit_id :: uuid

definition create_local_user ::
  "kdf \<Rightarrow> AccountDraws \<Rightarrow> string \<Rightarrow> string \<Rightarrow> Role \<Rightarrow> string \<Rightarrow> string \<Rightarrow> uuid option \<Rightarrow> timestamp \<Rightarrow> AuthDb \<Rightarrow>
   AuthError + (LocalAccount \<times> AuthDb)" where
  "create_local_user scrypt draws username display_name role password request_id actor now db =
     rbind (raising Security (normalize_username username)) (\<lambda>normalized_username.
     rbind (raising Security (normalize_display_name display_name)) (\<lambda>normalized_display_name.
     if account_named db normalized_username \<noteq> None then Inl AuthConflictError
     else
     rbind (raising Security (hash_password scrypt (cd_salt draws) password)) (\<lambda>password_hash.
     (let user = \<lparr>lu_user_id = cd_user_id draws, lu_display_name = normalized_display_name,
            lu_role = Role_value role, lu_active = True, lu_username = normalized_username,
            lu_password_hash = password_hash, lu_version = 1, lu_created_at = now, lu_updated_at = now,
            lu_password_changed_at = now\<rparr> in
      if lu_user_id user \<in> lu_user_id ` set (ad_users db) then Inl AuthConflictError
      else
      rbind (append_soc_audit_event ((soc_event LOCAL_USER_CREATED ACCEPTED request_id (cd_audit_id draws) now)\<lparr>
          soc_actor_user_id := actor, soc_subject_user_id := Some (lu_user_id user),
          soc_subject_label := Some (lu_username user),
          soc_details := [(''role'', JStr (Role_value role)), (''active'', JBool True)]\<rparr>)
        (db\<lparr>ad_users := ad_users db @ [user]\<rparr>)) (\<lambda>db'.
      Inr (user, db'))))))"

definition user_filter :: "Role option \<Rightarrow> bool option \<Rightarrow> LocalAccount \<Rightarrow> bool" where
  "user_filter role active u =
     ((case role of None \<Rightarrow> True | Some r \<Rightarrow> lu_role u = Role_value r)
      \<and> (case active of None \<Rightarrow> True | Some b \<Rightarrow> lu_active u = b))"

definition list_local_users ::
  "Role option \<Rightarrow> bool option \<Rightarrow> nat \<Rightarrow> nat \<Rightarrow> AuthDb \<Rightarrow> LocalAccount list \<times> nat" where
  "list_local_users role active limit offset db =
     (let users = filter (user_filter role active) (ad_users db) in
      (take limit (drop offset (sort_key (\<lambda>u. (lu_username u, lu_user_id u)) users)), length users))"

definition assignable :: "LocalAccount \<Rightarrow> bool" where
  "assignable u = (lu_active u \<and> lu_role u \<in> set [''ADMIN'', ''SOC_ANALYST''])"

definition list_assignable_users :: "AuthDb \<Rightarrow> LocalAccount list" where
  "list_assignable_users db =
     take 100 (sort_key (\<lambda>u. (lu_display_name u, lu_username u, lu_user_id u)) (filter assignable (ad_users db)))"

definition active_admin :: "LocalAccount \<Rightarrow> bool" where
  "active_admin u = (lu_active u \<and> lu_role u = ''ADMIN'')"

text \<open>The names of the changed fields, in alphabetical order.\<close>

definition changed_fields :: "LocalAccount \<Rightarrow> string \<Rightarrow> string \<Rightarrow> bool \<Rightarrow> string list" where
  "changed_fields target next_display_name next_role next_active =
     map fst (filter snd [(''active'', lu_active target \<noteq> next_active),
       (''display_name'', lu_display_name target \<noteq> next_display_name), (''role'', lu_role target \<noteq> next_role)])"

definition locked_account :: "AuthDb \<Rightarrow> uuid \<Rightarrow> int \<Rightarrow> AuthError + LocalAccount" where
  "locked_account db k expected_version =
     (case find_account db k of
        None \<Rightarrow> Inl AuthNotFoundError
      | Some target \<Rightarrow> if lu_version target \<noteq> expected_version then Inl AuthVersionConflictError else Inr target)"

definition update_local_user ::
  "uuid \<Rightarrow> string option \<Rightarrow> Role option \<Rightarrow> bool option \<Rightarrow> int \<Rightarrow> uuid \<Rightarrow> string \<Rightarrow> uuid \<Rightarrow> timestamp \<Rightarrow> AuthDb \<Rightarrow>
   AuthError + (LocalAccount \<times> AuthDb)" where
  "update_local_user k display_name role active expected_version actor request_id audit_id now db =
     rbind (locked_account db k expected_version) (\<lambda>target.
     rbind (case display_name of
        None \<Rightarrow> Inr (lu_display_name target)
      | Some d \<Rightarrow> raising Security (normalize_display_name d)) (\<lambda>next_display_name.
     (let next_role = (case role of None \<Rightarrow> lu_role target | Some r \<Rightarrow> Role_value r);
          next_active = (case active of None \<Rightarrow> lu_active target | Some b \<Rightarrow> b) in
      if active_admin target \<and> (\<not> next_active \<or> next_role \<noteq> ''ADMIN'')
         \<and> length (filter active_admin (ad_users db)) \<le> 1
      then Inl FinalAdministratorError
      else if changed_fields target next_display_name next_role next_active = [] then Inl AuthNoChangeError
      else
      (let user = target\<lparr>lu_display_name := next_display_name, lu_role := next_role, lu_active := next_active,
             lu_version := lu_version target + 1, lu_updated_at := now\<rparr>;
           db1 = set_account user db;
           db2 = (if next_active then db1 else snd (revoke_user_sessions k now db1)) in
       rbind (append_soc_audit_event ((soc_event LOCAL_USER_UPDATED ACCEPTED request_id audit_id now)\<lparr>
           soc_actor_user_id := Some actor, soc_subject_user_id := Some k,
           soc_subject_label := Some (lu_username target),
           soc_details := [(''changed_fields'', JList (map JStr (changed_fields target next_display_name next_role next_active))),
             (''role'', JStr next_role), (''active'', JBool next_active), (''version'', JInt (lu_version user))]\<rparr>) db2) (\<lambda>db3.
       Inr (user, db3))))))"

definition reset_local_user_password ::
  "kdf \<Rightarrow> byte list \<Rightarrow> uuid \<Rightarrow> string \<Rightarrow> int \<Rightarrow> uuid \<Rightarrow> string \<Rightarrow> uuid \<Rightarrow> timestamp \<Rightarrow> AuthDb \<Rightarrow>
   AuthError + (LocalAccount \<times> AuthDb)" where
  "reset_local_user_password scrypt salt k password expected_version actor request_id audit_id now db =
     rbind (locked_account db k expected_version) (\<lambda>target.
     rbind (raising Security (hash_password scrypt salt password)) (\<lambda>password_hash.
     (let user = target\<lparr>lu_password_hash := password_hash, lu_password_changed_at := now, lu_updated_at := now,
            lu_version := lu_version target + 1\<rparr>;
          revoked = revoke_user_sessions k now (set_account user db) in
      rbind (append_soc_audit_event ((soc_event LOCAL_USER_PASSWORD_RESET ACCEPTED request_id audit_id now)\<lparr>
          soc_actor_user_id := Some actor, soc_subject_user_id := Some k,
          soc_subject_label := Some (lu_username target),
          soc_details := [(''revoked_sessions'', JInt (int (fst revoked))), (''version'', JInt (lu_version user))]\<rparr>)
        (snd revoked)) (\<lambda>db'.
      Inr (user, db')))))"

section \<open>Guards\<close>

record AuthPrincipal =
  ap_user :: LocalAccount
  ap_session :: AuthSession
  ap_role :: Role

definition has_permission :: "AuthPrincipal \<Rightarrow> Permission \<Rightarrow> bool" where
  "has_permission p permission = (permission \<in> set (ROLE_PERMISSIONS (ap_role p)))"

record HttpRequest =
  rq_method :: string
  rq_session_cookie :: "string option"
  rq_csrf_cookie :: "string option"
  rq_csrf_header :: "string option"
  rq_origin :: "string option"
  rq_request_id :: string
  rq_time :: timestamp

definition LAST_SEEN_WRITE_INTERVAL :: int where
  "LAST_SEEN_WRITE_INTERVAL = 5 * 60 * microseconds_per_second"

definition session_by_digest :: "AuthDb \<Rightarrow> digest \<Rightarrow> (AuthSession \<times> LocalAccount) option" where
  "session_by_digest db digest =
     (case find (\<lambda>s. ss_token_digest s = digest) (ad_sessions db) of
        None \<Rightarrow> None
      | Some s \<Rightarrow> map_option (\<lambda>u. (s, u)) (find_account db (ss_user_id s)))"

definition require_authenticated ::
  "AuthSettings \<Rightarrow> HttpRequest \<Rightarrow> AuthDb \<Rightarrow> AuthError + (AuthPrincipal \<times> AuthDb)" where
  "require_authenticated settings request db =
     (case rq_session_cookie request of
        None \<Rightarrow> Inl AuthenticationRequired
      | Some raw_token \<Rightarrow>
     if \<not> safe_token_shape (Some raw_token) then Inl AuthenticationRequired
     else
     rbind (token_digest settings raw_token) (\<lambda>digest.
     (case session_by_digest db digest of
        None \<Rightarrow> Inl AuthenticationRequired
      | Some (auth_session, user) \<Rightarrow>
     if ss_revoked_at auth_session \<noteq> None \<or> ss_expires_at auth_session \<le> rq_time request \<or> \<not> lu_active user
     then Inl AuthenticationRequired
     else
     (case Role_of (lu_role user) of
        None \<Rightarrow> Inl AuthenticationRequired
      | Some role \<Rightarrow>
          if LAST_SEEN_WRITE_INTERVAL \<le> rq_time request - ss_last_seen_at auth_session
          then let seen = auth_session\<lparr>ss_last_seen_at := rq_time request\<rparr> in
            Inr (\<lparr>ap_user = user, ap_session = seen, ap_role = role\<rparr>,
              update_session (ss_session_id auth_session) (ss_last_seen_at_update (\<lambda>_. rq_time request)) db)
          else Inr (\<lparr>ap_user = user, ap_session = auth_session, ap_role = role\<rparr>, db)))))"

definition upper_ascii :: "char \<Rightarrow> char" where
  "upper_ascii c = (if lower_char c then char_of (of_char c - 32 :: nat) else c)"

definition rstrip_slash :: "string \<Rightarrow> string" where
  "rstrip_slash s = rev (dropWhile (\<lambda>c. c = CHR ''/'') (rev s))"

text \<open>The methods of HTTP are ASCII, so \<open>upper\<close> is that of ASCII.\<close>

definition require_csrf_protection ::
  "AuthSettings \<Rightarrow> HttpRequest \<Rightarrow> AuthPrincipal \<Rightarrow> AuthError + unit" where
  "require_csrf_protection settings request caller =
     (if map upper_ascii (rq_method request) \<notin> set [''POST'', ''PUT'', ''PATCH'', ''DELETE''] then Inr ()
      else if (case rq_origin request of
          None \<Rightarrow> True
        | Some origin \<Rightarrow> rstrip_slash origin \<notin> set (map rstrip_slash (au_cors_origins settings)))
      then Inl OriginRejected
      else case rq_csrf_header request of
        None \<Rightarrow> Inl CsrfRejected
      | Some header \<Rightarrow>
          if \<not> safe_token_shape (Some header) \<or> \<not> safe_token_shape (rq_csrf_cookie request)
             \<or> rq_csrf_cookie request \<noteq> Some header
          then Inl CsrfRejected
          else rbind (token_digest settings header) (\<lambda>digest.
            require (digest = ss_csrf_digest (ap_session caller)) CsrfRejected))"

definition csrf_protected ::
  "AuthSettings \<Rightarrow> HttpRequest \<Rightarrow> AuthDb \<Rightarrow> AuthError + (AuthPrincipal \<times> AuthDb)" where
  "csrf_protected settings request db =
     rbind (require_authenticated settings request db) (\<lambda>(caller, db1).
     rbind (require_csrf_protection settings request caller) (\<lambda>_.
     Inr (caller, db1)))"

definition require_permission ::
  "Permission \<Rightarrow> AuthSettings \<Rightarrow> HttpRequest \<Rightarrow> AuthDb \<Rightarrow> AuthError + (AuthPrincipal \<times> AuthDb)" where
  "require_permission permission settings request db =
     rbind (require_authenticated settings request db) (\<lambda>(caller, db1).
     rbind (require (has_permission caller permission) PermissionDenied) (\<lambda>_.
     Inr (caller, db1)))"

definition require_mutation_permission ::
  "Permission \<Rightarrow> AuthSettings \<Rightarrow> HttpRequest \<Rightarrow> AuthDb \<Rightarrow> AuthError + (AuthPrincipal \<times> AuthDb)" where
  "require_mutation_permission permission settings request db =
     rbind (csrf_protected settings request db) (\<lambda>(caller, db1).
     rbind (require (has_permission caller permission) PermissionDenied) (\<lambda>_.
     Inr (caller, db1)))"

section \<open>Requests\<close>

definition length_between :: "nat \<Rightarrow> nat \<Rightarrow> string \<Rightarrow> bool" where
  "length_between lo hi s = (lo \<le> length s \<and> length s \<le> hi)"

text \<open>Each route: its guard, the constraints of its query and body, the operation.\<close>

definition valid_login :: "string \<Rightarrow> string \<Rightarrow> bool" where
  "valid_login username password = (length_between 1 64 username \<and> length_between 1 128 password)"

definition valid_user_create :: "string \<Rightarrow> string \<Rightarrow> string \<Rightarrow> bool" where
  "valid_user_create username display_name password =
     (length_between 3 64 username \<and> length_between 1 120 display_name \<and> length_between 12 128 password)"

definition valid_user_patch :: "string option \<Rightarrow> Role option \<Rightarrow> bool option \<Rightarrow> int \<Rightarrow> bool" where
  "valid_user_patch display_name role active expected_version =
     ((case display_name of None \<Rightarrow> True | Some d \<Rightarrow> length_between 1 120 d) \<and> 1 \<le> expected_version
      \<and> \<not> (display_name = None \<and> role = None \<and> active = None))"

definition valid_password_reset :: "string \<Rightarrow> int \<Rightarrow> bool" where
  "valid_password_reset password expected_version = (length_between 12 128 password \<and> 1 \<le> expected_version)"

definition login ::
  "kdf \<Rightarrow> AuthSettings \<Rightarrow> string \<Rightarrow> string \<Rightarrow> string \<Rightarrow> LoginDraws \<Rightarrow> timestamp \<Rightarrow> AuthDb \<Rightarrow>
   AuthError + (IssuedSession option \<times> AuthDb)" where
  "login scrypt settings username password request_id draws now db =
     rbind (require (valid_login username password) RequestInvalid) (\<lambda>_.
     authenticate_and_create_session scrypt settings draws username password request_id now db)"

definition read_session ::
  "AuthSettings \<Rightarrow> HttpRequest \<Rightarrow> string \<Rightarrow> AuthDb \<Rightarrow> AuthError + ((string \<times> bool) \<times> AuthDb)" where
  "read_session settings request draw db =
     rbind (require_authenticated settings request db) (\<lambda>(caller, db1).
     csrf_token_for_session settings draw (ap_session caller) (rq_csrf_cookie request) db1)"

definition logout :: "AuthSettings \<Rightarrow> HttpRequest \<Rightarrow> uuid \<Rightarrow> AuthDb \<Rightarrow> AuthError + AuthDb" where
  "logout settings request audit_id db =
     rbind (csrf_protected settings request db) (\<lambda>(caller, db1).
     revoke_session (ap_session caller) (ap_user caller) (rq_request_id request) audit_id (rq_time request) db1)"

definition read_users ::
  "AuthSettings \<Rightarrow> HttpRequest \<Rightarrow> Role option \<Rightarrow> bool option \<Rightarrow> nat \<Rightarrow> nat \<Rightarrow> AuthDb \<Rightarrow>
   AuthError + ((LocalAccount list \<times> nat) \<times> AuthDb)" where
  "read_users settings request role active limit offset db =
     rbind (require_permission MANAGE_USERS settings request db) (\<lambda>(_, db1).
     rbind (require (1 \<le> limit \<and> limit \<le> 100 \<and> offset \<le> 10000) RequestInvalid) (\<lambda>_.
     Inr (list_local_users role active limit offset db1, db1)))"

definition read_incident_assignees ::
  "AuthSettings \<Rightarrow> HttpRequest \<Rightarrow> AuthDb \<Rightarrow> AuthError + (LocalAccount list \<times> AuthDb)" where
  "read_incident_assignees settings request db =
     rbind (require_permission ASSIGN_INCIDENT settings request db) (\<lambda>(_, db1).
     Inr (list_assignable_users db1, db1))"

definition create_user ::
  "kdf \<Rightarrow> AuthSettings \<Rightarrow> HttpRequest \<Rightarrow> string \<Rightarrow> string \<Rightarrow> Role \<Rightarrow> string \<Rightarrow> AccountDraws \<Rightarrow> AuthDb \<Rightarrow>
   AuthError + (LocalAccount \<times> AuthDb)" where
  "create_user scrypt settings request username display_name role password draws db =
     rbind (require_mutation_permission MANAGE_USERS settings request db) (\<lambda>(caller, db1).
     rbind (require (valid_user_create username display_name password) RequestInvalid) (\<lambda>_.
     create_local_user scrypt draws username display_name role password (rq_request_id request)
       (Some (lu_user_id (ap_user caller))) (rq_time request) db1))"

definition patch_user ::
  "AuthSettings \<Rightarrow> HttpRequest \<Rightarrow> uuid \<Rightarrow> string option \<Rightarrow> Role option \<Rightarrow> bool option \<Rightarrow> int \<Rightarrow> uuid \<Rightarrow> AuthDb \<Rightarrow>
   AuthError + (LocalAccount \<times> AuthDb)" where
  "patch_user settings request k display_name role active expected_version audit_id db =
     rbind (require_mutation_permission MANAGE_USERS settings request db) (\<lambda>(caller, db1).
     rbind (require (valid_user_patch display_name role active expected_version) RequestInvalid) (\<lambda>_.
     update_local_user k display_name role active expected_version (lu_user_id (ap_user caller))
       (rq_request_id request) audit_id (rq_time request) db1))"

definition reset_user_password ::
  "kdf \<Rightarrow> AuthSettings \<Rightarrow> HttpRequest \<Rightarrow> uuid \<Rightarrow> string \<Rightarrow> int \<Rightarrow> byte list \<Rightarrow> uuid \<Rightarrow> AuthDb \<Rightarrow>
   AuthError + (LocalAccount \<times> AuthDb)" where
  "reset_user_password scrypt settings request k password expected_version salt audit_id db =
     rbind (require_mutation_permission MANAGE_USERS settings request db) (\<lambda>(caller, db1).
     rbind (require (valid_password_reset password expected_version) RequestInvalid) (\<lambda>_.
     reset_local_user_password scrypt salt k password expected_version (lu_user_id (ap_user caller))
       (rq_request_id request) audit_id (rq_time request) db1))"

text \<open>The routes, and the command that creates an account without a caller, as steps.\<close>

datatype AuthOp =
    Login string string string LoginDraws timestamp
  | ReadSession HttpRequest string
  | Logout HttpRequest uuid
  | ReadUsers HttpRequest "Role option" "bool option" nat nat
  | ReadAssignees HttpRequest
  | CreateUser HttpRequest string string Role string AccountDraws
  | PatchUser HttpRequest uuid "string option" "Role option" "bool option" int uuid
  | ResetPassword HttpRequest uuid string int "byte list" uuid
  | Bootstrap string string Role string string AccountDraws timestamp

fun auth_step :: "kdf \<Rightarrow> AuthSettings \<Rightarrow> AuthOp \<Rightarrow> AuthDb \<Rightarrow> AuthError + (unit \<times> AuthDb)" where
  "auth_step scrypt settings (Login username password request_id draws now) db =
     rbind (login scrypt settings username password request_id draws now db) (\<lambda>(_, db'). Inr ((), db'))"
| "auth_step scrypt settings (ReadSession request draw) db =
     rbind (read_session settings request draw db) (\<lambda>(_, db'). Inr ((), db'))"
| "auth_step scrypt settings (Logout request audit_id) db =
     rbind (logout settings request audit_id db) (\<lambda>db'. Inr ((), db'))"
| "auth_step scrypt settings (ReadUsers request role active limit offset) db =
     rbind (read_users settings request role active limit offset db) (\<lambda>(_, db'). Inr ((), db'))"
| "auth_step scrypt settings (ReadAssignees request) db =
     rbind (read_incident_assignees settings request db) (\<lambda>(_, db'). Inr ((), db'))"
| "auth_step scrypt settings (CreateUser request username display_name role password draws) db =
     rbind (create_user scrypt settings request username display_name role password draws db) (\<lambda>(_, db'). Inr ((), db'))"
| "auth_step scrypt settings (PatchUser request k display_name role active expected_version audit_id) db =
     rbind (patch_user settings request k display_name role active expected_version audit_id db) (\<lambda>(_, db'). Inr ((), db'))"
| "auth_step scrypt settings (ResetPassword request k password expected_version salt audit_id) db =
     rbind (reset_user_password scrypt settings request k password expected_version salt audit_id db)
       (\<lambda>(_, db'). Inr ((), db'))"
| "auth_step scrypt settings (Bootstrap username display_name role password request_id draws now) db =
     rbind (create_local_user scrypt draws username display_name role password request_id None now db)
       (\<lambda>(_, db'). Inr ((), db'))"

lemmas route_defs = login_def read_session_def logout_def read_users_def read_incident_assignees_def
  create_user_def patch_user_def reset_user_password_def

end
