(* ===== verification/Accounts_Guarantees.thy ===== *)
theory Accounts_Guarantees
  imports Accounts
begin

text \<open>
  What the accounts promise through any sequence of requests: the tables stay consistent, only an
  administrator changes an account, a revoked session stays revoked, and an administrator remains.
\<close>

section \<open>The invariant\<close>

definition users_ok :: "LocalAccount list \<Rightarrow> bool" where
  "users_ok us =
     (distinct (map lu_user_id us) \<and> distinct (map lu_username us)
      \<and> list_all (\<lambda>u. username_pattern (lu_username u) \<and> Role_of (lu_role u) \<noteq> None) us)"

text \<open>A session belongs to a user, who is active as long as the session is not revoked.\<close>

definition session_ok :: "LocalAccount list \<Rightarrow> AuthSession \<Rightarrow> bool" where
  "session_ok us s =
     (ss_created_at s < ss_expires_at s
      \<and> list_ex (\<lambda>u. lu_user_id u = ss_user_id s \<and> (ss_revoked_at s = None \<longrightarrow> lu_active u)) us)"

definition accounts_inv :: "AuthDb \<Rightarrow> bool" where
  "accounts_inv db =
     (users_ok (ad_users db) \<and> distinct (map ss_session_id (ad_sessions db))
      \<and> distinct (map ss_token_digest (ad_sessions db)) \<and> list_all (session_ok (ad_users db)) (ad_sessions db)
      \<and> distinct (map soc_audit_event_id (ad_audit db))
      \<and> list_all (\<lambda>e. safe_details (soc_details e)) (ad_audit db))"

text \<open>The same session later: only its CSRF digest and its last use change, and a revocation is final.\<close>

definition later_session :: "AuthSession \<Rightarrow> AuthSession \<Rightarrow> bool" where
  "later_session s s' =
     (ss_session_id s' = ss_session_id s \<and> ss_user_id s' = ss_user_id s \<and> ss_token_digest s' = ss_token_digest s
      \<and> ss_created_at s' = ss_created_at s \<and> ss_expires_at s' = ss_expires_at s
      \<and> (ss_revoked_at s \<noteq> None \<longrightarrow> ss_revoked_at s' = ss_revoked_at s))"

definition later_account :: "LocalAccount \<Rightarrow> LocalAccount \<Rightarrow> bool" where
  "later_account u u' =
     (lu_user_id u' = lu_user_id u \<and> lu_username u' = lu_username u \<and> lu_created_at u' = lu_created_at u
      \<and> lu_version u \<le> lu_version u')"

definition account_history :: "AuthDb \<Rightarrow> AuthDb \<Rightarrow> bool" where
  "account_history db db' =
     (prefix (ad_audit db) (ad_audit db')
      \<and> (\<forall>s \<in> set (ad_sessions db). \<exists>s' \<in> set (ad_sessions db'). later_session s s')
      \<and> (\<forall>u \<in> set (ad_users db). \<exists>u' \<in> set (ad_users db'). later_account u u')
      \<and> ((\<exists>u \<in> set (ad_users db). active_admin u) \<longrightarrow> (\<exists>u \<in> set (ad_users db'). active_admin u)))"

definition keeps_accounts :: "AuthDb \<Rightarrow> AuthDb \<Rightarrow> bool" where
  "keeps_accounts db db' = (accounts_inv db \<longrightarrow> accounts_inv db' \<and> account_history db db')"

lemma later_session_refl [simp]: "later_session s s"
  by (simp add: later_session_def)

lemma later_session_trans: "later_session s t \<Longrightarrow> later_session t u \<Longrightarrow> later_session s u"
  by (auto simp: later_session_def)

lemma later_account_refl [simp]: "later_account u u"
  by (simp add: later_account_def)

lemma later_account_trans: "later_account s t \<Longrightarrow> later_account t u \<Longrightarrow> later_account s u"
  by (auto simp: later_account_def)

lemma later_refl_ex:
  "s \<in> set ss \<Longrightarrow> \<exists>s' \<in> set ss. later_session s s'"
  "u \<in> set us \<Longrightarrow> \<exists>u' \<in> set us. later_account u u'"
  by (blast intro: later_session_refl later_account_refl)+

lemma account_history_refl [simp]: "account_history db db"
  by (simp add: account_history_def later_refl_ex)

text \<open>A step that leaves the accounts alone, appends to the audit and keeps each session.\<close>

lemma account_historyI:
  assumes "prefix (ad_audit db) (ad_audit db')" "ad_users db' = ad_users db"
    "\<And>s. s \<in> set (ad_sessions db) \<Longrightarrow> \<exists>s' \<in> set (ad_sessions db'). later_session s s'"
  shows "account_history db db'"
  using assms by (simp add: account_history_def later_refl_ex)

lemma account_history_trans: "account_history a b \<Longrightarrow> account_history b c \<Longrightarrow> account_history a c"
  unfolding account_history_def
  by (intro conjI ballI impI) (blast intro: prefix_order.trans later_session_trans later_account_trans)+

lemma keeps_refl: "keeps_accounts db db"
  by (simp add: keeps_accounts_def)

lemma keeps_trans: "keeps_accounts a b \<Longrightarrow> keeps_accounts b c \<Longrightarrow> keeps_accounts a c"
  by (auto simp: keeps_accounts_def intro: account_history_trans)

section \<open>Changes of the tables\<close>

lemma append_audit_Inr [result_split]:
  "append_soc_audit_event e db = Inr db' \<longleftrightarrow>
     soc_audit_event e = Inr e \<and> soc_audit_event_id e \<notin> soc_audit_event_id ` set (ad_audit db)
     \<and> db' = db\<lparr>ad_audit := ad_audit db @ [e]\<rparr>"
  using soc_audit_event_Inr(1) [of e] by (auto simp: append_soc_audit_event_def result_split split: if_splits)

lemma audit_keeps: "append_soc_audit_event e db = Inr db' \<Longrightarrow> keeps_accounts db db'"
  using soc_audit_event_Inr(2) [of e e]
  by (auto simp: append_audit_Inr keeps_accounts_def accounts_inv_def later_refl_ex intro!: account_historyI)

lemma audit_users: "append_soc_audit_event e db = Inr db' \<Longrightarrow> ad_users db' = ad_users db \<and> ad_sessions db' = ad_sessions db"
  by (auto simp: append_audit_Inr)

text \<open>Mapping a change over the sessions that keeps each of them.\<close>

lemma map_sessions_keeps:
  assumes "\<And>s. s \<in> set (ad_sessions db) \<Longrightarrow> later_session s (f s)"
  shows "keeps_accounts db (db\<lparr>ad_sessions := map f (ad_sessions db)\<rparr>)"
proof -
  have same: "map (ss_session_id \<circ> f) (ad_sessions db) = map ss_session_id (ad_sessions db)"
    "map (ss_token_digest \<circ> f) (ad_sessions db) = map ss_token_digest (ad_sessions db)"
    using assms by (simp_all add: later_session_def)
  have "session_ok us s \<Longrightarrow> session_ok us (f s)" if "s \<in> set (ad_sessions db)" for us s
    using assms [OF that] by (auto simp: session_ok_def later_session_def list_ex_iff)
  moreover have "account_history db (db\<lparr>ad_sessions := map f (ad_sessions db)\<rparr>)"
    using assms by (intro account_historyI) auto
  ultimately show ?thesis
    by (simp add: keeps_accounts_def accounts_inv_def list_all_iff same)
qed

lemma update_session_keeps:
  "(\<And>s. later_session s (f s)) \<Longrightarrow> keeps_accounts db (update_session k f db)"
  unfolding update_session_def by (rule map_sessions_keeps) simp

lemma update_session_users [simp]: "ad_users (update_session k f db) = ad_users db" "ad_audit (update_session k f db) = ad_audit db"
  by (simp_all add: update_session_def)

lemma add_session_keeps:
  assumes "add_session s db = Inr db'" "u \<in> set (ad_users db)" "lu_user_id u = ss_user_id s" "lu_active u"
  shows "keeps_accounts db db'"
proof -
  have "account_history db db'"
    using assms(1) by (intro account_historyI) (auto simp: add_session_def later_refl_ex split: if_splits)
  then show ?thesis
    using assms by (auto simp: add_session_def keeps_accounts_def accounts_inv_def session_ok_def list_ex_iff
        split: if_splits)
qed

text \<open>Replacing one account, and revoking its sessions when it becomes inactive.\<close>

lemma account_unique:
  "users_ok us \<Longrightarrow> u \<in> set us \<Longrightarrow> v \<in> set us \<Longrightarrow> lu_user_id u = lu_user_id v \<Longrightarrow> u = v"
  by (auto simp: users_ok_def distinct_map inj_on_def)

lemma set_account_users:
  assumes "u \<in> set us" "lu_user_id w = lu_user_id u" "lu_username w = lu_username u"
    "Role_of (lu_role w) \<noteq> None" "users_ok us"
  shows "users_ok (map (\<lambda>v. if lu_user_id v = lu_user_id w then w else v) us)"
proof -
  have "map lu_user_id (map (\<lambda>v. if lu_user_id v = lu_user_id w then w else v) us) = map lu_user_id us"
    by simp
  moreover have "map lu_username (map (\<lambda>v. if lu_user_id v = lu_user_id w then w else v) us) = map lu_username us"
    using account_unique [OF assms(5) _ assms(1)] assms(2,3) by (auto simp: map_eq_conv)
  moreover have "list_all (\<lambda>u. username_pattern (lu_username u) \<and> Role_of (lu_role u) \<noteq> None)
      (map (\<lambda>v. if lu_user_id v = lu_user_id w then w else v) us)"
    using assms by (auto simp: list_all_iff users_ok_def)
  ultimately show ?thesis
    using assms(5) by (simp only: users_ok_def simp_thms)
qed

lemma replaced_keeps:
  assumes target: "u \<in> set (ad_users db)" "lu_user_id w = lu_user_id u" "lu_username w = lu_username u"
      "lu_created_at w = lu_created_at u" "lu_version u \<le> lu_version w" "Role_of (lu_role w) \<noteq> None"
    and admin: "active_admin u \<Longrightarrow> \<not> active_admin w \<Longrightarrow> \<exists>v \<in> set (ad_users db). active_admin v \<and> lu_user_id v \<noteq> lu_user_id u"
    and sessions: "ad_sessions db' = map f (ad_sessions db)" "\<And>s. later_session s (f s)"
      "\<And>s. ss_user_id s = lu_user_id u \<Longrightarrow> ss_revoked_at (f s) = None \<Longrightarrow> lu_active w"
    and users: "ad_users db' = ad_users (set_account w db)" and audit: "ad_audit db' = ad_audit db"
  shows "keeps_accounts db db'"
  unfolding keeps_accounts_def
proof
  assume inv: "accounts_inv db"
  let ?us = "map (\<lambda>v. if lu_user_id v = lu_user_id w then w else v) (ad_users db)"
  have us: "ad_users db' = ?us" by (simp add: users set_account_def)
  have ok: "users_ok (ad_users db)" using inv by (simp add: accounts_inv_def)
  have w: "w \<in> set ?us" using target(1,2) by force
  have same: "ss_session_id (f s) = ss_session_id s" "ss_token_digest (f s) = ss_token_digest s" for s
    using sessions(2) [of s] by (simp_all add: later_session_def)
  have session: "session_ok ?us (f s)" if s: "session_ok (ad_users db) s" for s
  proof -
    from s obtain v where v: "v \<in> set (ad_users db)" "lu_user_id v = ss_user_id s"
      "ss_revoked_at s = None \<longrightarrow> lu_active v" by (auto simp: session_ok_def list_ex_iff)
    have l: "ss_user_id (f s) = ss_user_id s" "ss_revoked_at s \<noteq> None \<longrightarrow> ss_revoked_at (f s) \<noteq> None"
      "ss_created_at (f s) < ss_expires_at (f s)"
      using sessions(2) [of s] s by (auto simp: later_session_def session_ok_def)
    show ?thesis
    proof (cases "lu_user_id v = lu_user_id w")
      case True
      with w l v(2) sessions(3) [of s] target(2) show ?thesis by (auto simp: session_ok_def list_ex_iff)
    next
      case False
      then have "v \<in> set ?us" using v(1) by force
      with v l show ?thesis by (auto simp: session_ok_def list_ex_iff intro!: bexI [of _ v])
    qed
  qed
  have "later_account v (if lu_user_id v = lu_user_id w then w else v)" if "v \<in> set (ad_users db)" for v
    using account_unique [OF ok that target(1)] target(2-5)
    by (cases "lu_user_id v = lu_user_id w") (simp_all add: later_account_def)
  then have accounts: "\<forall>v \<in> set (ad_users db). \<exists>v' \<in> set ?us. later_account v v'"
    unfolding set_map by (intro ballI bexI [OF _ imageI])
  have "\<exists>v \<in> set ?us. active_admin v" if "v \<in> set (ad_users db)" "active_admin v" for v
  proof (cases "lu_user_id v = lu_user_id w")
    case True
    then have "v = u" using account_unique [OF ok that(1) target(1)] target(2) by simp
    show ?thesis
    proof (cases "active_admin w")
      case True
      with w show ?thesis by blast
    next
      case False
      from admin [OF _ False] that(2) \<open>v = u\<close> obtain x where
        "x \<in> set (ad_users db)" "active_admin x" "lu_user_id x \<noteq> lu_user_id w" using target(2) by auto
      then show ?thesis by force
    qed
  next
    case False
    with that show ?thesis by force
  qed
  then have "account_history db db'"
    using accounts sessions(2) by (auto simp: account_history_def us sessions(1) audit)
  moreover have "accounts_inv db'"
    using inv set_account_users [OF target(1-3,6) ok] session
    by (simp add: accounts_inv_def us sessions(1) audit o_def same list_all_iff)
  ultimately show "accounts_inv db' \<and> account_history db db'" by simp
qed

section \<open>The operations\<close>

lemma find_account_Some:
  "find_account db k = Some u \<Longrightarrow> u \<in> set (ad_users db) \<and> lu_user_id u = k"
  unfolding find_account_def by (rule find_eq_Some_iff)

lemma account_named_Some:
  "account_named db n = Some u \<Longrightarrow> u \<in> set (ad_users db) \<and> lu_username u = n"
  unfolding account_named_def by (rule find_eq_Some_iff)

lemma find_account_self: "accounts_inv db \<Longrightarrow> u \<in> set (ad_users db) \<Longrightarrow> find_account db (lu_user_id u) = Some u"
  using account_unique [of "ad_users db"]
  by (cases "find_account db (lu_user_id u)")
     (auto simp: accounts_inv_def find_account_def find_eq_None_iff dest: find_eq_Some_iff)

lemma session_by_digest_Some:
  "session_by_digest db d = Some (s, u) \<Longrightarrow>
     s \<in> set (ad_sessions db) \<and> ss_token_digest s = d \<and> u \<in> set (ad_users db) \<and> lu_user_id u = ss_user_id s"
  by (auto simp: session_by_digest_def split: option.splits dest: find_eq_Some_iff find_account_Some)

lemma seen_later: "later_session s (s\<lparr>ss_last_seen_at := t\<rparr>)"
  by (simp add: later_session_def)

text \<open>
  What a request that passes \<open>require_authenticated\<close> has shown: the token of a stored, live session of
  an active account. The principal's session is this row, at most seen later, so it has the row's
  CSRF digest.
\<close>

definition live_caller :: "AuthSettings \<Rightarrow> HttpRequest \<Rightarrow> AuthDb \<Rightarrow> AuthPrincipal \<Rightarrow> bool" where
  "live_caller settings request db p =
     (case rq_session_cookie request of
        None \<Rightarrow> False
      | Some token \<Rightarrow>
          list_ex (\<lambda>s. token_digest settings token = Inr (ss_token_digest s) \<and> ss_revoked_at s = None
            \<and> rq_time request < ss_expires_at s \<and> ss_user_id s = lu_user_id (ap_user p)
            \<and> later_session s (ap_session p) \<and> ss_csrf_digest (ap_session p) = ss_csrf_digest s)
            (ad_sessions db)
          \<and> ap_user p \<in> set (ad_users db) \<and> lu_active (ap_user p)
          \<and> Role_of (lu_role (ap_user p)) = Some (ap_role p))"

lemma authenticated_session:
  assumes "require_authenticated settings request db = Inr (p, db')"
  obtains token digest s where "rq_session_cookie request = Some token" "token_digest settings token = Inr digest"
    "session_by_digest db digest = Some (s, ap_user p)" "ss_revoked_at s = None" "rq_time request < ss_expires_at s"
    "lu_active (ap_user p)" "Role_of (lu_role (ap_user p)) = Some (ap_role p)"
    "ap_session p = s \<and> db' = db \<or> ap_session p = s\<lparr>ss_last_seen_at := rq_time request\<rparr>
       \<and> db' = update_session (ss_session_id s) (ss_last_seen_at_update (\<lambda>_. rq_time request)) db"
proof -
  from assms obtain token where cookie: "rq_session_cookie request = Some token"
    by (cases "rq_session_cookie request") (auto simp: require_authenticated_def)
  with assms obtain digest where token: "rq_session_cookie request = Some token"
    "token_digest settings token = Inr digest"
    by (cases "token_digest settings token") (auto simp: require_authenticated_def split: if_splits)
  from assms token obtain s u where found: "session_by_digest db digest = Some (s, u)"
    by (cases "session_by_digest db digest") (auto simp: require_authenticated_def split: if_splits)
  from assms token found obtain role where role: "Role_of (lu_role u) = Some role"
    by (cases "Role_of (lu_role u)") (auto simp: require_authenticated_def split: if_splits)
  show ?thesis
    by (rule that [OF token, of s])
       (use assms token found role in \<open>auto simp: require_authenticated_def Let_def split: if_splits\<close>)
qed

lemma authenticated_live:
  assumes "require_authenticated settings request db = Inr (p, db')"
  shows "live_caller settings request db p"
proof -
  from assms obtain token digest s where token: "rq_session_cookie request = Some token"
    "token_digest settings token = Inr digest" "session_by_digest db digest = Some (s, ap_user p)"
    and s: "ss_revoked_at s = None" "rq_time request < ss_expires_at s" "lu_active (ap_user p)"
      "Role_of (lu_role (ap_user p)) = Some (ap_role p)" "later_session s (ap_session p)"
      "ss_csrf_digest (ap_session p) = ss_csrf_digest s"
    by (rule authenticated_session) (auto simp: seen_later)
  with session_by_digest_Some [OF token(3)] show ?thesis
    by (auto simp: live_caller_def list_ex_iff intro!: bexI [of _ s])
qed

lemma authenticated_keeps:
  assumes "require_authenticated settings request db = Inr (p, db')"
  shows "keeps_accounts db db'" "ad_users db' = ad_users db" "ad_audit db' = ad_audit db"
  using assms
  by (auto elim!: authenticated_session simp: keeps_refl later_session_def intro!: update_session_keeps)

text \<open>The guards that add the CSRF token and a permission.\<close>

lemma csrf_protected_Inr [result_split]:
  "csrf_protected settings request db = Inr (p, db') \<longleftrightarrow>
     require_authenticated settings request db = Inr (p, db') \<and> require_csrf_protection settings request p = Inr ()"
  by (auto simp: csrf_protected_def result_split)

lemma require_permission_Inr [result_split]:
  "require_permission permission settings request db = Inr (p, db') \<longleftrightarrow>
     require_authenticated settings request db = Inr (p, db') \<and> has_permission p permission"
  by (auto simp: require_permission_def result_split)

lemma require_mutation_permission_Inr [result_split]:
  "require_mutation_permission permission settings request db = Inr (p, db') \<longleftrightarrow>
     require_authenticated settings request db = Inr (p, db') \<and> require_csrf_protection settings request p = Inr ()
     \<and> has_permission p permission"
  by (auto simp: require_mutation_permission_def result_split)

lemma issue_session_keeps:
  assumes "issue_session settings draws u request_id now db = Inr (issued, db')" "u \<in> set (ad_users db)" "lu_active u"
  shows "keeps_accounts db db'" "ad_users db' = ad_users db"
proof -
  from assms(1) obtain s db1 e where step: "add_session s db = Inr db1" "append_soc_audit_event e db1 = Inr db'"
    "ss_user_id s = lu_user_id u"
    by (auto simp: issue_session_def rbind_eq_Inr Let_def)
  show "keeps_accounts db db'"
    using add_session_keeps [OF step(1) assms(2)] step(3) assms(3) audit_keeps [OF step(2)]
    by (auto intro: keeps_trans)
  show "ad_users db' = ad_users db"
    using step(1) audit_users [OF step(2)] by (auto simp: add_session_def split: if_splits)
qed

lemma login_failed_keeps:
  assumes "login_failed n u request_id audit_id now db = Inr db'"
  shows "keeps_accounts db db'" "ad_users db' = ad_users db"
  using assms by (auto simp: login_failed_def dest: audit_keeps audit_users)

lemma login_keeps:
  assumes "authenticate_and_create_session scrypt settings draws username password request_id now db = Inr (issued, db')"
  shows "keeps_accounts db db'" "ad_users db' = ad_users db"
  using assms
  by (auto simp: authenticate_and_create_session_def result_split Let_def bind_eq_Some_conv
      split: option.splits if_splits sum.splits
      dest: login_failed_keeps issue_session_keeps account_named_Some)

lemma csrf_token_keeps:
  assumes "csrf_token_for_session settings draw s presented db = Inr (r, db')"
  shows "keeps_accounts db db'" "ad_users db' = ad_users db"
  using assms
  by (auto simp: csrf_token_for_session_def result_split Let_def keeps_refl later_session_def
      split: option.splits if_splits intro!: update_session_keeps)

lemma Role_of_value [simp]: "Role_of (Role_value r) = Some r"
  by (cases r) (simp_all add: Role_of_def)

lemma normalize_username_pattern: "normalize_username n = Inr m \<Longrightarrow> username_pattern m"
  by (auto simp: normalize_username_def Let_def split: if_splits)

lemma create_local_user_keeps:
  assumes "create_local_user scrypt draws username display_name role password request_id actor now db = Inr (u, db')"
  shows "keeps_accounts db db'"
proof -
  from assms obtain e where new: "username_pattern (lu_username u)" "account_named db (lu_username u) = None"
    "lu_role u = Role_value role" "lu_user_id u \<notin> lu_user_id ` set (ad_users db)"
    and audit: "append_soc_audit_event e (db\<lparr>ad_users := ad_users db @ [u]\<rparr>) = Inr db'"
    by (auto simp: create_local_user_def rbind_eq_Inr Let_def normalize_username_pattern split: if_splits)
  have "keeps_accounts db (db\<lparr>ad_users := ad_users db @ [u]\<rparr>)"
    using new by (auto simp: keeps_accounts_def accounts_inv_def account_history_def users_ok_def later_refl_ex
        account_named_def find_eq_None_iff session_ok_def list_all_iff)
  then show ?thesis
    using audit_keeps [OF audit] by (rule keeps_trans)
qed

lemma locked_account_Inr [result_split]:
  "locked_account db k v = Inr u \<longleftrightarrow> find_account db k = Some u \<and> lu_version u = v"
  by (auto simp: locked_account_def split: option.splits)

lemma revoked_sessions [simp]:
  "ad_users (snd (revoke_user_sessions k now db)) = ad_users db"
  "ad_audit (snd (revoke_user_sessions k now db)) = ad_audit db"
  "ad_sessions (snd (revoke_user_sessions k now db)) =
     map (\<lambda>s. if live_session_of k s then s\<lparr>ss_revoked_at := Some now\<rparr> else s) (ad_sessions db)"
  by (simp_all add: revoke_user_sessions_def)

lemma set_account_simps [simp]:
  "ad_sessions (set_account u db) = ad_sessions db" "ad_audit (set_account u db) = ad_audit db"
  by (simp_all add: set_account_def)

lemma revoked_later:
  "later_session s (if live_session_of k s then s\<lparr>ss_revoked_at := Some now\<rparr> else s)"
  by (simp add: later_session_def live_session_of_def)

lemma another_admin:
  assumes "users_ok us" "u \<in> set us" "P u" "1 < length (filter P us)"
  shows "\<exists>v \<in> set us. P v \<and> lu_user_id v \<noteq> lu_user_id u"
proof (rule ccontr)
  assume "\<not> ?thesis"
  then have "set (filter P us) \<subseteq> {u}"
    using account_unique [OF assms(1) _ assms(2)] by auto
  moreover have "distinct (filter P us)"
    using assms(1) by (simp add: users_ok_def distinct_map)
  ultimately have "length (filter P us) \<le> 1"
    using card_mono [of "{u}" "set (filter P us)"] distinct_card [of "filter P us"] by simp
  with assms(4) show False by simp
qed

lemma not_revoked:
  "ss_revoked_at (if live_session_of k s then s\<lparr>ss_revoked_at := Some now\<rparr> else s) = None \<Longrightarrow> ss_user_id s \<noteq> k"
  by (auto simp: live_session_of_def split: if_splits)

text \<open>An update and a password reset replace one account and revoke the sessions that must end.\<close>

lemma if_Inl_eq_Inr: "(if P then Inl e else m) = Inr r \<longleftrightarrow> \<not> P \<and> m = Inr r"
  by simp

lemma update_local_user_parts:
  assumes "update_local_user k display_name role active v actor request_id audit_id now db = Inr (w, db')"
  obtains u e where "find_account db k = Some u" "lu_version u = v"
    "lu_user_id w = lu_user_id u" "lu_username w = lu_username u" "lu_created_at w = lu_created_at u"
    "lu_version w = v + 1" "lu_role w = lu_role u \<or> (\<exists>r. lu_role w = Role_value r)"
    "\<forall>b. active = Some b \<longrightarrow> lu_active w = b"
    "active_admin u \<longrightarrow> \<not> active_admin w \<longrightarrow> 1 < length (filter active_admin (ad_users db))"
    "append_soc_audit_event e
      (if lu_active w then set_account w db else snd (revoke_user_sessions k now (set_account w db))) = Inr db'"
    "soc_actor_user_id e = Some actor"
proof -
  from assms obtain u where u: "find_account db k = Some u" "lu_version u = v"
    by (auto simp: update_local_user_def rbind_eq_Inr locked_account_Inr)
  then have locked: "locked_account db k v = Inr u" by (simp add: result_split)
  from assms locked obtain d where d: "(case display_name of None \<Rightarrow> Inr (lu_display_name u)
      | Some d \<Rightarrow> raising Security (normalize_display_name d)) = Inr d"
    by (auto simp: update_local_user_def rbind_eq_Inr)
  let ?role = "case role of None \<Rightarrow> lu_role u | Some r \<Rightarrow> Role_value r"
  let ?active = "case active of None \<Rightarrow> lu_active u | Some b \<Rightarrow> b"
  let ?w = "u\<lparr>lu_display_name := d, lu_role := ?role, lu_active := ?active, lu_version := lu_version u + 1, lu_updated_at := now\<rparr>"
  note step = assms [unfolded update_local_user_def locked d rbind_simps Let_def if_Inl_eq_Inr rbind_eq_Inr]
  then have guard: "\<not> (active_admin u \<and> (\<not> ?active \<or> ?role \<noteq> ''ADMIN'')
      \<and> length (filter active_admin (ad_users db)) \<le> 1)" by (rule conjunct1)
  from step obtain e where w: "w = ?w" and e: "append_soc_audit_event e
      (if ?active then set_account ?w db else snd (revoke_user_sessions k now (set_account ?w db))) = Inr db'"
      "soc_actor_user_id e = Some actor"
    by (elim conjE exE) (simp only: sum.inject prod.inject, simp)
  have active: "lu_active w = ?active" by (simp add: w)
  show ?thesis
  proof (rule that [OF u])
    show "lu_role w = lu_role u \<or> (\<exists>r. lu_role w = Role_value r)" by (cases role) (auto simp: w)
    show "\<forall>b. active = Some b \<longrightarrow> lu_active w = b" by (simp add: w)
    show "active_admin u \<longrightarrow> \<not> active_admin w \<longrightarrow> 1 < length (filter active_admin (ad_users db))"
      using guard by (simp add: w active_admin_def [of ?w] not_le) blast
    show "append_soc_audit_event e
      (if lu_active w then set_account w db else snd (revoke_user_sessions k now (set_account w db))) = Inr db'"
      using e(1) unfolding active unfolding w .
  qed (simp_all add: w u(2) e(2))
qed

lemma update_local_user_keeps:
  assumes "update_local_user k display_name role active v actor request_id audit_id now db = Inr (w, db')"
  shows "keeps_accounts db db'"
proof (cases "accounts_inv db")
  case True
  from assms obtain u e where parts: "find_account db k = Some u" "lu_version u = v"
    "lu_user_id w = lu_user_id u" "lu_username w = lu_username u" "lu_created_at w = lu_created_at u"
    "lu_version w = v + 1" "lu_role w = lu_role u \<or> (\<exists>r. lu_role w = Role_value r)"
    "active_admin u \<longrightarrow> \<not> active_admin w \<longrightarrow> 1 < length (filter active_admin (ad_users db))"
    and audit: "append_soc_audit_event e
      (if lu_active w then set_account w db else snd (revoke_user_sessions k now (set_account w db))) = Inr db'"
    by (rule update_local_user_parts)
  have u: "u \<in> set (ad_users db)" "lu_user_id u = k" using find_account_Some [OF parts(1)] by simp_all
  have ok: "users_ok (ad_users db)" using True by (simp add: accounts_inv_def)
  with u(1) have "Role_of (lu_role u) \<noteq> None" by (simp add: users_ok_def list_all_iff)
  then have role: "Role_of (lu_role w) \<noteq> None" using parts(7) by auto
  let ?f = "\<lambda>s. if \<not> lu_active w \<and> live_session_of k s then s\<lparr>ss_revoked_at := Some now\<rparr> else s"
  have "keeps_accounts db (if lu_active w then set_account w db else snd (revoke_user_sessions k now (set_account w db)))"
  proof (rule replaced_keeps [OF u(1) parts(3-5) _ role, where f = ?f])
    show "\<exists>x \<in> set (ad_users db). active_admin x \<and> lu_user_id x \<noteq> lu_user_id u"
      if "active_admin u" "\<not> active_admin w"
      using another_admin [of _ u active_admin, OF ok u(1)] parts(8) that by blast
    show "later_session s (?f s)" for s
      by (simp add: later_session_def live_session_of_def)
    show "lu_active w" if "ss_user_id s = lu_user_id u" "ss_revoked_at (?f s) = None" for s
      using that u(2) by (auto simp: live_session_of_def split: if_splits)
  qed (use parts(2,6) in \<open>simp_all add: set_account_def\<close>)
  then show ?thesis using audit_keeps [OF audit] by (rule keeps_trans)
qed (simp add: keeps_accounts_def)

lemma reset_password_parts:
  assumes "reset_local_user_password scrypt salt k password v actor request_id audit_id now db = Inr (w, db')"
  obtains u e where "find_account db k = Some u" "lu_version u = v"
    "lu_user_id w = lu_user_id u" "lu_username w = lu_username u" "lu_created_at w = lu_created_at u"
    "lu_version w = v + 1" "lu_role w = lu_role u" "lu_active w = lu_active u"
    "append_soc_audit_event e (snd (revoke_user_sessions k now (set_account w db))) = Inr db'"
    "soc_actor_user_id e = Some actor"
  using assms
  by (auto simp: reset_local_user_password_def rbind_eq_Inr locked_account_Inr Let_def)

lemma reset_password_keeps:
  assumes "reset_local_user_password scrypt salt k password v actor request_id audit_id now db = Inr (w, db')"
  shows "keeps_accounts db db'"
proof (cases "accounts_inv db")
  case True
  from assms obtain u e where parts: "find_account db k = Some u" "lu_version u = v"
    "lu_user_id w = lu_user_id u" "lu_username w = lu_username u" "lu_created_at w = lu_created_at u"
    "lu_version w = v + 1" "lu_role w = lu_role u" "lu_active w = lu_active u"
    and audit: "append_soc_audit_event e (snd (revoke_user_sessions k now (set_account w db))) = Inr db'"
    by (rule reset_password_parts)
  have u: "u \<in> set (ad_users db)" "lu_user_id u = k" using find_account_Some [OF parts(1)] by simp_all
  have role: "Role_of (lu_role w) \<noteq> None"
    using True u(1) parts(7) by (simp add: accounts_inv_def users_ok_def list_all_iff)
  have "keeps_accounts db (snd (revoke_user_sessions k now (set_account w db)))"
    by (rule replaced_keeps [OF u(1) parts(3-5) _ role,
          where f = "\<lambda>s. if live_session_of k s then s\<lparr>ss_revoked_at := Some now\<rparr> else s"])
      (use parts(2,6-8) u(2) in \<open>auto simp: revoked_later active_admin_def dest: not_revoked\<close>)
  then show ?thesis using audit_keeps [OF audit] by (rule keeps_trans)
qed (simp add: keeps_accounts_def)

lemma same_session:
  "accounts_inv db \<Longrightarrow> s \<in> set (ad_sessions db) \<Longrightarrow> t \<in> set (ad_sessions db) \<Longrightarrow> ss_session_id s = ss_session_id t \<Longrightarrow> s = t"
  "accounts_inv db \<Longrightarrow> s \<in> set (ad_sessions db) \<Longrightarrow> t \<in> set (ad_sessions db) \<Longrightarrow> ss_token_digest s = ss_token_digest t \<Longrightarrow> s = t"
  by (auto simp: accounts_inv_def distinct_map inj_on_def)

text \<open>After authentication the rows with the identifier of the caller's session are not revoked.\<close>

lemma authenticated_unrevoked:
  assumes "require_authenticated settings request db = Inr (p, db')" "accounts_inv db"
    "s \<in> set (ad_sessions db')" "ss_session_id s = ss_session_id (ap_session p)"
  shows "ss_revoked_at s = None"
proof -
  from assms(1) obtain digest t where t: "session_by_digest db digest = Some (t, ap_user p)" "ss_revoked_at t = None"
    "ap_session p = t \<and> db' = db \<or> ap_session p = t\<lparr>ss_last_seen_at := rq_time request\<rparr>
       \<and> db' = update_session (ss_session_id t) (ss_last_seen_at_update (\<lambda>_. rq_time request)) db"
    by (rule authenticated_session)
  from session_by_digest_Some [OF t(1)] have "t \<in> set (ad_sessions db)" by simp
  then have "ss_revoked_at x = None" if "x \<in> set (ad_sessions db)" "ss_session_id x = ss_session_id t" for x
    using same_session(1) [OF assms(2) that(1)] that(2) t(2) by blast
  then show ?thesis
    using t(3) assms(3,4) by (auto simp: update_session_def split: if_splits)
qed

lemma revoke_session_keeps:
  assumes "revoke_session s u request_id audit_id now db = Inr db'"
    "\<And>t. t \<in> set (ad_sessions db) \<Longrightarrow> ss_session_id t = ss_session_id s \<Longrightarrow> ss_revoked_at t = None"
  shows "keeps_accounts db db'" "ad_users db' = ad_users db"
proof -
  let ?db = "if ss_revoked_at s = None then update_session (ss_session_id s) (ss_revoked_at_update (\<lambda>_. Some now)) db else db"
  from assms(1) obtain e where e: "append_soc_audit_event e ?db = Inr db'"
    by (auto simp: revoke_session_def)
  have "keeps_accounts db (update_session (ss_session_id s) (ss_revoked_at_update (\<lambda>_. Some now)) db)"
    unfolding update_session_def using assms(2) by (intro map_sessions_keeps) (auto simp: later_session_def)
  then have "keeps_accounts db ?db" by (simp add: keeps_refl)
  then show "keeps_accounts db db'" using audit_keeps [OF e] by (rule keeps_trans)
  show "ad_users db' = ad_users db" using audit_users [OF e] by auto
qed

lemma logout_keeps:
  assumes "require_authenticated settings request db = Inr (p, db1)"
    "revoke_session (ap_session p) (ap_user p) request_id audit_id now db1 = Inr db'"
  shows "keeps_accounts db db'"
proof (cases "accounts_inv db")
  case True
  then show ?thesis
    using authenticated_unrevoked [OF assms(1) True]
    by (intro keeps_trans [OF authenticated_keeps(1) [OF assms(1)]] revoke_session_keeps(1) [OF assms(2)])
qed (simp add: keeps_accounts_def)

section \<open>Requests\<close>

lemma auth_step_keeps: "auth_step scrypt settings op db = Inr (x, db') \<Longrightarrow> keeps_accounts db db'"
proof (cases op)
  case (Login username password request_id draws now)
  then show "auth_step scrypt settings op db = Inr (x, db') \<Longrightarrow> keeps_accounts db db'"
    by (auto simp: route_defs rbind_eq_Inr dest: login_keeps(1))
next
  case (ReadSession request draw)
  then show "auth_step scrypt settings op db = Inr (x, db') \<Longrightarrow> keeps_accounts db db'"
    by (auto simp: route_defs rbind_eq_Inr dest!: authenticated_keeps(1) csrf_token_keeps(1) intro: keeps_trans)
next
  case (Logout request audit_id)
  then show "auth_step scrypt settings op db = Inr (x, db') \<Longrightarrow> keeps_accounts db db'"
    by (auto simp: route_defs rbind_eq_Inr csrf_protected_Inr intro: logout_keeps)
next
  case (CreateUser request username display_name role password draws)
  then show "auth_step scrypt settings op db = Inr (x, db') \<Longrightarrow> keeps_accounts db db'"
    by (auto simp: route_defs rbind_eq_Inr require_mutation_permission_Inr
        dest!: authenticated_keeps(1) create_local_user_keeps intro: keeps_trans)
next
  case (PatchUser request k display_name role active v audit_id)
  then show "auth_step scrypt settings op db = Inr (x, db') \<Longrightarrow> keeps_accounts db db'"
    by (auto simp: route_defs rbind_eq_Inr require_mutation_permission_Inr
        dest!: authenticated_keeps(1) update_local_user_keeps intro: keeps_trans)
next
  case (ResetPassword request k password v salt audit_id)
  then show "auth_step scrypt settings op db = Inr (x, db') \<Longrightarrow> keeps_accounts db db'"
    by (auto simp: route_defs rbind_eq_Inr require_mutation_permission_Inr
        dest!: authenticated_keeps(1) reset_password_keeps intro: keeps_trans)
next
  case (Bootstrap username display_name role password request_id draws now)
  then show "auth_step scrypt settings op db = Inr (x, db') \<Longrightarrow> keeps_accounts db db'"
    by (auto simp: route_defs rbind_eq_Inr dest: create_local_user_keeps)
qed (auto simp: route_defs rbind_eq_Inr require_permission_Inr dest: authenticated_keeps(1))

interpretation accounts: related_ops "auth_step scrypt settings" keeps_accounts for scrypt settings
  by unfold_locales (rule keeps_refl, erule (1) keeps_trans, erule auth_step_keeps)

lemma manages_users: "has_permission p MANAGE_USERS \<longleftrightarrow> ap_role p = ADMIN"
  by (cases "ap_role p") (simp_all add: has_permission_def READ_PERMISSIONS_def ANALYST_PERMISSIONS_def)

section \<open>An example\<close>

text \<open>A desk with one administrator, who is signed in.\<close>

definition desk_settings :: AuthSettings where
  "desk_settings = \<lparr>au_session_secret = replicate 32 CHR ''k'', au_session_ttl_minutes = 480,
     au_cors_origins = [''http://localhost:5173'']\<rparr>"

definition desk_session_token :: string where
  "desk_session_token = replicate 43 CHR ''s''"

definition desk_csrf_token :: string where
  "desk_csrf_token = replicate 43 CHR ''c''"

definition desk_digest :: "string \<Rightarrow> digest" where
  "desk_digest token = hexdigest (hmac_sha256 (utf8 (replicate 32 CHR ''k'')) (utf8 token))"

definition desk_admin :: LocalAccount where
  "desk_admin = \<lparr>lu_user_id = ''u1'', lu_display_name = ''Ada'', lu_role = ''ADMIN'', lu_active = True,
     lu_username = ''ada'', lu_password_hash = ''h'', lu_version = 1, lu_created_at = 0, lu_updated_at = 0,
     lu_password_changed_at = 0\<rparr>"

definition desk_session :: AuthSession where
  "desk_session = \<lparr>ss_session_id = ''s1'', ss_user_id = ''u1'', ss_token_digest = desk_digest desk_session_token,
     ss_csrf_digest = desk_digest desk_csrf_token, ss_created_at = 0, ss_expires_at = 1000, ss_last_seen_at = 0,
     ss_revoked_at = None\<rparr>"

definition desk_db :: AuthDb where
  "desk_db = \<lparr>ad_users = [desk_admin], ad_sessions = [desk_session], ad_audit = []\<rparr>"

definition desk_request :: "string \<Rightarrow> HttpRequest" where
  "desk_request method = \<lparr>rq_method = method, rq_session_cookie = Some desk_session_token,
     rq_csrf_cookie = Some desk_csrf_token, rq_csrf_header = Some desk_csrf_token,
     rq_origin = Some ''http://localhost:5173'', rq_request_id = ''request-1'', rq_time = 100\<rparr>"

lemma desk_tokens:
  "token_digest desk_settings t = Inr (desk_digest t)"
  "safe_token_shape (Some desk_session_token)" "safe_token_shape (Some desk_csrf_token)"
proof -
  have "\<not> length (utf8 (replicate 32 CHR ''k'')) < 32" by code_simp
  then show "token_digest desk_settings t = Inr (desk_digest t)"
    by (simp add: token_digest_def keyed_token_digest_def desk_settings_def desk_digest_def raising_def)
qed (code_simp, code_simp)

lemma desk_inv: "accounts_inv desk_db"
proof -
  have "username_pattern ''ada''" "Role_of ''ADMIN'' = Some ADMIN" by code_simp+
  then show ?thesis
    by (simp add: accounts_inv_def users_ok_def session_ok_def desk_db_def desk_admin_def desk_session_def)
qed

lemma desk_authenticated:
  "require_authenticated desk_settings (desk_request m) desk_db
   = Inr (\<lparr>ap_user = desk_admin, ap_session = desk_session, ap_role = ADMIN\<rparr>, desk_db)"
proof -
  have "Role_of ''ADMIN'' = Some ADMIN" by code_simp
  then show ?thesis
    using desk_tokens(1) [of desk_session_token]
    by (simp add: require_authenticated_def desk_tokens session_by_digest_def find_account_def desk_db_def
        desk_request_def desk_session_def desk_admin_def LAST_SEEN_WRITE_INTERVAL_def microseconds_per_second_def)
qed

lemma desk_csrf: "require_csrf_protection desk_settings (desk_request m) \<lparr>ap_user = desk_admin, ap_session = desk_session, ap_role = ADMIN\<rparr> = Inr ()"
proof -
  have "rstrip_slash ''http://localhost:5173'' = ''http://localhost:5173''" by code_simp
  then show ?thesis
    by (simp add: require_csrf_protection_def desk_request_def desk_tokens desk_session_def)
       (simp add: desk_settings_def)
qed

lemma desk_request_simps:
  "rq_request_id (desk_request m) = ''request-1''" "rq_time (desk_request m) = 100"
  by (simp_all add: desk_request_def)

lemma desk_audit:
  assumes "validated_details (soc_details e) = Inr (soc_details e)" "soc_request_id e = ''request-1''"
    "soc_subject_label e = Some ''ada''" "soc_safe_reason e = None" "ad_audit db = []"
  shows "append_soc_audit_event e db = Inr (db\<lparr>ad_audit := [e]\<rparr>)"
  using assms by (simp add: append_soc_audit_event_def soc_audit_event_def raising_def)

lemma desk_logout:
  "\<exists>db'. auth_step scrypt desk_settings (Logout (desk_request m) ''a1'') desk_db = Inr ((), db')"
proof -
  have "validated_details [] = Inr []" by code_simp
  then have "\<exists>db'. revoke_session desk_session desk_admin ''request-1'' ''a1'' 100 desk_db = Inr db'"
    unfolding revoke_session_def
    by (subst desk_audit) (simp_all add: soc_event_def desk_admin_def desk_db_def update_session_def)
  then show ?thesis
    by (auto simp: route_defs csrf_protected_def desk_authenticated desk_csrf desk_request_simps)
qed

lemma desk_rename:
  "\<exists>db'. auth_step scrypt desk_settings (PatchUser (desk_request ''PATCH'') ''u1'' (Some ''Ada B'') None None 1 ''a1'') desk_db
     = Inr ((), db') \<and> ad_users db' \<noteq> ad_users desk_db"
proof -
  let ?details = "[(''changed_fields'', JList [JStr ''display_name'']), (''role'', JStr ''ADMIN''),
    (''active'', JBool True), (''version'', JInt 2)]"
  have details: "validated_details ?details = Inr ?details" by code_simp
  have name: "normalize_display_name ''Ada B'' = Inr ''Ada B''" "valid_user_patch (Some ''Ada B'') None None 1" by code_simp+
  have "\<exists>w db'. update_local_user ''u1'' (Some ''Ada B'') None None 1 ''u1'' ''request-1'' ''a1'' 100 desk_db = Inr (w, db')
      \<and> ad_users db' \<noteq> ad_users desk_db"
    unfolding update_local_user_def
    by (simp add: locked_account_def find_account_def desk_db_def desk_admin_def name raising_def changed_fields_def
        active_admin_def set_account_def Let_def)
       (subst desk_audit, simp_all add: soc_event_def details)
  moreover have "lu_user_id desk_admin = ''u1''" by (simp add: desk_admin_def)
  ultimately show ?thesis
    by (auto simp: route_defs require_mutation_permission_def csrf_protected_def desk_authenticated desk_csrf desk_request_simps
        name manages_users)
qed

text \<open>
  C29. The tables of accounts stay consistent through any sequence of requests and bootstrap runs:
  identifiers, user names, tokens and audit events stay unique, every role is known, every session
  belongs to an account, which is active while the session is not revoked, and the audit holds no
  secret. Of what there was nothing is lost: the audit only grows, accounts and sessions keep their
  identity, versions never fall, a revocation is final, and an administrator remains.
\<close>

theorem accounts_stay_consistent:
  assumes "accounts_inv db"
  shows "accounts_inv (run_ops (auth_step scrypt settings) ops db)
    \<and> account_history db (run_ops (auth_step scrypt settings) ops db)"
  using accounts.run_rel [where s = db] assms unfolding keeps_accounts_def by blast

theorem accounts_stay_consistent_witness:
  "accounts_inv (run_ops (auth_step plain_kdf desk_settings) [Logout (desk_request ''POST'') ''a1'', ReadUsers (desk_request ''GET'') None None 50 0] desk_db)
   \<and> account_history desk_db
       (run_ops (auth_step plain_kdf desk_settings) [Logout (desk_request ''POST'') ''a1'', ReadUsers (desk_request ''GET'') None None 50 0] desk_db)"
  by (rule accounts_stay_consistent [OF desk_inv])

lemma revoked_rejected:
  assumes "accounts_inv db" "s \<in> set (ad_sessions db)" "ss_revoked_at s \<noteq> None"
    "token_digest settings token = Inr (ss_token_digest s)" "rq_session_cookie request = Some token"
  shows "require_authenticated settings request db = Inl AuthenticationRequired"
proof (cases "session_by_digest db (ss_token_digest s)")
  case None
  then show ?thesis using assms(4,5) by (simp add: require_authenticated_def)
next
  case (Some r)
  obtain t u where r: "r = (t, u)" by (cases r)
  have "t = s" using session_by_digest_Some [of db _ t u] Some same_session(2) [OF assms(1) _ assms(2)] r by blast
  then show ?thesis using Some r assms(3-5) by (simp add: require_authenticated_def)
qed

lemma rejected_for_good:
  assumes "accounts_inv db" "s \<in> set (ad_sessions db)" "ss_revoked_at s \<noteq> None"
    "token_digest settings token = Inr (ss_token_digest s)" "rq_session_cookie request = Some token"
  shows "require_authenticated settings request (run_ops (auth_step scrypt settings) ops db) = Inl AuthenticationRequired"
proof -
  let ?db = "run_ops (auth_step scrypt settings) ops db"
  have later: "accounts_inv ?db" "account_history db ?db"
    using accounts.run_rel [where s = db] assms(1) unfolding keeps_accounts_def by blast+
  then obtain s' where "s' \<in> set (ad_sessions ?db)" "later_session s s'"
    using assms(2) unfolding account_history_def by blast
  then show ?thesis
    using assms(3-5) by (intro revoked_rejected [OF later(1), of s']) (auto simp: later_session_def)
qed

text \<open>The sessions an accepted request ends.\<close>

fun ends_session :: "AuthSettings \<Rightarrow> AuthOp \<Rightarrow> AuthSession \<Rightarrow> bool" where
  "ends_session settings (Logout request audit_id) s =
     (map_option (token_digest settings) (rq_session_cookie request) = Some (Inr (ss_token_digest s)))"
| "ends_session settings (PatchUser request k display_name role active v audit_id) s =
     (active = Some False \<and> ss_user_id s = k)"
| "ends_session settings (ResetPassword request k password v salt audit_id) s = (ss_user_id s = k)"
| "ends_session settings _ s = False"

lemma revoke_user_ends:
  assumes "s \<in> set (ad_sessions db)" "ss_user_id s = k"
  shows "\<exists>s' \<in> set (ad_sessions (snd (revoke_user_sessions k now db))). later_session s s' \<and> ss_revoked_at s' \<noteq> None"
  using assms revoked_later [of s k now] not_revoked [of k s now]
  unfolding revoked_sessions set_map by (intro bexI [OF _ imageI [of s]]) blast+

lemma authenticated_later:
  assumes "require_authenticated settings request db = Inr (p, db1)" "accounts_inv db" "s \<in> set (ad_sessions db)"
  obtains s1 where "s1 \<in> set (ad_sessions db1)" "later_session s s1"
  using authenticated_keeps(1) [OF assms(1)] assms(2,3) unfolding keeps_accounts_def account_history_def by blast

lemma logout_ends:
  assumes p: "require_authenticated settings request db = Inr (p, db1)"
    and revoke: "revoke_session (ap_session p) (ap_user p) request_id audit_id now db1 = Inr db'"
    and s: "accounts_inv db" "s \<in> set (ad_sessions db)"
      "map_option (token_digest settings) (rq_session_cookie request) = Some (Inr (ss_token_digest s))"
  shows "\<exists>s' \<in> set (ad_sessions db'). later_session s s' \<and> ss_revoked_at s' \<noteq> None"
proof -
  from p obtain token digest t where t: "rq_session_cookie request = Some token" "token_digest settings token = Inr digest"
    "session_by_digest db digest = Some (t, ap_user p)" "ss_revoked_at t = None"
    "ap_session p = t \<and> db1 = db \<or> ap_session p = t\<lparr>ss_last_seen_at := rq_time request\<rparr>
       \<and> db1 = update_session (ss_session_id t) (ss_last_seen_at_update (\<lambda>_. rq_time request)) db"
    by (rule authenticated_session)
  have "t = s"
    using session_by_digest_Some [OF t(3)] t(1,2) s(3) same_session(2) [OF s(1) _ s(2), of t] by simp
  with t(4,5) have same: "ss_session_id (ap_session p) = ss_session_id s" "ss_revoked_at (ap_session p) = None"
    "ss_revoked_at s = None" by auto
  from p s(1,2) obtain s1 where s1: "s1 \<in> set (ad_sessions db1)" "later_session s s1"
    by (rule authenticated_later)
  from revoke obtain e where "append_soc_audit_event e
      (update_session (ss_session_id s) (ss_revoked_at_update (\<lambda>_. Some now)) db1) = Inr db'"
    by (auto simp: revoke_session_def same)
  then have "ad_sessions db' = map (\<lambda>v. if ss_session_id v = ss_session_id s then v\<lparr>ss_revoked_at := Some now\<rparr> else v)
      (ad_sessions db1)" by (auto simp: update_session_def dest: audit_users)
  then show ?thesis
    using s1 same(3) by (intro bexI [of _ "s1\<lparr>ss_revoked_at := Some now\<rparr>"]) (auto simp: later_session_def image_iff)
qed

lemma ends_session_revoked:
  assumes "accounts_inv db" "auth_step scrypt settings op db = Inr (x, db')" "s \<in> set (ad_sessions db)"
    "ends_session settings op s"
  shows "\<exists>s' \<in> set (ad_sessions db'). later_session s s' \<and> ss_revoked_at s' \<noteq> None"
  using assms(2,4)
proof (cases op)
  case (Logout request audit_id)
  with assms(2) obtain p db1 where p: "require_authenticated settings request db = Inr (p, db1)" and
    revoke: "revoke_session (ap_session p) (ap_user p) (rq_request_id request) audit_id (rq_time request) db1 = Inr db'"
    by (auto simp: route_defs rbind_eq_Inr csrf_protected_Inr)
  show ?thesis by (rule logout_ends [OF p revoke assms(1,3)]) (use assms(4) Logout in simp)
next
  case (PatchUser request k display_name role active v audit_id)
  with assms(2) obtain p db1 w where p: "require_authenticated settings request db = Inr (p, db1)" and
    w: "update_local_user k display_name role active v (lu_user_id (ap_user p)) (rq_request_id request) audit_id
      (rq_time request) db1 = Inr (w, db')"
    by (auto simp: route_defs rbind_eq_Inr require_mutation_permission_Inr)
  from p assms(1,3) obtain s1 where s1: "s1 \<in> set (ad_sessions db1)" "later_session s s1" by (rule authenticated_later)
  from w obtain e where "\<forall>b. active = Some b \<longrightarrow> lu_active w = b" and "append_soc_audit_event e
      (if lu_active w then set_account w db1 else snd (revoke_user_sessions k (rq_time request) (set_account w db1))) = Inr db'"
    by (rule update_local_user_parts)
  with assms(4) PatchUser have "ad_sessions db' = ad_sessions (snd (revoke_user_sessions k (rq_time request) (set_account w db1)))"
    by (auto dest: audit_users)
  then show ?thesis
    using revoke_user_ends [of s1 "set_account w db1" k "rq_time request"] s1 assms(4) PatchUser
    by (auto simp del: revoked_sessions simp: later_session_def [of s s1] intro: later_session_trans [OF s1(2)])
next
  case (ResetPassword request k password v salt audit_id)
  with assms(2) obtain p db1 w where p: "require_authenticated settings request db = Inr (p, db1)" and
    w: "reset_local_user_password scrypt salt k password v (lu_user_id (ap_user p)) (rq_request_id request) audit_id
      (rq_time request) db1 = Inr (w, db')"
    by (auto simp: route_defs rbind_eq_Inr require_mutation_permission_Inr)
  from p assms(1,3) obtain s1 where s1: "s1 \<in> set (ad_sessions db1)" "later_session s s1" by (rule authenticated_later)
  from w obtain e where "append_soc_audit_event e
      (snd (revoke_user_sessions k (rq_time request) (set_account w db1))) = Inr db'"
    by (rule reset_password_parts)
  then have "ad_sessions db' = ad_sessions (snd (revoke_user_sessions k (rq_time request) (set_account w db1)))"
    by (auto dest: audit_users)
  then show ?thesis
    using revoke_user_ends [of s1 "set_account w db1" k "rq_time request"] s1 assms(4) ResetPassword
    by (auto simp del: revoked_sessions simp: later_session_def [of s s1] intro: later_session_trans [OF s1(2)])
qed auto

text \<open>
  C30. A session that has been ended never comes back: after a logout, and after the deactivation
  of its account or a reset of its password, the session's token is refused in every later state,
  whatever requests come in between.
\<close>

theorem ended_session_never_accepted:
  assumes "accounts_inv db" "s \<in> set (ad_sessions db)" "token_digest settings token = Inr (ss_token_digest s)"
    "auth_step scrypt settings op db = Inr (x, db')" "ends_session settings op s"
    "rq_session_cookie request = Some token"
  shows "require_authenticated settings request (run_ops (auth_step scrypt settings) ops db') = Inl AuthenticationRequired"
proof -
  from ends_session_revoked [OF assms(1,4,2,5)] obtain s' where s': "s' \<in> set (ad_sessions db')"
    "later_session s s'" "ss_revoked_at s' \<noteq> None" by blast
  have "accounts_inv db'"
    using auth_step_keeps [OF assms(4)] assms(1) by (simp add: keeps_accounts_def)
  then show ?thesis
    using s' assms(3,6) by (intro rejected_for_good [of db' s']) (auto simp: later_session_def)
qed

theorem ended_session_never_accepted_witness:
  "\<exists>db'. auth_step plain_kdf desk_settings (Logout (desk_request ''POST'') ''a1'') desk_db = Inr ((), db')
     \<and> require_authenticated desk_settings (desk_request ''GET'')
         (run_ops (auth_step plain_kdf desk_settings) [ReadSession (desk_request ''GET'') desk_csrf_token] db')
       = Inl AuthenticationRequired"
proof -
  obtain db' where step: "auth_step plain_kdf desk_settings (Logout (desk_request ''POST'') ''a1'') desk_db = Inr ((), db')"
    using desk_logout by blast
  have "desk_session \<in> set (ad_sessions desk_db)" by (simp add: desk_db_def)
  moreover have "token_digest desk_settings desk_session_token = Inr (ss_token_digest desk_session)"
    by (simp add: desk_tokens desk_session_def)
  moreover from this have "ends_session desk_settings (Logout (desk_request ''POST'') ''a1'') desk_session"
    by (simp add: desk_request_def)
  moreover have "rq_session_cookie (desk_request ''GET'') = Some desk_session_token" by (simp add: desk_request_def)
  ultimately show ?thesis
    using step ended_session_never_accepted [OF desk_inv _ _ step] by blast
qed

section \<open>Who changes accounts\<close>

text \<open>The request an operation serves, which the command-line bootstrap has not, and the method of its route.\<close>

fun auth_request :: "AuthOp \<Rightarrow> HttpRequest option" where
  "auth_request (ReadSession request draw) = Some request"
| "auth_request (Logout request audit_id) = Some request"
| "auth_request (ReadUsers request role active limit offset) = Some request"
| "auth_request (ReadAssignees request) = Some request"
| "auth_request (CreateUser request username display_name role password draws) = Some request"
| "auth_request (PatchUser request k display_name role active v audit_id) = Some request"
| "auth_request (ResetPassword request k password v salt audit_id) = Some request"
| "auth_request _ = None"

definition csrf_proved :: "AuthSettings \<Rightarrow> HttpRequest \<Rightarrow> AuthPrincipal \<Rightarrow> bool" where
  "csrf_proved settings request p =
     (map_option rstrip_slash (rq_origin request) \<in> Some ` set (map rstrip_slash (au_cors_origins settings))
      \<and> rq_csrf_header request = rq_csrf_cookie request
      \<and> map_option (token_digest settings) (rq_csrf_header request) = Some (Inr (ss_csrf_digest (ap_session p))))"

lemma csrf_protection_proved:
  assumes "require_csrf_protection settings request p = Inr ()" "rq_method request \<in> {''POST'', ''PATCH''}"
  shows "csrf_proved settings request p"
proof -
  have "map upper_ascii (rq_method request) \<in> set [''POST'', ''PUT'', ''PATCH'', ''DELETE'']"
  proof -
    have "map upper_ascii ''POST'' = ''POST''" "map upper_ascii ''PATCH'' = ''PATCH''" by code_simp+
    with assms(2) show ?thesis by (elim insertE emptyE) simp_all
  qed
  with assms(1) show ?thesis
    by (auto simp: require_csrf_protection_def csrf_proved_def rbind_eq_Inr require_eq image_iff
        split: if_splits option.splits)
qed

text \<open>The audit event of a change: who made it, of what kind, and that an administrator proved itself.\<close>

definition administered ::
  "AuthSettings \<Rightarrow> AuthOp \<Rightarrow> AuthDb \<Rightarrow> SocAuditEvent \<Rightarrow> bool" where
  "administered settings op db e =
     (case auth_request op of
        None \<Rightarrow> soc_actor_user_id e = None \<and> soc_action e = LOCAL_USER_CREATED
      | Some request \<Rightarrow> (\<exists>p. live_caller settings request db p \<and> ap_role p = ADMIN \<and> csrf_proved settings request p
          \<and> soc_actor_user_id e = Some (lu_user_id (ap_user p))))"

lemma create_local_user_event:
  assumes "create_local_user scrypt draws username display_name role password request_id actor now db = Inr (u, db')"
  shows "\<exists>e. ad_audit db' = ad_audit db @ [e] \<and> soc_actor_user_id e = actor \<and> soc_action e = LOCAL_USER_CREATED"
  using assms by (auto simp: create_local_user_def rbind_eq_Inr Let_def append_audit_Inr soc_event_def split: if_splits)

lemma update_local_user_event:
  assumes "update_local_user k display_name role active v actor request_id audit_id now db = Inr (w, db')"
  shows "\<exists>e. ad_audit db' = ad_audit db @ [e] \<and> soc_actor_user_id e = Some actor"
  by (rule update_local_user_parts [OF assms]) (auto simp: append_audit_Inr)

lemma reset_password_event:
  assumes "reset_local_user_password scrypt salt k password v actor request_id audit_id now db = Inr (w, db')"
  shows "\<exists>e. ad_audit db' = ad_audit db @ [e] \<and> soc_actor_user_id e = Some actor"
  by (rule reset_password_parts [OF assms]) (auto simp: append_audit_Inr)

lemma administered_request:
  assumes "require_mutation_permission MANAGE_USERS settings request db = Inr (p, db1)"
    "auth_request op = Some request" "rq_method request \<in> {''POST'', ''PATCH''}"
    "\<exists>e. ad_audit db' = ad_audit db1 @ [e] \<and> soc_actor_user_id e = Some (lu_user_id (ap_user p))"
  shows "\<exists>e. ad_audit db' = ad_audit db @ [e] \<and> administered settings op db e"
  using assms csrf_protection_proved [of settings request p] authenticated_live [of settings request db p db1]
    authenticated_keeps(3) [of settings request db p db1]
  by (auto simp: require_mutation_permission_Inr manages_users administered_def)

text \<open>
  C36. Only an administrator changes an account. A request that changes the table of users in any
  way came with the token of a stored, live session of an active administrator, from an allowed origin,
  with the same CSRF token in cookie and header, whose digest is the one stored with that session, and
  exactly one audit event was added and names that administrator; the only other change is the account the bootstrap command creates.
\<close>

theorem only_administrators_change_accounts:
  assumes "auth_step scrypt settings op db = Inr (x, db')" "ad_users db' \<noteq> ad_users db"
    "\<And>request. auth_request op = Some request \<Longrightarrow> rq_method request \<in> {''POST'', ''PATCH''}"
  shows "\<exists>e. ad_audit db' = ad_audit db @ [e] \<and> administered settings op db e"
proof (cases op)
  case (CreateUser request username display_name role password draws)
  with assms(1) obtain p db1 w where "require_mutation_permission MANAGE_USERS settings request db = Inr (p, db1)"
    "create_local_user scrypt draws username display_name role password (rq_request_id request)
       (Some (lu_user_id (ap_user p))) (rq_time request) db1 = Inr (w, db')"
    by (auto simp: route_defs rbind_eq_Inr)
  then show ?thesis
    using assms(3) CreateUser by (intro administered_request) (auto dest: create_local_user_event)
next
  case (PatchUser request k display_name role active v audit_id)
  with assms(1) obtain p db1 w where "require_mutation_permission MANAGE_USERS settings request db = Inr (p, db1)"
    "update_local_user k display_name role active v (lu_user_id (ap_user p)) (rq_request_id request) audit_id
      (rq_time request) db1 = Inr (w, db')"
    by (auto simp: route_defs rbind_eq_Inr)
  then show ?thesis
    using assms(3) PatchUser by (intro administered_request) (auto dest: update_local_user_event)
next
  case (ResetPassword request k password v salt audit_id)
  with assms(1) obtain p db1 w where "require_mutation_permission MANAGE_USERS settings request db = Inr (p, db1)"
    "reset_local_user_password scrypt salt k password v (lu_user_id (ap_user p)) (rq_request_id request) audit_id
      (rq_time request) db1 = Inr (w, db')"
    by (auto simp: route_defs rbind_eq_Inr)
  then show ?thesis
    using assms(3) ResetPassword by (intro administered_request) (auto dest: reset_password_event)
next
  case (Bootstrap username display_name role password request_id draws now)
  with assms(1) show ?thesis
    by (auto simp: route_defs rbind_eq_Inr administered_def dest!: create_local_user_event)
next
  case (Logout request audit_id)
  then show ?thesis
    using assms(1,2) by (auto simp: route_defs rbind_eq_Inr csrf_protected_Inr revoke_session_def authenticated_keeps(2)
        dest!: audit_users split: if_splits)
qed (use assms(1,2) in \<open>auto simp: route_defs rbind_eq_Inr require_permission_Inr
    dest!: login_keeps(2) authenticated_keeps(2) csrf_token_keeps(2)\<close>)

theorem only_administrators_change_accounts_witness:
  "\<exists>db' e. auth_step plain_kdf desk_settings
       (PatchUser (desk_request ''PATCH'') ''u1'' (Some ''Ada B'') None None 1 ''a1'') desk_db = Inr ((), db')
     \<and> ad_audit db' = [e] \<and> administered desk_settings
       (PatchUser (desk_request ''PATCH'') ''u1'' (Some ''Ada B'') None None 1 ''a1'') desk_db e"
proof -
  obtain db' where step: "auth_step plain_kdf desk_settings
      (PatchUser (desk_request ''PATCH'') ''u1'' (Some ''Ada B'') None None 1 ''a1'') desk_db = Inr ((), db')"
    "ad_users db' \<noteq> ad_users desk_db"
    using desk_rename by blast
  have "ad_audit desk_db = []" by (simp add: desk_db_def)
  then show ?thesis
    using step(1) only_administrators_change_accounts [OF step] by (auto simp: desk_request_def)
qed

end
