(* ===== verification/Lab_Model.thy ===== *)
theory Lab_Model
  imports Incident_Lineage Accounts
begin

text \<open>
  The data of the virtual lab: the catalog of scenarios (\<open>app/lab/catalog.py\<close>), the cases of the frozen
  dataset (\<open>app/tools/phase9_dataset.py\<close>), the tables (\<open>app/lab/models.py\<close>) and the closure of evidence a run
  is linked to (\<open>app/lab/service.py\<close>). The content of the dataset file is an argument.
\<close>

section \<open>Scenarios and cases\<close>

datatype LabScenarioId = BASELINE | S1 | S2 | S3 | S4

fun LabScenarioId_value :: "LabScenarioId \<Rightarrow> string" where
  "LabScenarioId_value BASELINE = ''BASELINE''"
| "LabScenarioId_value S1 = ''S1''"
| "LabScenarioId_value S2 = ''S2''"
| "LabScenarioId_value S3 = ''S3''"
| "LabScenarioId_value S4 = ''S4''"

record LabScenarioDefinition =
  sd_scenario_id :: LabScenarioId
  sd_title :: string
  sd_description :: string
  sd_dataset_case_id :: string
  sd_definition_version :: string

definition scenario_catalog :: "LabScenarioDefinition list" where
  "scenario_catalog = [
     \<lparr>sd_scenario_id = BASELINE, sd_title = ''Baseline / Normal Synthetic Operation'',
      sd_description = ''Approved normal communication and stable synthetic transfer-process evidence; no qualifying incident is expected.'',
      sd_dataset_case_id = ''OTSOC-EVAL-V1-BG-001'', sd_definition_version = ''1.0.0''\<rparr>,
     \<lparr>sd_scenario_id = S1, sd_title = ''Unknown OT Asset / Source Review'',
      sd_description = ''Review an unknown synthetic source identity without guessing an asset or asserting compromise.'',
      sd_dataset_case_id = ''OTSOC-EVAL-V1-S1-001'', sd_definition_version = ''1.0.0''\<rparr>,
     \<lparr>sd_scenario_id = S2, sd_title = ''Unexpected IT-to-PLC Communication'',
      sd_description = ''Review the frozen IT-WS-01 to PLC-01 communication-policy condition without inferring malicious intent.'',
      sd_dataset_case_id = ''OTSOC-EVAL-V1-S2-001'', sd_definition_version = ''1.0.0''\<rparr>,
     \<lparr>sd_scenario_id = S3, sd_title = ''Control Command Investigation'',
      sd_description = ''Follow the approved raw 250 to CV-101 25.0% command investigation and its temporally correlated process context.'',
      sd_dataset_case_id = ''OTSOC-EVAL-V1-S3-001'', sd_definition_version = ''1.0.0''\<rparr>,
     \<lparr>sd_scenario_id = S4, sd_title = ''Pump / Flow Process Inconsistency'',
      sd_description = ''Review P-101 running with low flow, pressure behavior, and transfer stagnation without inventing a cyber cause.'',
      sd_dataset_case_id = ''OTSOC-EVAL-V1-S4-001'', sd_definition_version = ''1.0.0''\<rparr>]"

definition scenario_definition :: "LabScenarioId \<Rightarrow> LabScenarioDefinition" where
  "scenario_definition scenario = hd (filter (\<lambda>d. sd_scenario_id d = scenario) scenario_catalog)"

record RunConfiguration =
  rc_configuration_id :: string
  rc_scenario :: string
  rc_seed :: int
  rc_simulator_version :: string
  rc_process_model_version :: string
  rc_telemetry_schema_version :: string

record DatasetCase =
  dc_case_id :: string
  dc_case_kind :: string
  dc_run_id :: "string option"
  dc_configuration :: "RunConfiguration option"

definition configuration_json :: "RunConfiguration \<Rightarrow> json" where
  "configuration_json c = JObj [
     (''configuration_id'', JStr (rc_configuration_id c)), (''scenario'', JStr (rc_scenario c)),
     (''seed'', JInt (rc_seed c)), (''simulator_version'', JStr (rc_simulator_version c)),
     (''process_model_version'', JStr (rc_process_model_version c)),
     (''telemetry_schema_version'', JStr (rc_telemetry_schema_version c))]"

definition configuration_hash :: "DatasetCase \<Rightarrow> digest option" where
  "configuration_hash c = map_option (\<lambda>k. sha256_hex (utf8 (json_dumps_ascii (configuration_json k)))) (dc_configuration c)"

definition validate_case_shape :: "DatasetCase \<Rightarrow> bool" where
  "validate_case_shape c =
     ((dc_case_kind c \<in> {''BACKGROUND'', ''S3'', ''S4''}) = (dc_run_id c \<noteq> None \<and> dc_configuration c \<noteq> None))"

record LoadedDataset =
  ld_dataset_id :: string
  ld_dataset_version :: string
  ld_sha256 :: digest
  ld_cases :: "DatasetCase list"

text \<open>The manifest is only accepted with its five cases in this order, so every scenario has its case.\<close>

definition validate_catalog :: "LoadedDataset \<Rightarrow> bool" where
  "validate_catalog d =
     (map (\<lambda>c. (dc_case_id c, dc_case_kind c)) (ld_cases d) =
       [(''OTSOC-EVAL-V1-BG-001'', ''BACKGROUND''), (''OTSOC-EVAL-V1-S1-001'', ''S1''),
        (''OTSOC-EVAL-V1-S2-001'', ''S2''), (''OTSOC-EVAL-V1-S3-001'', ''S3''), (''OTSOC-EVAL-V1-S4-001'', ''S4'')]
      \<and> list_all validate_case_shape (ld_cases d))"

definition dataset_case :: "LoadedDataset \<Rightarrow> LabScenarioId \<Rightarrow> DatasetCase" where
  "dataset_case dataset scenario =
     hd (filter (\<lambda>c. dc_case_id c = sd_dataset_case_id (scenario_definition scenario)) (ld_cases dataset))"

section \<open>Tables\<close>

datatype LabRunState = RUNNING | COMPLETED | FAILED

datatype LabEvidenceRole = ROOT | LINEAGE

datatype LabActivationReason = STARTUP_BASELINE | SCENARIO_COMPLETED | RETURN_BASELINE | RESET

record LabRun =
  lr_run_id :: uuid
  lr_scenario_id :: LabScenarioId
  lr_definition_version :: string
  lr_dataset_id :: string
  lr_dataset_version :: string
  lr_dataset_sha256 :: digest
  lr_dataset_case_id :: string
  lr_evidence_simulation_id :: "string option"
  lr_configuration_id :: "string option"
  lr_configuration_hash :: "digest option"
  lr_state :: LabRunState
  lr_started_by_user_id :: "uuid option"
  lr_started_by_actor :: string
  lr_started_at :: timestamp
  lr_completed_at :: "timestamp option"
  lr_evidence_observed_from :: "timestamp option"
  lr_evidence_observed_to :: "timestamp option"
  lr_failure_code :: "string option"
  lr_created_at :: timestamp
  lr_updated_at :: timestamp

record LabRunEvidence =
  le_run_id :: uuid
  le_evidence_id :: uuid
  le_role :: LabEvidenceRole
  le_linked_at :: timestamp

record LabRunIncident =
  li_run_id :: uuid
  li_incident_id :: uuid
  li_linked_at :: timestamp

record LabActiveContext =
  lc_active_run_id :: uuid
  lc_version :: int
  lc_changed_at :: timestamp
  lc_changed_by_user_id :: "uuid option"
  lc_changed_by_actor :: string
  lc_activation_reason :: LabActivationReason

text \<open>
  The database as the lab sees it: the accounts with the audit trail, the evidence, the identifiers of
  the incidents, and the lab's own tables. The context is the row of its singleton table.
\<close>

record LabDb =
  lb_auth :: AuthDb
  lb_evidence :: EvidenceStore
  lb_incidents :: "uuid list"
  lb_runs :: "LabRun list"
  lb_run_evidence :: "LabRunEvidence list"
  lb_run_incidents :: "LabRunIncident list"
  lb_context :: "LabActiveContext option"

text \<open>The exceptions: those of the lab, those of the audit trail and the guards, and any other.\<close>

datatype LabError =
    LabError string
  | LabNotInitializedError string
  | LabRunNotFoundError
  | LabRunConflictError string
  | LabPipelineError
  | LabIntegrityError string
  | AuthFailure AuthError
  | UnexpectedError

section \<open>References to parents\<close>

definition MAX_LINKED_EVIDENCE :: nat where
  "MAX_LINKED_EVIDENCE = 2000"

text \<open>\<open>d.get(key)\<close> on a JSON object; the payload and provenance columns hold objects.\<close>

definition json_get :: "json \<Rightarrow> string \<Rightarrow> json option" where
  "json_get document key =
     (case document of
        JObj kvs \<Rightarrow> (case map_of kvs key of Some JNull \<Rightarrow> None | v \<Rightarrow> v)
      | _ \<Rightarrow> None)"

text \<open>\<open>s.replace(part, '')\<close>, and \<open>int(s, 16)\<close>: blanks, a plus sign, \<open>0x\<close>, digits with single underscores.\<close>

fun erase :: "string \<Rightarrow> string \<Rightarrow> string" where
  "erase part [] = []"
| "erase part (c # cs) =
     (if part \<noteq> [] \<and> take (length part) (c # cs) = part then erase part (drop (length part - 1) cs)
      else c # erase part cs)"

definition hex_digit_value :: "char \<Rightarrow> int option" where
  "hex_digit_value c =
     (let n = of_char c :: int in
      if 48 \<le> n \<and> n \<le> 57 then Some (n - 48)
      else if 97 \<le> n \<and> n \<le> 102 then Some (n - 87)
      else if 65 \<le> n \<and> n \<le> 70 then Some (n - 55)
      else None)"

fun hex_digits :: "bool \<Rightarrow> int \<Rightarrow> string \<Rightarrow> int option" where
  "hex_digits ended acc [] = (if ended then Some acc else None)"
| "hex_digits ended acc (c # cs) =
     (case hex_digit_value c of
        Some d \<Rightarrow> hex_digits True (16 * acc + d) cs
      | None \<Rightarrow> if c = CHR ''_'' \<and> ended then hex_digits False acc cs else None)"

definition py_int_hex :: "string \<Rightarrow> int option" where
  "py_int_hex s =
     (let t = py_strip s; u = (if take 1 t = ''+'' then tl t else t) in
      if take 2 u = ''0x'' \<or> take 2 u = ''0X'' then
        (let v = drop 2 u in hex_digits False 0 (if take 1 v = ''_'' then tl v else v))
      else hex_digits False 0 u)"

text \<open>\<open>uuid.UUID(s)\<close>, in the canonical spelling.\<close>

definition parse_uuid :: "string \<Rightarrow> uuid option" where
  "parse_uuid s =
     (let brace = (\<lambda>c. c = CHR 0x7B \<or> c = CHR 0x7D);
          t = erase ''uuid:'' (erase ''urn:'' s);
          h = filter (\<lambda>c. c \<noteq> CHR ''-'') (rev (dropWhile brace (rev (dropWhile brace t)))) in
      if length h \<noteq> 32 then None
      else map_option (\<lambda>n. uuid_string (be_bytes 16 n)) (py_int_hex h))"

text \<open>\<open>uuid.UUID(str(raw_id))\<close>: the text of a list, an object, a float or a constant is never a UUID.\<close>

definition raw_uuid :: "json option \<Rightarrow> uuid option" where
  "raw_uuid raw = (case raw of Some (JStr s) \<Rightarrow> parse_uuid s | Some (JInt i) \<Rightarrow> parse_uuid (str_int i) | _ \<Rightarrow> None)"

type_synonym raw_reference = "json option \<times> json option"

definition telemetry_pair :: "json \<Rightarrow> LabError + raw_reference" where
  "telemetry_pair item =
     (case item of
        JObj _ \<Rightarrow> Inr (json_get item ''evidence_id'', json_get item ''integrity_sha256'')
      | _ \<Rightarrow> Inl (LabIntegrityError ''A correlation telemetry parent is malformed.''))"

text \<open>Iterating over a string or an object yields strings; over anything else but a list it raises.\<close>

definition telemetry_pairs :: "json \<Rightarrow> LabError + raw_reference list" where
  "telemetry_pairs payload =
     (case payload of
        JObj kvs \<Rightarrow>
          (case map_of kvs ''telemetry_parents'' of
             None \<Rightarrow> Inr []
           | Some (JList items) \<Rightarrow> map_result telemetry_pair items
           | Some (JStr s) \<Rightarrow> map_result telemetry_pair (map (\<lambda>c. JStr [c]) s)
           | Some (JObj members) \<Rightarrow> map_result telemetry_pair (map (JStr \<circ> fst) members)
           | Some _ \<Rightarrow> Inl UnexpectedError)
      | _ \<Rightarrow> Inl UnexpectedError)"

definition raw_references :: "EvidenceRecord \<Rightarrow> LabError + raw_reference list" where
  "raw_references r =
     (let payload = json_get (rec_payload r);
          source = (payload ''source_evidence_id'', payload ''source_evidence_integrity_sha256'');
          semantic = (payload ''semantic_event_id'', payload ''semantic_evidence_integrity_sha256'') in
      if rec_evidence_type r = ''protocol_semantic_event'' then Inr [source]
      else if rec_evidence_type r = ''asset_context_event'' then Inr [source, semantic]
      else if rec_evidence_type r = ''communication_policy_finding'' then
        Inr [source, semantic,
          (payload ''asset_context_event_id'', json_get (rec_provenance r) ''asset_context_integrity_sha256'')]
      else if rec_evidence_type r = ''correlation_finding'' then
        rbind (telemetry_pairs (rec_payload r)) (\<lambda>telemetry.
        Inr ([(payload ''primary_cyber_evidence_id'', payload ''primary_cyber_evidence_integrity_sha256''),
          (payload ''semantic_evidence_id'', payload ''semantic_evidence_integrity_sha256''),
          (payload ''asset_context_evidence_id'', payload ''asset_context_evidence_integrity_sha256''),
          (payload ''policy_finding_evidence_id'', payload ''policy_finding_evidence_integrity_sha256'')] @ telemetry))
      else Inr [])"

definition parsed_reference :: "raw_reference \<Rightarrow> LabError + (uuid \<times> digest) list" where
  "parsed_reference raw =
     (if fst raw = None \<and> snd raw = None then Inr []
      else case snd raw of
        Some (JStr d) \<Rightarrow>
          if length d \<noteq> 64 then Inl (LabIntegrityError ''An evidence parent digest is malformed.'')
          else (case raw_uuid (fst raw) of
             None \<Rightarrow> Inl (LabIntegrityError ''An evidence parent identity is malformed.'')
           | Some parsed_id \<Rightarrow> Inr [(parsed_id, d)])
      | _ \<Rightarrow> Inl (LabIntegrityError ''An evidence parent digest is malformed.''))"

definition parent_references :: "EvidenceRecord \<Rightarrow> LabError + (uuid \<times> digest) list" where
  "parent_references r =
     rbind (raw_references r) (\<lambda>pairs.
     rbind (map_result parsed_reference pairs) (\<lambda>refs. Inr (concat refs)))"

section \<open>The closure of a run's evidence\<close>

record DatasetCaseExecution =
  dx_case_id :: string
  dx_evidence_roots :: "EvidenceSelection list"
  dx_incident_ids :: "uuid list"

type_synonym run_scope = "string option \<times> digest option"

definition json_text :: "json option \<Rightarrow> string option" where
  "json_text v = (case v of Some (JStr s) \<Rightarrow> Some s | _ \<Rightarrow> None)"

definition record_scope :: "EvidenceRecord \<Rightarrow> run_scope" where
  "record_scope r =
     (json_text (json_get (rec_payload r) ''simulation_id''), json_text (json_get (rec_payload r) ''configuration_hash''))"

definition check_scope :: "run_scope \<Rightarrow> EvidenceRecord \<Rightarrow> LabError + unit" where
  "check_scope expected_scope r =
     (let scope = record_scope r in
      if scope \<noteq> (None, None) \<and> scope \<noteq> expected_scope
      then Inl (LabIntegrityError ''A scenario evidence record belongs to a different run/configuration.'')
      else if expected_scope = (None, None) \<and> scope \<noteq> (None, None)
      then Inl (LabIntegrityError ''An unbound scenario referenced process-run evidence.'')
      else Inr ())"

text \<open>
  The loop over the queue of references. Each round takes one reference; a new identifier has to be that
  of a verified record of the scope, whose own references join the queue. \<open>visited\<close> and \<open>taken\<close> grow
  together up to the bound, so the loop ends.
\<close>

function closure_loop ::
  "pydantic \<Rightarrow> EvidenceStore \<Rightarrow> run_scope \<Rightarrow> (uuid \<times> digest) list \<Rightarrow> uuid list \<Rightarrow> EvidenceRecord list \<Rightarrow>
   LabError + EvidenceRecord list" where
  "closure_loop pd st scope [] visited taken = Inr taken"
| "closure_loop pd st scope ((evidence_id, expected_digest) # pending) visited taken =
     (if evidence_id \<in> set visited then
        (case find (\<lambda>r. rec_evidence_id r = evidence_id) taken of
           Some earlier \<Rightarrow>
             if rec_integrity_sha256 earlier \<noteq> expected_digest
             then Inl (LabIntegrityError ''One evidence parent was referenced with two digests.'')
             else closure_loop pd st scope pending visited taken
         | None \<Rightarrow> closure_loop pd st scope pending visited taken)
      else
      (case get_evidence st evidence_id of
         None \<Rightarrow> Inl (LabIntegrityError ''A required scenario evidence record is unavailable.'')
       | Some record \<Rightarrow>
           if rec_integrity_sha256 record \<noteq> expected_digest \<or> \<not> verifies pd st record
           then Inl (LabIntegrityError ''A required scenario evidence record failed verification.'')
           else
           rbind (check_scope scope record) (\<lambda>_.
           rbind (parent_references record) (\<lambda>parents.
           if MAX_LINKED_EVIDENCE < length (visited @ [evidence_id])
           then Inl (LabIntegrityError ''The scenario evidence closure exceeds its bound.'')
           else closure_loop pd st scope (pending @ parents) (visited @ [evidence_id]) (taken @ [record])))))"
  by pat_completeness auto
termination
  by (relation "measures [\<lambda>(_, _, _, _, visited, _). MAX_LINKED_EVIDENCE + 1 - length visited,
        \<lambda>(_, _, _, pending, _, _). length pending]") auto

definition closure_order :: "EvidenceRecord \<Rightarrow> timestamp \<times> string \<times> uuid" where
  "closure_order r = (rec_observed_at r, rec_evidence_type r, rec_evidence_id r)"

definition verified_execution_closure ::
  "pydantic \<Rightarrow> EvidenceStore \<Rightarrow> DatasetCase \<Rightarrow> DatasetCaseExecution \<Rightarrow> LabError + EvidenceRecord list" where
  "verified_execution_closure pd st dcase execution =
     (let roots = map (\<lambda>s. (es_evidence_id s, es_expected_integrity_sha256 s)) (dx_evidence_roots execution) in
      if roots = [] then Inl (LabIntegrityError ''The scenario execution did not produce an evidence root.'')
      else
      rbind (closure_loop pd st (dc_run_id dcase, configuration_hash dcase) roots [] []) (\<lambda>taken.
      Inr (sort_key closure_order taken)))"

end
