(* ===== verification/Lab.thy ===== *)
theory Lab
  imports Lab_Model
begin

text \<open>
  The operations of the virtual lab (\<open>app/lab/service.py\<close>) and its routes (\<open>app/api/lab.py\<close>). An operation
  that commits in the middle is a sequence of transactions: a transaction that raises leaves the
  database as it was, one that returns replaces it. What the frozen pipeline (\<open>execute_dataset_case\<close>)
  returned, or that it raised, is an argument; it writes through its own sessions before the run is
  finished. The clock, the drawn identifiers and the loaded dataset are arguments too.
\<close>

section \<open>Transactions\<close>

type_synonym 'a transaction = "LabError + ('a \<times> LabDb)"
type_synonym 'a outcome = "(LabError + 'a) \<times> LabDb"

definition commit :: "LabDb \<Rightarrow> 'a transaction \<Rightarrow> 'a outcome" where
  "commit db m = (case m of Inl e \<Rightarrow> (Inl e, db) | Inr (x, db') \<Rightarrow> (Inr x, db'))"

definition and_then :: "'a outcome \<Rightarrow> ('a \<Rightarrow> LabDb \<Rightarrow> 'b outcome) \<Rightarrow> 'b outcome" where
  "and_then r f = (case r of (Inl e, db) \<Rightarrow> (Inl e, db) | (Inr x, db) \<Rightarrow> f x db)"

section \<open>Rows\<close>

definition find_run :: "LabDb \<Rightarrow> uuid \<Rightarrow> LabRun option" where
  "find_run db k = find (\<lambda>r. lr_run_id r = k) (lb_runs db)"

definition find_baseline :: "LabDb \<Rightarrow> LabRun option" where
  "find_baseline db = find (\<lambda>r. lr_scenario_id r = BASELINE) (lb_runs db)"

definition set_run :: "LabRun \<Rightarrow> LabDb \<Rightarrow> LabDb" where
  "set_run run db = db\<lparr>lb_runs := map (\<lambda>r. if lr_run_id r = lr_run_id run then run else r) (lb_runs db)\<rparr>"

definition some_running :: "LabDb \<Rightarrow> bool" where
  "some_running db = list_ex (\<lambda>r. lr_state r = RUNNING) (lb_runs db)"

text \<open>An insert fails on the primary key and on the partial unique indexes of the table.\<close>

definition insert_run :: "LabRun \<Rightarrow> LabDb \<Rightarrow> LabDb option" where
  "insert_run run db =
     (if lr_run_id run \<in> lr_run_id ` set (lb_runs db)
         \<or> lr_scenario_id run = BASELINE \<and> find_baseline db \<noteq> None
         \<or> lr_state run = RUNNING \<and> some_running db
      then None else Some (db\<lparr>lb_runs := lb_runs db @ [run]\<rparr>))"

definition new_run ::
  "LoadedDataset \<Rightarrow> LabScenarioId \<Rightarrow> uuid option \<Rightarrow> string \<Rightarrow> timestamp \<Rightarrow> uuid \<Rightarrow> LabError + LabRun" where
  "new_run dataset scenario actor_user_id actor_context started_at run_id =
     (if \<not> (1 \<le> length actor_context \<and> length actor_context \<le> 80)
      then Inl (LabError ''The authenticated actor identity is outside the approved bound.'')
      else
      let dcase = dataset_case dataset scenario in
      Inr \<lparr>lr_run_id = run_id, lr_scenario_id = scenario,
        lr_definition_version = sd_definition_version (scenario_definition scenario),
        lr_dataset_id = ld_dataset_id dataset, lr_dataset_version = ld_dataset_version dataset,
        lr_dataset_sha256 = ld_sha256 dataset, lr_dataset_case_id = dc_case_id dcase,
        lr_evidence_simulation_id = dc_run_id dcase,
        lr_configuration_id = map_option rc_configuration_id (dc_configuration dcase),
        lr_configuration_hash = configuration_hash dcase, lr_state = RUNNING,
        lr_started_by_user_id = actor_user_id, lr_started_by_actor = actor_context,
        lr_started_at = started_at, lr_completed_at = None, lr_evidence_observed_from = None,
        lr_evidence_observed_to = None, lr_failure_code = None, lr_created_at = started_at,
        lr_updated_at = started_at\<rparr>)"

definition mark_failed :: "timestamp \<Rightarrow> string \<Rightarrow> LabRun \<Rightarrow> LabRun" where
  "mark_failed now failure_code run = run\<lparr>lr_state := FAILED, lr_completed_at := Some now,
     lr_failure_code := Some failure_code, lr_updated_at := now\<rparr>"

definition BASELINE_RUN_NAMESPACE :: uuid where
  "BASELINE_RUN_NAMESPACE = ''79b9f46c-c7b9-5b57-a838-93639aa982a0''"

definition baseline_run_id :: "LoadedDataset \<Rightarrow> uuid" where
  "baseline_run_id dataset = uuid5 BASELINE_RUN_NAMESPACE
     (join_with CHR ''|'' [ld_dataset_id dataset, ld_dataset_version dataset, ld_sha256 dataset, ''BASELINE''])"

text \<open>The audit trail is that of the accounts.\<close>

definition append_lab_audit :: "SocAuditEvent \<Rightarrow> LabDb \<Rightarrow> LabError + LabDb" where
  "append_lab_audit event db =
     rbind (raising AuthFailure (append_soc_audit_event event (lb_auth db))) (\<lambda>auth.
     Inr (db\<lparr>lb_auth := auth\<rparr>))"

definition lab_event ::
  "SocAuditAction \<Rightarrow> SocAuditResult \<Rightarrow> string \<Rightarrow> uuid \<Rightarrow> uuid \<Rightarrow> string \<Rightarrow> uuid \<Rightarrow> (string \<times> json) list \<Rightarrow>
   timestamp \<Rightarrow> SocAuditEvent" where
  "lab_event action result request_id audit_id actor_user_id subject_label run_id details now =
     (soc_event action result request_id audit_id now)\<lparr>soc_actor_user_id := Some actor_user_id,
       soc_subject_label := Some subject_label, soc_scenario_run_id := Some run_id, soc_details := details\<rparr>"

section \<open>Reading\<close>

text \<open>A response repeats the fields of the run and adds what the database links to it.\<close>

record LabRunResponse =
  rr_run :: LabRun
  rr_scenario_title :: string
  rr_evidence_count :: nat
  rr_incident_ids :: "uuid list"

record LabContextResponse =
  cr_context_version :: int
  cr_activation_reason :: LabActivationReason
  cr_changed_at :: timestamp
  cr_changed_by_user_id :: "uuid option"
  cr_changed_by_actor :: string
  cr_active_run :: LabRunResponse

definition run_response :: "LabDb \<Rightarrow> LabRun \<Rightarrow> LabRunResponse" where
  "run_response db run = \<lparr>rr_run = run, rr_scenario_title = sd_title (scenario_definition (lr_scenario_id run)),
     rr_evidence_count = length (filter (\<lambda>l. le_run_id l = lr_run_id run) (lb_run_evidence db)),
     rr_incident_ids = sort (map li_incident_id (filter (\<lambda>l. li_run_id l = lr_run_id run) (lb_run_incidents db)))\<rparr>"

definition read_current_context :: "LabDb \<Rightarrow> LabError + LabContextResponse" where
  "read_current_context db =
     (case lb_context db of
        None \<Rightarrow> Inl (LabNotInitializedError ''The Synthetic Scenario Lab has not been initialized.'')
      | Some ctx \<Rightarrow>
     case find_run db (lc_active_run_id ctx) of
        None \<Rightarrow> Inl (LabIntegrityError ''The active lab context does not reference a completed run.'')
      | Some run \<Rightarrow>
          if lr_state run \<noteq> COMPLETED
          then Inl (LabIntegrityError ''The active lab context does not reference a completed run.'')
          else Inr \<lparr>cr_context_version = lc_version ctx, cr_activation_reason = lc_activation_reason ctx,
            cr_changed_at = lc_changed_at ctx, cr_changed_by_user_id = lc_changed_by_user_id ctx,
            cr_changed_by_actor = lc_changed_by_actor ctx, cr_active_run = run_response db run\<rparr>)"

definition read_run :: "LabDb \<Rightarrow> uuid \<Rightarrow> LabError + LabRunResponse" where
  "read_run db k = (case find_run db k of None \<Rightarrow> Inl LabRunNotFoundError | Some run \<Rightarrow> Inr (run_response db run))"

definition history_selected :: "LabScenarioId option \<Rightarrow> LabRunState option \<Rightarrow> LabRun \<Rightarrow> bool" where
  "history_selected scenario state run =
     ((case scenario of None \<Rightarrow> True | Some s \<Rightarrow> lr_scenario_id run = s)
      \<and> (case state of None \<Rightarrow> True | Some s \<Rightarrow> lr_state run = s))"

definition list_run_history ::
  "LabDb \<Rightarrow> LabScenarioId option \<Rightarrow> LabRunState option \<Rightarrow> nat \<Rightarrow> nat \<Rightarrow> LabRunResponse list \<times> nat" where
  "list_run_history db scenario state limit offset =
     (let runs = filter (history_selected scenario state) (lb_runs db) in
      (map (run_response db) (take limit (drop offset (sort_key (\<lambda>r. (- lr_started_at r, lr_run_id r)) runs))),
       length runs))"

definition completed_baseline :: "LabDb \<Rightarrow> LabError + LabRun" where
  "completed_baseline db =
     (case find_baseline db of
        None \<Rightarrow> Inl (LabNotInitializedError ''The verified Baseline is not available.'')
      | Some run \<Rightarrow>
          if lr_state run \<noteq> COMPLETED then Inl (LabNotInitializedError ''The verified Baseline is not available.'')
          else Inr run)"

section \<open>The active context\<close>

text \<open>The transaction of \<open>_activate_run\<close>, which then reads the context back.\<close>

definition activate_transaction ::
  "LabRun \<Rightarrow> uuid option \<Rightarrow> string \<Rightarrow> LabActivationReason \<Rightarrow> timestamp \<Rightarrow> LabDb \<Rightarrow> unit transaction" where
  "activate_transaction run actor_user_id actor_context reason now db =
     (if lr_state run \<noteq> COMPLETED then Inl (LabIntegrityError ''Only a completed synthetic run can become active.'')
      else Inr ((), db\<lparr>lb_context := Some \<lparr>lc_active_run_id = lr_run_id run,
        lc_version = (case lb_context db of None \<Rightarrow> 1 | Some ctx \<Rightarrow> lc_version ctx + 1),
        lc_changed_at = now, lc_changed_by_user_id = actor_user_id, lc_changed_by_actor = actor_context,
        lc_activation_reason = reason\<rparr>\<rparr>))"

definition read_back :: "unit outcome \<Rightarrow> LabContextResponse outcome" where
  "read_back r = and_then r (\<lambda>_ db. (read_current_context db, db))"

definition activate_run ::
  "LabRun \<Rightarrow> uuid option \<Rightarrow> string \<Rightarrow> LabActivationReason \<Rightarrow> timestamp \<Rightarrow> LabDb \<Rightarrow> LabContextResponse outcome" where
  "activate_run run actor_user_id actor_context reason now db =
     read_back (commit db (activate_transaction run actor_user_id actor_context reason now db))"

section \<open>Executing a run\<close>

definition add_run_evidence :: "LabRunEvidence \<Rightarrow> LabDb \<Rightarrow> LabDb" where
  "add_run_evidence l db =
     (if (le_run_id l, le_evidence_id l) \<in> (\<lambda>l. (le_run_id l, le_evidence_id l)) ` set (lb_run_evidence db) then db
      else db\<lparr>lb_run_evidence := lb_run_evidence db @ [l]\<rparr>)"

definition add_run_incident :: "LabRunIncident \<Rightarrow> LabDb \<Rightarrow> LabDb" where
  "add_run_incident l db =
     (if (li_run_id l, li_incident_id l) \<in> (\<lambda>l. (li_run_id l, li_incident_id l)) ` set (lb_run_incidents db) then db
      else db\<lparr>lb_run_incidents := lb_run_incidents db @ [l]\<rparr>)"

fun link_incidents :: "uuid \<Rightarrow> timestamp \<Rightarrow> uuid list \<Rightarrow> LabDb \<Rightarrow> LabError + LabDb" where
  "link_incidents run_id linked_at [] db = Inr db"
| "link_incidents run_id linked_at (k # ks) db =
     (if k \<notin> set (lb_incidents db) then Inl (LabIntegrityError ''A resulting incident could not be verified.'')
      else link_incidents run_id linked_at ks
        (add_run_incident \<lparr>li_run_id = run_id, li_incident_id = k, li_linked_at = linked_at\<rparr> db))"

definition link_execution ::
  "LabRun \<Rightarrow> DatasetCaseExecution \<Rightarrow> EvidenceRecord list \<Rightarrow> timestamp \<Rightarrow> LabDb \<Rightarrow> LabError + LabDb" where
  "link_execution run execution records linked_at db =
     (if dx_case_id execution \<noteq> lr_dataset_case_id run
      then Inl (LabIntegrityError ''The executed case does not match the scenario run contract.'')
      else
      (let root_ids = map es_evidence_id (dx_evidence_roots execution) in
       link_incidents (lr_run_id run) linked_at (dx_incident_ids execution)
         (fold (\<lambda>r. add_run_evidence \<lparr>le_run_id = lr_run_id run, le_evidence_id = rec_evidence_id r,
            le_role = (if rec_evidence_id r \<in> set root_ids then ROOT else LINEAGE), le_linked_at = linked_at\<rparr>)
          records db)))"

definition completed_run :: "timestamp \<Rightarrow> EvidenceRecord list \<Rightarrow> LabRun \<Rightarrow> LabRun" where
  "completed_run finished_at records run =
     (let done = run\<lparr>lr_state := COMPLETED, lr_completed_at := Some finished_at, lr_failure_code := None,
            lr_updated_at := finished_at\<rparr> in
      if records = [] then done
      else done\<lparr>lr_evidence_observed_from := Some (Min (rec_observed_at ` set records)),
        lr_evidence_observed_to := Some (Max (rec_observed_at ` set records))\<rparr>)"

text \<open>Who started the run and in which request, for the audit; the startup has neither.\<close>

type_synonym audit_origin = "(uuid \<times> string \<times> uuid) option"

definition audit_when :: "audit_origin \<Rightarrow> (uuid \<Rightarrow> string \<Rightarrow> uuid \<Rightarrow> SocAuditEvent) \<Rightarrow> LabDb \<Rightarrow> LabError + LabDb" where
  "audit_when origin event db =
     (case origin of
        None \<Rightarrow> Inr db
      | Some (actor_user_id, request_id, audit_id) \<Rightarrow> append_lab_audit (event actor_user_id request_id audit_id) db)"

definition execute_transaction ::
  "pydantic \<Rightarrow> LoadedDataset \<Rightarrow> uuid \<Rightarrow> LabScenarioId \<Rightarrow> DatasetCaseExecution option \<Rightarrow> timestamp \<Rightarrow>
   audit_origin \<Rightarrow> LabDb \<Rightarrow> LabRun transaction" where
  "execute_transaction pd dataset run_id scenario pipeline finished_at origin db =
     (case pipeline of
        None \<Rightarrow> Inl UnexpectedError
      | Some execution \<Rightarrow>
     case find_run db run_id of
        None \<Rightarrow> Inl (LabIntegrityError ''The scenario run disappeared during execution.'')
      | Some run \<Rightarrow>
     rbind (verified_execution_closure pd (lb_evidence db) (dataset_case dataset scenario) execution) (\<lambda>records.
     rbind (link_execution run execution records finished_at db) (\<lambda>db1.
     (let done = completed_run finished_at records run in
      rbind (audit_when origin (\<lambda>actor request_id audit_id.
          lab_event SocAuditAction.SCENARIO_COMPLETED SocAuditResult.ACCEPTED request_id audit_id actor (LabScenarioId_value scenario) run_id
            [(''scenario_id'', JStr (LabScenarioId_value scenario)), (''dataset_case_id'', JStr (lr_dataset_case_id run)),
             (''evidence_count'', JInt (int (length records))),
             (''incident_count'', JInt (int (length (dx_incident_ids execution))))] finished_at)
        (set_run done db1)) (\<lambda>db2.
      Inr (done, db2))))))"

definition failed_execution ::
  "uuid \<Rightarrow> LabScenarioId \<Rightarrow> timestamp \<Rightarrow> audit_origin \<Rightarrow> LabDb \<Rightarrow> LabError + LabDb" where
  "failed_execution run_id scenario failed_at origin db =
     (case find_run db run_id of
        None \<Rightarrow> Inr db
      | Some run \<Rightarrow>
          audit_when origin (\<lambda>actor request_id audit_id.
            (lab_event SocAuditAction.SCENARIO_COMPLETED SocAuditResult.FAILED request_id audit_id actor (LabScenarioId_value scenario) run_id
              [(''scenario_id'', JStr (LabScenarioId_value scenario))] failed_at)
              \<lparr>soc_safe_reason := Some ''The frozen synthetic scenario pipeline failed safely.''\<rparr>)
            (set_run (mark_failed failed_at ''PIPELINE_EXECUTION_FAILED'' run) db))"

text \<open>Exceptions of the lab are raised again, all others become \<open>LabPipelineError\<close>.\<close>

definition pipeline_error :: "LabError \<Rightarrow> LabError" where
  "pipeline_error e = (case e of AuthFailure _ \<Rightarrow> LabPipelineError | UnexpectedError \<Rightarrow> LabPipelineError | _ \<Rightarrow> e)"

definition execute_run ::
  "pydantic \<Rightarrow> LoadedDataset \<Rightarrow> uuid \<Rightarrow> LabScenarioId \<Rightarrow> DatasetCaseExecution option \<Rightarrow> timestamp \<Rightarrow>
   audit_origin \<Rightarrow> LabDb \<Rightarrow> LabRun outcome" where
  "execute_run pd dataset run_id scenario pipeline now origin db =
     (case execute_transaction pd dataset run_id scenario pipeline now origin db of
        Inr (run, db') \<Rightarrow> (Inr run, db')
      | Inl e \<Rightarrow>
          (case failed_execution run_id scenario now origin db of
             Inl e' \<Rightarrow> (Inl e', db)
           | Inr db' \<Rightarrow> (Inl (pipeline_error e), db')))"

section \<open>Starting a scenario\<close>

definition begin_scenario ::
  "LoadedDataset \<Rightarrow> LabScenarioId \<Rightarrow> uuid \<Rightarrow> string \<Rightarrow> string \<Rightarrow> uuid \<Rightarrow> uuid \<Rightarrow> timestamp \<Rightarrow> LabDb \<Rightarrow> uuid transaction" where
  "begin_scenario dataset scenario actor_user_id actor_context request_id run_id audit_id now db =
     (if scenario = BASELINE
      then Inl (LabError ''BASELINE is selected through the dedicated return-to-Baseline operation.'')
      else if some_running db
      then Inl (LabRunConflictError ''Another synthetic scenario run is already in progress.'')
      else
      rbind (new_run dataset scenario (Some actor_user_id) actor_context now run_id) (\<lambda>run.
      case insert_run run db of
        None \<Rightarrow> Inl (LabRunConflictError ''Another synthetic scenario run is already in progress.'')
      | Some db1 \<Rightarrow>
          rbind (append_lab_audit (lab_event SCENARIO_STARTED SocAuditResult.ACCEPTED request_id audit_id actor_user_id
              (LabScenarioId_value scenario) run_id
              [(''scenario_id'', JStr (LabScenarioId_value scenario)), (''dataset_case_id'', JStr (lr_dataset_case_id run))]
              now) db1) (\<lambda>db2.
          Inr (run_id, db2))))"

record LabStartResponse =
  st_active_run :: LabRunResponse
  st_run :: LabRunResponse

text \<open>What follows the commit of the started run: its execution and its activation.\<close>

definition finish_scenario ::
  "pydantic \<Rightarrow> LoadedDataset \<Rightarrow> LabScenarioId \<Rightarrow> DatasetCaseExecution option \<Rightarrow> uuid \<Rightarrow> string \<Rightarrow> string \<Rightarrow> uuid \<Rightarrow>
   timestamp \<Rightarrow> uuid \<Rightarrow> LabDb \<Rightarrow> LabStartResponse outcome" where
  "finish_scenario pd dataset scenario pipeline actor_user_id actor_context request_id audit_id finished_at run_id db =
     and_then (execute_run pd dataset run_id scenario pipeline finished_at (Some (actor_user_id, request_id, audit_id)) db)
       (\<lambda>completed db1.
     and_then (activate_run completed (Some actor_user_id) actor_context LabActivationReason.SCENARIO_COMPLETED
         (case lr_completed_at completed of None \<Rightarrow> finished_at | Some t \<Rightarrow> t) db1) (\<lambda>ctx db2.
     (Inr \<lparr>st_active_run = cr_active_run ctx, st_run = run_response db2 completed\<rparr>, db2)))"

text \<open>What a start draws: the run, the two audit events, and the time at which the run is finished.\<close>

record StartDraws =
  sw_run_id :: uuid
  sw_started_audit_id :: uuid
  sw_completed_audit_id :: uuid
  sw_finished_at :: timestamp

definition start_scenario ::
  "pydantic \<Rightarrow> LoadedDataset \<Rightarrow> LabScenarioId \<Rightarrow> DatasetCaseExecution option \<Rightarrow> uuid \<Rightarrow> string \<Rightarrow> string \<Rightarrow>
   StartDraws \<Rightarrow> timestamp \<Rightarrow> LabDb \<Rightarrow> LabStartResponse outcome" where
  "start_scenario pd dataset scenario pipeline actor_user_id actor_context request_id draws now db =
     and_then (commit db (begin_scenario dataset scenario actor_user_id actor_context request_id
         (sw_run_id draws) (sw_started_audit_id draws) now db))
       (finish_scenario pd dataset scenario pipeline actor_user_id actor_context request_id
         (sw_completed_audit_id draws) (sw_finished_at draws))"

section \<open>Baseline and reset\<close>

definition baseline_transaction ::
  "uuid \<Rightarrow> string \<Rightarrow> string \<Rightarrow> uuid \<Rightarrow> timestamp \<Rightarrow> LabDb \<Rightarrow> unit transaction" where
  "baseline_transaction actor_user_id actor_context request_id audit_id now db =
     rbind (completed_baseline db) (\<lambda>baseline.
     rbind (append_lab_audit (lab_event RETURNED_TO_BASELINE SocAuditResult.ACCEPTED request_id audit_id actor_user_id
         ''BASELINE'' (lr_run_id baseline) [(''scenario_id'', JStr ''BASELINE'')] now) db) (\<lambda>db1.
     activate_transaction baseline (Some actor_user_id) actor_context RETURN_BASELINE now db1))"

definition activate_baseline ::
  "uuid \<Rightarrow> string \<Rightarrow> string \<Rightarrow> uuid \<Rightarrow> timestamp \<Rightarrow> LabDb \<Rightarrow> LabContextResponse outcome" where
  "activate_baseline actor_user_id actor_context request_id audit_id now db =
     read_back (commit db (baseline_transaction actor_user_id actor_context request_id audit_id now db))"

definition reset_transaction ::
  "uuid \<Rightarrow> string \<Rightarrow> string \<Rightarrow> uuid \<Rightarrow> timestamp \<Rightarrow> LabDb \<Rightarrow> unit transaction" where
  "reset_transaction actor_user_id actor_context request_id audit_id now db =
     (if some_running db
      then Inl (LabRunConflictError ''The synthetic lab cannot reset while a run is in progress.'')
      else
      rbind (completed_baseline db) (\<lambda>baseline.
      rbind (append_lab_audit (lab_event SocAuditAction.LAB_RESET SocAuditResult.ACCEPTED request_id audit_id actor_user_id
          ''SCENARIO_LAB'' (lr_run_id baseline)
          [(''active_scenario_id'', JStr ''BASELINE''), (''history_retained'', JBool True)] now) db) (\<lambda>db1.
      activate_transaction baseline (Some actor_user_id) actor_context RESET now db1)))"

definition reset_lab ::
  "uuid \<Rightarrow> string \<Rightarrow> string \<Rightarrow> uuid \<Rightarrow> timestamp \<Rightarrow> LabDb \<Rightarrow> LabContextResponse outcome" where
  "reset_lab actor_user_id actor_context request_id audit_id now db =
     read_back (commit db (reset_transaction actor_user_id actor_context request_id audit_id now db))"

section \<open>Startup\<close>

definition fail_stale :: "timestamp \<Rightarrow> LabDb \<Rightarrow> LabDb" where
  "fail_stale now db = db\<lparr>lb_runs :=
     map (\<lambda>r. if lr_state r = RUNNING then mark_failed now ''BACKEND_RESTARTED'' r else r) (lb_runs db)\<rparr>"

text \<open>
  The first part of \<open>_ensure_baseline\<close>: the Baseline run is created, or set to \<open>RUNNING\<close> again unless it is
  completed; the unique index on running rows makes the commit fail while another run is in progress.
\<close>

definition prepare_baseline ::
  "LoadedDataset \<Rightarrow> uuid option \<Rightarrow> string \<Rightarrow> timestamp \<Rightarrow> LabDb \<Rightarrow> uuid transaction" where
  "prepare_baseline dataset actor_user_id actor_context now db =
     (case find_baseline db of
        None \<Rightarrow>
          rbind (new_run dataset BASELINE actor_user_id actor_context now (baseline_run_id dataset)) (\<lambda>run.
          case insert_run run db of
            None \<Rightarrow> Inl (LabRunConflictError ''The Baseline run could not be initialized.'')
          | Some db1 \<Rightarrow> Inr (lr_run_id run, db1))
      | Some baseline \<Rightarrow>
          if lr_state baseline = COMPLETED then Inr (lr_run_id baseline, db)
          else if list_ex (\<lambda>r. lr_run_id r \<noteq> lr_run_id baseline \<and> lr_state r = RUNNING) (lb_runs db)
          then Inl (LabRunConflictError ''The Baseline cannot initialize while another run is in progress.'')
          else Inr (lr_run_id baseline, set_run (baseline\<lparr>lr_state := RUNNING, lr_completed_at := None,
            lr_failure_code := None, lr_updated_at := now\<rparr>) db))"

definition check_baseline_incidents :: "LabRun \<Rightarrow> LabDb \<Rightarrow> LabRun outcome" where
  "check_baseline_incidents completed db =
     (if list_ex (\<lambda>l. li_run_id l = lr_run_id completed) (lb_run_incidents db)
      then (Inl (LabIntegrityError ''The verified Baseline unexpectedly references an incident.''), db)
      else (Inr completed, db))"

definition ensure_baseline ::
  "pydantic \<Rightarrow> LoadedDataset \<Rightarrow> DatasetCaseExecution option \<Rightarrow> uuid option \<Rightarrow> string \<Rightarrow> timestamp \<Rightarrow> LabDb \<Rightarrow> LabRun outcome" where
  "ensure_baseline pd dataset pipeline actor_user_id actor_context now db =
     and_then (commit db (prepare_baseline dataset actor_user_id actor_context now db)) (\<lambda>run_id db1.
     and_then (execute_run pd dataset run_id BASELINE pipeline now None db1) check_baseline_incidents)"

definition startup_baseline ::
  "pydantic \<Rightarrow> LoadedDataset \<Rightarrow> DatasetCaseExecution option \<Rightarrow> string \<Rightarrow> timestamp \<Rightarrow> LabDb \<Rightarrow> LabContextResponse outcome" where
  "startup_baseline pd dataset pipeline actor_context now db =
     and_then (ensure_baseline pd dataset pipeline None actor_context now (fail_stale now db)) (\<lambda>baseline db1.
     activate_run baseline None actor_context STARTUP_BASELINE now db1)"

section \<open>Routes\<close>

definition lab_request_id :: "HttpRequest \<Rightarrow> string" where
  "lab_request_id request =
     (if 8 \<le> length (rq_request_id request) \<and> length (rq_request_id request) \<le> 64 then rq_request_id request
      else ''scenario-lab-request-unavailable'')"

text \<open>The guard of a route runs in the session, so in the first transaction, of the operation.\<close>

definition guarded ::
  "(AuthDb \<Rightarrow> AuthError + (AuthPrincipal \<times> AuthDb)) \<Rightarrow> (AuthPrincipal \<Rightarrow> LabDb \<Rightarrow> 'a transaction) \<Rightarrow> LabDb \<Rightarrow>
   'a transaction" where
  "guarded guard operation db =
     rbind (raising AuthFailure (guard (lb_auth db))) (\<lambda>(caller, auth). operation caller (db\<lparr>lb_auth := auth\<rparr>))"

definition start_transaction ::
  "LoadedDataset \<Rightarrow> AuthSettings \<Rightarrow> HttpRequest \<Rightarrow> LabScenarioId \<Rightarrow> StartDraws \<Rightarrow> LabDb \<Rightarrow>
   (AuthPrincipal \<times> uuid) transaction" where
  "start_transaction dataset settings request scenario draws =
     guarded (require_mutation_permission MANAGE_SCENARIOS settings request) (\<lambda>caller db.
       rbind (begin_scenario dataset scenario (lu_user_id (ap_user caller)) (lu_display_name (ap_user caller))
         (lab_request_id request) (sw_run_id draws) (sw_started_audit_id draws) (rq_time request) db) (\<lambda>(run_id, db').
       Inr ((caller, run_id), db')))"

definition post_lab_start ::
  "pydantic \<Rightarrow> LoadedDataset \<Rightarrow> AuthSettings \<Rightarrow> HttpRequest \<Rightarrow> LabScenarioId \<Rightarrow> DatasetCaseExecution option \<Rightarrow>
   StartDraws \<Rightarrow> LabDb \<Rightarrow> LabStartResponse outcome" where
  "post_lab_start pd dataset settings request scenario pipeline draws db =
     and_then (commit db (start_transaction dataset settings request scenario draws db))
       (\<lambda>(caller, run_id). finish_scenario pd dataset scenario pipeline (lu_user_id (ap_user caller))
         (lu_display_name (ap_user caller)) (lab_request_id request) (sw_completed_audit_id draws)
         (sw_finished_at draws) run_id)"

text \<open>The two routes that select the Baseline differ only in their operation.\<close>

definition select_transaction ::
  "(uuid \<Rightarrow> string \<Rightarrow> string \<Rightarrow> uuid \<Rightarrow> timestamp \<Rightarrow> LabDb \<Rightarrow> unit transaction) \<Rightarrow> AuthSettings \<Rightarrow> HttpRequest \<Rightarrow>
   uuid \<Rightarrow> LabDb \<Rightarrow> unit transaction" where
  "select_transaction operation settings request audit_id =
     guarded (require_mutation_permission MANAGE_SCENARIOS settings request) (\<lambda>caller.
       operation (lu_user_id (ap_user caller)) (lu_display_name (ap_user caller)) (lab_request_id request)
         audit_id (rq_time request))"

definition post_lab_baseline ::
  "AuthSettings \<Rightarrow> HttpRequest \<Rightarrow> uuid \<Rightarrow> LabDb \<Rightarrow> LabContextResponse outcome" where
  "post_lab_baseline settings request audit_id db =
     read_back (commit db (select_transaction baseline_transaction settings request audit_id db))"

definition post_lab_reset ::
  "AuthSettings \<Rightarrow> HttpRequest \<Rightarrow> uuid \<Rightarrow> LabDb \<Rightarrow> LabContextResponse outcome" where
  "post_lab_reset settings request audit_id db =
     read_back (commit db (select_transaction reset_transaction settings request audit_id db))"

definition get_lab_context :: "AuthSettings \<Rightarrow> HttpRequest \<Rightarrow> LabDb \<Rightarrow> LabContextResponse outcome" where
  "get_lab_context settings request db =
     commit db (guarded (require_authenticated settings request) (\<lambda>_ db1.
       rbind (read_current_context db1) (\<lambda>response. Inr (response, db1))) db)"

definition get_lab_run :: "AuthSettings \<Rightarrow> HttpRequest \<Rightarrow> uuid \<Rightarrow> LabDb \<Rightarrow> LabRunResponse outcome" where
  "get_lab_run settings request k db =
     commit db (guarded (require_authenticated settings request) (\<lambda>_ db1.
       rbind (read_run db1 k) (\<lambda>response. Inr (response, db1))) db)"

definition get_lab_runs ::
  "AuthSettings \<Rightarrow> HttpRequest \<Rightarrow> LabScenarioId option \<Rightarrow> LabRunState option \<Rightarrow> nat \<Rightarrow> nat \<Rightarrow> LabDb \<Rightarrow>
   (LabRunResponse list \<times> nat) outcome" where
  "get_lab_runs settings request scenario state limit offset db =
     commit db (guarded (require_authenticated settings request) (\<lambda>_ db1.
       rbind (require (1 \<le> limit \<and> limit \<le> 100 \<and> offset \<le> 10000) (AuthFailure RequestInvalid)) (\<lambda>_.
       Inr (list_run_history db1 scenario state limit offset, db1))) db)"

text \<open>The status of a failed request; what is not an exception of the lab is an internal error.\<close>

definition lab_http_status :: "LabError \<Rightarrow> nat option" where
  "lab_http_status e =
     (case e of
        LabRunNotFoundError \<Rightarrow> Some 404
      | LabRunConflictError _ \<Rightarrow> Some 409
      | LabNotInitializedError _ \<Rightarrow> Some 503
      | LabPipelineError \<Rightarrow> Some 503
      | LabIntegrityError _ \<Rightarrow> Some 503
      | LabError _ \<Rightarrow> Some 422
      | _ \<Rightarrow> None)"

end
