(* ===== verification/Lab_Closure.thy ===== *)
theory Lab_Closure
  imports Lab_Model
begin

text \<open>
  The closure of a run's evidence against its meaning: the records reachable from the roots by the
  references the records carry. The loop returns exactly these, and it returns exactly when each of
  them is present, verified, of the run's scope and readable, and they do not exceed the bound.
\<close>

section \<open>Reachable references\<close>

inductive reachable_ref :: "EvidenceStore \<Rightarrow> (uuid \<times> digest) list \<Rightarrow> uuid \<times> digest \<Rightarrow> bool"
  for st :: EvidenceStore and roots :: "(uuid \<times> digest) list" where
  root: "ref \<in> set roots \<Longrightarrow> reachable_ref st roots ref"
| parent: "reachable_ref st roots (k, d) \<Longrightarrow> get_evidence st k = Some r \<Longrightarrow> parent_references r = Inr ps
    \<Longrightarrow> ref \<in> set ps \<Longrightarrow> reachable_ref st roots ref"

text \<open>A record the closure may contain, and a reference that names such a record by its digest.\<close>

definition usable :: "pydantic \<Rightarrow> EvidenceStore \<Rightarrow> run_scope \<Rightarrow> EvidenceRecord \<Rightarrow> bool" where
  "usable pd st scope r =
     (verifies pd st r \<and> check_scope scope r = Inr () \<and> (\<exists>ps. parent_references r = Inr ps))"

definition usable_ref :: "pydantic \<Rightarrow> EvidenceStore \<Rightarrow> run_scope \<Rightarrow> uuid \<times> digest \<Rightarrow> bool" where
  "usable_ref pd st scope ref =
     (\<exists>r. get_evidence st (fst ref) = Some r \<and> rec_integrity_sha256 r = snd ref \<and> usable pd st scope r)"

definition ref_of :: "EvidenceRecord \<Rightarrow> uuid \<times> digest" where
  "ref_of r = (rec_evidence_id r, rec_integrity_sha256 r)"

section \<open>The loop\<close>

text \<open>What holds of the records taken so far, for a set \<open>R\<close> of references that is closed under parents.\<close>

definition closed_refs :: "EvidenceStore \<Rightarrow> (uuid \<times> digest) set \<Rightarrow> bool" where
  "closed_refs st R =
     (\<forall>k d r ps. (k, d) \<in> R \<longrightarrow> get_evidence st k = Some r \<longrightarrow> parent_references r = Inr ps \<longrightarrow> set ps \<subseteq> R)"

definition taken_ok ::
  "pydantic \<Rightarrow> EvidenceStore \<Rightarrow> run_scope \<Rightarrow> (uuid \<times> digest) set \<Rightarrow> EvidenceRecord list \<Rightarrow> bool" where
  "taken_ok pd st scope R taken =
     (distinct (map rec_evidence_id taken) \<and> length taken \<le> MAX_LINKED_EVIDENCE
      \<and> (\<forall>r \<in> set taken. get_evidence st (rec_evidence_id r) = Some r \<and> usable pd st scope r \<and> ref_of r \<in> R))"

lemma closed_refsD:
  "closed_refs st R \<Longrightarrow> (k, d) \<in> R \<Longrightarrow> get_evidence st k = Some r \<Longrightarrow> parent_references r = Inr ps \<Longrightarrow> set ps \<subseteq> R"
  by (auto simp: closed_refs_def)

lemma find_taken:
  assumes "k \<in> set (map rec_evidence_id taken)"
  obtains r where "find (\<lambda>r. rec_evidence_id r = k) taken = Some r" "r \<in> set taken" "rec_evidence_id r = k"
proof (cases "find (\<lambda>r. rec_evidence_id r = k) taken")
  case None
  then show ?thesis using assms by (auto simp: find_eq_None_iff)
next
  case (Some r)
  then show ?thesis using that find_eq_Some_iff [OF Some] by blast
qed

lemma taken_ok_snoc:
  assumes "taken_ok pd st scope R taken" "get_evidence st k = Some r" "k \<notin> set (map rec_evidence_id taken)"
    "usable pd st scope r" "(k, rec_integrity_sha256 r) \<in> R" "length taken < MAX_LINKED_EVIDENCE"
  shows "taken_ok pd st scope R (taken @ [r])"
  using assms get_evidence_SomeD [OF assms(2)] by (auto simp: taken_ok_def ref_of_def)

lemma closure_loop_sound:
  assumes "closure_loop pd st scope pending visited taken = Inr result" "visited = map rec_evidence_id taken"
    "taken_ok pd st scope R taken" "set pending \<subseteq> R" "closed_refs st R"
  shows "taken_ok pd st scope R result \<and> set taken \<subseteq> set result
    \<and> set pending \<subseteq> ref_of ` set result
    \<and> (\<forall>r \<in> set result - set taken. \<forall>ps. parent_references r = Inr ps \<longrightarrow> set ps \<subseteq> ref_of ` set result)"
  using assms
proof (induction pd st scope pending visited taken arbitrary: result rule: closure_loop.induct)
  case (1 pd st scope visited taken)
  then show ?case by simp
next
  case (2 pd st scope k d pending visited taken)
  show ?case
  proof (cases "k \<in> set visited")
    case True
    then have "k \<in> set (map rec_evidence_id taken)" using 2(5) by simp
    then obtain r where r: "find (\<lambda>r. rec_evidence_id r = k) taken = Some r" "r \<in> set taken" "rec_evidence_id r = k"
      by (rule find_taken)
    with 2(4) True have d: "rec_integrity_sha256 r = d" and rest: "closure_loop pd st scope pending visited taken = Inr result"
      by (simp_all split: if_splits)
    from 2(2) [OF True r(1) _ rest] d 2(5-8) r(2,3) show ?thesis
      by (auto simp: ref_of_def image_iff)
  next
    case False
    with 2(4) obtain r where r: "get_evidence st k = Some r" by (auto split: option.splits)
    from 2(4) False r obtain ps where step: "rec_integrity_sha256 r = d" "verifies pd st r" "check_scope scope r = Inr ()"
      "parent_references r = Inr ps" "\<not> MAX_LINKED_EVIDENCE < length (visited @ [k])"
      "closure_loop pd st scope (pending @ ps) (visited @ [k]) (taken @ [r]) = Inr result"
      by (auto simp: rbind_eq_Inr split: if_splits)
    have id: "rec_evidence_id r = k" using get_evidence_SomeD [OF r] by simp
    have ok: "taken_ok pd st scope R (taken @ [r])"
      using 2(5-7) r False step by (intro taken_ok_snoc) (auto simp: usable_def)
    have ps: "set ps \<subseteq> R" using closed_refsD [OF 2(8) _ r step(4)] 2(7) by auto
    from 2(3) [OF False r _ step(3) step(4) step(5) step(6)] ok ps 2(5,7,8) step(1,2) id
    have result: "taken_ok pd st scope R result" "set (taken @ [r]) \<subseteq> set result" "set (pending @ ps) \<subseteq> ref_of ` set result"
      "\<forall>s \<in> set result - set (taken @ [r]). \<forall>qs. parent_references s = Inr qs \<longrightarrow> set qs \<subseteq> ref_of ` set result"
      by simp_all
    have "(k, d) = ref_of r" using step(1) id by (simp add: ref_of_def)
    then have head: "(k, d) \<in> ref_of ` set result" using result(2) by auto
    have "set qs \<subseteq> ref_of ` set result" if "s \<in> set result - set taken" "parent_references s = Inr qs" for s qs
    proof (cases "s = r")
      case True
      then show ?thesis using that(2) step(4) result(3) by simp
    next
      case False
      then show ?thesis using that result(4) by auto
    qed
    with result head show ?thesis by simp
  qed
qed

lemma closure_loop_complete:
  assumes "visited = map rec_evidence_id taken" "distinct visited" "set visited \<subseteq> fst ` R"
    "\<forall>r \<in> set taken. get_evidence st (rec_evidence_id r) = Some r" "set pending \<subseteq> R" "closed_refs st R"
    "\<forall>ref \<in> R. usable_ref pd st scope ref" "finite (fst ` R)" "card (fst ` R) \<le> MAX_LINKED_EVIDENCE"
  shows "\<exists>result. closure_loop pd st scope pending visited taken = Inr result"
  using assms
proof (induction pd st scope pending visited taken rule: closure_loop.induct)
  case (1 pd st scope visited taken)
  then show ?case by simp
next
  case (2 pd st scope k d pending visited taken)
  from 2(8,10) obtain r where r: "get_evidence st k = Some r" "rec_integrity_sha256 r = d" "usable pd st scope r"
    by (auto simp: usable_ref_def)
  show ?case
  proof (cases "k \<in> set visited")
    case True
    then have "k \<in> set (map rec_evidence_id taken)" using 2(4) by simp
    then obtain s where s: "find (\<lambda>r. rec_evidence_id r = k) taken = Some s" "s \<in> set taken" "rec_evidence_id s = k"
      by (rule find_taken)
    then have "s = r" using 2(7) r(1) by auto
    with 2(2) [OF True s(1)] 2(4-12) s r True show ?thesis by simp
  next
    case False
    from r(3) obtain ps where ps: "verifies pd st r" "check_scope scope r = Inr ()" "parent_references r = Inr ps"
      by (auto simp: usable_def)
    have id: "rec_evidence_id r = k" using get_evidence_SomeD [OF r(1)] by simp
    have sub: "set (visited @ [k]) \<subseteq> fst ` R" using 2(6,8) by force
    have "distinct (visited @ [k])" using 2(5) False by simp
    then have "length (visited @ [k]) \<le> card (fst ` R)"
      using card_mono [OF 2(11) sub] distinct_card [of "visited @ [k]"] by simp
    then have bound: "\<not> MAX_LINKED_EVIDENCE < length (visited @ [k])" using 2(12) by simp
    have "set ps \<subseteq> R" using closed_refsD [OF 2(9) _ r(1) ps(3)] 2(8) by auto
    then have "\<exists>result. closure_loop pd st scope (pending @ ps) (visited @ [k]) (taken @ [r]) = Inr result"
      using 2(4-12) r ps id bound sub False by (intro 2(3) [OF False r(1) _ ps(2,3) bound]) auto
    then show ?thesis using False r(1,2) ps bound by simp
  qed
qed

section \<open>The closure\<close>

definition execution_roots :: "DatasetCaseExecution \<Rightarrow> (uuid \<times> digest) list" where
  "execution_roots execution = map (\<lambda>s. (es_evidence_id s, es_expected_integrity_sha256 s)) (dx_evidence_roots execution)"

definition case_scope :: "DatasetCase \<Rightarrow> run_scope" where
  "case_scope dcase = (dc_run_id dcase, configuration_hash dcase)"

lemma closure_unfold:
  "verified_execution_closure pd st dcase execution = Inr records \<longleftrightarrow>
     execution_roots execution \<noteq> [] \<and> (\<exists>taken. closure_loop pd st (case_scope dcase) (execution_roots execution) [] [] = Inr taken
       \<and> records = sort_key closure_order taken)"
  by (auto simp: verified_execution_closure_def execution_roots_def case_scope_def Let_def rbind_eq_Inr)

lemma reachable_closed: "closed_refs st {ref. reachable_ref st roots ref}"
  by (auto simp: closed_refs_def intro: reachable_ref.parent)

lemma reachable_subset:
  assumes "set roots \<subseteq> ref_of ` set result"
    "\<forall>r \<in> set result. get_evidence st (rec_evidence_id r) = Some r \<and> (\<forall>ps. parent_references r = Inr ps \<longrightarrow> set ps \<subseteq> ref_of ` set result)"
    "reachable_ref st roots ref"
  shows "ref \<in> ref_of ` set result"
  using assms(3)
proof (induction rule: reachable_ref.induct)
  case (root ref)
  then show ?case using assms(1) by blast
next
  case (parent k d r ps ref)
  from parent.IH obtain s where "s \<in> set result" "rec_evidence_id s = k" by (auto simp: ref_of_def)
  then show ?case using assms(2) parent.hyps by fastforce
qed

lemma inj_stored:
  assumes "\<forall>r \<in> A. get_evidence st (rec_evidence_id r) = Some r"
  shows "inj_on ref_of A" "inj_on closure_order A"
proof -
  have "inj_on rec_evidence_id A"
    using assms by (intro inj_on_inverseI [where g = "\<lambda>k. the (get_evidence st k)"]) simp
  moreover have "rec_evidence_id = fst \<circ> ref_of" "rec_evidence_id = snd \<circ> snd \<circ> closure_order"
    by (simp_all add: fun_eq_iff ref_of_def closure_order_def)
  ultimately show "inj_on ref_of A" "inj_on closure_order A"
    by (metis inj_on_imageI2)+
qed

lemma closure_loop_reachable:
  assumes "closure_loop pd st scope roots [] [] = Inr result"
  shows "taken_ok pd st scope {ref. reachable_ref st roots ref} result"
    "ref_of ` set result = {ref. reachable_ref st roots ref}"
proof -
  have start: "taken_ok pd st scope {ref. reachable_ref st roots ref} []" by (simp add: taken_ok_def)
  have roots: "set roots \<subseteq> {ref. reachable_ref st roots ref}" by (auto intro: reachable_ref.root)
  have sound: "taken_ok pd st scope {ref. reachable_ref st roots ref} result" "set roots \<subseteq> ref_of ` set result"
    "\<forall>r \<in> set result. \<forall>ps. parent_references r = Inr ps \<longrightarrow> set ps \<subseteq> ref_of ` set result"
    using closure_loop_sound [OF assms _ start roots reachable_closed [of st roots]] by simp_all
  then show "taken_ok pd st scope {ref. reachable_ref st roots ref} result" by simp
  show "ref_of ` set result = {ref. reachable_ref st roots ref}"
  proof
    have "\<forall>r \<in> set result. get_evidence st (rec_evidence_id r) = Some r
        \<and> (\<forall>ps. parent_references r = Inr ps \<longrightarrow> set ps \<subseteq> ref_of ` set result)"
      using sound(1,3) by (simp add: taken_ok_def)
    from reachable_subset [OF sound(2) this] show "{ref. reachable_ref st roots ref} \<subseteq> ref_of ` set result" by blast
  qed (use sound(1) in \<open>auto simp: taken_ok_def\<close>)
qed

lemma closure_loop_returns_iff:
  "(\<exists>result. closure_loop pd st scope roots [] [] = Inr result) \<longleftrightarrow>
     Ball {ref. reachable_ref st roots ref} (usable_ref pd st scope)
     \<and> card (fst ` {ref. reachable_ref st roots ref}) \<le> MAX_LINKED_EVIDENCE"
  (is "?returns \<longleftrightarrow> ?usable \<and> ?bound")
proof
  assume ?returns
  then obtain result where result: "closure_loop pd st scope roots [] [] = Inr result" by blast
  note ok = closure_loop_reachable [OF result]
  have "usable_ref pd st scope ref" if "ref \<in> ref_of ` set result" for ref
    using that ok(1) by (auto simp: taken_ok_def usable_ref_def ref_of_def)
  moreover have "card (fst ` ref_of ` set result) \<le> MAX_LINKED_EVIDENCE"
    using ok(1) card_length [of "map (fst \<circ> ref_of) result"] by (simp add: taken_ok_def image_image)
  ultimately show "?usable \<and> ?bound" unfolding ok(2) [symmetric] by blast
next
  assume good: "?usable \<and> ?bound"
  have "fst ` {ref. reachable_ref st roots ref} \<subseteq> rec_evidence_id ` set (ev_records st)"
  proof
    fix k
    assume "k \<in> fst ` {ref. reachable_ref st roots ref}"
    then obtain r where "get_evidence st k = Some r" using good by (fastforce simp: usable_ref_def)
    from get_evidence_SomeD [OF this] show "k \<in> rec_evidence_id ` set (ev_records st)" by blast
  qed
  then have "finite (fst ` {ref. reachable_ref st roots ref})" by (rule finite_subset) simp
  with good show ?returns
    by (intro closure_loop_complete [where R = "{ref. reachable_ref st roots ref}"])
       (auto simp: reachable_closed intro: reachable_ref.root)
qed

text \<open>
  C17. The loop that collects the evidence of a lab run ends, and it finds exactly the meaning of a
  closure: it succeeds if and only if there is a root, every reference reachable from the roots names a
  stored, verified record of the expected digest, of the run's scope and with readable references, and
  these are at most 2000 records. What it returns are then the reachable records, each once, ordered by
  time, type and identifier.
\<close>

theorem closure_exactly_reachable:
  "verified_execution_closure pd st dcase execution = Inr records \<longleftrightarrow>
     execution_roots execution \<noteq> []
     \<and> {ref. reachable_ref st (execution_roots execution) ref} \<subseteq> {ref. usable_ref pd st (case_scope dcase) ref}
     \<and> card (fst ` {ref. reachable_ref st (execution_roots execution) ref}) \<le> MAX_LINKED_EVIDENCE
     \<and> ref_of ` set records = {ref. reachable_ref st (execution_roots execution) ref}
     \<and> set records \<subseteq> {r. get_evidence st (rec_evidence_id r) = Some r}
     \<and> distinct records \<and> sorted (map closure_order records)"
  (is "?returns \<longleftrightarrow> ?roots \<and> ?usable \<and> ?bound \<and> ?refs \<and> ?stored \<and> ?once \<and> ?sorted")
proof
  assume ?returns
  then obtain taken where roots: ?roots and taken: "closure_loop pd st (case_scope dcase) (execution_roots execution) [] [] = Inr taken"
    and records: "records = sort_key closure_order taken" by (auto simp: closure_unfold)
  note ok = closure_loop_reachable [OF taken]
  then have "?stored \<and> ?once \<and> ?sorted"
    by (auto simp: records taken_ok_def distinct_map)
  moreover have "?usable \<and> ?bound"
    using taken closure_loop_returns_iff [of pd st "case_scope dcase" "execution_roots execution"] by blast
  ultimately show "?roots \<and> ?usable \<and> ?bound \<and> ?refs \<and> ?stored \<and> ?once \<and> ?sorted"
    using roots ok(2) by (simp add: records)
next
  assume all: "?roots \<and> ?usable \<and> ?bound \<and> ?refs \<and> ?stored \<and> ?once \<and> ?sorted"
  then obtain taken where taken: "closure_loop pd st (case_scope dcase) (execution_roots execution) [] [] = Inr taken"
    using closure_loop_returns_iff [of pd st "case_scope dcase" "execution_roots execution"] by blast
  note ok = closure_loop_reachable [OF taken]
  have stored: "\<forall>r \<in> set taken. get_evidence st (rec_evidence_id r) = Some r" and "distinct taken"
    using ok(1) by (auto simp: taken_ok_def distinct_map)
  have "ref_of ` set records = ref_of ` set taken" using all ok(2) by simp
  moreover have "inj_on ref_of (set records \<union> set taken)"
    using all stored by (intro inj_stored(1)) auto
  ultimately have same: "set records = set taken" by (simp add: inj_on_image_eq_iff)
  have "inj_on closure_order (set taken)"
    using stored by (rule inj_stored(2))
  moreover have "mset records = mset taken"
    using all same \<open>distinct taken\<close> by (simp add: set_eq_iff_mset_eq_distinct [symmetric])
  ultimately have "records = sort_key closure_order taken"
    using all sort_key_perm_eq [of records taken closure_order]
    by (simp add: sort_key_id_if_sorted distinct_map same del: subset_eq)
  with all taken show ?returns by (auto simp: closure_unfold)
qed

end
