(* ===== verification/Lab_Guarantees.thy ===== *)
theory Lab_Guarantees
  imports Lab Lab_Closure Accounts_Guarantees
begin

text \<open>
  What the lab promises under any interleaving of its transactions with each other, with requests on
  accounts and with the growth of evidence: its tables stay well formed, what a completed run recorded
  never changes, and the active context names a completed run or the Baseline.
\<close>

section \<open>The invariant\<close>

text \<open>The check constraints of a run, and the agreement with the dataset it was started from.\<close>

definition window_ok :: "timestamp option \<Rightarrow> timestamp option \<Rightarrow> bool" where
  "window_ok from_time to_time = (case (from_time, to_time) of (Some a, Some b) \<Rightarrow> a \<le> b | _ \<Rightarrow> True)"

definition valid_run :: "LabRun \<Rightarrow> bool" where
  "valid_run r =
     ((lr_state r = RUNNING \<longleftrightarrow> lr_completed_at r = None)
      \<and> (lr_state r = FAILED \<longleftrightarrow> lr_failure_code r \<noteq> None)
      \<and> window_ok (lr_evidence_observed_from r) (lr_evidence_observed_to r))"

definition scope_of_run :: "LabRun \<Rightarrow> run_scope" where
  "scope_of_run r = (lr_evidence_simulation_id r, lr_configuration_hash r)"

definition described :: "LoadedDataset \<Rightarrow> LabRun \<Rightarrow> bool" where
  "described dataset r =
     (lr_dataset_case_id r = dc_case_id (dataset_case dataset (lr_scenario_id r))
      \<and> scope_of_run r = case_scope (dataset_case dataset (lr_scenario_id r)))"

text \<open>At most one run has a property: the two partial unique indexes.\<close>

definition unique_run :: "(LabRun \<Rightarrow> bool) \<Rightarrow> LabRun list \<Rightarrow> bool" where
  "unique_run P rs = (\<forall>r \<in> set rs. \<forall>s \<in> set rs. P r \<longrightarrow> P s \<longrightarrow> lr_run_id r = lr_run_id s)"

definition runs_ok :: "LoadedDataset \<Rightarrow> LabRun list \<Rightarrow> bool" where
  "runs_ok dataset rs =
     (distinct (map lr_run_id rs) \<and> list_all valid_run rs \<and> list_all (described dataset) rs
      \<and> unique_run (\<lambda>r. lr_scenario_id r = BASELINE) rs \<and> unique_run (\<lambda>r. lr_state r = RUNNING) rs)"

text \<open>A link belongs to a run and names a stored, verified record of the run's scope.\<close>

definition link_ok :: "pydantic \<Rightarrow> EvidenceStore \<Rightarrow> LabRun list \<Rightarrow> LabRunEvidence \<Rightarrow> bool" where
  "link_ok pd st rs l =
     list_ex (\<lambda>r. lr_run_id r = le_run_id l
       \<and> (case get_evidence st (le_evidence_id l) of
            None \<Rightarrow> False
          | Some e \<Rightarrow> verifies pd st e \<and> check_scope (scope_of_run r) e = Inr ())) rs"

definition links_ok :: "pydantic \<Rightarrow> LabDb \<Rightarrow> bool" where
  "links_ok pd db =
     (distinct (map (\<lambda>l. (le_run_id l, le_evidence_id l)) (lb_run_evidence db))
      \<and> list_all (link_ok pd (lb_evidence db) (lb_runs db)) (lb_run_evidence db)
      \<and> distinct (map (\<lambda>l. (li_run_id l, li_incident_id l)) (lb_run_incidents db))
      \<and> list_all (\<lambda>l. li_run_id l \<in> lr_run_id ` set (lb_runs db) \<and> li_incident_id l \<in> set (lb_incidents db))
          (lb_run_incidents db))"

definition selectable :: "LabRun \<Rightarrow> bool" where
  "selectable r = (lr_state r = COMPLETED \<or> lr_scenario_id r = BASELINE)"

definition context_ok :: "LabDb \<Rightarrow> bool" where
  "context_ok db =
     (case lb_context db of
        None \<Rightarrow> True
      | Some ctx \<Rightarrow> 1 \<le> lc_version ctx \<and> list_ex (\<lambda>r. lr_run_id r = lc_active_run_id ctx \<and> selectable r) (lb_runs db))"

definition lab_inv :: "pydantic \<Rightarrow> LoadedDataset \<Rightarrow> LabDb \<Rightarrow> bool" where
  "lab_inv pd dataset db =
     (accounts_inv (lb_auth db) \<and> runs_ok dataset (lb_runs db) \<and> links_ok pd db \<and> context_ok db)"

section \<open>What is kept\<close>

text \<open>The same run later: its description never changes, and a completed scenario not at all.\<close>

definition later_run :: "LabRun \<Rightarrow> LabRun \<Rightarrow> bool" where
  "later_run r r' =
     (r' = r\<lparr>lr_state := lr_state r', lr_completed_at := lr_completed_at r',
        lr_evidence_observed_from := lr_evidence_observed_from r', lr_evidence_observed_to := lr_evidence_observed_to r',
        lr_failure_code := lr_failure_code r', lr_updated_at := lr_updated_at r'\<rparr>
      \<and> (lr_state r = COMPLETED \<and> lr_scenario_id r \<noteq> BASELINE \<longrightarrow> r' = r))"

definition context_version :: "LabDb \<Rightarrow> int" where
  "context_version db = (case lb_context db of None \<Rightarrow> 0 | Some ctx \<Rightarrow> lc_version ctx)"

definition lab_history :: "LabDb \<Rightarrow> LabDb \<Rightarrow> bool" where
  "lab_history db db' =
     (account_history (lb_auth db) (lb_auth db') \<and> later_store (lb_evidence db) (lb_evidence db')
      \<and> set (lb_incidents db) \<subseteq> set (lb_incidents db')
      \<and> (\<forall>r \<in> set (lb_runs db). \<exists>r' \<in> set (lb_runs db'). later_run r r')
      \<and> prefix (lb_run_evidence db) (lb_run_evidence db') \<and> prefix (lb_run_incidents db) (lb_run_incidents db')
      \<and> context_version db \<le> context_version db')"

definition keeps_lab :: "pydantic \<Rightarrow> LoadedDataset \<Rightarrow> LabDb \<Rightarrow> LabDb \<Rightarrow> bool" where
  "keeps_lab pd dataset db db' = (lab_inv pd dataset db \<longrightarrow> lab_inv pd dataset db' \<and> lab_history db db')"

lemma later_run_refl [simp]: "later_run r r"
  by (simp add: later_run_def)

lemma later_run_same:
  assumes "later_run r r'"
  shows "lr_run_id r' = lr_run_id r" "lr_scenario_id r' = lr_scenario_id r" "scope_of_run r' = scope_of_run r"
    "described dataset r' = described dataset r" "selectable r \<Longrightarrow> selectable r'"
proof -
  from assms have r': "r' = r\<lparr>lr_state := lr_state r', lr_completed_at := lr_completed_at r',
        lr_evidence_observed_from := lr_evidence_observed_from r', lr_evidence_observed_to := lr_evidence_observed_to r',
        lr_failure_code := lr_failure_code r', lr_updated_at := lr_updated_at r'\<rparr>"
    and fixed: "lr_state r = COMPLETED \<and> lr_scenario_id r \<noteq> BASELINE \<longrightarrow> r' = r"
    by (simp_all add: later_run_def)
  show same: "lr_run_id r' = lr_run_id r" "lr_scenario_id r' = lr_scenario_id r" "scope_of_run r' = scope_of_run r"
    by (subst r', simp add: scope_of_run_def)+
  show "described dataset r' = described dataset r"
    by (subst r') (simp add: described_def scope_of_run_def)
  show "selectable r \<Longrightarrow> selectable r'" using fixed same(2) by (auto simp: selectable_def)
qed

lemma later_run_trans:
  assumes "later_run r s" "later_run s t"
  shows "later_run r t"
proof -
  have "lr_state r = COMPLETED \<and> lr_scenario_id r \<noteq> BASELINE \<longrightarrow> t = r"
    using assms by (auto simp: later_run_def)
  moreover have "t = r\<lparr>lr_state := lr_state t, lr_completed_at := lr_completed_at t,
        lr_evidence_observed_from := lr_evidence_observed_from t, lr_evidence_observed_to := lr_evidence_observed_to t,
        lr_failure_code := lr_failure_code t, lr_updated_at := lr_updated_at t\<rparr>"
    using assms unfolding later_run_def by (cases r, cases s, cases t) simp
  ultimately show ?thesis unfolding later_run_def by blast
qed

lemma later_run_ex: "r \<in> set rs \<Longrightarrow> \<exists>r' \<in> set rs. later_run r r'"
  by (blast intro: later_run_refl)

lemma lab_history_refl [simp]: "lab_history db db"
  by (simp add: lab_history_def later_run_ex)

lemma lab_history_trans:
  assumes "lab_history a b" "lab_history b c"
  shows "lab_history a c"
proof -
  have "\<exists>t \<in> set (lb_runs c). later_run r t" if "r \<in> set (lb_runs a)" for r
    using assms that unfolding lab_history_def by (meson later_run_trans)
  then show ?thesis
    using assms unfolding lab_history_def
    by (auto intro: account_history_trans later_store_trans prefix_order.trans)
qed

lemma keeps_lab_refl [simp]: "keeps_lab pd dataset db db"
  by (simp add: keeps_lab_def)

lemma keeps_lab_trans: "keeps_lab pd dataset a b \<Longrightarrow> keeps_lab pd dataset b c \<Longrightarrow> keeps_lab pd dataset a c"
  by (auto simp: keeps_lab_def intro: lab_history_trans)

section \<open>Changes of the tables\<close>

text \<open>The accounts, the evidence and the incidents may move on by themselves.\<close>

lemma link_ok_later:
  assumes "link_ok pd st rs l" "later_store st st'" "\<And>r. r \<in> set rs \<Longrightarrow> \<exists>r' \<in> set rs'. later_run r r'"
  shows "link_ok pd st' rs' l"
proof -
  from assms(1) obtain r e where r: "r \<in> set rs" "lr_run_id r = le_run_id l" "get_evidence st (le_evidence_id l) = Some e"
    "verifies pd st e" "check_scope (scope_of_run r) e = Inr ()"
    by (auto simp: link_ok_def list_ex_iff split: option.splits)
  from assms(3) [OF r(1)] obtain r' where "r' \<in> set rs'" "later_run r r'" by blast
  with r later_run_same [of r r'] later_get_evidence [OF assms(2) r(3)] later_verifies [OF assms(2), of pd e]
  show ?thesis by (auto simp: link_ok_def list_ex_iff intro!: bexI [of _ r'])
qed

lemma environment_keeps:
  assumes "keeps_accounts (lb_auth db) auth" "later_store (lb_evidence db) st" "set (lb_incidents db) \<subseteq> set incs"
  shows "keeps_lab pd dataset db (db\<lparr>lb_auth := auth, lb_evidence := st, lb_incidents := incs\<rparr>)"
proof -
  let ?db = "db\<lparr>lb_auth := auth, lb_evidence := st, lb_incidents := incs\<rparr>"
  have "links_ok pd db \<Longrightarrow> links_ok pd ?db"
    using assms(3) link_ok_later [OF _ assms(2), of pd "lb_runs db" _ "lb_runs db"] later_run_ex
    by (auto simp: links_ok_def list_all_iff)
  moreover have "context_ok ?db = context_ok db" by (simp add: context_ok_def split: option.split)
  ultimately show ?thesis
    using assms by (auto simp: keeps_lab_def lab_inv_def keeps_accounts_def lab_history_def context_version_def later_run_ex)
qed

lemma accounts_keeps_lab:
  "keeps_accounts (lb_auth db) auth \<Longrightarrow> keeps_lab pd dataset db (db\<lparr>lb_auth := auth\<rparr>)"
  using environment_keeps [of db auth "lb_evidence db" "lb_incidents db"] by simp

lemma lab_audit_keeps: "append_lab_audit e db = Inr db' \<Longrightarrow> keeps_lab pd dataset db db'"
  by (auto simp: append_lab_audit_def rbind_eq_Inr intro: accounts_keeps_lab audit_keeps)

lemma lab_audit_same:
  "append_lab_audit e db = Inr db' \<Longrightarrow> lb_runs db' = lb_runs db \<and> lb_context db' = lb_context db"
  by (auto simp: append_lab_audit_def rbind_eq_Inr)

text \<open>Replacing a run by a later one.\<close>

lemma unique_run_mono:
  "unique_run P rs \<Longrightarrow> (\<And>r. r \<in> set rs \<Longrightarrow> lr_run_id (f r) = lr_run_id r) \<Longrightarrow> (\<And>r. r \<in> set rs \<Longrightarrow> P (f r) \<Longrightarrow> P r)
   \<Longrightarrow> unique_run P (map f rs)"
  unfolding unique_run_def set_map ball_simps by metis

lemma map_runs_keeps:
  assumes "\<And>r. r \<in> set (lb_runs db) \<Longrightarrow> later_run r (f r)"
    "\<And>r. r \<in> set (lb_runs db) \<Longrightarrow> valid_run r \<Longrightarrow> valid_run (f r)"
    "unique_run (\<lambda>r. lr_state r = RUNNING) (lb_runs db) \<Longrightarrow> unique_run (\<lambda>r. lr_state r = RUNNING) (map f (lb_runs db))"
  shows "keeps_lab pd dataset db (db\<lparr>lb_runs := map f (lb_runs db)\<rparr>)"
proof -
  let ?db = "db\<lparr>lb_runs := map f (lb_runs db)\<rparr>"
  note same = later_run_same [OF assms(1)]
  have ids: "map (lr_run_id \<circ> f) (lb_runs db) = map lr_run_id (lb_runs db)" using same(1) by simp
  then have ids': "lr_run_id ` f ` set (lb_runs db) = lr_run_id ` set (lb_runs db)"
    by (metis image_comp list.set_map)
  have ex: "\<exists>r' \<in> set (map f (lb_runs db)). later_run r r'" if "r \<in> set (lb_runs db)" for r
    using assms(1) [OF that] that by auto
  have "runs_ok dataset (map f (lb_runs db))" if ok: "runs_ok dataset (lb_runs db)"
  proof -
    have "distinct (map lr_run_id (map f (lb_runs db)))"
      using ok unfolding map_map ids by (simp add: runs_ok_def)
    moreover have "list_all valid_run (map f (lb_runs db))" "list_all (described dataset) (map f (lb_runs db))"
      using ok assms(2) same(4) by (simp_all add: runs_ok_def list_all_iff)
    moreover have "unique_run (\<lambda>r. lr_scenario_id r = BASELINE) (map f (lb_runs db))"
      using ok same(1,2) by (intro unique_run_mono) (simp_all add: runs_ok_def)
    ultimately show ?thesis using ok assms(3) by (simp add: runs_ok_def)
  qed
  moreover have "links_ok pd ?db" if "links_ok pd db"
  proof -
    have "list_all (link_ok pd (lb_evidence db) (map f (lb_runs db))) (lb_run_evidence db)"
      using that link_ok_later [OF _ later_store_refl, of pd _ "lb_runs db" _ "map f (lb_runs db)"] ex
      unfolding links_ok_def list_all_iff by blast
    with that show ?thesis by (simp add: links_ok_def ids')
  qed
  moreover have "context_ok db \<Longrightarrow> context_ok ?db"
    using same(1,5) by (auto simp: context_ok_def list_ex_iff split: option.splits)
  ultimately show ?thesis
    using ex by (auto simp: keeps_lab_def lab_inv_def lab_history_def context_version_def)
qed

text \<open>Replacing one run, found by its identifier.\<close>

lemma find_run_Some: "find_run db k = Some r \<Longrightarrow> r \<in> set (lb_runs db) \<and> lr_run_id r = k"
  unfolding find_run_def by (rule find_eq_Some_iff)

lemma find_baseline_Some: "find_baseline db = Some r \<Longrightarrow> r \<in> set (lb_runs db) \<and> lr_scenario_id r = BASELINE"
  unfolding find_baseline_def by (rule find_eq_Some_iff)

lemma run_unique:
  "runs_ok dataset rs \<Longrightarrow> r \<in> set rs \<Longrightarrow> s \<in> set rs \<Longrightarrow> lr_run_id r = lr_run_id s \<Longrightarrow> r = s"
  by (auto simp: runs_ok_def distinct_map inj_on_def)

lemma set_run_keeps:
  assumes "r \<in> set (lb_runs db)" "later_run r u" "valid_run r \<Longrightarrow> valid_run u"
    "\<And>s. s \<in> set (lb_runs db) \<Longrightarrow> lr_state u = RUNNING \<Longrightarrow> lr_state s = RUNNING \<Longrightarrow> lr_run_id s = lr_run_id r"
  shows "keeps_lab pd dataset db (set_run u db)"
proof (cases "lab_inv pd dataset db")
  case True
  then have only: "s = r" if "s \<in> set (lb_runs db)" "lr_run_id s = lr_run_id u" for s
    using run_unique [of dataset "lb_runs db" s r] that assms(1) later_run_same(1) [OF assms(2)]
    by (simp add: lab_inv_def)
  let ?f = "\<lambda>s. if lr_run_id s = lr_run_id u then u else s"
  have running: "unique_run (\<lambda>r. lr_state r = RUNNING) (map ?f (lb_runs db))"
    if "unique_run (\<lambda>r. lr_state r = RUNNING) (lb_runs db)"
    unfolding unique_run_def set_map ball_simps
  proof (intro ballI impI)
    fix s t
    assume st: "s \<in> set (lb_runs db)" "t \<in> set (lb_runs db)" "lr_state (?f s) = RUNNING" "lr_state (?f t) = RUNNING"
    have u: "lr_run_id v = lr_run_id u" if "v \<in> set (lb_runs db)" "lr_state v = RUNNING" "lr_state u = RUNNING" for v
      using assms(4) [OF that(1) that(3) that(2)] later_run_same(1) [OF assms(2)] by simp
    show "lr_run_id (?f s) = lr_run_id (?f t)"
      using st u [of s] u [of t] that [unfolded unique_run_def, rule_format, OF st(1,2)]
      by (cases "lr_run_id s = lr_run_id u"; cases "lr_run_id t = lr_run_id u") simp_all
  qed
  have "later_run s (?f s)" if "s \<in> set (lb_runs db)" for s
    using only [OF that] assms(2) by (cases "lr_run_id s = lr_run_id u") simp_all
  moreover have "valid_run s \<Longrightarrow> valid_run (?f s)" if "s \<in> set (lb_runs db)" for s
    using only [OF that] assms(3) by (cases "lr_run_id s = lr_run_id u") simp_all
  ultimately show ?thesis
    using running unfolding set_run_def by (intro map_runs_keeps)
qed (simp add: keeps_lab_def)

lemma set_run_simps [simp]:
  "lb_auth (set_run u db) = lb_auth db" "lb_context (set_run u db) = lb_context db"
  "lb_run_evidence (set_run u db) = lb_run_evidence db" "lb_evidence (set_run u db) = lb_evidence db"
  by (simp_all add: set_run_def)

text \<open>Adding a run and links.\<close>

lemma unique_run_snoc:
  assumes "unique_run P rs" "\<And>r. P u \<Longrightarrow> r \<in> set rs \<Longrightarrow> \<not> P r"
  shows "unique_run P (rs @ [u])"
proof -
  have "P u \<Longrightarrow> \<forall>r \<in> set rs. \<not> P r" using assms(2) by blast
  with assms(1) show ?thesis unfolding unique_run_def set_append list.set by blast
qed

lemma insert_run_keeps:
  assumes "insert_run run db = Some db'" "valid_run run" "described dataset run"
  shows "keeps_lab pd dataset db db'"
proof -
  have new: "lr_run_id run \<notin> lr_run_id ` set (lb_runs db)" "lr_scenario_id run = BASELINE \<Longrightarrow> find_baseline db = None"
    "lr_state run = RUNNING \<Longrightarrow> \<not> some_running db" and db': "db' = db\<lparr>lb_runs := lb_runs db @ [run]\<rparr>"
    using assms(1) by (auto simp: insert_run_def split: if_splits)
  have "runs_ok dataset (lb_runs db @ [run])" if "runs_ok dataset (lb_runs db)"
  proof -
    have "unique_run (\<lambda>r. lr_scenario_id r = BASELINE) (lb_runs db @ [run])"
      using that new(2) by (intro unique_run_snoc) (auto simp: runs_ok_def find_baseline_def find_eq_None_iff)
    moreover have "unique_run (\<lambda>r. lr_state r = RUNNING) (lb_runs db @ [run])"
      using that new(3) by (intro unique_run_snoc) (auto simp: runs_ok_def some_running_def list_ex_iff)
    ultimately show ?thesis using that new(1) assms(2,3) by (simp add: runs_ok_def)
  qed
  moreover have "links_ok pd db'" if "links_ok pd db"
  proof -
    have "list_all (link_ok pd (lb_evidence db) (lb_runs db @ [run])) (lb_run_evidence db)"
      using that unfolding links_ok_def by (auto simp: list_all_iff link_ok_def list_ex_iff)
    with that show ?thesis by (auto simp: links_ok_def db' list_all_iff)
  qed
  moreover have "context_ok db \<Longrightarrow> context_ok db'"
    by (auto simp: context_ok_def db' split: option.splits)
  ultimately show ?thesis
    by (auto simp: keeps_lab_def lab_inv_def lab_history_def context_version_def db' later_run_ex)
qed

lemma window_None [simp]: "window_ok None b"
  by (simp add: window_ok_def)

lemma window_Min_Max: "xs \<noteq> [] \<Longrightarrow> window_ok (Some (Min (f ` set xs))) (Some (Max (f ` set xs)))"
  by (simp add: window_ok_def Max_ge [OF _ Min_in])

lemma new_run_Inr:
  assumes "new_run dataset scenario actor_user_id actor_context now k = Inr run"
  shows "valid_run run" "described dataset run" "lr_run_id run = k" "lr_scenario_id run = scenario" "lr_state run = RUNNING"
  using assms by (auto simp: new_run_def Let_def valid_run_def described_def scope_of_run_def case_scope_def split: if_splits)

lemma add_run_evidence_keeps:
  assumes "r \<in> set (lb_runs db)" "lr_run_id r = le_run_id l" "get_evidence (lb_evidence db) (le_evidence_id l) = Some e"
    "verifies pd (lb_evidence db) e" "check_scope (scope_of_run r) e = Inr ()"
  shows "keeps_lab pd dataset db (add_run_evidence l db)"
proof -
  have "link_ok pd (lb_evidence db) (lb_runs db) l"
    using assms by (auto simp: link_ok_def list_ex_iff)
  then have "links_ok pd db \<Longrightarrow> links_ok pd (add_run_evidence l db)"
    by (auto simp: links_ok_def add_run_evidence_def)
  moreover have "context_ok (add_run_evidence l db) = context_ok db"
    by (simp add: context_ok_def add_run_evidence_def split: option.split)
  ultimately show ?thesis
    by (auto simp: keeps_lab_def lab_inv_def lab_history_def context_version_def add_run_evidence_def later_run_ex)
qed

lemma add_run_incident_keeps:
  assumes "li_run_id l \<in> lr_run_id ` set (lb_runs db)" "li_incident_id l \<in> set (lb_incidents db)"
  shows "keeps_lab pd dataset db (add_run_incident l db)"
proof -
  have "links_ok pd db \<Longrightarrow> links_ok pd (add_run_incident l db)"
    using assms by (auto simp: links_ok_def add_run_incident_def)
  moreover have "context_ok (add_run_incident l db) = context_ok db"
    by (simp add: context_ok_def add_run_incident_def split: option.split)
  ultimately show ?thesis
    by (auto simp: keeps_lab_def lab_inv_def lab_history_def context_version_def add_run_incident_def later_run_ex)
qed

lemma add_link_simps [simp]:
  "lb_runs (add_run_evidence l db) = lb_runs db" "lb_evidence (add_run_evidence l db) = lb_evidence db"
  "lb_incidents (add_run_evidence l db) = lb_incidents db" "lb_auth (add_run_evidence l db) = lb_auth db"
  "lb_runs (add_run_incident m db) = lb_runs db" "lb_incidents (add_run_incident m db) = lb_incidents db"
  by (simp_all add: add_run_evidence_def add_run_incident_def)

lemma link_incidents_keeps:
  assumes "link_incidents k linked_at ks db = Inr db'" "k \<in> lr_run_id ` set (lb_runs db)"
  shows "keeps_lab pd dataset db db' \<and> lb_runs db' = lb_runs db"
  using assms
proof (induction k linked_at ks db rule: link_incidents.induct)
  case (2 run_id linked_at k ks db)
  let ?db = "add_run_incident \<lparr>li_run_id = run_id, li_incident_id = k, li_linked_at = linked_at\<rparr> db"
  have k: "k \<in> set (lb_incidents db)" and rest: "link_incidents run_id linked_at ks ?db = Inr db'"
    using 2(2) by (simp_all split: if_splits)
  have "keeps_lab pd dataset ?db db' \<and> lb_runs db' = lb_runs ?db"
    using k rest 2(3) by (intro 2(1)) simp_all
  moreover have "keeps_lab pd dataset db ?db" using 2(3) k by (intro add_run_incident_keeps) simp_all
  ultimately show ?case using keeps_lab_trans by simp
qed simp

text \<open>The records of a closure are linked to their run.\<close>

definition linkable :: "pydantic \<Rightarrow> LabDb \<Rightarrow> LabRun \<Rightarrow> EvidenceRecord \<Rightarrow> bool" where
  "linkable pd db run e =
     (get_evidence (lb_evidence db) (rec_evidence_id e) = Some e \<and> verifies pd (lb_evidence db) e
      \<and> check_scope (scope_of_run run) e = Inr ())"

lemma link_records_keeps:
  assumes "run \<in> set (lb_runs db)" "list_all (linkable pd db run) records" "\<And>e. le_run_id (link e) = lr_run_id run"
    "\<And>e. le_evidence_id (link e) = rec_evidence_id e"
  shows "keeps_lab pd dataset db (fold (\<lambda>e. add_run_evidence (link e)) records db)
    \<and> lb_runs (fold (\<lambda>e. add_run_evidence (link e)) records db) = lb_runs db"
  using assms(1,2)
proof (induction records arbitrary: db)
  case (Cons e records)
  let ?db = "add_run_evidence (link e) db"
  have "keeps_lab pd dataset db ?db"
    using Cons.prems assms(3,4) by (intro add_run_evidence_keeps [of run _ _ e]) (simp_all add: linkable_def)
  moreover have "list_all (linkable pd ?db run) records"
    using Cons.prems(2) by (simp add: list_all_iff linkable_def)
  ultimately show ?case
    using Cons.IH [of ?db] Cons.prems(1) keeps_lab_trans by simp
qed simp

lemma link_execution_keeps:
  assumes "link_execution run execution records linked_at db = Inr db'" "run \<in> set (lb_runs db)"
    "list_all (linkable pd db run) records"
  shows "keeps_lab pd dataset db db' \<and> lb_runs db' = lb_runs db"
proof -
  define link where "link e = \<lparr>le_run_id = lr_run_id run, le_evidence_id = rec_evidence_id e,
    le_role = (if rec_evidence_id e \<in> set (map es_evidence_id (dx_evidence_roots execution)) then ROOT else LINEAGE),
    le_linked_at = linked_at\<rparr>" for e :: EvidenceRecord
  let ?db = "fold (\<lambda>e. add_run_evidence (link e)) records db"
  have linked: "keeps_lab pd dataset db ?db \<and> lb_runs ?db = lb_runs db"
    by (rule link_records_keeps [OF assms(2,3)]) (simp_all add: link_def)
  have "link_incidents (lr_run_id run) linked_at (dx_incident_ids execution) ?db = Inr db'"
    using assms(1) by (simp add: link_execution_def Let_def link_def split: if_splits)
  from link_incidents_keeps [OF this, of pd dataset] linked assms(2) show ?thesis
    using keeps_lab_trans by auto
qed

lemma audit_when_keeps:
  assumes "audit_when origin event db = Inr db'"
  shows "keeps_lab pd dataset db db' \<and> lb_runs db' = lb_runs db \<and> lb_context db' = lb_context db"
  using assms lab_audit_keeps lab_audit_same by (fastforce simp: audit_when_def split: option.splits)

section \<open>The transactions\<close>

lemma fail_stale_keeps: "keeps_lab pd dataset db (fail_stale now db)"
  unfolding fail_stale_def
proof (rule map_runs_keeps)
  let ?f = "\<lambda>r. if lr_state r = RUNNING then mark_failed now ''BACKEND_RESTARTED'' r else r"
  show "later_run r (?f r)" for r by (simp add: later_run_def mark_failed_def)
  show "valid_run r \<Longrightarrow> valid_run (?f r)" for r by (auto simp: valid_run_def mark_failed_def)
  show "unique_run (\<lambda>r. lr_state r = RUNNING) (map ?f (lb_runs db))"
    by (auto simp: unique_run_def mark_failed_def)
qed

lemma begin_scenario_keeps:
  assumes "begin_scenario dataset scenario actor_user_id actor_context request_id k audit_id now db = Inr (k', db')"
  shows "keeps_lab pd dataset db db'" "k' = k" "scenario \<noteq> BASELINE" "k \<notin> lr_run_id ` set (lb_runs db)"
    "\<exists>r. lb_runs db' = lb_runs db @ [r] \<and> lr_run_id r = k \<and> lr_scenario_id r = scenario \<and> lr_state r = RUNNING"
proof -
  from assms obtain run db1 e where run: "new_run dataset scenario (Some actor_user_id) actor_context now k = Inr run"
    and ins: "insert_run run db = Some db1" and audit: "append_lab_audit e db1 = Inr db'" and
    rest: "k' = k" "scenario \<noteq> BASELINE"
    by (auto simp: begin_scenario_def rbind_eq_Inr split: if_splits option.splits)
  note new = new_run_Inr [OF run]
  show "keeps_lab pd dataset db db'"
    using insert_run_keeps [OF ins new(1,2)] lab_audit_keeps [OF audit] by (rule keeps_lab_trans)
  show "k' = k" "scenario \<noteq> BASELINE" by (fact rest)+
  show "k \<notin> lr_run_id ` set (lb_runs db)" using ins new(3) by (auto simp: insert_run_def split: if_splits)
  show "\<exists>r. lb_runs db' = lb_runs db @ [r] \<and> lr_run_id r = k \<and> lr_scenario_id r = scenario \<and> lr_state r = RUNNING"
    using ins new(3-5) lab_audit_same [OF audit] by (auto simp: insert_run_def split: if_splits)
qed

lemma prepare_baseline_keeps:
  assumes "prepare_baseline dataset actor_user_id actor_context now db = Inr (k, db')"
  shows "keeps_lab pd dataset db db'"
    "\<exists>r \<in> set (lb_runs db'). lr_run_id r = k \<and> lr_scenario_id r = BASELINE"
    "\<forall>r' \<in> set (lb_runs db'). lr_scenario_id r' \<noteq> BASELINE \<longrightarrow> r' \<in> set (lb_runs db)"
proof -
  have "keeps_lab pd dataset db db' \<and> (\<exists>r \<in> set (lb_runs db'). lr_run_id r = k \<and> lr_scenario_id r = BASELINE)
    \<and> (\<forall>r' \<in> set (lb_runs db'). lr_scenario_id r' \<noteq> BASELINE \<longrightarrow> r' \<in> set (lb_runs db))"
  proof (cases "find_baseline db")
    case None
    with assms obtain run where run: "new_run dataset BASELINE actor_user_id actor_context now (baseline_run_id dataset) = Inr run"
      and ins: "insert_run run db = Some db'" "k = lr_run_id run"
      by (auto simp: prepare_baseline_def rbind_eq_Inr split: option.splits)
    with insert_run_keeps [OF ins(1) new_run_Inr(1,2) [OF run]] new_run_Inr(4) [OF run] show ?thesis
      by (auto simp: insert_run_def split: if_splits)
  next
    case (Some b)
    note b = find_baseline_Some [OF Some]
    show ?thesis
    proof (cases "lr_state b = COMPLETED")
      case True
      with assms Some b show ?thesis by (auto simp: prepare_baseline_def)
    next
      case False
      let ?u = "b\<lparr>lr_state := RUNNING, lr_completed_at := None, lr_failure_code := None, lr_updated_at := now\<rparr>"
      from assms Some False have free: "\<And>r. r \<in> set (lb_runs db) \<Longrightarrow> lr_state r = RUNNING \<Longrightarrow> lr_run_id r = lr_run_id b"
        and db': "k = lr_run_id b" "db' = set_run ?u db"
        by (auto simp: prepare_baseline_def list_ex_iff split: if_splits)
      have "keeps_lab pd dataset db (set_run ?u db)"
        using b free by (intro set_run_keeps [of b]) (auto simp: later_run_def valid_run_def)
      moreover have "\<exists>r \<in> set (lb_runs (set_run ?u db)). lr_run_id r = lr_run_id b \<and> lr_scenario_id r = BASELINE"
      proof
        show "?u \<in> set (lb_runs (set_run ?u db))" using b by (force simp: set_run_def)
      qed (use b in simp)
      moreover have "\<forall>r' \<in> set (lb_runs (set_run ?u db)). lr_scenario_id r' \<noteq> BASELINE \<longrightarrow> r' \<in> set (lb_runs db)"
        using b by (auto simp: set_run_def)
      ultimately show ?thesis using db' by simp
    qed
  qed
  then show "keeps_lab pd dataset db db'" "\<exists>r \<in> set (lb_runs db'). lr_run_id r = k \<and> lr_scenario_id r = BASELINE"
    "\<forall>r' \<in> set (lb_runs db'). lr_scenario_id r' \<noteq> BASELINE \<longrightarrow> r' \<in> set (lb_runs db)" by blast+
qed

text \<open>A run may be executed when it is the Baseline, or has not completed.\<close>

definition executable_run :: "LabDb \<Rightarrow> uuid \<Rightarrow> LabScenarioId \<Rightarrow> bool" where
  "executable_run db k scenario =
     list_ex (\<lambda>r. lr_run_id r = k \<and> lr_scenario_id r = scenario \<and> (lr_state r = COMPLETED \<longrightarrow> scenario = BASELINE)) (lb_runs db)"

lemma executable_found:
  assumes "executable_run db k scenario" "runs_ok dataset (lb_runs db)"
  obtains r where "find_run db k = Some r" "r \<in> set (lb_runs db)" "lr_run_id r = k" "lr_scenario_id r = scenario"
    "lr_state r = COMPLETED \<longrightarrow> scenario = BASELINE"
proof -
  from assms(1) obtain r where r: "r \<in> set (lb_runs db)" "lr_run_id r = k" "lr_scenario_id r = scenario"
    "lr_state r = COMPLETED \<longrightarrow> scenario = BASELINE" by (auto simp: executable_run_def list_ex_iff)
  then obtain s where s: "find_run db k = Some s"
    by (cases "find_run db k") (auto simp: find_run_def find_eq_None_iff)
  with find_run_Some [OF s] run_unique [OF assms(2) r(1), of s] r(2) have "s = r" by simp
  with s r that show ?thesis by blast
qed

lemma completed_run_later:
  assumes "lr_state r = COMPLETED \<longrightarrow> lr_scenario_id r = BASELINE"
  shows "later_run r (completed_run t records r)" "valid_run r \<Longrightarrow> valid_run (completed_run t records r)"
    "lr_state (completed_run t records r) = COMPLETED"
  using assms by (auto simp: completed_run_def later_run_def valid_run_def Let_def window_Min_Max)

lemma mark_failed_later:
  assumes "lr_state r = COMPLETED \<longrightarrow> lr_scenario_id r = BASELINE"
  shows "later_run r (mark_failed t code r)" "valid_run r \<Longrightarrow> valid_run (mark_failed t code r)"
    "lr_state (mark_failed t code r) = FAILED"
  using assms by (auto simp: mark_failed_def later_run_def valid_run_def)

lemma closure_linkable:
  assumes "verified_execution_closure pd (lb_evidence db) dcase execution = Inr records"
    "scope_of_run run = case_scope dcase"
  shows "list_all (linkable pd db run) records"
proof -
  from assms(1) obtain taken where "closure_loop pd (lb_evidence db) (case_scope dcase) (execution_roots execution) [] [] = Inr taken"
    "records = sort_key closure_order taken" by (auto simp: closure_unfold)
  with closure_loop_reachable(1) [of pd "lb_evidence db" "case_scope dcase" "execution_roots execution" taken] assms(2)
  show ?thesis by (auto simp: list_all_iff linkable_def taken_ok_def usable_def)
qed

lemma execute_transaction_keeps:
  assumes "execute_transaction pd dataset k scenario pipeline t origin db = Inr (run, db')"
    "executable_run db k scenario" "lab_inv pd dataset db"
  shows "keeps_lab pd dataset db db'"
    "\<exists>r. find_run db k = Some r \<and> later_run r run \<and> lb_runs db' = map (\<lambda>s. if lr_run_id s = k then run else s) (lb_runs db)"
    "lr_state run = COMPLETED"
proof -
  have inv: "runs_ok dataset (lb_runs db)" using assms(3) by (simp add: lab_inv_def)
  from assms(2) inv obtain r where r: "find_run db k = Some r" "r \<in> set (lb_runs db)" "lr_run_id r = k"
    "lr_scenario_id r = scenario" "lr_state r = COMPLETED \<longrightarrow> scenario = BASELINE" by (rule executable_found)
  from assms(1) r(1) obtain execution records db1 event where
    closure: "verified_execution_closure pd (lb_evidence db) (dataset_case dataset scenario) execution = Inr records"
    and link: "link_execution r execution records t db = Inr db1"
    and audit: "audit_when origin event (set_run run db1) = Inr db'" and run: "run = completed_run t records r"
    by (auto simp: execute_transaction_def rbind_eq_Inr Let_def split: option.splits)
  have "scope_of_run r = case_scope (dataset_case dataset scenario)"
    using inv r(2,4) by (simp add: runs_ok_def list_all_iff described_def)
  then have linkable: "list_all (linkable pd db r) records" by (rule closure_linkable [OF closure])
  have linked: "keeps_lab pd dataset db db1" "lb_runs db1 = lb_runs db"
    using link_execution_keeps [OF link r(2) linkable] by simp_all
  note fresh = completed_run_later [of r t records, folded run]
  have fin: "lr_state r = COMPLETED \<longrightarrow> lr_scenario_id r = BASELINE" using r(4,5) by simp
  have "keeps_lab pd dataset db1 (set_run run db1)"
    using r(2) linked(2) fresh [OF fin] by (intro set_run_keeps [of r]) simp_all
  with linked(1) audit_when_keeps [OF audit] show "keeps_lab pd dataset db db'" using keeps_lab_trans by blast
  show "lr_state run = COMPLETED" using fresh [OF fin] by simp
  have "lr_run_id run = k" using later_run_same(1) [OF fresh(1) [OF fin]] r(3) by simp
  then have "lb_runs db' = map (\<lambda>s. if lr_run_id s = k then run else s) (lb_runs db)"
    using audit_when_keeps [OF audit] linked(2) by (simp add: set_run_def)
  with r(1) fresh(1) [OF fin]
  show "\<exists>r. find_run db k = Some r \<and> later_run r run \<and> lb_runs db' = map (\<lambda>s. if lr_run_id s = k then run else s) (lb_runs db)"
    by blast
qed

lemma failed_execution_keeps:
  assumes "failed_execution k scenario t origin db = Inr db'" "executable_run db k scenario" "lab_inv pd dataset db"
  shows "keeps_lab pd dataset db db'"
    "\<exists>r u. find_run db k = Some r \<and> later_run r u \<and> lb_runs db' = map (\<lambda>s. if lr_run_id s = k then u else s) (lb_runs db)"
proof -
  have inv: "runs_ok dataset (lb_runs db)" using assms(3) by (simp add: lab_inv_def)
  from assms(2) inv obtain r where r: "find_run db k = Some r" "r \<in> set (lb_runs db)" "lr_run_id r = k"
    "lr_scenario_id r = scenario" "lr_state r = COMPLETED \<longrightarrow> scenario = BASELINE" by (rule executable_found)
  let ?u = "mark_failed t ''PIPELINE_EXECUTION_FAILED'' r"
  from assms(1) r(1) obtain event where audit: "audit_when origin event (set_run ?u db) = Inr db'"
    by (auto simp: failed_execution_def)
  note fresh = mark_failed_later [of r t "''PIPELINE_EXECUTION_FAILED''"]
  have fin: "lr_state r = COMPLETED \<longrightarrow> lr_scenario_id r = BASELINE" using r(4,5) by simp
  have "keeps_lab pd dataset db (set_run ?u db)"
    using r(2) fresh [OF fin] by (intro set_run_keeps [of r]) simp_all
  with audit_when_keeps [OF audit] show "keeps_lab pd dataset db db'" using keeps_lab_trans by blast
  have "lr_run_id ?u = k" using r(3) by (simp add: mark_failed_def)
  then have "lb_runs db' = map (\<lambda>s. if lr_run_id s = k then ?u else s) (lb_runs db)"
    using audit_when_keeps [OF audit] by (simp add: set_run_def)
  with r(1) fresh(1) [OF fin]
  show "\<exists>r u. find_run db k = Some r \<and> later_run r u \<and> lb_runs db' = map (\<lambda>s. if lr_run_id s = k then u else s) (lb_runs db)"
    by blast
qed

text \<open>An execution changes the row of its run and no other, and returns it only when it completed.\<close>

definition only_changes :: "uuid \<Rightarrow> LabDb \<Rightarrow> LabDb \<Rightarrow> bool" where
  "only_changes k db db' =
     (\<forall>r' \<in> set (lb_runs db'). lr_run_id r' \<noteq> k \<longrightarrow> r' \<in> set (lb_runs db))"

lemma execute_run_keeps:
  assumes "execute_run pd dataset k scenario pipeline t origin db = (res, db')"
    "executable_run db k scenario" "lab_inv pd dataset db"
  shows "keeps_lab pd dataset db db'" "only_changes k db db'"
    "res = Inr run \<Longrightarrow> run \<in> set (lb_runs db') \<and> lr_run_id run = k \<and> lr_scenario_id run = scenario \<and> lr_state run = COMPLETED"
proof -
  have inv: "runs_ok dataset (lb_runs db)" using assms(3) by (simp add: lab_inv_def)
  from assms(2) inv obtain r where r: "find_run db k = Some r" "r \<in> set (lb_runs db)" "lr_run_id r = k"
    "lr_scenario_id r = scenario" by (rule executable_found)
  have "keeps_lab pd dataset db db' \<and> only_changes k db db' \<and> (\<forall>run. res = Inr run \<longrightarrow>
      run \<in> set (lb_runs db') \<and> lr_run_id run = k \<and> lr_scenario_id run = scenario \<and> lr_state run = COMPLETED)"
  proof (cases "execute_transaction pd dataset k scenario pipeline t origin db")
    case (Inr p)
    obtain u d where p: "p = (u, d)" by (cases p)
    with Inr assms(1) have res: "res = Inr u" "d = db'" by (simp_all add: execute_run_def)
    note kept = execute_transaction_keeps [OF Inr [unfolded p] assms(2,3)]
    from kept(2) r(1) have u: "later_run r u" "lb_runs db' = map (\<lambda>s. if lr_run_id s = k then u else s) (lb_runs db)"
      by (auto simp: res(2))
    then have "u \<in> set (lb_runs db')" using r(2,3) by force
    moreover have "only_changes k db db'" using later_run_same(1) [OF u(1)] r(3) u(2) by (auto simp: only_changes_def)
    ultimately show ?thesis
      using kept(1,3) res later_run_same(1,2) [OF u(1)] r(3,4) by simp
  next
    case (Inl e)
    show ?thesis
    proof (cases "failed_execution k scenario t origin db")
      case Inl': (Inl e')
      with Inl assms(1) have "db' = db" "res = Inl e'" by (simp_all add: execute_run_def)
      then show ?thesis by (simp add: only_changes_def)
    next
      case (Inr d)
      with Inl assms(1) have res: "db' = d" "res = Inl (pipeline_error e)" by (simp_all add: execute_run_def)
      note kept = failed_execution_keeps [OF Inr assms(2,3)]
      from kept(2) r(1) obtain u where u: "later_run r u" "lb_runs d = map (\<lambda>s. if lr_run_id s = k then u else s) (lb_runs db)"
        by auto
      have "only_changes k db d" using later_run_same(1) [OF u(1)] r(3) u(2) by (auto simp: only_changes_def)
      with kept(1) res show ?thesis by simp
    qed
  qed
  then show "keeps_lab pd dataset db db'" "only_changes k db db'"
    "res = Inr run \<Longrightarrow> run \<in> set (lb_runs db') \<and> lr_run_id run = k \<and> lr_scenario_id run = scenario \<and> lr_state run = COMPLETED"
    by blast+
qed

lemma activate_transaction_keeps:
  assumes "activate_transaction run actor_user_id actor_context reason now db = Inr (x, db')"
    "list_ex (\<lambda>r. lr_run_id r = lr_run_id run \<and> selectable r) (lb_runs db)"
  shows "keeps_lab pd dataset db db'" "lb_runs db' = lb_runs db"
proof -
  have "context_ok db \<Longrightarrow> context_ok db'" "context_ok db \<Longrightarrow> context_version db \<le> context_version db'"
    "links_ok pd db' = links_ok pd db"
    using assms by (auto simp: activate_transaction_def context_ok_def context_version_def links_ok_def
        split: if_splits option.splits)
  then show "keeps_lab pd dataset db db'"
    using assms(1) by (auto simp: activate_transaction_def keeps_lab_def lab_inv_def lab_history_def later_run_ex split: if_splits)
  show "lb_runs db' = lb_runs db" using assms(1) by (auto simp: activate_transaction_def split: if_splits)
qed

lemma completed_baseline_selectable:
  "completed_baseline db = Inr b \<Longrightarrow> b \<in> set (lb_runs db) \<and> selectable b"
  by (auto simp: completed_baseline_def selectable_def split: option.splits if_splits dest: find_baseline_Some)

lemma audited_activation_keeps:
  assumes "append_lab_audit e db = Inr db1" "completed_baseline db = Inr b"
    "activate_transaction b actor_user_id actor_context reason now db1 = Inr (x, db')"
  shows "keeps_lab pd dataset db db'" "lb_runs db' = lb_runs db"
proof -
  have "list_ex (\<lambda>r. lr_run_id r = lr_run_id b \<and> selectable r) (lb_runs db1)"
    using completed_baseline_selectable [OF assms(2)] lab_audit_same [OF assms(1)] by (auto simp: list_ex_iff)
  note kept = activate_transaction_keeps [OF assms(3) this]
  show "keeps_lab pd dataset db db'" using lab_audit_keeps [OF assms(1)] kept(1) by (rule keeps_lab_trans)
  show "lb_runs db' = lb_runs db" using kept(2) lab_audit_same [OF assms(1)] by simp
qed

lemma baseline_transaction_keeps:
  assumes "baseline_transaction actor_user_id actor_context request_id audit_id now db = Inr (x, db')"
  shows "keeps_lab pd dataset db db'" "lb_runs db' = lb_runs db"
  using assms audited_activation_keeps by (auto simp: baseline_transaction_def rbind_eq_Inr)

lemma reset_transaction_keeps:
  assumes "reset_transaction actor_user_id actor_context request_id audit_id now db = Inr (x, db')"
  shows "keeps_lab pd dataset db db'" "lb_runs db' = lb_runs db"
  using assms audited_activation_keeps by (auto simp: reset_transaction_def rbind_eq_Inr split: if_splits)

section \<open>The lab as a state machine\<close>

text \<open>
  A request or a startup that is under way between two of its transactions: a startup that has failed
  the stale runs, a run that is executed, a completed run that is about to become active.
\<close>

datatype Flight =
    Starting string
  | Executing uuid LabScenarioId audit_origin string
  | Activating LabRun audit_origin string

definition executed :: "LabError + LabRun \<Rightarrow> audit_origin \<Rightarrow> string \<Rightarrow> Flight list" where
  "executed res origin actor_context = (case res of Inl e \<Rightarrow> [] | Inr run \<Rightarrow> [Activating run origin actor_context])"

definition activation_reason :: "LabRun \<Rightarrow> LabActivationReason" where
  "activation_reason run =
     (if lr_scenario_id run = BASELINE then STARTUP_BASELINE else LabActivationReason.SCENARIO_COMPLETED)"

text \<open>
  Any transaction may come next: one of a request under way, a new request, a restart. The backend may
  stop at any point, which abandons what is under way; accounts, evidence and incidents change by
  themselves; the pipeline may return anything, or raise.
\<close>

inductive lab_step ::
  "pydantic \<Rightarrow> LoadedDataset \<Rightarrow> kdf \<Rightarrow> AuthSettings \<Rightarrow> LabDb \<times> Flight list \<Rightarrow> LabDb \<times> Flight list \<Rightarrow> bool"
  for pd dataset scrypt settings where
  accounts_step: "auth_step scrypt settings op (lb_auth db) = Inr (x, auth)
    \<Longrightarrow> lab_step pd dataset scrypt settings (db, fl) (db\<lparr>lb_auth := auth\<rparr>, fl)"
| evidence_step: "later_store (lb_evidence db) st \<Longrightarrow> set (lb_incidents db) \<subseteq> set incs
    \<Longrightarrow> lab_step pd dataset scrypt settings (db, fl) (db\<lparr>lb_evidence := st, lb_incidents := incs\<rparr>, fl)"
| start_step: "start_transaction dataset settings request scenario draws db = Inr ((caller, k), db')
    \<Longrightarrow> lab_step pd dataset scrypt settings (db, fl)
      (db', Executing k scenario (Some (lu_user_id (ap_user caller), lab_request_id request, sw_completed_audit_id draws))
         (lu_display_name (ap_user caller)) # fl)"
| execute_step: "Executing k scenario origin actor_context \<in> set fl
    \<Longrightarrow> execute_run pd dataset k scenario pipeline now origin db = (res, db')
    \<Longrightarrow> lab_step pd dataset scrypt settings (db, fl)
      (db', executed res origin actor_context @ remove1 (Executing k scenario origin actor_context) fl)"
| activate_step: "Activating run origin actor_context \<in> set fl
    \<Longrightarrow> activate_transaction run (map_option fst origin) actor_context (activation_reason run) now db = Inr (x, db')
    \<Longrightarrow> lab_step pd dataset scrypt settings (db, fl) (db', remove1 (Activating run origin actor_context) fl)"
| baseline_step: "select_transaction baseline_transaction settings request audit_id db = Inr (x, db')
    \<Longrightarrow> lab_step pd dataset scrypt settings (db, fl) (db', fl)"
| reset_step: "select_transaction reset_transaction settings request audit_id db = Inr (x, db')
    \<Longrightarrow> lab_step pd dataset scrypt settings (db, fl) (db', fl)"
| restart_step: "lab_step pd dataset scrypt settings (db, fl) (fail_stale now db, Starting actor_context # fl)"
| prepare_step: "Starting actor_context \<in> set fl
    \<Longrightarrow> prepare_baseline dataset None actor_context now db = Inr (k, db')
    \<Longrightarrow> lab_step pd dataset scrypt settings (db, fl)
      (db', Executing k BASELINE None actor_context # remove1 (Starting actor_context) fl)"
| abandon_step: "lab_step pd dataset scrypt settings (db, fl) (db, remove1 f fl)"

inductive_cases lab_stepE: "lab_step pd dataset scrypt settings (db, fl) w'"

fun flight_ok :: "LabDb \<Rightarrow> Flight \<Rightarrow> bool" where
  "flight_ok db (Starting actor_context) = True"
| "flight_ok db (Executing k scenario origin actor_context) = executable_run db k scenario"
| "flight_ok db (Activating run origin actor_context) =
     list_ex (\<lambda>r. lr_run_id r = lr_run_id run \<and> selectable r) (lb_runs db)"

text \<open>No scenario run is executed twice.\<close>

fun scenario_runs :: "Flight list \<Rightarrow> uuid list" where
  "scenario_runs [] = []"
| "scenario_runs (Executing k scenario origin actor_context # fl) =
     (if scenario = BASELINE then scenario_runs fl else k # scenario_runs fl)"
| "scenario_runs (f # fl) = scenario_runs fl"

definition flights_ok :: "LabDb \<Rightarrow> Flight list \<Rightarrow> bool" where
  "flights_ok db fl = ((\<forall>f \<in> set fl. flight_ok db f) \<and> distinct (scenario_runs fl))"

lemma scenario_runs_member: "k \<in> set (scenario_runs fl) \<Longrightarrow> \<exists>sc origin ctx. sc \<noteq> BASELINE \<and> Executing k sc origin ctx \<in> set fl"
  by (induction fl rule: scenario_runs.induct) (auto split: if_splits)

lemma scenario_runs_remove1:
  "set (scenario_runs (remove1 f fl)) \<subseteq> set (scenario_runs fl)"
  "distinct (scenario_runs fl) \<Longrightarrow> distinct (scenario_runs (remove1 f fl))"
  by (induction fl rule: scenario_runs.induct) auto

lemma scenario_runs_in: "Executing k scenario origin ctx \<in> set fl \<Longrightarrow> scenario \<noteq> BASELINE \<Longrightarrow> k \<in> set (scenario_runs fl)"
  by (induction fl rule: scenario_runs.induct) auto

lemma scenario_runs_removed:
  "distinct (scenario_runs fl) \<Longrightarrow> Executing k scenario origin ctx \<in> set fl \<Longrightarrow> scenario \<noteq> BASELINE
   \<Longrightarrow> k \<notin> set (scenario_runs (remove1 (Executing k scenario origin ctx) fl))"
  by (induction fl rule: scenario_runs.induct) (auto split: if_splits dest: scenario_runs_in)

text \<open>A step that completes no scenario run but \<open>k\<close> leaves the flights of the other runs valid.\<close>

definition completes_only :: "uuid set \<Rightarrow> LabDb \<Rightarrow> LabDb \<Rightarrow> bool" where
  "completes_only K db db' =
     (\<forall>r' \<in> set (lb_runs db'). lr_state r' = COMPLETED \<longrightarrow> lr_scenario_id r' \<noteq> BASELINE \<longrightarrow> lr_run_id r' \<notin> K
        \<longrightarrow> r' \<in> set (lb_runs db))"

lemma flight_ok_later:
  assumes "flight_ok db f" "lab_inv pd dataset db" "lab_history db db'" "completes_only K db db'"
    "\<And>k sc origin ctx. f = Executing k sc origin ctx \<Longrightarrow> sc \<noteq> BASELINE \<Longrightarrow> k \<notin> K"
  shows "flight_ok db' f"
proof (cases f)
  case (Executing k sc origin ctx)
  with assms(1) obtain r where r: "r \<in> set (lb_runs db)" "lr_run_id r = k" "lr_scenario_id r = sc"
    "lr_state r = COMPLETED \<longrightarrow> sc = BASELINE" by (auto simp: executable_run_def list_ex_iff)
  from assms(3) r(1) obtain r' where r': "r' \<in> set (lb_runs db')" "later_run r r'"
    unfolding lab_history_def by blast
  note same = later_run_same [OF r'(2)]
  have "lr_state r' = COMPLETED \<longrightarrow> sc = BASELINE"
  proof (intro impI, rule ccontr)
    assume c: "lr_state r' = COMPLETED" "sc \<noteq> BASELINE"
    then have "r' \<in> set (lb_runs db)"
      using assms(4,5) r' same r(2,3) Executing unfolding completes_only_def by auto
    then have "r' = r"
      using run_unique [of dataset "lb_runs db" r' r] r(1) same(1) assms(2) by (simp add: lab_inv_def)
    with c r(4) show False by simp
  qed
  then show ?thesis using r' same r(2,3) Executing by (auto simp: executable_run_def list_ex_iff)
next
  case (Activating run origin ctx)
  with assms(1) obtain r where r: "r \<in> set (lb_runs db)" "lr_run_id r = lr_run_id run" "selectable r"
    by (auto simp: list_ex_iff)
  from assms(3) r(1) obtain r' where "r' \<in> set (lb_runs db')" "later_run r r'"
    unfolding lab_history_def by blast
  with later_run_same [of r r'] r(2,3) Activating show ?thesis by (auto simp: list_ex_iff)
qed simp

definition world_inv :: "pydantic \<Rightarrow> LoadedDataset \<Rightarrow> LabDb \<times> Flight list \<Rightarrow> bool" where
  "world_inv pd dataset w = (lab_inv pd dataset (fst w) \<and> flights_ok (fst w) (snd w))"

text \<open>A step is checked by what it does to the tables and to the flights.\<close>

lemma world_keeps:
  assumes "world_inv pd dataset (db, fl)" "keeps_lab pd dataset db db'" "completes_only K db db'"
    "set fl' \<subseteq> set fl \<union> set new" "\<And>f. f \<in> set new \<Longrightarrow> flight_ok db' f" "distinct (scenario_runs fl')"
    "\<And>k sc origin ctx. Executing k sc origin ctx \<in> set fl' - set new \<Longrightarrow> sc \<noteq> BASELINE \<Longrightarrow> k \<notin> K"
  shows "world_inv pd dataset (db', fl') \<and> lab_history db db'"
proof -
  have kept: "lab_inv pd dataset db'" "lab_history db db'" and inv: "lab_inv pd dataset db"
    using assms(1,2) by (simp_all add: world_inv_def keeps_lab_def)
  have "flight_ok db' f" if "f \<in> set fl'" for f
  proof (cases "f \<in> set new")
    case True
    then show ?thesis by (rule assms(5))
  next
    case False
    with that assms(1,4) have "flight_ok db f" by (auto simp: world_inv_def flights_ok_def)
    then show ?thesis
      using flight_ok_later [OF _ inv kept(2) assms(3)] assms(7) that False by blast
  qed
  with kept assms(6) show ?thesis by (simp add: world_inv_def flights_ok_def)
qed

lemma scenario_runs_append: "scenario_runs (fl @ fl') = scenario_runs fl @ scenario_runs fl'"
  by (induction fl rule: scenario_runs.induct) auto

lemma same_runs_complete: "lb_runs db' = lb_runs db \<Longrightarrow> completes_only K db db'"
  by (simp add: completes_only_def)

text \<open>A step that leaves the runs alone and starts nothing.\<close>

lemma quiet_step:
  assumes "world_inv pd dataset (db, fl)" "keeps_lab pd dataset db db'" "lb_runs db' = lb_runs db"
    "set fl' \<subseteq> set fl" "distinct (scenario_runs fl')"
  shows "world_inv pd dataset (db', fl') \<and> lab_history (fst (db, fl)) (fst (db', fl'))"
  unfolding fst_conv
  by (rule world_keeps [OF assms(1,2) same_runs_complete [OF assms(3)], where K = "{}" and new = "[]"])
     (use assms(4,5) in simp_all)

lemma world_runs: "world_inv pd dataset (db, fl) \<Longrightarrow> distinct (scenario_runs fl)"
  by (simp add: world_inv_def flights_ok_def)

lemma mutation_guard_keeps:
  "require_mutation_permission permission settings request db = Inr (p, db') \<Longrightarrow> keeps_accounts db db'"
  by (auto simp: require_mutation_permission_Inr dest: authenticated_keeps(1))

lemma select_transaction_keeps:
  assumes "select_transaction operation settings request audit_id db = Inr (x, db')"
    "\<And>a b c d e db x db'. operation a b c d e db = Inr (x, db') \<Longrightarrow> keeps_lab pd dataset db db' \<and> lb_runs db' = lb_runs db"
  shows "keeps_lab pd dataset db db' \<and> lb_runs db' = lb_runs db"
proof -
  from assms(1) obtain p auth where p: "require_mutation_permission MANAGE_SCENARIOS settings request (lb_auth db) = Inr (p, auth)"
    and op: "operation (lu_user_id (ap_user p)) (lu_display_name (ap_user p)) (lab_request_id request) audit_id
      (rq_time request) (db\<lparr>lb_auth := auth\<rparr>) = Inr (x, db')"
    by (auto simp: select_transaction_def guarded_def rbind_eq_Inr)
  from assms(2) [OF op] accounts_keeps_lab [OF mutation_guard_keeps [OF p], of pd dataset] show ?thesis
    using keeps_lab_trans by auto
qed

lemma start_transaction_keeps:
  assumes "start_transaction dataset settings request scenario draws db = Inr ((p, k), db')"
  shows "keeps_lab pd dataset db db'" "scenario \<noteq> BASELINE" "k \<notin> lr_run_id ` set (lb_runs db)"
    "\<exists>r. lb_runs db' = lb_runs db @ [r] \<and> lr_run_id r = k \<and> lr_scenario_id r = scenario \<and> lr_state r = RUNNING"
proof -
  from assms obtain auth where p: "require_mutation_permission MANAGE_SCENARIOS settings request (lb_auth db) = Inr (p, auth)"
    and op: "begin_scenario dataset scenario (lu_user_id (ap_user p)) (lu_display_name (ap_user p)) (lab_request_id request)
      (sw_run_id draws) (sw_started_audit_id draws) (rq_time request) (db\<lparr>lb_auth := auth\<rparr>) = Inr (k, db')"
    by (auto simp: start_transaction_def guarded_def rbind_eq_Inr)
  note kept = begin_scenario_keeps [OF op]
  show "keeps_lab pd dataset db db'"
    using accounts_keeps_lab [OF mutation_guard_keeps [OF p]] kept(1) by (rule keeps_lab_trans)
  show "scenario \<noteq> BASELINE" "k \<notin> lr_run_id ` set (lb_runs db)"
    "\<exists>r. lb_runs db' = lb_runs db @ [r] \<and> lr_run_id r = k \<and> lr_scenario_id r = scenario \<and> lr_state r = RUNNING"
    using kept(2-5) by simp_all
qed

lemma step_keeps_world:
  assumes "lab_step pd dataset scrypt settings w w'" "world_inv pd dataset w"
  shows "world_inv pd dataset w' \<and> lab_history (fst w) (fst w')"
  using assms
proof (induction rule: lab_step.induct)
  case (accounts_step op db x auth fl)
  then show ?case
    by (intro quiet_step accounts_keeps_lab auth_step_keeps world_runs) (assumption | simp)+
next
  case (evidence_step db st incs fl)
  have "keeps_lab pd dataset db (db\<lparr>lb_auth := lb_auth db, lb_evidence := st, lb_incidents := incs\<rparr>)"
    by (rule environment_keeps [OF keeps_refl evidence_step.hyps])
  then show ?case
    by (intro quiet_step [OF evidence_step.prems]) (simp_all add: world_runs [OF evidence_step.prems])
next
  case (baseline_step request audit_id db x db' fl)
  have "keeps_lab pd dataset db db' \<and> lb_runs db' = lb_runs db"
    by (rule select_transaction_keeps [OF baseline_step.hyps]) (blast intro: baseline_transaction_keeps)
  then show ?case
    by (intro quiet_step [OF baseline_step.prems]) (simp_all add: world_runs [OF baseline_step.prems])
next
  case (reset_step request audit_id db x db' fl)
  have "keeps_lab pd dataset db db' \<and> lb_runs db' = lb_runs db"
    by (rule select_transaction_keeps [OF reset_step.hyps]) (blast intro: reset_transaction_keeps)
  then show ?case
    by (intro quiet_step [OF reset_step.prems]) (simp_all add: world_runs [OF reset_step.prems])
next
  case (activate_step run origin ctx fl now db x db')
  have "\<forall>f \<in> set fl. flight_ok db f"
    using activate_step.prems by (simp add: world_inv_def flights_ok_def)
  with activate_step.hyps(1) have "list_ex (\<lambda>r. lr_run_id r = lr_run_id run \<and> selectable r) (lb_runs db)" by fastforce
  note kept = activate_transaction_keeps [OF activate_step.hyps(2) this]
  show ?case
    by (rule quiet_step [OF activate_step.prems kept set_remove1_subset])
       (rule scenario_runs_remove1(2) [OF world_runs [OF activate_step.prems]])
next
  case (abandon_step db fl f)
  show ?case
    by (rule quiet_step [OF abandon_step.prems keeps_lab_refl refl set_remove1_subset])
       (rule scenario_runs_remove1(2) [OF world_runs [OF abandon_step.prems]])
next
  case (restart_step db fl now ctx)
  have "completes_only {} db (fail_stale now db)"
    by (auto simp: completes_only_def fail_stale_def mark_failed_def)
  then show ?case
    using restart_step fail_stale_keeps unfolding fst_conv
    by (intro world_keeps [where fl = fl and new = "[Starting ctx]" and K = "{}"])
       (auto simp: world_inv_def flights_ok_def)
next
  case (start_step request scenario draws db caller k db' fl)
  note kept = start_transaction_keeps [OF start_step.hyps]
  from kept(4) obtain r where r: "lb_runs db' = lb_runs db @ [r]" "lr_run_id r = k" "lr_scenario_id r = scenario"
    "lr_state r = RUNNING" by blast
  let ?f = "Executing k scenario (Some (lu_user_id (ap_user caller), lab_request_id request, sw_completed_audit_id draws))
    (lu_display_name (ap_user caller))"
  have "k \<notin> set (scenario_runs fl)"
  proof
    assume "k \<in> set (scenario_runs fl)"
    then obtain sc origin ctx where "Executing k sc origin ctx \<in> set fl" using scenario_runs_member by blast
    then have "executable_run db k sc" using start_step.prems by (auto simp: world_inv_def flights_ok_def)
    with kept(3) show False by (auto simp: executable_run_def list_ex_iff)
  qed
  moreover have "completes_only {} db db'" using r by (auto simp: completes_only_def)
  ultimately show ?case
    using start_step.prems kept(1,2) r unfolding fst_conv
    by (intro world_keeps [where fl = fl and new = "[?f]" and K = "{}"])
       (auto simp: world_inv_def flights_ok_def executable_run_def)
next
  case (prepare_step ctx fl now db k db')
  note kept = prepare_baseline_keeps [OF prepare_step.hyps(2)]
  have "completes_only {} db db'" using kept(3) by (auto simp: completes_only_def)
  moreover have "executable_run db' k BASELINE" using kept(2) by (auto simp: executable_run_def list_ex_iff)
  ultimately show ?case
    using prepare_step.prems kept(1) set_remove1_subset [of "Starting ctx" fl] unfolding fst_conv
    by (intro world_keeps [where fl = fl and new = "[Executing k BASELINE None ctx]" and K = "{}"])
       (auto simp: world_inv_def flights_ok_def intro: scenario_runs_remove1(2))
next
  case (execute_step k scenario origin ctx fl pipeline now db res db')
  let ?f = "Executing k scenario origin ctx"
  let ?K = "if scenario = BASELINE then {} else {k}"
  let ?new = "executed res origin ctx"
  have inv: "lab_inv pd dataset db" using execute_step.prems by (simp add: world_inv_def)
  have "\<forall>f \<in> set fl. flight_ok db f" using execute_step.prems by (simp add: world_inv_def flights_ok_def)
  with execute_step.hyps(1) have exec: "executable_run db k scenario" by fastforce
  note kept = execute_run_keeps [OF execute_step.hyps(2) exec inv]
  have inv': "runs_ok dataset (lb_runs db')" "lab_history db db'"
    using kept(1) inv by (simp_all add: keeps_lab_def lab_inv_def)
  have "completes_only ?K db db'"
    unfolding completes_only_def
  proof (intro ballI impI)
    fix r'
    assume r': "r' \<in> set (lb_runs db')" "lr_state r' = COMPLETED" "lr_scenario_id r' \<noteq> BASELINE" "lr_run_id r' \<notin> ?K"
    show "r' \<in> set (lb_runs db)"
    proof (cases "lr_run_id r' = k")
      case False
      with kept(2) r'(1) show ?thesis by (simp add: only_changes_def)
    next
      case True
      with r'(4) have sc: "scenario = BASELINE" by (simp split: if_splits)
      from exec obtain r where r: "r \<in> set (lb_runs db)" "lr_run_id r = k" "lr_scenario_id r = scenario"
        by (auto simp: executable_run_def list_ex_iff)
      with inv'(2) obtain s where s: "s \<in> set (lb_runs db')" "later_run r s" unfolding lab_history_def by blast
      have "s = r'"
        using run_unique [OF inv'(1) s(1) r'(1)] later_run_same(1) [OF s(2)] r(2) True by simp
      with later_run_same(2) [OF s(2)] r(3) sc r'(3) show ?thesis by simp
    qed
  qed
  moreover have "flight_ok db' f" if "f \<in> set ?new" for f
  proof -
    from that obtain run where "res = Inr run" "f = Activating run origin ctx" by (auto simp: executed_def split: sum.splits)
    with kept(3) [of run] show ?thesis by (auto simp: list_ex_iff selectable_def)
  qed
  moreover have "scenario_runs (?new @ remove1 ?f fl) = scenario_runs (remove1 ?f fl)"
    by (simp add: executed_def split: sum.split)
  moreover have "k' \<notin> ?K" if "Executing k' sc origin' ctx' \<in> set (?new @ remove1 ?f fl) - set ?new" "sc \<noteq> BASELINE"
    for k' sc origin' ctx'
  proof -
    have "k' \<in> set (scenario_runs (remove1 ?f fl))" using that by (intro scenario_runs_in) auto
    then show ?thesis
      using scenario_runs_removed [OF world_runs [OF execute_step.prems] execute_step.hyps(1)] by auto
  qed
  ultimately show ?case
    using kept(1) execute_step.prems scenario_runs_remove1(2) [OF world_runs [OF execute_step.prems], of ?f]
      set_remove1_subset [of ?f fl]
    unfolding fst_conv by (intro world_keeps [where fl = fl and new = ?new and K = ?K]) auto
qed

lemma steps_keep_world:
  assumes "(lab_step pd dataset scrypt settings)\<^sup>*\<^sup>* w w'" "world_inv pd dataset w"
  shows "world_inv pd dataset w' \<and> lab_history (fst w) (fst w')"
  using assms
proof (induction rule: rtranclp_induct)
  case base
  then show ?case by simp
next
  case (step w' w'')
  then show ?case using step_keeps_world lab_history_trans by blast
qed

section \<open>The operations as runs of the machine\<close>

text \<open>
  Every operation of the lab, whatever it returns, is a sequence of steps that leaves the other requests
  under way as they were.
\<close>

lemma step_then:
  "lab_step pd dataset scrypt settings a b \<Longrightarrow> (lab_step pd dataset scrypt settings)\<^sup>*\<^sup>* b c
   \<Longrightarrow> (lab_step pd dataset scrypt settings)\<^sup>*\<^sup>* a c"
  by (rule converse_rtranclp_into_rtranclp)

lemma one_step:
  "lab_step pd dataset scrypt settings a b \<Longrightarrow> (lab_step pd dataset scrypt settings)\<^sup>*\<^sup>* a b"
  by (rule r_into_rtranclp)

lemma then_step:
  "(lab_step pd dataset scrypt settings)\<^sup>*\<^sup>* a b \<Longrightarrow> lab_step pd dataset scrypt settings b c
   \<Longrightarrow> (lab_step pd dataset scrypt settings)\<^sup>*\<^sup>* a c"
  by (rule rtranclp.rtrancl_into_rtrancl)

lemma steps_trans:
  "(lab_step pd dataset scrypt settings)\<^sup>*\<^sup>* a b \<Longrightarrow> (lab_step pd dataset scrypt settings)\<^sup>*\<^sup>* b c
   \<Longrightarrow> (lab_step pd dataset scrypt settings)\<^sup>*\<^sup>* a c"
  by (rule rtranclp_trans)

lemma activation_steps:
  assumes "reason = activation_reason run"
  shows "(lab_step pd dataset scrypt settings)\<^sup>*\<^sup>* (db, Activating run origin ctx # fl)
    (snd (activate_run run (map_option fst origin) ctx reason now db), fl)"
proof (cases "activate_transaction run (map_option fst origin) ctx reason now db")
  case (Inl e)
  then have "snd (activate_run run (map_option fst origin) ctx reason now db) = db"
    by (simp add: activate_run_def commit_def read_back_def and_then_def)
  then show ?thesis
    using abandon_step [of pd dataset scrypt settings db "Activating run origin ctx # fl" "Activating run origin ctx"] by auto
next
  case (Inr p)
  obtain x d where p: "p = (x, d)" by (cases p)
  have "snd (activate_run run (map_option fst origin) ctx reason now db) = d"
    using Inr p by (simp add: activate_run_def commit_def read_back_def and_then_def)
  then show ?thesis
    using activate_step [of run origin ctx "Activating run origin ctx # fl" now db x d pd dataset scrypt settings] Inr p assms
    by auto
qed

lemma execution_step:
  "lab_step pd dataset scrypt settings (db, Executing k scenario origin ctx # fl)
     (snd (execute_run pd dataset k scenario pipeline now origin db),
      executed (fst (execute_run pd dataset k scenario pipeline now origin db)) origin ctx @ fl)"
  using execute_step [of k scenario origin ctx "Executing k scenario origin ctx # fl" pd dataset pipeline now db
      "fst (execute_run pd dataset k scenario pipeline now origin db)" "snd (execute_run pd dataset k scenario pipeline now origin db)"]
  by simp

lemma post_lab_start_steps:
  assumes "lab_inv pd dataset db"
  shows "(lab_step pd dataset scrypt settings)\<^sup>*\<^sup>* (db, fl)
    (snd (post_lab_start pd dataset settings request scenario pipeline draws db), fl)"
proof (cases "start_transaction dataset settings request scenario draws db")
  case (Inl e)
  then show ?thesis by (simp add: post_lab_start_def commit_def and_then_def)
next
  case (Inr p)
  obtain caller k d where p: "p = ((caller, k), d)" by (cases p) auto
  let ?origin = "Some (lu_user_id (ap_user caller), lab_request_id request, sw_completed_audit_id draws)"
  let ?ctx = "lu_display_name (ap_user caller)"
  let ?res = "execute_run pd dataset k scenario pipeline (sw_finished_at draws) ?origin d"
  note start = start_transaction_keeps [OF Inr [unfolded p]]
  have inv: "lab_inv pd dataset d" "executable_run d k scenario"
    using start(1) [of pd] start(4) assms by (auto simp: keeps_lab_def executable_run_def)
  have first: "(lab_step pd dataset scrypt settings)\<^sup>*\<^sup>* (db, fl) (snd ?res, executed (fst ?res) ?origin ?ctx @ fl)"
    using step_then [OF start_step [OF Inr [unfolded p]] one_step [OF execution_step]] .
  have op: "snd (post_lab_start pd dataset settings request scenario pipeline draws db)
      = (case fst ?res of Inl e \<Rightarrow> snd ?res
         | Inr run \<Rightarrow> snd (activate_run run (map_option fst ?origin) ?ctx LabActivationReason.SCENARIO_COMPLETED
             (case lr_completed_at run of None \<Rightarrow> sw_finished_at draws | Some t \<Rightarrow> t) (snd ?res)))"
    using Inr p by (simp add: post_lab_start_def commit_def and_then_def finish_scenario_def split: sum.split prod.split)
  show ?thesis
  proof (cases "fst ?res")
    case (Inl e)
    with first op show ?thesis by (simp add: executed_def)
  next
    case run: (Inr run)
    then have "lr_scenario_id run = scenario"
      using execute_run_keeps(3) [OF prod.collapse [symmetric] inv(2,1), of pipeline "sw_finished_at draws" ?origin run] by simp
    then have "LabActivationReason.SCENARIO_COMPLETED = activation_reason run"
      using start(2) by (simp add: activation_reason_def)
    from steps_trans [OF first [unfolded run executed_def sum.case append_Cons append_Nil] activation_steps [OF this]]
    show ?thesis using op run by simp
  qed
qed

lemma startup_steps:
  assumes "lab_inv pd dataset db"
  shows "(lab_step pd dataset scrypt settings)\<^sup>*\<^sup>* (db, fl) (snd (startup_baseline pd dataset pipeline ctx now db), fl)"
proof -
  let ?db = "fail_stale now db"
  have inv: "lab_inv pd dataset ?db" using fail_stale_keeps [of pd dataset db now] assms by (simp add: keeps_lab_def)
  have start: "lab_step pd dataset scrypt settings (db, fl) (?db, Starting ctx # fl)" by (rule restart_step)
  show ?thesis
  proof (cases "prepare_baseline dataset None ctx now ?db")
    case (Inl e)
    then have "snd (startup_baseline pd dataset pipeline ctx now db) = ?db"
      by (simp add: startup_baseline_def ensure_baseline_def commit_def and_then_def)
    then show ?thesis
      using step_then [OF start one_step [OF abandon_step [where f = "Starting ctx"]]] by simp
  next
    case (Inr p)
    obtain k d where p: "p = (k, d)" by (cases p)
    let ?res = "execute_run pd dataset k BASELINE pipeline now None d"
    note prep = prepare_baseline_keeps [OF Inr [unfolded p]]
    have inv': "lab_inv pd dataset d" "executable_run d k BASELINE"
      using prep(1) [of pd] prep(2) inv by (auto simp: keeps_lab_def executable_run_def list_ex_iff)
    have "lab_step pd dataset scrypt settings (?db, Starting ctx # fl) (d, Executing k BASELINE None ctx # fl)"
      using prepare_step [of ctx "Starting ctx # fl" dataset now ?db k d] Inr p by simp
    from step_then [OF start step_then [OF this one_step [OF execution_step]]]
    have first: "(lab_step pd dataset scrypt settings)\<^sup>*\<^sup>* (db, fl) (snd ?res, executed (fst ?res) None ctx @ fl)" .
    have op: "snd (startup_baseline pd dataset pipeline ctx now db)
        = (case fst ?res of Inl e \<Rightarrow> snd ?res
           | Inr run \<Rightarrow> if list_ex (\<lambda>l. li_run_id l = lr_run_id run) (lb_run_incidents (snd ?res)) then snd ?res
               else snd (activate_run run None ctx STARTUP_BASELINE now (snd ?res)))"
      using Inr p by (simp add: startup_baseline_def ensure_baseline_def commit_def and_then_def
          check_baseline_incidents_def split: sum.split prod.split)
    show ?thesis
    proof (cases "fst ?res")
      case (Inl e)
      with first op show ?thesis by (simp add: executed_def)
    next
      case run: (Inr run)
      then have "lr_scenario_id run = BASELINE"
        using execute_run_keeps(3) [OF prod.collapse [symmetric] inv'(2,1), of pipeline now None run] by simp
      then have reason: "STARTUP_BASELINE = activation_reason run" by (simp add: activation_reason_def)
      note first' = first [unfolded run executed_def sum.case append_Cons append_Nil]
      have "(lab_step pd dataset scrypt settings)\<^sup>*\<^sup>* (db, fl) (snd ?res, fl)"
        using then_step [OF first' abandon_step [where f = "Activating run None ctx"]] by simp
      moreover have "(lab_step pd dataset scrypt settings)\<^sup>*\<^sup>* (db, fl) (snd (activate_run run None ctx STARTUP_BASELINE now (snd ?res)), fl)"
        using steps_trans [OF first' activation_steps [OF reason]] by simp
      ultimately show ?thesis using op run by simp
    qed
  qed
qed

lemma selection_steps:
  "(lab_step pd dataset scrypt settings)\<^sup>*\<^sup>* (db, fl) (snd (post_lab_baseline settings request audit_id db), fl)"
  "(lab_step pd dataset scrypt settings)\<^sup>*\<^sup>* (db, fl) (snd (post_lab_reset settings request audit_id db), fl)"
  using baseline_step [of settings request audit_id db] reset_step [of settings request audit_id db]
  by (auto simp: post_lab_baseline_def post_lab_reset_def read_back_def commit_def and_then_def split: sum.split)

section \<open>What every sequence of steps keeps\<close>

text \<open>
  C10. The lab's tables are well typed in every state the lab can reach, whatever interleaves and
  wherever the backend stops: at most one run is RUNNING and one is the Baseline, a run has a completion
  time exactly when it is not RUNNING and a failure code exactly when it FAILED, its window of evidence
  is ordered and its description is that of the dataset; every link joins a run to a stored, verified
  record of the run's scope, and the active context names a completed run or the Baseline.
\<close>

theorem lab_tables_well_typed:
  assumes "lab_inv pd dataset db" "(lab_step pd dataset scrypt settings)\<^sup>*\<^sup>* (db, []) (db', fl)"
  shows "lab_inv pd dataset db'"
proof -
  have "world_inv pd dataset (db, [])" using assms(1) by (simp add: world_inv_def flights_ok_def)
  from steps_keep_world [OF assms(2) this] show ?thesis by (simp add: world_inv_def)
qed

lemma linked_record:
  assumes "lab_inv pd dataset db" "l \<in> set (lb_run_evidence db)" "r \<in> set (lb_runs db)" "le_run_id l = lr_run_id r"
  shows "\<exists>e. get_evidence (lb_evidence db) (le_evidence_id l) = Some e \<and> verifies pd (lb_evidence db) e
    \<and> check_scope (scope_of_run r) e = Inr ()"
proof -
  from assms(1,2) have "link_ok pd (lb_evidence db) (lb_runs db) l" by (simp add: lab_inv_def links_ok_def list_all_iff)
  then obtain s e where s: "s \<in> set (lb_runs db)" "lr_run_id s = le_run_id l"
    "get_evidence (lb_evidence db) (le_evidence_id l) = Some e" "verifies pd (lb_evidence db) e"
    "check_scope (scope_of_run s) e = Inr ()"
    by (auto simp: link_ok_def list_ex_iff split: option.splits)
  then have "s = r" using run_unique [of dataset "lb_runs db" s r] assms(1,3,4) by (simp add: lab_inv_def)
  with s show ?thesis by blast
qed

text \<open>
  C2. A completed scenario run is history: from the moment it has completed, its row never changes again,
  whatever requests, restarts and failures follow, its links are all still there in their order, and
  every one of them still names a stored record that passes the integrity check and is of the run's
  simulation and configuration.
\<close>

theorem completed_run_is_history:
  assumes "lab_inv pd dataset db" "(lab_step pd dataset scrypt settings)\<^sup>*\<^sup>* (db, []) (db1, fl1)"
    "(lab_step pd dataset scrypt settings)\<^sup>*\<^sup>* (db1, fl1) (db2, fl2)"
    "r \<in> set (lb_runs db1)" "lr_state r = COMPLETED" "lr_scenario_id r \<noteq> BASELINE"
  shows "r \<in> set (lb_runs db2)
    \<and> prefix (filter (\<lambda>l. le_run_id l = lr_run_id r) (lb_run_evidence db1))
        (filter (\<lambda>l. le_run_id l = lr_run_id r) (lb_run_evidence db2))
    \<and> (\<forall>l \<in> set (lb_run_evidence db2). le_run_id l = lr_run_id r \<longrightarrow>
        (\<exists>e. get_evidence (lb_evidence db2) (le_evidence_id l) = Some e \<and> verifies pd (lb_evidence db2) e
           \<and> check_scope (scope_of_run r) e = Inr ()))"
proof -
  have "world_inv pd dataset (db, [])" using assms(1) by (simp add: world_inv_def flights_ok_def)
  from steps_keep_world [OF assms(2) this] have w1: "world_inv pd dataset (db1, fl1)" by simp
  from steps_keep_world [OF assms(3) w1] have inv: "lab_inv pd dataset db2" and hist: "lab_history db1 db2"
    by (simp_all add: world_inv_def)
  from hist assms(4) obtain r' where "r' \<in> set (lb_runs db2)" "later_run r r'" unfolding lab_history_def by blast
  with assms(5,6) have r: "r \<in> set (lb_runs db2)" by (simp add: later_run_def)
  moreover have "prefix (filter (\<lambda>l. le_run_id l = lr_run_id r) (lb_run_evidence db1))
        (filter (\<lambda>l. le_run_id l = lr_run_id r) (lb_run_evidence db2))"
    using hist by (auto simp: lab_history_def prefix_def)
  ultimately show ?thesis using linked_record [OF inv _ r] by simp
qed

section \<open>An example\<close>

definition desk_pydantic :: pydantic where
  "desk_pydantic = \<lparr>pd_isoformat = plain_iso, pd_envelope = plain_validate, pd_modbus_event = \<lambda>_. None,
     pd_semantic_event = \<lambda>_. None, pd_context_event = \<lambda>_. None, pd_policy_finding = \<lambda>_. None,
     pd_policy_provenance = \<lambda>_. None, pd_telemetry = \<lambda>_. None, pd_correlation_finding = \<lambda>_. None,
     pd_correlation_provenance = \<lambda>_. None, pd_dump_finding = \<lambda>_. JNull, pd_dump_provenance = \<lambda>_. JNull\<rparr>"

definition desk_case :: "string \<Rightarrow> string \<Rightarrow> DatasetCase" where
  "desk_case case_id kind = \<lparr>dc_case_id = case_id, dc_case_kind = kind, dc_run_id = None, dc_configuration = None\<rparr>"

definition desk_dataset :: LoadedDataset where
  "desk_dataset = \<lparr>ld_dataset_id = ''otsoc.final-evaluation.oil-gas-transfer'', ld_dataset_version = ''1.0.0'',
     ld_sha256 = ''aaa409d8'', ld_cases = [desk_case ''OTSOC-EVAL-V1-BG-001'' ''BACKGROUND'',
       desk_case ''OTSOC-EVAL-V1-S1-001'' ''S1'']\<rparr>"

definition desk_run :: LabRun where
  "desk_run = \<lparr>lr_run_id = ''run-1'', lr_scenario_id = S1, lr_definition_version = ''1.0.0'',
     lr_dataset_id = ''otsoc.final-evaluation.oil-gas-transfer'', lr_dataset_version = ''1.0.0'',
     lr_dataset_sha256 = ''aaa409d8'', lr_dataset_case_id = ''OTSOC-EVAL-V1-S1-001'',
     lr_evidence_simulation_id = None, lr_configuration_id = None, lr_configuration_hash = None,
     lr_state = COMPLETED, lr_started_by_user_id = Some ''u1'', lr_started_by_actor = ''Ada'', lr_started_at = 1,
     lr_completed_at = Some 5, lr_evidence_observed_from = None, lr_evidence_observed_to = None,
     lr_failure_code = None, lr_created_at = 1, lr_updated_at = 5\<rparr>"

definition desk_lab :: LabDb where
  "desk_lab = \<lparr>lb_auth = desk_db, lb_evidence = initial_store, lb_incidents = [], lb_runs = [desk_run],
     lb_run_evidence = [], lb_run_incidents = [],
     lb_context = Some \<lparr>lc_active_run_id = ''run-1'', lc_version = 1, lc_changed_at = 5,
       lc_changed_by_user_id = Some ''u1'', lc_changed_by_actor = ''Ada'',
       lc_activation_reason = LabActivationReason.SCENARIO_COMPLETED\<rparr>\<rparr>"

lemma desk_lab_inv: "lab_inv desk_pydantic desk_dataset desk_lab"
proof -
  have "dataset_case desk_dataset S1 = desk_case ''OTSOC-EVAL-V1-S1-001'' ''S1''"
    by (simp add: dataset_case_def scenario_definition_def scenario_catalog_def desk_dataset_def desk_case_def)
  then have "described desk_dataset desk_run"
    by (simp add: described_def desk_run_def scope_of_run_def case_scope_def desk_case_def configuration_hash_def)
  then show ?thesis
    using desk_inv by (simp add: lab_inv_def desk_lab_def runs_ok_def unique_run_def valid_run_def links_ok_def context_ok_def
        selectable_def desk_run_def)
qed

theorem lab_tables_well_typed_witness:
  "lab_inv desk_pydantic desk_dataset (snd (startup_baseline desk_pydantic desk_dataset None ''SYSTEM'' 9 desk_lab))"
  using lab_tables_well_typed [OF desk_lab_inv startup_steps [OF desk_lab_inv]] .

theorem completed_run_is_history_witness:
  "desk_run \<in> set (lb_runs (snd (startup_baseline desk_pydantic desk_dataset None ''SYSTEM'' 9 desk_lab)))"
proof -
  have "desk_run \<in> set (lb_runs desk_lab)" "lr_state desk_run = COMPLETED" "lr_scenario_id desk_run \<noteq> BASELINE"
    by (simp_all add: desk_lab_def desk_run_def)
  from completed_run_is_history [OF desk_lab_inv rtranclp.rtrancl_refl startup_steps [OF desk_lab_inv] this]
  show ?thesis by blast
qed

end
