(* ===== verification/Spec2Isabelle.thy ===== *)
theory Spec2Isabelle
  imports Modbus_Decoder Findings Evidence Incident_Guarantees Correlation_Guarantees Incident_Evidence
    Accounts_Guarantees Lab_Guarantees
begin

text \<open>
  OT-SOC Fusion X: a model of the deterministic core of the backend under \<open>src/backend/app\<close>, with
  the theorems that make it correct.

  \<^bold>\<open>The program.\<close> Synthetic Modbus events are decoded against a frozen profile into semantic events
  (\<open>protocols\<close>); the asset inventory and the communication policy turn these into context events
  and policy findings (\<open>context\<close>); every event and finding is ingested into a write-once evidence
  store (\<open>evidence\<close>); stored commands and stored process telemetry are correlated under two frozen
  rules (\<open>correlation\<close>); stored findings that satisfy a qualification rule open or enrich an incident,
  which analysts then work on (\<open>incidents\<close>). The virtual lab (\<open>lab\<close>) runs frozen scenarios through this
  pipeline and links what they produced; accounts and sessions (\<open>auth\<close>) decide who may do what. Around
  this are a process simulation, projections for the dashboards and the HTTP interface.

  \<^bold>\<open>Theories.\<close>
  \<^item> \<open>Prelude\<close>: results of fallible operations (\<open>'e + 'a\<close>), the \<open>ensures\<close> rules that follow a
    cascade of checks, dictionaries built by comprehension, the interface \<open>keyed_catalog\<close>.
  \<^item> \<open>Py_Std\<close>, \<open>Py_Hash\<close>, \<open>Py_Json\<close>, \<open>Py_Time\<close>: the parts of Python's library the code uses: string
    methods, \<open>Decimal\<close>, SHA-256, SHA-1 and UUID version 5 on bytes, canonical JSON, UTC datetimes.
  \<^item> \<open>Paging\<close>: cursor pagination as the interface \<open>keyset_listing\<close>; the client's loop ends and
    returns every row once.
  \<^item> \<open>Ledger\<close>: sequences of operations on a store, and the interfaces \<open>related_ops\<close>,
    \<open>invariant_ops\<close>, \<open>append_only_ops\<close> and \<open>versioned_store\<close> (optimistic concurrency).
  \<^item> \<open>Modbus_Model\<close>, \<open>Modbus_Decoder\<close>: \<open>protocols/models.py\<close>, \<open>profile.py\<close>, \<open>semantics.py\<close>,
    \<open>decoder.py\<close>. When an event decodes, what it decodes to, bounds, totality (C1, C3, C4).
  \<^item> \<open>Inventory\<close>: \<open>context/inventory.py\<close>, \<open>identity.py\<close>, \<open>zones.py\<close>. Identity resolution is exact (C6).
  \<^item> \<open>Policy\<close>: \<open>context/policy.py\<close> and the data of \<open>context/models.py\<close>. The access matrix of the
    shipped policy, deny precedence, order of the reasons, when a command is approved (C7 to C9).
  \<^item> \<open>Findings\<close>: \<open>context/findings.py\<close>. The path from a raw event to a policy finding (C11, C12).
  \<^item> \<open>Evidence\<close>: \<open>evidence/canonical.py\<close>, \<open>models.py\<close>, \<open>service.py\<close>. Write-once storage, idempotent
    ingestion, conflicts, verification, complete paging (C13 to C16, C18).
  \<^item> \<open>Incident_Model\<close>, \<open>Incident_Workflow\<close>, \<open>Incident_Analyst\<close>: \<open>incidents/models.py\<close>, \<open>audit.py\<close>,
    \<open>timeline.py\<close>, \<open>notes.py\<close>, \<open>lifecycle.py\<close>, \<open>workflow.py\<close>. Lost updates are impossible, versions
    count requests, the audit trail has no gap, the status history replays, transitions are
    recorded whole, report revisions are complete (C19 to C24). The versions, the status history and
    the transitions concern the four operations that move an incident's version; the audit trail and
    the revisions also the saving of its report, which moves the report's version only.
  \<^item> \<open>Incident_Service\<close>, \<open>Incident_Invariant\<close>, \<open>Incident_Guarantees\<close>: \<open>incidents/grouping.py\<close>,
    \<open>identity.py\<close>, \<open>severity.py\<close>, \<open>service.py\<close>. The invariant of the incident tables through any run
    of the service, idempotent qualification, monotone growth, separation of runs
    (C25 to C28), grouping windows and identity.
  \<^item> \<open>Py_Float\<close>, \<open>Canonical\<close>: binary floating point as the correlation uses it, and the interface
    \<open>canonical_list\<close> (duplicate-free, ordered copies of a list, independent of its order).
  \<^item> \<open>Correlation_Model\<close>, \<open>Correlation_Profile\<close>, \<open>Correlation\<close>, \<open>Correlation_Rules\<close>,
    \<open>Correlation_Evaluator\<close>: \<open>correlation/models.py\<close>, \<open>profile.py\<close>, \<open>temporal.py\<close>, \<open>baseline.py\<close>,
    \<open>process.py\<close>, \<open>decisions.py\<close>, \<open>s3.py\<close>, \<open>s4.py\<close>, \<open>canonical.py\<close>, \<open>findings.py\<close>, \<open>evaluator.py\<close>.
  \<^item> \<open>Correlation_Spec\<close>: what the two rules promise, without the code's stages.
    \<open>Correlation_Branches\<close>, \<open>Correlation_S3\<close>, \<open>Correlation_S4\<close>: the evaluator of a rule as an instance of the
    interface \<open>correlation_branch\<close>. \<open>Correlation_Guarantees\<close>: a finding is CORRELATED exactly when the
    specification of its rule holds, which requests yield a finding, the order of the telemetry does
    not matter, claims and lineage of findings, longest runs of samples (C31 to C35).
  \<^item> \<open>Stored_Payloads\<close>: reading evidence back, and the interface \<open>evidence_reader\<close> (what a reader returns is
    stored and verified, and a later store returns it again).
    \<open>Correlation_Persistence\<close>: \<open>correlation/persistence.py\<close>. A stored finding rests on verified records and
    repeating its persistence changes nothing (C37, C38).
  \<^item> \<open>Incident_Profile\<close>, \<open>Incident_Lineage\<close>, \<open>Incident_Qualification\<close>: \<open>incidents/profile.py\<close> with the
    shipped profile, \<open>memberships.py\<close>, \<open>qualification.py\<close> and \<open>qualify_stored_evidence\<close> of \<open>service.py\<close>.
    \<open>Incident_Evidence\<close>: ingestion, correlation, qualification and the work of analysts as one state
    machine; no incident ever rests on missing or altered evidence, and a candidate claims no more than
    its evidence (C39, C40).
  \<^item> \<open>Soc_Audit\<close>, \<open>Account_Security\<close>, \<open>Accounts\<close>: \<open>auth/audit.py\<close>, \<open>security.py\<close>, \<open>models.py\<close>, \<open>service.py\<close>,
    \<open>dependencies.py\<close>, \<open>schemas.py\<close>, \<open>bootstrap.py\<close> and \<open>api/auth.py\<close>. A stored password accepts exactly what it
    should (C5). \<open>Accounts_Guarantees\<close>: the tables stay consistent through any requests (C29), an ended
    session never comes back (C30), only a proven administrator changes an account (C36).
  \<^item> \<open>Lab_Model\<close>, \<open>Lab\<close>: \<open>lab/catalog.py\<close>, \<open>lab/models.py\<close>, \<open>lab/schemas.py\<close>, \<open>lab/service.py\<close>, \<open>api/lab.py\<close> and
    the cases of \<open>tools/phase9_dataset.py\<close>. \<open>Lab_Closure\<close>: the evidence a run is linked to is exactly what
    its roots reach (C17). \<open>Lab_Guarantees\<close>: the transactions of the lab, of accounts and of evidence in any
    interleaving; the tables stay well typed (C10) and a completed run is never rewritten (C2).

  \<^bold>\<open>Correspondence.\<close> A definition has the name of the function, class or constant it translates,
  without a leading underscore; where a long function is split, the parts are its consecutive
  stretches. A dataclass, pydantic model or table is a record whose fields are the code's names with
  a prefix. A raise is the left value of a sum; a database is a record of tables in insertion order;
  an operation that raises leaves no new state, as the rolled-back transaction does. Times of
  operations, which the code reads from the clock when they are not given, are arguments.

  \<^bold>\<open>Idealisations.\<close> Strings hold the code points 0 to 255. An aware datetime is its instant in
  microseconds; where its text enters a digest, the function that prints it is a parameter. A float is the
  rational it denotes, every operation rounded to 53 bits, half to even; the values here are bounded by
  their validators, so overflow, infinities and subnormals do not arise. The scrypt derivation is a parameter, and what is
  drawn at random an argument. Pydantic's dump and validation of stored payloads are parameters; where a
  property needs it, the hypothesis is their documented round trip. The envelope a stored record is
  verified with is assembled in the model, field by field. What the frozen pipeline of a lab run returned, and the
  dataset that was loaded, are arguments. Fields confined to one literal are omitted where nothing
  reads them. The width of database integers and foreign keys to tables outside the model are not
  checked; unique constraints and primary keys are. Transactions are serial, as the row locks the
  code takes make them.

  \<^bold>\<open>Bounds.\<close> The only fuel is that of the client's paging loop; one request more than there are
  rows is enough, as C18 shows. The loop over the parents of a run's evidence ends because it visits no
  identifier twice and stops at \<open>MAX_LINKED_EVIDENCE\<close>; it has a termination proof. All other recursion is structural or has a termination proof.

  \<^bold>\<open>Not modelled.\<close> Simulation, product projections and the read-only incident views; reading and
  hashing the profile and dataset files; cookies, responses and the rest of the HTTP interface, settings, logging, database sessions, migrations and command-line tools, which are
  input, output and glue; the frontend.
\<close>

end
